(* ===== verification/Prelude.thy ===== *)
theory Prelude
  imports Main "HOL-Library.AList" "HOL-Library.Multiset"
begin

text \<open>
  Shared vocabulary of the development: the type synonyms of the data (uuids, times in
  milliseconds, buffers), the JavaScript idioms the services use over and over (truthiness of
  strings, \<open>x || undefined\<close>, \<open>arr.find(p) || arr[0]\<close>, object assignment), a stable
  \<open>orderBy ... desc\<close>, the \<open>take\<close> of a Prisma query, and the list facts the components share.

  Strings are lists of characters, a character being one byte of the UTF-8 encoding; a
  \<open>Buffer\<close> is the same thing, so the 'utf8' conversions of the code are the identity here.
  A uuid is a natural number: what the code relies on is only that a new one is fresh.
\<close>

type_synonym uuid = nat
type_synonym time = int
type_synonym buffer = "char list"

text \<open>The collections the component proofs draw on.\<close>

named_theorems action_simps "one-step evaluation of the state-and-exception monad"
named_theorems ensures_intros "composition rules of the relational program logic"

section \<open>JavaScript idioms\<close>

definition truthy :: "string \<Rightarrow> bool" where
  "truthy s \<longleftrightarrow> s \<noteq> []"

definition truthy_opt :: "string option \<Rightarrow> bool" where
  "truthy_opt x \<longleftrightarrow> (case x of None \<Rightarrow> False | Some s \<Rightarrow> truthy s)"

definition or_undefined :: "string option \<Rightarrow> string option" where
  \<comment> \<open>\<open>x || undefined\<close>: the empty string is falsy\<close>
  "or_undefined x = (if truthy_opt x then x else None)"

definition or_else :: "string option \<Rightarrow> string \<Rightarrow> string" where
  \<comment> \<open>\<open>x || d\<close> for an optional string\<close>
  "or_else x d = (case x of None \<Rightarrow> d | Some s \<Rightarrow> if truthy s then s else d)"

definition head_opt :: "'a list \<Rightarrow> 'a option" where
  \<comment> \<open>\<open>xs[0]\<close>, undefined when empty\<close>
  "head_opt xs = (case xs of [] \<Rightarrow> None | x # _ \<Rightarrow> Some x)"

definition find_or_first :: "('a \<Rightarrow> bool) \<Rightarrow> 'a list \<Rightarrow> 'a option" where
  \<comment> \<open>\<open>xs.find(p) || xs[0]\<close> for a list of objects\<close>
  "find_or_first p xs = (case find p xs of Some x \<Rightarrow> Some x | None \<Rightarrow> head_opt xs)"

definition obj_set :: "string \<Rightarrow> 'v \<Rightarrow> (string \<times> 'v) list \<Rightarrow> (string \<times> 'v) list" where
  \<comment> \<open>\<open>o[k] = v\<close>: an existing key keeps its place, a new one goes last\<close>
  "obj_set k v o' = AList.update k v o'"

definition obj_spread :: "(string \<times> 'v) list \<Rightarrow> (string \<times> 'v) list \<Rightarrow> (string \<times> 'v) list" where
  \<comment> \<open>\<open>{...a, ...b}\<close>\<close>
  "obj_spread a b = fold (\<lambda>(k, v) o'. obj_set k v o') b a"

text \<open>
  \<open>orderBy\<close> of a Prisma query. The rows keep their insertion order among equal keys.
\<close>

definition order_asc :: "('a \<Rightarrow> int) \<Rightarrow> 'a list \<Rightarrow> 'a list" where
  "order_asc k xs = sort_key k xs"

definition order_desc :: "('a \<Rightarrow> int) \<Rightarrow> 'a list \<Rightarrow> 'a list" where
  "order_desc k xs = sort_key (\<lambda>x. - k x) xs"

text \<open>
  \<open>take: n\<close> of a Prisma query on ordered rows: a negative \<open>n\<close> takes the last rows.
\<close>

definition prisma_take :: "int \<Rightarrow> 'a list \<Rightarrow> 'a list" where
  "prisma_take n xs = (if 0 \<le> n then take (nat n) xs else drop (length xs - nat (- n)) xs)"

section \<open>Facts the components share\<close>

lemma truthy_simps [simp]: "\<not> truthy []" "truthy (c # s)"
  by (simp_all add: truthy_def)

lemma truthy_opt_simps [simp]: "\<not> truthy_opt None" "truthy_opt (Some s) = truthy s"
  by (simp_all add: truthy_opt_def)

lemma head_opt_simps [simp]: "head_opt [] = None" "head_opt (x # xs) = Some x"
  by (simp_all add: head_opt_def)

lemma head_opt_None [simp]: "head_opt xs = None \<longleftrightarrow> xs = []"
  by (cases xs) simp_all

lemma head_opt_SomeD: "head_opt xs = Some x \<Longrightarrow> x \<in> set xs"
  by (cases xs) simp_all

lemma find_SomeD: "find p xs = Some x \<Longrightarrow> x \<in> set xs \<and> p x"
  by (metis find_Some_iff nth_mem)

lemma find_NoneD: "find p xs = None \<Longrightarrow> x \<in> set xs \<Longrightarrow> \<not> p x"
  by (simp add: find_None_iff)

lemma find_or_first_None [simp]: "find_or_first p xs = None \<longleftrightarrow> xs = []"
  by (auto simp: find_or_first_def split: option.splits)

lemma find_or_first_SomeD: "find_or_first p xs = Some x \<Longrightarrow> x \<in> set xs"
  by (auto simp: find_or_first_def split: option.splits dest: find_SomeD head_opt_SomeD)

lemma set_order_asc [simp]: "set (order_asc k xs) = set xs"
  by (simp add: order_asc_def)

lemma set_order_desc [simp]: "set (order_desc k xs) = set xs"
  by (simp add: order_desc_def)

lemma length_order_desc [simp]: "length (order_desc k xs) = length xs"
  by (simp add: order_desc_def)

lemma order_desc_Nil [simp]: "order_desc k xs = [] \<longleftrightarrow> xs = []"
  by (metis length_order_desc length_0_conv)

lemma sorted_order_asc: "sorted (map k (order_asc k xs))"
  by (simp add: order_asc_def)

lemma sorted_order_desc: "sorted (map (\<lambda>x. - k x) (order_desc k xs))"
  by (simp add: order_desc_def)

lemma order_desc_head_max:
  assumes "head_opt (order_desc k xs) = Some x" and "y \<in> set xs"
  shows "k y \<le> k x"
proof -
  obtain ys where ys: "order_desc k xs = x # ys"
    using assms(1) by (cases "order_desc k xs") auto
  have "y \<in> set (x # ys)"
    using assms(2) set_order_desc [of k xs] ys by auto
  moreover have "\<forall>z \<in> set ys. - k x \<le> - k z"
    using sorted_order_desc [of k xs] ys by simp
  ultimately show ?thesis by auto
qed

lemma length_prisma_take: "int (length (prisma_take n xs)) \<le> \<bar>n\<bar>"
  by (auto simp: prisma_take_def)

lemma set_prisma_take: "set (prisma_take n xs) \<subseteq> set xs"
  by (auto simp: prisma_take_def dest: in_set_takeD in_set_dropD)

lemma find_map_same:
  "(\<And>x. P (f x) = P x) \<Longrightarrow> find P (map f xs) = map_option f (find P xs)"
  by (induction xs) simp_all

lemma filter_map_unaffected:
  "(\<And>x. x \<in> set xs \<Longrightarrow> P (f x) = P x) \<Longrightarrow> (\<And>x. x \<in> set xs \<Longrightarrow> P x \<Longrightarrow> f x = x) \<Longrightarrow>
   filter P (map f xs) = filter P xs"
  by (induction xs) auto

lemma distinct_map_same:
  "distinct (map k xs) \<Longrightarrow> x \<in> set xs \<Longrightarrow> y \<in> set xs \<Longrightarrow> k x = k y \<Longrightarrow> x = y"
  by (metis distinct_map inj_onD)

lemma find_key_unique:
  assumes "distinct (map k xs)" and "x \<in> set xs"
  shows "find (\<lambda>y. k y = k x) xs = Some x"
proof (cases "find (\<lambda>y. k y = k x) xs")
  case None
  then show ?thesis using find_NoneD [OF None assms(2)] by simp
next
  case (Some y)
  then show ?thesis
    using find_SomeD [OF Some] distinct_map_same [OF assms(1) _ assms(2), of y] by simp
qed

lemma map_key_cong:
  "(\<And>x. k (f x) = k x) \<Longrightarrow> map k (map f xs) = map k xs"
  by simp

lemma distinct_map_filterI: "distinct (map k xs) \<Longrightarrow> distinct (map k (filter P xs))"
  by (induction xs) auto

lemma find_or_first_Nil [simp]: "find_or_first P [] = None"
  by (simp add: find_or_first_def)

lemma order_desc_append_newer:
  assumes "\<forall>y \<in> set xs. k y < k x"
  shows "order_desc k (xs @ [x]) = x # order_desc k xs"
  unfolding order_desc_def
proof (rule properties_for_sort_key)
  show "mset (x # sort_key (\<lambda>x. - k x) xs) = mset (xs @ [x])" by simp
  show "filter (\<lambda>y. - k z = - k y) (x # sort_key (\<lambda>x. - k x) xs) = filter (\<lambda>y. - k z = - k y) (xs @ [x])"
    if "z \<in> set (x # sort_key (\<lambda>x. - k x) xs)" for z
  proof (cases "k z = k x")
    case True
    then have "filter (\<lambda>y. - k z = - k y) xs = []"
      using assms by (auto simp: filter_empty_conv)
    then show ?thesis using True by (simp add: filter_sort)
  next
    case False
    then show ?thesis using sort_key_stable [of "\<lambda>x. - k x" "- k z" xs]
      by (simp add: eq_commute)
  qed
  show "sorted (map (\<lambda>x. - k x) (x # sort_key (\<lambda>x. - k x) xs))"
    using assms by (auto simp: less_imp_le)
qed

lemma sorted_above_last:
  assumes "sorted (map k (a @ b))" and "distinct (map k (a @ b))" and "a \<noteq> []"
  shows "filter (\<lambda>x. k (last a) < k x) (a @ b) = b"
proof -
  have lt: "k (last a) < k y" if "y \<in> set b" for y
  proof -
    have "k (last a) \<in> k ` set a" using last_in_set [OF assms(3)] by (rule imageI)
    moreover have "k ` set a \<inter> k ` set b = {}" using assms(2) by simp
    ultimately have "k (last a) \<noteq> k y" using that by auto
    moreover have "k (last a) \<le> k y"
      using assms(1) that last_in_set [OF assms(3)] by (simp add: sorted_append)
    ultimately show ?thesis by simp
  qed
  have "sorted (map k (butlast a @ [last a]))" using assms by (simp add: sorted_append)
  then have "k x \<le> k (last a)" if "x \<in> set (butlast a @ [last a])" for x
    using that by (auto simp: sorted_append)
  then have "\<forall>x \<in> set a. \<not> k (last a) < k x" using assms(3) by (simp add: not_less)
  then have "filter (\<lambda>x. k (last a) < k x) a = []" by (simp add: filter_empty_conv)
  moreover have "filter (\<lambda>x. k (last a) < k x) b = b" using lt by (simp add: filter_id_conv)
  ultimately show ?thesis by simp
qed

lemma strict_sorted_rest:
  assumes "sorted (map k xs)" and "distinct (map k xs)" and "0 < n" and "xs \<noteq> []"
  shows "filter (\<lambda>x. k (last (take n xs)) < k x) xs = drop n xs"
  using sorted_above_last [of k "take n xs" "drop n xs"] assms by simp

lemma find_append_fresh: "\<forall>x \<in> set xs. \<not> P x \<Longrightarrow> P y \<Longrightarrow> find P (xs @ [y]) = Some y"
  by (induction xs) auto

end
