(* ===== verification/Action.thy ===== *)
theory Action
  imports Prelude
begin

text \<open>
  The state-and-exception monad every service method is written in: an \<open>async\<close> method is an
  action on the state that either throws or returns, and \<open>await\<close> is \<open>andThen\<close>. What an
  action changed before it threw stays changed, as in the code. A method is one step of the
  clock; interleaving of methods is expressed where a property needs it, not here.

  The second half is a relational program logic: \<open>ensures P R m Q\<close> says that from a state with
  \<open>P\<close> the action leads to a state related by \<open>R\<close> to the first, whether it throws or not, and
  that a returned value satisfies \<open>Q\<close>. Its rules hold for every preorder \<open>R\<close>; they are proved
  once in the locale \<open>step_relation\<close>, which the invariants of the components instantiate.
\<close>

type_synonym ('s, 'e, 'a) action = "'s \<Rightarrow> ('e + 'a) \<times> 's"

section \<open>Operations\<close>

definition ret :: "'a \<Rightarrow> ('s, 'e, 'a) action" where
  "ret x s = (Inr x, s)"

definition throw :: "'e \<Rightarrow> ('s, 'e, 'a) action" where
  "throw e s = (Inl e, s)"

definition andThen :: "('s, 'e, 'a) action \<Rightarrow> ('a \<Rightarrow> ('s, 'e, 'b) action) \<Rightarrow> ('s, 'e, 'b) action" where
  "andThen m f s = (case m s of (Inl e, t) \<Rightarrow> (Inl e, t) | (Inr x, t) \<Rightarrow> f x t)"

definition gets :: "('s \<Rightarrow> 'a) \<Rightarrow> ('s, 'e, 'a) action" where
  "gets g s = (Inr (g s), s)"

definition modify :: "('s \<Rightarrow> 's) \<Rightarrow> ('s, 'e, unit) action" where
  "modify g s = (Inr (), g s)"

definition throwIf :: "bool \<Rightarrow> 'e \<Rightarrow> ('s, 'e, unit) action" where
  "throwIf b e = (if b then throw e else ret ())"

definition orThrow :: "'a option \<Rightarrow> 'e \<Rightarrow> ('s, 'e, 'a) action" where
  "orThrow x e = (case x of None \<Rightarrow> throw e | Some y \<Rightarrow> ret y)"

definition tryCatch :: "('s, 'e, 'a) action \<Rightarrow> ('e \<Rightarrow> ('s, 'e, 'a) action) \<Rightarrow> ('s, 'e, 'a) action" where
  "tryCatch m h s = (case m s of (Inl e, t) \<Rightarrow> h e t | (Inr x, t) \<Rightarrow> (Inr x, t))"

primrec forEach :: "('a \<Rightarrow> ('s, 'e, unit) action) \<Rightarrow> 'a list \<Rightarrow> ('s, 'e, unit) action" where
  "forEach f [] = ret ()"
| "forEach f (x # xs) = andThen (f x) (\<lambda>_. forEach f xs)"

primrec collect :: "('a \<Rightarrow> ('s, 'e, 'b) action) \<Rightarrow> 'a list \<Rightarrow> ('s, 'e, 'b list) action" where
  "collect f [] = ret []"
| "collect f (x # xs) = andThen (f x) (\<lambda>y. andThen (collect f xs) (\<lambda>ys. ret (y # ys)))"

section \<open>Evaluation\<close>

lemma ret_run [action_simps]: "ret x s = (Inr x, s)"
  by (simp add: ret_def)

lemma throw_run [action_simps]: "throw e s = (Inl e, s)"
  by (simp add: throw_def)

lemma gets_run [action_simps]: "gets g s = (Inr (g s), s)"
  by (simp add: gets_def)

lemma modify_run [action_simps]: "modify g s = (Inr (), g s)"
  by (simp add: modify_def)

lemma andThen_ret [action_simps]: "andThen (ret x) f s = f x s"
  by (simp add: andThen_def ret_def)

lemma andThen_throw [action_simps]: "andThen (throw e) f s = (Inl e, s)"
  by (simp add: andThen_def throw_def)

lemma andThen_gets [action_simps]: "andThen (gets g) f s = f (g s) s"
  by (simp add: andThen_def gets_def)

lemma andThen_modify [action_simps]: "andThen (modify g) f s = f () (g s)"
  by (simp add: andThen_def modify_def)

lemma andThen_throwIf [action_simps]:
  "andThen (throwIf b e) f s = (if b then (Inl e, s) else f () s)"
  by (simp add: throwIf_def action_simps)

lemma andThen_orThrow [action_simps]:
  "andThen (orThrow x e) f s = (case x of None \<Rightarrow> (Inl e, s) | Some y \<Rightarrow> f y s)"
  by (simp add: orThrow_def action_simps split: option.splits)

lemma andThen_assoc [action_simps]:
  "andThen (andThen m f) g s = andThen m (\<lambda>x. andThen (f x) g) s"
  by (simp add: andThen_def split: prod.splits sum.splits)

lemma andThen_if [action_simps]:
  "andThen (if b then m else n) f s = (if b then andThen m f s else andThen n f s)"
  by simp

lemma andThen_case_option [action_simps]:
  "andThen (case x of None \<Rightarrow> m | Some y \<Rightarrow> n y) f s =
     (case x of None \<Rightarrow> andThen m f s | Some y \<Rightarrow> andThen (n y) f s)"
  by (simp split: option.splits)

lemma throwIf_run [action_simps]: "throwIf b e s = (if b then (Inl e, s) else (Inr (), s))"
  by (simp add: throwIf_def action_simps)

lemma orThrow_run [action_simps]:
  "orThrow x e s = (case x of None \<Rightarrow> (Inl e, s) | Some y \<Rightarrow> (Inr y, s))"
  by (simp add: orThrow_def action_simps split: option.splits)

lemma andThen_Inr: "m s = (Inr x, t) \<Longrightarrow> andThen m f s = f x t"
  by (simp add: andThen_def)

lemma andThen_Inl: "m s = (Inl e, t) \<Longrightarrow> andThen m f s = (Inl e, t)"
  by (simp add: andThen_def)

lemma andThen_step: "m s = (Inr x, t) \<Longrightarrow> f x t = r \<Longrightarrow> andThen m f s = r"
  by (simp add: andThen_def)

lemma andThen_cases:
  assumes "andThen m f s = (r, u)"
  obtains (threw) e where "m s = (Inl e, u)" "r = Inl e"
        | (returned) x t where "m s = (Inr x, t)" "f x t = (r, u)"
  using assms by (auto simp: andThen_def split: prod.splits sum.splits)

section \<open>Relational program logic\<close>

definition ensures :: "('s \<Rightarrow> bool) \<Rightarrow> ('s \<Rightarrow> 's \<Rightarrow> bool) \<Rightarrow> ('s, 'e, 'a) action \<Rightarrow> ('a \<Rightarrow> 's \<Rightarrow> bool) \<Rightarrow> bool" where
  "ensures P R m Q \<longleftrightarrow>
     (\<forall>s. P s \<longrightarrow> R s (snd (m s)) \<and> (\<forall>x. fst (m s) = Inr x \<longrightarrow> Q x (snd (m s))))"

lemma ensuresI:
  "(\<And>s r t. P s \<Longrightarrow> m s = (r, t) \<Longrightarrow> R s t \<and> (\<forall>x. r = Inr x \<longrightarrow> Q x t)) \<Longrightarrow> ensures P R m Q"
  by (auto simp: ensures_def) (metis prod.collapse)+

lemma ensuresD:
  "ensures P R m Q \<Longrightarrow> P s \<Longrightarrow> m s = (r, t) \<Longrightarrow> R s t"
  by (metis ensures_def snd_conv)

lemma ensures_valueD:
  "ensures P R m Q \<Longrightarrow> P s \<Longrightarrow> m s = (Inr x, t) \<Longrightarrow> Q x t"
  by (metis ensures_def fst_conv snd_conv)

lemma ensures_weaken:
  "ensures P R m Q \<Longrightarrow> (\<And>s. P' s \<Longrightarrow> P s) \<Longrightarrow> (\<And>x s. Q x s \<Longrightarrow> Q' x s) \<Longrightarrow> ensures P' R m Q'"
  by (auto simp: ensures_def)

abbreviation keeps :: "('s \<Rightarrow> 's \<Rightarrow> bool) \<Rightarrow> ('s, 'e, 'a) action \<Rightarrow> bool" where
  "keeps R m \<equiv> ensures (\<lambda>_. True) R m (\<lambda>_ _. True)"

lemma keepsI: "(\<And>s. R s (snd (m s))) \<Longrightarrow> keeps R m"
  by (simp add: ensures_def)

lemma keepsD: "keeps R m \<Longrightarrow> m s = (r, t) \<Longrightarrow> R s t"
  by (erule ensuresD) simp_all

lemma keeps_run: "keeps R m \<Longrightarrow> R s (snd (m s))"
  by (simp add: ensures_def)

text \<open>The interface: a reflexive and transitive relation between states.\<close>

locale step_relation =
  fixes R :: "'s \<Rightarrow> 's \<Rightarrow> bool"
  assumes refl: "R s s"
    and trans: "R s t \<Longrightarrow> R t u \<Longrightarrow> R s u"
begin

lemma ensures_andThen:
  assumes "ensures P R m Q" and "\<And>x. ensures (Q x) R (f x) Q'"
  shows "ensures P R (andThen m f) Q'"
proof (rule ensuresI)
  fix s r u
  assume P: "P s" and run: "andThen m f s = (r, u)"
  from run show "R s u \<and> (\<forall>x. r = Inr x \<longrightarrow> Q' x u)"
  proof (cases rule: andThen_cases)
    case (threw e)
    then show ?thesis using ensuresD [OF assms(1) P] by simp
  next
    case (returned x t)
    then have "R s t" "Q x t"
      using ensuresD [OF assms(1) P] ensures_valueD [OF assms(1) P] by auto
    then show ?thesis
      using returned(2) ensuresD [OF assms(2)] ensures_valueD [OF assms(2)] trans by blast
  qed
qed

lemma keeps_andThen:
  "keeps R m \<Longrightarrow> (\<And>x. keeps R (f x)) \<Longrightarrow> keeps R (andThen m f)"
  by (rule ensures_andThen)

lemma keeps_ret: "keeps R (ret x)"
  by (simp add: ensures_def ret_def refl)

lemma keeps_throw: "keeps R (throw e)"
  by (simp add: ensures_def throw_def refl)

lemma keeps_gets: "keeps R (gets g)"
  by (simp add: ensures_def gets_def refl)

lemma keeps_throwIf: "keeps R (throwIf b e)"
  by (simp add: throwIf_def keeps_ret keeps_throw)

lemma keeps_orThrow: "keeps R (orThrow x e)"
  by (simp add: orThrow_def keeps_ret keeps_throw split: option.splits)

lemma keeps_modify: "(\<And>s. R s (g s)) \<Longrightarrow> keeps R (modify g)"
  by (simp add: ensures_def modify_def)

lemma keeps_if: "keeps R m \<Longrightarrow> keeps R n \<Longrightarrow> keeps R (if b then m else n)"
  by simp

lemma keeps_case_option [intro]:
  "keeps R m \<Longrightarrow> (\<And>y. keeps R (n y)) \<Longrightarrow> keeps R (case x of None \<Rightarrow> m | Some y \<Rightarrow> n y)"
  by (simp split: option.splits)

lemma keeps_tryCatch:
  assumes "keeps R m" and "\<And>e. keeps R (h e)"
  shows "keeps R (tryCatch m h)"
proof (rule keepsI)
  fix s
  obtain r t where mt: "m s = (r, t)" by (cases "m s")
  then have st: "R s t" by (rule keepsD [OF assms(1)])
  show "R s (snd (tryCatch m h s))"
  proof (cases r)
    case (Inl e)
    have "R t (snd (h e t))" using keepsD [OF assms(2)] by (metis prod.collapse)
    then show ?thesis using mt st Inl by (auto simp: tryCatch_def intro: trans)
  next
    case (Inr x)
    then show ?thesis using mt st by (simp add: tryCatch_def)
  qed
qed

lemma keeps_forEach: "(\<And>x. keeps R (f x)) \<Longrightarrow> keeps R (forEach f xs)"
  by (induction xs) (auto intro: keeps_andThen keeps_ret)

lemma keeps_collect: "(\<And>x. keeps R (f x)) \<Longrightarrow> keeps R (collect f xs)"
proof (induction xs)
  case Nil
  then show ?case by (simp add: keeps_ret)
next
  case (Cons x xs)
  then show ?case by (auto intro!: keeps_andThen keeps_ret)
qed

lemmas keeps_intros =
  keeps_andThen keeps_ret keeps_throw keeps_gets keeps_throwIf keeps_orThrow keeps_if
  keeps_case_option keeps_tryCatch keeps_forEach keeps_collect

end

text \<open>An action that, if it throws, leaves a related state.\<close>

definition fails_within :: "('s \<Rightarrow> 's \<Rightarrow> bool) \<Rightarrow> ('s, 'e, 'a) action \<Rightarrow> bool" where
  "fails_within R m \<longleftrightarrow> (\<forall>s e t. m s = (Inl e, t) \<longrightarrow> R s t)"

lemma fails_withinD: "fails_within R m \<Longrightarrow> m s = (Inl e, t) \<Longrightarrow> R s t"
  by (simp add: fails_within_def)

lemma fails_within_keeps: "keeps R m \<Longrightarrow> fails_within R m"
  by (auto simp: fails_within_def dest: keepsD)

context step_relation begin

lemma fails_within_andThen:
  assumes "keeps R m" and "\<And>x. fails_within R (f x)"
  shows "fails_within R (andThen m f)"
  unfolding fails_within_def
proof (intro allI impI)
  fix s e u
  assume "andThen m f s = (Inl e, u)"
  then show "R s u"
    by (rule andThen_cases) (use assms in \<open>auto simp: fails_within_def intro: trans dest: keepsD\<close>)
qed

lemma fails_within_last: "fails_within R m \<Longrightarrow> fails_within R (andThen m (\<lambda>_. ret x))"
  by (auto simp: fails_within_def andThen_def ret_def split: prod.splits sum.splits)

end

context step_relation begin

lemma ensures_andThen_keeps:
  "keeps R m \<Longrightarrow> (\<And>x. ensures (\<lambda>_. True) R (f x) Q) \<Longrightarrow> ensures (\<lambda>_. True) R (andThen m f) Q"
  by (rule ensures_andThen [where Q = "\<lambda>_ _. True"])

lemma ensures_ret: "(\<And>s. P s \<Longrightarrow> Q x s) \<Longrightarrow> ensures P R (ret x) Q"
  by (simp add: ensures_def ret_def refl)

end

end
