(* ===== verification/Schema.thy ===== *)
theory Schema
  imports Action
begin

text \<open>
  The data of the API: the enums and models of \<open>apps/api/prisma/schema.prisma\<close>, the job
  payloads of \<open>queues/queue.constants.ts\<close>, the errors a request can end with, and the state the
  services share (the database, Redis, the clock, the random source, the messages sent).
  Tables are lists of rows in insertion order. Columns no service reads or writes (the
  machine columns of a deployment, \<open>gitRepoFullName\<close>, the audit times of rows where no query
  uses them) are left out.
\<close>

section \<open>Enums\<close>

datatype deployment_status =
  QUEUED | BUILDING | DEPLOYING | READY | FAILED | CANCELED | EXPIRED | SUPERSEDED

datatype environment_type = PRODUCTION | PREVIEW | DEVELOPMENT

datatype dns_status = DnsACTIVE | DnsINACTIVE | DnsPENDING | DnsVERIFYING | DnsERROR

datatype deployment_trigger = MANUAL | WEBHOOK | ROLLBACK

datatype log_source = BUILD | RUNTIME | SYSTEM

section \<open>Models\<close>

record user =
  u_id :: uuid
  u_email :: string
  u_password :: "string option"
  u_name :: "string option"
  u_avatar :: "string option"
  u_provider :: "string option"
  u_hashedRefreshToken :: "string option"

record git_account =
  ga_id :: uuid
  ga_provider :: string
  ga_providerId :: string
  ga_username :: string
  ga_avatarUrl :: "string option"
  ga_installationId :: "string option"
  ga_accessToken :: string
  ga_refreshToken :: "string option"
  ga_userId :: uuid

record project =
  p_id :: uuid
  p_name :: string
  p_language :: string
  p_framework :: string
  p_rootDirectory :: string
  p_installCommand :: "string option"
  p_buildCommand :: "string option"
  p_runCommand :: "string option"
  p_outputDirectory :: "string option"
  p_pythonVersion :: "string option"
  p_gitRepoOwner :: string
  p_gitRepoName :: string
  p_gitRepoId :: int
  p_gitBranch :: string
  p_gitCloneUrl :: string
  p_gitRepoUrl :: string
  p_configChanged :: bool
  p_autoDeploy :: bool
  p_onlineStatus :: dns_status
  p_userId :: uuid
  p_createdAt :: time
  p_updatedAt :: time

record env_var =
  ev_id :: uuid
  ev_key :: string
  ev_value :: string
  ev_targets :: "environment_type list"
  ev_projectId :: uuid

record deployment =
  d_id :: uuid
  d_status :: deployment_status
  d_environment :: environment_type
  d_isSuccess :: bool
  d_commitHash :: string
  d_commitMessage :: "string option"
  d_commitAuthor :: "string option"
  d_branch :: string
  d_containerImage :: "string option"
  d_deploymentUrl :: "string option"
  d_deploymentRegion :: string
  d_startedAt :: time
  d_finishedAt :: "time option"
  d_duration :: "int option"
  d_projectId :: uuid
  d_initiatorId :: "uuid option"
  d_trigger :: deployment_trigger

record domain =
  dom_id :: uuid
  dom_name :: string
  dom_status :: dns_status
  dom_type :: environment_type
  dom_error :: "string option"
  dom_projectId :: uuid
  dom_createdAt :: time

record system_config =
  cfg_id :: uuid
  cfg_userId :: uuid
  cfg_defaultRegion :: string
  cfg_maxConcurrentBuilds :: int
  cfg_logRetentionDays :: int
  cfg_turboMode :: bool
  cfg_globalTTLMinutes :: int
  cfg_autoDeploy :: bool
  cfg_slackWebhook :: "string option"
  cfg_emailDeployFailed :: bool
  cfg_emailDeploySuccess :: bool

record log_entry =
  log_id :: uuid
  log_deploymentId :: uuid
  log_source :: log_source
  log_timestamp :: time
  log_message :: string

record db =
  users :: "user list"
  gitAccounts :: "git_account list"
  projects :: "project list"
  envVars :: "env_var list"
  deployments :: "deployment list"
  domains :: "domain list"
  systemConfigs :: "system_config list"
  logEntries :: "log_entry list"
  nextId :: uuid

section \<open>Queue payloads\<close>

record build_config =
  bc_installCommand :: "string option"
  bc_buildCommand :: "string option"
  bc_runCommand :: "string option"
  bc_outputDir :: "string option"
  bc_framework :: string

record build_job =
  job_deploymentId :: uuid
  job_projectId :: uuid
  job_projectName :: string
  job_gitUrl :: string
  job_installationId :: "int option"
  job_branch :: string
  job_commitHash :: string
  job_rootDirectory :: "string option"
  job_buildConfig :: build_config
  job_domains :: "string list"
  job_envVars :: "(string \<times> string) list"
  job_previousDeploymentId :: "uuid option"

record cleanup_job =
  cj_projectId :: uuid
  cj_projectName :: string
  cj_activeDeploymentIds :: "uuid list"

section \<open>Errors\<close>

datatype prisma_code = P2002 | P2003 | P2025

text \<open>
  The exceptions of Nest with their messages, a Prisma error by its code (unique constraint,
  foreign key, record not found), and any other exception thrown on the way.
\<close>

datatype api_error =
    NotFoundException string
  | BadRequestException string
  | ForbiddenException string
  | UnauthorizedException string
  | PrismaError prisma_code
  | Thrown string

section \<open>The shared state\<close>

record redis =
  redis_up :: bool
  build_queue :: "build_job list"
  cleanup_queue :: "cleanup_job list"
  redis_keys :: "(string \<times> uuid) \<Rightarrow> (string \<times> time) option"

record slack_message =
  sm_color :: string
  sm_header :: string
  sm_fields :: "string list"
  sm_message :: "string option"

datatype notification =
    SlackPost string slack_message
  | MailSuccess string string string "string option" "string option"
  | MailFailure string string "string option" "string option"

record world =
  db :: db
  redis :: redis
  now :: time
  rng :: "nat \<Rightarrow> char"
  rng_pos :: nat
  outbox :: "notification list"

type_synonym 'a handler = "(world, api_error, 'a) action"

text \<open>
  \<open>randomBytes(n)\<close> reads the next \<open>n\<close> bytes of the random source.
\<close>

definition randomBytes :: "nat \<Rightarrow> buffer handler" where
  "randomBytes n w =
     (Inr (map (rng w) [rng_pos w ..< rng_pos w + n]), w\<lparr>rng_pos := rng_pos w + n\<rparr>)"

section \<open>Defaults of the schema\<close>

definition default_region :: string where
  "default_region = ''us-ashburn-1''"

definition new_project :: project where
  "new_project = \<lparr>p_id = 0, p_name = [], p_language = [], p_framework = ''other'',
     p_rootDirectory = ''./'', p_installCommand = None, p_buildCommand = None,
     p_runCommand = None, p_outputDirectory = None, p_pythonVersion = None,
     p_gitRepoOwner = [], p_gitRepoName = [], p_gitRepoId = 0, p_gitBranch = [],
     p_gitCloneUrl = [], p_gitRepoUrl = [], p_configChanged = False, p_autoDeploy = True,
     p_onlineStatus = DnsPENDING, p_userId = 0, p_createdAt = 0, p_updatedAt = 0\<rparr>"

definition new_deployment :: deployment where
  "new_deployment = \<lparr>d_id = 0, d_status = QUEUED, d_environment = PRODUCTION,
     d_isSuccess = False, d_commitHash = [], d_commitMessage = None, d_commitAuthor = None,
     d_branch = [], d_containerImage = None, d_deploymentUrl = None,
     d_deploymentRegion = default_region, d_startedAt = 0, d_finishedAt = None,
     d_duration = None, d_projectId = 0, d_initiatorId = None, d_trigger = MANUAL\<rparr>"

definition new_domain :: domain where
  "new_domain = \<lparr>dom_id = 0, dom_name = [], dom_status = DnsPENDING, dom_type = PRODUCTION,
     dom_error = None, dom_projectId = 0, dom_createdAt = 0\<rparr>"

definition new_env_var :: env_var where
  "new_env_var = \<lparr>ev_id = 0, ev_key = [], ev_value = [],
     ev_targets = [PRODUCTION, PREVIEW, DEVELOPMENT], ev_projectId = 0\<rparr>"

definition new_config :: "uuid \<Rightarrow> system_config" where
  "new_config uid = \<lparr>cfg_id = 0, cfg_userId = uid, cfg_defaultRegion = default_region,
     cfg_maxConcurrentBuilds = 1, cfg_logRetentionDays = 1, cfg_turboMode = False,
     cfg_globalTTLMinutes = 5, cfg_autoDeploy = True, cfg_slackWebhook = None,
     cfg_emailDeployFailed = True, cfg_emailDeploySuccess = True\<rparr>"

definition new_user :: user where
  "new_user = \<lparr>u_id = 0, u_email = [], u_password = None, u_name = None, u_avatar = None,
     u_provider = None, u_hashedRefreshToken = None\<rparr>"

definition in_progress :: "deployment_status \<Rightarrow> bool" where
  \<comment> \<open>\<open>["QUEUED", "BUILDING", "DEPLOYING"].includes(status)\<close>\<close>
  "in_progress s \<longleftrightarrow> s \<in> {QUEUED, BUILDING, DEPLOYING}"

definition active_status :: "deployment_status \<Rightarrow> bool" where
  \<comment> \<open>\<open>status in ["QUEUED", "BUILDING", "DEPLOYING", "READY"]\<close>\<close>
  "active_status s \<longleftrightarrow> s \<in> {QUEUED, BUILDING, DEPLOYING, READY}"

lemma in_progress_simps [simp]:
  "in_progress QUEUED" "in_progress BUILDING" "in_progress DEPLOYING"
  "\<not> in_progress READY" "\<not> in_progress FAILED" "\<not> in_progress CANCELED"
  "\<not> in_progress EXPIRED" "\<not> in_progress SUPERSEDED"
  by (simp_all add: in_progress_def)

lemma active_status_iff: "active_status s \<longleftrightarrow> in_progress s \<or> s = READY"
  by (auto simp: active_status_def in_progress_def)

lemma randomBytes_run [action_simps]:
  "randomBytes n w =
     (Inr (map (rng w) [rng_pos w ..< rng_pos w + n]), w\<lparr>rng_pos := rng_pos w + n\<rparr>)"
  by (simp add: randomBytes_def)

end
