(* ===== verification/Store.thy ===== *)
theory Store
  imports Schema
begin

text \<open>
  The database as the services see it through Prisma. A write is refused with the Prisma code
  of the constraint it would break: \<open>P2002\<close> for a primary key or \<open>@@unique\<close> of the schema,
  \<open>P2003\<close> for a foreign key; \<open>P2025\<close> is an update or delete of a row that is not there. A
  transaction that throws puts the database back, and nothing else: what it sent to Redis
  stays sent.

  The locale \<open>table\<close> is the interface the services use: the rows of one model, with the laws a
  model has to satisfy. Each of the eight models is an interpretation.
\<close>

section \<open>Constraints of the schema\<close>

definition uniq :: "db \<Rightarrow> bool" where
  "uniq d \<longleftrightarrow>
     distinct (map u_id (users d)) \<and> distinct (map u_email (users d)) \<and>
     distinct (map ga_id (gitAccounts d)) \<and>
     distinct (map (\<lambda>g. (ga_provider g, ga_providerId g)) (gitAccounts d)) \<and>
     distinct (map p_id (projects d)) \<and> distinct (map p_name (projects d)) \<and>
     distinct (map ev_id (envVars d)) \<and>
     distinct (map (\<lambda>e. (ev_projectId e, ev_key e)) (envVars d)) \<and>
     distinct (map d_id (deployments d)) \<and>
     distinct (map dom_id (domains d)) \<and> distinct (map dom_name (domains d)) \<and>
     distinct (map cfg_id (systemConfigs d)) \<and> distinct (map cfg_userId (systemConfigs d)) \<and>
     distinct (map log_id (logEntries d))"

definition fks :: "db \<Rightarrow> bool" where
  "fks d \<longleftrightarrow>
     (\<forall>g \<in> set (gitAccounts d). ga_userId g \<in> u_id ` set (users d)) \<and>
     (\<forall>p \<in> set (projects d). p_userId p \<in> u_id ` set (users d)) \<and>
     (\<forall>e \<in> set (envVars d). ev_projectId e \<in> p_id ` set (projects d)) \<and>
     (\<forall>r \<in> set (deployments d). d_projectId r \<in> p_id ` set (projects d) \<and>
        set_option (d_initiatorId r) \<subseteq> u_id ` set (users d)) \<and>
     (\<forall>m \<in> set (domains d). dom_projectId m \<in> p_id ` set (projects d)) \<and>
     (\<forall>c \<in> set (systemConfigs d). cfg_userId c \<in> u_id ` set (users d)) \<and>
     (\<forall>l \<in> set (logEntries d). log_deploymentId l \<in> d_id ` set (deployments d))"

definition fresh :: "db \<Rightarrow> bool" where
  \<comment> \<open>\<open>uuid()\<close> has not been handed out before\<close>
  "fresh d \<longleftrightarrow>
     (\<forall>r \<in> set (users d). u_id r < nextId d) \<and>
     (\<forall>r \<in> set (gitAccounts d). ga_id r < nextId d) \<and>
     (\<forall>r \<in> set (projects d). p_id r < nextId d) \<and>
     (\<forall>r \<in> set (envVars d). ev_id r < nextId d) \<and>
     (\<forall>r \<in> set (deployments d). d_id r < nextId d) \<and>
     (\<forall>r \<in> set (domains d). dom_id r < nextId d) \<and>
     (\<forall>r \<in> set (systemConfigs d). cfg_id r < nextId d) \<and>
     (\<forall>r \<in> set (logEntries d). log_id r < nextId d)"

definition db_ok :: "db \<Rightarrow> bool" where
  "db_ok d \<longleftrightarrow> uniq d \<and> fks d \<and> fresh d"

definition violated :: "db \<Rightarrow> prisma_code option" where
  "violated d = (if \<not> uniq d then Some P2002 else if \<not> fks d then Some P2003 else None)"

section \<open>Writes\<close>

definition write_db :: "(db \<Rightarrow> db) \<Rightarrow> unit handler" where
  "write_db f w =
     (case violated (f (db w)) of
        Some c \<Rightarrow> (Inl (PrismaError c), w)
      | None \<Rightarrow> (Inr (), w\<lparr>db := f (db w)\<rparr>))"

definition create_row ::
    "(('r list \<Rightarrow> 'r list) \<Rightarrow> db \<Rightarrow> db) \<Rightarrow> ((uuid \<Rightarrow> uuid) \<Rightarrow> 'r \<Rightarrow> 'r) \<Rightarrow> 'r \<Rightarrow> 'r handler" where
  \<comment> \<open>\<open>create({ data })\<close>: the id is a new uuid\<close>
  "create_row tab setid r =
     andThen (gets (\<lambda>w. setid (\<lambda>_. nextId (db w)) r)) (\<lambda>r'.
     andThen (write_db (\<lambda>d. tab (\<lambda>rs. rs @ [r']) (d\<lparr>nextId := Suc (nextId d)\<rparr>))) (\<lambda>_.
     ret r'))"

fun number_rows :: "((uuid \<Rightarrow> uuid) \<Rightarrow> 'r \<Rightarrow> 'r) \<Rightarrow> uuid \<Rightarrow> 'r list \<Rightarrow> 'r list" where
  "number_rows setid n [] = []"
| "number_rows setid n (r # rs) = setid (\<lambda>_. n) r # number_rows setid (Suc n) rs"

definition create_rows ::
    "(('r list \<Rightarrow> 'r list) \<Rightarrow> db \<Rightarrow> db) \<Rightarrow> ((uuid \<Rightarrow> uuid) \<Rightarrow> 'r \<Rightarrow> 'r) \<Rightarrow> 'r list \<Rightarrow> unit handler" where
  \<comment> \<open>\<open>createMany({ data })\<close>: one insert of all rows\<close>
  "create_rows tab setid rs =
     write_db (\<lambda>d. tab (\<lambda>xs. xs @ number_rows setid (nextId d) rs)
                    (d\<lparr>nextId := nextId d + length rs\<rparr>))"

definition update_where ::
    "(('r list \<Rightarrow> 'r list) \<Rightarrow> db \<Rightarrow> db) \<Rightarrow> ((uuid \<Rightarrow> uuid) \<Rightarrow> 'r \<Rightarrow> 'r) \<Rightarrow> ('r \<Rightarrow> uuid) \<Rightarrow>
     ('r \<Rightarrow> bool) \<Rightarrow> ('r \<Rightarrow> 'r) \<Rightarrow> unit handler" where
  \<comment> \<open>\<open>updateMany({ where, data })\<close>: the data never names the id\<close>
  "update_where tab setid rid P f =
     write_db (tab (map (\<lambda>r. if P r then setid (\<lambda>_. rid r) (f r) else r)))"

definition update_row ::
    "(db \<Rightarrow> 'r list) \<Rightarrow> (('r list \<Rightarrow> 'r list) \<Rightarrow> db \<Rightarrow> db) \<Rightarrow> ((uuid \<Rightarrow> uuid) \<Rightarrow> 'r \<Rightarrow> 'r) \<Rightarrow>
     ('r \<Rightarrow> uuid) \<Rightarrow> uuid \<Rightarrow> ('r \<Rightarrow> 'r) \<Rightarrow> 'r handler" where
  \<comment> \<open>\<open>update({ where: { id }, data })\<close>\<close>
  "update_row rows tab setid rid i f =
     andThen (gets (\<lambda>w. find (\<lambda>r. rid r = i) (rows (db w)))) (\<lambda>found.
     andThen (orThrow found (PrismaError P2025)) (\<lambda>r.
     andThen (update_where tab setid rid (\<lambda>r. rid r = i) f) (\<lambda>_.
     ret (setid (\<lambda>_. rid r) (f r)))))"

definition delete_where ::
    "(('r list \<Rightarrow> 'r list) \<Rightarrow> db \<Rightarrow> db) \<Rightarrow> ('r \<Rightarrow> bool) \<Rightarrow> unit handler" where
  "delete_where tab P = write_db (tab (filter (\<lambda>r. \<not> P r)))"

definition transaction :: "'a handler \<Rightarrow> 'a handler" where
  \<comment> \<open>\<open>prisma.$transaction(async (tx) => ...)\<close>\<close>
  "transaction m w =
     (case m w of (Inl e, w') \<Rightarrow> (Inl e, w'\<lparr>db := db w\<rparr>) | (Inr x, w') \<Rightarrow> (Inr x, w'))"

section \<open>The models\<close>

abbreviation "user_create \<equiv> create_row users_update u_id_update"
abbreviation "user_update \<equiv> update_row users users_update u_id_update u_id"
abbreviation "user_updateMany \<equiv> update_where users_update u_id_update u_id"
abbreviation "gitAccount_create \<equiv> create_row gitAccounts_update ga_id_update"
abbreviation "gitAccount_update \<equiv> update_row gitAccounts gitAccounts_update ga_id_update ga_id"
abbreviation "project_create \<equiv> create_row projects_update p_id_update"
abbreviation "project_update \<equiv> update_row projects projects_update p_id_update p_id"
abbreviation "envVar_createMany \<equiv> create_rows envVars_update ev_id_update"
abbreviation "envVar_deleteMany \<equiv> delete_where envVars_update"
abbreviation "deployment_create \<equiv> create_row deployments_update d_id_update"
abbreviation "deployment_update \<equiv> update_row deployments deployments_update d_id_update d_id"
abbreviation "domain_create \<equiv> create_row domains_update dom_id_update"
abbreviation "domain_update \<equiv> update_row domains domains_update dom_id_update dom_id"
abbreviation "domain_deleteMany \<equiv> delete_where domains_update"
abbreviation "config_create \<equiv> create_row systemConfigs_update cfg_id_update"
abbreviation "config_update \<equiv> update_row systemConfigs systemConfigs_update cfg_id_update cfg_id"
abbreviation "logEntry_createMany \<equiv> create_rows logEntries_update log_id_update"
abbreviation "logEntry_deleteMany \<equiv> delete_where logEntries_update"

definition cascade_project :: "uuid \<Rightarrow> db \<Rightarrow> db" where
  \<comment> \<open>\<open>onDelete: Cascade\<close> from a project to its variables, domains, deployments and their logs\<close>
  "cascade_project i d = d\<lparr>
     projects := filter (\<lambda>p. p_id p \<noteq> i) (projects d),
     envVars := filter (\<lambda>e. ev_projectId e \<noteq> i) (envVars d),
     domains := filter (\<lambda>m. dom_projectId m \<noteq> i) (domains d),
     logEntries := filter (\<lambda>l. log_deploymentId l \<notin>
        d_id ` set (filter (\<lambda>r. d_projectId r = i) (deployments d))) (logEntries d),
     deployments := filter (\<lambda>r. d_projectId r \<noteq> i) (deployments d)\<rparr>"

definition project_delete :: "uuid \<Rightarrow> project handler" where
  "project_delete i =
     andThen (gets (\<lambda>w. find (\<lambda>p. p_id p = i) (projects (db w)))) (\<lambda>found.
     andThen (orThrow found (PrismaError P2025)) (\<lambda>p.
     andThen (write_db (cascade_project i)) (\<lambda>_.
     ret p)))"

definition owned_project :: "uuid \<Rightarrow> uuid \<Rightarrow> db \<Rightarrow> project option" where
  \<comment> \<open>\<open>project.findFirst({ where: { id, userId } })\<close>\<close>
  "owned_project uid i d = find (\<lambda>p. p_id p = i \<and> p_userId p = uid) (projects d)"

definition project_owner :: "db \<Rightarrow> uuid \<Rightarrow> uuid option" where
  "project_owner d i = map_option p_userId (find (\<lambda>p. p_id p = i) (projects d))"

definition owned_deployment :: "uuid \<Rightarrow> uuid \<Rightarrow> db \<Rightarrow> deployment option" where
  \<comment> \<open>\<open>deployment.findFirst({ where: { id, project: { userId } } })\<close>\<close>
  "owned_deployment uid i d =
     find (\<lambda>r. d_id r = i \<and> project_owner d (d_projectId r) = Some uid) (deployments d)"

section \<open>What a write does\<close>

lemma violated_None [simp]: "violated d = None \<longleftrightarrow> uniq d \<and> fks d"
  by (simp add: violated_def)

lemma write_db_run [action_simps]:
  "write_db f w = (if \<not> uniq (f (db w)) then (Inl (PrismaError P2002), w)
                else if \<not> fks (f (db w)) then (Inl (PrismaError P2003), w)
                else (Inr (), w\<lparr>db := f (db w)\<rparr>))"
  by (simp add: write_db_def violated_def)

lemma write_db_ok: "uniq (f (db w)) \<Longrightarrow> fks (f (db w)) \<Longrightarrow> write_db f w = (Inr (), w\<lparr>db := f (db w)\<rparr>)"
  by (simp add: write_db_run)

lemma write_db_cases:
  assumes "write_db f w = (r, w')"
  obtains (refused) c where "r = Inl (PrismaError c)" "w' = w"
        | (written) "r = Inr ()" "w' = w\<lparr>db := f (db w)\<rparr>" "uniq (f (db w))" "fks (f (db w))"
  using assms by (auto simp: write_db_run split: if_splits)

lemma length_number_rows [simp]: "length (number_rows setid n rs) = length rs"
  by (induction rs arbitrary: n) auto

section \<open>The invariant and its step relation\<close>

definition db_kept :: "world \<Rightarrow> world \<Rightarrow> bool" where
  "db_kept w w' \<longleftrightarrow> (db_ok (db w) \<longrightarrow> db_ok (db w'))"

locale db_step_relation = step_relation R for R :: "world \<Rightarrow> world \<Rightarrow> bool" +
  assumes rollback: "R w w' \<Longrightarrow> R w (w'\<lparr>db := db w\<rparr>)"
begin

lemma keeps_transaction: "keeps R m \<Longrightarrow> keeps R (transaction m)"
  by (rule keepsI) (auto simp: transaction_def split: prod.splits sum.splits
      dest: keepsD intro: rollback)

lemmas keeps_db_intros = keeps_intros keeps_transaction

end

interpretation kept: db_step_relation db_kept
  by unfold_locales (auto simp: db_kept_def)

lemma keeps_write_db:
  "(\<And>d. fresh d \<Longrightarrow> fresh (f d)) \<Longrightarrow> keeps db_kept (write_db f)"
  by (rule keepsI) (auto simp: db_kept_def db_ok_def write_db_run)

section \<open>The interface of a model\<close>

locale table =
  fixes rows :: "db \<Rightarrow> 'r list"
    and tab :: "('r list \<Rightarrow> 'r list) \<Rightarrow> db \<Rightarrow> db"
    and rid :: "'r \<Rightarrow> uuid"
    and setid :: "(uuid \<Rightarrow> uuid) \<Rightarrow> 'r \<Rightarrow> 'r"
  assumes rows_tab: "rows (tab f d) = f (rows d)"
    and rows_nextId: "rows (d\<lparr>nextId := n\<rparr>) = rows d"
    and nextId_tab: "nextId (tab f d) = nextId d"
    and rid_setid: "rid (setid g r) = g (rid r)"
    and fresh_row: "fresh d \<Longrightarrow> r \<in> set (rows d) \<Longrightarrow> rid r < nextId d"
    and fresh_tab: "fresh d \<Longrightarrow> (\<And>r. r \<in> set (f (rows d)) \<Longrightarrow> rid r < nextId d) \<Longrightarrow> fresh (tab f d)"
    and fresh_nextId: "fresh d \<Longrightarrow> nextId d \<le> n \<Longrightarrow> fresh (d\<lparr>nextId := n\<rparr>)"
    and uniq_rid: "uniq d \<Longrightarrow> distinct (map rid (rows d))"
begin

lemma number_rows_rid:
  "r \<in> set (number_rows setid n rs) \<Longrightarrow> n \<le> rid r \<and> rid r < n + length rs"
  by (induction rs arbitrary: n) (fastforce simp: rid_setid)+

lemma find_row: "uniq d \<Longrightarrow> r \<in> set (rows d) \<Longrightarrow> find (\<lambda>x. rid x = rid r) (rows d) = Some r"
  by (rule find_key_unique [OF uniq_rid])

lemma keeps_create: "keeps db_kept (create_row tab setid r)"
proof (rule keepsI)
  fix w :: world
  let ?r = "setid (\<lambda>_. nextId (db w)) r"
  let ?d = "(db w)\<lparr>nextId := Suc (nextId (db w))\<rparr>"
  have "fresh (tab (\<lambda>rs. rs @ [?r]) ?d)" if f: "fresh (db w)"
  proof (rule fresh_tab)
    show "fresh ?d" by (rule fresh_nextId [OF f]) simp
    show "rid x < nextId ?d" if "x \<in> set (rows ?d @ [?r])" for x
      using that fresh_row [OF f, of x] by (auto simp: rows_nextId rid_setid)
  qed
  then show "db_kept w (snd (create_row tab setid r w))"
    by (auto simp: create_row_def action_simps andThen_def db_kept_def db_ok_def)
qed

lemma keeps_createMany: "keeps db_kept (create_rows tab setid rs)"
  unfolding create_rows_def
proof (rule keeps_write_db)
  fix d :: db
  assume f: "fresh d"
  let ?d = "d\<lparr>nextId := nextId d + length rs\<rparr>"
  show "fresh (tab (\<lambda>xs. xs @ number_rows setid (nextId d) rs) ?d)"
  proof (rule fresh_tab)
    show "fresh ?d" by (rule fresh_nextId [OF f]) simp
    show "rid x < nextId ?d" if "x \<in> set (rows ?d @ number_rows setid (nextId d) rs)" for x
      using that fresh_row [OF f, of x] number_rows_rid [of x "nextId d" rs]
      by (auto simp: rows_nextId)
  qed
qed

lemma keeps_updateMany: "keeps db_kept (update_where tab setid rid P f)"
  unfolding update_where_def
  by (rule keeps_write_db, rule fresh_tab) (auto simp: rid_setid dest: fresh_row split: if_splits)

lemma keeps_deleteMany: "keeps db_kept (delete_where tab P)"
  unfolding delete_where_def
  by (rule keeps_write_db, rule fresh_tab) (auto dest: fresh_row)

lemma keeps_update: "keeps db_kept (update_row rows tab setid rid i f)"
  unfolding update_row_def by (intro kept.keeps_db_intros keeps_updateMany)

lemmas keeps_table = keeps_create keeps_createMany keeps_updateMany keeps_deleteMany keeps_update

lemma create_run:
  "uniq (tab (\<lambda>rs. rs @ [setid (\<lambda>_. nextId (db w)) r]) ((db w)\<lparr>nextId := Suc (nextId (db w))\<rparr>)) \<Longrightarrow>
   fks (tab (\<lambda>rs. rs @ [setid (\<lambda>_. nextId (db w)) r]) ((db w)\<lparr>nextId := Suc (nextId (db w))\<rparr>)) \<Longrightarrow>
   create_row tab setid r w =
     (Inr (setid (\<lambda>_. nextId (db w)) r),
      w\<lparr>db := tab (\<lambda>rs. rs @ [setid (\<lambda>_. nextId (db w)) r]) ((db w)\<lparr>nextId := Suc (nextId (db w))\<rparr>)\<rparr>)"
  by (simp add: create_row_def action_simps andThen_def)

lemma create_present:
  assumes "create_row tab setid r w = (Inr r', w')"
  shows "r' \<in> set (rows (db w')) \<and> rid r' = nextId (db w)"
  using assms
  by (auto simp: create_row_def action_simps andThen_def rows_tab rows_nextId rid_setid split: if_splits)

lemma update_missing:
  "(\<forall>r \<in> set (rows (db w)). rid r \<noteq> i) \<Longrightarrow>
   update_row rows tab setid rid i f w = (Inl (PrismaError P2025), w)"
  by (auto simp: update_row_def action_simps find_None_iff split: option.splits dest: find_SomeD)

lemma update_run:
  assumes "find (\<lambda>r. rid r = i) (rows (db w)) = Some r"
    and "uniq (tab (map (\<lambda>r. if rid r = i then setid (\<lambda>_. rid r) (f r) else r)) (db w))"
    and "fks (tab (map (\<lambda>r. if rid r = i then setid (\<lambda>_. rid r) (f r) else r)) (db w))"
  shows "update_row rows tab setid rid i f w =
     (Inr (setid (\<lambda>_. rid r) (f r)),
      w\<lparr>db := tab (map (\<lambda>r. if rid r = i then setid (\<lambda>_. rid r) (f r) else r)) (db w)\<rparr>)"
  using assms by (simp add: update_row_def update_where_def action_simps andThen_def)

end

text \<open>
  The columns of a row that constraints speak of. An update that leaves them alone is never
  refused.
\<close>

locale keyed_table = table +
  fixes key :: "'b \<Rightarrow> 'k"
  assumes key_rid: "key r = key r' \<Longrightarrow> rid r = rid r'"
    and setid_same: "setid (\<lambda>_. rid r) r = r"
    and map_keys: "(\<And>r. key (g r) = key r) \<Longrightarrow>
      uniq (tab (map g) d) = uniq d \<and> fks (tab (map g) d) = fks d"
begin

lemma same_key_setid: "key (f r) = key r \<Longrightarrow> setid (\<lambda>_. rid r) (f r) = f r"
  using setid_same [of "f r"] key_rid [of "f r" r] by simp

lemma update_where_run:
  assumes "uniq (db w)" and "fks (db w)" and "\<And>r. key (f r) = key r"
  shows "update_where tab setid rid P f w =
    (Inr (), w\<lparr>db := tab (map (\<lambda>r. if P r then f r else r)) (db w)\<rparr>)"
proof -
  have g: "(\<lambda>r. if P r then setid (\<lambda>_. rid r) (f r) else r) = (\<lambda>r. if P r then f r else r)"
    using same_key_setid [of f] assms(3) by auto
  have "key (if P r then f r else r) = key r" for r using assms(3) by simp
  then have "uniq (tab (map (\<lambda>r. if P r then f r else r)) (db w))"
    and "fks (tab (map (\<lambda>r. if P r then f r else r)) (db w))"
    using map_keys [of "\<lambda>r. if P r then f r else r" "db w"] assms by simp_all
  then show ?thesis by (simp add: update_where_def g write_db_ok)
qed

lemma update_row_run:
  assumes "uniq (db w)" and "fks (db w)" and "\<And>r. key (f r) = key r"
    and "find (\<lambda>r. rid r = i) (rows (db w)) = Some r"
  shows "update_row rows tab setid rid i f w =
    (Inr (f r), w\<lparr>db := tab (map (\<lambda>r. if rid r = i then f r else r)) (db w)\<rparr>)"
  using assms
  by (simp add: update_row_def action_simps andThen_Inr [OF update_where_run] same_key_setid)

end

text \<open>A model no other refers to: its rows can be deleted freely.\<close>

locale leaf_table = table +
  assumes filter_ok: "uniq d \<Longrightarrow> fks d \<Longrightarrow> uniq (tab (filter P) d) \<and> fks (tab (filter P) d)"
begin

lemma delete_run:
  "uniq (db w) \<Longrightarrow> fks (db w) \<Longrightarrow>
   delete_where tab P w = (Inr (), w\<lparr>db := tab (filter (\<lambda>r. \<not> P r)) (db w)\<rparr>)"
  using filter_ok by (simp add: delete_where_def write_db_ok)

end

interpretation userT: keyed_table users users_update u_id u_id_update
  "\<lambda>r. (u_id r, u_email r)"
  by unfold_locales (auto simp: fresh_def uniq_def fks_def image_image o_def)

interpretation gitAccountT: keyed_table gitAccounts gitAccounts_update ga_id ga_id_update
  "\<lambda>r. (ga_id r, ga_provider r, ga_providerId r, ga_userId r)"
  by unfold_locales (auto simp: fresh_def uniq_def fks_def image_image o_def)

interpretation projectT: keyed_table projects projects_update p_id p_id_update
  "\<lambda>r. (p_id r, p_name r, p_userId r)"
  by unfold_locales (auto simp: fresh_def uniq_def fks_def image_image o_def)

interpretation envVarT: keyed_table envVars envVars_update ev_id ev_id_update
  "\<lambda>r. (ev_id r, ev_projectId r, ev_key r)"
  by unfold_locales (auto simp: fresh_def uniq_def fks_def image_image o_def)

interpretation deploymentT: keyed_table deployments deployments_update d_id d_id_update
  "\<lambda>r. (d_id r, d_projectId r, d_initiatorId r)"
  by unfold_locales (auto simp: fresh_def uniq_def fks_def image_image o_def)

interpretation domainT: keyed_table domains domains_update dom_id dom_id_update
  "\<lambda>r. (dom_id r, dom_name r, dom_projectId r)"
  by unfold_locales (auto simp: fresh_def uniq_def fks_def image_image o_def)

interpretation configT: keyed_table systemConfigs systemConfigs_update cfg_id cfg_id_update
  "\<lambda>r. (cfg_id r, cfg_userId r)"
  by unfold_locales (auto simp: fresh_def uniq_def fks_def image_image o_def)

interpretation logEntryT: keyed_table logEntries logEntries_update log_id log_id_update
  "\<lambda>r. (log_id r, log_deploymentId r)"
  by unfold_locales (auto simp: fresh_def uniq_def fks_def image_image o_def)

interpretation envVarL: leaf_table envVars envVars_update ev_id ev_id_update
  by unfold_locales (auto simp: uniq_def fks_def intro: distinct_map_filterI)

interpretation domainL: leaf_table domains domains_update dom_id dom_id_update
  by unfold_locales (auto simp: uniq_def fks_def intro: distinct_map_filterI)

interpretation logEntryL: leaf_table logEntries logEntries_update log_id log_id_update
  by unfold_locales (auto simp: uniq_def fks_def intro: distinct_map_filterI)

section \<open>Inserting rows\<close>

text \<open>What a new row has to satisfy for its insertion to be accepted.\<close>

locale insertable_table = table +
  fixes insertable :: "'b \<Rightarrow> db \<Rightarrow> bool"
  assumes insert_ok: "db_ok d \<Longrightarrow> insertable r d \<Longrightarrow>
      uniq (tab (\<lambda>rs. rs @ [setid (\<lambda>_. nextId d) r]) (d\<lparr>nextId := Suc (nextId d)\<rparr>)) \<and>
      fks (tab (\<lambda>rs. rs @ [setid (\<lambda>_. nextId d) r]) (d\<lparr>nextId := Suc (nextId d)\<rparr>))"
begin

lemma create_ok:
  "db_ok (db w) \<Longrightarrow> insertable r (db w) \<Longrightarrow>
   create_row tab setid r w =
     (Inr (setid (\<lambda>_. nextId (db w)) r),
      w\<lparr>db := tab (\<lambda>rs. rs @ [setid (\<lambda>_. nextId (db w)) r]) ((db w)\<lparr>nextId := Suc (nextId (db w))\<rparr>)\<rparr>)"
  by (rule create_run) (simp_all add: insert_ok)

lemma create_keeps_ok:
  assumes "create_row tab setid r w = (Inr r', w')" and "db_ok (db w)"
  shows "db_ok (db w')"
  using keepsD [OF keeps_create assms(1)] assms(2) by (simp add: db_kept_def)

end

definition can_insert_user :: "user \<Rightarrow> db \<Rightarrow> bool" where
  "can_insert_user r d \<longleftrightarrow> u_email r \<notin> u_email ` set (users d)"

definition can_insert_gitAccount :: "git_account \<Rightarrow> db \<Rightarrow> bool" where
  "can_insert_gitAccount r d \<longleftrightarrow> ga_userId r \<in> u_id ` set (users d) \<and>
     (ga_provider r, ga_providerId r) \<notin> (\<lambda>g. (ga_provider g, ga_providerId g)) ` set (gitAccounts d)"

definition can_insert_project :: "project \<Rightarrow> db \<Rightarrow> bool" where
  "can_insert_project r d \<longleftrightarrow> p_userId r \<in> u_id ` set (users d) \<and> p_name r \<notin> p_name ` set (projects d)"

definition can_insert_deployment :: "deployment \<Rightarrow> db \<Rightarrow> bool" where
  "can_insert_deployment r d \<longleftrightarrow> d_projectId r \<in> p_id ` set (projects d) \<and>
     set_option (d_initiatorId r) \<subseteq> u_id ` set (users d)"

definition can_insert_domain :: "domain \<Rightarrow> db \<Rightarrow> bool" where
  "can_insert_domain r d \<longleftrightarrow> dom_projectId r \<in> p_id ` set (projects d) \<and>
     dom_name r \<notin> dom_name ` set (domains d)"

definition can_insert_config :: "system_config \<Rightarrow> db \<Rightarrow> bool" where
  "can_insert_config r d \<longleftrightarrow> cfg_userId r \<in> u_id ` set (users d) \<and>
     cfg_userId r \<notin> cfg_userId ` set (systemConfigs d)"

lemma fresh_idD:
  "fresh d \<Longrightarrow> nextId d \<notin> u_id ` set (users d)"
  "fresh d \<Longrightarrow> nextId d \<notin> ga_id ` set (gitAccounts d)"
  "fresh d \<Longrightarrow> nextId d \<notin> p_id ` set (projects d)"
  "fresh d \<Longrightarrow> nextId d \<notin> d_id ` set (deployments d)"
  "fresh d \<Longrightarrow> nextId d \<notin> dom_id ` set (domains d)"
  "fresh d \<Longrightarrow> nextId d \<notin> cfg_id ` set (systemConfigs d)"
  by (auto simp: fresh_def)

interpretation userI: insertable_table users users_update u_id u_id_update can_insert_user
  by unfold_locales (use fresh_idD in \<open>auto simp: can_insert_user_def db_ok_def uniq_def fks_def\<close>)

interpretation gitAccountI: insertable_table gitAccounts gitAccounts_update ga_id ga_id_update can_insert_gitAccount
  by unfold_locales (use fresh_idD in \<open>auto simp: can_insert_gitAccount_def db_ok_def uniq_def fks_def\<close>)

interpretation projectI: insertable_table projects projects_update p_id p_id_update can_insert_project
  by unfold_locales (use fresh_idD in \<open>auto simp: can_insert_project_def db_ok_def uniq_def fks_def\<close>)

interpretation deploymentI: insertable_table deployments deployments_update d_id d_id_update can_insert_deployment
  by unfold_locales (use fresh_idD in \<open>auto simp: can_insert_deployment_def db_ok_def uniq_def fks_def\<close>)

interpretation domainI: insertable_table domains domains_update dom_id dom_id_update can_insert_domain
  by unfold_locales (use fresh_idD in \<open>auto simp: can_insert_domain_def db_ok_def uniq_def fks_def\<close>)

interpretation configI: insertable_table systemConfigs systemConfigs_update cfg_id cfg_id_update can_insert_config
  by unfold_locales (use fresh_idD in \<open>auto simp: can_insert_config_def db_ok_def uniq_def fks_def\<close>)

text \<open>The normal form of a state after an insertion.\<close>

lemma insert_form:
  "users_update f0 (d\<lparr>nextId := n\<rparr>) = d\<lparr>users := f0 (users d), nextId := n\<rparr>"
  "gitAccounts_update f1 (d\<lparr>nextId := n\<rparr>) = d\<lparr>gitAccounts := f1 (gitAccounts d), nextId := n\<rparr>"
  "projects_update f2 (d\<lparr>nextId := n\<rparr>) = d\<lparr>projects := f2 (projects d), nextId := n\<rparr>"
  "envVars_update f3 (d\<lparr>nextId := n\<rparr>) = d\<lparr>envVars := f3 (envVars d), nextId := n\<rparr>"
  "deployments_update f4 (d\<lparr>nextId := n\<rparr>) = d\<lparr>deployments := f4 (deployments d), nextId := n\<rparr>"
  "domains_update f5 (d\<lparr>nextId := n\<rparr>) = d\<lparr>domains := f5 (domains d), nextId := n\<rparr>"
  "systemConfigs_update f6 (d\<lparr>nextId := n\<rparr>) = d\<lparr>systemConfigs := f6 (systemConfigs d), nextId := n\<rparr>"
  "logEntries_update f7 (d\<lparr>nextId := n\<rparr>) = d\<lparr>logEntries := f7 (logEntries d), nextId := n\<rparr>"
  by (cases d; simp)+

lemma map_number_rows:
  "(\<And>g r. k (setid g r) = k r) \<Longrightarrow> map k (number_rows setid n rs) = map k rs"
  by (induction rs arbitrary: n) auto

lemma number_rows_ids:
  "(\<And>g r. rid (setid g r) = g (rid r)) \<Longrightarrow> map rid (number_rows setid n rs) = [n ..< n + length rs]"
  by (induction rs arbitrary: n) (simp_all add: upt_conv_Cons del: upt_Suc)

lemma envVar_createMany_run:
  assumes "db_ok (db w)" and "\<forall>r \<in> set rs. ev_projectId r = i" and "i \<in> p_id ` set (projects (db w))"
    and "distinct (map ev_key rs)" and "\<forall>e \<in> set (envVars (db w)). ev_projectId e \<noteq> i"
  shows "envVar_createMany rs w = (Inr (),
    w\<lparr>db := (db w)\<lparr>envVars := envVars (db w) @ number_rows ev_id_update (nextId (db w)) rs,
                    nextId := nextId (db w) + length rs\<rparr>\<rparr>)"
proof -
  let ?n = "number_rows ev_id_update (nextId (db w)) rs"
  have ids: "map ev_id ?n = [nextId (db w) ..< nextId (db w) + length rs]"
    by (rule number_rows_ids) simp
  have keys: "map (\<lambda>e. (ev_projectId e, ev_key e)) ?n = map (\<lambda>e. (ev_projectId e, ev_key e)) rs"
    and pids: "map ev_projectId ?n = map ev_projectId rs"
    by (rule map_number_rows, simp)+
  have dk: "distinct (map (\<lambda>e. (ev_projectId e, ev_key e)) rs)"
    using assms(4) by (auto simp: distinct_map inj_on_def)
  have pset: "ev_projectId ` set ?n \<subseteq> {i}"
    using arg_cong [OF pids, of set] assms(2) by auto
  have "set (map ev_id (envVars (db w))) \<inter> set (map ev_id ?n) = {}"
    using assms(1) unfolding ids by (fastforce simp: db_ok_def fresh_def)
  then have d1: "distinct (map ev_id (envVars (db w) @ ?n))"
    using assms(1) ids by (simp add: db_ok_def uniq_def)
  have "set (map (\<lambda>e. (ev_projectId e, ev_key e)) (envVars (db w))) \<inter>
      set (map (\<lambda>e. (ev_projectId e, ev_key e)) ?n) = {}"
    using assms(2,5) unfolding keys by auto
  then have d2: "distinct (map (\<lambda>e. (ev_projectId e, ev_key e)) (envVars (db w) @ ?n))"
    using assms(1) dk keys by (simp add: db_ok_def uniq_def)
  have u: "uniq ((db w)\<lparr>envVars := envVars (db w) @ ?n, nextId := nextId (db w) + length rs\<rparr>)"
    using assms(1) d1 d2 unfolding db_ok_def uniq_def by simp
  have f: "fks ((db w)\<lparr>envVars := envVars (db w) @ ?n, nextId := nextId (db w) + length rs\<rparr>)"
    using assms(1,3) pset by (auto simp: db_ok_def fks_def)
  show ?thesis
    using u f by (simp add: create_rows_def write_db_run insert_form)
qed

lemma logEntry_createMany_run:
  assumes "db_ok (db w)" and "\<forall>r \<in> set rs. log_deploymentId r \<in> d_id ` set (deployments (db w))"
  shows "logEntry_createMany rs w = (Inr (),
    w\<lparr>db := (db w)\<lparr>logEntries := logEntries (db w) @ number_rows log_id_update (nextId (db w)) rs,
                    nextId := nextId (db w) + length rs\<rparr>\<rparr>)"
proof -
  let ?n = "number_rows log_id_update (nextId (db w)) rs"
  have ids: "map log_id ?n = [nextId (db w) ..< nextId (db w) + length rs]"
    by (rule number_rows_ids) simp
  have deps: "map log_deploymentId ?n = map log_deploymentId rs"
    by (rule map_number_rows) simp
  have dset: "log_deploymentId ` set ?n \<subseteq> d_id ` set (deployments (db w))"
    using arg_cong [OF deps, of set] assms(2) by auto
  have "set (map log_id (logEntries (db w))) \<inter> set (map log_id ?n) = {}"
    using assms(1) unfolding ids by (fastforce simp: db_ok_def fresh_def)
  then have d1: "distinct (map log_id (logEntries (db w) @ ?n))"
    using assms(1) ids by (simp add: db_ok_def uniq_def)
  have u: "uniq ((db w)\<lparr>logEntries := logEntries (db w) @ ?n, nextId := nextId (db w) + length rs\<rparr>)"
    using assms(1) d1 unfolding db_ok_def uniq_def by simp
  have f: "fks ((db w)\<lparr>logEntries := logEntries (db w) @ ?n, nextId := nextId (db w) + length rs\<rparr>)"
    using assms(1) dset by (auto simp: db_ok_def fks_def)
  show ?thesis
    using u f by (simp add: create_rows_def write_db_run insert_form)
qed

section \<open>Lookups\<close>

lemma owned_projectD:
  "owned_project u i d = Some p \<Longrightarrow> p \<in> set (projects d) \<and> p_id p = i \<and> p_userId p = u"
  by (auto simp: owned_project_def dest: find_SomeD)

lemma owned_deploymentD:
  "owned_deployment u i d = Some r \<Longrightarrow>
   r \<in> set (deployments d) \<and> d_id r = i \<and> project_owner d (d_projectId r) = Some u"
  by (auto simp: owned_deployment_def dest: find_SomeD)

lemma owned_project_find:
  "uniq d \<Longrightarrow> owned_project u i d = Some p \<Longrightarrow> find (\<lambda>q. p_id q = i) (projects d) = Some p"
  using projectT.find_row [of d p] owned_projectD [of u i d p] by simp

lemma owned_deployment_find:
  "uniq d \<Longrightarrow> owned_deployment u i d = Some r \<Longrightarrow> find (\<lambda>q. d_id q = i) (deployments d) = Some r"
  using deploymentT.find_row [of d r] owned_deploymentD [of u i d r] by simp

lemma project_owner_id:
  "uniq d \<Longrightarrow> p \<in> set (projects d) \<Longrightarrow> project_owner d (p_id p) = Some (p_userId p)"
  by (simp add: project_owner_def projectT.find_row)

lemma project_owner_None: "project_owner d i = None \<longleftrightarrow> i \<notin> p_id ` set (projects d)"
  by (auto simp: project_owner_def find_None_iff)

lemma db_okD: "db_ok d \<Longrightarrow> uniq d" "db_ok d \<Longrightarrow> fks d" "db_ok d \<Longrightarrow> fresh d"
  by (simp_all add: db_ok_def)

lemmas keeps_tables =
  userT.keeps_table gitAccountT.keeps_table projectT.keeps_table envVarT.keeps_table
  deploymentT.keeps_table domainT.keeps_table configT.keeps_table logEntryT.keeps_table

lemma fksD:
  "fks d \<Longrightarrow> g \<in> set (gitAccounts d) \<Longrightarrow> ga_userId g \<in> u_id ` set (users d)"
  "fks d \<Longrightarrow> p \<in> set (projects d) \<Longrightarrow> p_userId p \<in> u_id ` set (users d)"
  "fks d \<Longrightarrow> e \<in> set (envVars d) \<Longrightarrow> ev_projectId e \<in> p_id ` set (projects d)"
  "fks d \<Longrightarrow> r \<in> set (deployments d) \<Longrightarrow> d_projectId r \<in> p_id ` set (projects d)"
  "fks d \<Longrightarrow> m \<in> set (domains d) \<Longrightarrow> dom_projectId m \<in> p_id ` set (projects d)"
  "fks d \<Longrightarrow> c \<in> set (systemConfigs d) \<Longrightarrow> cfg_userId c \<in> u_id ` set (users d)"
  "fks d \<Longrightarrow> l \<in> set (logEntries d) \<Longrightarrow> log_deploymentId l \<in> d_id ` set (deployments d)"
  unfolding fks_def by blast+

text \<open>Nothing refers to a project that is about to be created.\<close>

lemma new_project_unreferenced:
  assumes "db_ok d"
  shows "\<forall>e \<in> set (envVars d). ev_projectId e \<noteq> nextId d"
    and "\<forall>r \<in> set (deployments d). d_projectId r \<noteq> nextId d"
    and "\<forall>m \<in> set (domains d). dom_projectId m \<noteq> nextId d"
  using assms fresh_idD(3) [of d] fksD(3-5) [of d] unfolding db_ok_def by metis+

section \<open>Frames\<close>

text \<open>What an action leaves alone: a part of the database, or Redis.\<close>

definition same_db :: "(db \<Rightarrow> 'v) \<Rightarrow> world \<Rightarrow> world \<Rightarrow> bool" where
  "same_db g w w' \<longleftrightarrow> g (db w') = g (db w)"

definition same_redis :: "world \<Rightarrow> world \<Rightarrow> bool" where
  "same_redis w w' \<longleftrightarrow> redis w' = redis w"

interpretation sameDb: db_step_relation "same_db g" for g
  by unfold_locales (auto simp: same_db_def)

interpretation sameRedis: db_step_relation same_redis
  by unfold_locales (auto simp: same_redis_def)

lemma write_db_same_db: "(\<And>d. g (f d) = g d) \<Longrightarrow> keeps (same_db g) (write_db f)"
  by (rule keepsI) (simp add: write_db_run same_db_def)

lemma write_db_same_redis: "keeps same_redis (write_db f)"
  by (rule keepsI) (simp add: write_db_run same_redis_def)

lemma table_same_redis:
  "keeps same_redis (create_row tab setid r)" "keeps same_redis (create_rows tab setid rs)"
  "keeps same_redis (update_where tab setid rid P f)" "keeps same_redis (delete_where tab P)"
  "keeps same_redis (update_row rows tab setid rid i f)"
  unfolding create_row_def create_rows_def update_where_def delete_where_def update_row_def
  by (intro sameRedis.keeps_db_intros write_db_same_redis)+

lemma table_same_db:
  assumes "\<And>f d. g (tab f d) = g d" and "\<And>n d. g (d\<lparr>nextId := n\<rparr>) = g d"
  shows "keeps (same_db g) (create_row tab setid r)" "keeps (same_db g) (create_rows tab setid rs)"
    "keeps (same_db g) (update_where tab setid rid P f)" "keeps (same_db g) (delete_where tab P)"
    "keeps (same_db g) (update_row rows tab setid rid i f')"
  unfolding create_row_def create_rows_def update_where_def delete_where_def update_row_def
  by (intro sameDb.keeps_db_intros write_db_same_db; simp add: assms)+

lemma transaction_fails: "transaction m w = (Inl e, w') \<Longrightarrow> db w' = db w"
  by (auto simp: transaction_def split: prod.splits sum.splits)

end
