(* ===== verification/External.thy ===== *)
theory External
  imports Store
begin

text \<open>
  What the services call and this repository does not hold: node:crypto's AES-256-GCM and
  HMAC, bcrypt, the JWT library, GitHub's API, and the process environment. They are the
  fields of one record that the operations take as an argument; what the code relies on is
  stated as predicates over it (\<open>gcm_ok\<close> here), which theorems assume by name.
\<close>

record branch_data =
  bd_sha :: string
  bd_message :: string
  bd_authorName :: "string option"
  bd_authorLogin :: "string option"

record jwt_claims =
  jc_sub :: uuid
  jc_email :: string
  jc_name :: string
  jc_avatar :: "string option"

record external =
  x_env :: "string \<Rightarrow> string option"
  x_key :: buffer
  x_seal :: "buffer \<Rightarrow> buffer \<Rightarrow> buffer \<Rightarrow> buffer \<times> buffer"
  x_open :: "buffer \<Rightarrow> buffer \<Rightarrow> buffer \<Rightarrow> buffer \<Rightarrow> buffer option"
  x_hmac :: "string \<Rightarrow> buffer \<Rightarrow> string"
  x_bcryptHash :: "string \<Rightarrow> nat \<Rightarrow> buffer \<Rightarrow> string"
  x_bcryptCompare :: "string \<Rightarrow> string \<Rightarrow> bool"
  x_jwtSign :: "jwt_claims \<Rightarrow> string option \<Rightarrow> time \<Rightarrow> string \<Rightarrow> string"
  x_jwtVerify :: "string \<Rightarrow> string option \<Rightarrow> time \<Rightarrow> jwt_claims option"
  x_getBranch :: "int option \<Rightarrow> string \<Rightarrow> string \<Rightarrow> string \<Rightarrow> branch_data option"
  x_installationToken :: "int option \<Rightarrow> string option"

text \<open>
  AES-256-GCM with a 32-byte key and a 12-byte iv, as node documents it: the tag has 16
  bytes, the ciphertext has the length of the plaintext, and opening a sealed message with
  its iv and tag gives the message back. \<open>x_open\<close> is \<open>None\<close> where node throws.
\<close>

definition gcm_ok :: "external \<Rightarrow> bool" where
  "gcm_ok X \<longleftrightarrow> length (x_key X) = 32 \<and>
     (\<forall>iv p. length iv = 12 \<longrightarrow>
        length (fst (x_seal X (x_key X) iv p)) = length p \<and>
        length (snd (x_seal X (x_key X) iv p)) = 16 \<and>
        x_open X (x_key X) iv (snd (x_seal X (x_key X) iv p)) (fst (x_seal X (x_key X) iv p)) = Some p)"

text \<open>
  A concrete instance for the closed examples: a cipher that stores the plaintext with a
  constant tag, an HMAC that is the body, a bcrypt that looks at the first 72 bytes only
  (which is what bcrypt does), a JWT with a constant header that depends on the time, and a GitHub with one branch.
\<close>

definition sample_external :: external where
  "sample_external = \<lparr>
     x_env = (\<lambda>k. if k = ''WORKER_API_KEY'' then Some ''worker-key'' else None),
     x_key = replicate 32 CHR ''k'',
     x_seal = (\<lambda>k iv p. (p, replicate 16 CHR ''t'')),
     x_open = (\<lambda>k iv t c. if t = replicate 16 CHR ''t'' then Some c else None),
     x_hmac = (\<lambda>s b. b),
     x_bcryptHash = (\<lambda>p r salt. CHR ''$'' # take 72 p),
     x_bcryptCompare = (\<lambda>p h. CHR ''$'' # take 72 p = h),
     x_jwtSign = (\<lambda>c s t e. replicate 72 CHR ''h'' @ replicate (nat (t mod 10)) CHR ''t''),
     x_jwtVerify = (\<lambda>t s n. None),
     x_getBranch = (\<lambda>i ow r b. Some \<lparr>bd_sha = ''c0ffee'', bd_message = ''msg'',
                                        bd_authorName = Some ''ann'', bd_authorLogin = None\<rparr>),
     x_installationToken = (\<lambda>i. Some ''ghs'')\<rparr>"

lemma gcm_ok_sample: "gcm_ok sample_external"
  by (simp add: gcm_ok_def sample_external_def)

section \<open>The process environment: \<open>lib/url-config.ts\<close>\<close>

definition is_dev :: "external \<Rightarrow> bool" where
  "is_dev X \<longleftrightarrow> x_env X ''NODE_ENV'' = Some ''development''"

definition url_config_apiUrl :: "external \<Rightarrow> string" where
  "url_config_apiUrl X = or_else (x_env X ''NEXT_PUBLIC_API_URL'')
     (if is_dev X then ''http://localhost:3001'' else ''https://api.code2cloud.lakshman.me'')"

definition url_config_appUrl :: "external \<Rightarrow> string" where
  "url_config_appUrl X = or_else (x_env X ''NEXT_PUBLIC_APP_URL'')
     (if is_dev X then ''http://localhost:3000'' else ''https://code2cloud.lakshman.me'')"

definition url_config_deploy_domain :: "external \<Rightarrow> string" where
  "url_config_deploy_domain X = or_else (x_env X ''DEPLOY_DOMAIN'')
     (if is_dev X then ''localhost'' else ''preview.code2cloud.lakshman.me'')"

section \<open>\<open>Number(s)\<close> of an installation id\<close>

text \<open>
  \<open>Number\<close> on a string: surrounding blanks are ignored, the empty string is 0, a decimal
  numeral with an optional sign is its value; anything else is NaN here (\<open>None\<close>; hexadecimal
  and exponent notation do not occur in an installation id).
\<close>

definition digit_of :: "char \<Rightarrow> int option" where
  "digit_of c = (let n = of_char c :: int in if 48 \<le> n \<and> n \<le> 57 then Some (n - 48) else None)"

fun digits_value :: "int \<Rightarrow> string \<Rightarrow> int option" where
  "digits_value acc [] = Some acc"
| "digits_value acc (c # cs) =
     (case digit_of c of None \<Rightarrow> None | Some n \<Rightarrow> digits_value (10 * acc + n) cs)"

definition is_blank :: "char \<Rightarrow> bool" where
  "is_blank c \<longleftrightarrow> c \<in> {CHR '' '', CHR 0x09, CHR 0x0A, CHR 0x0B, CHR 0x0C, CHR 0x0D}"

definition line_end :: "char \<Rightarrow> bool" where
  \<comment> \<open>what the dot of a regular expression does not match\<close>
  "line_end c \<longleftrightarrow> c = CHR 0x0A \<or> c = CHR 0x0D"

definition starts_with :: "string \<Rightarrow> string \<Rightarrow> bool" where
  \<comment> \<open>\<open>s.startsWith(pat)\<close>\<close>
  "starts_with pat s \<longleftrightarrow> take (length pat) s = pat"

fun join_lines :: "string list \<Rightarrow> string" where
  \<comment> \<open>\<open>lines.join("\\n")\<close>, the lines of a text\<close>
  "join_lines [] = []"
| "join_lines [l] = l"
| "join_lines (l # ls) = l @ CHR 0x0A # join_lines ls"

definition js_trim :: "string \<Rightarrow> string" where
  "js_trim s = rev (dropWhile is_blank (rev (dropWhile is_blank s)))"

definition js_Number :: "string \<Rightarrow> int option" where
  "js_Number s =
     (case js_trim s of
        [] \<Rightarrow> Some 0
      | c # cs \<Rightarrow>
          if c = CHR ''-'' then (if cs = [] then None else map_option uminus (digits_value 0 cs))
          else if c = CHR ''+'' then (if cs = [] then None else digits_value 0 cs)
          else digits_value 0 (c # cs))"

end
