(* ===== verification/Encryption.thy ===== *)
theory Encryption
  imports External
begin

text \<open>
  \<open>common/utils/encryption.service.ts\<close>: the payload \<open>iv:tag:ciphertext\<close> in hexadecimal. The
  encodings (\<open>toString('hex')\<close>, \<open>Buffer.from(_, 'hex')\<close>, \<open>split(':')\<close>) are written out; AES-GCM
  itself is a parameter. The lemmas show that decoding inverts encoding, that splitting a
  payload gives its three parts back, and so that a decrypted ciphertext is the plaintext.
\<close>

section \<open>Hexadecimal\<close>

definition hex_digit :: "nat \<Rightarrow> char" where
  "hex_digit n = ''0123456789abcdef'' ! (n mod 16)"

definition hex_value :: "char \<Rightarrow> nat option" where
  "hex_value c = (let n = of_char c :: nat in
     if 48 \<le> n \<and> n \<le> 57 then Some (n - 48)
     else if 97 \<le> n \<and> n \<le> 102 then Some (n - 87)
     else if 65 \<le> n \<and> n \<le> 70 then Some (n - 55)
     else None)"

fun hex_encode :: "buffer \<Rightarrow> string" where
  "hex_encode [] = []"
| "hex_encode (c # cs) =
     hex_digit (of_char c div 16) # hex_digit (of_char c mod 16) # hex_encode cs"

fun hex_decode :: "string \<Rightarrow> buffer" where
  \<comment> \<open>\<open>Buffer.from(s, 'hex')\<close> stops at the first pair that is not two digits\<close>
  "hex_decode (a # b # cs) =
     (case (hex_value a, hex_value b) of
        (Some m, Some n) \<Rightarrow> char_of (16 * m + n) # hex_decode cs
      | _ \<Rightarrow> [])"
| "hex_decode _ = []"

lemma less_16_cases:
  "(n::nat) < 16 \<Longrightarrow> n \<in> {0,1,2,3,4,5,6,7,8,9,10,11,12,13,14,15}"
  by (simp add: numeral_eq_Suc less_Suc_eq)

lemma hex_value_digit [simp]: "n < 16 \<Longrightarrow> hex_value (hex_digit n) = Some n"
  by (drule less_16_cases) (auto simp: hex_value_def hex_digit_def)

lemma hex_digit_not_colon [simp]: "hex_digit n \<noteq> CHR '':''"
proof -
  have "n mod 16 < 16" by simp
  then show ?thesis
    by (drule_tac less_16_cases) (auto simp: hex_digit_def)
qed

lemma hex_decode_encode [simp]: "hex_decode (hex_encode b) = b"
  by (induction b) (simp_all add: div_less_iff_less_mult)

lemma length_hex_encode [simp]: "length (hex_encode b) = 2 * length b"
  by (induction b) simp_all

lemma hex_encode_Nil [simp]: "hex_encode b = [] \<longleftrightarrow> b = []"
  by (cases b) simp_all

lemma colon_not_in_hex [simp]: "CHR '':'' \<notin> set (hex_encode b)"
  by (induction b) (auto simp: hex_digit_not_colon [symmetric] dest: sym)

section \<open>Splitting a payload\<close>

fun split_on :: "char \<Rightarrow> string \<Rightarrow> string list" where
  "split_on c [] = [[]]"
| "split_on c (x # xs) =
     (if x = c then [] # split_on c xs
      else (case split_on c xs of [] \<Rightarrow> [[x]] | p # ps \<Rightarrow> (x # p) # ps))"

lemma split_on_none: "c \<notin> set xs \<Longrightarrow> split_on c xs = [xs]"
  by (induction xs) auto

lemma split_on_append: "c \<notin> set xs \<Longrightarrow> split_on c (xs @ c # ys) = xs # split_on c ys"
  by (induction xs) auto

definition nth_part :: "string list \<Rightarrow> nat \<Rightarrow> string option" where
  \<comment> \<open>array destructuring: a missing element is undefined\<close>
  "nth_part ps n = (if n < length ps then Some (ps ! n) else None)"

section \<open>The service\<close>

definition encryption_constructor :: "(string \<Rightarrow> string option) \<Rightarrow> string + buffer" where
  "encryption_constructor env =
     (case env ''ENCRYPTION_KEY'' of
        None \<Rightarrow> Inl ''Configuration key does not exist''
      | Some keyHex \<Rightarrow>
          if length keyHex \<noteq> 64 then Inl ''ENCRYPTION_KEY must be 32 bytes hex (64 chars)''
          else Inr (hex_decode keyHex))"

definition payload_of :: "external \<Rightarrow> buffer \<Rightarrow> string \<Rightarrow> string" where
  "payload_of X iv plainText =
     (let (encrypted, authTag) = x_seal X (x_key X) iv plainText
      in hex_encode iv @ '':'' @ hex_encode authTag @ '':'' @ hex_encode encrypted)"

definition encrypt :: "external \<Rightarrow> string \<Rightarrow> string handler" where
  "encrypt X plainText = andThen (randomBytes 12) (\<lambda>iv. ret (payload_of X iv plainText))"

definition decrypt :: "external \<Rightarrow> string \<Rightarrow> string + string" where
  "decrypt X payload =
     (let parts = split_on CHR '':'' payload;
          ivHex = nth_part parts 0; authTagHex = nth_part parts 1; encryptedHex = nth_part parts 2
      in if \<not> truthy_opt ivHex \<or> \<not> truthy_opt authTagHex \<or> \<not> truthy_opt encryptedHex
         then Inl ''Invalid encrypted payload format''
         else (case x_open X (x_key X) (hex_decode (the ivHex)) (hex_decode (the authTagHex))
                      (hex_decode (the encryptedHex)) of
                 None \<Rightarrow> Inl ''Unsupported state or unable to authenticate data''
               | Some p \<Rightarrow> Inr p))"

definition decryptM :: "external \<Rightarrow> string \<Rightarrow> string handler" where
  \<comment> \<open>\<open>decrypt\<close> where nothing catches what it throws\<close>
  "decryptM X payload = (case decrypt X payload of Inl e \<Rightarrow> throw (Thrown e) | Inr p \<Rightarrow> ret p)"

lemma split_payload:
  "split_on CHR '':'' (payload_of X iv p) =
     [hex_encode iv, hex_encode (snd (x_seal X (x_key X) iv p)), hex_encode (fst (x_seal X (x_key X) iv p))]"
  by (simp add: payload_of_def case_prod_unfold Let_def split_on_append split_on_none)

lemma decrypt_payload:
  assumes "gcm_ok X" and "length iv = 12"
  shows "decrypt X (payload_of X iv p) =
     (if p = [] then Inl ''Invalid encrypted payload format'' else Inr p)"
proof -
  from assms have ct: "length (fst (x_seal X (x_key X) iv p)) = length p"
    and tag: "length (snd (x_seal X (x_key X) iv p)) = 16"
    and op: "x_open X (x_key X) iv (snd (x_seal X (x_key X) iv p)) (fst (x_seal X (x_key X) iv p)) = Some p"
    by (auto simp: gcm_ok_def)
  have ne: "iv \<noteq> []" "snd (x_seal X (x_key X) iv p) \<noteq> []"
    and em: "fst (x_seal X (x_key X) iv p) = [] \<longleftrightarrow> p = []"
    using assms(2) tag ct by auto
  show ?thesis
    using ne em op by (simp add: decrypt_def split_payload nth_part_def truthy_def Let_def)
qed

lemma encrypt_run [action_simps]:
  "encrypt X p w =
     (Inr (payload_of X (map (rng w) [rng_pos w ..< rng_pos w + 12]) p), w\<lparr>rng_pos := rng_pos w + 12\<rparr>)"
  by (simp add: encrypt_def andThen_def action_simps)

lemma decryptM_run [action_simps]:
  "decryptM X s w = (case decrypt X s of Inl e \<Rightarrow> (Inl (Thrown e), w) | Inr p \<Rightarrow> (Inr p, w))"
  by (simp add: decryptM_def action_simps split: sum.splits)

lemma keeps_randomBytes: "keeps db_kept (randomBytes n)"
  by (rule keepsI) (simp add: randomBytes_run db_kept_def)

lemma keeps_encrypt: "keeps db_kept (encrypt X p)"
  by (rule keepsI) (simp add: encrypt_run db_kept_def)

lemma keeps_decryptM: "keeps db_kept (decryptM X s)"
  by (rule keepsI) (simp add: decryptM_run db_kept_def split: sum.splits)

end
