(* ===== verification/Queues.thy ===== *)
theory Queues
  imports Encryption
begin

text \<open>
  \<open>queues/queues.service.ts\<close> on the Redis lists and keys, and the two operations of the Go
  worker (\<open>apps/worker/internal/queue/queue.go\<close>) that take the jobs out again. The head of a
  model list is the left end of the Redis list. The locales state the two disciplines: a
  queue whose pending jobs are served in the order they came, and one that serves the newest
  first; each Redis list is an interpretation of the one it really has.
\<close>

definition BUILD_QUEUE_NAME :: string where "BUILD_QUEUE_NAME = ''build-queue''"
definition PROJECT_CLEANUP_QUEUE :: string where "PROJECT_CLEANUP_QUEUE = ''project-cleanup-queue''"
definition CANCEL_KEY_PREFIX :: string where "CANCEL_KEY_PREFIX = ''cancel:''"

section \<open>The service\<close>

definition redis_call :: "(redis \<Rightarrow> redis) \<Rightarrow> unit handler" where
  \<comment> \<open>one command; with the connection down the client throws\<close>
  "redis_call f w =
     (if redis_up (redis w) then (Inr (), w\<lparr>redis := f (redis w)\<rparr>)
      else (Inl (Thrown ''Redis connection error''), w))"

definition rpush_build :: "build_job \<Rightarrow> redis \<Rightarrow> redis" where
  "rpush_build j r = r\<lparr>build_queue := build_queue r @ [j]\<rparr>"

definition lpush_cleanup :: "cleanup_job \<Rightarrow> redis \<Rightarrow> redis" where
  "lpush_cleanup j r = r\<lparr>cleanup_queue := j # cleanup_queue r\<rparr>"

definition set_ex :: "(string \<times> uuid) \<Rightarrow> string \<Rightarrow> time \<Rightarrow> redis \<Rightarrow> redis" where
  "set_ex k v expires r = r\<lparr>redis_keys := (redis_keys r)(k := Some (v, expires))\<rparr>"

definition addBuildJob :: "build_job \<Rightarrow> uuid handler" where
  \<comment> \<open>the error is logged and thrown again\<close>
  "addBuildJob data =
     andThen (redis_call (rpush_build data)) (\<lambda>_. ret (job_deploymentId data))"

definition addProjectCleanupJob :: "cleanup_job \<Rightarrow> unit handler" where
  \<comment> \<open>the error is logged and swallowed\<close>
  "addProjectCleanupJob data = tryCatch (redis_call (lpush_cleanup data)) (\<lambda>_. ret ())"

definition publishCancelSignal :: "uuid \<Rightarrow> unit handler" where
  "publishCancelSignal deploymentId =
     andThen (gets now) (\<lambda>t.
     redis_call (set_ex (CANCEL_KEY_PREFIX, deploymentId) ''1'' (t + 300 * 1000)))"

definition getQueueStatus :: "(nat \<times> nat) handler" where
  "getQueueStatus =
     andThen (redis_call (\<lambda>r. r)) (\<lambda>_.
     gets (\<lambda>w. (length (build_queue (redis w)), length (cleanup_queue (redis w)))))"

section \<open>The worker's side\<close>

definition rpop :: "'a list \<Rightarrow> ('a \<times> 'a list) option" where
  "rpop xs = (if xs = [] then None else Some (last xs, butlast xs))"

definition waitForJob :: "redis \<Rightarrow> (build_job \<times> redis) option" where
  \<comment> \<open>\<open>BRPop\<close>: the right end of the build queue\<close>
  "waitForJob r = map_option (\<lambda>(j, q). (j, r\<lparr>build_queue := q\<rparr>)) (rpop (build_queue r))"

definition popProjectCleanup :: "redis \<Rightarrow> (cleanup_job \<times> redis) option" where
  "popProjectCleanup r = map_option (\<lambda>(j, q). (j, r\<lparr>cleanup_queue := q\<rparr>)) (rpop (cleanup_queue r))"

definition isCancelled :: "time \<Rightarrow> uuid \<Rightarrow> redis \<Rightarrow> bool" where
  "isCancelled t deploymentId r =
     (case redis_keys r (CANCEL_KEY_PREFIX, deploymentId) of
        None \<Rightarrow> False
      | Some (v, expires) \<Rightarrow> t < expires \<and> v = ''1'')"

definition clearCancelSignal :: "uuid \<Rightarrow> redis \<Rightarrow> redis" where
  "clearCancelSignal deploymentId r =
     r\<lparr>redis_keys := (redis_keys r)((CANCEL_KEY_PREFIX, deploymentId) := None)\<rparr>"

section \<open>Queue disciplines\<close>

fun serve_rounds ::
    "('j \<Rightarrow> 'r \<Rightarrow> 'r) \<Rightarrow> ('r \<Rightarrow> ('j \<times> 'r) option) \<Rightarrow> 'j list \<Rightarrow> 'r \<Rightarrow> 'j list \<times> 'r" where
  \<comment> \<open>rounds of one push and one pop: the jobs served, and the queue after them\<close>
  "serve_rounds push pop [] r = ([], r)"
| "serve_rounds push pop (j # js) r =
     (case pop (push j r) of
        None \<Rightarrow> ([], r)
      | Some (k, r') \<Rightarrow> (let (ks, r'') = serve_rounds push pop js r' in (k # ks, r'')))"

text \<open>
  A queue between a producer and a consumer: \<open>pending\<close> lists the waiting jobs in the order
  in which \<open>pop\<close> would hand them out.
\<close>

locale job_queue =
  fixes pending :: "'r \<Rightarrow> 'j list"
    and push :: "'j \<Rightarrow> 'r \<Rightarrow> 'r"
    and pop :: "'r \<Rightarrow> ('j \<times> 'r) option"
  assumes pop_None: "pop r = None \<longleftrightarrow> pending r = []"
    and pop_Some: "pop r = Some (j, r') \<Longrightarrow> pending r = j # pending r'"
begin

lemma pop_next: "pending r = j # js \<Longrightarrow> \<exists>r'. pop r = Some (j, r') \<and> pending r' = js"
  using pop_None [of r] pop_Some [of r] by (cases "pop r") auto

end

locale fifo_queue = job_queue +
  assumes pending_push: "pending (push j r) = pending r @ [j]"
begin

lemma pending_pushes: "pending (fold push js r) = pending r @ js"
  by (induction js arbitrary: r) (auto simp: pending_push)

text \<open>A job is served after exactly the jobs that were waiting before it.\<close>

lemma served_in_order:
  "pending r = [] \<Longrightarrow> pop (fold push (j # js) r) = Some (j', r') \<Longrightarrow> j' = j \<and> pending r' = js"
  using pop_Some [of "fold push (j # js) r" j' r'] pending_pushes [of "j # js" r] by auto

end

locale lifo_queue = job_queue +
  assumes pending_push: "pending (push j r) = j # pending r"
begin

lemma newest_first: "\<exists>r'. pop (push j r) = Some (j, r') \<and> pending r' = pending r"
  by (rule pop_next) (rule pending_push)

text \<open>Whatever was waiting is still waiting, however many rounds there are.\<close>

lemma waiting_starves: "fst (serve_rounds push pop js r) = js \<and> pending (snd (serve_rounds push pop js r)) = pending r"
proof (induction js arbitrary: r)
  case Nil
  then show ?case by simp
next
  case (Cons j js)
  obtain r' where "pop (push j r) = Some (j, r')" "pending r' = pending r"
    using newest_first by blast
  then show ?case using Cons.IH [of r'] by (simp add: case_prod_unfold Let_def)
qed

end

interpretation buildQ: lifo_queue "\<lambda>r. rev (build_queue r)" rpush_build waitForJob
  by unfold_locales
    (auto simp: waitForJob_def rpop_def rpush_build_def split: if_splits
      intro: append_butlast_last_id [symmetric] dest: arg_cong [where f = rev])

interpretation cleanupQ: fifo_queue "\<lambda>r. rev (cleanup_queue r)" lpush_cleanup popProjectCleanup
  by unfold_locales
    (auto simp: popProjectCleanup_def rpop_def lpush_cleanup_def split: if_splits)

section \<open>Facts about the service\<close>

lemma redis_call_run [action_simps]:
  "redis_call f w = (if redis_up (redis w) then (Inr (), w\<lparr>redis := f (redis w)\<rparr>)
                     else (Inl (Thrown ''Redis connection error''), w))"
  by (simp add: redis_call_def)

lemma addBuildJob_run [action_simps]:
  "addBuildJob j w =
     (if redis_up (redis w) then (Inr (job_deploymentId j), w\<lparr>redis := rpush_build j (redis w)\<rparr>)
      else (Inl (Thrown ''Redis connection error''), w))"
  by (simp add: addBuildJob_def andThen_def action_simps)

lemma addProjectCleanupJob_run [action_simps]:
  "addProjectCleanupJob j w =
     (Inr (), if redis_up (redis w) then w\<lparr>redis := lpush_cleanup j (redis w)\<rparr> else w)"
  by (simp add: addProjectCleanupJob_def tryCatch_def action_simps)

lemma publishCancelSignal_run [action_simps]:
  "publishCancelSignal i w =
     (if redis_up (redis w)
      then (Inr (), w\<lparr>redis := set_ex (CANCEL_KEY_PREFIX, i) ''1'' (now w + 300000) (redis w)\<rparr>)
      else (Inl (Thrown ''Redis connection error''), w))"
  by (simp add: publishCancelSignal_def action_simps)

lemma isCancelled_set [simp]:
  "isCancelled t i (set_ex (CANCEL_KEY_PREFIX, j) ''1'' e r) \<longleftrightarrow>
     (if i = j then t < e else isCancelled t i r)"
  by (simp add: isCancelled_def set_ex_def)

lemma redis_up_push [simp]:
  "redis_up (rpush_build j r) = redis_up r" "redis_up (lpush_cleanup c r) = redis_up r"
  "redis_up (set_ex k v e r) = redis_up r"
  by (simp_all add: rpush_build_def lpush_cleanup_def set_ex_def)

lemma keeps_redis_call: "keeps db_kept (redis_call f)"
  by (rule keepsI) (simp add: redis_call_run db_kept_def)

lemma keeps_addBuildJob: "keeps db_kept (addBuildJob j)"
  by (rule keepsI) (simp add: addBuildJob_run db_kept_def)

lemma keeps_addProjectCleanupJob: "keeps db_kept (addProjectCleanupJob j)"
  by (rule keepsI) (simp add: addProjectCleanupJob_run db_kept_def)

lemma keeps_publishCancelSignal: "keeps db_kept (publishCancelSignal i)"
  by (rule keepsI) (simp add: publishCancelSignal_run db_kept_def)

end
