(* ===== verification/Git.thy ===== *)
theory Git
  imports Queues
begin

text \<open>
  \<open>git/git.service.ts\<close> and \<open>git/git.controller.ts\<close>: the latest commit of a branch with its
  fallback, the installation token, framework detection from the manifests of a repository,
  and the check that an installation belongs to the user. GitHub's answers are parameters;
  \<open>JSON.parse\<close> is one too (\<open>parse\<close>), the values it returns are the datatype \<open>json\<close>.
\<close>

record commit_data =
  cd_sha :: string
  cd_message :: string
  cd_author :: "string option"

definition getLatestCommit ::
    "external \<Rightarrow> string \<Rightarrow> string \<Rightarrow> string \<Rightarrow> string \<Rightarrow> commit_data" where
  \<comment> \<open>any failure of the request is answered with the fallback\<close>
  "getLatestCommit X installationId ow repo branch =
     (case x_getBranch X (js_Number installationId) ow repo branch of
        Some b \<Rightarrow> \<lparr>cd_sha = bd_sha b, cd_message = bd_message b,
                   cd_author = (if truthy_opt (bd_authorName b) then bd_authorName b
                                else bd_authorLogin b)\<rparr>
      | None \<Rightarrow> \<lparr>cd_sha = ''HEAD'', cd_message = ''Initial deployment'', cd_author = Some ''System''\<rparr>)"

definition gitInstallationToken :: "external \<Rightarrow> string \<Rightarrow> string handler" where
  "gitInstallationToken X installationId =
     orThrow (x_installationToken X (js_Number installationId))
       (BadRequestException ''Failed to get installation token'')"

section \<open>Framework detection\<close>

datatype json =
  JNull | JBool bool | JNum int | JStr string | JArr "json list" | JObj "(string \<times> json) list"

fun js_truthy :: "json \<Rightarrow> bool" where
  "js_truthy JNull = False"
| "js_truthy (JBool b) = b"
| "js_truthy (JNum n) = (n \<noteq> 0)"
| "js_truthy (JStr s) = (s \<noteq> [])"
| "js_truthy _ = True"

fun member_of :: "json \<Rightarrow> string \<Rightarrow> json option" where
  \<comment> \<open>\<open>v.k\<close> of a non-null value: undefined unless an object has the key\<close>
  "member_of (JObj kvs) k = map_of (rev kvs) k"
| "member_of _ k = None"

fun spread_of :: "json option \<Rightarrow> (string \<times> json) list" where
  \<comment> \<open>the named entries of \<open>...v\<close>; of a string or an array only indices, which name no package\<close>
  "spread_of (Some (JObj kvs)) = kvs"
| "spread_of _ = []"

record detection =
  det_framework :: string
  det_installCommand :: string
  det_buildCommand :: string
  det_runCommand :: string
  det_outputDirectory :: string

definition detected :: "string \<Rightarrow> string \<Rightarrow> detection" where
  "detected fw out = \<lparr>det_framework = fw, det_installCommand = [], det_buildCommand = [],
     det_runCommand = [], det_outputDirectory = out\<rparr>"

definition nodeFrameworks :: "(string \<times> string \<times> string) list" where
  "nodeFrameworks = [
     (''next'', ''nextjs'', ''.next''),
     (''@nestjs/core'', ''nestjs'', ''dist''),
     (''nuxt'', ''nuxt'', ''.output/public''),
     (''express'', ''express'', ''.''),
     (''fastify'', ''fastify'', ''.''),
     (''vite'', ''vite'', ''dist''),
     (''@angular/core'', ''angular'', ''dist''),
     (''react-scripts'', ''create-react-app'', ''build''),
     (''vue'', ''vue'', ''dist''),
     (''@sveltejs/kit'', ''sveltekit'', ''build''),
     (''astro'', ''astro'', ''dist''),
     (''gatsby'', ''gatsby'', ''public'')]"

definition hasDependency :: "(string \<times> json) list \<Rightarrow> string \<Rightarrow> bool" where
  "hasDependency deps k =
     (case map_of (rev deps) k of None \<Rightarrow> False | Some v \<Rightarrow> js_truthy v)"

definition detectNode :: "json \<Rightarrow> detection option" where
  \<comment> \<open>the \<open>try\<close> block: reading a member of null throws\<close>
  "detectNode packageJson =
     (if packageJson = JNull then None
      else (let deps = spread_of (member_of packageJson ''dependencies'') @
                       spread_of (member_of packageJson ''devDependencies'')
            in case find (\<lambda>(dep, fw, out). hasDependency deps dep) nodeFrameworks of
                 Some (dep, fw, out) \<Rightarrow> Some (detected fw out)
               | None \<Rightarrow>
                   if hasDependency deps ''express'' \<or> hasDependency deps ''fastify'' \<or>
                      hasDependency deps ''koa''
                   then Some (detected ''node-server'' ''.'')
                   else Some (detected ''node'' ''.'')))"

fun str_includes :: "string \<Rightarrow> string \<Rightarrow> bool" where
  \<comment> \<open>\<open>s.includes(k)\<close>\<close>
  "str_includes [] k = (k = [])"
| "str_includes (c # cs) k = (take (length k) (c # cs) = k \<or> str_includes cs k)"

definition ascii_lower :: "string \<Rightarrow> string" where
  "ascii_lower = map (\<lambda>c. let n = of_char c :: nat in
     if 65 \<le> n \<and> n \<le> 90 then char_of (n + 32) else c)"

definition detectPython :: "string \<Rightarrow> detection" where
  "detectPython requirementsTxt =
     (let content = ascii_lower requirementsTxt in
      if str_includes content ''django'' then detected ''django'' ''staticfiles''
      else if str_includes content ''fastapi'' then detected ''fastapi'' ''.''
      else if str_includes content ''flask'' then detected ''flask'' ''.''
      else if str_includes content ''streamlit'' then detected ''streamlit'' ''.''
      else detected ''python'' ''.'')"

definition detectFrameworkFromContents ::
    "(string \<Rightarrow> json option) \<Rightarrow> string option \<Rightarrow> string option \<Rightarrow> detection" where
  "detectFrameworkFromContents parse pkg req =
     (let fromNode = (if truthy_opt pkg then Option.bind (parse (the pkg)) detectNode else None)
      in case fromNode of
           Some d \<Rightarrow> d
         | None \<Rightarrow> if truthy_opt req then detectPython (the req) else detected ''unknown'' [])"

lemma detected_simps [simp]:
  "det_framework (detected f p) = f" "det_outputDirectory (detected f p) = p"
  "det_installCommand (detected f p) = []" "det_buildCommand (detected f p) = []"
  "det_runCommand (detected f p) = []"
  by (simp_all add: detected_def)

lemma nodeFrameworks_distinct: "distinct (map fst nodeFrameworks)"
  by (simp add: nodeFrameworks_def)

section \<open>The controller's checks\<close>

definition verifyInstallation :: "uuid \<Rightarrow> string option \<Rightarrow> unit handler" where
  "verifyInstallation userId installationId =
     andThen (throwIf (\<not> truthy_opt installationId)
       (BadRequestException ''installationId is required'')) (\<lambda>_.
     andThen (gets (\<lambda>w. find (\<lambda>a. ga_userId a = userId \<and> ga_provider a = ''github'' \<and>
         ga_installationId a = installationId) (gitAccounts (db w)))) (\<lambda>account.
     throwIf (account = None)
       (BadRequestException ''GitHub account not found or access denied'')))"

record git_status =
  gs_connected :: bool
  gs_username :: "string option"
  gs_avatarUrl :: "string option"
  gs_accounts :: "(uuid \<times> string \<times> string option \<times> string option) list"

definition getStatus :: "uuid \<Rightarrow> git_status handler" where
  "getStatus userId =
     gets (\<lambda>w. let accounts = filter (\<lambda>a. ga_userId a = userId \<and> ga_provider a = ''github'')
                                 (gitAccounts (db w));
                   primary = find_or_first (\<lambda>a. truthy_opt (ga_installationId a)) accounts
       in \<lparr>gs_connected = (accounts \<noteq> [] \<and> list_ex (\<lambda>a. truthy_opt (ga_installationId a)) accounts),
           gs_username = map_option ga_username primary,
           gs_avatarUrl = Option.bind primary ga_avatarUrl,
           gs_accounts = map (\<lambda>a. (ga_id a, ga_username a, ga_avatarUrl a, ga_installationId a)) accounts\<rparr>)"

lemma keeps_git:
  "keeps db_kept (gitInstallationToken X i)" "keeps db_kept (verifyInstallation u i')"
  "keeps db_kept (getStatus u)"
  unfolding gitInstallationToken_def verifyInstallation_def getStatus_def
  by (intro kept.keeps_db_intros)+

end
