(* ===== verification/Urls.thy ===== *)
theory Urls
  imports External Encryption
begin

text \<open>
  \<open>common/utils/url.utils.ts\<close>: the host name of a deployment. The three regular expressions of
  \<open>sanitize\<close> are written as the list functions they denote; the lemmas characterise the result
  (alphabet, no double dash, no dash at an end, fixpoints).
\<close>

definition is_lower :: "char \<Rightarrow> bool" where
  "is_lower c \<longleftrightarrow> (let n = of_char c :: nat in 97 \<le> n \<and> n \<le> 122)"

definition is_upper :: "char \<Rightarrow> bool" where
  "is_upper c \<longleftrightarrow> (let n = of_char c :: nat in 65 \<le> n \<and> n \<le> 90)"

definition is_digit :: "char \<Rightarrow> bool" where
  "is_digit c \<longleftrightarrow> (let n = of_char c :: nat in 48 \<le> n \<and> n \<le> 57)"

definition to_lower :: "char \<Rightarrow> char" where
  "to_lower c = (if is_upper c then char_of ((of_char c :: nat) + 32) else c)"

definition url_char :: "char \<Rightarrow> bool" where
  \<comment> \<open>\<open>[a-z0-9-]\<close>\<close>
  "url_char c \<longleftrightarrow> is_lower c \<or> is_digit c \<or> c = CHR ''-''"

definition mask_char :: "char \<Rightarrow> char" where
  \<comment> \<open>\<open>replace(/[^a-z0-9-]/g, "-")\<close> on one character\<close>
  "mask_char c = (if url_char c then c else CHR ''-'')"

fun squeeze_dashes :: "string \<Rightarrow> string" where
  \<comment> \<open>\<open>replace(/-+/g, "-")\<close>\<close>
  "squeeze_dashes (a # b # cs) =
     (if a = CHR ''-'' \<and> b = CHR ''-'' then squeeze_dashes (b # cs)
      else a # squeeze_dashes (b # cs))"
| "squeeze_dashes cs = cs"

definition strip_lead :: "string \<Rightarrow> string" where
  \<comment> \<open>the \<open>^-\<close> of \<open>replace(/^-|-$/g, "")\<close>\<close>
  "strip_lead s = (case s of c # cs \<Rightarrow> if c = CHR ''-'' then cs else s | [] \<Rightarrow> [])"

definition strip_trail :: "string \<Rightarrow> string" where
  \<comment> \<open>the \<open>-$\<close> of the same expression\<close>
  "strip_trail s = (if s \<noteq> [] \<and> last s = CHR ''-'' then butlast s else s)"

definition sanitize :: "string \<Rightarrow> string" where
  "sanitize input =
     strip_trail (strip_lead (squeeze_dashes (map mask_char (map to_lower input))))"

definition random_suffix :: "nat \<Rightarrow> string handler" where
  \<comment> \<open>\<open>randomBytes(Math.ceil(length / 2)).toString("hex").slice(0, length)\<close>\<close>
  "random_suffix len = andThen (randomBytes ((len + 1) div 2)) (\<lambda>b. ret (take len (hex_encode b)))"

definition generateDeploymentUrl :: "external \<Rightarrow> string \<Rightarrow> string handler" where
  "generateDeploymentUrl X projectName =
     andThen (random_suffix 6) (\<lambda>hash.
     ret (''https://'' @ sanitize projectName @ ''-'' @ hash @ ''.'' @ url_config_deploy_domain X))"

section \<open>What \<open>sanitize\<close> returns\<close>

fun no_double_dash :: "string \<Rightarrow> bool" where
  "no_double_dash (a # b # cs) \<longleftrightarrow> \<not> (a = CHR ''-'' \<and> b = CHR ''-'') \<and> no_double_dash (b # cs)"
| "no_double_dash _ \<longleftrightarrow> True"

definition url_label :: "string \<Rightarrow> bool" where
  \<comment> \<open>empty, or a label over \<open>[a-z0-9-]\<close> with single dashes inside only\<close>
  "url_label s \<longleftrightarrow> (\<forall>c \<in> set s. url_char c) \<and> no_double_dash s \<and>
     (s \<noteq> [] \<longrightarrow> hd s \<noteq> CHR ''-'' \<and> last s \<noteq> CHR ''-'')"

lemma url_char_mask [simp]: "url_char (mask_char c)"
  by (simp add: mask_char_def url_char_def)

lemma set_squeeze: "set (squeeze_dashes s) \<subseteq> set s"
  by (induction s rule: squeeze_dashes.induct) auto

lemma squeeze_Cons_hd: "\<exists>t. squeeze_dashes (c # cs) = c # t"
  by (induction "c # cs" arbitrary: c cs rule: squeeze_dashes.induct) auto

lemma no_double_squeeze: "no_double_dash (squeeze_dashes s)"
proof (induction s rule: squeeze_dashes.induct)
  case (1 a b cs)
  then show ?case
    using squeeze_Cons_hd [of b cs] by auto
qed auto

lemma no_double_ConsD: "no_double_dash (c # cs) \<Longrightarrow> no_double_dash cs"
  by (cases cs) auto

lemma no_double_butlast: "no_double_dash s \<Longrightarrow> no_double_dash (butlast s)"
proof (induction s rule: no_double_dash.induct)
  case (1 a b cs)
  then show ?case by (cases cs) auto
qed auto

lemma no_double_last:
  "no_double_dash s \<Longrightarrow> s \<noteq> [] \<Longrightarrow> last s = CHR ''-'' \<Longrightarrow> butlast s \<noteq> [] \<Longrightarrow> last (butlast s) \<noteq> CHR ''-''"
proof (induction s rule: no_double_dash.induct)
  case (1 a b cs)
  then show ?case by (cases cs) (auto split: if_splits)
qed auto

lemma no_double_hd:
  "no_double_dash (CHR ''-'' # cs) \<Longrightarrow> cs \<noteq> [] \<Longrightarrow> hd cs \<noteq> CHR ''-''"
  by (cases cs) auto

lemma strip_lead_props:
  assumes "no_double_dash s"
  shows "no_double_dash (strip_lead s) \<and> (strip_lead s \<noteq> [] \<longrightarrow> hd (strip_lead s) \<noteq> CHR ''-'')"
  using assms no_double_ConsD [of "CHR ''-''"] no_double_hd
  by (auto simp: strip_lead_def split: list.splits)

lemma hd_butlast_same: "butlast s \<noteq> [] \<Longrightarrow> hd (butlast s) = hd s"
  by (cases s) (auto split: if_splits)

lemma strip_trail_props:
  assumes "no_double_dash s" and "s \<noteq> [] \<longrightarrow> hd s \<noteq> CHR ''-''"
  shows "no_double_dash (strip_trail s) \<and>
    (strip_trail s \<noteq> [] \<longrightarrow> hd (strip_trail s) \<noteq> CHR ''-'' \<and> last (strip_trail s) \<noteq> CHR ''-'')"
  using assms no_double_last [of s] no_double_butlast [of s]
  by (auto simp: strip_trail_def hd_butlast_same)

lemma set_strip: "set (strip_lead s) \<subseteq> set s" "set (strip_trail s) \<subseteq> set s"
  by (auto simp: strip_lead_def strip_trail_def split: list.splits dest: in_set_butlastD)

lemma sanitize_label: "url_label (sanitize input)"
proof -
  let ?m = "map mask_char (map to_lower input)"
  let ?q = "squeeze_dashes ?m"
  have q: "no_double_dash ?q" by (rule no_double_squeeze)
  have "set (sanitize input) \<subseteq> set ?m"
    using set_squeeze [of ?m] set_strip(1) [of ?q] set_strip(2) [of "strip_lead ?q"]
    by (auto simp: sanitize_def)
  then have "\<forall>c \<in> set (sanitize input). url_char c" by auto
  then show ?thesis
    using strip_lead_props [OF q] strip_trail_props [of "strip_lead ?q"]
    by (auto simp: url_label_def sanitize_def)
qed

lemma squeeze_fixpoint: "no_double_dash s \<Longrightarrow> squeeze_dashes s = s"
  by (induction s rule: squeeze_dashes.induct) auto

lemma url_char_lower: "url_char c \<Longrightarrow> to_lower c = c \<and> mask_char c = c"
  by (auto simp: url_char_def to_lower_def is_upper_def is_lower_def is_digit_def mask_char_def Let_def)

lemma sanitize_fixpoint:
  assumes "url_label s"
  shows "sanitize s = s"
proof -
  have "map mask_char (map to_lower s) = s"
    using assms url_char_lower by (auto simp: url_label_def intro!: map_idI)
  moreover have "squeeze_dashes s = s"
    using assms by (simp add: url_label_def squeeze_fixpoint)
  moreover have "strip_trail (strip_lead s) = s"
    using assms by (cases s) (auto simp: url_label_def strip_lead_def strip_trail_def)
  ultimately show ?thesis by (simp add: sanitize_def)
qed

lemma random_suffix_run [action_simps]:
  "random_suffix len w =
     (Inr (take len (hex_encode (map (rng w) [rng_pos w ..< rng_pos w + (len + 1) div 2]))),
      w\<lparr>rng_pos := rng_pos w + (len + 1) div 2\<rparr>)"
  by (simp add: random_suffix_def andThen_def action_simps)

lemma length_random_suffix:
  "random_suffix len w = (Inr s, w') \<Longrightarrow> length s = len"
  by (auto simp: random_suffix_run)

lemma generateDeploymentUrl_run [action_simps]:
  "generateDeploymentUrl X n w =
     (Inr (''https://'' @ sanitize n @ ''-'' @
           take 6 (hex_encode (map (rng w) [rng_pos w ..< rng_pos w + 3])) @ ''.'' @ url_config_deploy_domain X),
      w\<lparr>rng_pos := rng_pos w + 3\<rparr>)"
  by (simp add: generateDeploymentUrl_def random_suffix_def andThen_def action_simps)

lemma keeps_generateDeploymentUrl: "keeps db_kept (generateDeploymentUrl X n)"
  by (rule keepsI) (simp add: generateDeploymentUrl_run db_kept_def)

end
