(* ===== verification/Samples.thy ===== *)
theory Samples
  imports External
begin

text \<open>
  One small concrete state for the closed examples of the development: two users with a linked
  GitHub account each, one project of each user, a deployment, a domain, a configuration and
  two log lines. It satisfies every constraint of the schema.
\<close>

definition sample_users :: "user list" where
  "sample_users = [
     new_user\<lparr>u_id := 0, u_email := ''ann@x.org'', u_name := Some ''Ann''\<rparr>,
     new_user\<lparr>u_id := 1, u_email := ''bob@x.org'', u_name := Some ''Bob''\<rparr>]"

definition sample_accounts :: "git_account list" where
  "sample_accounts = [
     \<lparr>ga_id = 2, ga_provider = ''github'', ga_providerId = ''g1'', ga_username = ''ann'',
      ga_avatarUrl = None, ga_installationId = Some ''42'', ga_accessToken = ''t'',
      ga_refreshToken = None, ga_userId = 0\<rparr>,
     \<lparr>ga_id = 3, ga_provider = ''github'', ga_providerId = ''g2'', ga_username = ''bob'',
      ga_avatarUrl = None, ga_installationId = Some ''43'', ga_accessToken = ''t'',
      ga_refreshToken = None, ga_userId = 1\<rparr>]"

definition sample_shop :: project where
  "sample_shop = new_project\<lparr>p_id := 4, p_name := ''shop'', p_userId := 0, p_gitRepoOwner := ''ann'',
     p_gitRepoName := ''shop'', p_gitBranch := ''main''\<rparr>"

definition sample_blog :: project where
  "sample_blog = new_project\<lparr>p_id := 5, p_name := ''blog'', p_userId := 1, p_gitRepoOwner := ''bob'',
     p_gitRepoName := ''blog'', p_gitBranch := ''main''\<rparr>"

definition sample_ready :: deployment where
  "sample_ready = new_deployment\<lparr>d_id := 7, d_projectId := 4, d_status := READY,
     d_isSuccess := True, d_startedAt := 100\<rparr>"

definition sample_building :: deployment where
  "sample_building = new_deployment\<lparr>d_id := 8, d_projectId := 5, d_status := BUILDING, d_startedAt := 100\<rparr>"

definition sample_log :: "uuid \<Rightarrow> time \<Rightarrow> log_entry" where
  "sample_log i t = \<lparr>log_id = i, log_deploymentId = 7, log_source = BUILD, log_timestamp = t,
     log_message = ''m''\<rparr>"

definition sample_db :: db where
  "sample_db = \<lparr>users = sample_users, gitAccounts = sample_accounts,
     projects = [sample_shop, sample_blog], envVars = [],
     deployments = [sample_ready, sample_building],
     domains = [new_domain\<lparr>dom_id := 9, dom_name := ''shop.x.org'', dom_projectId := 4\<rparr>],
     systemConfigs = [(new_config 0)\<lparr>cfg_id := 10\<rparr>],
     logEntries = [sample_log 11 101, sample_log 12 102], nextId = 20\<rparr>"

definition sample_redis :: redis where
  "sample_redis = \<lparr>redis_up = True, build_queue = [], cleanup_queue = [], redis_keys = (\<lambda>_. None)\<rparr>"

definition sample_world :: world where
  "sample_world = \<lparr>db = sample_db, redis = sample_redis, now = 1000,
     rng = (\<lambda>n. CHR ''r''), rng_pos = 0, outbox = []\<rparr>"

lemmas sample_defs =
  sample_world_def sample_db_def sample_redis_def sample_users_def sample_accounts_def
  sample_shop_def sample_blog_def sample_ready_def sample_building_def sample_log_def
  new_user_def new_project_def new_deployment_def new_domain_def new_config_def new_env_var_def

lemma sample_db_ok: "db_ok (db sample_world)"
  by (simp add: db_ok_def uniq_def fks_def fresh_def sample_defs)

lemma sample_redis_up: "redis_up (redis sample_world)"
  by (simp add: sample_defs)

end
