(* ===== verification/Frames.thy ===== *)
theory Frames
  imports Git Urls Samples
begin

text \<open>
  Frame rules of the operations that do not write to the database or to Redis, and the shape
  of a list of rows whose values are encrypted one after the other.
\<close>

lemma read_only_same_db:
  "keeps (same_db g) (randomBytes n)" "keeps (same_db g) (redis_call h)" 
  "keeps (same_db g) (encrypt X p)" "keeps (same_db g) (decryptM X p)"
  "keeps (same_db g) (generateDeploymentUrl X nm)" 
  "keeps (same_db g) (addBuildJob j)" "keeps (same_db g) (publishCancelSignal i)"
  "keeps (same_db g) (addProjectCleanupJob c)"
  by (rule keepsI, simp add: action_simps same_db_def split: sum.splits)+

lemma read_only_same_redis:
  "keeps same_redis (randomBytes n)" "keeps same_redis (encrypt X p)" "keeps same_redis (decryptM X p)"
  "keeps same_redis (generateDeploymentUrl X nm)"
  by (rule keepsI, simp add: action_simps same_redis_def split: sum.splits)+

lemma addBuildJob_fails: "fails_within same_redis (addBuildJob j)"
  by (simp add: fails_within_def addBuildJob_run same_redis_def)

definition sealed_as :: "external \<Rightarrow> ('x \<Rightarrow> string) \<Rightarrow> ('x \<Rightarrow> string \<Rightarrow> 'r) \<Rightarrow> 'x \<Rightarrow> 'r \<Rightarrow> bool" where
  "sealed_as X val mk x r \<longleftrightarrow> (\<exists>iv. length iv = 12 \<and> r = mk x (payload_of X iv (val x)))"

lemma collect_encrypt:
  "\<exists>rows. collect (\<lambda>x. andThen (encrypt X (val x)) (\<lambda>c. ret (mk x c))) xs w =
     (Inr rows, w\<lparr>rng_pos := rng_pos w + 12 * length xs\<rparr>) \<and> list_all2 (sealed_as X val mk) xs rows"
proof (induction xs arbitrary: w)
  case Nil
  show ?case by (simp add: action_simps)
next
  case (Cons x xs)
  let ?iv = "map (rng w) [rng_pos w ..< rng_pos w + 12]"
  obtain rows where rows: "collect (\<lambda>x. andThen (encrypt X (val x)) (\<lambda>c. ret (mk x c))) xs
       (w\<lparr>rng_pos := rng_pos w + 12\<rparr>) = (Inr rows, w\<lparr>rng_pos := rng_pos w + 12 + 12 * length xs\<rparr>)"
    and all: "list_all2 (sealed_as X val mk) xs rows"
    using Cons.IH [of "w\<lparr>rng_pos := rng_pos w + 12\<rparr>"] by auto
  have "collect (\<lambda>x. andThen (encrypt X (val x)) (\<lambda>c. ret (mk x c))) (x # xs) w =
      (Inr (mk x (payload_of X ?iv (val x)) # rows), w\<lparr>rng_pos := rng_pos w + 12 * length (x # xs)\<rparr>)"
    using rows by (simp add: action_simps andThen_def add_ac)
  moreover have "sealed_as X val mk x (mk x (payload_of X ?iv (val x)))"
    unfolding sealed_as_def by (intro exI [of _ ?iv]) simp
  ultimately show ?case using all by blast
qed

end
