(* ===== verification/Deployments.thy ===== *)
theory Deployments
  imports Frames
begin

text \<open>
  \<open>deployments/deployments.service.ts\<close> and the query parsing of its controller: triggering a
  deployment, the dashboard and history lists, the details page, the cursor-based log
  polling, the status endpoint and the cancellation.
\<close>

section \<open>The build job\<close>

definition build_config_of :: "project \<Rightarrow> build_config" where
  "build_config_of p = \<lparr>
     bc_installCommand = or_undefined (p_installCommand p),
     bc_buildCommand = or_undefined (p_buildCommand p),
     bc_runCommand = or_undefined (p_runCommand p),
     bc_outputDir = or_undefined (p_outputDirectory p),
     bc_framework = p_framework p\<rparr>"

definition RAILPACK_PYTHON_VERSION :: string where
  "RAILPACK_PYTHON_VERSION = ''RAILPACK_PYTHON_VERSION''"

definition python_var :: "string option \<Rightarrow> (string \<times> string) list" where
  "python_var v = (if truthy_opt v then [(RAILPACK_PYTHON_VERSION, the v)] else [])"

definition production_env :: "external \<Rightarrow> env_var list \<Rightarrow> (string \<times> string) list" where
  \<comment> \<open>the production variables, decrypted; one that does not decrypt is logged and left out\<close>
  "production_env X vars = fold (\<lambda>v acc.
     if PRODUCTION \<notin> set (ev_targets v) then acc
     else (case decrypt X (ev_value v) of
             Inl _ \<Rightarrow> acc
           | Inr plain \<Rightarrow> obj_set (ev_key v) plain acc)) vars []"

definition github_url :: "project \<Rightarrow> string" where
  "github_url p = ''https://github.com/'' @ p_gitRepoOwner p @ ''/'' @ p_gitRepoName p @ ''.git''"

definition region_of :: "db \<Rightarrow> uuid \<Rightarrow> string" where
  \<comment> \<open>\<open>systemConfig?.defaultRegion || "us-ashburn-1"\<close>\<close>
  "region_of d uid = or_else (map_option cfg_defaultRegion
     (find (\<lambda>c. cfg_userId c = uid) (systemConfigs d))) default_region"

definition project_domains :: "db \<Rightarrow> uuid \<Rightarrow> domain list" where
  "project_domains d i = order_asc dom_createdAt (filter (\<lambda>m. dom_projectId m = i) (domains d))"

definition latest_deployment :: "db \<Rightarrow> uuid \<Rightarrow> deployment option" where
  "latest_deployment d i =
     head_opt (order_desc d_startedAt (filter (\<lambda>r. d_projectId r = i) (deployments d)))"

definition latest_in_progress :: "db \<Rightarrow> uuid \<Rightarrow> bool" where
  "latest_in_progress d i =
     (case latest_deployment d i of None \<Rightarrow> False | Some r \<Rightarrow> in_progress (d_status r))"

section \<open>Triggering a deployment\<close>

definition snapshot :: "world \<Rightarrow> uuid \<Rightarrow> project \<Rightarrow> commit_data \<Rightarrow> string option \<Rightarrow> deployment" where
  \<comment> \<open>the data of \<open>tx.deployment.create\<close>\<close>
  "snapshot w uid p commit url = new_deployment\<lparr>
     d_projectId := p_id p, d_initiatorId := Some uid, d_status := QUEUED,
     d_deploymentUrl := url, d_branch := p_gitBranch p, d_commitHash := cd_sha commit,
     d_commitMessage := Some (cd_message commit), d_commitAuthor := cd_author commit,
     d_deploymentRegion := region_of (db w) uid, d_startedAt := now w\<rparr>"

definition record_deployment ::
    "uuid \<Rightarrow> project \<Rightarrow> commit_data \<Rightarrow> string option \<Rightarrow> deployment handler" where
  \<comment> \<open>the transaction: the deployment row, and the project's configuration is deployed now\<close>
  "record_deployment uid p commit url =
     transaction (
       andThen (gets (\<lambda>w. snapshot w uid p commit url)) (\<lambda>row.
       andThen (deployment_create row) (\<lambda>deployment.
       andThen (gets now) (\<lambda>t.
       andThen (project_update (p_id p) (\<lambda>q. q\<lparr>p_configChanged := False, p_updatedAt := t\<rparr>)) (\<lambda>_.
       ret deployment)))))"

definition manual_job ::
    "external \<Rightarrow> project \<Rightarrow> env_var list \<Rightarrow> domain list \<Rightarrow> string \<Rightarrow> commit_data \<Rightarrow> deployment \<Rightarrow> build_job" where
  \<comment> \<open>the payload handed to \<open>addBuildJob\<close>\<close>
  "manual_job X p vars doms installation commit dep = \<lparr>
     job_deploymentId = d_id dep, job_projectId = p_id p, job_projectName = p_name p,
     job_gitUrl = github_url p, job_installationId = js_Number installation,
     job_branch = p_gitBranch p, job_commitHash = cd_sha commit,
     job_rootDirectory = or_undefined (Some (p_rootDirectory p)),
     job_buildConfig = build_config_of p, job_domains = map dom_name doms,
     job_envVars = obj_spread (production_env X vars) (python_var (p_pythonVersion p)),
     job_previousDeploymentId = None\<rparr>"

definition deploymentsService_create :: "external \<Rightarrow> uuid \<Rightarrow> uuid \<Rightarrow> deployment handler" where
  "deploymentsService_create X userId projectId =
     andThen (gets (\<lambda>w. owned_project userId projectId (db w))) (\<lambda>found.
     andThen (orThrow found (NotFoundException ''Project not found'')) (\<lambda>project.
     andThen (gets (\<lambda>w. filter (\<lambda>e. ev_projectId e = p_id project) (envVars (db w)))) (\<lambda>vars.
     andThen (gets (\<lambda>w. project_domains (db w) (p_id project))) (\<lambda>doms.
     andThen (gets (\<lambda>w. filter (\<lambda>a. ga_userId a = userId) (gitAccounts (db w)))) (\<lambda>accounts.
     andThen (throwIf (accounts = []) (BadRequestException ''No linked GitHub accounts found.'')) (\<lambda>_.
     andThen (gets (\<lambda>w. latest_in_progress (db w) projectId)) (\<lambda>busy.
     andThen (throwIf busy (BadRequestException
       ''A deployment is already in progress for this project.'')) (\<lambda>_.
     andThen (orThrow (find_or_first (\<lambda>a. ga_username a = p_gitRepoOwner project) accounts)
       (Thrown ''TypeError'')) (\<lambda>account.
     andThen (throwIf (\<not> truthy_opt (ga_installationId account))
       (BadRequestException ''Selected GitHub account is not installed.'')) (\<lambda>_.
     let installation = the (ga_installationId account);
         commit = getLatestCommit X installation (p_gitRepoOwner project) (p_gitRepoName project)
                    (p_gitBranch project)
     in
     andThen (record_deployment userId project commit (map_option dom_name (head_opt doms))) (\<lambda>deployment.
     andThen (addBuildJob (manual_job X project vars doms installation commit deployment)) (\<lambda>_.
     ret deployment))))))))))))"

section \<open>Lists and details\<close>

definition deploymentsService_findAll :: "uuid \<Rightarrow> deployment list handler" where
  "deploymentsService_findAll userId = gets (\<lambda>w.
     prisma_take 10 (order_desc d_startedAt
       (filter (\<lambda>r. project_owner (db w) (d_projectId r) = Some userId) (deployments (db w)))))"

definition deploymentsService_findAllByProject :: "uuid \<Rightarrow> uuid \<Rightarrow> deployment list handler" where
  "deploymentsService_findAllByProject userId projectId =
     andThen (gets (\<lambda>w. length (filter (\<lambda>p. p_id p = projectId \<and> p_userId p = userId)
                                  (projects (db w))))) (\<lambda>count.
     andThen (throwIf (count = 0) (NotFoundException ''Project not found'')) (\<lambda>_.
     gets (\<lambda>w. prisma_take 20 (order_desc d_startedAt
       (filter (\<lambda>r. d_projectId r = projectId) (deployments (db w)))))))"

definition deploymentsService_findOne :: "uuid \<Rightarrow> uuid \<Rightarrow> deployment handler" where
  "deploymentsService_findOne userId i =
     andThen (gets (\<lambda>w. owned_deployment userId i (db w))) (\<lambda>found.
     orThrow found (NotFoundException ''Deployment not found''))"

section \<open>Log polling\<close>

record logs_page =
  lp_logs :: "log_entry list"
  lp_nextCursor :: "time option"
  lp_hasMore :: bool
  lp_status :: deployment_status
  lp_isLive :: bool

fun int_prefix :: "int option \<Rightarrow> string \<Rightarrow> int option" where
  "int_prefix acc [] = acc"
| "int_prefix acc (c # cs) =
     (case digit_of c of
        None \<Rightarrow> acc
      | Some n \<Rightarrow> int_prefix (Some (10 * (case acc of None \<Rightarrow> 0 | Some a \<Rightarrow> a) + n)) cs)"

definition js_parseInt :: "string \<Rightarrow> int option" where
  \<comment> \<open>\<open>parseInt(s, 10)\<close>; \<open>None\<close> is NaN\<close>
  "js_parseInt s =
     (case dropWhile is_blank s of
        [] \<Rightarrow> None
      | c # cs \<Rightarrow> if c = CHR ''-'' then map_option uminus (int_prefix None cs)
                  else if c = CHR ''+'' then int_prefix None cs
                  else int_prefix None (c # cs))"

definition limit_param :: "string option \<Rightarrow> int option" where
  \<comment> \<open>\<open>limit ? parseInt(limit, 10) : undefined\<close>; NaN and undefined are both falsy later\<close>
  "limit_param limit = (if truthy_opt limit then js_parseInt (the limit) else None)"

definition page_size :: "int option \<Rightarrow> int" where
  \<comment> \<open>\<open>Math.min(options.limit || 200, 500)\<close>\<close>
  "page_size limit =
     min (case limit of None \<Rightarrow> 200 | Some n \<Rightarrow> if n = 0 then 200 else n) 500"

definition matching_logs :: "db \<Rightarrow> uuid \<Rightarrow> log_source option \<Rightarrow> time option \<Rightarrow> log_entry list" where
  \<comment> \<open>the \<open>where\<close> and \<open>orderBy\<close> of the query\<close>
  "matching_logs d i source after = order_asc log_timestamp (filter (\<lambda>l.
     log_deploymentId l = i \<and>
     (case source of None \<Rightarrow> True | Some s \<Rightarrow> log_source l = s) \<and>
     (case after of None \<Rightarrow> True | Some t \<Rightarrow> t < log_timestamp l)) (logEntries d))"

definition logs_page_of :: "deployment_status \<Rightarrow> int \<Rightarrow> log_entry list \<Rightarrow> logs_page" where
  "logs_page_of status asked logs = \<lparr>
     lp_logs = logs,
     lp_nextCursor = (if logs = [] then None else Some (log_timestamp (last logs))),
     lp_hasMore = (int (length logs) = asked),
     lp_status = status,
     lp_isLive = in_progress status\<rparr>"

definition deploymentsService_getLogs ::
    "uuid \<Rightarrow> uuid \<Rightarrow> log_source option \<Rightarrow> time option \<Rightarrow> int option \<Rightarrow> logs_page handler" where
  "deploymentsService_getLogs userId deploymentId source after limit =
     andThen (gets (\<lambda>w. owned_deployment userId deploymentId (db w))) (\<lambda>found.
     andThen (orThrow found (NotFoundException ''Deployment not found'')) (\<lambda>deployment.
     gets (\<lambda>w. logs_page_of (d_status deployment) (page_size limit)
       (prisma_take (page_size limit) (matching_logs (db w) deploymentId source after)))))"

section \<open>Status changes\<close>

definition deploymentsService_updateStatus :: "uuid \<Rightarrow> uuid \<Rightarrow> deployment_status \<Rightarrow> deployment handler" where
  "deploymentsService_updateStatus userId deploymentId status =
     andThen (gets (\<lambda>w. owned_deployment userId deploymentId (db w))) (\<lambda>found.
     andThen (orThrow found (NotFoundException ''Deployment not found'')) (\<lambda>_.
     deployment_update deploymentId (\<lambda>r. r\<lparr>d_status := status\<rparr>)))"

definition elapsed_seconds :: "time \<Rightarrow> time \<Rightarrow> int" where
  \<comment> \<open>\<open>Math.floor((Date.now() - startedAt.getTime()) / 1000)\<close>\<close>
  "elapsed_seconds t started = (t - started) div 1000"

definition status_name :: "deployment_status \<Rightarrow> string" where
  "status_name s = (case s of QUEUED \<Rightarrow> ''QUEUED'' | BUILDING \<Rightarrow> ''BUILDING''
     | DEPLOYING \<Rightarrow> ''DEPLOYING'' | READY \<Rightarrow> ''READY'' | FAILED \<Rightarrow> ''FAILED''
     | CANCELED \<Rightarrow> ''CANCELED'' | EXPIRED \<Rightarrow> ''EXPIRED'' | SUPERSEDED \<Rightarrow> ''SUPERSEDED'')"

definition deploymentsService_cancel :: "uuid \<Rightarrow> uuid \<Rightarrow> deployment handler" where
  "deploymentsService_cancel userId deploymentId =
     andThen (gets (\<lambda>w. owned_deployment userId deploymentId (db w))) (\<lambda>found.
     andThen (orThrow found (NotFoundException ''Deployment not found'')) (\<lambda>deployment.
     andThen (throwIf (\<not> in_progress (d_status deployment)) (BadRequestException
       (''Deployment cannot be cancelled in status: '' @ status_name (d_status deployment)))) (\<lambda>_.
     andThen (gets now) (\<lambda>t.
     andThen (deployment_update deploymentId (\<lambda>r. r\<lparr>d_status := CANCELED, d_finishedAt := Some t,
       d_duration := Some (elapsed_seconds t (d_startedAt deployment))\<rparr>)) (\<lambda>updated.
     andThen (publishCancelSignal deploymentId) (\<lambda>_.
     ret updated))))))"

section \<open>The invariant\<close>

lemma keeps_record_deployment: "keeps db_kept (record_deployment u p c url)"
  unfolding record_deployment_def by (intro kept.keeps_db_intros keeps_tables)

lemma keeps_deployments:
  "keeps db_kept (deploymentsService_create X u p)"
  "keeps db_kept (deploymentsService_findAll u)"
  "keeps db_kept (deploymentsService_findAllByProject u p)"
  "keeps db_kept (deploymentsService_findOne u i)"
  "keeps db_kept (deploymentsService_getLogs u i s a l)"
  "keeps db_kept (deploymentsService_updateStatus u i st)"
  "keeps db_kept (deploymentsService_cancel u i)"
  unfolding deploymentsService_create_def deploymentsService_findAll_def deploymentsService_findAllByProject_def
    deploymentsService_findOne_def deploymentsService_getLogs_def deploymentsService_updateStatus_def
    deploymentsService_cancel_def Let_def
  by (intro kept.keeps_db_intros keeps_tables keeps_record_deployment keeps_addBuildJob
      keeps_publishCancelSignal)+

end
