(* ===== verification/Numbers.thy ===== *)
theory Numbers
  imports Complex_Main "HOL-Library.Log_Nat"
begin

text \<open>
  The arithmetic of JavaScript numbers as far as the services use it: a quotient or product of
  non-negative numbers is rounded to 53 significant bits (ties to even), \<open>Math.round\<close> rounds
  halves up, \<open>Math.floor\<close> is \<open>floor\<close>. \<open>double\<close> is exact for the numbers that occur here (below
  2 to the 53). The lemmas bound the error of one rounding, and of a percentage.
\<close>

definition round_even :: "rat \<Rightarrow> int" where
  "round_even y = (let f = \<lfloor>y\<rfloor>; r = y - of_int f in
     if r < 1 / 2 then f else if 1 / 2 < r then f + 1 else if even f then f else f + 1)"

definition scale_of :: "rat \<Rightarrow> nat" where
  \<comment> \<open>the number of binary places that gives the mantissa 53 bits\<close>
  "scale_of x = (let (p, q) = quotient_of x; k = nat (53 + bitlen q - bitlen p) in
     if 2 ^ 53 \<le> x * 2 ^ k then k - 1 else k)"

definition double :: "rat \<Rightarrow> rat" where
  "double x = (if x \<le> 0 then 0 else of_int (round_even (x * 2 ^ scale_of x)) / 2 ^ scale_of x)"

definition Math_round :: "rat \<Rightarrow> int" where
  "Math_round x = \<lfloor>x + 1 / 2\<rfloor>"

definition js_divide :: "int \<Rightarrow> int \<Rightarrow> rat" where
  "js_divide a b = double (of_int a / of_int b)"

definition round_quotient :: "int \<Rightarrow> int \<Rightarrow> int" where
  \<comment> \<open>\<open>Math.round(a / b)\<close>\<close>
  "round_quotient a b = Math_round (js_divide a b)"

definition round_percent :: "int \<Rightarrow> int \<Rightarrow> int" where
  \<comment> \<open>\<open>Math.round((a / b) * 100)\<close>\<close>
  "round_percent a b = Math_round (double (js_divide a b * 100))"

section \<open>The error of a rounding\<close>

lemma round_even_error: "\<bar>of_int (round_even y) - y\<bar> \<le> (1 / 2 :: rat)"
proof -
  have "of_int \<lfloor>y\<rfloor> \<le> y" "y < of_int \<lfloor>y\<rfloor> + 1" by linarith+
  then show ?thesis by (auto simp: round_even_def Let_def)
qed

lemma scale_of_large:
  assumes "0 < x" and "x < 2 ^ 52"
  shows "2 ^ 52 \<le> x * 2 ^ scale_of x"
proof -
  obtain p q where pq: "quotient_of x = (p, q)" by (cases "quotient_of x")
  have x: "x = of_int p / of_int q" and q: "0 < q"
    using quotient_of_div [OF pq] quotient_of_denom_pos [OF pq] by auto
  have p: "0 < p" using assms(1) x q by (simp add: zero_less_divide_iff)
  let ?k = "nat (53 + bitlen q - bitlen p)"
  have bp: "2 ^ nat (bitlen p - 1) \<le> p" "p < 2 ^ nat (bitlen p)" using bitlen_bounds [OF p] by auto
  have bq: "2 ^ nat (bitlen q - 1) \<le> q" "q < 2 ^ nat (bitlen q)" using bitlen_bounds [OF q] by auto
  have pos: "0 < bitlen p" "0 < bitlen q" using bp(2) bq(2) p q by (auto intro!: linorder_not_le [THEN iffD1])
  have k: "bitlen p \<le> 53 + bitlen q"
  proof (rule ccontr)
    assume "\<not> ?thesis"
    then have le: "nat (bitlen q) + 53 \<le> nat (bitlen p - 1)" using pos by linarith
    have "(2::int) ^ (nat (bitlen q) + 53) \<le> 2 ^ nat (bitlen p - 1)" using le by (intro power_increasing) auto
    then have "q * 2 ^ 53 < p" using bp(1) bq(2) by (simp add: power_add)
    then have "(of_int (q * 2 ^ 53) :: rat) < of_int p" by (simp only: of_int_less_iff)
    then have "2 ^ 53 < x" using q by (simp add: x field_simps)
    then show False using assms(2) by simp
  qed
  have e: "nat (bitlen p - 1) + ?k = 52 + nat (bitlen q)" using k pos by linarith
  have "2 ^ 52 * q \<le> 2 ^ 52 * 2 ^ nat (bitlen q)" using bq(2) by simp
  also have "\<dots> = 2 ^ nat (bitlen p - 1) * 2 ^ ?k" by (simp only: e [symmetric] power_add [symmetric])
  also have "\<dots> \<le> p * 2 ^ ?k" using bp(1) by simp
  finally have "(of_int (2 ^ 52 * q) :: rat) \<le> of_int (p * 2 ^ ?k)" by (simp only: of_int_le_iff)
  then have low: "2 ^ 52 \<le> x * 2 ^ ?k" using q by (simp add: x field_simps)
  show ?thesis
  proof (cases "2 ^ 53 \<le> x * 2 ^ ?k")
    case True
    then have "?k \<noteq> 0" using assms(2) by (intro notI) simp
    then obtain j where "?k = Suc j" using not0_implies_Suc by blast
    then show ?thesis using True by (simp add: scale_of_def pq Let_def)
  next
    case False
    then show ?thesis using low by (simp add: scale_of_def pq Let_def)
  qed
qed

lemma double_error:
  assumes "0 \<le> x" and "x < 2 ^ 52"
  shows "\<bar>double x - x\<bar> \<le> x / 2 ^ 53"
proof (cases "x = 0")
  case True
  then show ?thesis by (simp add: double_def)
next
  case False
  then have x: "0 < x" using assms by simp
  let ?s = "2 ^ scale_of x :: rat"
  have s: "0 < ?s" by simp
  have "\<bar>of_int (round_even (x * ?s)) - x * ?s\<bar> \<le> 1 / 2" by (rule round_even_error)
  also have "\<dots> \<le> x * ?s / 2 ^ 53" using scale_of_large [OF x assms(2)] by simp
  finally have "\<bar>of_int (round_even (x * ?s)) - x * ?s\<bar> / ?s \<le> x * ?s / 2 ^ 53 / ?s"
    by (intro divide_right_mono) auto
  moreover have "\<bar>of_int (round_even (x * ?s)) - x * ?s\<bar> / ?s = \<bar>double x - x\<bar>"
  proof -
    have "double x - x = (of_int (round_even (x * ?s)) - x * ?s) / ?s"
      using x by (simp add: double_def diff_divide_distrib)
    then show ?thesis by (simp add: abs_divide)
  qed
  ultimately show ?thesis by simp
qed

lemma double_nonneg: "0 \<le> double x"
proof (cases "x \<le> 0")
  case False
  have "0 \<le> \<lfloor>x * 2 ^ scale_of x\<rfloor>" using False by simp
  then have "0 \<le> round_even (x * 2 ^ scale_of x)" by (auto simp: round_even_def Let_def)
  then show ?thesis by (simp add: double_def)
qed (simp add: double_def)

lemma double_error_le:
  assumes "0 \<le> x" and "x < 2 ^ 52"
  shows "double x \<le> x + x / 2 ^ 53" and "x - x / 2 ^ 53 \<le> double x"
  using double_error [OF assms] by linarith+

lemma percent_error:
  assumes "0 \<le> a" and "0 < b" and "a \<le> 2 ^ 20 * b"
  shows "\<bar>double (js_divide a b * 100) - 100 * (of_int a / of_int b)\<bar> \<le> 300 * (of_int a / of_int b) / 2 ^ 53"
proof -
  let ?x = "of_int a / of_int b :: rat"
  have x: "0 \<le> ?x" using assms by simp
  have "(of_int a :: rat) \<le> of_int (2 ^ 20 * b)" using assms(3) by (simp only: of_int_le_iff)
  then have x20: "?x \<le> 2 ^ 20" using assms(2) by (simp add: field_simps)
  have d: "js_divide a b \<le> ?x + ?x / 2 ^ 53" "?x - ?x / 2 ^ 53 \<le> js_divide a b"
    using double_error_le [OF x] x20 by (auto simp: js_divide_def)
  have y0: "0 \<le> js_divide a b * 100" by (simp add: js_divide_def double_nonneg)
  have "js_divide a b * 100 < 2 ^ 52" using d(1) x20 by simp
  from double_error_le [OF y0 this] d x show ?thesis by (simp add: abs_le_iff)
qed

lemma round_percent_bounds:
  assumes "0 \<le> a" and "0 < b" and "a \<le> 2 ^ 20 * b"
  shows "0 \<le> round_percent a b" and "a \<le> b \<Longrightarrow> round_percent a b \<le> 100"
    and "101 * b \<le> 100 * a \<Longrightarrow> 100 < round_percent a b"
proof -
  let ?x = "of_int a / of_int b :: rat"
  let ?d = "double (js_divide a b * 100)"
  have e: "?d \<le> 100 * ?x + 300 * ?x / 2 ^ 53" "100 * ?x - 300 * ?x / 2 ^ 53 \<le> ?d"
    using percent_error [OF assms] by linarith+
  show "0 \<le> round_percent a b"
    using double_nonneg [of "js_divide a b * 100"] by (simp add: round_percent_def Math_round_def)
  show "round_percent a b \<le> 100" if "a \<le> b"
  proof -
    have "(of_int a :: rat) \<le> of_int b" using that by simp
    then have "?x \<le> 1" using assms(2) by simp
    then have "?d + 1 / 2 < 101" using e(1) by simp
    then show ?thesis by (simp add: round_percent_def Math_round_def floor_le_iff)
  qed
  show "100 < round_percent a b" if "101 * b \<le> 100 * a"
  proof -
    have "(of_int (101 * b) :: rat) \<le> of_int (100 * a)" using that by (simp only: of_int_le_iff)
    then have x: "101 \<le> 100 * ?x" using assms(2) by (simp add: field_simps)
    have "101 \<le> ?d + 1 / 2" using e(2) x by simp
    then have "101 \<le> \<lfloor>?d + 1 / 2\<rfloor>" by (simp add: le_floor_iff)
    then show ?thesis by (simp add: round_percent_def Math_round_def)
  qed
qed

end
