(* ===== verification/Analytics.thy ===== *)
theory Analytics
  imports Deployments Numbers
begin

text \<open>
  \<open>analytics/analytics.service.ts\<close>: the overview of a user and the analytics of a project over
  the last thirty days. A calendar day is the number of days since the epoch (the key
  \<open>toISOString().split("T")[0]\<close>; the server's clock runs in UTC, so that
  \<open>setDate(getDate() + 1)\<close> adds 24 hours). Averages and percentages are the rounded quotients
  of \<open>Numbers\<close>. The order of equally busy projects, which the query leaves open, is here the
  order of their first deployment in the window.
\<close>

section \<open>Windows and days\<close>

definition day_ms :: int where "day_ms = 24 * 60 * 60 * 1000"

definition day_of :: "time \<Rightarrow> int" where
  "day_of t = t div day_ms"

function days_between :: "time \<Rightarrow> time \<Rightarrow> int list" where
  \<comment> \<open>the keys the loop \<open>while (current <= endDate)\<close> creates\<close>
  "days_between current endDate =
     (if current \<le> endDate then day_of current # days_between (current + day_ms) endDate else [])"
  by pat_completeness auto
termination
  by (relation "measure (\<lambda>(c, e). nat (e + 1 - c))") (auto simp: day_ms_def)

declare days_between.simps [simp del]

record day_count =
  dc_date :: int
  dc_total :: nat
  dc_success :: nat
  dc_failed :: nat

definition init_days :: "(int \<Rightarrow> 'v) \<Rightarrow> time \<Rightarrow> time \<Rightarrow> (int \<times> 'v) list" where
  \<comment> \<open>\<open>dayMap.set(key, ...)\<close> for every day of the range\<close>
  "init_days mk startDate endDate =
     fold (\<lambda>k m. AList.update k (mk k) m) (days_between startDate endDate) []"

definition bump_day :: "(deployment \<Rightarrow> 'v \<Rightarrow> 'v) \<Rightarrow> deployment \<Rightarrow> (int \<times> 'v) list \<Rightarrow> (int \<times> 'v) list" where
  \<comment> \<open>one turn of the filling loop: an entry that is not there is skipped\<close>
  "bump_day f d m =
     (let key = day_of (d_startedAt d) in
      case map_of m key of None \<Rightarrow> m | Some entry \<Rightarrow> AList.update key (f d entry) m)"

definition count_deployment :: "deployment \<Rightarrow> day_count \<Rightarrow> day_count" where
  "count_deployment d e = e\<lparr>dc_total := dc_total e + 1,
     dc_success := (if d_isSuccess d then dc_success e + 1 else dc_success e),
     dc_failed := (if d_status d = FAILED then dc_failed e + 1 else dc_failed e)\<rparr>"

definition groupByDay :: "deployment list \<Rightarrow> time \<Rightarrow> time \<Rightarrow> day_count list" where
  "groupByDay ds startDate endDate = order_asc dc_date (map snd
     (fold (bump_day count_deployment) ds
       (init_days (\<lambda>k. \<lparr>dc_date = k, dc_total = 0, dc_success = 0, dc_failed = 0\<rparr>) startDate endDate)))"

record day_trend =
  dt_date :: int
  dt_avgDuration :: int
  dt_count :: nat
  dt_totalDuration :: int

definition add_duration :: "deployment \<Rightarrow> day_trend \<Rightarrow> day_trend" where
  "add_duration d e = (case d_duration d of
       None \<Rightarrow> e
     | Some n \<Rightarrow> (let e' = e\<lparr>dt_count := dt_count e + 1, dt_totalDuration := dt_totalDuration e + n\<rparr>
        in e'\<lparr>dt_avgDuration := round_quotient (dt_totalDuration e') (int (dt_count e'))\<rparr>))"

definition timed :: "deployment \<Rightarrow> bool" where
  \<comment> \<open>\<open>d.duration !== null && d.isSuccess === true\<close>\<close>
  "timed d \<longleftrightarrow> d_duration d \<noteq> None \<and> d_isSuccess d"

definition computeBuildTimeTrend :: "deployment list \<Rightarrow> time \<Rightarrow> time \<Rightarrow> (int \<times> int) list" where
  "computeBuildTimeTrend ds startDate endDate = order_asc fst (map (\<lambda>(k, e). (dt_date e, dt_avgDuration e))
     (fold (\<lambda>d m. if timed d then bump_day add_duration d m else m) ds
       (init_days (\<lambda>k. \<lparr>dt_date = k, dt_avgDuration = 0, dt_count = 0, dt_totalDuration = 0\<rparr>)
         startDate endDate)))"

section \<open>Figures\<close>

definition duration_or_0 :: "deployment \<Rightarrow> int" where
  "duration_or_0 d = (case d_duration d of None \<Rightarrow> 0 | Some n \<Rightarrow> n)"

definition average_build_time :: "deployment list \<Rightarrow> int" where
  "average_build_time ds =
     (let completed = filter timed ds in
      if completed = [] then 0
      else round_quotient (sum_list (map duration_or_0 completed)) (int (length completed)))"

definition finished_status :: "deployment_status \<Rightarrow> bool" where
  "finished_status s \<longleftrightarrow> s \<in> {READY, EXPIRED, FAILED}"

definition success_rate :: "deployment list \<Rightarrow> int" where
  "success_rate ds =
     (let total = length (filter (\<lambda>d. finished_status (d_status d)) ds);
          success = length (filter d_isSuccess ds)
      in if total = 0 then 100 else round_percent (int success) (int total))"

definition status_distribution :: "deployment list \<Rightarrow> deployment_status \<Rightarrow> nat option" where
  \<comment> \<open>\<open>groupBy(["status"])\<close> with its counts: a status without deployments has no entry\<close>
  "status_distribution ds s =
     (let n = length (filter (\<lambda>d. d_status d = s) ds) in if n = 0 then None else Some n)"

definition project_counts :: "deployment list \<Rightarrow> (uuid \<times> nat) list" where
  \<comment> \<open>\<open>groupBy(["projectId"])\<close>, the largest counts first, at most ten\<close>
  "project_counts ds = prisma_take 10 (order_desc (\<lambda>(i, n). int n)
     (map (\<lambda>i. (i, length (filter (\<lambda>d. d_projectId d = i) ds))) (rev (remdups (rev (map d_projectId ds))))))"

record project_count =
  pc_projectId :: uuid
  pc_projectName :: string
  pc_framework :: string
  pc_count :: nat

definition named_count :: "db \<Rightarrow> uuid \<times> nat \<Rightarrow> project_count" where
  "named_count d = (\<lambda>(i, n). let p = find (\<lambda>p. p_id p = i) (projects d) in \<lparr>
     pc_projectId = i, pc_projectName = or_else (map_option p_name p) ''Unknown'',
     pc_framework = or_else (map_option p_framework p) ''unknown'', pc_count = n\<rparr>)"

section \<open>The service\<close>

record overview =
  ov_totalDeployments :: nat
  ov_totalProjects :: nat
  ov_deploymentsThisWeek :: nat
  ov_avgBuildTime :: int
  ov_successRate :: int
  ov_deploymentsOverTime :: "day_count list"
  ov_statusDistribution :: "deployment_status \<Rightarrow> nat option"
  ov_deploymentsByProject :: "project_count list"
  ov_buildTimeTrend :: "(int \<times> int) list"

definition days_ago :: "int \<Rightarrow> time \<Rightarrow> time" where
  "days_ago n t = t - n * 24 * 60 * 60 * 1000"

definition since :: "time \<Rightarrow> deployment list \<Rightarrow> deployment list" where
  \<comment> \<open>\<open>startedAt: { gte: t }\<close>, newest first\<close>
  "since t ds = order_desc d_startedAt (filter (\<lambda>d. t \<le> d_startedAt d) ds)"

definition deployments_of_user :: "db \<Rightarrow> uuid \<Rightarrow> deployment list" where
  "deployments_of_user d u = filter (\<lambda>r. project_owner d (d_projectId r) = Some u) (deployments d)"

definition getOverview :: "uuid \<Rightarrow> overview handler" where
  "getOverview userId = gets (\<lambda>w.
     let t = now w; thirtyDaysAgo = days_ago 30 t; sevenDaysAgo = days_ago 7 t;
         all = deployments_of_user (db w) userId; recent = since thirtyDaysAgo all
     in \<lparr>ov_totalDeployments = length all,
         ov_totalProjects = length (filter (\<lambda>p. p_userId p = userId) (projects (db w))),
         ov_deploymentsThisWeek = length (since sevenDaysAgo all),
         ov_avgBuildTime = average_build_time recent,
         ov_successRate = success_rate recent,
         ov_deploymentsOverTime = groupByDay recent thirtyDaysAgo t,
         ov_statusDistribution = status_distribution all,
         ov_deploymentsByProject =
           map (named_count (db w)) (project_counts (filter (\<lambda>r. thirtyDaysAgo \<le> d_startedAt r) all)),
         ov_buildTimeTrend = computeBuildTimeTrend recent thirtyDaysAgo t\<rparr>)"

record recent_deployment =
  rd_id :: uuid
  rd_status :: deployment_status
  rd_startedAt :: time
  rd_finishedAt :: "time option"
  rd_duration :: "int option"
  rd_commitHash :: string
  rd_commitMessage :: "string option"
  rd_branch :: string

definition recent_of :: "deployment \<Rightarrow> recent_deployment" where
  "recent_of d = \<lparr>rd_id = d_id d, rd_status = d_status d, rd_startedAt = d_startedAt d,
     rd_finishedAt = d_finishedAt d, rd_duration = d_duration d, rd_commitHash = d_commitHash d,
     rd_commitMessage = d_commitMessage d, rd_branch = d_branch d\<rparr>"

record project_analytics =
  pa_projectId :: uuid
  pa_projectName :: string
  pa_framework :: string
  pa_totalDeployments :: nat
  pa_deploymentsThisWeek :: nat
  pa_avgBuildTime :: int
  pa_successRate :: int
  pa_fastestBuild :: int
  pa_slowestBuild :: int
  pa_statusDistribution :: "deployment_status \<Rightarrow> nat option"
  pa_deploymentsOverTime :: "day_count list"
  pa_buildTimeTrend :: "(int \<times> int) list"
  pa_recentActivity :: "recent_deployment list"

definition build_times :: "deployment list \<Rightarrow> int list" where
  "build_times ds = filter (\<lambda>n. 0 < n) (map duration_or_0 (filter timed ds))"

definition getProjectAnalytics :: "uuid \<Rightarrow> uuid \<Rightarrow> project_analytics handler" where
  "getProjectAnalytics userId projectId =
     andThen (gets (\<lambda>w. owned_project userId projectId (db w))) (\<lambda>found.
     andThen (orThrow found (NotFoundException ''Project not found'')) (\<lambda>project.
     gets (\<lambda>w.
       let t = now w; thirtyDaysAgo = days_ago 30 t; sevenDaysAgo = days_ago 7 t;
           all = filter (\<lambda>r. d_projectId r = projectId) (deployments (db w));
           recent = since thirtyDaysAgo all; buildTimes = build_times recent
       in \<lparr>pa_projectId = p_id project, pa_projectName = p_name project,
           pa_framework = p_framework project,
           pa_totalDeployments = length all, pa_deploymentsThisWeek = length (since sevenDaysAgo all),
           pa_avgBuildTime = average_build_time recent, pa_successRate = success_rate recent,
           pa_fastestBuild = (if buildTimes = [] then 0 else Min (set buildTimes)),
           pa_slowestBuild = (if buildTimes = [] then 0 else Max (set buildTimes)),
           pa_statusDistribution = status_distribution all,
           pa_deploymentsOverTime = groupByDay recent thirtyDaysAgo t,
           pa_buildTimeTrend = computeBuildTimeTrend recent thirtyDaysAgo t,
           pa_recentActivity = map recent_of (take 10 recent)\<rparr>)))"

lemma keeps_analytics:
  "keeps db_kept (getOverview u)" "keeps db_kept (getProjectAnalytics u i)"
  unfolding getOverview_def getProjectAnalytics_def Let_def by (intro kept.keeps_db_intros)+

end
