(* ===== verification/AnalyticsLaws.thy ===== *)
theory AnalyticsLaws
  imports Analytics Samples
begin

text \<open>
  What \<open>analytics/analytics.service.ts\<close> promises: the per-day lists are exactly the per-day
  counts and averages, one entry for each of the 31 days of the window; the success rate is a
  percentage as long as only finished deployments count as successes, which a superseded
  deployment breaks.
\<close>

section \<open>The loops over a map of days\<close>

lemma day_of_next: "day_of (t + day_ms) = day_of t + 1"
  by (simp add: day_of_def day_ms_def)

lemma days_between_upto:
  "days_between s e = (if s \<le> e then [day_of s .. day_of s + (e - s) div day_ms] else [])"
proof (induction s e rule: days_between.induct)
  case (1 s e)
  show ?case
  proof (cases "s \<le> e")
    case True
    have rec: "days_between s e = day_of s # days_between (s + day_ms) e"
      using True by (subst days_between.simps) simp
    show ?thesis
    proof (cases "s + day_ms \<le> e")
      case True
      have "(e - s) div day_ms = (e - (s + day_ms)) div day_ms + 1"
        using True by (simp add: day_ms_def)
      moreover have "0 \<le> (e - (s + day_ms)) div day_ms"
        using True by (intro pos_imp_zdiv_nonneg_iff [THEN iffD2]) (auto simp: day_ms_def)
      ultimately show ?thesis
        using 1 True \<open>s \<le> e\<close>
        by (subst rec) (simp add: day_of_next upto_rec1 [of "day_of s"] add.assoc add.commute [of 1])
    next
      case False
      then have "(e - s) div day_ms = 0" using \<open>s \<le> e\<close> by (intro div_pos_pos_trivial) auto
      then show ?thesis using 1 False \<open>s \<le> e\<close> by (subst rec) (simp add: upto_rec1)
    qed
  next
    case False
    then show ?thesis by (subst days_between.simps) simp
  qed
qed

lemma days_between_sorted: "sorted (days_between s e)" "distinct (days_between s e)"
  by (simp_all add: days_between_upto)

lemma update_new: "k \<notin> fst ` set m \<Longrightarrow> AList.update k v m = m @ [(k, v)]"
  by (induction m) auto

lemma update_table:
  "distinct ks \<Longrightarrow> k \<in> set ks \<Longrightarrow>
   AList.update k v (map (\<lambda>x. (x, g x)) ks) = map (\<lambda>x. (x, if x = k then v else g x)) ks"
proof (induction ks)
  case (Cons a ks)
  then show ?case by (cases "a = k") (auto intro!: map_cong)
qed simp

lemma map_of_table: "map_of (map (\<lambda>x. (x, g x)) ks) k = (if k \<in> set ks then Some (g k) else None)"
  by (induction ks) auto

lemma fold_update_new:
  "distinct ks \<Longrightarrow> set ks \<inter> fst ` set m = {} \<Longrightarrow>
   fold (\<lambda>k m. AList.update k (mk k) m) ks m = m @ map (\<lambda>k. (k, mk k)) ks"
proof (induction ks arbitrary: m)
  case (Cons k ks)
  then show ?case by (subst fold_simps) (subst Cons.IH, auto simp: update_new)
qed simp

lemma init_days_table: "init_days mk s e = map (\<lambda>k. (k, mk k)) (days_between s e)"
  by (simp add: init_days_def fold_update_new days_between_sorted)

lemma bump_day_table:
  "distinct ks \<Longrightarrow> bump_day f d (map (\<lambda>x. (x, g x)) ks) =
     map (\<lambda>x. (x, if x = day_of (d_startedAt d) then f d (g x) else g x)) ks"
  by (auto simp: bump_day_def Let_def map_of_table update_table intro!: map_cong)

definition on_day :: "int \<Rightarrow> deployment list \<Rightarrow> deployment list" where
  "on_day k ds = filter (\<lambda>d. day_of (d_startedAt d) = k) ds"

lemma bump_days_table:
  assumes "distinct ks"
  shows "fold (\<lambda>d m. if P d then bump_day f d m else m) ds (map (\<lambda>x. (x, g x)) ks) =
     map (\<lambda>x. (x, fold f (filter P (on_day x ds)) (g x))) ks"
proof (induction ds arbitrary: g)
  case Nil
  then show ?case by (simp add: on_day_def)
next
  case (Cons d ds)
  let ?g = "\<lambda>x. if P d \<and> x = day_of (d_startedAt d) then f d (g x) else g x"
  have "(if P d then bump_day f d (map (\<lambda>x. (x, g x)) ks) else map (\<lambda>x. (x, g x)) ks) = map (\<lambda>x. (x, ?g x)) ks"
    using bump_day_table [OF assms] by (auto intro!: map_cong)
  then show ?case using Cons.IH [of ?g] by (auto simp: on_day_def intro!: map_cong)
qed

section \<open>Deployments per day\<close>

definition day_summary :: "deployment list \<Rightarrow> int \<Rightarrow> day_count" where
  "day_summary ds k = \<lparr>dc_date = k, dc_total = length (on_day k ds),
     dc_success = length (filter d_isSuccess (on_day k ds)),
     dc_failed = length (filter (\<lambda>d. d_status d = FAILED) (on_day k ds))\<rparr>"

lemma fold_count:
  "fold count_deployment ds e = e\<lparr>dc_total := dc_total e + length ds,
     dc_success := dc_success e + length (filter d_isSuccess ds),
     dc_failed := dc_failed e + length (filter (\<lambda>d. d_status d = FAILED) ds)\<rparr>"
  by (induction ds arbitrary: e) (simp_all add: count_deployment_def)

lemma groupByDay_days: "groupByDay ds s e = map (day_summary ds) (days_between s e)"
proof -
  let ?z = "\<lambda>k. \<lparr>dc_date = k, dc_total = 0, dc_success = 0, dc_failed = 0\<rparr>"
  have "fold (bump_day count_deployment) ds (init_days ?z s e) =
      map (\<lambda>x. (x, day_summary ds x)) (days_between s e)"
    using bump_days_table [where P = "\<lambda>d. True" and f = count_deployment and g = ?z and ds = ds,
        OF days_between_sorted(2) [of s e]]
    by (simp add: init_days_table fold_count day_summary_def)
  then show ?thesis
    by (simp add: groupByDay_def order_asc_def comp_def sort_key_id_if_sorted day_summary_def
        days_between_sorted cong: map_cong)
qed

theorem groupByDay_exact:
  "groupByDay ds s e = map (day_summary ds) (if s \<le> e then [day_of s .. day_of s + (e - s) div day_ms] else [])"
  by (simp add: groupByDay_days days_between_upto)

lemma sum_on_days:
  "distinct ks \<Longrightarrow> (\<forall>d \<in> set ds. day_of (d_startedAt d) \<in> set ks) \<Longrightarrow>
   sum_list (map (\<lambda>k. length (on_day k ds)) ks) = length ds"
proof (induction ds)
  case Nil
  then show ?case by (simp add: on_day_def)
next
  case (Cons d ds)
  have "sum_list (map (\<lambda>k. length (on_day k (d # ds))) ks) =
      sum_list (map (\<lambda>k. (if day_of (d_startedAt d) = k then 1 else 0) + length (on_day k ds)) ks)"
    by (rule arg_cong [where f = sum_list]) (auto simp: on_day_def)
  also have "\<dots> = 1 + length ds"
    using Cons by (simp add: sum_list_addf sum_list_distinct_conv_sum_set)
  finally show ?case by simp
qed

section \<open>Build times per day\<close>

lemma fold_durations:
  "\<forall>d \<in> set ds. d_duration d \<noteq> None \<Longrightarrow> ds \<noteq> [] \<Longrightarrow>
   fold add_duration ds e = e\<lparr>dt_count := dt_count e + length ds,
     dt_totalDuration := dt_totalDuration e + sum_list (map duration_or_0 ds),
     dt_avgDuration := round_quotient (dt_totalDuration e + sum_list (map duration_or_0 ds))
       (int (dt_count e + length ds))\<rparr>"
proof (induction ds arbitrary: e)
  case (Cons d ds)
  then obtain n where n: "d_duration d = Some n" by auto
  show ?case
  proof (cases "ds = []")
    case True
    then show ?thesis by (simp add: add_duration_def n duration_or_0_def Let_def)
  next
    case False
    have "\<forall>d \<in> set ds. d_duration d \<noteq> None" using Cons.prems by simp
    from Cons.IH [OF this False, of "add_duration d e"] show ?thesis
      by (simp add: add_duration_def n duration_or_0_def [of d] Let_def add.assoc)
  qed
qed simp

lemma trend_days:
  "computeBuildTimeTrend ds s e = map (\<lambda>k. (k, average_build_time (on_day k ds))) (days_between s e)"
proof -
  let ?z = "\<lambda>k. \<lparr>dt_date = k, dt_avgDuration = 0, dt_count = 0, dt_totalDuration = 0\<rparr>"
  have day: "(\<lambda>(k, e). (dt_date e, dt_avgDuration e)) (x, fold add_duration (filter timed (on_day x ds)) (?z x)) =
      (x, average_build_time (on_day x ds))" for x
  proof (cases "filter timed (on_day x ds) = []")
    case False
    have "\<forall>d \<in> set (filter timed (on_day x ds)). d_duration d \<noteq> None" by (simp add: timed_def)
    from fold_durations [OF this False] False show ?thesis by (simp add: average_build_time_def Let_def)
  qed (simp add: average_build_time_def)
  have "computeBuildTimeTrend ds s e =
      order_asc fst (map (\<lambda>x. (x, average_build_time (on_day x ds))) (days_between s e))"
    using bump_days_table [where P = timed and f = add_duration and g = ?z and ds = ds,
        OF days_between_sorted(2) [of s e]] day
    by (simp add: computeBuildTimeTrend_def init_days_table comp_def)
  also have "\<dots> = map (\<lambda>x. (x, average_build_time (on_day x ds))) (days_between s e)"
    by (simp add: order_asc_def sort_key_id_if_sorted comp_def days_between_sorted)
  finally show ?thesis .
qed

text \<open>
  C34. The build-time trend has for each day the rounded mean duration of the successful
  deployments that started on it, although the code updates a running mean.
\<close>

theorem computeBuildTimeTrend_exact:
  "computeBuildTimeTrend ds s e = map (\<lambda>k. (k, average_build_time (on_day k ds)))
     (if s \<le> e then [day_of s .. day_of s + (e - s) div day_ms] else [])"
  by (simp add: trend_days days_between_upto)

section \<open>The overview\<close>

lemma thirty_days: "days_between (days_ago 30 t) t = [day_of t - 30 .. day_of t]"
proof -
  have "day_of (days_ago 30 t) = day_of t - 30" by (simp add: day_of_def days_ago_def day_ms_def)
  moreover have "(t - days_ago 30 t) div day_ms = 30" by (simp add: days_ago_def day_ms_def)
  ultimately show ?thesis by (simp add: days_between_upto) (simp add: days_ago_def)
qed

lemma in_thirty_days: "days_ago 30 t \<le> x \<Longrightarrow> x \<le> t \<Longrightarrow> day_of x \<in> set [day_of t - 30 .. day_of t]"
proof -
  assume le: "days_ago 30 t \<le> x" "x \<le> t"
  have "day_of (days_ago 30 t) \<le> day_of x" "day_of x \<le> day_of t"
    using le by (auto simp: day_of_def day_ms_def intro: zdiv_mono1)
  moreover have "day_of (days_ago 30 t) = day_of t - 30" by (simp add: day_of_def days_ago_def day_ms_def)
  ultimately show ?thesis by simp
qed

theorem overview_chart_complete:
  assumes "getOverview u w = (Inr ov, w')" and "\<forall>r \<in> set (deployments (db w)). d_startedAt r \<le> now w"
  shows "map dc_date (ov_deploymentsOverTime ov) = [day_of (now w) - 30 .. day_of (now w)] \<and>
    sum_list (map dc_total (ov_deploymentsOverTime ov)) =
      length (filter (\<lambda>r. project_owner (db w) (d_projectId r) = Some u \<and> days_ago 30 (now w) \<le> d_startedAt r)
        (deployments (db w))) \<and>
    map fst (ov_buildTimeTrend ov) = map dc_date (ov_deploymentsOverTime ov)"
proof -
  let ?ds = "since (days_ago 30 (now w)) (deployments_of_user (db w) u)"
  have ov: "ov_deploymentsOverTime ov = map (day_summary ?ds) [day_of (now w) - 30 .. day_of (now w)]"
    "ov_buildTimeTrend ov = map (\<lambda>k. (k, average_build_time (on_day k ?ds))) [day_of (now w) - 30 .. day_of (now w)]"
    using assms(1) groupByDay_days [of ?ds "days_ago 30 (now w)" "now w"]
      trend_days [of ?ds "days_ago 30 (now w)" "now w"]
    by (auto simp: getOverview_def action_simps Let_def thirty_days)
  have "\<forall>d \<in> set ?ds. day_of (d_startedAt d) \<in> set [day_of (now w) - 30 .. day_of (now w)]"
    using assms(2) in_thirty_days [of "now w"] by (simp add: since_def deployments_of_user_def)
  then have "sum_list (map (\<lambda>k. length (on_day k ?ds)) [day_of (now w) - 30 .. day_of (now w)]) = length ?ds"
    by (intro sum_on_days) auto
  moreover have "length ?ds = length (filter (\<lambda>r. project_owner (db w) (d_projectId r) = Some u \<and>
      days_ago 30 (now w) \<le> d_startedAt r) (deployments (db w)))"
    by (simp add: since_def deployments_of_user_def conj_commute)
  ultimately show ?thesis by (simp add: ov comp_def day_summary_def)
qed

section \<open>The success rate\<close>

text \<open>
  C37. The success rate is never negative and at most 100 when every successful deployment has
  finished; it exceeds 100 as soon as enough successful ones are superseded.
\<close>

theorem success_rate_range:
  assumes "length ds \<le> 2 ^ 20"
  shows "0 \<le> success_rate ds \<and>
    ((\<forall>d \<in> set ds. d_isSuccess d \<longrightarrow> finished_status (d_status d)) \<longrightarrow> success_rate ds \<le> 100) \<and>
    ((\<exists>d \<in> set ds. finished_status (d_status d)) \<and>
      101 * length (filter (\<lambda>d. finished_status (d_status d)) ds) \<le> 100 * length (filter d_isSuccess ds) \<longrightarrow>
      100 < success_rate ds)"
proof -
  let ?f = "length (filter (\<lambda>d. finished_status (d_status d)) ds)"
  let ?s = "length (filter d_isSuccess ds)"
  have big: "int ?s \<le> 2 ^ 20 * int ?f" if "0 < ?f"
  proof -
    have "?s \<le> length ds" by simp
    also have "\<dots> \<le> 2 ^ 20 * Suc 0" using assms by simp
    also have "\<dots> \<le> 2 ^ 20 * ?f" using that by (intro mult_le_mono2 Suc_leI)
    finally have "int ?s \<le> int (2 ^ 20 * ?f)" by (simp only: of_nat_le_iff)
    then show ?thesis by simp
  qed
  have "0 \<le> success_rate ds"
    using round_percent_bounds(1) [OF _ _ big] by (auto simp: success_rate_def Let_def)
  moreover have "success_rate ds \<le> 100" if "\<forall>d \<in> set ds. d_isSuccess d \<longrightarrow> finished_status (d_status d)"
  proof -
    have "filter d_isSuccess ds = filter (\<lambda>d. d_isSuccess d \<and> finished_status (d_status d)) ds"
      using that by (auto intro: filter_cong)
    also have "\<dots> = filter d_isSuccess (filter (\<lambda>d. finished_status (d_status d)) ds)"
      by (simp add: conj_commute)
    finally have "?s \<le> ?f" by (metis length_filter_le)
    then show ?thesis
      using round_percent_bounds(2) [OF _ _ big] by (auto simp: success_rate_def Let_def)
  qed
  moreover have "100 < success_rate ds" if ex: "\<exists>d \<in> set ds. finished_status (d_status d)" and le: "101 * ?f \<le> 100 * ?s"
  proof -
    have f: "0 < ?f" using ex by (auto simp: filter_empty_conv)
    have "101 * int ?f \<le> 100 * int ?s" using le by linarith
    then show ?thesis
      using round_percent_bounds(3) [OF _ _ big [OF f]] f by (simp add: success_rate_def Let_def)
  qed
  ultimately show ?thesis by blast
qed

section \<open>Closed examples\<close>

definition superseded_world :: world where
  \<comment> \<open>the live deployment of the shop replaced by a newer one, both built successfully\<close>
  "superseded_world = sample_world\<lparr>db := sample_db\<lparr>deployments :=
     [sample_ready\<lparr>d_status := SUPERSEDED\<rparr>, sample_ready\<lparr>d_id := 8, d_startedAt := 200\<rparr>]\<rparr>\<rparr>"

theorem overview_chart_complete_witness:
  "\<exists>ov. getOverview 0 sample_world = (Inr ov, sample_world) \<and> sum_list (map dc_total (ov_deploymentsOverTime ov)) = 1"
proof -
  obtain ov where ov: "getOverview 0 sample_world = (Inr ov, sample_world)"
    by (simp add: getOverview_def gets_def)
  have "\<forall>r \<in> set (deployments (db sample_world)). d_startedAt r \<le> now sample_world" by (simp add: sample_defs)
  from overview_chart_complete [OF ov this] ov show ?thesis
    by (auto simp: sample_defs project_owner_def days_ago_def)
qed

theorem success_rate_range_witness:
  "\<exists>pa. getProjectAnalytics 0 4 superseded_world = (Inr pa, superseded_world) \<and> 100 < pa_successRate pa"
proof -
  let ?ds = "since (days_ago 30 1000) (deployments (db superseded_world))"
  have ds: "?ds = [sample_ready\<lparr>d_id := 8, d_startedAt := 200\<rparr>, sample_ready\<lparr>d_status := SUPERSEDED\<rparr>]"
    by (simp add: superseded_world_def since_def order_desc_def days_ago_def sample_defs)
  have "100 < success_rate ?ds"
    using success_rate_range [of ?ds] by (simp add: ds finished_status_def sample_defs)
  moreover have "\<exists>pa. getProjectAnalytics 0 4 superseded_world = (Inr pa, superseded_world) \<and>
      pa_successRate pa = success_rate ?ds"
    by (simp add: getProjectAnalytics_def action_simps Let_def superseded_world_def owned_project_def sample_defs)
  ultimately show ?thesis by auto
qed

end
