(* ===== verification/Projects.thy ===== *)
theory Projects
  imports Deployments
begin

text \<open>
  \<open>projects/projects.service.ts\<close>: creating a project (with its encrypted variables, its default
  domain and its first build), listing, reading, updating and removing projects.
\<close>

record create_project_dto =
  pd_name :: string
  pd_gitRepoId :: int
  pd_gitRepoName :: string
  pd_gitRepoOwner :: string
  pd_gitBranch :: string
  pd_gitRepoUrl :: string
  pd_gitCloneUrl :: string
  pd_language :: string
  pd_framework :: "string option"
  pd_rootDirectory :: "string option"
  pd_installCommand :: "string option"
  pd_buildCommand :: "string option"
  pd_runCommand :: "string option"
  pd_outputDirectory :: "string option"
  pd_pythonVersion :: "string option"
  pd_envVars :: "(string \<times> string) list option"

text \<open>
  An update leaves out what is undefined (\<open>None\<close>); a nullable column can be set to null
  (\<open>Some None\<close>).
\<close>

record update_project_dto =
  ud_name :: "string option"
  ud_gitRepoId :: "int option"
  ud_gitRepoName :: "string option"
  ud_gitRepoOwner :: "string option"
  ud_gitBranch :: "string option"
  ud_gitRepoUrl :: "string option"
  ud_gitCloneUrl :: "string option"
  ud_language :: "string option"
  ud_framework :: "string option"
  ud_rootDirectory :: "string option"
  ud_installCommand :: "string option option"
  ud_buildCommand :: "string option option"
  ud_runCommand :: "string option option"
  ud_outputDirectory :: "string option option"
  ud_pythonVersion :: "string option option"
  ud_autoDeploy :: "bool option"

record project_view =
  pv_project :: project
  pv_envVars :: "(uuid \<times> string \<times> string \<times> environment_type list) list"
  pv_domains :: "domain list"
  pv_deployments :: "deployment list"

definition project_row :: "time \<Rightarrow> uuid \<Rightarrow> create_project_dto \<Rightarrow> project" where
  "project_row t uid dto = new_project\<lparr>
     p_name := pd_name dto, p_userId := uid, p_language := pd_language dto,
     p_framework := (case pd_framework dto of None \<Rightarrow> p_framework new_project | Some f \<Rightarrow> f),
     p_rootDirectory := (case pd_rootDirectory dto of None \<Rightarrow> p_rootDirectory new_project | Some f \<Rightarrow> f),
     p_installCommand := pd_installCommand dto, p_buildCommand := pd_buildCommand dto,
     p_runCommand := pd_runCommand dto, p_outputDirectory := pd_outputDirectory dto,
     p_pythonVersion := pd_pythonVersion dto, p_gitRepoOwner := pd_gitRepoOwner dto,
     p_gitRepoName := pd_gitRepoName dto, p_gitRepoId := pd_gitRepoId dto,
     p_gitBranch := pd_gitBranch dto, p_gitRepoUrl := pd_gitRepoUrl dto,
     p_gitCloneUrl := pd_gitCloneUrl dto, p_createdAt := t, p_updatedAt := t\<rparr>"

definition store_env_vars :: "external \<Rightarrow> uuid \<Rightarrow> (string \<times> string) list option \<Rightarrow> unit handler" where
  \<comment> \<open>step B of the transaction\<close>
  "store_env_vars X pid vars =
     (case vars of
        None \<Rightarrow> ret ()
      | Some vs \<Rightarrow>
          if vs = [] then ret ()
          else andThen (collect (\<lambda>(k, v). andThen (encrypt X v) (\<lambda>c. ret (new_env_var\<lparr>
                           ev_key := k, ev_value := c, ev_projectId := pid\<rparr>))) vs) (\<lambda>rows.
               envVar_createMany rows))"

definition initial_job ::
    "project \<Rightarrow> create_project_dto \<Rightarrow> uuid \<Rightarrow> string \<Rightarrow> commit_data \<Rightarrow> string \<Rightarrow> build_job" where
  \<comment> \<open>the payload of step E\<close>
  "initial_job p dto depId installation commit url = \<lparr>
     job_deploymentId = depId, job_projectId = p_id p, job_projectName = p_name p,
     job_gitUrl = pd_gitCloneUrl dto, job_installationId = js_Number installation,
     job_branch = p_gitBranch p, job_commitHash = cd_sha commit,
     job_rootDirectory = or_undefined (Some (p_rootDirectory p)),
     job_buildConfig = build_config_of p, job_domains = [url],
     job_envVars = obj_spread
       (fold (\<lambda>(k, v) acc. obj_set k v acc) (case pd_envVars dto of None \<Rightarrow> [] | Some vs \<Rightarrow> vs) [])
       (python_var (pd_pythonVersion dto)),
     job_previousDeploymentId = None\<rparr>"

definition create_in_tx ::
    "external \<Rightarrow> uuid \<Rightarrow> create_project_dto \<Rightarrow> string \<Rightarrow> commit_data \<Rightarrow> project handler" where
  \<comment> \<open>the body of \<open>$transaction\<close>: steps A to E\<close>
  "create_in_tx X userId dto installation commit =
     andThen (gets now) (\<lambda>t.
     andThen (project_create (project_row t userId dto)) (\<lambda>project.
     andThen (store_env_vars X (p_id project) (pd_envVars dto)) (\<lambda>_.
     andThen (generateDeploymentUrl X (p_name project)) (\<lambda>deploymentUrl.
     andThen (gets (\<lambda>w. (snapshot w userId project commit (Some deploymentUrl))
       \<lparr>d_branch := pd_gitBranch dto\<rparr>)) (\<lambda>row.
     andThen (deployment_create row) (\<lambda>deployment.
     andThen (domain_create (new_domain\<lparr>dom_projectId := p_id project, dom_name := deploymentUrl,
       dom_createdAt := t\<rparr>)) (\<lambda>_.
     andThen (addBuildJob (initial_job project dto (d_id deployment) installation commit deploymentUrl)) (\<lambda>_.
     ret project))))))))"

definition encrypted_vars :: "db \<Rightarrow> uuid \<Rightarrow> (uuid \<times> string \<times> string \<times> environment_type list) list" where
  \<comment> \<open>\<open>envVars: { select: { id, key, value, targets } }\<close>\<close>
  "encrypted_vars d i = map (\<lambda>e. (ev_id e, ev_key e, ev_value e, ev_targets e))
     (filter (\<lambda>e. ev_projectId e = i) (envVars d))"

definition view_of :: "db \<Rightarrow> int \<Rightarrow> project \<Rightarrow> project_view" where
  \<comment> \<open>the relations a query includes, with the newest \<open>n\<close> deployments\<close>
  "view_of d n p = \<lparr>
     pv_project = p,
     pv_envVars = encrypted_vars d (p_id p),
     pv_domains = filter (\<lambda>m. dom_projectId m = p_id p) (domains d),
     pv_deployments = prisma_take n (order_desc d_startedAt
        (filter (\<lambda>r. d_projectId r = p_id p) (deployments d)))\<rparr>"

definition projectsService_findOne :: "uuid \<Rightarrow> uuid \<Rightarrow> project_view handler" where
  "projectsService_findOne i userId =
     andThen (gets (\<lambda>w. owned_project userId i (db w))) (\<lambda>found.
     andThen (orThrow found (NotFoundException ''Project not found'')) (\<lambda>project.
     gets (\<lambda>w. view_of (db w) 5 project)))"

definition projectsService_create :: "external \<Rightarrow> uuid \<Rightarrow> create_project_dto \<Rightarrow> project_view handler" where
  "projectsService_create X userId dto =
     andThen (gets (\<lambda>w. find (\<lambda>p. p_name p = pd_name dto) (projects (db w)))) (\<lambda>existing.
     andThen (throwIf (existing \<noteq> None)
       (BadRequestException ''Project name is already taken. Please choose another.'')) (\<lambda>_.
     andThen (gets (\<lambda>w. filter (\<lambda>a. ga_userId a = userId) (gitAccounts (db w)))) (\<lambda>accounts.
     andThen (throwIf (accounts = []) (BadRequestException ''No linked GitHub accounts found.'')) (\<lambda>_.
     andThen (orThrow (find_or_first (\<lambda>a. ga_username a = pd_gitRepoOwner dto) accounts)
       (Thrown ''TypeError'')) (\<lambda>account.
     andThen (throwIf (\<not> truthy_opt (ga_installationId account))
       (BadRequestException ''Selected GitHub account is not installed.'')) (\<lambda>_.
     let installation = the (ga_installationId account);
         commit = getLatestCommit X installation (pd_gitRepoOwner dto) (pd_gitRepoName dto)
                    (pd_gitBranch dto)
     in
     andThen (transaction (create_in_tx X userId dto installation commit)) (\<lambda>result.
     projectsService_findOne (p_id result) userId)))))))"

definition decrypt_view :: "external \<Rightarrow> project_view \<Rightarrow> project_view handler" where
  "decrypt_view X v =
     andThen (collect (\<lambda>(i, k, c, ts). andThen (decryptM X c) (\<lambda>plain. ret (i, k, plain, ts)))
                (pv_envVars v)) (\<lambda>vars.
     ret (v\<lparr>pv_envVars := vars\<rparr>))"

definition projectsService_findAll :: "external \<Rightarrow> uuid \<Rightarrow> project_view list handler" where
  "projectsService_findAll X userId =
     andThen (gets (\<lambda>w. map (view_of (db w) 1)
       (order_desc p_updatedAt (filter (\<lambda>p. p_userId p = userId) (projects (db w)))))) (\<lambda>views.
     collect (decrypt_view X) views)"

definition set_opt :: "'a option \<Rightarrow> 'a \<Rightarrow> 'a" where
  "set_opt new old = (case new of None \<Rightarrow> old | Some x \<Rightarrow> x)"

definition apply_update :: "time \<Rightarrow> update_project_dto \<Rightarrow> project \<Rightarrow> project" where
  \<comment> \<open>\<open>data: { ...dto }\<close>, and \<open>@updatedAt\<close>\<close>
  "apply_update t dto p = p\<lparr>
     p_name := set_opt (ud_name dto) (p_name p),
     p_gitRepoId := set_opt (ud_gitRepoId dto) (p_gitRepoId p),
     p_gitRepoName := set_opt (ud_gitRepoName dto) (p_gitRepoName p),
     p_gitRepoOwner := set_opt (ud_gitRepoOwner dto) (p_gitRepoOwner p),
     p_gitBranch := set_opt (ud_gitBranch dto) (p_gitBranch p),
     p_gitRepoUrl := set_opt (ud_gitRepoUrl dto) (p_gitRepoUrl p),
     p_gitCloneUrl := set_opt (ud_gitCloneUrl dto) (p_gitCloneUrl p),
     p_language := set_opt (ud_language dto) (p_language p),
     p_framework := set_opt (ud_framework dto) (p_framework p),
     p_rootDirectory := set_opt (ud_rootDirectory dto) (p_rootDirectory p),
     p_installCommand := set_opt (ud_installCommand dto) (p_installCommand p),
     p_buildCommand := set_opt (ud_buildCommand dto) (p_buildCommand p),
     p_runCommand := set_opt (ud_runCommand dto) (p_runCommand p),
     p_outputDirectory := set_opt (ud_outputDirectory dto) (p_outputDirectory p),
     p_pythonVersion := set_opt (ud_pythonVersion dto) (p_pythonVersion p),
     p_autoDeploy := set_opt (ud_autoDeploy dto) (p_autoDeploy p),
     p_updatedAt := t\<rparr>"

definition projectsService_update :: "uuid \<Rightarrow> uuid \<Rightarrow> update_project_dto \<Rightarrow> project handler" where
  "projectsService_update i userId dto =
     andThen (projectsService_findOne i userId) (\<lambda>_.
     andThen (gets now) (\<lambda>t.
     project_update i (apply_update t dto)))"

definition projectsService_remove :: "uuid \<Rightarrow> uuid \<Rightarrow> project handler" where
  "projectsService_remove i userId =
     andThen (gets (\<lambda>w. owned_project userId i (db w))) (\<lambda>found.
     andThen (orThrow found (NotFoundException ''Project not found'')) (\<lambda>project.
     andThen (gets (\<lambda>w. filter (\<lambda>r. d_projectId r = i \<and> active_status (d_status r))
       (deployments (db w)))) (\<lambda>activeDeployments.
     andThen (forEach (\<lambda>r. if in_progress (d_status r) then publishCancelSignal (d_id r) else ret ())
       activeDeployments) (\<lambda>_.
     andThen (if activeDeployments \<noteq> []
              then addProjectCleanupJob \<lparr>cj_projectId = p_id project, cj_projectName = p_name project,
                     cj_activeDeploymentIds = map d_id activeDeployments\<rparr>
              else ret ()) (\<lambda>_.
     project_delete i)))))"

section \<open>The invariant\<close>

lemma fresh_cascade: "fresh d \<Longrightarrow> fresh (cascade_project i d)"
  by (simp add: fresh_def cascade_project_def)

lemma keeps_project_delete: "keeps db_kept (project_delete i)"
  unfolding project_delete_def by (intro kept.keeps_db_intros keeps_write_db fresh_cascade)

lemma keeps_store_env_vars: "keeps db_kept (store_env_vars X i vs)"
  unfolding store_env_vars_def case_prod_unfold
  by (intro kept.keeps_db_intros keeps_tables keeps_encrypt)

lemma keeps_create_in_tx: "keeps db_kept (create_in_tx X u dto n c)"
  unfolding create_in_tx_def
  by (intro kept.keeps_db_intros keeps_tables keeps_store_env_vars keeps_generateDeploymentUrl
      keeps_addBuildJob)

lemma keeps_findOne: "keeps db_kept (projectsService_findOne i u)"
  unfolding projectsService_findOne_def by (intro kept.keeps_db_intros)

lemma keeps_decrypt_view: "keeps db_kept (decrypt_view X v)"
  unfolding decrypt_view_def case_prod_unfold by (intro kept.keeps_db_intros keeps_decryptM)

lemma keeps_projects:
  "keeps db_kept (projectsService_create X u dto)"
  "keeps db_kept (projectsService_findAll X u)"
  "keeps db_kept (projectsService_findOne i u)"
  "keeps db_kept (projectsService_update i u udto)"
  "keeps db_kept (projectsService_remove i u)"
  unfolding projectsService_create_def projectsService_findAll_def projectsService_update_def projectsService_remove_def Let_def
  by (intro kept.keeps_db_intros keeps_tables keeps_create_in_tx keeps_findOne keeps_decrypt_view
      keeps_project_delete keeps_publishCancelSignal keeps_addProjectCleanupJob)+

end
