(* ===== verification/Resources.thy ===== *)
theory Resources
  imports Projects
begin

text \<open>
  The smaller user-facing services: \<open>domains/domains.service.ts\<close>, \<open>envs/env-vars.service.ts\<close> and
  \<open>settings/settings.service.ts\<close>.
\<close>

section \<open>Domains\<close>

definition domainsService_create :: "uuid \<Rightarrow> uuid \<Rightarrow> string \<Rightarrow> domain handler" where
  "domainsService_create userId projectId domainName =
     andThen (gets (\<lambda>w. owned_project userId projectId (db w))) (\<lambda>found.
     andThen (orThrow found (NotFoundException ''Project not found'')) (\<lambda>_.
     andThen (gets (\<lambda>w. find (\<lambda>m. dom_name m = domainName) (domains (db w)))) (\<lambda>existing.
     andThen (throwIf (existing \<noteq> None) (BadRequestException ''Domain is already in use'')) (\<lambda>_.
     andThen (gets now) (\<lambda>t.
     domain_create (new_domain\<lparr>dom_name := domainName, dom_projectId := projectId,
       dom_createdAt := t\<rparr>))))))"

definition domainsService_findAll :: "uuid \<Rightarrow> uuid \<Rightarrow> domain list handler" where
  "domainsService_findAll userId projectId =
     andThen (gets (\<lambda>w. length (filter (\<lambda>p. p_id p = projectId \<and> p_userId p = userId)
                                  (projects (db w))))) (\<lambda>count.
     andThen (throwIf (count = 0) (NotFoundException ''Project not found'')) (\<lambda>_.
     gets (\<lambda>w. order_desc dom_createdAt
       (filter (\<lambda>m. dom_projectId m = projectId) (domains (db w))))))"

definition domainsService_remove :: "uuid \<Rightarrow> uuid \<Rightarrow> domain handler" where
  "domainsService_remove userId i =
     andThen (gets (\<lambda>w. find (\<lambda>m. dom_id m = i \<and> project_owner (db w) (dom_projectId m) = Some userId)
       (domains (db w)))) (\<lambda>found.
     andThen (orThrow found (NotFoundException ''Domain not found'')) (\<lambda>domain.
     andThen (domain_deleteMany (\<lambda>m. dom_id m = i)) (\<lambda>_.
     ret domain)))"

section \<open>Environment variables\<close>

text \<open>
  Postgres orders the keys by the collation of the database: the comparison is the parameter
  \<open>collate\<close>.
\<close>

record env_var_item =
  ei_key :: string
  ei_value :: string
  ei_targets :: "environment_type list"

definition envVarsService_findAll :: "external \<Rightarrow> (string \<Rightarrow> int) \<Rightarrow> uuid \<Rightarrow> uuid \<Rightarrow> env_var list handler" where
  "envVarsService_findAll X collate userId projectId =
     andThen (gets (\<lambda>w. owned_project userId projectId (db w))) (\<lambda>found.
     andThen (orThrow found (NotFoundException ''Project not found'')) (\<lambda>_.
     andThen (gets (\<lambda>w. order_asc (\<lambda>e. collate (ev_key e))
       (filter (\<lambda>e. ev_projectId e = projectId) (envVars (db w))))) (\<lambda>vars.
     collect (\<lambda>v. andThen (decryptM X (ev_value v)) (\<lambda>plain. ret (v\<lparr>ev_value := plain\<rparr>))) vars)))"

definition encrypt_item :: "external \<Rightarrow> uuid \<Rightarrow> env_var_item \<Rightarrow> env_var handler" where
  "encrypt_item X projectId v =
     andThen (encrypt X (ei_value v)) (\<lambda>c. ret (new_env_var\<lparr>
       ev_projectId := projectId, ev_key := ei_key v, ev_value := c, ev_targets := ei_targets v\<rparr>))"

definition envVarsService_saveAll :: "external \<Rightarrow> uuid \<Rightarrow> uuid \<Rightarrow> env_var_item list \<Rightarrow> nat handler" where
  \<comment> \<open>delete all, insert all; the count is returned\<close>
  "envVarsService_saveAll X userId projectId variables =
     andThen (gets (\<lambda>w. owned_project userId projectId (db w))) (\<lambda>found.
     andThen (orThrow found (NotFoundException ''Project not found'')) (\<lambda>_.
     transaction (
       andThen (envVar_deleteMany (\<lambda>e. ev_projectId e = projectId)) (\<lambda>_.
       andThen (if variables = [] then ret ()
                else andThen (collect (encrypt_item X projectId) variables) envVar_createMany) (\<lambda>_.
       andThen (gets now) (\<lambda>t.
       andThen (project_update projectId (\<lambda>p. p\<lparr>p_configChanged := True, p_updatedAt := t\<rparr>)) (\<lambda>_.
       ret (length variables))))))))"

section \<open>Settings\<close>

record settings_dto =
  sd_defaultRegion :: "string option"
  sd_maxConcurrentBuilds :: "int option"
  sd_logRetentionDays :: "int option"
  sd_turboMode :: "bool option"
  sd_globalTTLMinutes :: "int option"
  sd_autoDeploy :: "bool option"
  sd_slackWebhook :: "string option option"
  sd_emailDeployFailed :: "bool option"
  sd_emailDeploySuccess :: "bool option"

definition find_config :: "db \<Rightarrow> uuid \<Rightarrow> system_config option" where
  "find_config d uid = find (\<lambda>c. cfg_userId c = uid) (systemConfigs d)"

definition apply_settings :: "settings_dto \<Rightarrow> string option option \<Rightarrow> system_config \<Rightarrow> system_config" where
  \<comment> \<open>\<open>{ ...dto, slackWebhook }\<close>; undefined leaves a column as it is\<close>
  "apply_settings dto hook c = c\<lparr>
     cfg_defaultRegion := set_opt (sd_defaultRegion dto) (cfg_defaultRegion c),
     cfg_maxConcurrentBuilds := set_opt (sd_maxConcurrentBuilds dto) (cfg_maxConcurrentBuilds c),
     cfg_logRetentionDays := set_opt (sd_logRetentionDays dto) (cfg_logRetentionDays c),
     cfg_turboMode := set_opt (sd_turboMode dto) (cfg_turboMode c),
     cfg_globalTTLMinutes := set_opt (sd_globalTTLMinutes dto) (cfg_globalTTLMinutes c),
     cfg_autoDeploy := set_opt (sd_autoDeploy dto) (cfg_autoDeploy c),
     cfg_slackWebhook := set_opt hook (cfg_slackWebhook c),
     cfg_emailDeployFailed := set_opt (sd_emailDeployFailed dto) (cfg_emailDeployFailed c),
     cfg_emailDeploySuccess := set_opt (sd_emailDeploySuccess dto) (cfg_emailDeploySuccess c)\<rparr>"

definition getConfig :: "external \<Rightarrow> uuid \<Rightarrow> system_config handler" where
  \<comment> \<open>upsert with an empty update, then the webhook in clear text\<close>
  "getConfig X userId =
     andThen (gets (\<lambda>w. find_config (db w) userId)) (\<lambda>found.
     andThen (case found of None \<Rightarrow> config_create (new_config userId) | Some c \<Rightarrow> ret c) (\<lambda>config.
     if truthy_opt (cfg_slackWebhook config)
     then andThen (decryptM X (the (cfg_slackWebhook config))) (\<lambda>plain.
          ret (config\<lparr>cfg_slackWebhook := Some plain\<rparr>))
     else ret config))"

definition hook_update :: "external \<Rightarrow> string option option \<Rightarrow> string option option handler" where
  \<comment> \<open>the webhook to store: encrypted when it has a non-blank text, undefined when it is empty\<close>
  "hook_update X hook =
     (case hook of
        None \<Rightarrow> ret None
      | Some None \<Rightarrow> ret (Some None)
      | Some (Some s) \<Rightarrow>
          if truthy s \<and> js_trim s \<noteq> [] then andThen (encrypt X s) (\<lambda>c. ret (Some (Some c)))
          else if s = [] then ret None
          else ret (Some (Some s)))"

definition updateConfig :: "external \<Rightarrow> uuid \<Rightarrow> settings_dto \<Rightarrow> system_config handler" where
  "updateConfig X userId dto =
     andThen (hook_update X (sd_slackWebhook dto)) (\<lambda>slackWebhook.
     andThen (gets (\<lambda>w. find_config (db w) userId)) (\<lambda>found.
     case found of
       None \<Rightarrow> config_create (apply_settings dto
         (case slackWebhook of Some (Some s) \<Rightarrow> if truthy s then Some (Some s) else None | _ \<Rightarrow> None)
         (new_config userId))
     | Some c \<Rightarrow> config_update (cfg_id c) (apply_settings dto slackWebhook)))"

section \<open>The invariant\<close>

lemma keeps_domains:
  "keeps db_kept (domainsService_create u p n)" "keeps db_kept (domainsService_findAll u p)"
  "keeps db_kept (domainsService_remove u i)"
  unfolding domainsService_create_def domainsService_findAll_def domainsService_remove_def
  by (intro kept.keeps_db_intros keeps_tables)+

lemma keeps_envs:
  "keeps db_kept (envVarsService_findAll X k u p)" "keeps db_kept (envVarsService_saveAll X u p vs)"
  unfolding envVarsService_findAll_def envVarsService_saveAll_def encrypt_item_def
  by (intro kept.keeps_db_intros keeps_tables keeps_encrypt keeps_decryptM)+

lemma keeps_hook_update: "keeps db_kept (hook_update X h)"
  unfolding hook_update_def by (intro kept.keeps_db_intros keeps_encrypt)

lemma keeps_settings:
  "keeps db_kept (getConfig X u)" "keeps db_kept (updateConfig X u dto)"
  unfolding getConfig_def updateConfig_def
  by (intro kept.keeps_db_intros keeps_tables keeps_decryptM keeps_hook_update)+

end
