(* ===== verification/Webhooks.thy ===== *)
theory Webhooks
  imports Resources
begin

text \<open>
  \<open>webhooks/webhooks.controller.ts\<close> and \<open>webhooks/webhooks.service.ts\<close>: the signature check, the
  routing of events, and the deployments a push triggers, one per linked project with
  auto-deploy on, where an in-flight deployment is cancelled first.
\<close>

record push_payload =
  pp_ref :: string
  pp_after :: string
  pp_deleted :: bool
  pp_repoName :: string
  pp_ownerLogin :: string
  pp_senderLogin :: string
  pp_installationId :: "int option"
  pp_headCommit :: "(string \<times> string option) option"

section \<open>Signature\<close>

definition expected_signature :: "external \<Rightarrow> string \<Rightarrow> buffer \<Rightarrow> string" where
  "expected_signature X secret rawBody = ''sha256='' @ x_hmac X secret rawBody"

definition timingSafeEqual :: "buffer \<Rightarrow> buffer \<Rightarrow> bool option" where
  \<comment> \<open>\<open>None\<close>: node throws when the lengths differ\<close>
  "timingSafeEqual a b = (if length a = length b then Some (a = b) else None)"

definition verifySignature :: "external \<Rightarrow> string \<Rightarrow> buffer \<Rightarrow> string option \<Rightarrow> bool" where
  "verifySignature X secret rawBody signature =
     (if \<not> truthy_opt signature then False
      else (case timingSafeEqual (the signature) (expected_signature X secret rawBody) of
              None \<Rightarrow> False
            | Some b \<Rightarrow> b))"

section \<open>Push events\<close>

fun replace_first :: "string \<Rightarrow> string \<Rightarrow> string \<Rightarrow> string" where
  \<comment> \<open>\<open>s.replace(pat, rep)\<close> with a string pattern\<close>
  "replace_first pat rep [] = (if pat = [] then rep else [])"
| "replace_first pat rep (c # cs) =
     (if take (length pat) (c # cs) = pat then rep @ drop (length pat) (c # cs)
      else c # replace_first pat rep cs)"

definition branch_of_ref :: "string \<Rightarrow> string" where
  "branch_of_ref ref = replace_first ''refs/heads/'' [] ref"

record push_opts =
  po_branch :: string
  po_commitHash :: string
  po_installationId :: int
  po_commitMessage :: string
  po_commitAuthor :: string

record linked_project =
  lk_project :: project
  lk_envVars :: "(string \<times> string) list"
  lk_domains :: "string list"
  lk_current :: "(uuid \<times> deployment_status) option"

definition linked_project_of :: "db \<Rightarrow> project \<Rightarrow> linked_project" where
  \<comment> \<open>the relations of the query: all variables, the domains by age, the newest active deployment\<close>
  "linked_project_of d p = \<lparr>
     lk_project = p,
     lk_envVars = map (\<lambda>e. (ev_key e, ev_value e)) (filter (\<lambda>e. ev_projectId e = p_id p) (envVars d)),
     lk_domains = map dom_name (project_domains d (p_id p)),
     lk_current = map_option (\<lambda>r. (d_id r, d_status r)) (head_opt (order_desc d_startedAt
       (filter (\<lambda>r. d_projectId r = p_id p \<and> active_status (d_status r)) (deployments d))))\<rparr>"

definition linked_projects :: "db \<Rightarrow> push_payload \<Rightarrow> linked_project list" where
  "linked_projects d payload = map (linked_project_of d)
     (filter (\<lambda>p. p_gitRepoOwner p = pp_ownerLogin payload \<and> p_gitRepoName p = pp_repoName payload \<and>
        p_gitBranch p = branch_of_ref (pp_ref payload)) (projects d))"

definition decrypt_all :: "external \<Rightarrow> (string \<times> string) list \<Rightarrow> (string \<times> string) list handler" where
  \<comment> \<open>every variable, whatever its targets; the first that does not decrypt throws\<close>
  "decrypt_all X vars =
     andThen (collect (\<lambda>(k, c). andThen (decryptM X c) (\<lambda>p. ret (k, p))) vars) (\<lambda>kvs.
     ret (fold (\<lambda>(k, v) acc. obj_set k v acc) kvs []))"

definition cancel_current :: "(uuid \<times> deployment_status) option \<Rightarrow> uuid option handler" where
  \<comment> \<open>returns \<open>previousDeploymentId\<close>\<close>
  "cancel_current current =
     (case current of
        None \<Rightarrow> ret None
      | Some (i, status) \<Rightarrow>
          if in_progress status
          then andThen (publishCancelSignal i) (\<lambda>_.
               andThen (deployment_update i (\<lambda>r. r\<lparr>d_status := CANCELED\<rparr>)) (\<lambda>_. ret None))
          else if status = READY then ret (Some i)
          else ret None)"

definition webhook_row :: "world \<Rightarrow> project \<Rightarrow> push_opts \<Rightarrow> string option \<Rightarrow> deployment" where
  "webhook_row w p opts url = new_deployment\<lparr>
     d_projectId := p_id p, d_initiatorId := Some (p_userId p), d_status := QUEUED,
     d_deploymentUrl := url, d_branch := po_branch opts, d_commitHash := po_commitHash opts,
     d_commitMessage := Some (po_commitMessage opts), d_commitAuthor := Some (po_commitAuthor opts),
     d_deploymentRegion := region_of (db w) (p_userId p), d_trigger := WEBHOOK,
     d_startedAt := now w\<rparr>"

definition triggerDeployment :: "external \<Rightarrow> linked_project \<Rightarrow> push_opts \<Rightarrow> unit handler" where
  "triggerDeployment X lk opts =
     (let project = lk_project lk in
      andThen (cancel_current (lk_current lk)) (\<lambda>previousDeploymentId.
      andThen (decrypt_all X (lk_envVars lk)) (\<lambda>vars.
      andThen (gets (\<lambda>w. webhook_row w project opts (head_opt (lk_domains lk)))) (\<lambda>row.
      andThen (deployment_create row) (\<lambda>deployment.
      andThen (addBuildJob \<lparr>
          job_deploymentId = d_id deployment, job_projectId = p_id project,
          job_projectName = p_name project, job_gitUrl = p_gitCloneUrl project,
          job_installationId = Some (po_installationId opts), job_branch = po_branch opts,
          job_commitHash = po_commitHash opts,
          job_rootDirectory = or_undefined (Some (p_rootDirectory project)),
          job_buildConfig = build_config_of project, job_domains = lk_domains lk,
          job_envVars = obj_spread vars (python_var (p_pythonVersion project)),
          job_previousDeploymentId = previousDeploymentId\<rparr>) (\<lambda>_.
      ret ()))))))"

definition push_opts_of :: "push_payload \<Rightarrow> int \<Rightarrow> push_opts" where
  "push_opts_of payload installation = \<lparr>
     po_branch = branch_of_ref (pp_ref payload), po_commitHash = pp_after payload,
     po_installationId = installation,
     po_commitMessage = or_else (map_option fst (pp_headCommit payload)) [],
     po_commitAuthor = or_else (Option.bind (pp_headCommit payload) snd) (pp_senderLogin payload)\<rparr>"

definition handlePushEvent :: "external \<Rightarrow> push_payload \<Rightarrow> unit handler" where
  "handlePushEvent X payload =
     (if pp_deleted payload then ret ()
      else (case pp_installationId payload of
              None \<Rightarrow> ret ()
            | Some installation \<Rightarrow>
                if installation = 0 then ret ()
                else andThen (gets (\<lambda>w. linked_projects (db w) payload)) (\<lambda>lks.
                     forEach (\<lambda>lk.
                       if \<not> p_autoDeploy (lk_project lk) then ret ()
                       else tryCatch (triggerDeployment X lk (push_opts_of payload installation))
                              (\<lambda>_. ret ())) lks)))"

section \<open>The endpoint\<close>

datatype webhook_event = Push push_payload | OtherEvent string

datatype http_reply = Reply nat string

definition handleGitHubWebhook ::
    "external \<Rightarrow> string \<Rightarrow> buffer option \<Rightarrow> webhook_event \<Rightarrow> string option \<Rightarrow> http_reply handler" where
  "handleGitHubWebhook X secret rawBody event signature =
     (case rawBody of
        None \<Rightarrow> ret (Reply 400 ''Missing request body'')
      | Some body \<Rightarrow>
          if \<not> verifySignature X secret body signature then ret (Reply 401 ''Invalid signature'')
          else andThen (case event of Push payload \<Rightarrow> handlePushEvent X payload | OtherEvent _ \<Rightarrow> ret ())
                 (\<lambda>_. ret (Reply 200 ''received'')))"

section \<open>Facts\<close>

lemma verifySignature_iff:
  "verifySignature X secret body signature \<longleftrightarrow> signature = Some (expected_signature X secret body)"
  by (cases signature)
    (auto simp: verifySignature_def timingSafeEqual_def expected_signature_def truthy_def)

lemma keeps_decrypt_all: "keeps db_kept (decrypt_all X vs)"
  unfolding decrypt_all_def case_prod_unfold by (intro kept.keeps_db_intros keeps_decryptM)

lemma keeps_cancel_current: "keeps db_kept (cancel_current c)"
  unfolding cancel_current_def case_prod_unfold
  by (intro kept.keeps_db_intros keeps_tables keeps_publishCancelSignal)

lemma keeps_triggerDeployment: "keeps db_kept (triggerDeployment X lk opts)"
  unfolding triggerDeployment_def Let_def
  by (intro kept.keeps_db_intros keeps_tables keeps_cancel_current keeps_decrypt_all keeps_addBuildJob)

lemma keeps_handlePushEvent: "keeps db_kept (handlePushEvent X payload)"
  unfolding handlePushEvent_def by (intro kept.keeps_db_intros keeps_triggerDeployment)

lemma keeps_webhook: "keeps db_kept (handleGitHubWebhook X s b e sig)"
  unfolding handleGitHubWebhook_def
  by (cases e) (auto intro!: kept.keeps_db_intros keeps_handlePushEvent)

end
