(* ===== verification/Internal.thy ===== *)
theory Internal
  imports Webhooks
begin

text \<open>
  \<open>internal/internal.service.ts\<close>, the API of the Go worker: status reports, logs, settings with
  their defaults, expired deployments, log retention, domain checks and notifications; and
  \<open>mail/mail.service.ts\<close> as far as which mails are handed to the mail provider.
\<close>

section \<open>Status reports and logs\<close>

record status_dto =
  st_status :: deployment_status
  st_containerImage :: "string option"
  st_deploymentUrl :: "string option"

definition reported :: "time \<Rightarrow> status_dto \<Rightarrow> deployment \<Rightarrow> deployment" where
  \<comment> \<open>the \<open>updateData\<close> of a report on the row it was read from\<close>
  "reported t dto r =
     (let r1 = r\<lparr>d_status := st_status dto\<rparr>;
          r2 = (if truthy_opt (st_containerImage dto)
                then r1\<lparr>d_containerImage := st_containerImage dto\<rparr> else r1);
          r3 = (if truthy_opt (st_deploymentUrl dto)
                then r2\<lparr>d_deploymentUrl := st_deploymentUrl dto\<rparr> else r2);
          r4 = (if st_status dto \<in> {READY, FAILED, CANCELED}
                then r3\<lparr>d_finishedAt := Some t, d_duration := Some (elapsed_seconds t (d_startedAt r))\<rparr>
                else r3)
      in if st_status dto = READY then r4\<lparr>d_isSuccess := True\<rparr> else r4)"

definition updateDeploymentStatus :: "uuid \<Rightarrow> status_dto \<Rightarrow> deployment handler" where
  "updateDeploymentStatus i dto =
     andThen (gets (\<lambda>w. find (\<lambda>r. d_id r = i) (deployments (db w)))) (\<lambda>found.
     andThen (orThrow found (NotFoundException ''Deployment not found'')) (\<lambda>_.
     andThen (gets now) (\<lambda>t.
     deployment_update i (reported t dto))))"

record log_dto =
  ld_source :: log_source
  ld_message :: string
  ld_timestamp :: "string option"

text \<open>\<open>new Date(s)\<close> of a text is the parameter \<open>parse_date\<close>; Prisma refuses an invalid date.\<close>

definition log_row ::
    "(string \<Rightarrow> time option) \<Rightarrow> uuid \<Rightarrow> log_dto \<Rightarrow> log_entry handler" where
  "log_row parse_date i l =
     andThen (gets now) (\<lambda>t.
     andThen (orThrow (if truthy_opt (ld_timestamp l) then parse_date (the (ld_timestamp l)) else Some t)
       (Thrown ''PrismaClientValidationError'')) (\<lambda>ts.
     ret \<lparr>log_id = 0, log_deploymentId = i, log_source = ld_source l, log_timestamp = ts,
          log_message = ld_message l\<rparr>))"

definition createLogs :: "(string \<Rightarrow> time option) \<Rightarrow> uuid \<Rightarrow> log_dto list \<Rightarrow> nat handler" where
  "createLogs parse_date deploymentId logs =
     andThen (gets (\<lambda>w. find (\<lambda>r. d_id r = deploymentId) (deployments (db w)))) (\<lambda>found.
     andThen (orThrow found (NotFoundException ''Deployment not found'')) (\<lambda>_.
     andThen (collect (log_row parse_date deploymentId) logs) (\<lambda>rows.
     andThen (logEntry_createMany rows) (\<lambda>_.
     ret (length logs)))))"

definition internal_getLogs :: "uuid \<Rightarrow> log_source option \<Rightarrow> log_entry list handler" where
  "internal_getLogs deploymentId source =
     andThen (gets (\<lambda>w. find (\<lambda>r. d_id r = deploymentId) (deployments (db w)))) (\<lambda>found.
     andThen (orThrow found (NotFoundException ''Deployment not found'')) (\<lambda>_.
     gets (\<lambda>w. matching_logs (db w) deploymentId source None)))"

definition internal_installationToken :: "external \<Rightarrow> string \<Rightarrow> (string \<times> time) handler" where
  "internal_installationToken X installationId =
     andThen (gitInstallationToken X installationId) (\<lambda>token.
     gets (\<lambda>w. (token, now w + 60 * 60 * 1000)))"

section \<open>Settings of a project's owner\<close>

record settings_view =
  sv_defaultRegion :: string
  sv_maxConcurrentBuilds :: int
  sv_logRetentionDays :: int
  sv_turboMode :: bool
  sv_globalTTLMinutes :: int
  sv_autoDeploy :: bool
  sv_emailDeployFailed :: bool
  sv_emailDeploySuccess :: bool
  sv_slackWebhook :: "string option"

definition default_settings :: settings_view where
  "default_settings = \<lparr>sv_defaultRegion = ''us-ashburn-1'', sv_maxConcurrentBuilds = 1,
     sv_logRetentionDays = 1, sv_turboMode = False, sv_globalTTLMinutes = 5, sv_autoDeploy = True,
     sv_emailDeployFailed = True, sv_emailDeploySuccess = True, sv_slackWebhook = None\<rparr>"

definition clear_webhook :: "external \<Rightarrow> string option \<Rightarrow> string option" where
  \<comment> \<open>decrypted when present; a payload that does not decrypt counts as absent\<close>
  "clear_webhook X hook =
     (if truthy_opt hook then (case decrypt X (the hook) of Inl _ \<Rightarrow> None | Inr u \<Rightarrow> Some u) else None)"

definition settings_of :: "external \<Rightarrow> system_config \<Rightarrow> settings_view" where
  "settings_of X c = \<lparr>sv_defaultRegion = cfg_defaultRegion c,
     sv_maxConcurrentBuilds = cfg_maxConcurrentBuilds c, sv_logRetentionDays = cfg_logRetentionDays c,
     sv_turboMode = cfg_turboMode c, sv_globalTTLMinutes = cfg_globalTTLMinutes c,
     sv_autoDeploy = cfg_autoDeploy c, sv_emailDeployFailed = cfg_emailDeployFailed c,
     sv_emailDeploySuccess = cfg_emailDeploySuccess c,
     sv_slackWebhook = clear_webhook X (cfg_slackWebhook c)\<rparr>"

definition getSettingsByProject :: "external \<Rightarrow> uuid \<Rightarrow> settings_view handler" where
  "getSettingsByProject X projectId =
     andThen (gets (\<lambda>w. find (\<lambda>p. p_id p = projectId) (projects (db w)))) (\<lambda>found.
     andThen (orThrow found (NotFoundException ''Project not found'')) (\<lambda>project.
     gets (\<lambda>w. case find_config (db w) (p_userId project) of
                  None \<Rightarrow> default_settings | Some c \<Rightarrow> settings_of X c)))"

section \<open>Expiry and retention\<close>

record expired_deployment =
  ex_id :: uuid
  ex_projectId :: uuid
  ex_projectName :: "string option"
  ex_containerImage :: "string option"
  ex_deploymentUrl :: "string option"
  ex_startedAt :: time
  ex_ttlMinutes :: int

definition project_name :: "db \<Rightarrow> uuid \<Rightarrow> string option" where
  "project_name d i = map_option p_name (find (\<lambda>p. p_id p = i) (projects d))"

definition expired_of :: "db \<Rightarrow> time \<Rightarrow> system_config \<Rightarrow> expired_deployment list" where
  \<comment> \<open>one turn of the loop over the configurations\<close>
  "expired_of d t c = map (\<lambda>r. \<lparr>
       ex_id = d_id r, ex_projectId = d_projectId r, ex_projectName = project_name d (d_projectId r),
       ex_containerImage = d_containerImage r, ex_deploymentUrl = d_deploymentUrl r,
       ex_startedAt = d_startedAt r, ex_ttlMinutes = cfg_globalTTLMinutes c\<rparr>)
     (filter (\<lambda>r. project_owner d (d_projectId r) = Some (cfg_userId c) \<and> d_status r = READY \<and>
        d_startedAt r < t - cfg_globalTTLMinutes c * 60 * 1000) (deployments d))"

definition getExpiredDeployments :: "expired_deployment list handler" where
  "getExpiredDeployments = gets (\<lambda>w. concat (map (expired_of (db w) (now w)) (systemConfigs (db w))))"

definition owner_of_log :: "db \<Rightarrow> log_entry \<Rightarrow> uuid option" where
  "owner_of_log d l =
     Option.bind (find (\<lambda>r. d_id r = log_deploymentId l) (deployments d))
       (\<lambda>r. project_owner d (d_projectId r))"

definition outdated :: "db \<Rightarrow> time \<Rightarrow> system_config \<Rightarrow> log_entry \<Rightarrow> bool" where
  "outdated d t c l \<longleftrightarrow> owner_of_log d l = Some (cfg_userId c) \<and>
     log_timestamp l < t - cfg_logRetentionDays c * 24 * 60 * 60 * 1000"

definition cleanup_turn :: "system_config \<Rightarrow> nat handler" where
  "cleanup_turn c =
     (if cfg_logRetentionDays c = 0 then ret 0
      else andThen (gets (\<lambda>w. (db w, now w))) (\<lambda>(d, t).
           andThen (logEntry_deleteMany (outdated d t c)) (\<lambda>_.
           ret (length (filter (outdated d t c) (logEntries d))))))"

definition cleanupLogs :: "nat handler" where
  "cleanupLogs =
     andThen (gets (\<lambda>w. systemConfigs (db w))) (\<lambda>configs.
     andThen (collect cleanup_turn configs) (\<lambda>counts.
     ret (sum_list counts)))"

definition deleteDeploymentResources :: "uuid \<Rightarrow> (uuid \<times> string option \<times> string option) handler" where
  "deleteDeploymentResources i =
     andThen (gets (\<lambda>w. find (\<lambda>r. d_id r = i) (deployments (db w)))) (\<lambda>found.
     andThen (orThrow found (NotFoundException ''Deployment not found'')) (\<lambda>deployment.
     andThen (gets (\<lambda>w. project_name (db w) (d_projectId deployment))) (\<lambda>name.
     andThen (gets now) (\<lambda>t.
     andThen (deployment_update i (\<lambda>r. r\<lparr>d_status := CANCELED, d_finishedAt := Some t\<rparr>)) (\<lambda>_.
     ret (i, name, d_containerImage deployment))))))"

section \<open>Projects and domains\<close>

definition updateProjectStatus :: "uuid \<Rightarrow> dns_status \<Rightarrow> project handler" where
  "updateProjectStatus i onlineStatus =
     andThen (gets (\<lambda>w. find (\<lambda>p. p_id p = i) (projects (db w)))) (\<lambda>found.
     andThen (orThrow found (NotFoundException ''Project not found'')) (\<lambda>_.
     andThen (gets now) (\<lambda>t.
     project_update i (\<lambda>p. p\<lparr>p_onlineStatus := onlineStatus, p_updatedAt := t\<rparr>))))"

definition updateDomainStatus :: "uuid \<Rightarrow> dns_status \<Rightarrow> string option option \<Rightarrow> domain handler" where
  \<comment> \<open>an undefined error leaves the column, an empty or null one clears it\<close>
  "updateDomainStatus i status error =
     andThen (gets (\<lambda>w. find (\<lambda>m. dom_id m = i) (domains (db w)))) (\<lambda>found.
     andThen (orThrow found (NotFoundException ''Domain not found'')) (\<lambda>_.
     domain_update i (\<lambda>m. m\<lparr>dom_status := status,
       dom_error := (case error of None \<Rightarrow> dom_error m | Some e \<Rightarrow> or_undefined e)\<rparr>)))"

definition getPendingDomains :: "(uuid \<times> string \<times> uuid \<times> string option \<times> time) list handler" where
  "getPendingDomains = gets (\<lambda>w. map (\<lambda>m. (dom_id m, dom_name m, dom_projectId m,
       project_name (db w) (dom_projectId m), dom_createdAt m))
     (order_asc dom_createdAt (filter (\<lambda>m. dom_status m = DnsPENDING) (domains (db w)))))"

section \<open>Notifications\<close>

record notification_dto =
  nd_deploymentId :: uuid
  nd_status :: deployment_status
  nd_message :: "string option"
  nd_projectName :: "string option"
  nd_deploymentUrl :: "string option"

definition getStatusEmoji :: "deployment_status \<Rightarrow> string" where
  \<comment> \<open>the UTF-8 bytes of the emoji\<close>
  "getStatusEmoji s = (case s of
     QUEUED \<Rightarrow> [CHR 0xE2, CHR 0x8F, CHR 0xB3]
   | BUILDING \<Rightarrow> [CHR 0xF0, CHR 0x9F, CHR 0x94, CHR 0xA8]
   | DEPLOYING \<Rightarrow> [CHR 0xF0, CHR 0x9F, CHR 0x9A, CHR 0x80]
   | READY \<Rightarrow> [CHR 0xE2, CHR 0x9C, CHR 0x85]
   | FAILED \<Rightarrow> [CHR 0xE2, CHR 0x9D, CHR 0x8C]
   | CANCELED \<Rightarrow> [CHR 0xF0, CHR 0x9F, CHR 0x9A, CHR 0xAB]
   | EXPIRED \<Rightarrow> [CHR 0xF0, CHR 0x9F, CHR 0xA7, CHR 0xB9]
   | SUPERSEDED \<Rightarrow> [CHR 0xE2, CHR 0x99, CHR 0xBB, CHR 0xEF, CHR 0xB8, CHR 0x8F])"

definition getStatusColor :: "deployment_status \<Rightarrow> string" where
  "getStatusColor s = (case s of
     QUEUED \<Rightarrow> ''#808080'' | BUILDING \<Rightarrow> ''#FFA500'' | DEPLOYING \<Rightarrow> ''#0000FF''
   | READY \<Rightarrow> ''#00FF00'' | FAILED \<Rightarrow> ''#FF0000'' | CANCELED \<Rightarrow> ''#808080''
   | EXPIRED \<Rightarrow> ''#A52A2A'' | SUPERSEDED \<Rightarrow> ''#ff7b00'')"

definition newline :: string where "newline = [CHR 0x0A]"

definition slack_message_of ::
    "notification_dto \<Rightarrow> string \<Rightarrow> (string \<times> string option) option \<Rightarrow> slack_message" where
  \<comment> \<open>\<open>initiator\<close> is the email and name of the user, if there is one\<close>
  "slack_message_of dto projectName initiator = \<lparr>
     sm_color = getStatusColor (nd_status dto),
     sm_header = getStatusEmoji (nd_status dto) @ '' *Deployment '' @ status_name (nd_status dto) @
       ''*'' @ newline @ ''*Project:* '' @ or_else (nd_projectName dto) projectName,
     sm_fields = [
       ''*Initiated by:*'' @ newline @ or_else (Option.bind initiator snd)
          (or_else (map_option fst initiator) ''System''),
       ''*URL:*'' @ newline @ or_else (nd_deploymentUrl dto) ''N/A''],
     sm_message = (if truthy_opt (nd_message dto)
                   then Some (''*Message:* '' @ the (nd_message dto)) else None)\<rparr>"

definition send :: "notification \<Rightarrow> unit handler" where
  \<comment> \<open>handed to axios or to the mail provider; what they answer is ignored (\<open>allSettled\<close>)\<close>
  "send n = modify (\<lambda>w. w\<lparr>outbox := outbox w @ [n]\<rparr>)"

definition mail_enabled :: "external \<Rightarrow> bool" where
  \<comment> \<open>the constructor of the mail service: a client only with an API key\<close>
  "mail_enabled X \<longleftrightarrow> truthy_opt (x_env X ''RESEND_API_KEY'')"

definition sendDeploymentSuccess ::
    "external \<Rightarrow> string \<Rightarrow> string \<Rightarrow> string \<Rightarrow> string option \<Rightarrow> string option \<Rightarrow> unit handler" where
  "sendDeploymentSuccess X to projectName deploymentUrl commitMessage authorName =
     (if \<not> mail_enabled X then ret ()
      else send (MailSuccess to projectName deploymentUrl commitMessage authorName))"

definition sendDeploymentFailure ::
    "external \<Rightarrow> string \<Rightarrow> string \<Rightarrow> string option \<Rightarrow> string option \<Rightarrow> unit handler" where
  "sendDeploymentFailure X to projectName commitMessage authorName =
     (if \<not> mail_enabled X then ret ()
      else send (MailFailure to projectName commitMessage authorName))"

definition initiator_of :: "db \<Rightarrow> deployment \<Rightarrow> (string \<times> string option) option" where
  "initiator_of d r = Option.bind (d_initiatorId r)
     (\<lambda>i. map_option (\<lambda>u. (u_email u, u_name u)) (find (\<lambda>u. u_id u = i) (users d)))"

definition send_mails ::
    "external \<Rightarrow> system_config option \<Rightarrow> notification_dto \<Rightarrow> string \<Rightarrow>
     (string \<times> string option) option \<Rightarrow> unit handler" where
  "send_mails X config dto projectName initiator =
     (case initiator of
        None \<Rightarrow> ret ()
      | Some (email, name) \<Rightarrow>
          if email = [] then ret ()
          else andThen
            (if (case config of None \<Rightarrow> False | Some c \<Rightarrow> cfg_emailDeploySuccess c) \<and> nd_status dto = READY
             then sendDeploymentSuccess X email projectName
                    (or_else (nd_deploymentUrl dto) []) (nd_message dto) name
             else ret ()) (\<lambda>_.
             if (case config of None \<Rightarrow> False | Some c \<Rightarrow> cfg_emailDeployFailed c) \<and> nd_status dto = FAILED
             then sendDeploymentFailure X email projectName (nd_message dto) name
             else ret ()))"

definition sendDeploymentNotification :: "external \<Rightarrow> notification_dto \<Rightarrow> uuid handler" where
  "sendDeploymentNotification X dto =
     andThen (gets (\<lambda>w. find (\<lambda>r. d_id r = nd_deploymentId dto) (deployments (db w)))) (\<lambda>found.
     andThen (orThrow found (NotFoundException ''Deployment not found'')) (\<lambda>deployment.
     andThen (gets (\<lambda>w. find (\<lambda>p. p_id p = d_projectId deployment) (projects (db w)))) (\<lambda>owner.
     andThen (orThrow owner (Thrown ''TypeError'')) (\<lambda>project.
     andThen (gets (\<lambda>w. (find_config (db w) (p_userId project), initiator_of (db w) deployment))) (\<lambda>(config, initiator).
     andThen (case Option.bind config (\<lambda>c. clear_webhook X (cfg_slackWebhook c)) of
                None \<Rightarrow> ret ()
              | Some url \<Rightarrow> send (SlackPost url (slack_message_of dto (p_name project) initiator))) (\<lambda>_.
     andThen (send_mails X config dto (p_name project) initiator) (\<lambda>_.
     ret (nd_deploymentId dto))))))))"

section \<open>The invariant\<close>

lemma keeps_log_row: "keeps db_kept (log_row pd i l)"
  unfolding log_row_def by (intro kept.keeps_db_intros)

lemma keeps_cleanup_turn: "keeps db_kept (cleanup_turn c)"
  unfolding cleanup_turn_def case_prod_unfold by (intro kept.keeps_db_intros keeps_tables)

lemma keeps_send: "keeps db_kept (send n)"
  unfolding send_def by (rule kept.keeps_modify) (simp add: db_kept_def)

lemma keeps_send_mails: "keeps db_kept (send_mails X c dto p i)"
  unfolding send_mails_def sendDeploymentSuccess_def sendDeploymentFailure_def case_prod_unfold
  by (intro kept.keeps_db_intros keeps_send)

lemma keeps_internal:
  "keeps db_kept (updateDeploymentStatus i dto)"
  "keeps db_kept (createLogs pd i ls)"
  "keeps db_kept (internal_getLogs i s)"
  "keeps db_kept (internal_installationToken X n)"
  "keeps db_kept (getSettingsByProject X i)"
  "keeps db_kept getExpiredDeployments"
  "keeps db_kept cleanupLogs"
  "keeps db_kept (deleteDeploymentResources i)"
  "keeps db_kept (updateProjectStatus i ds)"
  "keeps db_kept (updateDomainStatus i ds er)"
  "keeps db_kept getPendingDomains"
  "keeps db_kept (sendDeploymentNotification X ndto)"
  unfolding updateDeploymentStatus_def createLogs_def internal_getLogs_def
    internal_installationToken_def getSettingsByProject_def getExpiredDeployments_def
    cleanupLogs_def deleteDeploymentResources_def updateProjectStatus_def updateDomainStatus_def
    getPendingDomains_def sendDeploymentNotification_def case_prod_unfold
  by (intro kept.keeps_db_intros keeps_tables keeps_log_row keeps_cleanup_turn keeps_git
      keeps_send keeps_send_mails)+

end
