(* ===== verification/Validation.thy ===== *)
theory Validation
  imports Internal
begin

text \<open>
  The data-transfer objects: what the decorators of the DTO classes demand of a JSON body, as the
  global \<open>ValidationPipe\<close> of \<open>main.ts\<close> applies them (\<open>whitelist\<close> with \<open>forbidNonWhitelisted\<close>: an
  unknown field is refused), and the objects the services get. The decorators are data, one
  list of rules per class; \<open>checked\<close> interprets them as class-validator documents it. Its
  \<open>IsEmail\<close> and \<open>IsUrl\<close> are parameters. Numbers are integers.
\<close>

section \<open>Rules\<close>

datatype rule =
    IsString
  | IsNotEmpty
  | IsOptional
  | IsInt
  | IsBoolean
  | IsArray
  | IsEmail
  | IsUrl
  | AtLeast int
  | AtMost int
  | MinLength nat
  | IsEnum "string list"
  | EachEnum "string list"
  | ProjectName
  | DomainName
  | EachNested "(string \<times> rule list) list"

record checkers =
  ck_isEmail :: "string \<Rightarrow> bool"
  ck_isUrl :: "string \<Rightarrow> bool"

definition is_letter :: "char \<Rightarrow> bool" where
  "is_letter c \<longleftrightarrow> (let n = of_char c :: nat in 65 \<le> n \<and> n \<le> 90 \<or> 97 \<le> n \<and> n \<le> 122)"

definition is_alnum :: "char \<Rightarrow> bool" where
  "is_alnum c \<longleftrightarrow> is_letter c \<or> digit_of c \<noteq> None"

definition project_name_ok :: "string \<Rightarrow> bool" where
  \<comment> \<open>\<open>/^[a-zA-Z0-9-]+$/\<close>\<close>
  "project_name_ok s \<longleftrightarrow> s \<noteq> [] \<and> (\<forall>c \<in> set s. is_alnum c \<or> c = CHR ''-'')"

definition label_char :: "char \<Rightarrow> bool" where
  \<comment> \<open>\<open>[a-zA-Z0-9-_]\<close>\<close>
  "label_char c \<longleftrightarrow> is_alnum c \<or> c = CHR ''-'' \<or> c = CHR ''_''"

definition domain_name_ok :: "string \<Rightarrow> bool" where
  \<comment> \<open>the domain expression, on the parts between the dots: any labels, then a label of two or more
      characters that starts with a letter or digit, then two to eleven letters\<close>
  "domain_name_ok s \<longleftrightarrow> (case rev (split_on CHR ''.'' s) of
       tld # label # labels \<Rightarrow>
         2 \<le> length tld \<and> length tld \<le> 11 \<and> (\<forall>c \<in> set tld. is_letter c) \<and>
         2 \<le> length label \<and> is_alnum (hd label) \<and> (\<forall>c \<in> set (tl label). label_char c) \<and>
         (\<forall>l \<in> set labels. l \<noteq> [] \<and> (\<forall>c \<in> set l. label_char c))
     | _ \<Rightarrow> False)"

definition absent :: "json option \<Rightarrow> bool" where
  \<comment> \<open>\<open>value === undefined || value === null\<close>\<close>
  "absent v \<longleftrightarrow> v = None \<or> v = Some JNull"

fun weight :: "rule \<Rightarrow> nat" where
  "weight (EachNested rules) = Suc (Suc (sum_list (map (\<lambda>(k, rs). Suc (sum_list (map weight rs))) rules)))"
| "weight _ = 1"

definition weights :: "(string \<times> rule list) list \<Rightarrow> nat" where
  "weights rules = Suc (sum_list (map (\<lambda>(k, rs). Suc (sum_list (map weight rs))) rules))"

lemma weight_less:
  assumes "(k, rs) \<in> set rules" and "r \<in> set rs"
  shows "weight r < weights rules"
proof -
  have "weight r \<le> sum_list (map weight rs)" using assms(2) by (simp add: member_le_sum_list)
  also have "\<dots> < Suc (sum_list (map weight rs))" by simp
  also have "\<dots> = (\<lambda>(k, rs). Suc (sum_list (map weight rs))) (k, rs)" by simp
  also have "\<dots> \<le> sum_list (map (\<lambda>(k, rs). Suc (sum_list (map weight rs))) rules)"
    using assms(1) by (intro member_le_sum_list) (auto simp: image_iff intro: bexI [of _ "(k, rs)"])
  finally show ?thesis by (simp add: weights_def)
qed

function satisfies :: "checkers \<Rightarrow> rule \<Rightarrow> json option \<Rightarrow> bool"
  and checked :: "checkers \<Rightarrow> (string \<times> rule list) list \<Rightarrow> json \<Rightarrow> bool" where
  "satisfies K IsString v = (case v of Some (JStr s) \<Rightarrow> True | _ \<Rightarrow> False)"
| "satisfies K IsNotEmpty v = (\<not> absent v \<and> v \<noteq> Some (JStr []))"
| "satisfies K IsOptional v = True"
| "satisfies K IsInt v = (case v of Some (JNum n) \<Rightarrow> True | _ \<Rightarrow> False)"
| "satisfies K IsBoolean v = (case v of Some (JBool b) \<Rightarrow> True | _ \<Rightarrow> False)"
| "satisfies K IsArray v = (case v of Some (JArr vs) \<Rightarrow> True | _ \<Rightarrow> False)"
| "satisfies K IsEmail v = (case v of Some (JStr s) \<Rightarrow> ck_isEmail K s | _ \<Rightarrow> False)"
| "satisfies K IsUrl v = (case v of Some (JStr s) \<Rightarrow> ck_isUrl K s | _ \<Rightarrow> False)"
| "satisfies K (AtLeast m) v = (case v of Some (JNum n) \<Rightarrow> m \<le> n | _ \<Rightarrow> False)"
| "satisfies K (AtMost m) v = (case v of Some (JNum n) \<Rightarrow> n \<le> m | _ \<Rightarrow> False)"
| "satisfies K (MinLength m) v = (case v of Some (JStr s) \<Rightarrow> m \<le> length s | _ \<Rightarrow> False)"
| "satisfies K (IsEnum names) v = (case v of Some (JStr s) \<Rightarrow> s \<in> set names | _ \<Rightarrow> False)"
| "satisfies K (EachEnum names) v =
     (case v of Some (JArr vs) \<Rightarrow> (\<forall>x \<in> set vs. case x of JStr s \<Rightarrow> s \<in> set names | _ \<Rightarrow> False) | _ \<Rightarrow> False)"
| "satisfies K ProjectName v = (case v of Some (JStr s) \<Rightarrow> project_name_ok s | _ \<Rightarrow> False)"
| "satisfies K DomainName v = (case v of Some (JStr s) \<Rightarrow> domain_name_ok s | _ \<Rightarrow> False)"
| "satisfies K (EachNested rules) v =
     (case v of Some (JArr vs) \<Rightarrow> (\<forall>x \<in> set vs. checked K rules x) | _ \<Rightarrow> False)"
| "checked K rules body = (case body of
       JObj kvs \<Rightarrow> (\<forall>k \<in> set (map fst kvs). k \<in> set (map fst rules)) \<and>
         (\<forall>(k, rs) \<in> set rules.
            (IsOptional \<in> set rs \<and> absent (member_of body k)) \<or>
            (\<forall>r \<in> set rs. satisfies K r (member_of body k)))
     | _ \<Rightarrow> False)"
  by pat_completeness auto

termination
  by (relation "measure (\<lambda>x. case x of Inl (K, r, v) \<Rightarrow> weight r | Inr (K, rules, b) \<Rightarrow> weights rules)")
    (auto simp: weight_less, simp add: weights_def)

declare checked.simps [simp del]

section \<open>The rules of the classes\<close>

definition base_project_rules :: "(string \<times> rule list) list" where
  "base_project_rules = [
     (''name'', [IsString, IsNotEmpty, ProjectName]),
     (''gitRepoId'', [IsNotEmpty]),
     (''gitRepoName'', [IsString, IsNotEmpty]),
     (''gitRepoOwner'', [IsString, IsNotEmpty]),
     (''gitBranch'', [IsString, IsNotEmpty]),
     (''gitRepoUrl'', [IsString, IsNotEmpty]),
     (''gitCloneUrl'', [IsString, IsNotEmpty]),
     (''language'', [IsString, IsNotEmpty]),
     (''framework'', [IsString, IsOptional]),
     (''rootDirectory'', [IsString, IsOptional]),
     (''installCommand'', [IsString, IsOptional]),
     (''buildCommand'', [IsString, IsOptional]),
     (''runCommand'', [IsString, IsOptional]),
     (''outputDirectory'', [IsString, IsOptional]),
     (''pythonVersion'', [IsString, IsOptional])]"

definition create_project_rules :: "(string \<times> rule list) list" where
  "create_project_rules = base_project_rules @
     [(''envVars'', [IsArray, EachNested [(''key'', [IsString, IsNotEmpty]), (''value'', [IsString])], IsOptional])]"

definition update_project_rules :: "(string \<times> rule list) list" where
  \<comment> \<open>\<open>PartialType\<close> makes every field optional\<close>
  "update_project_rules = map (\<lambda>(k, rs). (k, rs @ [IsOptional])) base_project_rules @
     [(''autoDeploy'', [IsOptional, IsBoolean])]"

definition create_deployment_rules :: "(string \<times> rule list) list" where
  "create_deployment_rules = [(''projectId'', [IsString]), (''branch'', [IsString, IsOptional])]"

definition add_domain_rules :: "(string \<times> rule list) list" where
  "add_domain_rules = [(''name'', [IsString, IsNotEmpty, DomainName])]"

definition target_names :: "string list" where
  "target_names = [''PRODUCTION'', ''PREVIEW'', ''DEVELOPMENT'']"

definition save_env_vars_rules :: "(string \<times> rule list) list" where
  "save_env_vars_rules = [(''variables'', [IsArray, EachNested [
     (''key'', [IsString, IsNotEmpty]), (''value'', [IsString]), (''targets'', [IsArray, EachEnum target_names])]])]"

definition update_settings_rules :: "(string \<times> rule list) list" where
  "update_settings_rules = [
     (''defaultRegion'', [IsOptional, IsString]),
     (''maxConcurrentBuilds'', [IsOptional, IsInt, AtLeast 1, AtMost 10]),
     (''logRetentionDays'', [IsOptional, IsInt]),
     (''turboMode'', [IsOptional, IsBoolean]),
     (''globalTTLMinutes'', [IsOptional, IsInt]),
     (''autoDeploy'', [IsOptional, IsBoolean]),
     (''slackWebhook'', [IsOptional, IsString, IsUrl]),
     (''emailDeployFailed'', [IsOptional, IsBoolean]),
     (''emailDeploySuccess'', [IsOptional, IsBoolean])]"

definition sign_up_rules :: "(string \<times> rule list) list" where
  "sign_up_rules = [(''email'', [IsEmail]), (''password'', [MinLength 8]), (''name'', [IsOptional, IsString])]"

definition sign_in_rules :: "(string \<times> rule list) list" where
  "sign_in_rules = [(''email'', [IsEmail]), (''password'', [IsString])]"

definition status_names :: "string list" where
  "status_names = map status_name [QUEUED, BUILDING, DEPLOYING, READY, FAILED, CANCELED, EXPIRED, SUPERSEDED]"

definition update_deployment_status_rules :: "(string \<times> rule list) list" where
  "update_deployment_status_rules = [(''status'', [IsEnum status_names, IsNotEmpty]),
     (''containerImage'', [IsOptional, IsString]), (''deploymentUrl'', [IsOptional, IsString])]"

definition source_names :: "string list" where
  "source_names = [''BUILD'', ''RUNTIME'', ''SYSTEM'']"

definition create_logs_rules :: "(string \<times> rule list) list" where
  "create_logs_rules = [(''logs'', [IsArray, EachNested [
     (''source'', [IsEnum source_names, IsNotEmpty]), (''message'', [IsString, IsNotEmpty]),
     (''timestamp'', [IsOptional, IsString])]])]"

definition dns_names :: "string list" where
  "dns_names = [''ACTIVE'', ''INACTIVE'', ''PENDING'', ''VERIFYING'', ''ERROR'']"

definition update_project_status_rules :: "(string \<times> rule list) list" where
  "update_project_status_rules = [(''onlineStatus'', [IsEnum dns_names, IsNotEmpty])]"

definition update_domain_status_rules :: "(string \<times> rule list) list" where
  "update_domain_status_rules = [(''status'', [IsEnum dns_names, IsNotEmpty]), (''error'', [IsOptional, IsString])]"

definition notification_rules :: "(string \<times> rule list) list" where
  "notification_rules = [(''deploymentId'', [IsString, IsNotEmpty]), (''status'', [IsEnum status_names, IsNotEmpty]),
     (''message'', [IsOptional, IsString]), (''projectName'', [IsOptional, IsString]),
     (''deploymentUrl'', [IsOptional, IsString])]"

section \<open>From a body to the object of the service\<close>

text \<open>
  A field that passed its rules but has a value Prisma refuses (a repository id that is not a
  number, null for a column that is not nullable) makes the decoding \<open>None\<close>.
\<close>

definition str_field :: "json \<Rightarrow> string \<Rightarrow> string option" where
  "str_field j k = (case member_of j k of Some (JStr s) \<Rightarrow> Some s | _ \<Rightarrow> None)"

definition num_field :: "json \<Rightarrow> string \<Rightarrow> int option" where
  "num_field j k = (case member_of j k of Some (JNum n) \<Rightarrow> Some n | _ \<Rightarrow> None)"

definition opt_field :: "(json \<Rightarrow> 'a option) \<Rightarrow> json \<Rightarrow> string \<Rightarrow> 'a option option" where
  \<comment> \<open>a column that cannot be null: undefined leaves it, null is refused\<close>
  "opt_field get j k = (case member_of j k of None \<Rightarrow> Some None | Some v \<Rightarrow> map_option Some (get v))"

definition null_field :: "json \<Rightarrow> string \<Rightarrow> string option option" where
  \<comment> \<open>a nullable column: undefined, null or a text\<close>
  "null_field j k = (case member_of j k of None \<Rightarrow> None | Some (JStr s) \<Rightarrow> Some (Some s) | Some _ \<Rightarrow> Some None)"

fun as_str :: "json \<Rightarrow> string option" where
  "as_str (JStr s) = Some s" | "as_str _ = None"

fun as_num :: "json \<Rightarrow> int option" where
  "as_num (JNum n) = Some n" | "as_num _ = None"

fun as_bool :: "json \<Rightarrow> bool option" where
  "as_bool (JBool b) = Some b" | "as_bool _ = None"

fun as_list :: "json \<Rightarrow> json list" where
  "as_list (JArr vs) = vs" | "as_list _ = []"

definition list_field :: "json \<Rightarrow> string \<Rightarrow> json list" where
  "list_field j k = (case member_of j k of Some v \<Rightarrow> as_list v | None \<Rightarrow> [])"

definition text_of :: "json \<Rightarrow> string \<Rightarrow> string" where
  "text_of j k = (case str_field j k of Some s \<Rightarrow> s | None \<Rightarrow> [])"

definition create_project_of :: "json \<Rightarrow> create_project_dto option" where
  "create_project_of j =
     Option.bind (num_field j ''gitRepoId'') (\<lambda>repo.
     Option.bind (opt_field as_str j ''framework'') (\<lambda>framework.
     Option.bind (opt_field as_str j ''rootDirectory'') (\<lambda>root.
     Some \<lparr>pd_name = text_of j ''name'', pd_gitRepoId = repo, pd_gitRepoName = text_of j ''gitRepoName'',
       pd_gitRepoOwner = text_of j ''gitRepoOwner'', pd_gitBranch = text_of j ''gitBranch'',
       pd_gitRepoUrl = text_of j ''gitRepoUrl'', pd_gitCloneUrl = text_of j ''gitCloneUrl'',
       pd_language = text_of j ''language'', pd_framework = framework, pd_rootDirectory = root,
       pd_installCommand = str_field j ''installCommand'', pd_buildCommand = str_field j ''buildCommand'',
       pd_runCommand = str_field j ''runCommand'', pd_outputDirectory = str_field j ''outputDirectory'',
       pd_pythonVersion = str_field j ''pythonVersion'',
       pd_envVars = (if absent (member_of j ''envVars'') then None
         else Some (map (\<lambda>v. (text_of v ''key'', text_of v ''value'')) (list_field j ''envVars'')))\<rparr>)))"

definition update_project_of :: "json \<Rightarrow> update_project_dto option" where
  "update_project_of j =
     Option.bind (opt_field as_str j ''name'') (\<lambda>name.
     Option.bind (opt_field as_num j ''gitRepoId'') (\<lambda>repo.
     Option.bind (opt_field as_str j ''gitRepoName'') (\<lambda>repoName.
     Option.bind (opt_field as_str j ''gitRepoOwner'') (\<lambda>repoOwner.
     Option.bind (opt_field as_str j ''gitBranch'') (\<lambda>branch.
     Option.bind (opt_field as_str j ''gitRepoUrl'') (\<lambda>repoUrl.
     Option.bind (opt_field as_str j ''gitCloneUrl'') (\<lambda>cloneUrl.
     Option.bind (opt_field as_str j ''language'') (\<lambda>language.
     Option.bind (opt_field as_str j ''framework'') (\<lambda>framework.
     Option.bind (opt_field as_str j ''rootDirectory'') (\<lambda>root.
     Option.bind (opt_field as_bool j ''autoDeploy'') (\<lambda>auto.
     Some \<lparr>ud_name = name, ud_gitRepoId = repo, ud_gitRepoName = repoName, ud_gitRepoOwner = repoOwner,
       ud_gitBranch = branch, ud_gitRepoUrl = repoUrl, ud_gitCloneUrl = cloneUrl, ud_language = language,
       ud_framework = framework, ud_rootDirectory = root,
       ud_installCommand = null_field j ''installCommand'', ud_buildCommand = null_field j ''buildCommand'',
       ud_runCommand = null_field j ''runCommand'', ud_outputDirectory = null_field j ''outputDirectory'',
       ud_pythonVersion = null_field j ''pythonVersion'', ud_autoDeploy = auto\<rparr>)))))))))))"

definition target_of :: "string \<Rightarrow> environment_type" where
  "target_of s = (if s = ''PREVIEW'' then PREVIEW else if s = ''DEVELOPMENT'' then DEVELOPMENT else PRODUCTION)"

definition env_vars_of :: "json \<Rightarrow> env_var_item list" where
  "env_vars_of j = map (\<lambda>v. \<lparr>ei_key = text_of v ''key'', ei_value = text_of v ''value'',
     ei_targets = map target_of (List.map_filter as_str (list_field v ''targets''))\<rparr>) (list_field j ''variables'')"

definition settings_dto_of :: "json \<Rightarrow> settings_dto option" where
  "settings_dto_of j =
     Option.bind (opt_field as_str j ''defaultRegion'') (\<lambda>region.
     Option.bind (opt_field as_num j ''maxConcurrentBuilds'') (\<lambda>builds.
     Option.bind (opt_field as_num j ''logRetentionDays'') (\<lambda>days.
     Option.bind (opt_field as_bool j ''turboMode'') (\<lambda>turbo.
     Option.bind (opt_field as_num j ''globalTTLMinutes'') (\<lambda>ttl.
     Option.bind (opt_field as_bool j ''autoDeploy'') (\<lambda>auto.
     Option.bind (opt_field as_bool j ''emailDeployFailed'') (\<lambda>failed.
     Option.bind (opt_field as_bool j ''emailDeploySuccess'') (\<lambda>success.
     Some \<lparr>sd_defaultRegion = region, sd_maxConcurrentBuilds = builds, sd_logRetentionDays = days,
       sd_turboMode = turbo, sd_globalTTLMinutes = ttl, sd_autoDeploy = auto,
       sd_slackWebhook = null_field j ''slackWebhook'', sd_emailDeployFailed = failed,
       sd_emailDeploySuccess = success\<rparr>))))))))"

definition status_of :: "string \<Rightarrow> deployment_status" where
  "status_of s = (case find (\<lambda>st. status_name st = s)
     [QUEUED, BUILDING, DEPLOYING, READY, FAILED, CANCELED, EXPIRED, SUPERSEDED] of Some st \<Rightarrow> st | None \<Rightarrow> QUEUED)"

definition status_dto_of :: "json \<Rightarrow> status_dto" where
  "status_dto_of j = \<lparr>st_status = status_of (text_of j ''status''),
     st_containerImage = str_field j ''containerImage'', st_deploymentUrl = str_field j ''deploymentUrl''\<rparr>"

definition source_of :: "string \<Rightarrow> log_source" where
  "source_of s = (if s = ''RUNTIME'' then RUNTIME else if s = ''SYSTEM'' then SYSTEM else BUILD)"

definition logs_of :: "json \<Rightarrow> log_dto list" where
  "logs_of j = map (\<lambda>v. \<lparr>ld_source = source_of (text_of v ''source''), ld_message = text_of v ''message'',
     ld_timestamp = str_field v ''timestamp''\<rparr>) (list_field j ''logs'')"

definition dns_of :: "string \<Rightarrow> dns_status" where
  "dns_of s = (if s = ''ACTIVE'' then DnsACTIVE else if s = ''INACTIVE'' then DnsINACTIVE
     else if s = ''VERIFYING'' then DnsVERIFYING else if s = ''ERROR'' then DnsERROR else DnsPENDING)"

definition notification_of :: "(string \<Rightarrow> uuid) \<Rightarrow> json \<Rightarrow> notification_dto" where
  \<comment> \<open>the parameter reads the text of an id\<close>
  "notification_of id_of j = \<lparr>nd_deploymentId = id_of (text_of j ''deploymentId''),
     nd_status = status_of (text_of j ''status''), nd_message = str_field j ''message'',
     nd_projectName = str_field j ''projectName'', nd_deploymentUrl = str_field j ''deploymentUrl''\<rparr>"

end
