(* ===== verification/UtilLaws.thy ===== *)
theory UtilLaws
  imports Validation Queues Urls Samples
begin

text \<open>
  Laws of the leaf utilities: \<open>sanitize\<close> against a reference definition, the names the
  validation accepts, and the two queue disciplines.
\<close>

section \<open>Sanitized names\<close>

fun join_dash :: "string list \<Rightarrow> string" where
  "join_dash [] = []"
| "join_dash [p] = p"
| "join_dash (p # q # ps) = p @ CHR ''-'' # join_dash (q # ps)"

definition words :: "string \<Rightarrow> string list" where
  \<comment> \<open>the maximal runs without a dash\<close>
  "words s = filter (\<lambda>p. p \<noteq> []) (split_on CHR ''-'' s)"

lemma split_on_ne [simp]: "split_on c s \<noteq> []"
  by (cases s) (auto split: list.splits)

lemma split_on_other: "x \<noteq> c \<Longrightarrow> split_on c (x # s) = (x # hd (split_on c s)) # tl (split_on c s)"
  by (cases "split_on c s") auto

lemma words_dash [simp]: "words [] = []" "words (CHR ''-'' # s) = words s"
  by (simp_all add: words_def)

lemma words_other:
  "x \<noteq> CHR ''-'' \<Longrightarrow> words (x # s) = (x # hd (split_on CHR ''-'' s)) # filter (\<lambda>p. p \<noteq> []) (tl (split_on CHR ''-'' s))"
  by (simp add: words_def split_on_other del: split_on.simps)

lemma split_on_snoc: "split_on c (t @ [c]) = split_on c t @ [[]]"
  by (induction t) (auto split: list.splits simp: Cons_eq_append_conv)

lemma split_squeeze:
  "hd (split_on CHR ''-'' (squeeze_dashes s)) = hd (split_on CHR ''-'' s) \<and>
   filter (\<lambda>p. p \<noteq> []) (tl (split_on CHR ''-'' (squeeze_dashes s))) = filter (\<lambda>p. p \<noteq> []) (tl (split_on CHR ''-'' s))"
proof (induction s rule: squeeze_dashes.induct)
  case (1 a b cs)
  note split_on.simps [simp del]
  have dash: "split_on CHR ''-'' (CHR ''-'' # t) = [] # split_on CHR ''-'' t" for t by (simp add: split_on.simps)
  have parts: "filter (\<lambda>p. p \<noteq> []) (split_on CHR ''-'' t) =
      (if hd (split_on CHR ''-'' t) = [] then [] else [hd (split_on CHR ''-'' t)]) @ filter (\<lambda>p. p \<noteq> []) (tl (split_on CHR ''-'' t))" for t
    by (cases "split_on CHR ''-'' t") auto
  show ?case
  proof (cases "a = CHR ''-''")
    case True
    then show ?thesis using 1 by (auto simp: dash parts)
  next
    case False
    then show ?thesis using 1 by (auto simp: split_on_other)
  qed
qed auto

lemma words_squeeze: "words (squeeze_dashes s) = words s"
proof -
  have "words t = (if hd (split_on CHR ''-'' t) = [] then [] else [hd (split_on CHR ''-'' t)]) @
      filter (\<lambda>p. p \<noteq> []) (tl (split_on CHR ''-'' t))" for t
    unfolding words_def by (cases "split_on CHR ''-'' t") auto
  then show ?thesis using split_squeeze [of s] by simp
qed

lemma words_strip: "words (strip_lead s) = words s" "words (strip_trail s) = words s"
proof -
  show "words (strip_lead s) = words s" by (auto simp: strip_lead_def split: list.splits)
  have last: "words (t @ [CHR ''-'']) = words t" for t
    by (simp add: words_def split_on_snoc)
  show "words (strip_trail s) = words s"
  proof (cases "s \<noteq> [] \<and> last s = CHR ''-''")
    case True
    then have "butlast s @ [CHR ''-''] = s" using append_butlast_last_id [of s] by simp
    then show ?thesis using last [of "butlast s"] True by (simp add: strip_trail_def)
  qed (auto simp: strip_trail_def)
qed

lemma join_words: "no_double_dash s \<Longrightarrow> (s \<noteq> [] \<Longrightarrow> last s \<noteq> CHR ''-'') \<Longrightarrow> join_dash (words s) = strip_lead s"
proof (induction s rule: no_double_dash.induct)
  case (1 a b cs)
  then have IH: "join_dash (words (b # cs)) = strip_lead (b # cs)" by (auto split: if_splits)
  consider "a = CHR ''-''" | "a \<noteq> CHR ''-''" "b = CHR ''-''" | "a \<noteq> CHR ''-''" "b \<noteq> CHR ''-''" by blast
  then show ?case
  proof cases
    case 1
    then show ?thesis using IH \<open>no_double_dash (a # b # cs)\<close> by (simp add: strip_lead_def)
  next
    case 2
    then have cs: "join_dash (words cs) = cs" "cs \<noteq> []" using IH "1.prems"(2) by (auto simp: strip_lead_def)
    then obtain p ps where "words cs = p # ps" by (cases "words cs") auto
    moreover from 2 this have "words (a # b # cs) = [a] # p # ps"
      by (simp add: words_other) (simp add: words_def)
    ultimately show ?thesis using 2 cs by (simp add: strip_lead_def)
  next
    case 3
    obtain q qs where q: "words (b # cs) = q # qs" using 3 by (simp add: words_other)
    with 3 have "words (a # b # cs) = (a # q) # qs"
      by (simp add: words_other split_on_other del: split_on.simps)
    then show ?thesis using IH 3 q by (cases qs) (simp_all add: strip_lead_def)
  qed
qed (auto simp: strip_lead_def words_def split: if_splits)

lemma sanitize_joins:
  "sanitize s = join_dash (words (map (\<lambda>c. mask_char (to_lower c)) s))"
proof -
  have lab: "url_label (sanitize s)" by (rule sanitize_label)
  then have "sanitize s = strip_lead (sanitize s)" by (auto simp: url_label_def strip_lead_def split: list.splits)
  also have "\<dots> = join_dash (words (sanitize s))"
    using lab by (intro join_words [symmetric]) (auto simp: url_label_def)
  also have "words (sanitize s) = words (map mask_char (map to_lower s))"
    by (simp add: sanitize_def words_strip words_squeeze)
  finally show ?thesis by (simp add: o_def)
qed

theorem sanitize_joins_words:
  "sanitize s = join_dash (words (map (\<lambda>c. mask_char (to_lower c)) s))"
  by (rule sanitize_joins)

section \<open>Accepted names\<close>

lemma words_empty: "words s = [] \<longleftrightarrow> (\<forall>c \<in> set s. c = CHR ''-'')"
proof (induction s)
  case (Cons c s)
  then show ?case by (cases "c = CHR ''-''") (auto simp: words_other)
qed simp

lemma alnum_kept: "is_alnum c \<Longrightarrow> mask_char (to_lower c) \<noteq> CHR ''-''"
proof -
  assume a: "is_alnum c"
  let ?n = "of_char c :: nat"
  have "int ?n = of_char c" by (rule of_nat_of_char)
  with a have n: "65 \<le> ?n \<and> ?n \<le> 90 \<or> 97 \<le> ?n \<and> ?n \<le> 122 \<or> 48 \<le> ?n \<and> ?n \<le> 57"
    unfolding is_alnum_def is_letter_def digit_of_def Let_def by (simp split: if_splits) linarith
  show ?thesis
    using n by (auto simp: mask_char_def to_lower_def url_char_def is_upper_def is_lower_def is_digit_def Let_def dest!: arg_cong [where f = "of_char :: char \<Rightarrow> nat"])
qed

lemma dash_lower [simp]: "to_lower CHR ''-'' = CHR ''-''"
  by (simp add: to_lower_def is_upper_def)

lemma dash_kept: "mask_char (to_lower CHR ''-'') = CHR ''-''"
  by (simp add: mask_char_def to_lower_def is_upper_def)

lemma join_empty: "\<forall>p \<in> set ps. p \<noteq> [] \<Longrightarrow> join_dash ps = [] \<longleftrightarrow> ps = []"
  by (cases ps rule: join_dash.cases) auto

lemma accepted_label_empty:
  assumes "project_name_ok s"
  shows "sanitize s = [] \<longleftrightarrow> set s = {CHR ''-''}"
proof -
  let ?m = "map (\<lambda>c. mask_char (to_lower c)) s"
  have label: "sanitize s = join_dash (words ?m)"
    by (rule sanitize_joins)
  have "sanitize s = [] \<longleftrightarrow> words ?m = []"
    unfolding label by (rule join_empty) (simp add: words_def)
  also have "\<dots> \<longleftrightarrow> (\<forall>c \<in> set s. mask_char (to_lower c) = CHR ''-'')" by (simp add: words_empty)
  also have "\<dots> \<longleftrightarrow> (\<forall>c \<in> set s. c = CHR ''-'')"
  proof (rule ball_cong [OF refl])
    fix c
    assume "c \<in> set s"
    then have "is_alnum c \<or> c = CHR ''-''" using assms by (simp add: project_name_ok_def)
    then show "mask_char (to_lower c) = CHR ''-'' \<longleftrightarrow> c = CHR ''-''" using alnum_kept dash_kept by blast
  qed
  also have "\<dots> \<longleftrightarrow> set s = {CHR ''-''}"
    using assms by (cases s) (auto simp: project_name_ok_def)
  finally show ?thesis .
qed

section \<open>The host name of a deployment\<close>

lemma hex_digit_url: "url_char (hex_digit n) \<and> hex_digit n \<noteq> CHR ''-''"
proof -
  have "hex_digit n \<in> set ''0123456789abcdef''" unfolding hex_digit_def by (rule nth_mem) simp
  then show ?thesis by (auto simp: url_char_def is_lower_def is_digit_def)
qed

lemma hex_encode_url: "c \<in> set (hex_encode b) \<Longrightarrow> url_char c \<and> c \<noteq> CHR ''-''"
  by (induction b) (auto simp: hex_digit_url)

lemma length_squeeze: "length (squeeze_dashes s) \<le> length s"
  by (induction s rule: squeeze_dashes.induct) auto

lemma length_sanitize: "length (sanitize s) \<le> length s"
proof -
  have "length (strip_trail t) \<le> length t" "length (strip_lead t) \<le> length t" for t
    by (auto simp: strip_trail_def strip_lead_def split: list.splits)
  then show ?thesis unfolding sanitize_def
    by (metis (no_types, lifting) length_map length_squeeze order_trans)
qed

lemma no_double_without: "CHR ''-'' \<notin> set s \<Longrightarrow> no_double_dash s"
  by (induction s rule: no_double_dash.induct) auto

lemma no_double_append:
  assumes "no_double_dash b" and "b \<noteq> [] \<Longrightarrow> last b \<noteq> CHR ''-''" and "CHR ''-'' \<notin> set h"
  shows "no_double_dash (b @ CHR ''-'' # h)"
  using assms(1,2)
proof (induction b)
  case Nil
  then show ?case using assms(3) by (cases h) (auto intro: no_double_without)
next
  case (Cons a b)
  then show ?case by (cases b) (auto split: if_splits)
qed

lemma accepted_sanitized:
  assumes "project_name_ok s"
  shows "sanitize s = join_dash (words (map to_lower s))"
proof -
  have "mask_char (to_lower c) = to_lower c" if "c \<in> set s" for c
  proof -
    have "is_alnum c \<or> c = CHR ''-''" using assms that by (simp add: project_name_ok_def)
    then show ?thesis using alnum_kept [of c] by (auto simp: mask_char_def dash_lower split: if_splits)
  qed
  then show ?thesis unfolding sanitize_joins by (simp cong: map_cong)
qed

text \<open>
  C36. For a project name the validation accepts, the generated host is the words of the name in
  lower case, joined by single dashes; a dash; six hexadecimal digits of three bytes of the
  random source, which advances by them; and the domain. So it is a label over lower-case
  letters, digits and single dashes that ends in no dash; it starts with one exactly when the
  name consists of dashes only, which the validation allows.
\<close>

theorem deployment_url_host:
  assumes "project_name_ok s" and "generateDeploymentUrl X s w = (Inr url, w')"
  shows "\<exists>suffix label. suffix = take 6 (hex_encode (map (rng w) [rng_pos w ..< rng_pos w + 3])) \<and>
     label = join_dash (words (map to_lower s)) @ ''-'' @ suffix \<and> w' = w\<lparr>rng_pos := rng_pos w + 3\<rparr> \<and>
     url = ''https://'' @ label @ ''.'' @ url_config_deploy_domain X \<and>
     (\<forall>c \<in> set label. url_char c) \<and> no_double_dash label \<and> length suffix = 6 \<and> length label \<le> length s + 7 \<and>
     last label \<noteq> CHR ''-'' \<and> (hd label = CHR ''-'' \<longleftrightarrow> set s = {CHR ''-''})"
proof -
  define hash where "hash = take 6 (hex_encode (map (rng w) [rng_pos w ..< rng_pos w + 3]))"
  have run: "url = ''https://'' @ (sanitize s @ ''-'' @ hash) @ ''.'' @ url_config_deploy_domain X" "w' = w\<lparr>rng_pos := rng_pos w + 3\<rparr>"
    using assms(2) by (simp_all add: generateDeploymentUrl_run hash_def)
  have len: "length hash = 6" by (simp add: hash_def)
  have hex: "\<forall>c \<in> set hash. url_char c \<and> c \<noteq> CHR ''-''"
    unfolding hash_def using hex_encode_url by (blast dest: in_set_takeD)
  have lab: "url_label (sanitize s)" by (rule sanitize_label)
  have ne: "hash \<noteq> []" using len by auto
  then have "last hash \<noteq> CHR ''-''" using hex last_in_set by blast
  then have "last (sanitize s @ ''-'' @ hash) \<noteq> CHR ''-''" using ne by simp
  moreover have "hd (sanitize s @ ''-'' @ hash) = CHR ''-'' \<longleftrightarrow> sanitize s = []"
    using lab by (cases "sanitize s") (auto simp: url_label_def)
  moreover have "\<forall>c \<in> set (sanitize s @ ''-'' @ hash). url_char c"
    using lab hex by (auto simp: url_label_def url_char_def)
  moreover have "no_double_dash (sanitize s @ ''-'' @ hash)"
    using no_double_append [of "sanitize s" hash] lab hex by (auto simp: url_label_def)
  ultimately show ?thesis
    using run len length_sanitize [of s] accepted_label_empty [OF assms(1)]
    unfolding hash_def [symmetric] accepted_sanitized [OF assms(1), symmetric]
    by (intro exI [of _ hash] exI [of _ "sanitize s @ ''-'' @ hash"]) simp
qed

theorem deployment_url_host_witness:
  "\<exists>url w' label. generateDeploymentUrl sample_external ''My--Shop'' sample_world = (Inr url, w') \<and>
     url = ''https://'' @ label @ ''.'' @ url_config_deploy_domain sample_external \<and> take 8 label = ''my-shop-''"
proof -
  obtain url w' where run: "generateDeploymentUrl sample_external ''My--Shop'' sample_world = (Inr url, w')"
    by (simp add: generateDeploymentUrl_run)
  have "project_name_ok ''My--Shop''" by code_simp
  moreover have "join_dash (words (map to_lower ''My--Shop'')) = ''my-shop''" by code_simp
  ultimately show ?thesis using deployment_url_host [OF _ run] run by auto
qed

section \<open>The two queues\<close>

fun served :: "('r \<Rightarrow> ('j \<times> 'r) option) \<Rightarrow> nat \<Rightarrow> 'r \<Rightarrow> 'j list" where
  \<comment> \<open>the jobs the next pops hand out\<close>
  "served pop 0 r = []"
| "served pop (Suc n) r = (case pop r of None \<Rightarrow> [] | Some (j, r') \<Rightarrow> j # served pop n r')"

context job_queue begin

lemma served_pending: "served pop (length (pending r)) r = pending r"
proof (induction "pending r" arbitrary: r)
  case Nil
  then show ?case by (simp add: Nil [symmetric])
next
  case (Cons j js)
  from pop_next [OF Cons.hyps(2) [symmetric]] obtain r' where "pop r = Some (j, r')" "pending r' = js" by blast
  then show ?case using Cons.hyps(1) [of r'] Cons.hyps(2) [symmetric] by simp
qed

end

context fifo_queue begin

lemma served_after_pushes: "served pop (length (pending r) + length js) (fold push js r) = pending r @ js"
  using served_pending [of "fold push js r"] by (simp add: pending_pushes)

end

text \<open>
  C39. The build queue is a stack: when jobs keep arriving one per job served, each new job is
  served at once and everything that was waiting waits forever.
\<close>

theorem build_queue_starves:
  "\<exists>r'. serve_rounds rpush_build waitForJob js r = (js, r') \<and> build_queue r' = build_queue r"
proof -
  obtain ks r' where s: "serve_rounds rpush_build waitForJob js r = (ks, r')" by fastforce
  then show ?thesis using buildQ.waiting_starves [of js r] by simp
qed

theorem cleanup_queue_serves_all:
  "served popProjectCleanup (length (cleanup_queue r) + length js) (fold lpush_cleanup js r) =
     rev (cleanup_queue r) @ js"
  using cleanupQ.served_after_pushes [of r js] by simp

end
