(* ===== verification/DeploymentLaws.thy ===== *)
theory DeploymentLaws
  imports Deployments
begin

text \<open>
  What \<open>deployments/deployments.service.ts\<close> promises. \<open>deployable\<close> is the abstract
  precondition of a manual deployment: the project is the user's, its newest deployment is not
  in progress, and a linked GitHub account of the user is installed. Under it the service
  records one queued deployment and pushes its job; without it nothing changes at all.
\<close>

section \<open>Triggering a deployment\<close>

definition deployable :: "uuid \<Rightarrow> uuid \<Rightarrow> db \<Rightarrow> project \<Rightarrow> git_account \<Rightarrow> bool" where
  "deployable u i d p a \<longleftrightarrow> owned_project u i d = Some p \<and> \<not> latest_in_progress d i \<and>
     find_or_first (\<lambda>a. ga_username a = p_gitRepoOwner p)
       (filter (\<lambda>a. ga_userId a = u) (gitAccounts d)) = Some a \<and>
     truthy_opt (ga_installationId a)"

definition commit_of :: "external \<Rightarrow> project \<Rightarrow> git_account \<Rightarrow> commit_data" where
  "commit_of X p a = getLatestCommit X (the (ga_installationId a)) (p_gitRepoOwner p)
     (p_gitRepoName p) (p_gitBranch p)"

definition queued_row :: "external \<Rightarrow> world \<Rightarrow> uuid \<Rightarrow> project \<Rightarrow> git_account \<Rightarrow> deployment" where
  "queued_row X w u p a = (snapshot w u p (commit_of X p a)
     (map_option dom_name (head_opt (project_domains (db w) (p_id p)))))\<lparr>d_id := nextId (db w)\<rparr>"

definition recorded :: "external \<Rightarrow> uuid \<Rightarrow> project \<Rightarrow> git_account \<Rightarrow> world \<Rightarrow> world" where
  "recorded X u p a w = w\<lparr>db := (db w)\<lparr>
     deployments := deployments (db w) @ [queued_row X w u p a],
     projects := map (\<lambda>q. if p_id q = p_id p then q\<lparr>p_configChanged := False, p_updatedAt := now w\<rparr> else q)
       (projects (db w)),
     nextId := Suc (nextId (db w))\<rparr>\<rparr>"

lemma record_deployment_run:
  assumes ok: "db_ok (db w)" and own: "owned_project u i (db w) = Some q" and pid: "p_id p = i"
  shows "record_deployment u p c url w =
    (Inr ((snapshot w u p c url)\<lparr>d_id := nextId (db w)\<rparr>),
     w\<lparr>db := (db w)\<lparr>deployments := deployments (db w) @ [(snapshot w u p c url)\<lparr>d_id := nextId (db w)\<rparr>],
          projects := map (\<lambda>q. if p_id q = i then q\<lparr>p_configChanged := False, p_updatedAt := now w\<rparr> else q)
            (projects (db w)),
          nextId := Suc (nextId (db w))\<rparr>\<rparr>)"
proof -
  let ?s = "snapshot w u p c url"
  let ?d = "?s\<lparr>d_id := nextId (db w)\<rparr>"
  let ?w1 = "w\<lparr>db := (db w)\<lparr>deployments := deployments (db w) @ [?d], nextId := Suc (nextId (db w))\<rparr>\<rparr>"
  have qin: "q \<in> set (projects (db w))" "p_id q = p_id p" "p_userId q = u"
    using owned_projectD [OF own] pid by simp_all
  have "u \<in> u_id ` set (users (db w))" and "p_id p \<in> p_id ` set (projects (db w))"
    using fksD(2) [OF db_okD(2) [OF ok] qin(1)] qin imageI [OF qin(1), of p_id] by simp_all
  then have ins: "can_insert_deployment ?s (db w)"
    by (simp add: can_insert_deployment_def snapshot_def)
  have create: "deployment_create ?s w = (Inr ?d, ?w1)"
    using deploymentI.create_ok [OF ok ins] by (simp add: insert_form)
  have ok1: "db_ok (db ?w1)"
    by (rule deploymentI.create_keeps_ok [OF create ok])
  have upd: "project_update i (\<lambda>q. q\<lparr>p_configChanged := False, p_updatedAt := now w\<rparr>) ?w1 =
      (Inr (q\<lparr>p_configChanged := False, p_updatedAt := now w\<rparr>),
       ?w1\<lparr>db := projects_update (map (\<lambda>q. if p_id q = i
          then q\<lparr>p_configChanged := False, p_updatedAt := now w\<rparr> else q)) (db ?w1)\<rparr>)"
    by (rule projectT.update_row_run [OF db_okD(1) [OF ok1] db_okD(2) [OF ok1]])
      (use owned_project_find [OF db_okD(1) [OF ok] own] in simp_all)
  show ?thesis
    using create upd by (simp add: record_deployment_def transaction_def action_simps andThen_def pid)
qed

lemma deploy_run:
  assumes "db_ok (db w)" and "deployable u i (db w) p a"
  shows "deploymentsService_create X u i w = andThen (addBuildJob (manual_job X p
      (filter (\<lambda>e. ev_projectId e = i) (envVars (db w))) (project_domains (db w) i)
      (the (ga_installationId a)) (commit_of X p a) (queued_row X w u p a)))
      (\<lambda>_. ret (queued_row X w u p a)) (recorded X u p a w)"
proof -
  have own: "owned_project u i (db w) = Some p" using assms(2) by (simp add: deployable_def)
  then have pid: "p_id p = i" using owned_projectD by blast
  have "filter (\<lambda>a. ga_userId a = u) (gitAccounts (db w)) \<noteq> []"
    using assms(2) by (auto simp: deployable_def)
  then show ?thesis
    using assms(2) own
    by (simp add: deploymentsService_create_def deployable_def action_simps Let_def andThen_def
       record_deployment_run [OF assms(1) own pid]
       recorded_def queued_row_def commit_of_def pid del: filter_empty_conv)
qed

lemma queued_row_simps [simp]:
  "d_id (queued_row X w u p a) = nextId (db w)" "d_projectId (queued_row X w u p a) = p_id p"
  "d_initiatorId (queued_row X w u p a) = Some u" "d_status (queued_row X w u p a) = QUEUED"
  "d_trigger (queued_row X w u p a) = MANUAL" "d_startedAt (queued_row X w u p a) = now w"
  "d_branch (queued_row X w u p a) = p_gitBranch p"
  "d_commitHash (queued_row X w u p a) = cd_sha (commit_of X p a)"
  "d_isSuccess (queued_row X w u p a) = False" "d_finishedAt (queued_row X w u p a) = None"
  by (simp_all add: queued_row_def snapshot_def new_deployment_def)

lemma recorded_redis [simp]: "redis (recorded X u p a w) = redis w" "now (recorded X u p a w) = now w"
  by (simp_all add: recorded_def)

lemma latest_in_progress_recorded:
  assumes "\<forall>r \<in> set (deployments (db w)). d_projectId r = p_id p \<longrightarrow> d_startedAt r < now w"
  shows "latest_deployment (db (recorded X u p a w)) (p_id p) = Some (queued_row X w u p a)"
  using assms order_desc_append_newer [of "filter (\<lambda>r. d_projectId r = p_id p) (deployments (db w))" d_startedAt
     "queued_row X w u p a"]
  by (simp add: latest_deployment_def recorded_def)

lemma deployable_pid: "deployable u i d p a \<Longrightarrow> p_id p = i"
  by (auto simp: deployable_def dest: owned_projectD)

lemma queued_commit:
  "case x_getBranch X (js_Number (the (ga_installationId a))) (p_gitRepoOwner p) (p_gitRepoName p) (p_gitBranch p) of
     Some b \<Rightarrow> cd_sha (commit_of X p a) = bd_sha b \<and> d_commitMessage (queued_row X w u p a) = Some (bd_message b) \<and>
       d_commitAuthor (queued_row X w u p a) =
         (if truthy_opt (bd_authorName b) then bd_authorName b else bd_authorLogin b)
   | None \<Rightarrow> cd_sha (commit_of X p a) = ''HEAD'' \<and>
       d_commitMessage (queued_row X w u p a) = Some ''Initial deployment'' \<and>
       d_commitAuthor (queued_row X w u p a) = Some ''System''"
  by (simp add: queued_row_def snapshot_def commit_of_def getLatestCommit_def split: option.split)

text \<open>
  C6. A manual deployment of an owned, idle project with an installed GitHub account records
  exactly one QUEUED deployment of the project's branch, at the commit GitHub reports as that
  branch's head to the account's installation (the placeholder HEAD when GitHub gives no
  answer), clears configChanged, and pushes exactly one job that carries the same deployment,
  repository, installation, commit, branch and domains.
\<close>

theorem deploymentsService_create_effect:
  assumes "db_ok (db w)" and "redis_up (redis w)" and "deployable u i (db w) p a"
  shows "\<exists>dep j. deploymentsService_create X u i w =
      (Inr dep, w\<lparr>db := (db w)\<lparr>deployments := deployments (db w) @ [dep],
          projects := map (\<lambda>q. if p_id q = i then q\<lparr>p_configChanged := False, p_updatedAt := now w\<rparr> else q)
            (projects (db w)),
          nextId := Suc (nextId (db w))\<rparr>,
        redis := (redis w)\<lparr>build_queue := build_queue (redis w) @ [j]\<rparr>\<rparr>) \<and>
     d_id dep = nextId (db w) \<and> d_projectId dep = i \<and> d_initiatorId dep = Some u \<and>
     d_status dep = QUEUED \<and> d_trigger dep = MANUAL \<and> d_startedAt dep = now w \<and>
     d_branch dep = p_gitBranch p \<and>
     (case x_getBranch X (js_Number (the (ga_installationId a))) (p_gitRepoOwner p) (p_gitRepoName p) (p_gitBranch p) of
        Some b \<Rightarrow> d_commitHash dep = bd_sha b \<and> d_commitMessage dep = Some (bd_message b) \<and>
          d_commitAuthor dep = (if truthy_opt (bd_authorName b) then bd_authorName b else bd_authorLogin b)
      | None \<Rightarrow> d_commitHash dep = ''HEAD'' \<and> d_commitMessage dep = Some ''Initial deployment'' \<and>
          d_commitAuthor dep = Some ''System'') \<and>
     job_gitUrl j = github_url p \<and> job_installationId j = js_Number (the (ga_installationId a)) \<and>
     job_deploymentId j = d_id dep \<and> job_projectId j = i \<and> job_branch j = d_branch dep \<and>
     job_commitHash j = d_commitHash dep \<and>
     job_domains j = map dom_name (project_domains (db w) i) \<and>
     d_deploymentUrl dep = head_opt (job_domains j)"
proof -
  let ?j = "manual_job X p (filter (\<lambda>e. ev_projectId e = i) (envVars (db w))) (project_domains (db w) i)
      (the (ga_installationId a)) (commit_of X p a) (queued_row X w u p a)"
  have url: "d_deploymentUrl (queued_row X w u p a) = head_opt (job_domains ?j)"
    using deployable_pid [OF assms(3)]
    by (cases "project_domains (db w) i") (simp_all add: queued_row_def snapshot_def manual_job_def)
  show ?thesis
    using url assms(2) deployable_pid [OF assms(3)] queued_commit [of X p a w u]
    by (intro exI [of _ "queued_row X w u p a"] exI [of _ ?j])
      (simp add: deploy_run [OF assms(1,3)] action_simps andThen_def recorded_def rpush_build_def manual_job_def
        split: option.splits)
qed

lemma create_refused_run:
  assumes "\<nexists>p a. deployable u i (db w) p a"
  shows "\<exists>e. deploymentsService_create X u i w = (Inl e, w)"
proof -
  show ?thesis
  proof (cases "owned_project u i (db w)")
    case None
    then show ?thesis by (simp add: deploymentsService_create_def action_simps)
  next
    case (Some p)
    then have "p_id p = i" using owned_projectD by blast
    then show ?thesis
      using Some assms
      by (cases "find_or_first (\<lambda>a. ga_username a = p_gitRepoOwner p)
            (filter (\<lambda>a. ga_userId a = u) (gitAccounts (db w)))")
        (auto simp: deploymentsService_create_def action_simps deployable_def)
  qed
qed

text \<open>
  C7. A manual deployment that does not meet its precondition (foreign or missing project, one
  in progress, no linked or installed account) is refused and changes nothing at all, in the
  database, in Redis or in the random source.
\<close>

theorem deploymentsService_create_refused:
  assumes "\<nexists>p a. deployable u i (db w) p a"
  shows "\<exists>e. deploymentsService_create X u i w = (Inl e, w)"
  by (rule create_refused_run [OF assms])

lemma owned_project_touch:
  assumes "\<And>q. p_id (f q) = p_id q" and "\<And>q. p_userId (f q) = p_userId q"
  shows "owned_project u i (d\<lparr>deployments := ds, projects := map f (projects d), nextId := n\<rparr>) =
    map_option f (owned_project u i d)"
proof -
  have "find (\<lambda>p. p_id p = i \<and> p_userId p = u) (map f ps) =
      map_option f (find (\<lambda>p. p_id p = i \<and> p_userId p = u) ps)" for ps
    by (induction ps) (simp_all add: assms)
  then show ?thesis by (simp add: owned_project_def)
qed

text \<open>
  C16. If Redis is down when a deployment is created, the transaction is already committed: the
  caller gets an error, the deployment stays QUEUED with no job, and every later attempt is
  refused as already in progress, even when Redis is back.
\<close>

theorem redis_outage_blocks_project:
  assumes "db_ok (db w)" and "\<not> redis_up (redis w)" and "deployable u i (db w) p a"
    and "\<forall>r \<in> set (deployments (db w)). d_projectId r = i \<longrightarrow> d_startedAt r < now w"
    and "deploymentsService_create X u i w = (res, w')"
  shows "res = Inl (Thrown ''Redis connection error'') \<and> redis w' = redis w \<and>
    (\<exists>dep. deployments (db w') = deployments (db w) @ [dep] \<and> d_status dep = QUEUED \<and> d_projectId dep = i) \<and>
    (\<forall>t r. deploymentsService_create X u i (w'\<lparr>now := t, redis := r\<rparr>) =
       (Inl (BadRequestException ''A deployment is already in progress for this project.''),
        w'\<lparr>now := t, redis := r\<rparr>))"
proof -
  have pid: "p_id p = i" by (rule deployable_pid [OF assms(3)])
  have w': "res = Inl (Thrown ''Redis connection error'')" "w' = recorded X u p a w"
    using assms(2,5) by (simp_all add: deploy_run [OF assms(1,3)] action_simps andThen_def)
  have busy: "latest_in_progress (db w') i"
    using latest_in_progress_recorded [of w p X u a] assms(4) pid w' by (simp add: latest_in_progress_def)
  have own: "\<exists>q. owned_project u i (db w') = Some q"
    using assms(3) by (simp add: deployable_def w'(2) recorded_def owned_project_touch)
  have accs: "gitAccounts (db w') = gitAccounts (db w)" by (simp add: w' recorded_def)
  show ?thesis
    using w' busy own accs assms(3) pid
    by (auto simp: deploymentsService_create_def action_simps recorded_def deployable_def)
qed

lemma cancel_run:
  assumes ok: "db_ok (db w)" and own: "owned_deployment u i (db w) = Some r" and ip: "in_progress (d_status r)"
  shows "deploymentsService_cancel u i w =
    (let r' = r\<lparr>d_status := CANCELED, d_finishedAt := Some (now w),
               d_duration := Some (elapsed_seconds (now w) (d_startedAt r))\<rparr>;
         w1 = w\<lparr>db := (db w)\<lparr>deployments := map (\<lambda>x. if d_id x = i then r' else x) (deployments (db w))\<rparr>\<rparr>
     in if redis_up (redis w)
        then (Inr r', w1\<lparr>redis := set_ex (CANCEL_KEY_PREFIX, i) ''1'' (now w + 300000) (redis w)\<rparr>)
        else (Inl (Thrown ''Redis connection error''), w1))"
proof -
  let ?f = "\<lambda>x. x\<lparr>d_status := CANCELED, d_finishedAt := Some (now w),
               d_duration := Some (elapsed_seconds (now w) (d_startedAt r))\<rparr>"
  have find: "find (\<lambda>x. d_id x = i) (deployments (db w)) = Some r"
    by (rule owned_deployment_find [OF db_okD(1) [OF ok] own])
  have map: "map (\<lambda>x. if d_id x = i then ?f x else x) (deployments (db w)) =
      map (\<lambda>x. if d_id x = i then ?f r else x) (deployments (db w))"
  proof (rule map_cong [OF HOL.refl])
    fix x assume "x \<in> set (deployments (db w))"
    then have "d_id x = i \<Longrightarrow> x = r"
      using deploymentT.find_row [OF db_okD(1) [OF ok], of x] find by simp
    then show "(if d_id x = i then ?f x else x) = (if d_id x = i then ?f r else x)" by auto
  qed
  have upd: "deployment_update i ?f w = (Inr (?f r),
      w\<lparr>db := deployments_update (map (\<lambda>x. if d_id x = i then ?f x else x)) (db w)\<rparr>)"
    by (rule deploymentT.update_row_run [OF db_okD(1) [OF ok] db_okD(2) [OF ok] _ find]) simp
  show ?thesis
    using own ip upd
    by (simp add: deploymentsService_cancel_def action_simps andThen_def Let_def map [symmetric])
qed

text \<open>
  C19. Cancelling an own deployment in progress sets it to CANCELED with a finishing time,
  changes no other deployment, and - when Redis is up - makes the worker see the cancel signal
  for exactly the next five minutes.
\<close>

theorem cancel_signals_worker:
  assumes "db_ok (db w)" and "owned_deployment u i (db w) = Some r" and "in_progress (d_status r)"
    and "deploymentsService_cancel u i w = (res, w')"
  shows "(\<exists>r'. owned_deployment u i (db w') = Some r' \<and> d_status r' = CANCELED \<and> d_finishedAt r' = Some (now w)) \<and>
    filter (\<lambda>x. d_id x \<noteq> i) (deployments (db w')) = filter (\<lambda>x. d_id x \<noteq> i) (deployments (db w)) \<and>
    (redis_up (redis w) \<longrightarrow> (\<exists>r'. res = Inr r') \<and>
       (\<forall>t. isCancelled t i (redis w') \<longleftrightarrow> t < now w + 300000)) \<and>
    (\<not> redis_up (redis w) \<longrightarrow> (\<exists>e. res = Inl e) \<and> redis w' = redis w)"
proof -
  note run = assms(4) [unfolded cancel_run [OF assms(1-3)] Let_def]
  have ds: "deployments (db w') = map (\<lambda>x. if d_id x = i then r\<lparr>d_status := CANCELED, d_finishedAt := Some (now w),
               d_duration := Some (elapsed_seconds (now w) (d_startedAt r))\<rparr> else x) (deployments (db w))"
    and ps: "projects (db w') = projects (db w)"
    using run by (auto split: if_splits)
  have rid: "d_id r = i" "r \<in> set (deployments (db w))" "project_owner (db w) (d_projectId r) = Some u"
    using owned_deploymentD [OF assms(2)] by simp_all
  have 1: "\<exists>r'. owned_deployment u i (db w') = Some r' \<and> d_status r' = CANCELED \<and> d_finishedAt r' = Some (now w)"
  proof -
    let ?g = "\<lambda>x. if d_id x = i then r\<lparr>d_status := CANCELED, d_finishedAt := Some (now w),
               d_duration := Some (elapsed_seconds (now w) (d_startedAt r))\<rparr> else x"
    have "\<exists>r'. find (\<lambda>x. d_id x = i \<and> project_owner (db w') (d_projectId x) = Some u) (map ?g xs) = Some r' \<and>
        d_status r' = CANCELED \<and> d_finishedAt r' = Some (now w)" if "r \<in> set xs" for xs
      using that rid by (induction xs) (auto simp: project_owner_def ps)
    then show ?thesis using rid ds by (simp add: owned_deployment_def)
  qed
  have 2: "filter (\<lambda>x. d_id x \<noteq> i) (deployments (db w')) = filter (\<lambda>x. d_id x \<noteq> i) (deployments (db w))"
    unfolding ds by (rule filter_map_unaffected) (simp_all add: rid)
  show ?thesis using 1 2 run by (auto split: if_splits)
qed

theorem cancel_refused:
  assumes "\<nexists>r. owned_deployment u i (db w) = Some r \<and> in_progress (d_status r)"
  shows "\<exists>e. deploymentsService_cancel u i w = (Inl e, w)"
  using assms
  by (cases "owned_deployment u i (db w)") (auto simp: deploymentsService_cancel_def action_simps)

section \<open>Log polling\<close>

lemma matching_logs_after:
  "matching_logs d i s (Some t) = filter (\<lambda>l. t < log_timestamp l) (matching_logs d i s None)"
  by (simp add: matching_logs_def order_asc_def filter_sort conj_ac)

lemma matching_logs_later:
  assumes "case a of None \<Rightarrow> True | Some t \<Rightarrow> t \<le> c"
  shows "matching_logs d i s (Some c) = filter (\<lambda>l. c < log_timestamp l) (matching_logs d i s a)"
  unfolding matching_logs_def order_asc_def filter_sort filter_filter
  by (rule arg_cong [where f = "sort_key log_timestamp"], rule filter_cong [OF HOL.refl])
    (use assms in \<open>auto split: option.splits\<close>)

lemma getLogs_run:
  "deploymentsService_getLogs u i s a lim w =
    (case owned_deployment u i (db w) of
       None \<Rightarrow> (Inl (NotFoundException ''Deployment not found''), w)
     | Some r \<Rightarrow> (Inr (logs_page_of (d_status r) (page_size lim)
         (prisma_take (page_size lim) (matching_logs (db w) i s a))), w))"
  by (simp add: deploymentsService_getLogs_def action_simps split: option.splits)

lemma matching_logs_sorted: "sorted (map log_timestamp (matching_logs d i s a))"
  by (simp add: matching_logs_def sorted_order_asc)

lemma page_size_pos: "page_size lim = int n \<Longrightarrow> prisma_take (page_size lim) xs = take n xs"
  by (simp add: prisma_take_def)

lemma page_nonempty:
  "deploymentsService_getLogs u i s a lim w = (Inr pg, w') \<Longrightarrow> lp_nextCursor pg = Some c \<Longrightarrow>
   w' = w \<and> lp_logs pg = prisma_take (page_size lim) (matching_logs (db w) i s a) \<and>
   lp_logs pg \<noteq> [] \<and> c = log_timestamp (last (lp_logs pg))"
  by (auto simp: getLogs_run logs_page_of_def split: option.splits if_splits)

lemma matching_logs_ge:
  "l \<in> set (matching_logs d i s a) \<Longrightarrow> case a of None \<Rightarrow> True | Some t \<Rightarrow> t < log_timestamp l"
  by (auto simp: matching_logs_def split: option.splits)

lemma page_cursor_later:
  assumes "deploymentsService_getLogs u i s a lim w = (Inr pg, w')" and "lp_nextCursor pg = Some c"
  shows "case a of None \<Rightarrow> True | Some t \<Rightarrow> t \<le> c"
proof -
  have "last (lp_logs pg) \<in> set (matching_logs (db w) i s a)"
    using page_nonempty [OF assms] set_prisma_take by (metis last_in_set subsetD)
  from matching_logs_ge [OF this] show ?thesis
    using page_nonempty [OF assms] by (auto split: option.splits)
qed

theorem logs_pages_continue:
  assumes "deploymentsService_getLogs u i s a lim w = (Inr pg, w')" and "lp_nextCursor pg = Some c"
    and "0 < page_size lim" and "distinct (map log_timestamp (matching_logs (db w) i s a))"
  shows "matching_logs (db w) i s a = lp_logs pg @ matching_logs (db w') i s (Some c)"
proof -
  let ?m = "matching_logs (db w) i s a" and ?n = "nat (page_size lim)"
  note pg = page_nonempty [OF assms(1,2)]
  have take: "lp_logs pg = take ?n ?m" using pg assms(3) by (simp add: prisma_take_def)
  have ne: "?m \<noteq> []" using pg take by auto
  then have "matching_logs (db w) i s (Some c) = drop ?n ?m"
    using pg matching_logs_later [OF page_cursor_later [OF assms(1,2)], of "db w" i s] assms(3)
      strict_sorted_rest [OF matching_logs_sorted assms(4) _ ne, of ?n] take by simp
  then show ?thesis using pg take append_take_drop_id [of ?n ?m] by metis
qed

theorem logs_ties_lost:
  assumes "deploymentsService_getLogs u i s a lim w = (Inr pg, w')" and "lp_nextCursor pg = Some c"
    and "l \<in> set (matching_logs (db w) i s a)" and "l \<notin> set (lp_logs pg)" and "log_timestamp l \<le> c"
    and "c \<le> c'" and "deploymentsService_getLogs u i s (Some c') lim' w' = (Inr pg', w'')"
  shows "l \<notin> set (lp_logs pg')"
proof
  assume "l \<in> set (lp_logs pg')"
  then have "l \<in> set (matching_logs (db w') i s (Some c'))"
    using assms(7) subsetD [OF set_prisma_take] by (auto simp: getLogs_run logs_page_of_def split: option.splits)
  then show False using matching_logs_ge [of l "db w'" i s "Some c'"] assms(5,6) by simp
qed

section \<open>Closed examples\<close>

lemmas query_defs =
  owned_project_def owned_deployment_def project_owner_def latest_in_progress_def latest_deployment_def
  order_desc_def order_asc_def find_or_first_def head_opt_def project_domains_def

lemma sample_deployable: "deployable 0 4 (db sample_world) sample_shop (hd sample_accounts)"
  by (simp add: deployable_def query_defs sample_defs truthy_def)

theorem deploymentsService_create_effect_witness:
  "\<exists>dep w'. deploymentsService_create sample_external 0 4 sample_world = (Inr dep, w') \<and>
     d_id dep = 20 \<and> d_commitHash dep = ''c0ffee'' \<and> length (build_queue (redis w')) = 1"
  using deploymentsService_create_effect [OF sample_db_ok sample_redis_up sample_deployable, of sample_external]
  by (auto simp: sample_defs sample_external_def)

theorem deploymentsService_create_refused_witness:
  "\<exists>e. deploymentsService_create sample_external 0 5 sample_world = (Inl e, sample_world)"
  by (rule deploymentsService_create_refused)
    (simp add: deployable_def query_defs sample_defs)

definition offline_world :: world where
  "offline_world = sample_world\<lparr>redis := sample_redis\<lparr>redis_up := False\<rparr>\<rparr>"

lemma offline_simps [simp]: "db offline_world = db sample_world" "\<not> redis_up (redis offline_world)" "now offline_world = 1000"
  by (simp_all add: offline_world_def sample_world_def)

theorem redis_outage_blocks_project_witness:
  "\<exists>w'. deploymentsService_create sample_external 0 4 offline_world =
      (Inl (Thrown ''Redis connection error''), w') \<and> length (deployments (db w')) = 3"
proof -
  obtain res w' where run: "deploymentsService_create sample_external 0 4 offline_world = (res, w')"
    by fastforce
  have "\<forall>r \<in> set (deployments (db offline_world)). d_projectId r = 4 \<longrightarrow> d_startedAt r < now offline_world"
    by (simp add: sample_defs)
  from redis_outage_blocks_project [OF _ _ _ this run, of sample_shop "hd sample_accounts"]
    sample_db_ok sample_deployable
  have "res = Inl (Thrown ''Redis connection error'')"
    and "\<exists>dep. deployments (db w') = deployments (db sample_world) @ [dep]" by auto
  moreover have "length (deployments (db sample_world)) = 2" by (simp add: sample_defs)
  ultimately show ?thesis using run by auto
qed

lemma sample_building_owned: "owned_deployment 1 8 (db sample_world) = Some sample_building"
  by (simp add: query_defs sample_defs)

theorem cancel_signals_worker_witness:
  "\<exists>r w'. deploymentsService_cancel 1 8 sample_world = (Inr r, w') \<and>
     isCancelled 300999 8 (redis w') \<and> \<not> isCancelled 301000 8 (redis w')"
proof -
  obtain res w' where run: "deploymentsService_cancel 1 8 sample_world = (res, w')" by fastforce
  have "in_progress (d_status sample_building)" by (simp add: sample_defs)
  from cancel_signals_worker [OF sample_db_ok sample_building_owned this run] sample_redis_up run
  show ?thesis by (auto simp: sample_defs)
qed

theorem cancel_refused_witness:
  "\<exists>e. deploymentsService_cancel 0 8 sample_world = (Inl e, sample_world)"
  by (rule cancel_refused) (simp add: query_defs sample_defs)

definition tied_world :: world where
  "tied_world = sample_world\<lparr>db := sample_db\<lparr>logEntries := [sample_log 11 101, sample_log 12 101, sample_log 13 102]\<rparr>\<rparr>"

theorem logs_pages_continue_witness:
  "\<exists>pg. deploymentsService_getLogs 0 7 None None (Some 1) sample_world = (Inr pg, sample_world) \<and>
     lp_logs pg = [sample_log 11 101] \<and>
     matching_logs sample_db 7 None None = lp_logs pg @ matching_logs sample_db 7 None (Some 101)"
proof -
  let ?pg = "logs_page_of READY 1 [sample_log 11 101]"
  have run: "deploymentsService_getLogs 0 7 None None (Some 1) sample_world = (Inr ?pg, sample_world)"
    by (simp add: getLogs_run query_defs sample_defs page_size_def matching_logs_def prisma_take_def)
  have "lp_nextCursor ?pg = Some 101" "0 < page_size (Some 1)"
    "distinct (map log_timestamp (matching_logs (db sample_world) 7 None None))"
    by (simp_all add: logs_page_of_def page_size_def matching_logs_def order_asc_def sample_defs)
  from logs_pages_continue [OF run this] run show ?thesis
    by (auto simp: logs_page_of_def sample_world_def)
qed

theorem logs_ties_lost_witness:
  "\<exists>pg pg'. deploymentsService_getLogs 0 7 None None (Some 1) tied_world = (Inr pg, tied_world) \<and>
     lp_hasMore pg \<and> deploymentsService_getLogs 0 7 None (lp_nextCursor pg) None tied_world = (Inr pg', tied_world) \<and>
     sample_log 12 101 \<in> set (matching_logs (db tied_world) 7 None None) \<and>
     sample_log 12 101 \<notin> set (lp_logs pg) \<union> set (lp_logs pg')"
proof -
  let ?pg = "logs_page_of READY 1 [sample_log 11 101]"
  have run: "deploymentsService_getLogs 0 7 None None (Some 1) tied_world = (Inr ?pg, tied_world)"
    by (simp add: getLogs_run query_defs tied_world_def sample_defs page_size_def matching_logs_def prisma_take_def)
  have c: "lp_nextCursor ?pg = Some 101" and m: "lp_hasMore ?pg"
    and out: "sample_log 12 101 \<notin> set (lp_logs ?pg)"
    by (simp_all add: logs_page_of_def sample_log_def)
  have mem: "sample_log 12 101 \<in> set (matching_logs (db tied_world) 7 None None)"
    by (simp add: matching_logs_def tied_world_def sample_log_def)
  obtain pg' where run': "deploymentsService_getLogs 0 7 None (Some 101) None tied_world = (Inr pg', tied_world)"
    by (simp add: getLogs_run query_defs tied_world_def sample_defs)
  have "sample_log 12 101 \<notin> set (lp_logs pg')"
    by (rule logs_ties_lost [OF run c mem out _ _ run']) (simp_all add: sample_log_def)
  then show ?thesis using run run' c m mem out by auto
qed

end
