(* ===== verification/ProjectLaws.thy ===== *)
theory ProjectLaws
  imports Projects DeploymentLaws
begin

text \<open>
  What \<open>projects/projects.service.ts\<close> promises: creation is all or nothing, a created project
  comes with its encrypted variables, its domain, a queued deployment and its job; removal
  cascades and tells the worker; one variable with an empty value makes the list unreadable.
\<close>

section \<open>Creating a project\<close>

lemma store_env_vars_same:
  "keeps (same_db projects) (store_env_vars X i vs)" "keeps same_redis (store_env_vars X i vs)"
  unfolding store_env_vars_def case_prod_unfold
  by (intro sameDb.keeps_db_intros sameRedis.keeps_db_intros table_same_db table_same_redis read_only_same_db read_only_same_redis; simp)+

lemma create_in_tx_fails: "fails_within same_redis (create_in_tx X u dto inst c)"
  unfolding create_in_tx_def
  by (intro sameRedis.fails_within_andThen sameRedis.fails_within_last addBuildJob_fails
      sameRedis.keeps_db_intros table_same_redis read_only_same_redis store_env_vars_same(2))

lemma project_create_result:
  assumes "project_create r w = (Inr p, w')"
  shows "p \<in> set (projects (db w')) \<and> p_userId p = p_userId r"
  using projectT.create_present [OF assms] assms
  by (auto simp: create_row_def action_simps andThen_def split: if_splits)

lemma create_in_tx_project:
  assumes "create_in_tx X u dto inst c w = (Inr p, w')"
  shows "p \<in> set (projects (db w')) \<and> p_userId p = u"
proof -
  let ?rest = "\<lambda>project. andThen (store_env_vars X (p_id project) (pd_envVars dto)) (\<lambda>_.
     andThen (generateDeploymentUrl X (p_name project)) (\<lambda>deploymentUrl.
     andThen (gets (\<lambda>w. (snapshot w u project c (Some deploymentUrl))
       \<lparr>d_branch := pd_gitBranch dto\<rparr>)) (\<lambda>row.
     andThen (deployment_create row) (\<lambda>deployment.
     andThen (domain_create (new_domain\<lparr>dom_projectId := p_id project, dom_name := deploymentUrl,
       dom_createdAt := now w\<rparr>)) (\<lambda>_.
     andThen (addBuildJob (initial_job project dto (d_id deployment) inst c deploymentUrl)) (\<lambda>_.
     ret project))))))"
  have "andThen (project_create (project_row (now w) u dto)) ?rest w = (Inr p, w')"
    using assms by (simp only: create_in_tx_def andThen_gets)
  then obtain q w1 where c1: "project_create (project_row (now w) u dto) w = (Inr q, w1)"
    and rest: "?rest q w1 = (Inr p, w')"
    by (rule andThen_cases) simp_all
  have "ensures (\<lambda>_. True) (same_db projects) (?rest q) (\<lambda>r _. r = q)"
    by (intro sameDb.ensures_andThen_keeps sameDb.ensures_ret sameDb.keeps_gets table_same_db
        read_only_same_db store_env_vars_same(1); simp)
  then have "p = q" "same_db projects w1 w'"
    using rest by (auto dest: ensuresD ensures_valueD)
  then show ?thesis
    using project_create_result [OF c1] by (simp add: same_db_def project_row_def)
qed

lemma findOne_run:
  "projectsService_findOne i u w =
     (case owned_project u i (db w) of
        None \<Rightarrow> (Inl (NotFoundException ''Project not found''), w)
      | Some p \<Rightarrow> (Inr (view_of (db w) 5 p), w))"
  by (simp add: projectsService_findOne_def action_simps split: option.splits)

lemma owned_project_present:
  "p \<in> set (projects d) \<Longrightarrow> \<exists>q. owned_project (p_userId p) (p_id p) d = Some q"
  by (auto simp: owned_project_def find_None_iff simp flip: not_None_eq)

lemma commit_fails:
  assumes "andThen (transaction (create_in_tx X u dto i c)) (\<lambda>result. projectsService_findOne (p_id result) u) w = (Inl e, w')"
  shows "db w' = db w \<and> redis w' = redis w"
  using assms
proof (rule andThen_cases)
  fix e'
  assume "transaction (create_in_tx X u dto i c) w = (Inl e', w')"
  then show ?thesis
    using fails_withinD [OF create_in_tx_fails]
    by (auto simp: transaction_def same_redis_def split: prod.splits sum.splits)
next
  fix p v
  assume tx: "transaction (create_in_tx X u dto i c) w = (Inr p, v)"
    and find: "projectsService_findOne (p_id p) u v = (Inl e, w')"
  have "create_in_tx X u dto i c w = (Inr p, v)"
    using tx by (auto simp: transaction_def split: prod.splits sum.splits)
  from create_in_tx_project [OF this] have "\<exists>q. owned_project u (p_id p) (db v) = Some q"
    using owned_project_present [of p "db v"] by auto
  then show ?thesis using find by (auto simp: findOne_run)
qed

text \<open>
  C9. Creating a project is all or nothing: when it fails - also in the middle of the
  transaction or because Redis is down - neither the database nor Redis has changed.
\<close>

theorem projectsService_create_atomic:
  assumes "projectsService_create X u dto w = (Inl e, w')"
  shows "db w' = db w \<and> redis w' = redis w"
  using assms
  by (auto simp: projectsService_create_def action_simps Let_def
      split: if_splits option.splits dest: commit_fails)

definition opened :: "external \<Rightarrow> env_var \<Rightarrow> string \<times> (string + string)" where
  "opened X e = (ev_key e, decrypt X (ev_value e))"

definition as_opened :: "string \<times> string \<Rightarrow> string \<times> (string + string)" where
  "as_opened kv = (fst kv, if snd kv = [] then Inl ''Invalid encrypted payload format'' else Inr (snd kv))"

lemma store_env_vars_run:
  assumes gcm: "gcm_ok X" and ok: "db_ok (db w)" and pid: "i \<in> p_id ` set (projects (db w))"
    and fresh_project: "\<forall>e \<in> set (envVars (db w)). ev_projectId e \<noteq> i"
    and vs: "vs = (case vars of None \<Rightarrow> [] | Some vs \<Rightarrow> vs)" and keys: "distinct (map fst vs)"
  shows "\<exists>rows. store_env_vars X i vars w = (Inr (), w\<lparr>
      db := (db w)\<lparr>envVars := envVars (db w) @ rows, nextId := nextId (db w) + length vs\<rparr>,
      rng_pos := rng_pos w + 12 * length vs\<rparr>) \<and>
    map (opened X) rows = map as_opened vs \<and>
    (\<forall>e \<in> set rows. ev_projectId e = i \<and> ev_targets e = [PRODUCTION, PREVIEW, DEVELOPMENT])"
proof (cases "vs = []")
  case True
  then have "store_env_vars X i vars w = (Inr (), w)"
    using vs by (auto simp: store_env_vars_def action_simps split: option.splits)
  then show ?thesis using True by (intro exI [of _ "[]"]) simp
next
  case False
  then have vars: "vars = Some vs" using vs by (auto split: option.splits)
  let ?mk = "\<lambda>kv c. new_env_var\<lparr>ev_key := fst kv, ev_value := c, ev_projectId := i\<rparr>"
  obtain rows where rows: "collect (\<lambda>x. andThen (encrypt X (snd x)) (\<lambda>c. ret (?mk x c))) vs w =
      (Inr rows, w\<lparr>rng_pos := rng_pos w + 12 * length vs\<rparr>)" and all: "list_all2 (sealed_as X snd ?mk) vs rows"
    using collect_encrypt [of X snd ?mk vs w] by blast
  let ?w = "w\<lparr>rng_pos := rng_pos w + 12 * length vs\<rparr>"
  have sealed: "ev_key r = fst x \<and> ev_projectId r = i \<and> ev_targets r = [PRODUCTION, PREVIEW, DEVELOPMENT] \<and>
      opened X r = as_opened x" if "sealed_as X snd ?mk x r" for x r
    using that decrypt_payload [OF gcm] by (auto simp: sealed_as_def opened_def as_opened_def new_env_var_def)
  have len: "length rows = length vs" using all by (simp add: list_all2_lengthD)
  have keys': "map ev_key rows = map fst vs" and op: "map (opened X) rows = map as_opened vs"
    using all by (induction) (auto dest: sealed)
  have each: "\<forall>r \<in> set rows. ev_projectId r = i \<and> ev_targets r = [PRODUCTION, PREVIEW, DEVELOPMENT]"
    using all by (induction) (auto dest: sealed)
  let ?n = "number_rows ev_id_update (nextId (db w)) rows"
  have create: "envVar_createMany rows ?w = (Inr (), ?w\<lparr>db := (db w)\<lparr>envVars := envVars (db w) @ ?n,
      nextId := nextId (db w) + length rows\<rparr>\<rparr>)"
    using envVar_createMany_run [of ?w rows i] ok pid fresh_project keys keys' each by simp
  have "map (opened X) ?n = map (opened X) rows"
    by (rule map_number_rows) (simp add: opened_def)
  moreover have "map (\<lambda>e. (ev_projectId e, ev_targets e)) ?n = map (\<lambda>e. (ev_projectId e, ev_targets e)) rows"
    by (rule map_number_rows) simp
  then have "(\<lambda>e. (ev_projectId e, ev_targets e)) ` set ?n = (\<lambda>e. (ev_projectId e, ev_targets e)) ` set rows"
    by (metis set_map)
  then have "\<forall>e \<in> set ?n. ev_projectId e = i \<and> ev_targets e = [PRODUCTION, PREVIEW, DEVELOPMENT]"
    using each by (auto simp: set_eq_iff image_iff)
  moreover have "store_env_vars X i vars w = (Inr (), w\<lparr>
      db := (db w)\<lparr>envVars := envVars (db w) @ ?n, nextId := nextId (db w) + length vs\<rparr>,
      rng_pos := rng_pos w + 12 * length vs\<rparr>)"
    using rows create False len by (simp add: store_env_vars_def vars case_prod_unfold andThen_def)
  ultimately show ?thesis using op by (intro exI [of _ ?n]) simp
qed

definition dto_vars :: "create_project_dto \<Rightarrow> (string \<times> string) list" where
  "dto_vars dto = (case pd_envVars dto of None \<Rightarrow> [] | Some vs \<Rightarrow> vs)"

definition initial_url :: "external \<Rightarrow> world \<Rightarrow> create_project_dto \<Rightarrow> string" where
  "initial_url X w dto = ''https://'' @ sanitize (pd_name dto) @ ''-'' @
     take 6 (hex_encode (map (rng w) [rng_pos w + 12 * length (dto_vars dto) ..<
        rng_pos w + 12 * length (dto_vars dto) + 3])) @ ''.'' @ url_config_deploy_domain X"

lemma create_in_tx_run:
  assumes gcm: "gcm_ok X" and ok: "db_ok (db w)" and up: "redis_up (redis w)"
    and user: "u \<in> u_id ` set (users (db w))" and name: "pd_name dto \<notin> p_name ` set (projects (db w))"
    and keys: "distinct (map fst (dto_vars dto))"
    and url_notin: "initial_url X w dto \<notin> dom_name ` set (domains (db w))"
  shows "\<exists>p w' vs dep m. create_in_tx X u dto installation commit w = (Inr p, w') \<and>
    p = (project_row (now w) u dto)\<lparr>p_id := nextId (db w)\<rparr> \<and>
    projects (db w') = projects (db w) @ [p] \<and>
    envVars (db w') = envVars (db w) @ vs \<and> map (opened X) vs = map as_opened (dto_vars dto) \<and>
    (\<forall>e \<in> set vs. ev_projectId e = p_id p \<and> ev_targets e = [PRODUCTION, PREVIEW, DEVELOPMENT]) \<and>
    deployments (db w') = deployments (db w) @ [dep] \<and> d_projectId dep = p_id p \<and>
    d_status dep = QUEUED \<and> d_initiatorId dep = Some u \<and> d_deploymentUrl dep = Some (initial_url X w dto) \<and>
    d_branch dep = pd_gitBranch dto \<and>
    domains (db w') = domains (db w) @ [m] \<and> dom_projectId m = p_id p \<and> dom_name m = initial_url X w dto \<and>
    users (db w') = users (db w) \<and>
    redis w' = rpush_build (initial_job p dto (d_id dep) installation commit (initial_url X w dto)) (redis w)"
proof -
  define n p where "n = nextId (db w)" and "p = (project_row (now w) u dto)\<lparr>p_id := nextId (db w)\<rparr>"
  have p: "p_id p = n" "p_name p = pd_name dto" by (simp_all add: p_def n_def project_row_def)
  define w1 where "w1 = w\<lparr>db := (db w)\<lparr>projects := projects (db w) @ [p], nextId := Suc n\<rparr>\<rparr>"
  have ins: "can_insert_project (project_row (now w) u dto) (db w)"
    using user name by (simp add: can_insert_project_def project_row_def)
  have c1: "project_create (project_row (now w) u dto) w = (Inr p, w1)"
    using projectI.create_ok [OF ok ins] by (simp add: insert_form p_def w1_def n_def)
  have ok1: "db_ok (db w1)" by (rule projectI.create_keeps_ok [OF c1 ok])
  have "\<forall>e \<in> set (envVars (db w1)). ev_projectId e \<noteq> n" and "n \<in> p_id ` set (projects (db w1))"
    using new_project_unreferenced(1) [OF ok] p by (simp_all add: w1_def n_def)
  then obtain vs where c2: "store_env_vars X n (pd_envVars dto) w1 = (Inr (), w1\<lparr>
      db := (db w1)\<lparr>envVars := envVars (db w1) @ vs, nextId := nextId (db w1) + length (dto_vars dto)\<rparr>,
      rng_pos := rng_pos w1 + 12 * length (dto_vars dto)\<rparr>)"
    and vs: "map (opened X) vs = map as_opened (dto_vars dto)"
      "\<forall>e \<in> set vs. ev_projectId e = n \<and> ev_targets e = [PRODUCTION, PREVIEW, DEVELOPMENT]"
    using store_env_vars_run [OF gcm ok1, of n "dto_vars dto" "pd_envVars dto"] keys
    by (auto simp: dto_vars_def)
  define w2 where "w2 = w1\<lparr>db := (db w1)\<lparr>envVars := envVars (db w1) @ vs,
      nextId := nextId (db w1) + length (dto_vars dto)\<rparr>, rng_pos := rng_pos w1 + 12 * length (dto_vars dto)\<rparr>"
  note c2 = c2 [folded w2_def]
  have ok2: "db_ok (db w2)"
    using keepsD [OF keeps_store_env_vars c2] ok1 by (simp add: db_kept_def)
  define url w3 where "url = initial_url X w dto" and "w3 = w2\<lparr>rng_pos := rng_pos w2 + 3\<rparr>"
  have c3: "generateDeploymentUrl X (p_name p) w2 = (Inr url, w3)"
    by (simp add: generateDeploymentUrl_run initial_url_def p url_def w3_def w2_def w1_def)
  have ok3: "db_ok (db w3)" using ok2 by (simp add: w3_def)
  define row where "row = (snapshot w3 u p commit (Some url))\<lparr>d_branch := pd_gitBranch dto\<rparr>"
  define dep where "dep = row\<lparr>d_id := nextId (db w3)\<rparr>"
  define w4 where "w4 = w3\<lparr>db := (db w3)\<lparr>deployments := deployments (db w3) @ [dep], nextId := Suc (nextId (db w3))\<rparr>\<rparr>"
  have "can_insert_deployment row (db w3)"
    using user p by (simp add: can_insert_deployment_def row_def snapshot_def w3_def w2_def w1_def)
  then have c4: "deployment_create row w3 = (Inr dep, w4)"
    using deploymentI.create_ok [OF ok3] by (simp add: insert_form w4_def dep_def)
  have ok4: "db_ok (db w4)" by (rule deploymentI.create_keeps_ok [OF c4 ok3])
  define m0 where "m0 = new_domain\<lparr>dom_projectId := n, dom_name := url, dom_createdAt := now w\<rparr>"
  define m where "m = m0\<lparr>dom_id := nextId (db w4)\<rparr>"
  define w5 where "w5 = w4\<lparr>db := (db w4)\<lparr>domains := domains (db w4) @ [m], nextId := Suc (nextId (db w4))\<rparr>\<rparr>"
  have "can_insert_domain m0 (db w4)"
    using url_notin p by (simp add: can_insert_domain_def m0_def new_domain_def w4_def w3_def w2_def w1_def url_def)
  then have c5: "domain_create m0 w4 = (Inr m, w5)"
    using domainI.create_ok [OF ok4] by (simp add: insert_form w5_def m_def)
  have run: "create_in_tx X u dto installation commit w =
     andThen (addBuildJob (initial_job p dto (d_id dep) installation commit url)) (\<lambda>_. ret p) w5"
    using c1 c2 c3 c4 c5
    by (simp add: create_in_tx_def gets_run andThen_def p row_def m0_def)
  show ?thesis
    using run up vs p
    by (intro exI [of _ p] exI [of _ vs] exI [of _ dep] exI [of _ m]
       exI [of _ "w5\<lparr>redis := rpush_build (initial_job p dto (d_id dep) installation commit url) (redis w)\<rparr>"])
      (simp add: action_simps andThen_def row_def dep_def snapshot_def new_deployment_def new_domain_def
        m_def m0_def w5_def w4_def w3_def w2_def w1_def url_def p_def)
qed

definition creatable :: "external \<Rightarrow> uuid \<Rightarrow> create_project_dto \<Rightarrow> world \<Rightarrow> git_account \<Rightarrow> bool" where
  "creatable X u dto w a \<longleftrightarrow> u \<in> u_id ` set (users (db w)) \<and> pd_name dto \<notin> p_name ` set (projects (db w)) \<and>
     find_or_first (\<lambda>a. ga_username a = pd_gitRepoOwner dto)
       (filter (\<lambda>a. ga_userId a = u) (gitAccounts (db w))) = Some a \<and>
     truthy_opt (ga_installationId a) \<and> distinct (map fst (dto_vars dto)) \<and>
     initial_url X w dto \<notin> dom_name ` set (domains (db w))"

lemma owned_project_last:
  assumes "p \<in> set (projects d)" and "uniq d"
  shows "owned_project (p_userId p) (p_id p) d = Some p"
proof -
  obtain q where q: "owned_project (p_userId p) (p_id p) d = Some q"
    using owned_project_present [OF assms(1)] by blast
  then have "q \<in> set (projects d)" "p_id q = p_id p" by (auto dest: owned_projectD)
  then have "q = p" using distinct_map_same [OF projectT.uniq_rid [OF assms(2)] _ assms(1)] by blast
  then show ?thesis using q by simp
qed

lemma create_project_run:
  assumes "gcm_ok X" and "db_ok (db w)" and "redis_up (redis w)" and "creatable X u dto w a"
  shows "\<exists>v w' vs dep m j. projectsService_create X u dto w = (Inr v, w') \<and>
    p_id (pv_project v) = nextId (db w) \<and> p_name (pv_project v) = pd_name dto \<and> p_userId (pv_project v) = u \<and>
    pv_deployments v = [dep] \<and> pv_domains v = [m] \<and>
    projects (db w') = projects (db w) @ [pv_project v] \<and>
    envVars (db w') = envVars (db w) @ vs \<and> map (opened X) vs = map as_opened (dto_vars dto) \<and>
    (\<forall>e \<in> set vs. ev_projectId e = nextId (db w) \<and> ev_targets e = [PRODUCTION, PREVIEW, DEVELOPMENT]) \<and>
    deployments (db w') = deployments (db w) @ [dep] \<and> d_projectId dep = nextId (db w) \<and>
    d_status dep = QUEUED \<and> d_initiatorId dep = Some u \<and>
    domains (db w') = domains (db w) @ [m] \<and> dom_projectId m = nextId (db w) \<and>
    dom_name m = initial_url X w dto \<and> d_deploymentUrl dep = Some (dom_name m) \<and>
    build_queue (redis w') = build_queue (redis w) @ [j] \<and> job_deploymentId j = d_id dep \<and>
    job_projectId j = nextId (db w) \<and> job_domains j = [dom_name m]"
proof -
  note c = assms(4) [unfolded creatable_def]
  have u: "u \<in> u_id ` set (users (db w))" and name: "pd_name dto \<notin> p_name ` set (projects (db w))"
    and d: "distinct (map fst (dto_vars dto))" and url: "initial_url X w dto \<notin> dom_name ` set (domains (db w))"
    using c by simp_all
  let ?inst = "the (ga_installationId a)"
  let ?commit = "getLatestCommit X ?inst (pd_gitRepoOwner dto) (pd_gitRepoName dto) (pd_gitBranch dto)"
  from create_in_tx_run [OF assms(1-3) u name d url, of ?inst ?commit]
  obtain p w' vs dep m where run: "create_in_tx X u dto ?inst ?commit w = (Inr p, w')"
    and p: "p = (project_row (now w) u dto)\<lparr>p_id := nextId (db w)\<rparr>"
    and ps: "projects (db w') = projects (db w) @ [p]"
    and rest: "envVars (db w') = envVars (db w) @ vs" "map (opened X) vs = map as_opened (dto_vars dto)"
      "\<forall>e \<in> set vs. ev_projectId e = p_id p \<and> ev_targets e = [PRODUCTION, PREVIEW, DEVELOPMENT]"
      "deployments (db w') = deployments (db w) @ [dep]" "d_projectId dep = p_id p"
      "d_status dep = QUEUED" "d_initiatorId dep = Some u" "d_deploymentUrl dep = Some (initial_url X w dto)"
      "domains (db w') = domains (db w) @ [m]" "dom_projectId m = p_id p" "dom_name m = initial_url X w dto"
      "redis w' = rpush_build (initial_job p dto (d_id dep) ?inst ?commit (initial_url X w dto)) (redis w)"
    by blast
  have pf: "p_id p = nextId (db w)" "p_userId p = u" "p_name p = pd_name dto" by (simp_all add: p project_row_def)
  have ok': "db_ok (db w')" using keepsD [OF keeps_create_in_tx run] assms(2) by (simp add: db_kept_def)
  have own: "owned_project u (p_id p) (db w') = Some p"
    using owned_project_last [of p "db w'"] ps ok' pf by (simp add: db_ok_def)
  have taken: "find (\<lambda>q. p_name q = pd_name dto) (projects (db w)) = None"
    using name by (auto simp: find_None_iff image_iff)
  have svc: "projectsService_create X u dto w = (Inr (view_of (db w') 5 p), w')"
    using c taken run own
    by (auto simp: projectsService_create_def action_simps Let_def andThen_def transaction_def findOne_run)
  have "filter (\<lambda>r. d_projectId r = p_id p) (deployments (db w')) = [dep]"
    "filter (\<lambda>r. dom_projectId r = p_id p) (domains (db w')) = [m]"
    using new_project_unreferenced(2,3) [OF assms(2)] rest pf by (simp_all add: filter_empty_conv)
  then have view: "pv_project (view_of (db w') 5 p) = p" "pv_deployments (view_of (db w') 5 p) = [dep]"
    "pv_domains (view_of (db w') 5 p) = [m]"
    by (simp_all add: view_of_def prisma_take_def order_desc_def)
  show ?thesis
    using svc view rest ps pf
    by (intro exI [of _ "view_of (db w') 5 p"] exI [of _ w'] exI [of _ vs] exI [of _ dep] exI [of _ m]
       exI [of _ "initial_job p dto (d_id dep) ?inst ?commit (initial_url X w dto)"])
      (simp add: rpush_build_def initial_job_def)
qed

text \<open>
  C8. When Redis is up, the generated address is free and the variables have distinct names,
  creating a project with a free name and an installed account stores the project, its encrypted
  variables (which decrypt to the given values, except that an empty value decrypts to an
  error), one QUEUED deployment, the default domain and one build job that agree with each
  other.
\<close>

theorem projectsService_create_effect:
  assumes "gcm_ok X" and "db_ok (db w)" and "redis_up (redis w)" and "creatable X u dto w a"
  shows "\<exists>v w' vs dep m j. projectsService_create X u dto w = (Inr v, w') \<and>
    p_id (pv_project v) = nextId (db w) \<and> p_name (pv_project v) = pd_name dto \<and> p_userId (pv_project v) = u \<and>
    pv_deployments v = [dep] \<and> pv_domains v = [m] \<and>
    projects (db w') = projects (db w) @ [pv_project v] \<and>
    envVars (db w') = envVars (db w) @ vs \<and> map (opened X) vs = map as_opened (dto_vars dto) \<and>
    (\<forall>e \<in> set vs. ev_projectId e = nextId (db w) \<and> ev_targets e = [PRODUCTION, PREVIEW, DEVELOPMENT]) \<and>
    deployments (db w') = deployments (db w) @ [dep] \<and> d_projectId dep = nextId (db w) \<and>
    d_status dep = QUEUED \<and> d_initiatorId dep = Some u \<and>
    domains (db w') = domains (db w) @ [m] \<and> dom_projectId m = nextId (db w) \<and>
    dom_name m = initial_url X w dto \<and> d_deploymentUrl dep = Some (dom_name m) \<and>
    build_queue (redis w') = build_queue (redis w) @ [j] \<and> job_deploymentId j = d_id dep \<and>
    job_projectId j = nextId (db w) \<and> job_domains j = [dom_name m]"
  by (rule create_project_run [OF assms])

section \<open>Removing a project\<close>

lemma publish_all:
  assumes "redis_up (redis w)"
  shows "\<exists>w'. forEach (\<lambda>r. if in_progress (d_status r) then publishCancelSignal (d_id r) else ret ()) rs w = (Inr (), w') \<and>
    db w' = db w \<and> now w' = now w \<and> redis_up (redis w') \<and> build_queue (redis w') = build_queue (redis w) \<and>
    cleanup_queue (redis w') = cleanup_queue (redis w) \<and>
    (\<forall>t i. isCancelled t i (redis w') \<longleftrightarrow>
      (if \<exists>r \<in> set rs. in_progress (d_status r) \<and> d_id r = i then t < now w + 300000
       else isCancelled t i (redis w)))"
  using assms
proof (induction rs arbitrary: w)
  case Nil
  then show ?case by (simp add: action_simps)
next
  case (Cons r rs)
  show ?case
  proof (cases "in_progress (d_status r)")
    case False
    then show ?thesis using Cons.IH [OF Cons.prems] by (simp add: action_simps)
  next
    case True
    let ?w = "w\<lparr>redis := set_ex (CANCEL_KEY_PREFIX, d_id r) ''1'' (now w + 300000) (redis w)\<rparr>"
    have "redis_up (redis ?w)" using Cons.prems by simp
    from Cons.IH [OF this] obtain w' where w':
      "forEach (\<lambda>r. if in_progress (d_status r) then publishCancelSignal (d_id r) else ret ()) rs ?w = (Inr (), w')"
      "db w' = db ?w" "now w' = now ?w" "redis_up (redis w')" "build_queue (redis w') = build_queue (redis ?w)"
      "cleanup_queue (redis w') = cleanup_queue (redis ?w)"
      "\<forall>t i. isCancelled t i (redis w') \<longleftrightarrow>
        (if \<exists>r \<in> set rs. in_progress (d_status r) \<and> d_id r = i then t < now ?w + 300000
         else isCancelled t i (redis ?w))"
      by blast
    show ?thesis
      using w' True Cons.prems
      by (intro exI [of _ w']) (auto simp: action_simps andThen_def set_ex_def isCancelled_def)
  qed
qed

lemma publish_none_down:
  assumes "\<not> redis_up (redis w)"
  shows "forEach (\<lambda>r. if in_progress (d_status r) then publishCancelSignal (d_id r) else ret ()) rs w =
    (if \<exists>r \<in> set rs. in_progress (d_status r) then (Inl (Thrown ''Redis connection error''), w) else (Inr (), w))"
  using assms by (induction rs) (auto simp: action_simps andThen_def)

lemma cascade_ok:
  assumes "uniq d" and "fks d"
  shows "uniq (cascade_project i d) \<and> fks (cascade_project i d)"
proof
  show "uniq (cascade_project i d)"
    using assms(1) by (simp add: uniq_def cascade_project_def distinct_map_filterI)
  show "fks (cascade_project i d)"
    using assms(2) unfolding fks_def cascade_project_def by (auto 4 3 simp: image_iff)
qed

lemma project_delete_run:
  assumes "db_ok (db w)" and "owned_project u i (db w) = Some p"
  shows "project_delete i w = (Inr p, w\<lparr>db := cascade_project i (db w)\<rparr>)"
  using assms owned_project_find [of "db w" u i p] cascade_ok [of "db w" i]
  by (simp add: project_delete_def action_simps andThen_def db_ok_def)

definition active_of :: "db \<Rightarrow> uuid \<Rightarrow> deployment list" where
  "active_of d i = filter (\<lambda>r. d_projectId r = i \<and> active_status (d_status r)) (deployments d)"

text \<open>
  C21. Removing an own project deletes it with its variables, domains, deployments and logs,
  signals the worker for each build in progress, and queues one cleanup job naming all its
  active deployments, if there are any.
\<close>

theorem projectsService_remove_effect:
  assumes "db_ok (db w)" and "redis_up (redis w)" and "owned_project u i (db w) = Some p"
  shows "\<exists>w'. projectsService_remove i u w = (Inr p, w') \<and> db w' = cascade_project i (db w) \<and>
    (\<forall>t r. r \<in> set (deployments (db w)) \<and> d_projectId r = i \<and> in_progress (d_status r) \<longrightarrow>
       (isCancelled t (d_id r) (redis w') \<longleftrightarrow> t < now w + 300000)) \<and>
    build_queue (redis w') = build_queue (redis w) \<and>
    cleanup_queue (redis w') =
      (if active_of (db w) i = [] then cleanup_queue (redis w)
       else \<lparr>cj_projectId = i, cj_projectName = p_name p,
              cj_activeDeploymentIds = map d_id (active_of (db w) i)\<rparr> # cleanup_queue (redis w))"
proof -
  obtain w1 where w1: "forEach (\<lambda>r. if in_progress (d_status r) then publishCancelSignal (d_id r) else ret ())
       (active_of (db w) i) w = (Inr (), w1)" "db w1 = db w" "redis_up (redis w1)"
       "build_queue (redis w1) = build_queue (redis w)" "cleanup_queue (redis w1) = cleanup_queue (redis w)"
    and sig: "\<forall>t j. isCancelled t j (redis w1) \<longleftrightarrow>
      (if \<exists>r \<in> set (active_of (db w) i). in_progress (d_status r) \<and> d_id r = j then t < now w + 300000
       else isCancelled t j (redis w))"
    using publish_all [OF assms(2), of "active_of (db w) i"] by blast
  have pid: "p_id p = i" using owned_projectD [OF assms(3)] by simp
  let ?job = "\<lparr>cj_projectId = p_id p, cj_projectName = p_name p, cj_activeDeploymentIds = map d_id (active_of (db w) i)\<rparr>"
  define w2 where "w2 = (if active_of (db w) i = [] then w1 else w1\<lparr>redis := lpush_cleanup ?job (redis w1)\<rparr>)"
  have "owned_project u i (db w2) = Some p" "db_ok (db w2)" using assms w1 by (simp_all add: w2_def)
  note del = project_delete_run [OF this(2,1)]
  have tail: "andThen (if active_of (db w) i \<noteq> [] then addProjectCleanupJob ?job else ret ())
      (\<lambda>_. project_delete i) w1 = project_delete i w2"
    using w1(3) by (simp add: w2_def action_simps andThen_def)
  have run: "projectsService_remove i u w = (Inr p, w2\<lparr>db := cascade_project i (db w2)\<rparr>)"
    using assms(3) w1(1) tail del
    by (simp add: projectsService_remove_def andThen_gets andThen_orThrow andThen_Inr active_of_def [symmetric]
        split del: if_split)
  have "isCancelled t (d_id r) (redis w2) \<longleftrightarrow> t < now w + 300000"
    if "r \<in> set (deployments (db w))" "d_projectId r = i" "in_progress (d_status r)" for t r
  proof -
    have "r \<in> set (active_of (db w) i)" using that by (simp add: active_of_def active_status_iff)
    then show ?thesis using sig that by (auto simp: w2_def lpush_cleanup_def isCancelled_def)
  qed
  then show ?thesis
    using run w1 pid by (auto simp: w2_def lpush_cleanup_def)
qed

text \<open>
  With Redis down the removal fails without effect if a build is in progress; otherwise the
  project is deleted and its live deployments are never handed to the cleanup queue.
\<close>

theorem projectsService_remove_offline:
  assumes "db_ok (db w)" and "\<not> redis_up (redis w)" and "owned_project u i (db w) = Some p"
  shows "projectsService_remove i u w =
    (if \<exists>r \<in> set (active_of (db w) i). in_progress (d_status r)
     then (Inl (Thrown ''Redis connection error''), w)
     else (Inr p, w\<lparr>db := cascade_project i (db w)\<rparr>))"
  using assms(2,3) project_delete_run [OF assms(1,3)] publish_none_down [OF assms(2), of "active_of (db w) i"]
  by (simp add: projectsService_remove_def action_simps andThen_def active_of_def [symmetric])

section \<open>Reading variables back\<close>

lemma collect_throws:
  assumes "x \<in> set xs" and "\<And>y v. \<exists>r. f y v = (r, v)" and "\<And>v. \<exists>e. f x v = (Inl e, v)"
  shows "\<exists>e. collect f xs w = (Inl e, w)"
  using assms(1)
proof (induction xs)
  case Nil
  then show ?case by simp
next
  case (Cons y ys)
  obtain r where r: "f y w = (r, w)" using assms(2) by blast
  show ?case
  proof (cases r)
    case (Inl e)
    then show ?thesis using r by (simp add: andThen_def)
  next
    case (Inr z)
    then have "y \<noteq> x" using r assms(3) [of w] by auto
    then obtain e where "collect f ys w = (Inl e, w)" using Cons by auto
    then show ?thesis using r Inr by (simp add: andThen_def)
  qed
qed

lemma collect_reads:
  assumes "\<And>y v. \<exists>r. f y v = (r, v)"
  shows "\<exists>r. collect f ys v = (r, v)"
proof (induction ys)
  case Nil
  then show ?case by (simp add: action_simps)
next
  case (Cons y ys)
  obtain r where "f y v = (r, v)" using assms by blast
  then show ?case using Cons by (cases r) (auto simp: andThen_def action_simps split: sum.splits)
qed

lemma decrypt_view_reads: "\<exists>r. decrypt_view X v w = (r, w)"
proof -
  have "\<exists>r. collect (\<lambda>(i, k, c, ts). andThen (decryptM X c) (\<lambda>plain. ret (i, k, plain, ts))) (pv_envVars v) w = (r, w)"
    by (rule collect_reads) (auto simp: andThen_def action_simps split: sum.splits)
  then show ?thesis
    unfolding decrypt_view_def by (auto simp: andThen_def action_simps split: sum.splits)
qed

theorem findAll_fails_on_undecryptable:
  assumes "p \<in> set (projects (db w))" and "p_userId p = u" and "e \<in> set (envVars (db w))"
    and "ev_projectId e = p_id p" and "decrypt X (ev_value e) = Inl msg"
  shows "\<exists>err. projectsService_findAll X u w = (Inl err, w)"
proof -
  let ?v = "view_of (db w) 1 p"
  have e: "(ev_id e, ev_key e, ev_value e, ev_targets e) \<in> set (pv_envVars ?v)"
    using assms(3,4) by (auto simp: view_of_def encrypted_vars_def)
  have bad: "\<exists>err. decrypt_view X ?v v = (Inl err, v)" for v
  proof -
    have "\<exists>err. collect (\<lambda>(i, k, c, ts). andThen (decryptM X c) (\<lambda>plain. ret (i, k, plain, ts))) (pv_envVars ?v) v = (Inl err, v)"
      by (rule collect_throws [OF e])
        (auto simp: andThen_def action_simps assms(5) split: sum.splits)
    then show ?thesis unfolding decrypt_view_def by (auto simp: andThen_def)
  qed
  have mem: "?v \<in> set (map (view_of (db w) 1) (order_desc p_updatedAt (filter (\<lambda>p. p_userId p = u) (projects (db w)))))"
    using assms(1,2) by auto
  have "\<exists>err. collect (decrypt_view X) (map (view_of (db w) 1)
      (order_desc p_updatedAt (filter (\<lambda>p. p_userId p = u) (projects (db w))))) w = (Inl err, w)"
    by (rule collect_throws [OF mem]) (rule decrypt_view_reads bad)+
  then show ?thesis
    by (simp add: projectsService_findAll_def action_simps)
qed

theorem empty_value_breaks_list:
  assumes "gcm_ok X" and "db_ok (db w)" and "redis_up (redis w)" and "creatable X u dto w a"
    and "(k, []) \<in> set (dto_vars dto)"
    and "projectsService_create X u dto w = (Inr v, w')"
  shows "\<exists>err. projectsService_findAll X u w' = (Inl err, w')"
proof -
  from create_project_run [OF assms(1-4)] assms(6) obtain vs where
    ps: "projects (db w') = projects (db w) @ [pv_project v]" and u: "p_userId (pv_project v) = u"
    and pid: "p_id (pv_project v) = nextId (db w)"
    and vs: "envVars (db w') = envVars (db w) @ vs" "map (opened X) vs = map as_opened (dto_vars dto)"
      "\<forall>e \<in> set vs. ev_projectId e = nextId (db w)"
    by auto
  have "as_opened (k, []) \<in> set (map (opened X) vs)"
    using assms(5) unfolding vs(2) by (metis imageI list.set_map)
  then obtain e where "e \<in> set vs" "opened X e = as_opened (k, [])" by auto
  then show ?thesis
    using findAll_fails_on_undecryptable [of "pv_project v" w' u e X "''Invalid encrypted payload format''"] ps u pid vs
    by (simp add: opened_def as_opened_def)
qed

section \<open>Closed examples\<close>

definition sample_dto :: create_project_dto where
  "sample_dto = \<lparr>pd_name = ''api'', pd_gitRepoId = 1, pd_gitRepoName = ''api'', pd_gitRepoOwner = ''ann'',
     pd_gitBranch = ''main'', pd_gitRepoUrl = ''u'', pd_gitCloneUrl = ''c'', pd_language = ''ts'',
     pd_framework = None, pd_rootDirectory = None, pd_installCommand = None, pd_buildCommand = None,
     pd_runCommand = None, pd_outputDirectory = None, pd_pythonVersion = None,
     pd_envVars = Some [(''PORT'', ''80''), (''EMPTY'', [])]\<rparr>"

lemma sample_creatable: "creatable sample_external 0 sample_dto sample_world (hd sample_accounts)"
  by (simp add: creatable_def sample_dto_def sample_defs query_defs dto_vars_def initial_url_def truthy_def)

theorem projectsService_create_effect_witness:
  "\<exists>v w'. projectsService_create sample_external 0 sample_dto sample_world = (Inr v, w') \<and>
     p_id (pv_project v) = 20 \<and> length (envVars (db w')) = 2 \<and> length (build_queue (redis w')) = 1"
proof -
  from projectsService_create_effect [OF gcm_ok_sample sample_db_ok sample_redis_up sample_creatable]
  obtain v w' vs j where "projectsService_create sample_external 0 sample_dto sample_world = (Inr v, w')"
    "p_id (pv_project v) = nextId (db sample_world)" "envVars (db w') = envVars (db sample_world) @ vs"
    "map (opened sample_external) vs = map as_opened (dto_vars sample_dto)"
    "build_queue (redis w') = build_queue (redis sample_world) @ [j]"
    by blast
  moreover from this(4) have "length vs = length (dto_vars sample_dto)" by (metis length_map)
  ultimately show ?thesis by (simp add: sample_defs sample_dto_def dto_vars_def)
qed

theorem projectsService_create_atomic_witness:
  "\<exists>e w'. projectsService_create sample_external 0 (sample_dto\<lparr>pd_name := ''shop''\<rparr>) sample_world = (Inl e, w') \<and>
     db w' = db sample_world \<and> redis w' = redis sample_world"
proof -
  obtain e w' where "projectsService_create sample_external 0 (sample_dto\<lparr>pd_name := ''shop''\<rparr>) sample_world = (Inl e, w')"
    by (simp add: projectsService_create_def action_simps sample_defs sample_dto_def)
  from this projectsService_create_atomic [OF this] show ?thesis by blast
qed

theorem empty_value_breaks_list_witness:
  "\<exists>v w' err. projectsService_create sample_external 0 sample_dto sample_world = (Inr v, w') \<and>
     projectsService_findAll sample_external 0 w' = (Inl err, w')"
proof -
  obtain v w' where run: "projectsService_create sample_external 0 sample_dto sample_world = (Inr v, w')"
    using create_project_run [OF gcm_ok_sample sample_db_ok sample_redis_up sample_creatable] by blast
  have "(''EMPTY'', []) \<in> set (dto_vars sample_dto)" by (simp add: dto_vars_def sample_dto_def)
  from run empty_value_breaks_list [OF gcm_ok_sample sample_db_ok sample_redis_up sample_creatable this run]
  show ?thesis by blast
qed

lemma sample_shop_owned: "owned_project 0 4 (db sample_world) = Some sample_shop"
  by (simp add: query_defs sample_defs)

theorem projectsService_remove_effect_witness:
  "\<exists>w'. projectsService_remove 4 0 sample_world = (Inr sample_shop, w') \<and>
     deployments (db w') = [sample_building] \<and> map cj_activeDeploymentIds (cleanup_queue (redis w')) = [[7]]"
proof -
  from projectsService_remove_effect [OF sample_db_ok sample_redis_up sample_shop_owned]
  obtain w' where "projectsService_remove 4 0 sample_world = (Inr sample_shop, w')"
    "db w' = cascade_project 4 (db sample_world)"
    "cleanup_queue (redis w') = (if active_of (db sample_world) 4 = [] then cleanup_queue (redis sample_world)
       else \<lparr>cj_projectId = 4, cj_projectName = p_name sample_shop,
              cj_activeDeploymentIds = map d_id (active_of (db sample_world) 4)\<rparr> # cleanup_queue (redis sample_world))"
    by blast
  moreover have "active_of (db sample_world) 4 = [sample_ready]"
    by (simp add: active_of_def active_status_def sample_defs)
  ultimately show ?thesis by (simp add: cascade_project_def sample_defs)
qed

theorem projectsService_remove_offline_witness:
  "\<exists>w'. projectsService_remove 4 0 offline_world = (Inr sample_shop, w') \<and>
     projects (db w') = [sample_blog] \<and> cleanup_queue (redis w') = [] \<and>
     sample_ready \<in> set (deployments (db offline_world))"
proof -
  have "active_of (db offline_world) 4 = [sample_ready]"
    by (simp add: active_of_def active_status_def sample_defs)
  then have "projectsService_remove 4 0 offline_world =
      (Inr sample_shop, offline_world\<lparr>db := cascade_project 4 (db offline_world)\<rparr>)"
    using projectsService_remove_offline [of offline_world 0 4 sample_shop] sample_db_ok sample_shop_owned
    by (simp add: sample_ready_def new_deployment_def)
  then show ?thesis
    by (simp add: cascade_project_def sample_defs offline_world_def)
qed

end
