(* ===== verification/WebhookLaws.thy ===== *)
theory WebhookLaws
  imports Webhooks ProjectLaws
begin

text \<open>
  What the webhook promises: without the signature nothing changes; a push queues one
  deployment of each linked project and cancels the one in flight, which the worker is told;
  a variable that does not decrypt leaves the project cancelled and without a replacement.
\<close>

section \<open>The signature\<close>

text \<open>
  C10. A webhook call that changes anything at all carried a raw body and, as its signature
  header, sha256= followed by the HMAC of exactly that body under the webhook secret.
\<close>

theorem webhook_authentic:
  assumes "handleGitHubWebhook X secret rawBody event signature w = (r, w')" and "w' \<noteq> w"
  shows "\<exists>body. rawBody = Some body \<and> signature = Some (''sha256='' @ x_hmac X secret body)"
  using assms
  by (auto simp: handleGitHubWebhook_def action_simps verifySignature_iff expected_signature_def
      split: option.splits if_splits)

section \<open>One project\<close>

definition job_vars :: "external \<Rightarrow> linked_project \<Rightarrow> (string \<times> string) list" where
  "job_vars X lk = fold (\<lambda>(k, v) acc. obj_set k v acc)
     (map (\<lambda>(k, c). (k, projr (decrypt X c))) (lk_envVars lk)) []"

lemma decrypt_all_run:
  assumes "\<forall>(k, c) \<in> set vs. \<exists>p. decrypt X c = Inr p"
  shows "decrypt_all X vs w = (Inr (fold (\<lambda>(k, v) acc. obj_set k v acc)
     (map (\<lambda>(k, c). (k, projr (decrypt X c))) vs) []), w)"
proof -
  have "collect (\<lambda>(k, c). andThen (decryptM X c) (\<lambda>p. ret (k, p))) vs w =
      (Inr (map (\<lambda>(k, c). (k, projr (decrypt X c))) vs), w)"
    using assms by (induction vs) (auto simp: action_simps andThen_def split: prod.splits)
  then show ?thesis by (simp add: decrypt_all_def andThen_def ret_run)
qed

lemma decrypt_all_fails:
  assumes "(k, c) \<in> set vs" and "decrypt X c = Inl msg"
  shows "\<exists>e. decrypt_all X vs w = (Inl e, w)"
proof -
  have "\<exists>e. collect (\<lambda>(k, c). andThen (decryptM X c) (\<lambda>p. ret (k, p))) vs w = (Inl e, w)"
    by (rule collect_throws [OF assms(1)])
      (auto simp: action_simps andThen_def assms(2) split: sum.splits)
  then show ?thesis by (auto simp: decrypt_all_def andThen_def)
qed

definition canceled_current :: "(uuid \<times> deployment_status) option \<Rightarrow> deployment list \<Rightarrow> deployment list" where
  "canceled_current current ds =
     (case current of
        None \<Rightarrow> ds
      | Some (i, s) \<Rightarrow> if in_progress s then map (\<lambda>r. if d_id r = i then r\<lparr>d_status := CANCELED\<rparr> else r) ds else ds)"

definition signaled :: "(uuid \<times> deployment_status) option \<Rightarrow> time \<Rightarrow> redis \<Rightarrow> redis" where
  "signaled current t r =
     (case current of
        None \<Rightarrow> r
      | Some (i, s) \<Rightarrow> if in_progress s then set_ex (CANCEL_KEY_PREFIX, i) ''1'' (t + 300000) r else r)"

definition previous_of :: "(uuid \<times> deployment_status) option \<Rightarrow> uuid option" where
  "previous_of current = (case current of Some (i, READY) \<Rightarrow> Some i | _ \<Rightarrow> None)"

lemma canceled_keys [simp]:
  "map d_id (canceled_current c ds) = map d_id ds" "map d_projectId (canceled_current c ds) = map d_projectId ds"
  by (auto simp: canceled_current_def split: option.splits)

definition after_cancel :: "(uuid \<times> deployment_status) option \<Rightarrow> world \<Rightarrow> world" where
  "after_cancel current w = w\<lparr>db := (db w)\<lparr>deployments := canceled_current current (deployments (db w))\<rparr>,
     redis := signaled current (now w) (redis w)\<rparr>"

lemma cancel_current_run:
  assumes ok: "db_ok (db w)" and up: "redis_up (redis w)"
    and cur: "\<forall>i s. current = Some (i, s) \<longrightarrow> i \<in> d_id ` set (deployments (db w))"
  shows "cancel_current current w = (Inr (previous_of current), after_cancel current w)"
proof (cases "\<exists>i s. current = Some (i, s) \<and> in_progress s")
  case True
  then obtain i s where c: "current = Some (i, s)" "in_progress s" by blast
  then obtain r where r: "r \<in> set (deployments (db w))" "d_id r = i" using cur by auto
  let ?w = "w\<lparr>redis := set_ex (CANCEL_KEY_PREFIX, i) ''1'' (now w + 300000) (redis w)\<rparr>"
  have "find (\<lambda>x. d_id x = i) (deployments (db ?w)) = Some r"
    using deploymentT.find_row [OF db_okD(1) [OF ok] r(1)] r(2) by simp
  then have upd: "deployment_update i (\<lambda>r. r\<lparr>d_status := CANCELED\<rparr>) ?w = (Inr (r\<lparr>d_status := CANCELED\<rparr>),
      ?w\<lparr>db := deployments_update (map (\<lambda>r. if d_id r = i then r\<lparr>d_status := CANCELED\<rparr> else r)) (db ?w)\<rparr>)"
    using ok by (intro deploymentT.update_row_run) (simp_all add: db_ok_def)
  have "s \<noteq> READY" using c(2) by auto
  then have "previous_of current = None" by (cases s) (simp_all add: previous_of_def c)
  then show ?thesis
    using c up upd by (simp add: cancel_current_def action_simps andThen_def after_cancel_def
        canceled_current_def signaled_def)
next
  case False
  then show ?thesis
    by (auto simp: cancel_current_def after_cancel_def canceled_current_def signaled_def previous_of_def
        action_simps split: option.splits deployment_status.splits)
qed

lemma after_cancel_simps [simp]:
  "now (after_cancel c w) = now w" "redis_up (redis (after_cancel c w)) = redis_up (redis w)"
  "build_queue (redis (after_cancel c w)) = build_queue (redis w)"
  "users (db (after_cancel c w)) = users (db w)" "projects (db (after_cancel c w)) = projects (db w)"
  "systemConfigs (db (after_cancel c w)) = systemConfigs (db w)"
  "nextId (db (after_cancel c w)) = nextId (db w)"
  "deployments (db (after_cancel c w)) = canceled_current c (deployments (db w))"
  by (auto simp: after_cancel_def signaled_def set_ex_def split: option.splits)

definition linked_in :: "db \<Rightarrow> linked_project \<Rightarrow> bool" where
  "linked_in d lk \<longleftrightarrow> lk_project lk \<in> set (projects d) \<and>
     (\<forall>i s. lk_current lk = Some (i, s) \<longrightarrow> i \<in> d_id ` set (deployments d))"

lemma linked_project_of_in: "p \<in> set (projects d) \<Longrightarrow> linked_in d (linked_project_of d p)"
  using set_order_desc [of d_startedAt "filter (\<lambda>r. d_projectId r = p_id p \<and> active_status (d_status r)) (deployments d)"]
  by (auto simp: linked_in_def linked_project_of_def dest!: head_opt_SomeD)

lemma trigger_run:
  assumes ok: "db_ok (db w)" and up: "redis_up (redis w)" and lk: "linked_in (db w) lk"
    and plain: "\<forall>(k, c) \<in> set (lk_envVars lk). \<exists>p. decrypt X c = Inr p"
  shows "\<exists>dep j. triggerDeployment X lk opts w = (Inr (), (after_cancel (lk_current lk) w)\<lparr>
      db := (db (after_cancel (lk_current lk) w))\<lparr>
        deployments := canceled_current (lk_current lk) (deployments (db w)) @ [dep],
        nextId := Suc (nextId (db w))\<rparr>,
      redis := (redis (after_cancel (lk_current lk) w))\<lparr>build_queue := build_queue (redis w) @ [j]\<rparr>\<rparr>) \<and>
    d_id dep = nextId (db w) \<and> d_projectId dep = p_id (lk_project lk) \<and> d_status dep = QUEUED \<and>
    d_trigger dep = WEBHOOK \<and> d_initiatorId dep = Some (p_userId (lk_project lk)) \<and> d_startedAt dep = now w \<and>
    d_commitHash dep = po_commitHash opts \<and> d_branch dep = po_branch opts \<and>
    d_deploymentUrl dep = head_opt (lk_domains lk) \<and>
    job_deploymentId j = d_id dep \<and> job_projectId j = d_projectId dep \<and> job_commitHash j = d_commitHash dep \<and>
    job_domains j = lk_domains lk \<and> job_previousDeploymentId j = previous_of (lk_current lk)"
proof -
  define p c where "p = lk_project lk" and "c = lk_current lk"
  define w1 where "w1 = after_cancel c w"
  have c1: "cancel_current (lk_current lk) w = (Inr (previous_of c), w1)"
    using cancel_current_run [OF ok up] lk by (simp add: linked_in_def c_def w1_def)
  have ok1: "db_ok (db w1)" using keepsD [OF keeps_cancel_current c1] ok by (simp add: db_kept_def)
  obtain vars where c2: "decrypt_all X (lk_envVars lk) w1 = (Inr vars, w1)"
    using decrypt_all_run [OF plain] by blast
  define row where "row = webhook_row w1 p opts (head_opt (lk_domains lk))"
  define dep where "dep = row\<lparr>d_id := nextId (db w1)\<rparr>"
  define w2 where "w2 = w1\<lparr>db := (db w1)\<lparr>deployments := deployments (db w1) @ [dep], nextId := Suc (nextId (db w1))\<rparr>\<rparr>"
  have "p_userId p \<in> u_id ` set (users (db w))" "p_id p \<in> p_id ` set (projects (db w))"
    using lk fksD(2) [OF db_okD(2) [OF ok]] by (auto simp: linked_in_def p_def)
  then have "can_insert_deployment row (db w1)"
    by (simp add: can_insert_deployment_def row_def webhook_row_def w1_def)
  then have c3: "deployment_create row w1 = (Inr dep, w2)"
    using deploymentI.create_ok [OF ok1] by (simp add: insert_form dep_def w2_def)
  define j where "j = \<lparr>job_deploymentId = d_id dep, job_projectId = p_id p,
          job_projectName = p_name p, job_gitUrl = p_gitCloneUrl p,
          job_installationId = Some (po_installationId opts), job_branch = po_branch opts,
          job_commitHash = po_commitHash opts, job_rootDirectory = or_undefined (Some (p_rootDirectory p)),
          job_buildConfig = build_config_of p, job_domains = lk_domains lk,
          job_envVars = obj_spread vars (python_var (p_pythonVersion p)),
          job_previousDeploymentId = previous_of c\<rparr>"
  have run: "triggerDeployment X lk opts w = (Inr (), w2\<lparr>redis := rpush_build j (redis w2)\<rparr>)"
    using c1 c2 c3 up
    by (simp add: triggerDeployment_def Let_def p_def [symmetric] gets_run ret_run andThen_def row_def
        addBuildJob_run j_def w2_def w1_def)
  show ?thesis
    by (intro exI [of _ dep] exI [of _ j])
      (simp add: run w2_def w1_def j_def rpush_build_def dep_def row_def webhook_row_def new_deployment_def
        p_def [symmetric] c_def [symmetric])
qed

text \<open>
  C12. A push to a linked project whose variables decrypt cancels the deployment in flight (its
  row is CANCELED and the worker sees the signal for five minutes), records one QUEUED webhook
  deployment of the pushed commit and queues its job, which names the live deployment it
  replaces, if there is one.
\<close>

theorem triggerDeployment_effect:
  assumes "db_ok (db w)" and "redis_up (redis w)" and "p \<in> set (projects (db w))"
    and "\<forall>e \<in> set (envVars (db w)). ev_projectId e = p_id p \<longrightarrow> (\<exists>t. decrypt X (ev_value e) = Inr t)"
    and "lk_current (linked_project_of (db w) p) = current"
    and "triggerDeployment X (linked_project_of (db w) p) opts w = (r, w')"
  shows "r = Inr () \<and>
    (\<exists>dep j. deployments (db w') = canceled_current current (deployments (db w)) @ [dep] \<and>
       d_id dep = nextId (db w) \<and> d_projectId dep = p_id p \<and> d_status dep = QUEUED \<and> d_trigger dep = WEBHOOK \<and>
       d_initiatorId dep = Some (p_userId p) \<and> d_commitHash dep = po_commitHash opts \<and>
       build_queue (redis w') = build_queue (redis w) @ [j] \<and>
       job_deploymentId j = d_id dep \<and> job_projectId j = p_id p \<and> job_commitHash j = po_commitHash opts \<and>
       job_previousDeploymentId j = previous_of current) \<and>
    (\<forall>i s t. current = Some (i, s) \<and> in_progress s \<longrightarrow> (isCancelled t i (redis w') \<longleftrightarrow> t < now w + 300000))"
proof -
  let ?lk = "linked_project_of (db w) p"
  have lk: "linked_in (db w) ?lk" by (rule linked_project_of_in [OF assms(3)])
  have plain: "\<forall>(k, c) \<in> set (lk_envVars ?lk). \<exists>p. decrypt X c = Inr p"
    using assms(4) by (auto simp: linked_project_of_def)
  have p: "lk_project ?lk = p" by (simp add: linked_project_of_def)
  have sig: "isCancelled t i (r\<lparr>build_queue := q\<rparr>) = isCancelled t i r" for t i r q
    by (simp add: isCancelled_def)
  from trigger_run [OF assms(1,2) lk plain, of opts] assms(6) obtain dep j where
    r: "r = Inr ()" and w': "w' = (after_cancel current w)\<lparr>
      db := (db (after_cancel current w))\<lparr>
        deployments := canceled_current current (deployments (db w)) @ [dep],
        nextId := Suc (nextId (db w))\<rparr>,
      redis := (redis (after_cancel current w))\<lparr>build_queue := build_queue (redis w) @ [j]\<rparr>\<rparr>"
    and rest: "d_id dep = nextId (db w)" "d_projectId dep = p_id p" "d_status dep = QUEUED" "d_trigger dep = WEBHOOK"
      "d_initiatorId dep = Some (p_userId p)" "d_commitHash dep = po_commitHash opts"
      "job_deploymentId j = d_id dep" "job_projectId j = d_projectId dep" "job_commitHash j = d_commitHash dep"
      "job_previousDeploymentId j = previous_of current"
    unfolding assms(5) p by auto
  have "isCancelled t i (redis w') \<longleftrightarrow> t < now w + 300000" if "current = Some (i, s)" "in_progress s" for i s t
    using that by (simp add: w' sig after_cancel_def signaled_def)
  then show ?thesis using r w' rest by auto
qed

theorem webhook_cancels_without_replacement:
  assumes "db_ok (db w)" and "redis_up (redis w)" and "p \<in> set (projects (db w))"
    and "e \<in> set (envVars (db w))" and "ev_projectId e = p_id p" and "decrypt X (ev_value e) = Inl msg"
    and "lk_current (linked_project_of (db w) p) = Some (i, s)" and "in_progress s"
    and "triggerDeployment X (linked_project_of (db w) p) opts w = (r, w')"
  shows "(\<exists>err. r = Inl err) \<and>
    deployments (db w') = map (\<lambda>x. if d_id x = i then x\<lparr>d_status := CANCELED\<rparr> else x) (deployments (db w)) \<and>
    build_queue (redis w') = build_queue (redis w) \<and> isCancelled (now w) i (redis w')"
proof -
  let ?lk = "linked_project_of (db w) p" and ?c = "Some (i, s)"
  have lk: "linked_in (db w) ?lk" by (rule linked_project_of_in [OF assms(3)])
  have c1: "cancel_current (lk_current ?lk) w = (Inr (previous_of ?c), after_cancel ?c w)"
    using cancel_current_run [OF assms(1,2)] lk assms(7) by (simp add: linked_in_def)
  have "(ev_key e, ev_value e) \<in> set (lk_envVars ?lk)"
    using assms(4,5) by (auto simp: linked_project_of_def)
  from decrypt_all_fails [OF this assms(6)] obtain err where
    c2: "decrypt_all X (lk_envVars ?lk) (after_cancel ?c w) = (Inl err, after_cancel ?c w)" by blast
  have "r = Inl err" "w' = after_cancel ?c w"
    using c1 c2 assms(9) by (simp_all add: triggerDeployment_def Let_def andThen_def)
  then show ?thesis
    using assms(8) by (simp add: canceled_current_def) (simp add: after_cancel_def signaled_def)
qed

section \<open>Closed examples\<close>

definition sample_opts :: push_opts where
  "sample_opts = \<lparr>po_branch = ''main'', po_commitHash = ''abc'', po_installationId = 43,
     po_commitMessage = ''fix'', po_commitAuthor = ''bob''\<rparr>"

definition sample_push :: push_payload where
  "sample_push = \<lparr>pp_ref = ''refs/heads/main'', pp_after = ''abc'', pp_deleted = False,
     pp_repoName = ''blog'', pp_ownerLogin = ''bob'', pp_senderLogin = ''bob'',
     pp_installationId = Some 43, pp_headCommit = None\<rparr>"

definition broken_world :: world where
  \<comment> \<open>a variable of the blog whose stored value does not decrypt\<close>
  "broken_world = sample_world\<lparr>db := sample_db\<lparr>envVars :=
     [new_env_var\<lparr>ev_id := 13, ev_key := ''EMPTY'', ev_value := ''aa:bb:'', ev_projectId := 5\<rparr>]\<rparr>\<rparr>"

lemma broken_ok: "db_ok (db broken_world)"
  by (simp add: broken_world_def db_ok_def uniq_def fks_def fresh_def sample_defs)

lemma blog_current:
  "lk_current (linked_project_of (db sample_world) sample_blog) = Some (8, BUILDING)"
  "lk_current (linked_project_of (db broken_world) sample_blog) = Some (8, BUILDING)"
  by (simp_all add: linked_project_of_def active_status_def query_defs sample_defs broken_world_def)

theorem webhook_authentic_witness:
  "\<exists>r w'. handleGitHubWebhook sample_external ''s'' (Some ''body'') (Push sample_push) (Some ''sha256=body'') sample_world = (r, w') \<and>
     w' \<noteq> sample_world \<and> (\<exists>body. Some ''body'' = Some body \<and> Some ''sha256=body'' = Some (''sha256='' @ x_hmac sample_external ''s'' body))"
proof -
  have linked: "linked_projects (db sample_world) sample_push = [linked_project_of (db sample_world) sample_blog]"
    by (simp add: linked_projects_def sample_push_def branch_of_ref_def sample_defs)
  have push: "\<not> pp_deleted sample_push" "pp_installationId sample_push = Some 43"
    by (simp_all add: sample_push_def)
  let ?lk = "linked_project_of (db sample_world) sample_blog"
  have lk: "linked_in (db sample_world) ?lk"
    by (rule linked_project_of_in) (simp add: sample_defs)
  have "\<forall>(k, c) \<in> set (lk_envVars ?lk). \<exists>p. decrypt sample_external c = Inr p"
    by (simp add: linked_project_of_def sample_defs)
  from trigger_run [OF sample_db_ok sample_redis_up lk this, of "push_opts_of sample_push 43"]
  obtain w' j where trig: "triggerDeployment sample_external ?lk (push_opts_of sample_push 43) sample_world = (Inr (), w')"
    and j: "build_queue (redis w') = build_queue (redis sample_world) @ [j]" by auto
  then have q: "length (build_queue (redis w')) = 1" by (simp add: sample_world_def sample_redis_def)
  have "verifySignature sample_external ''s'' ''body'' (Some ''sha256=body'')"
    by (simp add: verifySignature_iff expected_signature_def sample_external_def)
  moreover have "p_autoDeploy (lk_project (linked_project_of (db sample_world) sample_blog))"
    by (simp add: linked_project_of_def sample_defs)
  ultimately have run: "handleGitHubWebhook sample_external ''s'' (Some ''body'') (Push sample_push) (Some ''sha256=body'') sample_world =
      (Inr (Reply 200 ''received''), w')"
    using trig linked push
    by (simp add: handleGitHubWebhook_def handlePushEvent_def andThen_def gets_run ret_run tryCatch_def)
  have ne: "w' \<noteq> sample_world" using q by (auto simp: sample_world_def sample_redis_def)
  from run ne webhook_authentic [OF run ne] show ?thesis by blast
qed

theorem triggerDeployment_effect_witness:
  "\<exists>w' dep. triggerDeployment sample_external (linked_project_of (db sample_world) sample_blog) sample_opts sample_world =
      (Inr (), w') \<and> deployments (db w') = [sample_ready, sample_building\<lparr>d_status := CANCELED\<rparr>, dep] \<and>
      isCancelled 1000 8 (redis w')"
proof -
  obtain r w' where run: "triggerDeployment sample_external (linked_project_of (db sample_world) sample_blog)
      sample_opts sample_world = (r, w')" by fastforce
  have "sample_blog \<in> set (projects (db sample_world))"
    "\<forall>e \<in> set (envVars (db sample_world)). ev_projectId e = p_id sample_blog \<longrightarrow>
       (\<exists>t. decrypt sample_external (ev_value e) = Inr t)"
    by (simp_all add: sample_defs)
  from triggerDeployment_effect [OF sample_db_ok sample_redis_up this blog_current(1) run] run
  show ?thesis by (auto simp: canceled_current_def sample_defs)
qed

theorem webhook_cancels_without_replacement_witness:
  "\<exists>err w'. triggerDeployment sample_external (linked_project_of (db broken_world) sample_blog) sample_opts broken_world =
      (Inl err, w') \<and> deployments (db w') = [sample_ready, sample_building\<lparr>d_status := CANCELED\<rparr>] \<and>
      build_queue (redis w') = []"
proof -
  obtain r w' where run: "triggerDeployment sample_external (linked_project_of (db broken_world) sample_blog)
      sample_opts broken_world = (r, w')" by fastforce
  let ?e = "new_env_var\<lparr>ev_id := 13, ev_key := ''EMPTY'', ev_value := ''aa:bb:'', ev_projectId := 5\<rparr>"
  have "redis_up (redis broken_world)" "sample_blog \<in> set (projects (db broken_world))"
    "?e \<in> set (envVars (db broken_world))" "ev_projectId ?e = p_id sample_blog"
    "decrypt sample_external (ev_value ?e) = Inl ''Invalid encrypted payload format''"
    by (simp_all add: broken_world_def sample_defs decrypt_def nth_part_def truthy_def)
  from webhook_cancels_without_replacement [OF broken_ok this blog_current(2) _ run] run
  show ?thesis by (auto simp: broken_world_def sample_defs)
qed

end
