(* ===== verification/ResourceLaws.thy ===== *)
theory ResourceLaws
  imports Resources ProjectLaws
begin

text \<open>
  What \<open>envs/env-vars.service.ts\<close> and \<open>settings/settings.service.ts\<close> promise: saved variables are
  read back as they were given, a save that fails changes no row, a webhook survives the
  encrypted round trip, and an empty webhook leaves the stored one in place.
\<close>

section \<open>Environment variables\<close>

definition item_of :: "env_var \<Rightarrow> string \<times> string \<times> environment_type list" where
  "item_of e = (ev_key e, ev_value e, ev_targets e)"

definition item :: "env_var_item \<Rightarrow> string \<times> string \<times> environment_type list" where
  "item v = (ei_key v, ei_value v, ei_targets v)"

definition stored_as :: "external \<Rightarrow> uuid \<Rightarrow> env_var_item \<Rightarrow> env_var \<Rightarrow> bool" where
  "stored_as X i v e \<longleftrightarrow> ev_key e = ei_key v \<and> ev_projectId e = i \<and> ev_targets e = ei_targets v \<and>
     decrypt X (ev_value e) =
       (if ei_value v = [] then Inl ''Invalid encrypted payload format'' else Inr (ei_value v))"

lemma encrypt_items:
  assumes "gcm_ok X"
  shows "\<exists>rows. collect (encrypt_item X i) vs w = (Inr rows, w\<lparr>rng_pos := rng_pos w + 12 * length vs\<rparr>) \<and>
    list_all2 (stored_as X i) vs rows"
proof -
  let ?mk = "\<lambda>v c. new_env_var\<lparr>ev_projectId := i, ev_key := ei_key v, ev_value := c, ev_targets := ei_targets v\<rparr>"
  have item: "encrypt_item X i = (\<lambda>v. andThen (encrypt X (ei_value v)) (\<lambda>c. ret (?mk v c)))"
    by (rule ext) (simp add: encrypt_item_def)
  obtain rows where "collect (encrypt_item X i) vs w = (Inr rows, w\<lparr>rng_pos := rng_pos w + 12 * length vs\<rparr>)"
    and all: "list_all2 (sealed_as X ei_value ?mk) vs rows"
    using collect_encrypt [of X ei_value ?mk vs w] unfolding item by blast
  moreover have "stored_as X i v e" if "sealed_as X ei_value ?mk v e" for v e
    using that decrypt_payload [OF assms] by (auto simp: sealed_as_def stored_as_def)
  ultimately show ?thesis using list_all2_mono [OF all] by blast
qed

lemma numbered_stored:
  "list_all2 (stored_as X i) vs rows \<Longrightarrow> list_all2 (stored_as X i) vs (number_rows ev_id_update n rows)"
proof (induction arbitrary: n rule: list_all2_induct)
  case Nil
  then show ?case by simp
next
  case (Cons v vs e es)
  then show ?case by (simp add: stored_as_def)
qed

definition saved_db :: "uuid \<Rightarrow> time \<Rightarrow> env_var list \<Rightarrow> nat \<Rightarrow> db \<Rightarrow> db" where
  "saved_db i t rows n d = d\<lparr>
     projects := map (\<lambda>p. if p_id p = i then p\<lparr>p_configChanged := True, p_updatedAt := t\<rparr> else p) (projects d),
     envVars := filter (\<lambda>e. ev_projectId e \<noteq> i) (envVars d) @ rows, nextId := nextId d + n\<rparr>"

lemma saveAll_run:
  assumes gcm: "gcm_ok X" and ok: "db_ok (db w)" and own: "owned_project u i (db w) = Some p"
    and keys: "distinct (map ei_key vs)"
  shows "\<exists>rows w'. envVarsService_saveAll X u i vs w = (Inr (length vs), w') \<and>
    db w' = saved_db i (now w) rows (length vs) (db w) \<and> list_all2 (stored_as X i) vs rows"
proof -
  define w1 where "w1 = w\<lparr>db := (db w)\<lparr>envVars := filter (\<lambda>e. ev_projectId e \<noteq> i) (envVars (db w))\<rparr>\<rparr>"
  have pin: "p \<in> set (projects (db w))" "p_id p = i" using owned_projectD [OF own] by simp_all
  have c1: "envVar_deleteMany (\<lambda>e. ev_projectId e = i) w = (Inr (), w1)"
    using envVarL.delete_run [OF db_okD(1) [OF ok] db_okD(2) [OF ok]] by (simp add: w1_def)
  have ok1: "db_ok (db w1)" using keepsD [OF envVarT.keeps_deleteMany c1] ok by (simp add: db_kept_def)
  have "\<exists>rows w2. (if vs = [] then ret () else andThen (collect (encrypt_item X i) vs) envVar_createMany) w1 = (Inr (), w2) \<and>
      db w2 = (db w1)\<lparr>envVars := envVars (db w1) @ rows, nextId := nextId (db w1) + length vs\<rparr> \<and> now w2 = now w \<and>
      list_all2 (stored_as X i) vs rows"
  proof (cases "vs = []")
    case True
    then show ?thesis by (intro exI [of _ "[]"] exI [of _ w1]) (simp add: action_simps w1_def)
  next
    case False
    obtain rows where rows: "collect (encrypt_item X i) vs w1 = (Inr rows, w1\<lparr>rng_pos := rng_pos w1 + 12 * length vs\<rparr>)"
      and all: "list_all2 (stored_as X i) vs rows"
      using encrypt_items [OF gcm] by blast
    let ?w = "w1\<lparr>rng_pos := rng_pos w1 + 12 * length vs\<rparr>"
    have k: "map ev_key rows = map ei_key vs" and pr: "\<forall>e \<in> set rows. ev_projectId e = i" and len: "length rows = length vs"
      using all by (induction) (auto simp: stored_as_def)
    let ?n = "number_rows ev_id_update (nextId (db w1)) rows"
    have "envVar_createMany rows ?w = (Inr (), ?w\<lparr>db := (db w1)\<lparr>envVars := envVars (db w1) @ ?n,
        nextId := nextId (db w1) + length rows\<rparr>\<rparr>)"
    proof -
      have "db_ok (db ?w)" and "i \<in> p_id ` set (projects (db ?w))"
        and "\<forall>e \<in> set (envVars (db ?w)). ev_projectId e \<noteq> i" and "distinct (map ev_key rows)"
        using ok1 pin k keys by (simp, force simp: w1_def, simp add: w1_def, simp)
      from envVar_createMany_run [OF this(1) pr this(2,4,3)] show ?thesis by simp
    qed
    moreover have "now w1 = now w" by (simp add: w1_def)
    ultimately show ?thesis
      using rows False len numbered_stored [OF all]
      by (intro exI [of _ ?n] exI [of _ "?w\<lparr>db := (db w1)\<lparr>envVars := envVars (db w1) @ ?n,
          nextId := nextId (db w1) + length rows\<rparr>\<rparr>"]) (simp add: andThen_def)
  qed
  then obtain rows w2 where
    c2: "(if vs = [] then ret () else andThen (collect (encrypt_item X i) vs) envVar_createMany) w1 = (Inr (), w2)"
    and w2: "db w2 = (db w1)\<lparr>envVars := envVars (db w1) @ rows, nextId := nextId (db w1) + length vs\<rparr>" "now w2 = now w"
    and all: "list_all2 (stored_as X i) vs rows"
    by blast
  have "keeps db_kept (if vs = [] then ret () else andThen (collect (encrypt_item X i) vs) envVar_createMany)"
    unfolding encrypt_item_def by (intro kept.keeps_db_intros keeps_tables keeps_encrypt)
  from keepsD [OF this c2] have ok2: "db_ok (db w2)" using ok1 by (simp add: db_kept_def)
  let ?f = "\<lambda>p. p\<lparr>p_configChanged := True, p_updatedAt := now w\<rparr>"
  have "find (\<lambda>q. p_id q = i) (projects (db w2)) = Some p"
    using owned_project_find [OF db_okD(1) [OF ok] own] by (simp add: w2 w1_def)
  then have c3: "project_update i ?f w2 = (Inr (?f p),
      w2\<lparr>db := projects_update (map (\<lambda>q. if p_id q = i then ?f q else q)) (db w2)\<rparr>)"
    by (intro projectT.update_row_run [OF db_okD(1) [OF ok2] db_okD(2) [OF ok2]]) simp_all
  have "envVarsService_saveAll X u i vs w = (Inr (length vs),
      w2\<lparr>db := projects_update (map (\<lambda>q. if p_id q = i then ?f q else q)) (db w2)\<rparr>)"
    using own c1 c2 c3 w2(2)
    by (simp add: envVarsService_saveAll_def gets_run orThrow_run ret_run transaction_def andThen_def split del: if_split)
  moreover have "db (w2\<lparr>db := projects_update (map (\<lambda>q. if p_id q = i then ?f q else q)) (db w2)\<rparr>) =
      saved_db i (now w) rows (length vs) (db w)"
    by (simp add: saved_db_def w2 w1_def)
  ultimately show ?thesis using all by blast
qed

lemma collect_decrypt:
  assumes "\<forall>e \<in> set es. decrypt X (ev_value e) = Inr (f e)"
  shows "collect (\<lambda>v. andThen (decryptM X (ev_value v)) (\<lambda>plain. ret (v\<lparr>ev_value := plain\<rparr>))) es w =
    (Inr (map (\<lambda>e. e\<lparr>ev_value := f e\<rparr>) es), w)"
  using assms by (induction es) (simp_all add: action_simps andThen_def)

lemma mset_stored:
  assumes "list_all2 (stored_as X i) vs rows" and "\<forall>v \<in> set vs. ei_value v \<noteq> []"
  shows "(\<forall>e \<in> set rows. \<exists>p. decrypt X (ev_value e) = Inr p \<and> ev_projectId e = i) \<and>
    map (\<lambda>e. item_of (e\<lparr>ev_value := projr (decrypt X (ev_value e))\<rparr>)) rows = map item vs"
  using assms by (induction) (auto simp: stored_as_def item_of_def item_def)

text \<open>
  C25. Saving a set of variables with distinct names and non-empty values and reading them back
  gives the same variables, values and targets, ordered by name, and leaves the variables of
  every other project alone.
\<close>

theorem saveAll_findAll:
  assumes "gcm_ok X" and "db_ok (db w)" and "owned_project u i (db w) = Some p"
    and "distinct (map ei_key vs)" and "\<forall>v \<in> set vs. ei_value v \<noteq> []"
  shows "\<exists>w' rows. envVarsService_saveAll X u i vs w = (Inr (length vs), w') \<and>
    envVarsService_findAll X collate u i w' = (Inr rows, w') \<and>
    image_mset item_of (mset rows) = image_mset item (mset vs) \<and>
    sorted (map (\<lambda>e. collate (ev_key e)) rows) \<and>
    filter (\<lambda>e. ev_projectId e \<noteq> i) (envVars (db w')) = filter (\<lambda>e. ev_projectId e \<noteq> i) (envVars (db w))"
proof -
  obtain st w' where save: "envVarsService_saveAll X u i vs w = (Inr (length vs), w')"
    and db': "db w' = saved_db i (now w) st (length vs) (db w)" and all: "list_all2 (stored_as X i) vs st"
    using saveAll_run [OF assms(1-4)] by blast
  note st = mset_stored [OF all assms(5)]
  let ?es = "order_asc (\<lambda>e. collate (ev_key e)) (filter (\<lambda>e. ev_projectId e = i) (envVars (db w')))"
  let ?rows = "map (\<lambda>e. e\<lparr>ev_value := projr (decrypt X (ev_value e))\<rparr>) ?es"
  have mine: "filter (\<lambda>e. ev_projectId e = i) (envVars (db w')) = st"
    using st by (simp add: db' saved_db_def filter_id_conv) 
  have own: "\<exists>q. owned_project u i (db w') = Some q"
    using assms(3) find_map_same [of "\<lambda>p. p_id p = i \<and> p_userId p = u"
       "\<lambda>p. if p_id p = i then p\<lparr>p_configChanged := True, p_updatedAt := now w\<rparr> else p" "projects (db w)"]
    by (simp add: db' saved_db_def owned_project_def)
  have "envVarsService_findAll X collate u i w' = (Inr ?rows, w')"
  proof -
    have "\<forall>e \<in> set ?es. decrypt X (ev_value e) = Inr (projr (decrypt X (ev_value e)))"
      using st by (auto simp: mine)
    from collect_decrypt [OF this] show ?thesis
      using own by (auto simp: envVarsService_findAll_def andThen_gets andThen_orThrow mine)
  qed
  moreover have "image_mset item_of (mset ?rows) = image_mset item (mset vs)"
    using arg_cong [OF conjunct2 [OF st], of mset] by (simp add: mine order_asc_def image_mset.compositionality o_def)
  moreover have "sorted (map (\<lambda>e. collate (ev_key e)) ?rows)"
    using sorted_order_asc [of "\<lambda>e. collate (ev_key e)" st] by (simp add: mine o_def)
  moreover have "filter (\<lambda>e. ev_projectId e \<noteq> i) (envVars (db w')) = filter (\<lambda>e. ev_projectId e \<noteq> i) (envVars (db w))"
    using st by (simp add: db' saved_db_def filter_empty_conv)
  ultimately show ?thesis using save by blast
qed

theorem saveAll_atomic:
  assumes "envVarsService_saveAll X u i vs w = (Inl e, w')"
  shows "db w' = db w"
  using assms
  by (auto simp: envVarsService_saveAll_def action_simps split: option.splits dest: transaction_fails)

section \<open>Settings\<close>

lemma payload_truthy: "length iv = 12 \<Longrightarrow> truthy (payload_of X iv p)"
  by (cases iv) (simp_all add: payload_of_def truthy_def case_prod_unfold Let_def)

definition base_config :: "db \<Rightarrow> uuid \<Rightarrow> system_config" where
  "base_config d u = (case find_config d u of None \<Rightarrow> new_config u | Some c \<Rightarrow> c)"

lemma find_config_id:
  assumes "uniq d" and "find_config d u = Some c"
  shows "find (\<lambda>x. cfg_id x = cfg_id c) (systemConfigs d) = Some c" and "cfg_userId c = u"
  using configT.find_row [OF assms(1), of c] find_SomeD [OF assms(2) [unfolded find_config_def]] by auto

lemma find_config_update:
  assumes ok: "uniq d" and c: "find_config d u = Some c" and f: "\<And>x. cfg_userId (f x) = cfg_userId x"
  shows "find_config (systemConfigs_update (map (\<lambda>x. if cfg_id x = cfg_id c then f x else x)) d) u = Some (f c)"
  using c by (simp add: find_config_def find_map_same f)

lemma hook_update_seal:
  assumes "js_trim s \<noteq> []"
  shows "\<exists>iv. length iv = 12 \<and> hook_update X (Some (Some s)) w =
    (Inr (Some (Some (payload_of X iv s))), w\<lparr>rng_pos := rng_pos w + 12\<rparr>)"
proof -
  have "truthy s" using assms by (cases s) (auto simp: js_trim_def)
  then show ?thesis
    using assms by (intro exI [of _ "map (rng w) [rng_pos w ..< rng_pos w + 12]"])
      (simp add: hook_update_def action_simps andThen_def)
qed

lemma updateConfig_run:
  assumes ok: "db_ok (db w)" and u: "u \<in> u_id ` set (users (db w))"
    and hook: "hook_update X (sd_slackWebhook dto) w = (Inr h, w1)" "db w1 = db w"
  shows "\<exists>c w'. updateConfig X u dto w = (Inr c, w') \<and> find_config (db w') u = Some c \<and> uniq (db w') \<and>
    (find_config (db w) u = None \<longrightarrow> c = (apply_settings dto
        (case h of Some (Some s) \<Rightarrow> if truthy s then Some (Some s) else None | _ \<Rightarrow> None) (new_config u))\<lparr>cfg_id := nextId (db w)\<rparr>) \<and>
    (\<forall>c0. find_config (db w) u = Some c0 \<longrightarrow> c = apply_settings dto h c0) \<and>
    filter (\<lambda>c. cfg_userId c \<noteq> u) (systemConfigs (db w')) = filter (\<lambda>c. cfg_userId c \<noteq> u) (systemConfigs (db w))"
proof (cases "find_config (db w) u")
  case None
  let ?h = "case h of Some (Some s) \<Rightarrow> if truthy s then Some (Some s) else None | _ \<Rightarrow> None"
  let ?c = "apply_settings dto ?h (new_config u)"
  have uid: "cfg_userId ?c = u" by (simp add: apply_settings_def new_config_def)
  have none: "\<forall>c \<in> set (systemConfigs (db w)). cfg_userId c \<noteq> u"
    using None by (auto simp: find_config_def find_None_iff)
  then have "can_insert_config ?c (db w1)" using u uid hook(2) by (auto simp: can_insert_config_def)
  then have run: "config_create ?c w1 = (Inr (?c\<lparr>cfg_id := nextId (db w)\<rparr>),
      w1\<lparr>db := (db w)\<lparr>systemConfigs := systemConfigs (db w) @ [?c\<lparr>cfg_id := nextId (db w)\<rparr>], nextId := Suc (nextId (db w))\<rparr>\<rparr>)"
    using configI.create_ok [of w1 ?c] ok hook(2) by (simp add: insert_form)
  let ?w = "w1\<lparr>db := (db w)\<lparr>systemConfigs := systemConfigs (db w) @ [?c\<lparr>cfg_id := nextId (db w)\<rparr>], nextId := Suc (nextId (db w))\<rparr>\<rparr>"
  have "updateConfig X u dto w = (Inr (?c\<lparr>cfg_id := nextId (db w)\<rparr>), ?w)"
    using run hook None by (simp add: updateConfig_def andThen_def gets_run)
  moreover have "find_config (db ?w) u = Some (?c\<lparr>cfg_id := nextId (db w)\<rparr>)"
    using none uid by (simp add: find_config_def find_append_fresh)
  moreover have "uniq (db ?w)"
    using configI.create_keeps_ok [OF run] ok hook(2) by (simp add: db_ok_def)
  moreover have "filter (\<lambda>c. cfg_userId c \<noteq> u) (systemConfigs (db ?w)) = filter (\<lambda>c. cfg_userId c \<noteq> u) (systemConfigs (db w))"
    using uid by simp
  ultimately show ?thesis using None
    by (intro exI [of _ "?c\<lparr>cfg_id := nextId (db w)\<rparr>"] exI [of _ ?w]) (simp only: simp_thms option.simps)
next
  case (Some c0)
  let ?f = "apply_settings dto h"
  let ?w = "w1\<lparr>db := systemConfigs_update (map (\<lambda>x. if cfg_id x = cfg_id c0 then ?f x else x)) (db w)\<rparr>"
  have f: "cfg_userId (?f x) = cfg_userId x" "cfg_id (?f x) = cfg_id x" for x by (simp_all add: apply_settings_def)
  have run: "config_update (cfg_id c0) ?f w1 = (Inr (?f c0), ?w)"
    using configT.update_row_run [of w1 ?f "cfg_id c0" c0] f hook(2) ok find_config_id(1) [OF db_okD(1) [OF ok] Some]
    by (simp add: db_ok_def)
  have "updateConfig X u dto w = (Inr (?f c0), ?w)"
    using run hook Some by (simp add: updateConfig_def andThen_def gets_run)
  moreover have "find_config (db ?w) u = Some (?f c0)"
    using find_config_update [OF db_okD(1) [OF ok] Some f(1)] by simp
  moreover have "uniq (db ?w)"
  proof (rule db_okD(1))
    have "db_ok (db w1)" using ok hook(2) by simp
    then show "db_ok (db ?w)" using keepsD [OF configT.keeps_update run] unfolding db_kept_def by blast
  qed
  moreover have "filter (\<lambda>c. cfg_userId c \<noteq> u) (systemConfigs (db ?w)) = filter (\<lambda>c. cfg_userId c \<noteq> u) (systemConfigs (db w))"
  proof -
    note uq = db_okD(1) [OF ok]
    have same: "cfg_userId x = u" if "x \<in> set (systemConfigs (db w))" "cfg_id x = cfg_id c0" for x
    proof -
      have "x = c0"
        using configT.find_row [OF uq that(1), unfolded that(2)] find_config_id(1) [OF uq Some] by (metis option.inject)
      then show ?thesis using find_config_id(2) [OF uq Some] by simp
    qed
    have "filter (\<lambda>c. cfg_userId c \<noteq> u) (map (\<lambda>x. if cfg_id x = cfg_id c0 then ?f x else x) (systemConfigs (db w))) =
        filter (\<lambda>c. cfg_userId c \<noteq> u) (systemConfigs (db w))"
      by (rule filter_map_unaffected) (auto simp: f dest: same)
    then show ?thesis by simp
  qed
  ultimately show ?thesis using Some
    by (intro exI [of _ "?f c0"] exI [of _ ?w]) (simp only: simp_thms option.simps)
qed

lemma getConfig_run:
  "find_config (db w) u = Some c \<Longrightarrow> getConfig X u w =
     (if truthy_opt (cfg_slackWebhook c)
      then (case decrypt X (the (cfg_slackWebhook c)) of
              Inl e \<Rightarrow> (Inl (Thrown e), w) | Inr p \<Rightarrow> (Inr (c\<lparr>cfg_slackWebhook := Some p\<rparr>), w))
      else (Inr c, w))"
  by (simp add: getConfig_def action_simps andThen_def split: sum.splits)

theorem settings_webhook_roundtrip:
  assumes "gcm_ok X" and "db_ok (db w)" and "u \<in> u_id ` set (users (db w))"
    and "sd_slackWebhook dto = Some (Some s)" and "js_trim s \<noteq> []"
  shows "\<exists>c w' c'. updateConfig X u dto w = (Inr c, w') \<and> getConfig X u w' = (Inr c', w') \<and>
    cfg_slackWebhook c \<noteq> Some [] \<and> cfg_slackWebhook c' = Some s \<and>
    c' = (apply_settings dto (Some (Some s)) (base_config (db w) u))\<lparr>cfg_id := cfg_id c'\<rparr> \<and>
    filter (\<lambda>c. cfg_userId c \<noteq> u) (systemConfigs (db w')) = filter (\<lambda>c. cfg_userId c \<noteq> u) (systemConfigs (db w))"
proof -
  obtain iv where iv: "length iv = 12" and hook: "hook_update X (Some (Some s)) w =
      (Inr (Some (Some (payload_of X iv s))), w\<lparr>rng_pos := rng_pos w + 12\<rparr>)"
    using hook_update_seal [OF assms(5)] by blast
  let ?h = "Some (Some (payload_of X iv s))"
  have s: "s \<noteq> []" using assms(5) by (auto simp: js_trim_def)
  have t: "truthy (payload_of X iv s)" by (rule payload_truthy [OF iv])
  obtain c w' where run: "updateConfig X u dto w = (Inr c, w')" and f: "find_config (db w') u = Some c"
    and n: "find_config (db w) u = None \<longrightarrow> c = (apply_settings dto ?h (new_config u))\<lparr>cfg_id := nextId (db w)\<rparr>"
    and o: "\<forall>c0. find_config (db w) u = Some c0 \<longrightarrow> c = apply_settings dto ?h c0"
    and rest: "filter (\<lambda>c. cfg_userId c \<noteq> u) (systemConfigs (db w')) = filter (\<lambda>c. cfg_userId c \<noteq> u) (systemConfigs (db w))"
    using updateConfig_run [OF assms(2,3), of X dto ?h] hook assms(4) t by auto
  have c: "c = (apply_settings dto ?h (base_config (db w) u))\<lparr>cfg_id := cfg_id c\<rparr>"
    using n o by (cases "find_config (db w) u") (simp_all add: base_config_def apply_settings_def)
  have hk: "cfg_slackWebhook c = Some (payload_of X iv s)"
    by (subst c) (simp add: apply_settings_def set_opt_def)
  define c' where "c' = c\<lparr>cfg_slackWebhook := Some s\<rparr>"
  have "getConfig X u w' = (Inr c', w')"
    using getConfig_run [OF f] hk t decrypt_payload [OF assms(1) iv] s by (simp add: c'_def)
  moreover have "c' = (apply_settings dto (Some (Some s)) (base_config (db w) u))\<lparr>cfg_id := cfg_id c'\<rparr>"
    unfolding c'_def by (subst c) (simp add: apply_settings_def set_opt_def)
  moreover have "cfg_slackWebhook c' = Some s" "cfg_slackWebhook c \<noteq> Some []"
    using hk t by (auto simp: c'_def)
  ultimately show ?thesis using run rest by blast
qed

theorem empty_webhook_not_cleared:
  assumes "db_ok (db w)" and "find_config (db w) u = Some c" and "sd_slackWebhook dto = Some (Some [])"
  shows "\<exists>c' w'. updateConfig X u dto w = (Inr c', w') \<and> find_config (db w') u = Some c' \<and>
    cfg_slackWebhook c' = cfg_slackWebhook c"
proof -
  have hook: "hook_update X (sd_slackWebhook dto) w = (Inr None, w)"
    by (simp add: hook_update_def assms(3) action_simps)
  have "c \<in> set (systemConfigs (db w))" "cfg_userId c = u"
    using find_SomeD [OF assms(2) [unfolded find_config_def]] by auto
  then have "u \<in> u_id ` set (users (db w))"
    using fksD(6) [OF db_okD(2) [OF assms(1)], of c] by simp
  from updateConfig_run [OF assms(1) this hook] assms(2) show ?thesis
    by (auto simp: apply_settings_def set_opt_def)
qed

section \<open>Closed examples\<close>

definition sample_item :: env_var_item where
  "sample_item = \<lparr>ei_key = ''PORT'', ei_value = ''80'', ei_targets = [PRODUCTION]\<rparr>"

theorem saveAll_findAll_witness:
  "\<exists>w' rows. envVarsService_saveAll sample_external 0 4 [sample_item] sample_world = (Inr 1, w') \<and>
     envVarsService_findAll sample_external (\<lambda>s. 0) 0 4 w' = (Inr rows, w') \<and>
     image_mset item_of (mset rows) = {#(''PORT'', ''80'', [PRODUCTION])#}"
proof -
  have "distinct (map ei_key [sample_item])" "\<forall>v \<in> set [sample_item]. ei_value v \<noteq> []"
    by (simp_all add: sample_item_def)
  from saveAll_findAll [OF gcm_ok_sample sample_db_ok sample_shop_owned this, of "\<lambda>s. 0"]
  show ?thesis by (auto simp: item_def sample_item_def)
qed

theorem saveAll_atomic_witness:
  "\<exists>e w'. envVarsService_saveAll sample_external 0 5 [sample_item] sample_world = (Inl e, w') \<and>
     db w' = db sample_world"
proof -
  obtain e w' where run: "envVarsService_saveAll sample_external 0 5 [sample_item] sample_world = (Inl e, w')"
    by (simp add: envVarsService_saveAll_def action_simps query_defs sample_defs)
  from run saveAll_atomic [OF run] show ?thesis by blast
qed

definition hook_dto :: "string \<Rightarrow> settings_dto" where
  "hook_dto s = \<lparr>sd_defaultRegion = None, sd_maxConcurrentBuilds = Some 2, sd_logRetentionDays = None,
     sd_turboMode = None, sd_globalTTLMinutes = None, sd_autoDeploy = None,
     sd_slackWebhook = Some (Some s), sd_emailDeployFailed = None, sd_emailDeploySuccess = None\<rparr>"

theorem settings_webhook_roundtrip_witness:
  "\<exists>c w' c'. updateConfig sample_external 0 (hook_dto ''u'') sample_world = (Inr c, w') \<and>
     getConfig sample_external 0 w' = (Inr c', w') \<and> cfg_slackWebhook c' = Some ''u'' \<and> cfg_maxConcurrentBuilds c' = 2"
proof -
  have "0 \<in> u_id ` set (users (db sample_world))" "sd_slackWebhook (hook_dto ''u'') = Some (Some ''u'')" "js_trim ''u'' \<noteq> []"
    by (simp_all add: sample_defs hook_dto_def js_trim_def is_blank_def)
  from settings_webhook_roundtrip [OF gcm_ok_sample sample_db_ok this]
  obtain c w' c' where "updateConfig sample_external 0 (hook_dto ''u'') sample_world = (Inr c, w')"
    "getConfig sample_external 0 w' = (Inr c', w')" "cfg_slackWebhook c' = Some ''u''"
    and c: "c' = (apply_settings (hook_dto ''u'') (Some (Some ''u'')) (base_config (db sample_world) 0))\<lparr>cfg_id := cfg_id c'\<rparr>"
    by blast
  moreover have "cfg_maxConcurrentBuilds c' = 2"
    by (subst c) (simp add: apply_settings_def hook_dto_def set_opt_def)
  ultimately show ?thesis by blast
qed

theorem empty_webhook_not_cleared_witness:
  "\<exists>c' w'. updateConfig sample_external 0 (hook_dto []) (sample_world\<lparr>db := sample_db\<lparr>systemConfigs :=
      [(new_config 0)\<lparr>cfg_id := 10, cfg_slackWebhook := Some ''sealed''\<rparr>]\<rparr>\<rparr>) = (Inr c', w') \<and>
     cfg_slackWebhook c' = Some ''sealed''"
proof -
  let ?c = "(new_config 0)\<lparr>cfg_id := 10, cfg_slackWebhook := Some ''sealed''\<rparr>"
  let ?w = "sample_world\<lparr>db := sample_db\<lparr>systemConfigs := [?c]\<rparr>\<rparr>"
  have "db_ok (db ?w)" by (simp add: db_ok_def uniq_def fks_def fresh_def sample_defs)
  moreover have "find_config (db ?w) 0 = Some ?c" by (simp add: find_config_def new_config_def)
  moreover have "sd_slackWebhook (hook_dto []) = Some (Some [])" by (simp add: hook_dto_def)
  ultimately have "\<exists>c' w'. updateConfig sample_external 0 (hook_dto []) ?w = (Inr c', w') \<and>
      find_config (db w') 0 = Some c' \<and> cfg_slackWebhook c' = cfg_slackWebhook ?c"
    by (rule empty_webhook_not_cleared)
  then show ?thesis by auto
qed

end
