(* ===== verification/InternalLaws.thy ===== *)
theory InternalLaws
  imports Internal ResourceLaws
begin

text \<open>
  What the worker's API promises: a report sets exactly the columns it should, the expiry scan
  and the log retention return and remove exactly the outdated rows. The defaults announced to
  the worker are not the ones the scan and the notifications use.
\<close>

section \<open>Status reports\<close>

lemma reported_key [simp]: "d_id (reported t dto r) = d_id r" "d_projectId (reported t dto r) = d_projectId r"
  "d_initiatorId (reported t dto r) = d_initiatorId r" "d_status (reported t dto r) = st_status dto"
  "d_startedAt (reported t dto r) = d_startedAt r"
  by (simp_all add: reported_def Let_def)

lemma report_run:
  assumes ok: "db_ok (db w)" and r: "r \<in> set (deployments (db w))"
  shows "updateDeploymentStatus (d_id r) dto w = (Inr (reported (now w) dto r),
    w\<lparr>db := (db w)\<lparr>deployments := map (\<lambda>x. if d_id x = d_id r then reported (now w) dto x else x) (deployments (db w))\<rparr>\<rparr>)"
proof -
  have find: "find (\<lambda>x. d_id x = d_id r) (deployments (db w)) = Some r"
    by (rule deploymentT.find_row [OF db_okD(1) [OF ok] r])
  have "deployment_update (d_id r) (reported (now w) dto) w = (Inr (reported (now w) dto r),
      w\<lparr>db := deployments_update (map (\<lambda>x. if d_id x = d_id r then reported (now w) dto x else x)) (db w)\<rparr>)"
    by (rule deploymentT.update_row_run [OF db_okD(1) [OF ok] db_okD(2) [OF ok] _ find]) simp
  then show ?thesis using find by (simp add: updateDeploymentStatus_def action_simps)
qed

lemma reported_columns:
  "reported t dto r = (let ended = st_status dto \<in> {READY, FAILED, CANCELED} in
     r\<lparr>d_status := st_status dto,
       d_isSuccess := (d_isSuccess r \<or> st_status dto = READY),
       d_containerImage := (if truthy_opt (st_containerImage dto) then st_containerImage dto else d_containerImage r),
       d_deploymentUrl := (if truthy_opt (st_deploymentUrl dto) then st_deploymentUrl dto else d_deploymentUrl r),
       d_finishedAt := (if ended then Some t else d_finishedAt r),
       d_duration := (if ended then Some ((t - d_startedAt r) div 1000) else d_duration r)\<rparr>)"
  by (cases r) (simp add: reported_def Let_def elapsed_seconds_def)

text \<open>
  C17. A status report of the worker rewrites exactly the reported deployment: its status; its
  success flag (set by READY, never reset); its image and address when the report names them;
  its finishing time and duration in whole seconds for a terminal status. No other column, no
  other row, no other table and nothing in Redis changes.
\<close>

theorem report_effect:
  assumes "db_ok (db w)" and "r \<in> set (deployments (db w))"
  shows "\<exists>r'. updateDeploymentStatus (d_id r) dto w = (Inr r',
      w\<lparr>db := (db w)\<lparr>deployments := map (\<lambda>x. if d_id x = d_id r then r' else x) (deployments (db w))\<rparr>\<rparr>) \<and>
    (let ended = st_status dto \<in> {READY, FAILED, CANCELED} in
     r' = r\<lparr>d_status := st_status dto,
       d_isSuccess := (d_isSuccess r \<or> st_status dto = READY),
       d_containerImage := (if truthy_opt (st_containerImage dto) then st_containerImage dto else d_containerImage r),
       d_deploymentUrl := (if truthy_opt (st_deploymentUrl dto) then st_deploymentUrl dto else d_deploymentUrl r),
       d_finishedAt := (if ended then Some (now w) else d_finishedAt r),
       d_duration := (if ended then Some ((now w - d_startedAt r) div 1000) else d_duration r)\<rparr>)"
proof -
  have "map (\<lambda>x. if d_id x = d_id r then reported (now w) dto x else x) (deployments (db w)) =
      map (\<lambda>x. if d_id x = d_id r then reported (now w) dto r else x) (deployments (db w))"
    using distinct_map_same [OF deploymentT.uniq_rid [OF db_okD(1) [OF assms(1)]] _ assms(2)] by auto
  then show ?thesis
    by (intro exI [of _ "reported (now w) dto r"]) (simp add: report_run [OF assms] reported_columns)
qed

theorem report_resurrects_canceled:
  assumes "db_ok (db w)" and "r \<in> set (deployments (db w))" and "d_status r = CANCELED"
    and "in_progress (st_status dto)"
  shows "\<exists>r' w'. updateDeploymentStatus (d_id r) dto w = (Inr r', w') \<and> in_progress (d_status r') \<and>
    d_finishedAt r' = d_finishedAt r"
  using assms(4) by (auto simp: report_run [OF assms(1,2)] reported_def Let_def in_progress_def)

section \<open>Expiry\<close>

lemma expired_of_iff:
  "e \<in> set (expired_of d t c) \<longleftrightarrow> (\<exists>r \<in> set (deployments d).
     project_owner d (d_projectId r) = Some (cfg_userId c) \<and> d_status r = READY \<and>
     d_startedAt r + cfg_globalTTLMinutes c * 60000 < t \<and>
     e = \<lparr>ex_id = d_id r, ex_projectId = d_projectId r, ex_projectName = project_name d (d_projectId r),
       ex_containerImage = d_containerImage r, ex_deploymentUrl = d_deploymentUrl r,
       ex_startedAt = d_startedAt r, ex_ttlMinutes = cfg_globalTTLMinutes c\<rparr>)"
  by (auto simp: expired_of_def)

lemma expired_run:
  assumes "db_ok (db w)"
  shows "\<exists>es. getExpiredDeployments w = (Inr es, w) \<and> distinct (map ex_id es) \<and>
    (\<forall>i. i \<in> ex_id ` set es \<longleftrightarrow> (\<exists>r c. r \<in> set (deployments (db w)) \<and> d_id r = i \<and> d_status r = READY \<and>
       c \<in> set (systemConfigs (db w)) \<and> project_owner (db w) (d_projectId r) = Some (cfg_userId c) \<and>
       d_startedAt r + cfg_globalTTLMinutes c * 60000 < now w))"
proof -
  let ?d = "db w" and ?t = "now w"
  let ?es = "concat (map (expired_of ?d ?t) (systemConfigs ?d))"
  have ids: "ex_id ` set (expired_of ?d ?t c) = d_id ` {r \<in> set (deployments ?d).
     project_owner ?d (d_projectId r) = Some (cfg_userId c) \<and> d_status r = READY \<and>
     d_startedAt r + cfg_globalTTLMinutes c * 60000 < ?t}" for c
    by (auto simp: expired_of_def image_image)
  have one: "distinct (map ex_id (expired_of ?d ?t c))" for c
  proof -
    have "map ex_id (expired_of ?d ?t c) = map d_id (filter (\<lambda>r. project_owner ?d (d_projectId r) = Some (cfg_userId c) \<and>
        d_status r = READY \<and> d_startedAt r < ?t - cfg_globalTTLMinutes c * 60 * 1000) (deployments ?d))"
      by (simp add: expired_of_def o_def)
    then show ?thesis
      using deploymentT.uniq_rid [OF db_okD(1) [OF assms]] by (simp add: distinct_map_filterI)
  qed
  have dep: "r = r'" if "r \<in> set (deployments ?d)" "r' \<in> set (deployments ?d)" "d_id r = d_id r'" for r r'
    using distinct_map_same [OF deploymentT.uniq_rid [OF db_okD(1) [OF assms]] that(1,2,3)] .
  have disj: "ex_id ` set (expired_of ?d ?t c) \<inter> ex_id ` set (expired_of ?d ?t c') = {}"
    if "cfg_userId c \<noteq> cfg_userId c'" for c c'
  proof (rule ccontr)
    assume "\<not> ?thesis"
    then obtain r r' where "r \<in> set (deployments ?d)" "r' \<in> set (deployments ?d)" "d_id r = d_id r'"
      "project_owner ?d (d_projectId r) = Some (cfg_userId c)" "project_owner ?d (d_projectId r') = Some (cfg_userId c')"
      unfolding ids by auto
    then show False using dep [of r r'] that by simp
  qed
  have dc: "distinct (map cfg_userId (systemConfigs ?d))" using assms by (simp add: db_ok_def uniq_def)
  have "distinct (map ex_id (concat (map (expired_of ?d ?t) cs)))" if "distinct (map cfg_userId cs)" for cs
    using that
  proof (induction cs)
    case Nil
    then show ?case by simp
  next
    case (Cons c cs)
    have "ex_id ` set (expired_of ?d ?t c) \<inter> ex_id ` set (expired_of ?d ?t c') = {}" if "c' \<in> set cs" for c'
      using disj [of c c'] that Cons.prems by auto
    then show ?case using Cons one [of c] by (auto simp: image_UN)
  qed
  from this [OF dc] have "distinct (map ex_id ?es)" .
  moreover have "i \<in> ex_id ` set ?es \<longleftrightarrow> (\<exists>r c. r \<in> set (deployments ?d) \<and> d_id r = i \<and> d_status r = READY \<and>
       c \<in> set (systemConfigs ?d) \<and> project_owner ?d (d_projectId r) = Some (cfg_userId c) \<and>
       d_startedAt r + cfg_globalTTLMinutes c * 60000 < ?t)" for i
  proof -
    have 1: "i \<in> ex_id ` set ?es \<longleftrightarrow> (\<exists>c \<in> set (systemConfigs ?d). i \<in> ex_id ` set (expired_of ?d ?t c))" by auto
    show ?thesis unfolding 1 ids by (auto simp: image_iff)
  qed
  ultimately show ?thesis by (intro exI [of _ ?es]) (simp add: getExpiredDeployments_def gets_run)
qed

text \<open>
  C30. The expiry scan changes nothing and lists exactly the READY deployments, each once, whose
  project's owner has a configuration and whose age exceeds the time to live set there: with the
  deployment's own image, address and start, its project's name, and that time to live.
\<close>

theorem getExpiredDeployments_exact:
  assumes "db_ok (db w)"
  shows "\<exists>es. getExpiredDeployments w = (Inr es, w) \<and> distinct (map ex_id es) \<and>
    (\<forall>e. e \<in> set es \<longleftrightarrow> (\<exists>r \<in> set (deployments (db w)). \<exists>c \<in> set (systemConfigs (db w)).
       project_owner (db w) (d_projectId r) = Some (cfg_userId c) \<and> d_status r = READY \<and>
       d_startedAt r + cfg_globalTTLMinutes c * 60000 < now w \<and>
       e = \<lparr>ex_id = d_id r, ex_projectId = d_projectId r, ex_projectName = project_name (db w) (d_projectId r),
         ex_containerImage = d_containerImage r, ex_deploymentUrl = d_deploymentUrl r,
         ex_startedAt = d_startedAt r, ex_ttlMinutes = cfg_globalTTLMinutes c\<rparr>))"
proof -
  obtain es where es: "getExpiredDeployments w = (Inr es, w)" "distinct (map ex_id es)" using expired_run [OF assms] by blast
  then have "es = concat (map (expired_of (db w) (now w)) (systemConfigs (db w)))"
    by (simp add: getExpiredDeployments_def gets_run)
  then have "e \<in> set es \<longleftrightarrow> (\<exists>c \<in> set (systemConfigs (db w)). e \<in> set (expired_of (db w) (now w) c))" for e by auto
  then show ?thesis using es unfolding expired_of_iff by (intro exI [of _ es]) blast
qed

theorem defaults_announced_not_applied:
  assumes "db_ok (db w)" and "p \<in> set (projects (db w))" and "find_config (db w) (p_userId p) = None"
    and "r \<in> set (deployments (db w))" and "d_projectId r = p_id p" and "nd_deploymentId dto = d_id r"
  shows "\<exists>sv es. getSettingsByProject X (p_id p) w = (Inr sv, w) \<and> sv_globalTTLMinutes sv = 5 \<and>
    sv_emailDeployFailed sv \<and> sv_emailDeploySuccess sv \<and>
    getExpiredDeployments w = (Inr es, w) \<and> d_id r \<notin> ex_id ` set es \<and>
    sendDeploymentNotification X dto w = (Inr (d_id r), w)"
proof -
  have p: "find (\<lambda>q. p_id q = p_id p) (projects (db w)) = Some p"
    by (rule projectT.find_row [OF db_okD(1) [OF assms(1)] assms(2)])
  have r: "find (\<lambda>q. d_id q = d_id r) (deployments (db w)) = Some r"
    by (rule deploymentT.find_row [OF db_okD(1) [OF assms(1)] assms(4)])
  have settings: "getSettingsByProject X (p_id p) w = (Inr default_settings, w)"
    using p assms(3) by (simp add: getSettingsByProject_def action_simps)
  obtain es where es: "getExpiredDeployments w = (Inr es, w)"
    and mem: "\<forall>i. i \<in> ex_id ` set es \<longleftrightarrow> (\<exists>r c. r \<in> set (deployments (db w)) \<and> d_id r = i \<and> d_status r = READY \<and>
       c \<in> set (systemConfigs (db w)) \<and> project_owner (db w) (d_projectId r) = Some (cfg_userId c) \<and>
       d_startedAt r + cfg_globalTTLMinutes c * 60000 < now w)"
    using expired_run [OF assms(1)] by blast
  have noc: "cfg_userId c \<noteq> p_userId p" if "c \<in> set (systemConfigs (db w))" for c
    using assms(3) that by (auto simp: find_config_def find_None_iff)
  have "d_id r \<notin> ex_id ` set es"
  proof
    assume "d_id r \<in> ex_id ` set es"
    then obtain r' c where r': "r' \<in> set (deployments (db w))" "d_id r' = d_id r" "c \<in> set (systemConfigs (db w))"
      "project_owner (db w) (d_projectId r') = Some (cfg_userId c)" unfolding mem [rule_format] by blast
    have "r' = r" using distinct_map_same [OF deploymentT.uniq_rid [OF db_okD(1) [OF assms(1)]] r'(1) assms(4) r'(2)] .
    then show False
      using r' noc [OF r'(3)] project_owner_id [OF db_okD(1) [OF assms(1)] assms(2)] assms(5) by simp
  qed
  moreover have "sendDeploymentNotification X dto w = (Inr (d_id r), w)"
  proof -
    have "send_mails X None dto n i w = (Inr (), w)" for n i
      by (simp add: send_mails_def action_simps split: option.splits)
    then show ?thesis
      using p r assms(3,5,6) by (simp add: sendDeploymentNotification_def action_simps andThen_def)
  qed
  ultimately show ?thesis
    using settings es by (intro exI [of _ default_settings] exI [of _ es]) (simp add: default_settings_def)
qed

section \<open>Log retention\<close>

lemma outdated_same: "outdated (d\<lparr>logEntries := ls\<rparr>) t c l = outdated d t c l"
  by (simp add: outdated_def owner_of_log_def project_owner_def)

definition keeps_log :: "db \<Rightarrow> time \<Rightarrow> system_config \<Rightarrow> log_entry \<Rightarrow> bool" where
  "keeps_log d t c l \<longleftrightarrow> cfg_logRetentionDays c = 0 \<or> \<not> outdated d t c l"

definition with_logs :: "world \<Rightarrow> (log_entry \<Rightarrow> bool) \<Rightarrow> world" where
  "with_logs w K = w\<lparr>db := (db w)\<lparr>logEntries := filter K (logEntries (db w))\<rparr>\<rparr>"

lemma with_logs_simps [simp]:
  "logEntries (db (with_logs w K)) = filter K (logEntries (db w))" "now (with_logs w K) = now w"
  "outdated (db (with_logs w K)) t c l = outdated (db w) t c l"
  by (simp_all add: with_logs_def outdated_same)

lemma with_logs_ok: "uniq (db w) \<Longrightarrow> fks (db w) \<Longrightarrow> uniq (db (with_logs w K)) \<and> fks (db (with_logs w K))"
  unfolding with_logs_def uniq_def fks_def by (simp add: distinct_map_filterI)

lemma cleanup_turn_run:
  assumes "uniq (db w)" and "fks (db w)"
  shows "cleanup_turn c (with_logs w K) =
    (Inr (length (filter (\<lambda>l. K l \<and> \<not> keeps_log (db w) (now w) c l) (logEntries (db w)))),
     with_logs w (\<lambda>l. K l \<and> keeps_log (db w) (now w) c l))"
proof -
  have w: "with_logs w K = (with_logs w K)\<lparr>db := db (with_logs w K)\<rparr>" by simp
  show ?thesis
    using with_logs_ok [OF assms, of K]
    by (simp add: cleanup_turn_def action_simps andThen_def logEntryL.delete_run keeps_log_def)
      (auto simp: with_logs_def outdated_same conj_commute intro!: arg_cong [of _ _ length] filter_cong)
qed

lemma cleanup_turns_run:
  assumes "uniq (db w)" and "fks (db w)"
  shows "\<exists>ns. collect cleanup_turn cs (with_logs w K) = (Inr ns,
      with_logs w (\<lambda>l. K l \<and> (\<forall>c \<in> set cs. keeps_log (db w) (now w) c l))) \<and>
    sum_list ns = length (filter (\<lambda>l. K l \<and> \<not> (\<forall>c \<in> set cs. keeps_log (db w) (now w) c l)) (logEntries (db w)))"
proof (induction cs arbitrary: K)
  case Nil
  then show ?case by (simp add: action_simps)
next
  case (Cons c cs)
  let ?k = "keeps_log (db w) (now w)"
  obtain ns where ns: "collect cleanup_turn cs (with_logs w (\<lambda>l. K l \<and> ?k c l)) = (Inr ns,
      with_logs w (\<lambda>l. (K l \<and> ?k c l) \<and> (\<forall>c \<in> set cs. ?k c l)))"
    "sum_list ns = length (filter (\<lambda>l. (K l \<and> ?k c l) \<and> \<not> (\<forall>c \<in> set cs. ?k c l)) (logEntries (db w)))"
    using Cons.IH by blast
  have split: "length (filter (\<lambda>l. K l \<and> \<not> ?k c l) ls) + length (filter (\<lambda>l. (K l \<and> ?k c l) \<and> \<not> (\<forall>c \<in> set cs. ?k c l)) ls) =
      length (filter (\<lambda>l. K l \<and> \<not> (\<forall>c \<in> set (c # cs). ?k c l)) ls)" for ls
    by (induction ls) auto
  show ?case
    using ns split by (simp add: action_simps andThen_def cleanup_turn_run [OF assms] conj_assoc)
qed

text \<open>
  C18. Log retention removes exactly the log lines older than the retention of their owner's
  configuration (zero keeps everything), answers their number, and leaves every other row of
  every table, the clock and Redis as they were.
\<close>

theorem cleanupLogs_exact:
  fixes w :: world
  defines "old \<equiv> \<lambda>l. \<exists>c \<in> set (systemConfigs (db w)). cfg_logRetentionDays c \<noteq> 0 \<and>
      owner_of_log (db w) l = Some (cfg_userId c) \<and>
      log_timestamp l + cfg_logRetentionDays c * 86400000 < now w"
  assumes "db_ok (db w)"
  shows "cleanupLogs w = (Inr (length (filter old (logEntries (db w)))),
    w\<lparr>db := (db w)\<lparr>logEntries := filter (\<lambda>l. \<not> old l) (logEntries (db w))\<rparr>\<rparr>)"
proof -
  have k: "(\<forall>c \<in> set (systemConfigs (db w)). keeps_log (db w) (now w) c l) \<longleftrightarrow> \<not> old l" for l
    by (auto simp: keeps_log_def outdated_def old_def)
  have w: "with_logs w (\<lambda>_. True) = w" by (simp add: with_logs_def)
  from cleanup_turns_run [OF db_okD(1) [OF assms(2)] db_okD(2) [OF assms(2)], of "systemConfigs (db w)" "\<lambda>_. True",
      unfolded w simp_thms k]
  obtain ns where "collect cleanup_turn (systemConfigs (db w)) w = (Inr ns, with_logs w (\<lambda>l. \<not> old l))"
    "sum_list ns = length (filter old (logEntries (db w)))"
    by blast
  then show ?thesis by (simp add: cleanupLogs_def action_simps andThen_def with_logs_def)
qed

section \<open>Closed examples\<close>

lemma sample_in [simp]:
  "sample_ready \<in> set (deployments (db sample_world))" "sample_building \<in> set (deployments (db sample_world))"
  "sample_shop \<in> set (projects (db sample_world))" "sample_blog \<in> set (projects (db sample_world))"
  by (simp_all add: sample_world_def sample_db_def)

definition ready_report :: status_dto where
  "ready_report = \<lparr>st_status = READY, st_containerImage = Some ''img'', st_deploymentUrl = None\<rparr>"

theorem report_effect_witness:
  "\<exists>r' w'. updateDeploymentStatus 8 ready_report sample_world = (Inr r', w') \<and> d_status r' = READY \<and>
     d_isSuccess r' \<and> d_containerImage r' = Some ''img'' \<and> d_finishedAt r' = Some 1000 \<and> d_duration r' = Some 0"
proof -
  have i: "d_id sample_building = 8" and t: "now sample_world = 1000" "d_startedAt sample_building = 100"
    "st_status ready_report = READY" "st_containerImage ready_report = Some ''img''"
    by (simp_all add: sample_defs ready_report_def)
  from report_effect [OF sample_db_ok sample_in(2), of ready_report] show ?thesis
    unfolding i t by (auto simp: t truthy_def)
qed

definition canceled_world :: world where
  "canceled_world = sample_world\<lparr>db := sample_db\<lparr>deployments := [sample_ready\<lparr>d_status := CANCELED\<rparr>]\<rparr>\<rparr>"

theorem report_resurrects_canceled_witness:
  "\<exists>r' w'. updateDeploymentStatus 7 \<lparr>st_status = BUILDING, st_containerImage = None, st_deploymentUrl = None\<rparr>
     canceled_world = (Inr r', w') \<and> in_progress (d_status r')"
proof -
  let ?r = "sample_ready\<lparr>d_status := CANCELED\<rparr>"
  let ?dto = "\<lparr>st_status = BUILDING, st_containerImage = None, st_deploymentUrl = None\<rparr>"
  have ok: "db_ok (db canceled_world)"
    by (simp add: canceled_world_def db_ok_def uniq_def fks_def fresh_def sample_defs)
  have mem: "?r \<in> set (deployments (db canceled_world))" "d_status ?r = CANCELED" "in_progress (st_status ?dto)"
    by (simp_all add: canceled_world_def)
  have "d_id ?r = 7" by (simp add: sample_ready_def)
  then show ?thesis using report_resurrects_canceled [OF ok mem] by auto
qed

theorem getExpiredDeployments_exact_witness:
  "\<exists>es. getExpiredDeployments (sample_world\<lparr>now := 400000\<rparr>) = (Inr es, sample_world\<lparr>now := 400000\<rparr>) \<and>
     (\<exists>e \<in> set es. ex_id e = 7 \<and> ex_ttlMinutes e = 5)"
proof -
  let ?w = "sample_world\<lparr>now := 400000\<rparr>"
  have "db_ok (db ?w)" using sample_db_ok by simp
  from getExpiredDeployments_exact [OF this] obtain es where es: "getExpiredDeployments ?w = (Inr es, ?w)"
    and mem: "\<And>e. e \<in> set es \<longleftrightarrow> (\<exists>r \<in> set (deployments (db ?w)). \<exists>c \<in> set (systemConfigs (db ?w)).
       project_owner (db ?w) (d_projectId r) = Some (cfg_userId c) \<and> d_status r = READY \<and>
       d_startedAt r + cfg_globalTTLMinutes c * 60000 < now ?w \<and>
       e = \<lparr>ex_id = d_id r, ex_projectId = d_projectId r, ex_projectName = project_name (db ?w) (d_projectId r),
         ex_containerImage = d_containerImage r, ex_deploymentUrl = d_deploymentUrl r,
         ex_startedAt = d_startedAt r, ex_ttlMinutes = cfg_globalTTLMinutes c\<rparr>)" by blast
  define e where "e = \<lparr>ex_id = d_id sample_ready, ex_projectId = d_projectId sample_ready,
     ex_projectName = project_name (db ?w) (d_projectId sample_ready), ex_containerImage = d_containerImage sample_ready,
     ex_deploymentUrl = d_deploymentUrl sample_ready, ex_startedAt = d_startedAt sample_ready, ex_ttlMinutes = 5\<rparr>"
  have "e \<in> set es"
    unfolding mem by (rule bexI [of _ sample_ready], rule bexI [of _ "(new_config 0)\<lparr>cfg_id := 10\<rparr>"])
      (simp_all add: e_def query_defs sample_defs)
  moreover have "ex_id e = 7" "ex_ttlMinutes e = 5" by (simp_all add: e_def sample_ready_def)
  ultimately show ?thesis using es by blast
qed

definition blog_notice :: notification_dto where
  "blog_notice = \<lparr>nd_deploymentId = 8, nd_status = FAILED, nd_message = None, nd_projectName = None, nd_deploymentUrl = None\<rparr>"

theorem defaults_announced_not_applied_witness:
  "\<exists>sv. getSettingsByProject sample_external 5 sample_world = (Inr sv, sample_world) \<and> sv_emailDeployFailed sv \<and>
     sendDeploymentNotification sample_external blog_notice sample_world = (Inr 8, sample_world)"
proof -
  have i: "p_id sample_blog = 5" "d_id sample_building = 8" by (simp_all add: sample_defs)
  have "find_config (db sample_world) (p_userId sample_blog) = None" "d_projectId sample_building = p_id sample_blog"
    "nd_deploymentId blog_notice = d_id sample_building"
    by (simp_all add: find_config_def sample_defs blog_notice_def)
  from defaults_announced_not_applied [OF sample_db_ok sample_in(4) this(1) sample_in(2) this(2,3), of sample_external]
  show ?thesis unfolding i by blast
qed

theorem cleanupLogs_exact_witness:
  "\<exists>w'. cleanupLogs (sample_world\<lparr>now := 86400102\<rparr>) = (Inr 1, w') \<and> logEntries (db w') = [sample_log 12 102]"
proof -
  let ?w = "sample_world\<lparr>now := 86400102\<rparr>"
  have ok: "db_ok (db ?w)" using sample_db_ok by simp
  have logs: "logEntries (db ?w) = [sample_log 11 101, sample_log 12 102]" "now ?w = 86400102" by (simp_all add: sample_defs)
  have o: "(\<exists>c \<in> set (systemConfigs (db ?w)). cfg_logRetentionDays c \<noteq> 0 \<and>
      owner_of_log (db ?w) (sample_log i t) = Some (cfg_userId c) \<and>
      log_timestamp (sample_log i t) + cfg_logRetentionDays c * 86400000 < 86400102) \<longleftrightarrow> t < 102" for i t
    by (auto simp: owner_of_log_def query_defs sample_defs)
  show ?thesis using cleanupLogs_exact [OF ok] unfolding logs filter.simps o by simp
qed

end
