(* ===== verification/Pipeline.thy ===== *)
theory Pipeline imports WebhookLaws InternalLaws begin

text \<open>
  The deployment pipeline of a project across its components: the API's create and cancel, the
  push handler and the worker's reports. When the operations run one after the other, at most
  one deployment of a project is in flight; \<open>create_race\<close> shows what two overlapping creations
  do, because the check and the insertion are separate database calls.
\<close>

section \<open>The invariant\<close>

definition orderly :: "deployment list \<Rightarrow> bool" where
  \<comment> \<open>a deployment in progress is strictly newer than every other of its project\<close>
  "orderly ds \<longleftrightarrow> (\<forall>r \<in> set ds. \<forall>r' \<in> set ds.
     in_progress (d_status r) \<and> d_projectId r' = d_projectId r \<and> d_id r' \<noteq> d_id r \<longrightarrow> d_startedAt r' < d_startedAt r)"

definition in_flight :: "db \<Rightarrow> uuid \<Rightarrow> deployment list" where
  "in_flight d i = filter (\<lambda>r. d_projectId r = i \<and> in_progress (d_status r)) (deployments d)"

definition timely :: "world \<Rightarrow> uuid \<Rightarrow> bool" where
  \<comment> \<open>the clock has moved since the project's last deployment\<close>
  "timely w i \<longleftrightarrow> (\<forall>r \<in> set (deployments (db w)). d_projectId r = i \<longrightarrow> d_startedAt r < now w)"

text \<open>An event names the project or the deployment it is about.\<close>

datatype event = Create uuid | Cancel uuid | Push uuid | Report uuid deployment_status | Elsewhere

inductive pipeline_step :: "external \<Rightarrow> event \<Rightarrow> world \<Rightarrow> world \<Rightarrow> bool" for X where
  create: "timely w i \<Longrightarrow> pipeline_step X (Create i) w (snd (deploymentsService_create X u i w))"
| cancel: "pipeline_step X (Cancel i) w (snd (deploymentsService_cancel u i w))"
| push: "timely w (p_id p) \<Longrightarrow> p \<in> set (projects (db w)) \<Longrightarrow>
    pipeline_step X (Push (p_id p)) w (snd (triggerDeployment X (linked_project_of (db w) p) opts w))"
| report: "r \<in> set (deployments (db w)) \<Longrightarrow> (in_progress (st_status dto) \<longrightarrow> in_progress (d_status r)) \<Longrightarrow>
    pipeline_step X (Report (d_id r) (st_status dto)) w (snd (updateDeploymentStatus (d_id r) dto w))"
| other: "db_ok (db w') \<Longrightarrow> deployments (db w') = deployments (db w) \<Longrightarrow> pipeline_step X Elsewhere w w'"

inductive pipeline_run :: "external \<Rightarrow> world \<Rightarrow> world \<Rightarrow> bool" for X where
  start: "pipeline_run X w w"
| step: "pipeline_run X w w' \<Longrightarrow> pipeline_step X e w' w'' \<Longrightarrow> pipeline_run X w w''"

section \<open>How the table of deployments changes\<close>

definition touched :: "uuid \<Rightarrow> deployment list \<Rightarrow> deployment list \<Rightarrow> bool" where
  \<comment> \<open>the row \<open>k\<close> is rewritten and not put in progress\<close>
  "touched k ds ds' \<longleftrightarrow> (\<exists>g. ds' = map g ds \<and> (\<forall>r \<in> set ds. d_id (g r) = d_id r \<and> d_projectId (g r) = d_projectId r \<and>
     d_startedAt (g r) = d_startedAt r \<and> (in_progress (d_status (g r)) \<longrightarrow> in_progress (d_status r)) \<and>
     (d_id r \<noteq> k \<longrightarrow> g r = r)))"

definition queued_in :: "uuid \<Rightarrow> time \<Rightarrow> deployment list \<Rightarrow> deployment list \<Rightarrow> bool" where
  \<comment> \<open>a queued deployment of the idle project \<open>i\<close> is appended\<close>
  "queued_in i t ds ds' \<longleftrightarrow> (\<exists>row. ds' = ds @ [row] \<and> d_projectId row = i \<and> d_status row = QUEUED \<and> d_startedAt row = t \<and>
     (\<forall>r \<in> set ds. d_projectId r = i \<longrightarrow> d_startedAt r < t \<and> \<not> in_progress (d_status r)))"

lemma touchedI:
  assumes "\<And>r. r \<in> set ds \<Longrightarrow> d_id r = k \<Longrightarrow> d_id (g r) = k \<and> d_projectId (g r) = d_projectId r \<and>
      d_startedAt (g r) = d_startedAt r \<and> (in_progress (d_status (g r)) \<longrightarrow> in_progress (d_status r))"
  shows "touched k ds (map (\<lambda>r. if d_id r = k then g r else r) ds)"
  unfolding touched_def by (rule exI [of _ "\<lambda>r. if d_id r = k then g r else r"]) (use assms in auto)

lemma orderly_touched: "touched k ds ds' \<Longrightarrow> orderly ds \<Longrightarrow> orderly ds'"
  by (auto simp: touched_def orderly_def)

lemma orderly_queued: "queued_in i t ds ds' \<Longrightarrow> orderly ds \<Longrightarrow> orderly ds'"
  by (auto simp: queued_in_def orderly_def)

lemma touched_project:
  "touched k ds ds' \<Longrightarrow> (\<forall>r \<in> set ds. d_projectId r = i \<longrightarrow> d_startedAt r < t) \<Longrightarrow> r \<in> set ds' \<Longrightarrow> d_projectId r = i \<Longrightarrow> d_startedAt r < t"
  by (auto simp: touched_def)

lemma orderly_single:
  assumes "orderly (deployments d)" and "distinct (map d_id (deployments d))"
  shows "length (in_flight d i) \<le> 1"
proof (rule ccontr)
  assume "\<not> ?thesis"
  then obtain a b xs where f: "in_flight d i = a # b # xs"
    by (cases "in_flight d i" rule: list.exhaust [case_names Nil Cons]; simp) (metis length_0_conv list.exhaust not_less_eq_eq One_nat_def list.size(3) le0 length_Cons)
  have "distinct (map d_id (in_flight d i))" using assms(2) by (simp add: in_flight_def distinct_map_filterI)
  then have ne: "d_id a \<noteq> d_id b" by (simp add: f)
  have "a \<in> set (in_flight d i)" "b \<in> set (in_flight d i)" by (simp_all add: f)
  then have "a \<in> set (deployments d)" "b \<in> set (deployments d)" "in_progress (d_status a)" "in_progress (d_status b)"
    "d_projectId a = d_projectId b" by (simp_all add: in_flight_def)
  then have "d_startedAt a < d_startedAt b" "d_startedAt b < d_startedAt a"
    using assms(1) ne unfolding orderly_def by metis+
  then show False by simp
qed

lemma head_is_newest:
  assumes "orderly ds" and "distinct (map d_id ds)" and "r \<in> set ds" and "in_progress (d_status r)" and "P r"
    and "\<And>x. P x \<Longrightarrow> d_projectId x = d_projectId r"
  shows "head_opt (order_desc d_startedAt (filter P ds)) = Some r"
proof -
  have r: "r \<in> set (filter P ds)" using assms by simp
  then obtain h where h: "head_opt (order_desc d_startedAt (filter P ds)) = Some h"
    by (cases "head_opt (order_desc d_startedAt (filter P ds))") (auto simp: filter_empty_conv)
  have hin: "h \<in> set (filter P ds)" using head_opt_SomeD [OF h] by simp
  have le: "d_startedAt r \<le> d_startedAt h" by (rule order_desc_head_max [OF h r])
  have "h = r"
  proof (rule ccontr)
    assume "h \<noteq> r"
    then have "d_id h \<noteq> d_id r" using distinct_map_same [OF assms(2) _ assms(3)] hin by auto
    then have "d_startedAt h < d_startedAt r" using assms(1,3,4) assms(6) [of h] hin unfolding orderly_def by auto
    then show False using le by simp
  qed
  then show ?thesis using h by simp
qed

lemma latest_in_progressI:
  assumes "orderly (deployments d)" and "distinct (map d_id (deployments d))" and "\<not> latest_in_progress d i"
    and "r \<in> set (deployments d)" and "d_projectId r = i"
  shows "\<not> in_progress (d_status r)"
proof
  assume "in_progress (d_status r)"
  from head_is_newest [OF assms(1,2,4) this, of "\<lambda>r. d_projectId r = i"] assms(3,5) this
  show False by (simp add: latest_in_progress_def latest_deployment_def)
qed

section \<open>The steps\<close>

lemma create_change:
  assumes ok: "db_ok (db w)" and ord: "orderly (deployments (db w))" and t: "timely w i"
  shows "deployments (db (snd (deploymentsService_create X u i w))) = deployments (db w) \<or>
    queued_in i (now w) (deployments (db w)) (deployments (db (snd (deploymentsService_create X u i w))))"
proof (cases "\<exists>p a. deployable u i (db w) p a")
  case False
  then show ?thesis using create_refused_run [of u i w X] by auto
next
  case True
  then obtain p a where d: "deployable u i (db w) p a" by blast
  have pid: "p_id p = i" by (rule deployable_pid [OF d])
  have dist: "distinct (map d_id (deployments (db w)))" using ok by (simp add: db_ok_def uniq_def)
  have "\<not> latest_in_progress (db w) i" using d by (simp add: deployable_def)
  note none = latest_in_progressI [OF ord dist this]
  have "queued_in i (now w) (deployments (db w)) (deployments (db w) @ [queued_row X w u p a])"
    unfolding queued_in_def by (rule exI [of _ "queued_row X w u p a"]) (use t none in \<open>auto simp: pid timely_def\<close>)
  then show ?thesis
    by (simp add: deploy_run [OF ok d] action_simps andThen_def recorded_def)
qed

lemma cancel_change:
  assumes ok: "db_ok (db w)"
  shows "touched i (deployments (db w)) (deployments (db (snd (deploymentsService_cancel u i w))))"
proof (cases "\<exists>r. owned_deployment u i (db w) = Some r \<and> in_progress (d_status r)")
  case False
  then have "snd (deploymentsService_cancel u i w) = w"
    by (auto simp: deploymentsService_cancel_def action_simps split: option.splits)
  then show ?thesis using touchedI [of "deployments (db w)" i "\<lambda>r. r"] by simp
next
  case True
  then obtain r where r: "owned_deployment u i (db w) = Some r" "in_progress (d_status r)" by blast
  note rin = owned_deploymentD [OF r(1)]
  let ?g = "\<lambda>x. r\<lparr>d_status := CANCELED, d_finishedAt := Some (now w),
               d_duration := Some (elapsed_seconds (now w) (d_startedAt r))\<rparr>"
  have same: "x = r" if "x \<in> set (deployments (db w))" "d_id x = i" for x
    by (rule distinct_map_same [OF deploymentT.uniq_rid [OF db_okD(1) [OF ok]] that(1)]) (use rin that in auto)
  have "touched i (deployments (db w)) (map (\<lambda>x. if d_id x = i then ?g x else x) (deployments (db w)))"
    by (rule touchedI) (use rin in \<open>auto dest: same\<close>)
  then show ?thesis by (simp add: cancel_run [OF ok r] Let_def)
qed

lemma report_change:
  assumes ok: "db_ok (db w)" and r: "r \<in> set (deployments (db w))"
    and st: "in_progress (st_status dto) \<longrightarrow> in_progress (d_status r)"
  shows "touched (d_id r) (deployments (db w)) (deployments (db (snd (updateDeploymentStatus (d_id r) dto w))))"
proof -
  have same: "x = r" if "x \<in> set (deployments (db w))" "d_id x = d_id r" for x
    by (rule distinct_map_same [OF deploymentT.uniq_rid [OF db_okD(1) [OF ok]] that(1) r that(2)])
  have "touched (d_id r) (deployments (db w)) (map (\<lambda>x. if d_id x = d_id r then reported (now w) dto x else x) (deployments (db w)))"
    by (rule touchedI) (use st in \<open>auto dest: same\<close>)
  then show ?thesis by (simp add: report_run [OF ok r])
qed

lemma cancel_current_idle:
  assumes "\<not> (\<exists>i s. c = Some (i, s) \<and> in_progress s)"
  shows "cancel_current c w = (Inr (previous_of c), after_cancel c w)"
  using assms
  by (auto simp: cancel_current_def after_cancel_def canceled_current_def signaled_def previous_of_def
      action_simps split: option.splits deployment_status.splits)

lemma decrypt_all_reads: "\<exists>r. decrypt_all X vs w = (r, w)"
proof -
  have "\<exists>r. collect (\<lambda>(k, c). andThen (decryptM X c) (\<lambda>p. ret (k, p))) vs w = (r, w)"
    by (rule collect_reads) (auto simp: andThen_def action_simps split: sum.splits)
  then show ?thesis unfolding decrypt_all_def by (auto simp: andThen_def action_simps split: sum.splits)
qed

lemma canceled_touched:
  "\<exists>k. touched k ds (canceled_current c ds)"
proof (cases "\<exists>i s. c = Some (i, s) \<and> in_progress s")
  case True
  then obtain i s where c: "c = Some (i, s)" "in_progress s" by blast
  have "touched i ds (map (\<lambda>r. if d_id r = i then r\<lparr>d_status := CANCELED\<rparr> else r) ds)" by (rule touchedI) auto
  then show ?thesis using c by (auto simp: canceled_current_def)
next
  case False
  then have "canceled_current c ds = ds" by (auto simp: canceled_current_def split: option.splits)
  moreover have "touched 0 ds (map (\<lambda>r. if d_id r = 0 then r else r) ds)" by (rule touchedI) auto
  ultimately show ?thesis by auto
qed

lemma current_canceled:
  assumes ok: "db_ok (db w)" and ord: "orderly (deployments (db w))"
    and r: "r \<in> set (canceled_current (lk_current (linked_project_of (db w) p)) (deployments (db w)))" "d_projectId r = p_id p"
  shows "\<not> in_progress (d_status r)"
proof
  let ?c = "lk_current (linked_project_of (db w) p)"
  have dist: "distinct (map d_id (deployments (db w)))" using ok by (simp add: db_ok_def uniq_def)
  assume ip: "in_progress (d_status r)"
  from r(1) obtain x where x: "x \<in> set (deployments (db w))" "d_projectId x = p_id p" "in_progress (d_status x)"
    "r = x \<or> d_status r = CANCELED" "d_id x = d_id r"
    using ip r(2) by (auto simp: canceled_current_def split: option.splits if_splits)
  have "head_opt (order_desc d_startedAt (filter (\<lambda>r. d_projectId r = p_id p \<and> active_status (d_status r)) (deployments (db w)))) = Some x"
    by (rule head_is_newest [OF ord dist x(1,3)]) (use x in \<open>simp_all add: active_status_iff\<close>)
  then have "?c = Some (d_id x, d_status x)" by (simp add: linked_project_of_def)
  with r(1) have "r \<in> set (canceled_current (Some (d_id x, d_status x)) (deployments (db w)))" by (simp only:)
  then have "r \<in> (\<lambda>y. if d_id y = d_id x then y\<lparr>d_status := CANCELED\<rparr> else y) ` set (deployments (db w))"
    using x(3) by (simp only: canceled_current_def option.case prod.case if_True set_map)
  then obtain y where y: "r = (if d_id y = d_id x then y\<lparr>d_status := CANCELED\<rparr> else y)"
    by (rule imageE)
  have "d_id r = d_id y" unfolding y by simp
  then have "d_id y = d_id x" using x(5) by (rule HOL.trans [OF HOL.sym HOL.sym])
  then have "d_status r = CANCELED" unfolding y by simp
  then show False using ip by simp
qed

lemma trigger_change:
  fixes X opts
  assumes ok: "db_ok (db w)" and ord: "orderly (deployments (db w))" and t: "timely w (p_id p)"
    and p: "p \<in> set (projects (db w))"
  defines "ds1 \<equiv> canceled_current (lk_current (linked_project_of (db w) p)) (deployments (db w))"
    and "ds' \<equiv> deployments (db (snd (triggerDeployment X (linked_project_of (db w) p) opts w)))"
  shows "ds' = deployments (db w) \<or> ds' = ds1 \<or> queued_in (p_id p) (now w) ds1 ds'"
proof -
  let ?lk = "linked_project_of (db w) p" and ?c = "lk_current (linked_project_of (db w) p)"
  note none = current_canceled [OF ok ord, of _ p, folded ds1_def]
  have time: "d_startedAt r < now w" if "r \<in> set ds1" "d_projectId r = p_id p" for r
    using canceled_touched [of "deployments (db w)" ?c] touched_project t that
    unfolding ds1_def timely_def by blast
  show ?thesis
  proof (cases "redis_up (redis w) \<or> \<not> (\<exists>i s. ?c = Some (i, s) \<and> in_progress s)")
    case False
    then have "triggerDeployment X ?lk opts w = (Inl (Thrown ''Redis connection error''), w)"
      by (auto simp: triggerDeployment_def Let_def cancel_current_def action_simps andThen_def)
    then show ?thesis by (simp add: ds'_def)
  next
    case True
    have c1: "cancel_current ?c w = (Inr (previous_of ?c), after_cancel ?c w)"
      using cancel_current_run [OF ok _, of ?c] cancel_current_idle [of ?c w] linked_project_of_in [OF p] True
      by (auto simp: linked_in_def)
    obtain r where c2: "decrypt_all X (lk_envVars ?lk) (after_cancel ?c w) = (r, after_cancel ?c w)"
      using decrypt_all_reads by blast
    show ?thesis
    proof (cases r)
      case (Inl e)
      then show ?thesis using c1 c2 by (simp add: triggerDeployment_def Let_def andThen_def ds1_def ds'_def)
    next
      case (Inr vars)
      let ?row = "webhook_row (after_cancel ?c w) p opts (head_opt (lk_domains ?lk))"
      have row: "d_projectId ?row = p_id p" "d_startedAt ?row = now w" "d_status ?row = QUEUED"
        by (simp_all add: webhook_row_def)
      have q: "queued_in (p_id p) (now w) ds1 (ds1 @ [?row\<lparr>d_id := n\<rparr>])" for n
        unfolding queued_in_def by (rule exI [of _ "?row\<lparr>d_id := n\<rparr>"]) (use row none time in auto)
      obtain r' w2 where c3: "deployment_create ?row (after_cancel ?c w) = (r', w2)" by fastforce
      have w2: "deployments (db w2) = ds1 \<or> queued_in (p_id p) (now w) ds1 (deployments (db w2))"
        using c3 q by (auto simp: create_row_def action_simps andThen_def ds1_def split: if_splits)
      have "deployments (db (snd (andThen (addBuildJob j) (\<lambda>_. ret ()) w2))) = deployments (db w2)" for j
        by (simp add: action_simps andThen_def)
      then show ?thesis
        using c1 c2 c3 Inr w2
        by (cases r') (simp_all add: triggerDeployment_def Let_def andThen_def gets_run linked_project_of_def ds'_def)
    qed
  qed
qed

lemma pipeline_step_keeps:
  assumes "pipeline_step X e w w'" and "db_ok (db w)" and "orderly (deployments (db w))"
  shows "db_ok (db w') \<and> orderly (deployments (db w'))"
  using assms
proof (induction rule: pipeline_step.induct)
  case (create w i u)
  then show ?case using create_change [of w i X u] orderly_queued keeps_run [OF keeps_deployments(1)]
    by (fastforce simp: db_kept_def)
next
  case (cancel i w u)
  then show ?case using orderly_touched [OF cancel_change] keeps_run [OF keeps_deployments(7)] by (simp add: db_kept_def)
next
  case (push w p opts)
  obtain k where "touched k (deployments (db w)) (canceled_current (lk_current (linked_project_of (db w) p)) (deployments (db w)))"
    using canceled_touched by blast
  then have "orderly (canceled_current (lk_current (linked_project_of (db w) p)) (deployments (db w)))"
    using orderly_touched push by blast
  then have "orderly (deployments (db (snd (triggerDeployment X (linked_project_of (db w) p) opts w))))"
    using trigger_change [of w p X opts] push orderly_queued by fastforce
  then show ?case using push keeps_run [OF keeps_triggerDeployment] by (simp add: db_kept_def)
next
  case (report r w dto)
  then show ?case using orderly_touched [OF report_change] keeps_run [OF keeps_internal(1)] by (simp add: db_kept_def)
next
  case (other w' w)
  then show ?case by simp
qed

lemma pipeline_run_keeps:
  assumes "pipeline_run X w w'" and "db_ok (db w)" and "orderly (deployments (db w))"
  shows "db_ok (db w') \<and> orderly (deployments (db w'))"
  using assms
proof (induction rule: pipeline_run.induct)
  case (start w)
  then show ?case by simp
next
  case (step w w' e w'')
  then show ?case using pipeline_step_keeps by blast
qed

text \<open>
  C13. As long as creations, cancellations, pushes and worker reports run one after the other
  and the worker only reports on deployments in progress, a project never has more than one
  deployment in flight.
\<close>

theorem one_deployment_in_flight:
  assumes "pipeline_run X w w'" and "db_ok (db w)" and "orderly (deployments (db w))"
  shows "length (in_flight (db w') i) \<le> 1"
  using pipeline_run_keeps [OF assms] by (intro orderly_single) (simp_all add: db_ok_def uniq_def)

section \<open>The abstract life cycle\<close>

text \<open>
  Seen from outside, a project has one slot: it is idle or busy with one deployment. The steps
  of the pipeline refine the steps of the slot: a creation only starts, a cancellation and a
  final report only end the deployment they name, a push may replace.
\<close>

datatype slot = Idle | Busy uuid

inductive slot_step :: "uuid \<Rightarrow> event \<Rightarrow> slot \<Rightarrow> slot \<Rightarrow> bool" for i where
  stay: "slot_step i e s s"
| begins: "slot_step i (Create i) Idle (Busy d)"
| cancelled: "slot_step i (Cancel d) (Busy d) Idle"
| finished: "\<not> in_progress st \<Longrightarrow> slot_step i (Report d st) (Busy d) Idle"
| aborted: "slot_step i (Push i) (Busy d) Idle"
| replaced: "s \<noteq> Busy d \<Longrightarrow> slot_step i (Push i) s (Busy d)"

definition flying :: "uuid \<Rightarrow> deployment list \<Rightarrow> deployment list" where
  "flying i ds = filter (\<lambda>r. d_projectId r = i \<and> in_progress (d_status r)) ds"

definition slot_of :: "uuid \<Rightarrow> db \<Rightarrow> slot" where
  "slot_of i d = (case in_flight d i of [] \<Rightarrow> Idle | r # rs \<Rightarrow> Busy (d_id r))"

definition slot_in :: "uuid \<Rightarrow> deployment list \<Rightarrow> slot" where
  "slot_in i ds = (case flying i ds of [] \<Rightarrow> Idle | r # rs \<Rightarrow> Busy (d_id r))"

lemma slot_of_in: "slot_of i d = slot_in i (deployments d)"
  by (simp add: slot_of_def slot_in_def in_flight_def flying_def)

lemma in_flying: "r \<in> set (flying i ds) \<longleftrightarrow> r \<in> set ds \<and> d_projectId r = i \<and> in_progress (d_status r)"
  by (auto simp: flying_def)

lemma slot_in_Idle: "slot_in i ds = Idle \<longleftrightarrow> (\<forall>r \<in> set ds. d_projectId r = i \<longrightarrow> \<not> in_progress (d_status r))"
proof -
  have "slot_in i ds = Idle \<longleftrightarrow> flying i ds = []" by (simp add: slot_in_def split: list.splits)
  then show ?thesis by (auto simp: flying_def filter_empty_conv)
qed

lemma slot_in_BusyD: "slot_in i ds = Busy d \<Longrightarrow> \<exists>r \<in> set ds. d_id r = d \<and> d_projectId r = i"
proof -
  assume "slot_in i ds = Busy d"
  then obtain r rs where r: "flying i ds = r # rs" "d_id r = d" by (auto simp: slot_in_def split: list.splits)
  then have "r \<in> set (flying i ds)" by simp
  then show ?thesis using r(2) by (auto simp: in_flying)
qed

lemma flying_map:
  assumes "\<And>r. r \<in> set ds \<Longrightarrow> d_projectId (g r) = d_projectId r \<and> (in_progress (d_status (g r)) \<longrightarrow> in_progress (d_status r))"
  shows "flying i (map g ds) = map g (filter (\<lambda>r. in_progress (d_status (g r))) (flying i ds))"
  using assms by (induction ds) (auto simp: flying_def)

lemma slot_touched:
  assumes t: "touched k ds ds'" and one: "length (flying i ds) \<le> 1"
  shows "slot_in i ds' = slot_in i ds \<or> slot_in i ds = Busy k \<and> slot_in i ds' = Idle"
proof -
  obtain g where g: "ds' = map g ds" "\<And>r. r \<in> set ds \<Longrightarrow> d_id (g r) = d_id r \<and> d_projectId (g r) = d_projectId r \<and>
      (in_progress (d_status (g r)) \<longrightarrow> in_progress (d_status r)) \<and> (d_id r \<noteq> k \<longrightarrow> g r = r)"
    using t by (auto simp: touched_def)
  have m: "flying i ds' = map g (filter (\<lambda>r. in_progress (d_status (g r))) (flying i ds))"
    unfolding g(1) by (rule flying_map) (use g(2) in auto)
  show ?thesis
  proof (cases "flying i ds")
    case Nil
    then show ?thesis using m by (simp add: slot_in_def)
  next
    case (Cons r rs)
    then have rs: "rs = []" using one by simp
    have "r \<in> set (flying i ds)" using Cons by simp
    then have r: "r \<in> set ds" "in_progress (d_status r)" by (simp_all add: in_flying)
    show ?thesis using m Cons g(2) [OF r(1)] rs r(2) by (auto simp: slot_in_def)
  qed
qed

lemma slot_queued:
  assumes "queued_in i t ds ds'"
  shows "slot_in i ds = Idle" and "\<exists>row. ds' = ds @ [row] \<and> slot_in i ds' = Busy (d_id row)"
    and "j \<noteq> i \<Longrightarrow> slot_in j ds' = slot_in j ds"
proof -
  obtain row where row: "ds' = ds @ [row]" "d_projectId row = i" "d_status row = QUEUED"
    "\<forall>r \<in> set ds. d_projectId r = i \<longrightarrow> \<not> in_progress (d_status r)"
    using assms by (auto simp: queued_in_def)
  then have e: "flying i ds = []" by (auto simp: flying_def)
  show "slot_in i ds = Idle" using e by (simp add: slot_in_def)
  show "\<exists>row. ds' = ds @ [row] \<and> slot_in i ds' = Busy (d_id row)"
    using e row by (intro exI [of _ row]) (simp add: slot_in_def flying_def)
  show "slot_in j ds' = slot_in j ds" if "j \<noteq> i"
    using row that by (simp add: slot_in_def flying_def)
qed

lemma canceled_elsewhere:
  assumes ok: "db_ok (db w)" and "j \<noteq> p_id p"
  shows "slot_in j (canceled_current (lk_current (linked_project_of (db w) p)) (deployments (db w))) = slot_in j (deployments (db w))"
proof (cases "head_opt (order_desc d_startedAt (filter (\<lambda>r. d_projectId r = p_id p \<and> active_status (d_status r)) (deployments (db w))))")
  case None
  then have "lk_current (linked_project_of (db w) p) = None" by (simp add: linked_project_of_def)
  then show ?thesis by (simp add: canceled_current_def)
next
  case (Some x)
  have cur: "lk_current (linked_project_of (db w) p) = Some (d_id x, d_status x)" by (simp add: linked_project_of_def Some)
  have x: "x \<in> set (deployments (db w))" "d_projectId x = p_id p" using head_opt_SomeD [OF Some] by auto
  have same: "y = x" if "y \<in> set (deployments (db w))" "d_id y = d_id x" for y
    by (rule distinct_map_same [OF deploymentT.uniq_rid [OF db_okD(1) [OF ok]] that(1) x(1) that(2)])
  let ?g = "\<lambda>r. if d_id r = d_id x then r\<lparr>d_status := CANCELED\<rparr> else r"
  have "flying j (map ?g ds) = flying j ds" if "set ds \<subseteq> set (deployments (db w))" for ds
    using that same x(2) assms(2) by (induction ds) (auto simp: flying_def)
  then show ?thesis by (simp add: cur canceled_current_def slot_in_def)
qed

lemma flying_single: "db_ok d \<Longrightarrow> orderly (deployments d) \<Longrightarrow> length (flying i (deployments d)) \<le> 1"
  using orderly_single [of d i] by (simp add: in_flight_def flying_def db_ok_def uniq_def)

lemma push_refines:
  assumes "timely w (p_id p)" and "p \<in> set (projects (db w))" and "db_ok (db w)" and "orderly (deployments (db w))"
  shows "slot_step i (Push (p_id p)) (slot_in i (deployments (db w)))
     (slot_in i (deployments (db (snd (triggerDeployment X (linked_project_of (db w) p) opts w)))))"
proof -
  let ?ds = "deployments (db w)" and ?ds1 = "canceled_current (lk_current (linked_project_of (db w) p)) (deployments (db w))"
  let ?w' = "snd (triggerDeployment X (linked_project_of (db w) p) opts w)"
  note change = trigger_change [OF assms(3,4,1,2), of X opts]
  show ?thesis
  proof (cases "i = p_id p")
    case False
    then show ?thesis
      using change canceled_elsewhere [OF assms(3) False] slot_queued(3) [OF _ False]
      by (auto simp: slot_step.stay)
  next
    case True
    have idle: "slot_in i ?ds1 = Idle" using current_canceled [OF assms(3,4)] True by (auto simp: slot_in_Idle)
    from change consider "deployments (db ?w') = ?ds" | "deployments (db ?w') = ?ds1"
      | row where "deployments (db ?w') = ?ds1 @ [row]" "slot_in i (deployments (db ?w')) = Busy (d_id row)"
      using slot_queued(2) True by blast
    then show ?thesis
    proof cases
      case 1
      then show ?thesis by (simp add: slot_step.stay)
    next
      case 2
      then show ?thesis using idle True by (cases "slot_in i ?ds") (auto intro: slot_step.intros)
    next
      case 3
      have "db_ok (db ?w')" using assms(3) keeps_run [OF keeps_triggerDeployment] by (simp add: db_kept_def)
      then have "distinct (map d_id (?ds1 @ [row]))" using 3(1) by (simp add: db_ok_def uniq_def)
      then have "d_id row \<notin> set (map d_id ?ds1)" by simp
      then have "d_id row \<notin> set (map d_id ?ds)" unfolding canceled_keys(1) .
      then have "slot_in i ?ds \<noteq> Busy (d_id row)" using slot_in_BusyD [of i ?ds "d_id row"] by (metis imageI set_map)
      then show ?thesis using 3(2) True by (simp add: slot_step.replaced)
    qed
  qed
qed

lemma report_refines:
  assumes "r \<in> set (deployments (db w))" and "in_progress (st_status dto) \<longrightarrow> in_progress (d_status r)"
    and "db_ok (db w)" and "orderly (deployments (db w))"
  shows "slot_step i (Report (d_id r) (st_status dto)) (slot_in i (deployments (db w)))
     (slot_in i (deployments (db (snd (updateDeploymentStatus (d_id r) dto w)))))"
proof -
  let ?ds' = "deployments (db (snd (updateDeploymentStatus (d_id r) dto w)))"
  have t: "slot_in i ?ds' = slot_in i (deployments (db w)) \<or> slot_in i (deployments (db w)) = Busy (d_id r) \<and> slot_in i ?ds' = Idle"
    by (rule slot_touched [OF report_change [OF assms(3,1,2)] flying_single [OF assms(3,4)]])
  show ?thesis
  proof (cases "in_progress (st_status dto)")
    case False
    then show ?thesis using t by (auto intro: slot_step.intros)
  next
    case True
    have "slot_in i ?ds' \<noteq> Idle" if busy: "slot_in i (deployments (db w)) = Busy (d_id r)"
    proof -
      obtain x where "x \<in> set (deployments (db w))" "d_projectId x = i" "d_id x = d_id r"
        using slot_in_BusyD [OF busy] by blast
      moreover from this have "x = r"
        using distinct_map_same [OF deploymentT.uniq_rid [OF db_okD(1) [OF assms(3)]] _ assms(1)] by blast
      ultimately have "reported (now w) dto r \<in> set ?ds'" "d_projectId (reported (now w) dto r) = i"
        "in_progress (d_status (reported (now w) dto r))"
        using True assms(1) by (auto simp: report_run [OF assms(3,1)])
      then show ?thesis unfolding slot_in_Idle by blast
    qed
    then show ?thesis using t by (auto intro: slot_step.intros)
  qed
qed

text \<open>
  C14. As long as the requests that touch a project run one after the other, each at a later
  time than the last deployment, and the worker does not report a deployment that has ended back
  into progress, the project refines an abstract slot that is idle or holds one deployment in
  flight, read off its latest status: each creation, cancellation, push and such report is a
  step of the slot or leaves it alone.
\<close>

theorem lifecycle_refined:
  assumes "pipeline_step X e w w'" and "db_ok (db w)" and "orderly (deployments (db w))"
  shows "slot_step i e (slot_of i (db w)) (slot_of i (db w'))"
  using assms
  unfolding slot_of_in
proof (induction rule: pipeline_step.induct)
  case (create w j u)
  from create_change [OF create(2,3,1), of X u] show ?case
  proof
    assume q: "queued_in j (now w) (deployments (db w)) (deployments (db (snd (deploymentsService_create X u j w))))"
    show ?thesis
    proof (cases "i = j")
      case True
      then show ?thesis using slot_queued(1,2) [OF q] by (auto intro: slot_step.intros)
    next
      case False
      then show ?thesis using slot_queued(3) [OF q] by (simp add: slot_step.stay)
    qed
  qed (simp add: slot_step.stay)
next
  case (cancel j w u)
  from slot_touched [OF cancel_change [OF cancel(1)] flying_single [OF cancel], of i u j] show ?case
    by (auto simp: slot_step.stay slot_step.cancelled)
next
  case (push w p opts)
  then show ?case by (rule push_refines)
next
  case (report r w dto)
  then show ?case by (rule report_refines)
next
  case (other w' w)
  then show ?case by (simp add: slot_step.stay)
qed

section \<open>Overlapping creations\<close>

text \<open>
  \<open>deploymentsService_create\<close> is a run of reads and checks followed by the writes; between the
  two the handler awaits, and another request can run.
\<close>

record create_checked =
  cc_project :: project
  cc_vars :: "env_var list"
  cc_domains :: "domain list"
  cc_account :: git_account

definition create_check :: "uuid \<Rightarrow> uuid \<Rightarrow> create_checked handler" where
  "create_check userId projectId =
     andThen (gets (\<lambda>w. owned_project userId projectId (db w))) (\<lambda>found.
     andThen (orThrow found (NotFoundException ''Project not found'')) (\<lambda>project.
     andThen (gets (\<lambda>w. filter (\<lambda>e. ev_projectId e = p_id project) (envVars (db w)))) (\<lambda>vars.
     andThen (gets (\<lambda>w. project_domains (db w) (p_id project))) (\<lambda>doms.
     andThen (gets (\<lambda>w. filter (\<lambda>a. ga_userId a = userId) (gitAccounts (db w)))) (\<lambda>accounts.
     andThen (throwIf (accounts = []) (BadRequestException ''No linked GitHub accounts found.'')) (\<lambda>_.
     andThen (gets (\<lambda>w. latest_in_progress (db w) projectId)) (\<lambda>busy.
     andThen (throwIf busy (BadRequestException
       ''A deployment is already in progress for this project.'')) (\<lambda>_.
     andThen (orThrow (find_or_first (\<lambda>a. ga_username a = p_gitRepoOwner project) accounts)
       (Thrown ''TypeError'')) (\<lambda>account.
     andThen (throwIf (\<not> truthy_opt (ga_installationId account))
       (BadRequestException ''Selected GitHub account is not installed.'')) (\<lambda>_.
     ret \<lparr>cc_project = project, cc_vars = vars, cc_domains = doms, cc_account = account\<rparr>))))))))))"

definition create_commit :: "external \<Rightarrow> uuid \<Rightarrow> create_checked \<Rightarrow> deployment handler" where
  "create_commit X userId c =
     (let project = cc_project c; installation = the (ga_installationId (cc_account c));
          commit = getLatestCommit X installation (p_gitRepoOwner project) (p_gitRepoName project)
                     (p_gitBranch project)
      in andThen (record_deployment userId project commit (map_option dom_name (head_opt (cc_domains c)))) (\<lambda>deployment.
         andThen (addBuildJob (manual_job X project (cc_vars c) (cc_domains c) installation commit deployment)) (\<lambda>_.
         ret deployment)))"

lemma create_split: "deploymentsService_create X u i = andThen (create_check u i) (create_commit X u)"
  by (rule ext) (simp add: deploymentsService_create_def create_check_def create_commit_def Let_def action_simps split: option.splits)

lemma create_check_run:
  assumes "deployable u i (db w) p a"
  shows "create_check u i w = (Inr \<lparr>cc_project = p, cc_vars = filter (\<lambda>e. ev_projectId e = i) (envVars (db w)),
     cc_domains = project_domains (db w) i, cc_account = a\<rparr>, w)"
proof -
  have "p_id p = i" by (rule deployable_pid [OF assms])
  moreover have "filter (\<lambda>a. ga_userId a = u) (gitAccounts (db w)) \<noteq> []"
    using assms by (auto simp: deployable_def)
  ultimately show ?thesis
    using assms by (simp add: create_check_def deployable_def action_simps andThen_def del: filter_empty_conv)
qed

lemma create_commit_run:
  assumes ok: "db_ok (db w)" and own: "owned_project u i (db w) = Some q" and pid: "p_id (cc_project c) = i"
    and up: "redis_up (redis w)"
  obtains dep j w' where "create_commit X u c w = (Inr dep, w')" "db_ok (db w')"
     "owned_project u i (db w') = Some (q\<lparr>p_configChanged := False, p_updatedAt := now w\<rparr>)" "redis_up (redis w')"
     "deployments (db w') = deployments (db w) @ [dep]" "d_projectId dep = i" "d_status dep = QUEUED"
     "build_queue (redis w') = build_queue (redis w) @ [j]" "job_deploymentId j = d_id dep"
proof -
  let ?com = "getLatestCommit X (the (ga_installationId (cc_account c))) (p_gitRepoOwner (cc_project c))
     (p_gitRepoName (cc_project c)) (p_gitBranch (cc_project c))"
  let ?url = "map_option dom_name (head_opt (cc_domains c))"
  let ?dep = "(snapshot w u (cc_project c) ?com ?url)\<lparr>d_id := nextId (db w)\<rparr>"
  let ?touch = "\<lambda>q. if p_id q = i then q\<lparr>p_configChanged := False, p_updatedAt := now w\<rparr> else q"
  let ?w1 = "w\<lparr>db := (db w)\<lparr>deployments := deployments (db w) @ [?dep],
     projects := map ?touch (projects (db w)), nextId := Suc (nextId (db w))\<rparr>\<rparr>"
  let ?j = "manual_job X (cc_project c) (cc_vars c) (cc_domains c) (the (ga_installationId (cc_account c))) ?com ?dep"
  note rec = record_deployment_run [OF ok own pid, of ?com ?url]
  let ?w2 = "?w1\<lparr>redis := rpush_build ?j (redis w)\<rparr>"
  have run: "create_commit X u c w = (Inr ?dep, ?w2)"
    using up by (simp add: create_commit_def Let_def andThen_def rec addBuildJob_run ret_run)
  have "keeps db_kept (record_deployment u (cc_project c) ?com ?url)"
    unfolding record_deployment_def by (intro kept.keeps_db_intros keeps_tables)
  from keeps_run [OF this, of w] have ok2: "db_ok (db ?w2)"
    using ok by (simp add: rec db_kept_def)
  have own2: "owned_project u i (db ?w2) = Some (q\<lparr>p_configChanged := False, p_updatedAt := now w\<rparr>)"
    using own owned_projectD [OF own] by (simp add: owned_project_touch)
  have job: "job_deploymentId ?j = d_id ?dep" by (simp add: manual_job_def)
  show thesis
    by (rule that [OF run ok2 own2 _ _ _ _ _ job]) (use up pid in \<open>simp_all add: snapshot_def new_deployment_def rpush_build_def\<close>)
qed

text \<open>
  C15. Two overlapping creations both pass the in-progress check before either writes: both
  succeed, two deployments of the project are in flight and two jobs are queued.
\<close>

theorem create_race:
  assumes "db_ok (db w)" and "redis_up (redis w)" and "deployable u i (db w) p a"
  shows "\<exists>c r1 w1 r2 w2 j1 j2. create_check u i w = (Inr c, w) \<and> create_commit X u c w = (Inr r1, w1) \<and>
     create_commit X u c w1 = (Inr r2, w2) \<and> 2 \<le> length (in_flight (db w2) i) \<and>
     build_queue (redis w2) = build_queue (redis w) @ [j1, j2] \<and>
     job_deploymentId j1 = d_id r1 \<and> job_deploymentId j2 = d_id r2 \<and> d_id r1 \<noteq> d_id r2"
proof -
  define c where "c = \<lparr>cc_project = p, cc_vars = filter (\<lambda>e. ev_projectId e = i) (envVars (db w)),
     cc_domains = project_domains (db w) i, cc_account = a\<rparr>"
  have check: "create_check u i w = (Inr c, w)" unfolding c_def by (rule create_check_run [OF assms(3)])
  have own: "owned_project u i (db w) = Some p" using assms(3) by (simp add: deployable_def)
  have pid: "p_id (cc_project c) = i" using deployable_pid [OF assms(3)] by (simp add: c_def)
  obtain r1 j1 w1 where one: "create_commit X u c w = (Inr r1, w1)" "db_ok (db w1)"
    "owned_project u i (db w1) = Some (p\<lparr>p_configChanged := False, p_updatedAt := now w\<rparr>)" "redis_up (redis w1)"
    "deployments (db w1) = deployments (db w) @ [r1]" "d_projectId r1 = i" "d_status r1 = QUEUED"
    "build_queue (redis w1) = build_queue (redis w) @ [j1]" "job_deploymentId j1 = d_id r1"
    by (rule create_commit_run [OF assms(1) own pid assms(2)])
  obtain r2 j2 w2 where two: "create_commit X u c w1 = (Inr r2, w2)" "db_ok (db w2)"
    "deployments (db w2) = deployments (db w1) @ [r2]" "d_projectId r2 = i" "d_status r2 = QUEUED"
    "build_queue (redis w2) = build_queue (redis w1) @ [j2]" "job_deploymentId j2 = d_id r2"
    by (rule create_commit_run [OF one(2) one(3) pid one(4)])
  have "2 \<le> length (in_flight (db w2) i)" using one two by (simp add: in_flight_def)
  moreover have "distinct (map d_id (deployments (db w2)))" using two(2) by (simp add: db_ok_def uniq_def)
  then have "d_id r1 \<noteq> d_id r2" by (simp add: two(3) one(5))
  moreover have "build_queue (redis w2) = build_queue (redis w) @ [j1, j2]" using one two by simp
  ultimately show ?thesis using check one(1) two(1) one(9) two(7) by blast
qed

section \<open>Closed examples\<close>

lemma sample_orderly: "orderly (deployments (db sample_world))"
  by (auto simp: orderly_def sample_defs)

theorem one_deployment_in_flight_witness:
  "\<exists>w'. pipeline_run sample_external sample_world w' \<and> length (deployments (db w')) = 3 \<and> length (in_flight (db w') 4) \<le> 1"
proof -
  let ?w = "snd (deploymentsService_create sample_external 0 4 sample_world)"
  have "timely sample_world 4" by (simp add: timely_def sample_defs)
  then have run: "pipeline_run sample_external sample_world ?w"
    by (rule pipeline_run.step [OF pipeline_run.start pipeline_step.create])
  moreover have "length (deployments (db ?w)) = 3"
    using sample_redis_up by (simp add: deploy_run [OF sample_db_ok sample_deployable] action_simps andThen_def recorded_def) (simp add: sample_defs)
  moreover have "length (in_flight (db ?w) 4) \<le> 1"
    by (rule one_deployment_in_flight [OF run sample_db_ok sample_orderly])
  ultimately show ?thesis by blast
qed

theorem lifecycle_refined_witness:
  "\<exists>d. slot_step 4 (Create 4) (slot_of 4 (db sample_world))
      (slot_of 4 (db (snd (deploymentsService_create sample_external 0 4 sample_world)))) \<and>
     slot_of 4 (db sample_world) = Idle \<and>
     slot_of 4 (db (snd (deploymentsService_create sample_external 0 4 sample_world))) = Busy d"
proof -
  let ?w = "snd (deploymentsService_create sample_external 0 4 sample_world)"
  have "timely sample_world 4" by (simp add: timely_def sample_defs)
  from lifecycle_refined [OF pipeline_step.create [OF this] sample_db_ok sample_orderly]
  have "slot_step 4 (Create 4) (slot_of 4 (db sample_world)) (slot_of 4 (db ?w))" .
  moreover have "slot_of 4 (db sample_world) = Idle" by (simp add: slot_of_def in_flight_def sample_defs)
  moreover have "\<exists>d. slot_of 4 (db ?w) = Busy d"
    using sample_redis_up
    by (simp add: deploy_run [OF sample_db_ok sample_deployable] action_simps andThen_def recorded_def slot_of_def in_flight_def)
      (simp add: sample_defs)
  ultimately show ?thesis by blast
qed

theorem create_race_witness:
  "\<exists>c r1 w1 r2 w2. create_check 0 4 sample_world = (Inr c, sample_world) \<and>
     create_commit sample_external 0 c sample_world = (Inr r1, w1) \<and>
     create_commit sample_external 0 c w1 = (Inr r2, w2) \<and> 2 \<le> length (in_flight (db w2) 4)"
  using create_race [OF sample_db_ok sample_redis_up sample_deployable, of sample_external] by blast

end
