(* ===== verification/Auth.thy ===== *)
theory Auth
  imports Internal
begin

text \<open>
  \<open>auth/auth.service.ts\<close> (sign-up, sign-in, logout, token rotation, OAuth and GitHub logins), the
  strategies that read a request's tokens and profiles, and the guards of \<open>common/guards\<close>.
  bcrypt and the JWT library are parameters; the predicates state what their documentation
  says and the theorems need.
\<close>

section \<open>What the libraries promise\<close>

definition bcrypt_ok :: "external \<Rightarrow> bool" where
  \<comment> \<open>a password matches its own hash; nothing matches a string that is no hash\<close>
  "bcrypt_ok X \<longleftrightarrow> (\<forall>p r s. x_bcryptCompare X p (x_bcryptHash X p r s)) \<and>
     (\<forall>p. \<not> x_bcryptCompare X p [])"

definition bcrypt_reads_72 :: "external \<Rightarrow> bool" where
  \<comment> \<open>only the first 72 bytes of the input are used\<close>
  "bcrypt_reads_72 X \<longleftrightarrow> (\<forall>p q r s. take 72 p = take 72 q \<longrightarrow>
     x_bcryptCompare X p (x_bcryptHash X q r s))"

definition jwt_prefix_72 :: "external \<Rightarrow> bool" where
  \<comment> \<open>the header and the first claim fill the first 72 characters of an HS256 token: they do
      not depend on when the token was issued\<close>
  "jwt_prefix_72 X \<longleftrightarrow> (\<forall>c s t t' e.
     take 72 (x_jwtSign X c s t e) = take 72 (x_jwtSign X c s t' e))"

section \<open>Tokens\<close>

record tokens =
  tk_accessToken :: string
  tk_refreshToken :: string

definition bcrypt_hash :: "external \<Rightarrow> string \<Rightarrow> nat \<Rightarrow> string handler" where
  "bcrypt_hash X p rounds = andThen (randomBytes 16) (\<lambda>salt. ret (x_bcryptHash X p rounds salt))"

definition getTokens :: "external \<Rightarrow> user \<Rightarrow> tokens handler" where
  "getTokens X u = gets (\<lambda>w.
     let claims = \<lparr>jc_sub = u_id u, jc_email = u_email u, jc_name = or_else (u_name u) [],
                   jc_avatar = u_avatar u\<rparr>
     in \<lparr>tk_accessToken = x_jwtSign X claims (x_env X ''JWT_SECRET'') (now w) ''15m'',
         tk_refreshToken = x_jwtSign X claims (x_env X ''JWT_REFRESH_SECRET'') (now w) ''7d''\<rparr>)"

definition updateRefreshTokenHash :: "external \<Rightarrow> uuid \<Rightarrow> string \<Rightarrow> unit handler" where
  "updateRefreshTokenHash X userId rt =
     andThen (bcrypt_hash X rt 10) (\<lambda>hash.
     andThen (user_update userId (\<lambda>u. u\<lparr>u_hashedRefreshToken := Some hash\<rparr>)) (\<lambda>_. ret ()))"

definition issue_tokens :: "external \<Rightarrow> user \<Rightarrow> tokens handler" where
  \<comment> \<open>\<open>getTokens\<close> and \<open>updateRefreshTokenHash\<close>, the common end of every login\<close>
  "issue_tokens X u =
     andThen (getTokens X u) (\<lambda>tks.
     andThen (updateRefreshTokenHash X (u_id u) (tk_refreshToken tks)) (\<lambda>_. ret tks))"

section \<open>Password logins\<close>

definition signUp :: "external \<Rightarrow> string \<Rightarrow> string \<Rightarrow> string option \<Rightarrow> tokens handler" where
  "signUp X email password name =
     andThen (gets (\<lambda>w. find (\<lambda>u. u_email u = email) (users (db w)))) (\<lambda>existingUser.
     andThen (throwIf (existingUser \<noteq> None) (ForbiddenException ''Credentials taken'')) (\<lambda>_.
     andThen (bcrypt_hash X password 12) (\<lambda>hash.
     andThen (transaction (
       andThen (user_create (new_user\<lparr>u_email := email, u_password := Some hash, u_name := name\<rparr>)) (\<lambda>u.
       andThen (config_create (new_config (u_id u))) (\<lambda>_. ret u)))) (\<lambda>u.
     issue_tokens X u))))"

definition signIn :: "external \<Rightarrow> string \<Rightarrow> string \<Rightarrow> tokens handler" where
  "signIn X email password =
     andThen (gets (\<lambda>w. find (\<lambda>u. u_email u = email) (users (db w)))) (\<lambda>found.
     andThen (orThrow found (UnauthorizedException ''Invalid credentials'')) (\<lambda>u.
     andThen (throwIf (\<not> x_bcryptCompare X password (or_else (u_password u) []))
       (UnauthorizedException ''Invalid credentials'')) (\<lambda>_.
     issue_tokens X u)))"

definition logout :: "uuid \<Rightarrow> bool handler" where
  "logout userId =
     andThen (user_updateMany (\<lambda>u. u_id u = userId \<and> u_hashedRefreshToken u \<noteq> None)
       (\<lambda>u. u\<lparr>u_hashedRefreshToken := None\<rparr>)) (\<lambda>_. ret True)"

definition refreshTokens :: "external \<Rightarrow> uuid \<Rightarrow> string \<Rightarrow> tokens handler" where
  "refreshTokens X userId rt =
     andThen (gets (\<lambda>w. find (\<lambda>u. u_id u = userId) (users (db w)))) (\<lambda>found.
     andThen (orThrow found (ForbiddenException ''Access Denied'')) (\<lambda>u.
     andThen (throwIf (\<not> truthy_opt (u_hashedRefreshToken u)) (ForbiddenException ''Access Denied'')) (\<lambda>_.
     andThen (throwIf (\<not> x_bcryptCompare X rt (the (u_hashedRefreshToken u)))
       (ForbiddenException ''Access Denied'')) (\<lambda>_.
     issue_tokens X u))))"

section \<open>OAuth logins\<close>

record oauth_user =
  ou_email :: string
  ou_name :: string
  ou_picture :: "string option"
  ou_provider :: string

definition validateOAuthLogin :: "external \<Rightarrow> oauth_user \<Rightarrow> tokens handler" where
  "validateOAuthLogin X profile =
     andThen (gets (\<lambda>w. find (\<lambda>u. u_email u = ou_email profile) (users (db w)))) (\<lambda>found.
     andThen (case found of
         None \<Rightarrow> user_create (new_user\<lparr>u_email := ou_email profile, u_name := Some (ou_name profile),
                   u_avatar := ou_picture profile, u_provider := Some (ou_provider profile),
                   u_password := None\<rparr>)
       | Some u \<Rightarrow> user_update (u_id u) (\<lambda>u. u\<lparr>u_avatar := ou_picture profile,
                   u_provider := Some (ou_provider profile)\<rparr>)) (\<lambda>u.
     issue_tokens X u))"

record github_payload =
  gp_githubId :: string
  gp_username :: string
  gp_email :: "string option"
  gp_name :: "string option"
  gp_avatarUrl :: "string option"
  gp_accessToken :: string
  gp_refreshToken :: "string option"

definition upsert_git_account :: "uuid \<Rightarrow> github_payload \<Rightarrow> string option \<Rightarrow> git_account handler" where
  \<comment> \<open>\<open>gitAccount.upsert\<close> on (provider, providerId); an undefined refresh token leaves the column\<close>
  "upsert_git_account uid p installationId =
     andThen (gets (\<lambda>w. find (\<lambda>a. ga_provider a = ''github'' \<and> ga_providerId a = gp_githubId p)
       (gitAccounts (db w)))) (\<lambda>found.
     case found of
       None \<Rightarrow> gitAccount_create \<lparr>ga_id = 0, ga_provider = ''github'', ga_providerId = gp_githubId p,
                 ga_username = gp_username p, ga_avatarUrl = gp_avatarUrl p,
                 ga_installationId = or_undefined installationId, ga_accessToken = gp_accessToken p,
                 ga_refreshToken = gp_refreshToken p, ga_userId = uid\<rparr>
     | Some a \<Rightarrow> gitAccount_update (ga_id a) (\<lambda>a. a\<lparr>ga_userId := uid,
                 ga_accessToken := gp_accessToken p,
                 ga_refreshToken := (case gp_refreshToken p of None \<Rightarrow> ga_refreshToken a | Some t \<Rightarrow> Some t),
                 ga_username := gp_username p, ga_avatarUrl := gp_avatarUrl p,
                 ga_installationId := (if truthy_opt installationId then installationId
                                       else ga_installationId a)\<rparr>))"

definition github_user :: "db \<Rightarrow> string \<Rightarrow> string \<Rightarrow> user option" where
  \<comment> \<open>the user of the existing link, otherwise the user with the email\<close>
  "github_user d githubId email =
     (case Option.bind (find (\<lambda>a. ga_provider a = ''github'' \<and> ga_providerId a = githubId) (gitAccounts d))
             (\<lambda>a. find (\<lambda>u. u_id u = ga_userId a) (users d)) of
        Some u \<Rightarrow> Some u
      | None \<Rightarrow> find (\<lambda>u. u_email u = email) (users d))"

definition processGithubCallback ::
    "external \<Rightarrow> github_payload \<Rightarrow> string option \<Rightarrow> uuid option \<Rightarrow> tokens handler" where
  "processGithubCallback X p installationId currentUserId =
     (case currentUserId of
        Some uid \<Rightarrow>
          andThen (upsert_git_account uid p installationId) (\<lambda>_.
          andThen (gets (\<lambda>w. find (\<lambda>u. u_id u = uid) (users (db w)))) (\<lambda>found.
          andThen (orThrow found (Thrown ''TypeError'')) (\<lambda>u.
          issue_tokens X u)))
      | None \<Rightarrow>
          andThen (throwIf (\<not> truthy_opt (gp_email p))
            (UnauthorizedException ''GitHub account must have a public email'')) (\<lambda>_.
          andThen (gets (\<lambda>w. github_user (db w) (gp_githubId p) (the (gp_email p)))) (\<lambda>found.
          andThen (case found of
              None \<Rightarrow> user_create (new_user\<lparr>u_email := the (gp_email p),
                        u_name := Some (or_else (gp_name p) (gp_username p)),
                        u_avatar := gp_avatarUrl p, u_provider := Some ''github''\<rparr>)
            | Some u \<Rightarrow> andThen (user_update (u_id u) (\<lambda>u. u\<lparr>u_provider := Some ''github'',
                          u_avatar := (if truthy_opt (gp_avatarUrl p) then gp_avatarUrl p
                                       else u_avatar u)\<rparr>)) (\<lambda>_. ret u)) (\<lambda>u.
          andThen (upsert_git_account (u_id u) p installationId) (\<lambda>_.
          issue_tokens X u)))))"

section \<open>Guards and strategies\<close>

definition workerApiKeyGuard :: "external \<Rightarrow> string option \<Rightarrow> bool handler" where
  "workerApiKeyGuard X apiKey =
     andThen (throwIf (\<not> truthy_opt apiKey) (UnauthorizedException ''Missing worker API key'')) (\<lambda>_.
     andThen (throwIf (\<not> truthy_opt (x_env X ''WORKER_API_KEY'') \<or> apiKey \<noteq> x_env X ''WORKER_API_KEY'')
       (UnauthorizedException ''Invalid worker API key'')) (\<lambda>_. ret True))"

definition jwtAuthGuard :: "external \<Rightarrow> string option \<Rightarrow> bool handler \<Rightarrow> bool handler" where
  \<comment> \<open>\<open>jwtGuard\<close> is passport's own \<open>canActivate\<close>\<close>
  "jwtAuthGuard X workerApiKey jwtGuard =
     (if truthy_opt workerApiKey
      then (if truthy_opt (x_env X ''WORKER_API_KEY'') \<and> workerApiKey = x_env X ''WORKER_API_KEY''
            then ret True
            else throw (UnauthorizedException ''Invalid worker API key''))
      else jwtGuard)"

definition rtStrategy_validate :: "string option \<Rightarrow> string handler" where
  \<comment> \<open>the raw refresh token of the Authorization header\<close>
  "rtStrategy_validate authHeader =
     andThen (throwIf (\<not> truthy_opt authHeader) (ForbiddenException ''Refresh token malformed'')) (\<lambda>_.
     ret (js_trim (replace_first ''Bearer'' [] (the authHeader))))"

section \<open>The invariant\<close>

lemma keeps_bcrypt_hash: "keeps db_kept (bcrypt_hash X p r)"
  unfolding bcrypt_hash_def by (intro kept.keeps_db_intros keeps_randomBytes)

lemma keeps_issue_tokens: "keeps db_kept (issue_tokens X u)"
  unfolding issue_tokens_def getTokens_def updateRefreshTokenHash_def
  by (intro kept.keeps_db_intros keeps_tables keeps_bcrypt_hash)

lemma keeps_upsert_git_account: "keeps db_kept (upsert_git_account u p i)"
  unfolding upsert_git_account_def by (intro kept.keeps_db_intros keeps_tables)

lemma keeps_auth:
  "keeps db_kept (signUp X e p n)" "keeps db_kept (signIn X e p)" "keeps db_kept (logout u)"
  "keeps db_kept (refreshTokens X u rt)" "keeps db_kept (validateOAuthLogin X prof)"
  "keeps db_kept (processGithubCallback X gp inst cu)"
  "keeps db_kept (workerApiKeyGuard X k)" "keeps db_kept (rtStrategy_validate h)"
  unfolding signUp_def signIn_def logout_def refreshTokens_def validateOAuthLogin_def
    processGithubCallback_def workerApiKeyGuard_def rtStrategy_validate_def
  by (intro kept.keeps_db_intros keeps_tables keeps_bcrypt_hash keeps_issue_tokens
      keeps_upsert_git_account)+

end
