(* ===== verification/AuthLaws.thy ===== *)
theory AuthLaws
  imports Auth InternalLaws
begin

text \<open>
  What \<open>auth/auth.service.ts\<close> promises: a sign-up can sign in, a sign-in needs the password; and
  that a rotation does not revoke the old refresh token, bcrypt reading only the first 72 bytes.
  What a logout does is in \<open>Sessions\<close>.
\<close>

section \<open>Issuing tokens\<close>

definition tokens_of :: "external \<Rightarrow> user \<Rightarrow> time \<Rightarrow> tokens" where
  "tokens_of X u t = (let claims = \<lparr>jc_sub = u_id u, jc_email = u_email u, jc_name = or_else (u_name u) [],
                   jc_avatar = u_avatar u\<rparr>
     in \<lparr>tk_accessToken = x_jwtSign X claims (x_env X ''JWT_SECRET'') t ''15m'',
         tk_refreshToken = x_jwtSign X claims (x_env X ''JWT_REFRESH_SECRET'') t ''7d''\<rparr>)"

definition salt_of :: "world \<Rightarrow> buffer" where
  "salt_of w = map (rng w) [rng_pos w ..< rng_pos w + 16]"

definition remember :: "external \<Rightarrow> uuid \<Rightarrow> string \<Rightarrow> world \<Rightarrow> world" where
  "remember X i rt w = w\<lparr>rng_pos := rng_pos w + 16, db := (db w)\<lparr>users :=
     map (\<lambda>r. if u_id r = i then r\<lparr>u_hashedRefreshToken := Some (x_bcryptHash X rt 10 (salt_of w))\<rparr> else r)
       (users (db w))\<rparr>\<rparr>"

lemma bcrypt_hash_run: "bcrypt_hash X p n w = (Inr (x_bcryptHash X p n (salt_of w)), w\<lparr>rng_pos := rng_pos w + 16\<rparr>)"
  by (simp add: bcrypt_hash_def action_simps andThen_def salt_of_def)

lemma issue_tokens_run:
  assumes ok: "db_ok (db w)" and u: "u_id u \<in> u_id ` set (users (db w))"
  shows "issue_tokens X u w =
    (Inr (tokens_of X u (now w)), remember X (u_id u) (tk_refreshToken (tokens_of X u (now w))) w)"
proof -
  obtain u0 where u0: "u0 \<in> set (users (db w))" "u_id u0 = u_id u" using u by auto
  let ?rt = "tk_refreshToken (tokens_of X u (now w))"
  let ?f = "\<lambda>r. r\<lparr>u_hashedRefreshToken := Some (x_bcryptHash X ?rt 10 (salt_of w))\<rparr>"
  let ?w = "w\<lparr>rng_pos := rng_pos w + 16\<rparr>"
  have "find (\<lambda>x. u_id x = u_id u) (users (db ?w)) = Some u0"
    using userT.find_row [OF db_okD(1) [OF ok] u0(1)] u0(2) by simp
  then have upd: "user_update (u_id u) ?f ?w = (Inr (?f u0),
      ?w\<lparr>db := users_update (map (\<lambda>r. if u_id r = u_id u then ?f r else r)) (db ?w)\<rparr>)"
    using ok by (intro userT.update_row_run) (simp_all add: db_ok_def)
  show ?thesis
    using upd by (simp add: issue_tokens_def getTokens_def updateRefreshTokenHash_def gets_run ret_run andThen_def
        bcrypt_hash_run tokens_of_def remember_def Let_def)
qed

lemma find_user_remember:
  "(\<And>r x. P (r\<lparr>u_hashedRefreshToken := x\<rparr>) = P r) \<Longrightarrow>
   find P (users (db (remember X i rt w))) = map_option
     (\<lambda>r. if u_id r = i then r\<lparr>u_hashedRefreshToken := Some (x_bcryptHash X rt 10 (salt_of w))\<rparr> else r)
     (find P (users (db w)))"
  by (simp add: remember_def find_map_same)

lemma remember_ids: "u_id ` set (users (db (remember X i rt w))) = u_id ` set (users (db w))"
proof -
  have "map u_id (users (db (remember X i rt w))) = map u_id (users (db w))" by (simp add: remember_def)
  then show ?thesis by (metis set_map)
qed

lemma or_else_Some_Nil [simp]: "or_else (Some s) [] = s"
  by (cases s) (simp_all add: or_else_def)

section \<open>Sign-up and sign-in\<close>

lemma signUp_run:
  assumes ok: "db_ok (db w)" and new: "email \<notin> u_email ` set (users (db w))"
  shows "\<exists>w1 u. signUp X email pw name w = issue_tokens X u w1 \<and> db_ok (db w1) \<and> now w1 = now w \<and>
    u = new_user\<lparr>u_id := nextId (db w), u_email := email, u_name := name,
      u_password := Some (x_bcryptHash X pw 12 (salt_of w))\<rparr> \<and>
    users (db w1) = users (db w) @ [u] \<and>
    systemConfigs (db w1) = systemConfigs (db w) @ [(new_config (nextId (db w)))\<lparr>cfg_id := Suc (nextId (db w))\<rparr>]"
proof -
  define h where "h = x_bcryptHash X pw 12 (salt_of w)"
  define w0 where "w0 = w\<lparr>rng_pos := rng_pos w + 16\<rparr>"
  define u0 where "u0 = new_user\<lparr>u_email := email, u_password := Some h, u_name := name\<rparr>"
  define u where "u = u0\<lparr>u_id := nextId (db w)\<rparr>"
  have ok0: "db_ok (db w0)" using ok by (simp add: w0_def)
  define w1 where "w1 = w0\<lparr>db := (db w0)\<lparr>users := users (db w0) @ [u], nextId := Suc (nextId (db w0))\<rparr>\<rparr>"
  have "can_insert_user u0 (db w0)" using new by (simp add: can_insert_user_def u0_def w0_def)
  then have c1: "user_create u0 w0 = (Inr u, w1)"
    using userI.create_ok [OF ok0] by (simp add: insert_form u_def w1_def w0_def)
  have ok1: "db_ok (db w1)" by (rule userI.create_keeps_ok [OF c1 ok0])
  let ?c = "(new_config (u_id u))\<lparr>cfg_id := nextId (db w1)\<rparr>"
  define w2 where "w2 = w1\<lparr>db := (db w1)\<lparr>systemConfigs := systemConfigs (db w1) @ [?c], nextId := Suc (nextId (db w1))\<rparr>\<rparr>"
  have "nextId (db w) \<notin> cfg_userId ` set (systemConfigs (db w))"
    using fksD(6) [OF db_okD(2) [OF ok]] fresh_idD(1) [OF db_okD(3) [OF ok]] by auto
  then have "can_insert_config (new_config (u_id u)) (db w1)"
    by (simp add: can_insert_config_def new_config_def u_def w1_def w0_def)
  then have c2: "config_create (new_config (u_id u)) w1 = (Inr ?c, w2)"
    using configI.create_ok [OF ok1] by (simp add: insert_form w2_def)
  have ok2: "db_ok (db w2)" by (rule configI.create_keeps_ok [OF c2 ok1])
  have none: "find (\<lambda>x. u_email x = email) (users (db w)) = None" using new by (auto simp: find_None_iff image_iff)
  have "signUp X email pw name w = issue_tokens X u w2"
    using none c1 c2
    by (simp add: signUp_def gets_run throwIf_run ret_run bcrypt_hash_run transaction_def andThen_def
        h_def [symmetric] w0_def [symmetric] u0_def [symmetric])
  then show ?thesis
    using ok2 by (intro exI [of _ w2] exI [of _ u])
      (simp add: w2_def w1_def w0_def u_def u0_def h_def)
qed

lemma signIn_run:
  assumes "find (\<lambda>u. u_email u = email) (users (db w)) = Some u"
    and "x_bcryptCompare X pw (or_else (u_password u) [])"
  shows "signIn X email pw w = issue_tokens X u w"
  using assms by (simp add: signIn_def gets_run throwIf_run orThrow_run andThen_def)

text \<open>
  C26. A sign-up with a fresh email creates the user and the default configuration, and from
  then on signing in with the same password succeeds at any later time.
\<close>

theorem signUp_signIn:
  assumes "bcrypt_ok X" and "db_ok (db w)" and "email \<notin> u_email ` set (users (db w))" and "pw \<noteq> []"
  shows "\<exists>tks w'. signUp X email pw name w = (Inr tks, w') \<and>
    (\<exists>c. find_config (db w') (nextId (db w)) = Some c \<and> cfg_globalTTLMinutes c = 5) \<and>
    (\<forall>t. \<exists>tks' w''. signIn X email pw (w'\<lparr>now := t\<rparr>) = (Inr tks', w''))"
proof -
  obtain w1 u where up: "signUp X email pw name w = issue_tokens X u w1" and ok1: "db_ok (db w1)"
    and u: "u = new_user\<lparr>u_id := nextId (db w), u_email := email, u_name := name,
      u_password := Some (x_bcryptHash X pw 12 (salt_of w))\<rparr>"
    and us: "users (db w1) = users (db w) @ [u]"
    and cs: "systemConfigs (db w1) = systemConfigs (db w) @ [(new_config (nextId (db w)))\<lparr>cfg_id := Suc (nextId (db w))\<rparr>]"
    using signUp_run [OF assms(2,3)] by blast
  let ?rt = "tk_refreshToken (tokens_of X u (now w1))"
  define w' where "w' = remember X (u_id u) ?rt w1"
  have id: "u_id u \<in> u_id ` set (users (db w1))" by (simp add: us)
  have run: "issue_tokens X u w1 = (Inr (tokens_of X u (now w1)), w')"
    using issue_tokens_run [OF ok1 id] by (simp add: w'_def)
  have ok': "db_ok (db w')" using keepsD [OF keeps_issue_tokens run] ok1 by (simp add: db_kept_def)
  have "\<forall>x \<in> set (users (db w)). u_email x \<noteq> email" using assms(3) by auto
  then have "find (\<lambda>x. u_email x = email) (users (db w1)) = Some u"
    unfolding us by (rule find_append_fresh) (simp add: u)
  then have found: "find (\<lambda>x. u_email x = email) (users (db w')) =
      Some (u\<lparr>u_hashedRefreshToken := Some (x_bcryptHash X ?rt 10 (salt_of w1))\<rparr>)"
    by (simp add: w'_def find_user_remember)
  have "\<forall>c \<in> set (systemConfigs (db w)). cfg_userId c \<noteq> nextId (db w)"
    using fksD(6) [OF db_okD(2) [OF assms(2)]] fresh_idD(1) [OF db_okD(3) [OF assms(2)]] by metis
  then have cfg: "find_config (db w') (nextId (db w)) = Some ((new_config (nextId (db w)))\<lparr>cfg_id := Suc (nextId (db w))\<rparr>)"
    by (simp add: find_config_def w'_def remember_def cs find_append_fresh new_config_def)
  have "\<exists>tks' w''. signIn X email pw (w'\<lparr>now := t\<rparr>) = (Inr tks', w'')" for t
  proof -
    let ?u = "u\<lparr>u_hashedRefreshToken := Some (x_bcryptHash X ?rt 10 (salt_of w1))\<rparr>"
    have "x_bcryptCompare X pw (or_else (u_password ?u) [])"
      using assms(1) by (simp add: u bcrypt_ok_def)
    then have "signIn X email pw (w'\<lparr>now := t\<rparr>) = issue_tokens X ?u (w'\<lparr>now := t\<rparr>)"
      using found by (intro signIn_run) simp_all
    moreover have "u_id ?u \<in> u_id ` set (users (db (w'\<lparr>now := t\<rparr>)))"
      using id by (simp add: w'_def remember_ids)
    ultimately show ?thesis using issue_tokens_run [of "w'\<lparr>now := t\<rparr>" ?u X] ok' by simp
  qed
  then show ?thesis
    using up run cfg by (auto simp: new_config_def)
qed

theorem signIn_authentic:
  assumes "signIn X email pw w = (Inr tks, w')"
  shows "\<exists>u \<in> set (users (db w)). u_email u = email \<and> x_bcryptCompare X pw (or_else (u_password u) [])"
  using assms
  by (auto simp: signIn_def action_simps split: option.splits if_splits dest!: find_SomeD)

section \<open>Refresh tokens\<close>

lemma refresh_run:
  assumes "db_ok (db w)" and "find (\<lambda>u. u_id u = i) (users (db w)) = Some u"
    and "u_hashedRefreshToken u = Some h" and "h \<noteq> []" and "x_bcryptCompare X rt h"
  shows "refreshTokens X i rt w = (Inr (tokens_of X u (now w)), remember X i (tk_refreshToken (tokens_of X u (now w))) w)"
proof -
  have u: "u_id u = i" "u_id u \<in> u_id ` set (users (db w))" using find_SomeD [OF assms(2)] by auto
  then have "issue_tokens X u w = (Inr (tokens_of X u (now w)), remember X i (tk_refreshToken (tokens_of X u (now w))) w)"
    using issue_tokens_run [OF assms(1), of u X] by simp
  then show ?thesis using assms(2-5)
    by (simp add: refreshTokens_def gets_run throwIf_run orThrow_run andThen_def truthy_def)
qed

theorem rotation_keeps_old_token:
  assumes "bcrypt_reads_72 X" and "jwt_prefix_72 X" and "bcrypt_ok X" and "db_ok (db w)"
    and "find (\<lambda>u. u_id u = i) (users (db w)) = Some u"
    and "signed_at < now w" and "old = tk_refreshToken (tokens_of X u signed_at)"
    and "u_hashedRefreshToken u = Some (x_bcryptHash X old 10 salt)"
    and "refreshTokens X i old w = (res, w')" and "now w \<le> t"
  shows "(\<exists>new. res = Inr new) \<and> (\<exists>again w''. refreshTokens X i old (w'\<lparr>now := t\<rparr>) = (Inr again, w''))"
proof -
  let ?new = "tk_refreshToken (tokens_of X u (now w))"
  have same: "take 72 old = take 72 ?new"
    using assms(2) unfolding assms(7) tokens_of_def jwt_prefix_72_def by (simp add: Let_def)
  have cmp: "x_bcryptCompare X old (x_bcryptHash X q r s)" if "take 72 old = take 72 q" for q r s
    using assms(1) that unfolding bcrypt_reads_72_def by blast
  have ne: "x_bcryptHash X p r s \<noteq> []" for p r s
    using assms(3) by (metis bcrypt_ok_def)
  have run: "refreshTokens X i old w = (Inr (tokens_of X u (now w)), remember X i ?new w)"
    by (rule refresh_run [OF assms(4,5,8)]) (simp_all add: ne cmp)
  then have w': "res = Inr (tokens_of X u (now w))" "w' = remember X i ?new w" using assms(9) by simp_all
  have ok': "db_ok (db w')" using keepsD [OF keeps_auth(4) run] assms(4) w' by (simp add: db_kept_def)
  have uid: "u_id u = i" using find_SomeD [OF assms(5)] by simp
  have found: "find (\<lambda>x. u_id x = i) (users (db (w'\<lparr>now := t\<rparr>))) =
      Some (u\<lparr>u_hashedRefreshToken := Some (x_bcryptHash X ?new 10 (salt_of w))\<rparr>)"
    using assms(5) uid by (simp add: w' find_user_remember)
  have "\<exists>again w''. refreshTokens X i old (w'\<lparr>now := t\<rparr>) = (Inr again, w'')"
    using refresh_run [OF _ found, of "x_bcryptHash X ?new 10 (salt_of w)" X old] ok' ne cmp [OF same] by simp
  then show ?thesis using w' by blast
qed

section \<open>Closed examples\<close>

lemma sample_libraries: "bcrypt_ok sample_external" "bcrypt_reads_72 sample_external" "jwt_prefix_72 sample_external"
  by (auto simp: bcrypt_ok_def bcrypt_reads_72_def jwt_prefix_72_def sample_external_def)

theorem signUp_signIn_witness:
  "\<exists>tks w' tks' w''. signUp sample_external ''eve@x.org'' ''pw'' None sample_world = (Inr tks, w') \<and>
     signIn sample_external ''eve@x.org'' ''pw'' w' = (Inr tks', w'')"
proof -
  have "''eve@x.org'' \<notin> u_email ` set (users (db sample_world))" "''pw'' \<noteq> []" by (simp_all add: sample_defs)
  from signUp_signIn [OF sample_libraries(1) sample_db_ok this, of None]
  obtain tks w' where "signUp sample_external ''eve@x.org'' ''pw'' None sample_world = (Inr tks, w')"
    and "\<forall>t. \<exists>tks' w''. signIn sample_external ''eve@x.org'' ''pw'' (w'\<lparr>now := t\<rparr>) = (Inr tks', w'')" by blast
  moreover have "w'\<lparr>now := now w'\<rparr> = w'" by simp
  ultimately show ?thesis by metis
qed

definition login_world :: world where
  "login_world = sample_world\<lparr>db := sample_db\<lparr>users :=
     [new_user\<lparr>u_id := 0, u_email := ''ann@x.org'', u_password := Some ''$pw''\<rparr>, sample_users ! 1]\<rparr>\<rparr>"

theorem signIn_authentic_witness:
  "\<exists>tks w'. signIn sample_external ''ann@x.org'' ''pw'' login_world = (Inr tks, w') \<and>
     (\<exists>u \<in> set (users (db login_world)). u_email u = ''ann@x.org'' \<and>
        x_bcryptCompare sample_external ''pw'' (or_else (u_password u) []))"
proof -
  have ok: "db_ok (db login_world)"
    by (simp add: login_world_def db_ok_def uniq_def fks_def fresh_def sample_defs)
  let ?u = "new_user\<lparr>u_id := 0, u_email := ''ann@x.org'', u_password := Some ''$pw''\<rparr>"
  have "signIn sample_external ''ann@x.org'' ''pw'' login_world = issue_tokens sample_external ?u login_world"
    by (rule signIn_run) (simp_all add: login_world_def sample_external_def)
  moreover have "u_id ?u \<in> u_id ` set (users (db login_world))" by (simp add: login_world_def)
  ultimately obtain tks w' where run: "signIn sample_external ''ann@x.org'' ''pw'' login_world = (Inr tks, w')"
    using issue_tokens_run [OF ok] by simp
  from run signIn_authentic [OF run] show ?thesis by blast
qed

definition sample_ann :: user where
  "sample_ann = new_user\<lparr>u_id := 0, u_email := ''ann@x.org'',
     u_hashedRefreshToken := Some (x_bcryptHash sample_external
       (tk_refreshToken (tokens_of sample_external new_user 1)) 10 [])\<rparr>"

definition session_world :: world where
  "session_world = sample_world\<lparr>now := 2, db := sample_db\<lparr>users := [sample_ann, sample_users ! 1]\<rparr>\<rparr>"

theorem rotation_keeps_old_token_witness:
  "\<exists>old new again w' w''. refreshTokens sample_external 0 old session_world = (Inr new, w') \<and>
     tk_refreshToken new \<noteq> old \<and> refreshTokens sample_external 0 old (w'\<lparr>now := 3\<rparr>) = (Inr again, w'')"
proof -
  let ?old = "tk_refreshToken (tokens_of sample_external sample_ann 1)"
  have tok: "tk_refreshToken (tokens_of sample_external u t) =
      replicate 72 CHR ''h'' @ replicate (nat (t mod 10)) CHR ''t''" for u t
    by (simp add: tokens_of_def sample_external_def Let_def)
  have ok: "db_ok (db session_world)"
    by (simp add: session_world_def sample_ann_def db_ok_def uniq_def fks_def fresh_def sample_defs)
  have found: "find (\<lambda>u. u_id u = 0) (users (db session_world)) = Some sample_ann"
    by (simp add: session_world_def sample_ann_def new_user_def)
  have "1 < now session_world" by (simp add: session_world_def)
  have hash: "u_hashedRefreshToken sample_ann = Some (x_bcryptHash sample_external ?old 10 [])"
    by (simp add: sample_ann_def tok)
  have cmp: "x_bcryptCompare sample_external ?old (x_bcryptHash sample_external ?old 10 [])"
    using sample_libraries(1) by (simp add: bcrypt_ok_def)
  obtain w' where run: "refreshTokens sample_external 0 ?old session_world =
      (Inr (tokens_of sample_external sample_ann 2), w')"
    using refresh_run [OF ok found hash _ cmp] by (simp add: session_world_def sample_external_def)
  have "\<exists>again w''. refreshTokens sample_external 0 ?old (w'\<lparr>now := 3\<rparr>) = (Inr again, w'')"
    using rotation_keeps_old_token [OF sample_libraries(2,3,1) ok found \<open>1 < now session_world\<close> HOL.refl hash run, of 3]
    by (simp add: session_world_def)
  moreover have "tk_refreshToken (tokens_of sample_external sample_ann 2) \<noteq> ?old" by (simp add: tok numeral_2_eq_2)
  ultimately show ?thesis using run by blast
qed

end
