(* ===== verification/FetchClient.thy ===== *)
theory FetchClient
  imports Validation
begin

text \<open>
  The session of the web client: \<open>lib/token-manager.ts\<close>, \<open>lib/fetch-client.ts\<close>, the fetcher of
  \<open>hooks/use-user.ts\<close>, the logout of \<open>Sidebar.tsx\<close> and the route guard \<open>proxy.ts\<close>. The network is
  a parameter: it answers a request, given the requests before it, with a response or with a
  rejected promise. A client is its cookies, its clock, what it has sent and the browser events
  it has dispatched.
\<close>

section \<open>Cookies: \<open>TokenManager\<close>\<close>

record cookie =
  ck_value :: string
  ck_expires :: time

record net_request =
  nr_method :: string
  nr_url :: string
  nr_authorization :: "string option"
  nr_body :: "json option"

record client =
  cl_cookies :: "string \<Rightarrow> cookie option"
  cl_now :: time
  cl_sent :: "net_request list"
  cl_events :: "string list"
  cl_failure :: "string \<times> string" \<comment> \<open>name and message of the error a fetch without an answer rejects with\<close>

datatype client_error =
    ApiError nat "json option"
  | NetworkError string string \<comment> \<open>name and message\<close>
  | ClientError string

type_synonym 'a client_action = "(client, client_error, 'a) action"

definition get_cookie :: "client \<Rightarrow> string \<Rightarrow> string option" where
  "get_cookie s k = (case cl_cookies s k of
     None \<Rightarrow> None | Some c \<Rightarrow> if cl_now s < ck_expires c \<and> ck_value c \<noteq> [] then Some (ck_value c) else None)"

definition getAccessToken :: "client \<Rightarrow> string option" where
  "getAccessToken s = get_cookie s ''accessToken''"

definition getRefreshToken :: "client \<Rightarrow> string option" where
  "getRefreshToken s = get_cookie s ''refreshToken''"

definition dispatch :: "string \<Rightarrow> client \<Rightarrow> client" where
  "dispatch e s = s\<lparr>cl_events := cl_events s @ [e]\<rparr>"

definition rejection :: "client \<Rightarrow> client_error" where
  \<comment> \<open>\<open>TimeoutError\<close> or \<open>AbortError\<close> of the signal, or the \<open>TypeError\<close> whose message every browser words differently\<close>
  "rejection s = NetworkError (fst (cl_failure s)) (snd (cl_failure s))"

definition setTokens :: "string \<Rightarrow> string \<Rightarrow> client \<Rightarrow> client" where
  \<comment> \<open>expires in 1/96 of a day and in 7 days\<close>
  "setTokens access refresh s = dispatch ''change'' (s\<lparr>cl_cookies := (cl_cookies s)(
     ''accessToken'' \<mapsto> \<lparr>ck_value = access, ck_expires = cl_now s + 86400000 div 96\<rparr>,
     ''refreshToken'' \<mapsto> \<lparr>ck_value = refresh, ck_expires = cl_now s + 7 * 86400000\<rparr>)\<rparr>)"

definition clearTokens :: "client \<Rightarrow> client" where
  "clearTokens s = dispatch ''change'' (s\<lparr>cl_cookies := (cl_cookies s)(
     ''accessToken'' := None, ''refreshToken'' := None)\<rparr>)"

lemma rejection_simps [simp]:
  "rejection (s\<lparr>cl_sent := x\<rparr>) = rejection s" "rejection (setTokens a r s) = rejection s" "rejection (clearTokens s) = rejection s"
  by (simp_all add: rejection_def setTokens_def clearTokens_def dispatch_def)

section \<open>Requests\<close>

record response =
  rs_status :: nat
  rs_contentType :: "string option"
  rs_json :: "json option"
  rs_text :: string

type_synonym network = "net_request list \<Rightarrow> net_request \<Rightarrow> response option"

record request_options =
  ro_skipAuth :: bool
  ro_authorization :: "string option"
  ro_body :: "json option"
  ro_params :: "(string \<times> string option) list option"

definition res_ok :: "response \<Rightarrow> bool" where
  "res_ok r \<longleftrightarrow> 200 \<le> rs_status r \<and> rs_status r \<le> 299"

fun contains_text :: "string \<Rightarrow> string \<Rightarrow> bool" where
  \<comment> \<open>\<open>s.includes(pat)\<close>\<close>
  "contains_text pat [] = (pat = [])"
| "contains_text pat (c # cs) = (take (length pat) (c # cs) = pat \<or> contains_text pat cs)"

definition safeParse :: "response \<Rightarrow> json option client_action" where
  \<comment> \<open>a body that does not parse rejects; 204 is undefined\<close>
  "safeParse r =
     (if (case rs_contentType r of None \<Rightarrow> False | Some ct \<Rightarrow> contains_text ''application/json'' ct)
      then (case rs_json r of None \<Rightarrow> throw (ClientError ''SyntaxError'') | Some j \<Rightarrow> ret (Some j))
      else if rs_status r = 204 then ret None
      else ret (Some (JStr (rs_text r))))"

definition doFetch :: "network \<Rightarrow> net_request \<Rightarrow> response client_action" where
  \<comment> \<open>\<open>fetch\<close>; without an answer it rejects\<close>
  "doFetch net req =
     andThen (gets cl_sent) (\<lambda>sent.
     andThen (modify (\<lambda>s. s\<lparr>cl_sent := cl_sent s @ [req]\<rparr>)) (\<lambda>_.
     andThen (gets rejection) (\<lambda>error.
     orThrow (net sent req) error)))"

definition bearer :: "string \<Rightarrow> string" where
  "bearer token = ''Bearer '' @ token"

definition refreshTokens_client :: "string \<Rightarrow> network \<Rightarrow> string client_action" where
  \<comment> \<open>\<open>FetchClient.refreshTokens\<close> when no refresh is under way; the new access token\<close>
  "refreshTokens_client baseUrl net =
     andThen (gets getRefreshToken) (\<lambda>found.
     andThen (orThrow found (ClientError ''No refresh token'')) (\<lambda>refreshToken.
     andThen (doFetch net \<lparr>nr_method = ''POST'', nr_url = baseUrl @ ''/auth/refresh'',
       nr_authorization = Some (bearer refreshToken), nr_body = None\<rparr>) (\<lambda>response.
     andThen (throwIf (\<not> res_ok response) (ClientError ''Refresh failed'')) (\<lambda>_.
     andThen (orThrow (rs_json response) (ClientError ''SyntaxError'')) (\<lambda>data.
     andThen (modify (setTokens (text_of data ''accessToken'') (text_of data ''refreshToken''))) (\<lambda>_.
     ret (text_of data ''accessToken'')))))))"

definition buildUrl :: "((string \<times> string) list \<Rightarrow> string) \<Rightarrow> string \<Rightarrow> string \<Rightarrow> (string \<times> string option) list option \<Rightarrow> string" where
  \<comment> \<open>\<open>encode\<close> is \<open>URLSearchParams.toString\<close>; undefined values are left out\<close>
  "buildUrl encode baseUrl url params =
     (case params of
        None \<Rightarrow> baseUrl @ url
      | Some ps \<Rightarrow> baseUrl @ url @ ''?'' @ encode (List.map_filter (\<lambda>(k, v). map_option (Pair k) v) ps))"

definition log_out :: "client \<Rightarrow> client" where
  "log_out s = dispatch ''auth:logout'' (clearTokens s)"

definition retried :: "string \<Rightarrow> network \<Rightarrow> net_request \<Rightarrow> response client_action" where
  \<comment> \<open>the try block after a 401: refresh, then the same request with the new token\<close>
  "retried baseUrl net req =
     andThen (refreshTokens_client baseUrl net) (\<lambda>newToken.
     andThen (throwIf (newToken = []) (ClientError ''Refresh failed'')) (\<lambda>_.
     doFetch net (req\<lparr>nr_authorization := Some (bearer newToken)\<rparr>)))"

definition request_client ::
    "((string \<times> string) list \<Rightarrow> string) \<Rightarrow> string \<Rightarrow> network \<Rightarrow> string \<Rightarrow> string \<Rightarrow> request_options \<Rightarrow> json option client_action" where
  \<comment> \<open>\<open>FetchClient.request\<close>\<close>
  "request_client encode baseUrl net meth url opts =
     andThen (gets (\<lambda>s. if ro_skipAuth opts then None else getAccessToken s)) (\<lambda>token.
     let req = \<lparr>nr_method = meth, nr_url = buildUrl encode baseUrl url (ro_params opts),
       nr_authorization = (case token of Some t \<Rightarrow> Some (bearer t) | None \<Rightarrow> ro_authorization opts),
       nr_body = (case ro_body opts of Some b \<Rightarrow> if js_truthy b then Some b else None | None \<Rightarrow> None)\<rparr>
     in
     andThen (doFetch net req) (\<lambda>res.
     andThen (gets getRefreshToken) (\<lambda>refresh.
     andThen (if rs_status res = 401 \<and> \<not> ro_skipAuth opts \<and> refresh \<noteq> None
              then tryCatch (retried baseUrl net req) (\<lambda>error. andThen (modify log_out) (\<lambda>_. throw error))
              else ret res) (\<lambda>final.
     if \<not> res_ok final then andThen (safeParse final) (\<lambda>errorData. throw (ApiError (rs_status final) errorData))
     else safeParse final))))"

section \<open>Users of the client\<close>

definition is_no_answer :: "string \<Rightarrow> string \<Rightarrow> bool" where
  \<comment> \<open>\<open>isTimeout || isNetworkError\<close>: by name, or by the wording of Chromium\<close>
  "is_no_answer name message \<longleftrightarrow> name = ''TimeoutError'' \<or> name = ''AbortError'' \<or> message = ''Failed to fetch''"

fun says_failed :: "json option \<Rightarrow> bool" where
  \<comment> \<open>the message of the error is the one of the body; the status line of an answer never reads so\<close>
  "says_failed (Some (JObj kvs)) = (map_of kvs ''message'' = Some (JStr ''Failed to fetch''))"
| "says_failed data = False"

definition user_fetcher ::
    "((string \<times> string) list \<Rightarrow> string) \<Rightarrow> string \<Rightarrow> network \<Rightarrow> json option client_action" where
  \<comment> \<open>the fetcher of \<open>useUser\<close>: a 401, a timeout or a network failure it recognises ends the session\<close>
  "user_fetcher encode baseUrl net =
     tryCatch (request_client encode baseUrl net ''GET'' ''/auth/me''
         \<lparr>ro_skipAuth = False, ro_authorization = None, ro_body = None, ro_params = None\<rparr>)
       (\<lambda>error. andThen (case error of
            ApiError status data \<Rightarrow> if status = 401 \<or> says_failed data then modify log_out else ret ()
          | NetworkError name message \<Rightarrow> if is_no_answer name message then modify log_out else ret ()
          | ClientError msg \<Rightarrow> ret ()) (\<lambda>_. throw error))"

definition handleLogout ::
    "((string \<times> string) list \<Rightarrow> string) \<Rightarrow> string \<Rightarrow> network \<Rightarrow> unit client_action" where
  \<comment> \<open>\<open>Sidebar.handleLogout\<close>: the cookies go whatever the API says\<close>
  "handleLogout encode baseUrl net =
     andThen (tryCatch (andThen (request_client encode baseUrl net ''POST'' ''/auth/logout''
           \<lparr>ro_skipAuth = False, ro_authorization = None, ro_body = None, ro_params = None\<rparr>) (\<lambda>_. ret ()))
         (\<lambda>error. ret ())) (\<lambda>_.
     modify clearTokens)"

definition callback_page :: "string option \<Rightarrow> string option \<Rightarrow> client \<Rightarrow> string \<times> client" where
  \<comment> \<open>\<open>CallbackClient\<close>: where it goes to, and the cookies\<close>
  "callback_page access refresh s =
     (if truthy_opt access \<and> truthy_opt refresh
      then (''/dashboard'', setTokens (the access) (the refresh) s)
      else (''/auth?error=oauth_failed'', s))"

section \<open>The route guard: \<open>proxy.ts\<close>\<close>

datatype proxy_reply =
    NextPage
  | NextWithCookies "(string \<times> string \<times> nat) list"
  | RedirectToLogin string

definition getJwtSecretKey :: "string option \<Rightarrow> string" where
  "getJwtSecretKey secret = (if truthy_opt secret then the secret else ''fallback_secret'')"

definition proxy ::
    "(string \<Rightarrow> string \<Rightarrow> bool) \<Rightarrow> string option \<Rightarrow> string \<Rightarrow> network \<Rightarrow> string option \<Rightarrow> string option \<Rightarrow> string \<Rightarrow>
     client \<Rightarrow> proxy_reply" where
  \<comment> \<open>\<open>verify token secret\<close> is jose's \<open>jwtVerify\<close>; the cookies get their max-age in seconds\<close>
  "proxy verify env_secret apiUrl net accessToken refreshToken pathname s =
     (if truthy_opt accessToken \<and> verify (the accessToken) (getJwtSecretKey env_secret) then NextPage
      else if \<not> truthy_opt accessToken \<and> \<not> truthy_opt refreshToken then RedirectToLogin pathname
      else if truthy_opt refreshToken
      then (case fst (request_client (\<lambda>ps. []) apiUrl net ''POST'' ''/auth/refresh''
                 \<lparr>ro_skipAuth = True, ro_authorization = Some (bearer (the refreshToken)), ro_body = None,
                  ro_params = None\<rparr> s) of
              Inl error \<Rightarrow> RedirectToLogin pathname
            | Inr None \<Rightarrow> RedirectToLogin pathname
            | Inr (Some data) \<Rightarrow> NextWithCookies
                [(''accessToken'', text_of data ''accessToken'', 60),
                 (''refreshToken'', text_of data ''refreshToken'', 7 * 24 * 60 * 60)])
      else RedirectToLogin pathname)"

end
