(* ===== verification/FetchLaws.thy ===== *)
theory FetchLaws
  imports FetchClient
begin

text \<open>
  Laws of the client's session: how many requests one call can send, when it ends the session,
  and which visitors the route guard lets through.
\<close>

section \<open>Steps\<close>

lemma doFetch_run [action_simps]:
  "doFetch net req s = (case net (cl_sent s) req of
     None \<Rightarrow> (Inl (rejection s), s\<lparr>cl_sent := cl_sent s @ [req]\<rparr>)
   | Some r \<Rightarrow> (Inr r, s\<lparr>cl_sent := cl_sent s @ [req]\<rparr>))"
  by (simp add: doFetch_def action_simps split: option.splits)

lemma rejection_log_out [simp]: "rejection (log_out s) = rejection s"
  by (simp add: log_out_def rejection_def clearTokens_def dispatch_def)

lemma andThen_doFetch:
  "andThen (doFetch net req) f s = (case net (cl_sent s) req of
     None \<Rightarrow> (Inl (rejection s), s\<lparr>cl_sent := cl_sent s @ [req]\<rparr>)
   | Some r \<Rightarrow> f r (s\<lparr>cl_sent := cl_sent s @ [req]\<rparr>))"
  by (simp add: andThen_def doFetch_run split: option.split)

lemma andThen_tryCatch:
  "andThen (tryCatch m h) f s = (case m s of (Inl e, t) \<Rightarrow> andThen (h e) f t | (Inr x, t) \<Rightarrow> f x t)"
  by (simp add: andThen_def tryCatch_def split: prod.split sum.split)

lemma sent_simps [simp]:
  "cl_sent (setTokens a r s) = cl_sent s" "cl_sent (clearTokens s) = cl_sent s" "cl_sent (log_out s) = cl_sent s"
  "getRefreshToken (s\<lparr>cl_sent := q\<rparr>) = getRefreshToken s" "getAccessToken (s\<lparr>cl_sent := q\<rparr>) = getAccessToken s"
  by (simp_all add: setTokens_def clearTokens_def log_out_def dispatch_def getRefreshToken_def getAccessToken_def get_cookie_def
      split: option.splits)

lemma session_simps [simp]:
  "getAccessToken (log_out s) = None" "getRefreshToken (log_out s) = None"
  by (simp_all add: log_out_def clearTokens_def dispatch_def getAccessToken_def getRefreshToken_def get_cookie_def)

definition refresh_request :: "string \<Rightarrow> string \<Rightarrow> net_request" where
  "refresh_request baseUrl rt = \<lparr>nr_method = ''POST'', nr_url = baseUrl @ ''/auth/refresh'',
     nr_authorization = Some (bearer rt), nr_body = None\<rparr>"

lemma safeParse_state: "snd (safeParse r s) = s"
  by (simp add: safeParse_def action_simps split: option.splits)

lemma refresh_sends:
  assumes "getRefreshToken s = Some rt" and "refreshTokens_client base net s = (r, s')"
  shows "cl_sent s' = cl_sent s @ [refresh_request base rt]"
    and "\<forall>t. r = Inr t \<longrightarrow> (\<exists>res data. net (cl_sent s) (refresh_request base rt) = Some res \<and> res_ok res \<and>
        rs_json res = Some data \<and> t = text_of data ''accessToken'' \<and>
        s' = setTokens t (text_of data ''refreshToken'') (s\<lparr>cl_sent := cl_sent s @ [refresh_request base rt]\<rparr>))"
  using assms
  by (auto simp: refreshTokens_client_def action_simps andThen_def refresh_request_def split: option.splits if_splits)

lemma retried_sends:
  assumes rt: "getRefreshToken s = Some rt" and run: "retried base net req s = (r, s')"
  shows "\<exists>qs. cl_sent s' = cl_sent s @ refresh_request base rt # qs \<and>
    (qs = [] \<or> (\<exists>res data. net (cl_sent s) (refresh_request base rt) = Some res \<and> res_ok res \<and> rs_json res = Some data \<and>
       qs = [req\<lparr>nr_authorization := Some (bearer (text_of data ''accessToken''))\<rparr>]))"
proof -
  obtain r1 s1 where one: "refreshTokens_client base net s = (r1, s1)" by fastforce
  note ref = refresh_sends [OF rt one]
  show ?thesis
  proof (cases r1)
    case (Inl e)
    then show ?thesis using run one ref(1) by (simp add: retried_def andThen_def)
  next
    case (Inr t)
    with ref(2) obtain res data where d: "net (cl_sent s) (refresh_request base rt) = Some res" "res_ok res"
      "rs_json res = Some data" "t = text_of data ''accessToken''" by blast
    show ?thesis
    proof (cases "t = []")
      case True
      then show ?thesis using run one Inr ref(1) by (simp add: retried_def andThen_def action_simps)
    next
      case False
      then show ?thesis
        using run one Inr ref(1) d
        by (auto simp: retried_def andThen_def action_simps split: option.splits)
    qed
  qed
qed

section \<open>One call\<close>

lemma finish_run:
  "snd ((if \<not> res_ok final then andThen (safeParse final) (\<lambda>errorData. throw (ApiError (rs_status final) errorData))
     else safeParse final) s) = s"
  by (auto simp: safeParse_def action_simps andThen_def split: option.splits)

definition first_request ::
    "((string \<times> string) list \<Rightarrow> string) \<Rightarrow> string \<Rightarrow> string \<Rightarrow> string \<Rightarrow> request_options \<Rightarrow> client \<Rightarrow> net_request" where
  "first_request encode base meth url opts s = \<lparr>nr_method = meth, nr_url = buildUrl encode base url (ro_params opts),
     nr_authorization = (case (if ro_skipAuth opts then None else getAccessToken s) of
        Some t \<Rightarrow> Some (bearer t) | None \<Rightarrow> ro_authorization opts),
     nr_body = (case ro_body opts of Some b \<Rightarrow> if js_truthy b then Some b else None | None \<Rightarrow> None)\<rparr>"

lemma request_run:
  "request_client encode base net meth url opts s =
    (let req = first_request encode base meth url opts s; s1 = s\<lparr>cl_sent := cl_sent s @ [req]\<rparr>;
         finish = (\<lambda>final. if \<not> res_ok final then andThen (safeParse final) (\<lambda>errorData. throw (ApiError (rs_status final) errorData))
                   else safeParse final)
     in case net (cl_sent s) req of
          None \<Rightarrow> (Inl (rejection s), s1)
        | Some res \<Rightarrow>
            if rs_status res = 401 \<and> \<not> ro_skipAuth opts \<and> getRefreshToken s \<noteq> None
            then (case retried base net req s1 of
                    (Inl e, s2) \<Rightarrow> (Inl e, log_out s2)
                  | (Inr final, s2) \<Rightarrow> finish final s2)
            else finish res s1)"
  unfolding request_client_def Let_def andThen_gets first_request_def [symmetric]
  by (simp add: andThen_doFetch andThen_gets andThen_if andThen_tryCatch andThen_modify andThen_ret andThen_assoc andThen_throw
      cong: option.case_cong if_cong sum.case_cong prod.case_cong)

text \<open>
  One call of the web client sends at most three requests - the call, one refresh, one
  retry - and the last two only after a 401 with a refresh token at hand.
\<close>

theorem request_bounded:
  assumes "request_client encode base net meth url opts s = (r, s')"
  shows "\<exists>rest. cl_sent s' = cl_sent s @ first_request encode base meth url opts s # rest \<and> length rest \<le> 2 \<and>
    (rest \<noteq> [] \<longrightarrow> (\<exists>res rt. net (cl_sent s) (first_request encode base meth url opts s) = Some res \<and> rs_status res = 401 \<and>
       \<not> ro_skipAuth opts \<and> getRefreshToken s = Some rt \<and> hd rest = refresh_request base rt))"
proof -
  let ?req = "first_request encode base meth url opts s"
  let ?s1 = "s\<lparr>cl_sent := cl_sent s @ [?req]\<rparr>"
  show ?thesis
  proof (cases "\<exists>res rt. net (cl_sent s) ?req = Some res \<and> rs_status res = 401 \<and> \<not> ro_skipAuth opts \<and> getRefreshToken s = Some rt")
    case False
    have "snd (request_client encode base net meth url opts s) = ?s1"
      using False finish_run by (auto simp: request_run Let_def split: option.splits)
    then have "s' = ?s1" using assms by simp
    then show ?thesis by simp
  next
    case True
    then obtain res rt where c: "net (cl_sent s) ?req = Some res" "rs_status res = 401" "\<not> ro_skipAuth opts"
      "getRefreshToken s = Some rt" by blast
    obtain r2 s2 where two: "retried base net ?req ?s1 = (r2, s2)" by fastforce
    have "getRefreshToken ?s1 = Some rt" using c by simp
    from retried_sends [OF this two] obtain qs where qs: "cl_sent s2 = cl_sent ?s1 @ refresh_request base rt # qs" "length qs \<le> 1"
      by fastforce
    have "cl_sent (snd (request_client encode base net meth url opts s)) = cl_sent s2"
      using c two finish_run by (auto simp: request_run Let_def split: sum.splits)
    then have "cl_sent s' = cl_sent s @ ?req # refresh_request base rt # qs" using assms qs by simp
    then show ?thesis using c qs(2) by (intro exI [of _ "refresh_request base rt # qs"]) auto
  qed
qed

theorem retry_failure_logs_out:
  assumes "getRefreshToken s = Some rt" and "\<not> ro_skipAuth opts"
    and "req = first_request encode base meth url opts s"
    and "net (cl_sent s) req = Some res" and "rs_status res = 401"
    and "net (cl_sent s @ [req]) (refresh_request base rt) = Some answer" and "res_ok answer" and "rs_json answer = Some data"
    and "text_of data ''accessToken'' \<noteq> []"
    and "\<And>q. net (cl_sent s @ [req, refresh_request base rt]) q = None"
    and "request_client encode base net meth url opts s = (r, s')"
  shows "r = Inl (rejection s) \<and> getAccessToken s' = None \<and> getRefreshToken s' = None \<and>
    last (cl_events s') = ''auth:logout''"
proof -
  let ?s1 = "s\<lparr>cl_sent := cl_sent s @ [req]\<rparr>"
  have "retried base net req ?s1 = (Inl (rejection s), snd (retried base net req ?s1))"
    using assms(1,6-10) unfolding refresh_request_def
    by (simp add: retried_def refreshTokens_client_def andThen_def action_simps)
  then obtain s2 where two: "retried base net req ?s1 = (Inl (rejection s), s2)" by blast
  have "request_client encode base net meth url opts s = (Inl (rejection s), log_out s2)"
    using assms(1,2,4,5) two by (simp add: request_run assms(3) [symmetric] Let_def)
  then have "r = Inl (rejection s)" and s': "s' = log_out s2" using assms(11) by simp_all
  moreover have "last (cl_events (log_out s2)) = ''auth:logout''" by (simp add: log_out_def dispatch_def)
  ultimately show ?thesis by simp
qed

section \<open>The route guard\<close>

text \<open>
  C31. The route guard lets a page through exactly when the access token verifies (under the
  constant fallback_secret when JWT_SECRET is unset), and otherwise only after the API exchanged
  the refresh token: the two tokens of that answer, and nothing else, become the new cookies,
  for a minute and for seven days.
\<close>

theorem proxy_admits:
  "(proxy verify secret api net access refresh path s = NextPage \<longleftrightarrow>
      truthy_opt access \<and> verify (the access) (getJwtSecretKey secret)) \<and>
   (proxy verify secret api net access refresh path s = NextWithCookies cs \<longrightarrow>
      (\<exists>rt res data. refresh = Some rt \<and> net (cl_sent s) (refresh_request api rt) = Some res \<and> res_ok res \<and>
         fst (safeParse res s) = Inr (Some data) \<and>
         cs = [(''accessToken'', text_of data ''accessToken'', 60), (''refreshToken'', text_of data ''refreshToken'', 604800)]))"
proof -
  have req: "first_request (\<lambda>ps. []) api ''POST'' ''/auth/refresh'' \<lparr>ro_skipAuth = True, ro_authorization = Some (bearer rt),
      ro_body = None, ro_params = None\<rparr> s = refresh_request api rt" for rt
    by (simp add: first_request_def refresh_request_def buildUrl_def)
  have parse: "fst (safeParse res t) = fst (safeParse res t')" for res and t t' :: client
    by (simp add: safeParse_def ret_run throw_run split: option.split)
  have same: "fst (safeParse res s) = r" if "safeParse res t = (r, t')" for res r and t t' :: client
    using parse [of res s t] that by simp
  show ?thesis
    by (auto dest!: same simp: proxy_def request_run req Let_def action_simps andThen_def truthy_opt_def split: option.splits if_splits sum.splits prod.splits)
qed

section \<open>Closed examples\<close>

definition signed_in :: client where
  "signed_in = \<lparr>cl_cookies = (\<lambda>k. None)(''refreshToken'' \<mapsto> \<lparr>ck_value = ''r1'', ck_expires = 1000\<rparr>), cl_now = 0,
     cl_sent = [], cl_events = [], cl_failure = (''TypeError'', ''Failed to fetch'')\<rparr>"

definition json_response :: "nat \<Rightarrow> json \<Rightarrow> response" where
  "json_response st j = \<lparr>rs_status = st, rs_contentType = Some ''application/json'', rs_json = Some j, rs_text = []\<rparr>"

definition new_tokens :: json where
  "new_tokens = JObj [(''accessToken'', JStr ''a2''), (''refreshToken'', JStr ''r2'')]"

lemma new_access: "text_of new_tokens ''accessToken'' = ''a2''"
proof -
  have "member_of new_tokens ''accessToken'' = Some (JStr ''a2'')" by (simp add: new_tokens_def)
  then show ?thesis by (simp add: text_of_def str_field_def)
qed

definition flaky_network :: network where
  \<comment> \<open>refuses the request, refreshes the tokens, then is gone\<close>
  "flaky_network sent q = (case length sent of
     0 \<Rightarrow> Some (json_response 401 JNull) | Suc 0 \<Rightarrow> Some (json_response 200 new_tokens) | _ \<Rightarrow> None)"

definition plain_get :: request_options where
  "plain_get = \<lparr>ro_skipAuth = False, ro_authorization = None, ro_body = None, ro_params = None\<rparr>"

lemma signed_in_token: "getRefreshToken signed_in = Some ''r1''"
  by (simp add: signed_in_def getRefreshToken_def get_cookie_def)

theorem retry_failure_logs_out_witness:
  "\<exists>s'. request_client (\<lambda>ps. []) ''api'' flaky_network ''GET'' ''/projects'' plain_get signed_in =
     (Inl (NetworkError ''TypeError'' ''Failed to fetch''), s') \<and> getRefreshToken s' = None"
proof -
  let ?req = "first_request (\<lambda>ps. []) ''api'' ''GET'' ''/projects'' plain_get signed_in"
  obtain r s' where run: "request_client (\<lambda>ps. []) ''api'' flaky_network ''GET'' ''/projects'' plain_get signed_in = (r, s')"
    by fastforce
  have "cl_sent signed_in = []" by (simp add: signed_in_def)
  then have net: "flaky_network (cl_sent signed_in) ?req = Some (json_response 401 JNull)"
    "flaky_network (cl_sent signed_in @ [?req]) (refresh_request ''api'' ''r1'') = Some (json_response 200 new_tokens)"
    "\<And>q. flaky_network (cl_sent signed_in @ [?req, refresh_request ''api'' ''r1'']) q = None"
    by (simp_all add: flaky_network_def)
  have "r = Inl (rejection signed_in) \<and> getAccessToken s' = None \<and> getRefreshToken s' = None \<and>
      last (cl_events s') = ''auth:logout''"
    by (rule retry_failure_logs_out [where data = new_tokens, OF signed_in_token _ HOL.refl net(1) _ net(2) _ _ _ net(3) run])
      (simp_all add: plain_get_def json_response_def res_ok_def new_access)
  moreover have "rejection signed_in = NetworkError ''TypeError'' ''Failed to fetch''" by (simp add: rejection_def signed_in_def)
  ultimately show ?thesis using run by auto
qed

theorem request_bounded_witness:
  "\<exists>r s'. request_client (\<lambda>ps. []) ''api'' flaky_network ''GET'' ''/projects'' plain_get signed_in = (r, s') \<and>
     length (cl_sent s') \<le> 3"
proof -
  obtain r s' where run: "request_client (\<lambda>ps. []) ''api'' flaky_network ''GET'' ''/projects'' plain_get signed_in = (r, s')"
    by fastforce
  have "cl_sent signed_in = []" by (simp add: signed_in_def)
  with request_bounded [OF run] run show ?thesis by auto
qed

lemma new_refresh: "text_of new_tokens ''refreshToken'' = ''r2''"
proof -
  have "member_of new_tokens ''refreshToken'' = Some (JStr ''r2'')" by (simp add: new_tokens_def)
  then show ?thesis by (simp add: text_of_def str_field_def)
qed

theorem proxy_admits_witness:
  "proxy (\<lambda>t k. t = k) None ''api'' (\<lambda>sent q. Some (json_response 200 new_tokens)) (Some ''old'') (Some ''r1'') ''/dashboard'' signed_in =
     NextWithCookies [(''accessToken'', ''a2'', 60), (''refreshToken'', ''r2'', 604800)] \<and>
   proxy (\<lambda>t k. t = k) None ''api'' (\<lambda>sent q. None) (Some ''fallback_secret'') None ''/dashboard'' signed_in = NextPage"
proof -
  let ?p = "proxy (\<lambda>t k. t = k) None ''api'' (\<lambda>sent q. Some (json_response 200 new_tokens)) (Some ''old'') (Some ''r1'') ''/dashboard'' signed_in"
  obtain cs where cs: "?p = NextWithCookies cs"
    by (simp add: proxy_def getJwtSecretKey_def truthy_opt_def truthy_def request_run Let_def json_response_def res_ok_def
        safeParse_def ret_run)
  from proxy_admits [THEN conjunct2, THEN mp, OF cs]
  have "cs = [(''accessToken'', ''a2'', 60), (''refreshToken'', ''r2'', 604800)]"
    by (auto simp: json_response_def new_access new_refresh safeParse_def ret_run throw_run split: if_splits)
  moreover have "proxy (\<lambda>t k. t = k) None ''api'' (\<lambda>sent q. None) (Some ''fallback_secret'') None ''/dashboard'' signed_in = NextPage"
    by (rule proxy_admits [THEN conjunct1, THEN iffD2]) (simp add: getJwtSecretKey_def truthy_opt_def truthy_def)
  ultimately show ?thesis using cs by blast
qed

end
