(* ===== verification/LogViewer.thy ===== *)
theory LogViewer
  imports DeploymentLaws
begin

text \<open>
  The log viewer of the web client, \<open>hooks/use-deployment-logs.ts\<close>, as a state machine, and the
  API it polls. The React states and refs of the hook are the fields of one record; the bodies
  of the callbacks and effects are functions on it. \<open>setState\<close> calls of one callback are applied
  together, as React batches them, and an effect runs after them when it depends on what they
  changed. A timer or interval is the flag that it is pending.
\<close>

section \<open>The hook\<close>

record viewer_options =
  vo_deploymentId :: "uuid option"
  vo_source :: "log_source option"
  vo_enabled :: bool
  vo_dripInterval :: nat

record viewer =
  vw_logs :: "log_entry list"
  vw_isLive :: bool
  vw_status :: "deployment_status option"
  vw_isLoading :: bool
  vw_error :: "api_error option"
  vw_buffer :: "log_entry list"
  vw_dripTimer :: bool
  vw_dripping :: bool
  vw_cursor :: "time option"
  vw_interval :: bool
  vw_fetching :: bool
  vw_lastConfig :: "(uuid \<times> log_source option) option"
  vw_firstBatch :: bool

definition viewer_init :: viewer where
  "viewer_init = \<lparr>vw_logs = [], vw_isLive = False, vw_status = None, vw_isLoading = True, vw_error = None,
     vw_buffer = [], vw_dripTimer = False, vw_dripping = False, vw_cursor = None, vw_interval = False,
     vw_fetching = False, vw_lastConfig = None, vw_firstBatch = True\<rparr>"

definition drip :: "viewer \<Rightarrow> viewer" where
  "drip v = (case vw_buffer v of
       [] \<Rightarrow> v\<lparr>vw_dripping := False, vw_dripTimer := False\<rparr>
     | x # xs \<Rightarrow> v\<lparr>vw_buffer := xs, vw_logs := vw_logs v @ [x], vw_dripTimer := True\<rparr>)"

definition startDrip :: "viewer \<Rightarrow> viewer" where
  "startDrip v = (if vw_dripping v then v else drip (v\<lparr>vw_dripping := True\<rparr>))"

definition enqueueLogs :: "viewer_options \<Rightarrow> log_entry list \<Rightarrow> bool \<Rightarrow> viewer \<Rightarrow> viewer" where
  "enqueueLogs p incoming immediate v =
     (if incoming = [] then v
      else if immediate \<or> vo_dripInterval p = 0 then v\<lparr>vw_logs := vw_logs v @ incoming\<rparr>
      else startDrip (v\<lparr>vw_buffer := vw_buffer v @ incoming\<rparr>))"

definition logs_answer :: "viewer_options \<Rightarrow> api_error + logs_page \<Rightarrow> viewer \<Rightarrow> viewer" where
  \<comment> \<open>\<open>fetchLogs\<close> from the answer of the API on, including the finally block\<close>
  "logs_answer p answer v =
     (case answer of
        Inl e \<Rightarrow> v\<lparr>vw_error := Some e, vw_isLoading := False, vw_fetching := False\<rparr>
      | Inr data \<Rightarrow>
          (let v1 = (if lp_logs data = [] then v
                     else (enqueueLogs p (lp_logs data) (vw_firstBatch v) v)
                            \<lparr>vw_firstBatch := False, vw_cursor := lp_nextCursor data\<rparr>)
           in v1\<lparr>vw_isLive := lp_isLive data, vw_status := Some (lp_status data), vw_error := None,
                 vw_isLoading := False, vw_fetching := False\<rparr>))"

definition fetchLogs :: "uuid \<Rightarrow> world \<Rightarrow> viewer_options \<Rightarrow> viewer \<Rightarrow> viewer" where
  \<comment> \<open>the whole callback, for the user \<open>u\<close> and the API in state \<open>w\<close>\<close>
  "fetchLogs u w p v =
     (case vo_deploymentId p of
        None \<Rightarrow> v
      | Some i \<Rightarrow>
          if vw_fetching v then v
          else logs_answer p (fst (deploymentsService_getLogs u i (vo_source p) (vw_cursor v) (limit_param (Some ''200'')) w))
                 (v\<lparr>vw_fetching := True\<rparr>))"

definition effect_config :: "uuid \<Rightarrow> world \<Rightarrow> viewer_options \<Rightarrow> viewer \<Rightarrow> viewer" where
  \<comment> \<open>the effect on \<open>[deploymentId, source, enabled, fetchLogs]\<close>\<close>
  "effect_config u w p v =
     (case vo_deploymentId p of
        None \<Rightarrow> v
      | Some i \<Rightarrow>
          if \<not> vo_enabled p then v
          else fetchLogs u w p
            (if vw_lastConfig v = Some (i, vo_source p) then v
             else v\<lparr>vw_logs := [], vw_isLoading := True, vw_error := None, vw_cursor := None, vw_buffer := [],
                    vw_firstBatch := True, vw_dripping := False, vw_dripTimer := False,
                    vw_lastConfig := Some (i, vo_source p)\<rparr>))"

definition effect_interval :: "viewer_options \<Rightarrow> viewer \<Rightarrow> viewer" where
  "effect_interval p v = (if \<not> vo_enabled p \<or> vo_deploymentId p = None then v else v\<lparr>vw_interval := True\<rparr>)"

definition effect_settled :: "uuid \<Rightarrow> world \<Rightarrow> viewer_options \<Rightarrow> viewer \<Rightarrow> viewer" where
  \<comment> \<open>the effect on \<open>[isLive, isLoading, fetchLogs]\<close>: one last fetch, then no more polling\<close>
  "effect_settled u w p v =
     (if \<not> vw_isLive v \<and> \<not> vw_isLoading v \<and> vw_interval v
      then (fetchLogs u w p v)\<lparr>vw_interval := False\<rparr> else v)"

definition clear_logs :: "viewer \<Rightarrow> viewer" where
  "clear_logs v = v\<lparr>vw_logs := [], vw_buffer := [], vw_cursor := None, vw_firstBatch := True,
     vw_dripTimer := False, vw_dripping := False\<rparr>"

section \<open>What happens to it\<close>

text \<open>
  The events of a mounted viewer: a tick of the interval, if it is still set, and a tick of the
  drip timer. Opening the page runs the first two effects; the answer to the first fetch and
  every later answer can end the loading or the live phase, which runs the third.
\<close>

definition poll_tick :: "uuid \<Rightarrow> world \<Rightarrow> viewer_options \<Rightarrow> viewer \<Rightarrow> viewer" where
  "poll_tick u w p v =
     (if \<not> vw_interval v then v
      else (let v1 = fetchLogs u w p v
            in if vw_isLive v1 = vw_isLive v \<and> vw_isLoading v1 = vw_isLoading v then v1 else effect_settled u w p v1))"

definition drip_tick :: "viewer \<Rightarrow> viewer" where
  "drip_tick v = (if vw_dripTimer v then drip v else v)"

definition opened :: "uuid \<Rightarrow> world \<Rightarrow> viewer_options \<Rightarrow> viewer" where
  "opened u w p = effect_settled u w p (effect_interval p (effect_config u w p viewer_init))"

section \<open>Dripping only delays\<close>

abbreviation "received v \<equiv> vw_logs v @ vw_buffer v"

lemma received_drip [simp]: "received (drip v) = received v"
  by (simp add: drip_def split: list.splits)

lemma drip_fields [simp]:
  "vw_cursor (drip v) = vw_cursor v" "vw_firstBatch (drip v) = vw_firstBatch v" "vw_interval (drip v) = vw_interval v"
  "vw_isLive (drip v) = vw_isLive v" "vw_isLoading (drip v) = vw_isLoading v" "vw_fetching (drip v) = vw_fetching v"
  "vw_lastConfig (drip v) = vw_lastConfig v"
  by (simp_all add: drip_def split: list.splits)

lemma enqueue_fields [simp]:
  "vw_cursor (enqueueLogs p xs immediate v) = vw_cursor v" "vw_interval (enqueueLogs p xs immediate v) = vw_interval v"
  "vw_isLive (enqueueLogs p xs immediate v) = vw_isLive v" "vw_isLoading (enqueueLogs p xs immediate v) = vw_isLoading v"
  "vw_fetching (enqueueLogs p xs immediate v) = vw_fetching v"
  by (simp_all add: enqueueLogs_def startDrip_def)

definition dripping_ok :: "viewer_options \<Rightarrow> viewer \<Rightarrow> bool" where
  "dripping_ok p v \<longleftrightarrow> (vw_buffer v \<noteq> [] \<longrightarrow> vw_dripping v \<and> \<not> vw_firstBatch v \<and> vo_dripInterval p \<noteq> 0) \<and>
     (vw_dripping v \<longrightarrow> vw_dripTimer v)"

lemma dripping_ok_drip: "dripping_ok p v \<Longrightarrow> dripping_ok p (drip v)"
  by (auto simp: dripping_ok_def drip_def split: list.splits)

lemma enqueue_received:
  assumes "dripping_ok p v" and "immediate \<longrightarrow> vw_buffer v = []" and "xs \<noteq> []"
  shows "received (enqueueLogs p xs immediate v) = received v @ xs"
    and "dripping_ok p ((enqueueLogs p xs immediate v)\<lparr>vw_firstBatch := False, vw_cursor := c\<rparr>)"
  using assms
  by (auto simp: enqueueLogs_def startDrip_def dripping_ok_def drip_def split: list.splits)

section \<open>How far the viewer has read\<close>

definition last_time :: "log_entry list \<Rightarrow> time option" where
  "last_time xs = (if xs = [] then None else Some (log_timestamp (last xs)))"

definition has_read :: "viewer_options \<Rightarrow> log_entry list \<Rightarrow> viewer \<Rightarrow> bool" where
  \<comment> \<open>everything up to the cursor, and nothing more, has arrived\<close>
  "has_read p xs v \<longleftrightarrow> received v = xs \<and> vw_cursor v = last_time xs \<and> (vw_firstBatch v \<longleftrightarrow> xs = []) \<and>
     \<not> vw_fetching v \<and> dripping_ok p v"

lemma rest_after:
  assumes "distinct (map log_timestamp (matching_logs d i s None))"
  shows "matching_logs d i s (last_time (take k (matching_logs d i s None))) = drop k (matching_logs d i s None)"
proof (cases "take k (matching_logs d i s None) = []")
  case True
  then show ?thesis by (auto simp: last_time_def)
next
  case False
  let ?m = "matching_logs d i s None"
  have "matching_logs d i s (Some (log_timestamp (last (take k ?m)))) = filter (\<lambda>l. log_timestamp (last (take k ?m)) < log_timestamp l) ?m"
    by (rule matching_logs_later) simp
  also have "\<dots> = drop k ?m"
    by (rule strict_sorted_rest [OF matching_logs_sorted assms]) (use False in auto)
  finally show ?thesis using False by (simp add: last_time_def)
qed

lemma page_200: "limit_param (Some ''200'') = Some 200" "page_size (Some 200) = 200"
  by (simp_all add: limit_param_def js_parseInt_def page_size_def truthy_opt_def truthy_def is_blank_def digit_of_def)

lemma fetch_advances:
  assumes i: "vo_deploymentId p = Some i" and r: "owned_deployment u i (db w) = Some r"
    and dist: "distinct (map log_timestamp (matching_logs (db w) i (vo_source p) None))"
    and read: "has_read p (take k (matching_logs (db w) i (vo_source p) None)) v"
  shows "has_read p (take (k + 200) (matching_logs (db w) i (vo_source p) None)) (fetchLogs u w p v) \<and>
     vw_isLive (fetchLogs u w p v) = in_progress (d_status r) \<and> \<not> vw_isLoading (fetchLogs u w p v) \<and>
     vw_interval (fetchLogs u w p v) = vw_interval v"
proof -
  let ?m = "matching_logs (db w) i (vo_source p) None"
  define v1 where "v1 = v\<lparr>vw_fetching := True\<rparr>"
  let ?xs = "take 200 (drop k ?m)"
  have m: "take (k + 200) ?m = take k ?m @ ?xs" by (rule take_add)
  have answer: "fst (deploymentsService_getLogs u i (vo_source p) (vw_cursor v) (limit_param (Some ''200'')) w) =
      Inr (logs_page_of (d_status r) 200 ?xs)"
    using read by (simp add: getLogs_run r page_200 has_read_def rest_after [OF dist] prisma_take_def)
  have f: "fetchLogs u w p v = logs_answer p (Inr (logs_page_of (d_status r) 200 ?xs)) v1"
    using read answer by (simp add: fetchLogs_def i has_read_def v1_def)
  have v1: "received v1 = take k ?m" "dripping_ok p v1" "vw_firstBatch v1 \<longleftrightarrow> take k ?m = []" "vw_cursor v1 = last_time (take k ?m)"
    "vw_firstBatch v1 \<longrightarrow> vw_buffer v1 = []" "vw_interval v1 = vw_interval v"
    using read by (auto simp: v1_def has_read_def dripping_ok_def)
  show ?thesis
  proof (cases "?xs = []")
    case True
    then show ?thesis using v1 by (simp add: f m logs_answer_def logs_page_of_def has_read_def dripping_ok_def)
  next
    case False
    note e = enqueue_received [OF v1(2,5) False]
    have "last (take k ?m @ ?xs) = last ?xs" using False by simp
    then show ?thesis
      using v1 False e(1) e(2) [of "Some (log_timestamp (last ?xs))"]
      by (simp add: f m logs_answer_def logs_page_of_def has_read_def dripping_ok_def last_time_def)
  qed
qed

section \<open>Sessions\<close>

datatype viewer_event = Poll | Drip

fun viewer_step :: "uuid \<Rightarrow> world \<Rightarrow> viewer_options \<Rightarrow> viewer_event \<Rightarrow> viewer \<Rightarrow> viewer" where
  "viewer_step u w p Poll v = poll_tick u w p v"
| "viewer_step u w p Drip v = drip_tick v"

definition session :: "uuid \<Rightarrow> world \<Rightarrow> viewer_options \<Rightarrow> viewer_event list \<Rightarrow> viewer" where
  "session u w p es = fold (viewer_step u w p) es (opened u w p)"

lemma has_read_drip: "has_read p xs v \<Longrightarrow> has_read p xs (drip_tick v)"
  by (auto simp: has_read_def drip_tick_def dripping_ok_drip)

lemma drip_tick_fields [simp]:
  "vw_interval (drip_tick v) = vw_interval v" "vw_isLive (drip_tick v) = vw_isLive v" "vw_isLoading (drip_tick v) = vw_isLoading v"
  by (simp_all add: drip_tick_def)

lemma drips_show_all:
  "has_read p xs v \<Longrightarrow> length (vw_buffer v) \<le> n \<Longrightarrow> vw_logs ((drip_tick ^^ n) v) = xs"
proof (induction n arbitrary: v)
  case 0
  then show ?case by (simp add: has_read_def)
next
  case (Suc n)
  have "length (vw_buffer (drip_tick v)) \<le> n"
    using Suc.prems by (auto simp: has_read_def dripping_ok_def drip_tick_def drip_def split: list.splits)
  from Suc.IH [OF has_read_drip [OF Suc.prems(1)] this] show ?case
    by (simp add: funpow_Suc_right del: funpow.simps)
qed

lemma has_read_interval [simp]: "has_read p xs (v\<lparr>vw_interval := b\<rparr>) = has_read p xs v"
  by (simp add: has_read_def dripping_ok_def)

definition viewable :: "uuid \<Rightarrow> world \<Rightarrow> viewer_options \<Rightarrow> uuid \<Rightarrow> deployment \<Rightarrow> bool" where
  \<comment> \<open>the viewer shows the deployment \<open>r\<close> of the user \<open>u\<close>, whose lines have distinct times\<close>
  "viewable u w p i r \<longleftrightarrow> vo_deploymentId p = Some i \<and> vo_enabled p \<and> owned_deployment u i (db w) = Some r \<and>
     distinct (map log_timestamp (matching_logs (db w) i (vo_source p) None))"

abbreviation lines_of :: "world \<Rightarrow> viewer_options \<Rightarrow> uuid \<Rightarrow> log_entry list" where
  "lines_of w p i \<equiv> matching_logs (db w) i (vo_source p) None"

lemma advance:
  assumes "viewable u w p i r" and "has_read p (take k (lines_of w p i)) v"
  shows "has_read p (take (k + 200) (lines_of w p i)) (fetchLogs u w p v) \<and>
     vw_isLive (fetchLogs u w p v) = in_progress (d_status r) \<and> \<not> vw_isLoading (fetchLogs u w p v) \<and>
     vw_interval (fetchLogs u w p v) = vw_interval v"
  using assms by (intro fetch_advances) (auto simp: viewable_def)

lemma configured:
  assumes "viewable u w p i r"
  defines "v \<equiv> effect_interval p (effect_config u w p viewer_init)"
  shows "has_read p (take 200 (lines_of w p i)) v \<and> vw_isLive v = in_progress (d_status r) \<and> \<not> vw_isLoading v \<and> vw_interval v"
proof -
  let ?v0 = "viewer_init\<lparr>vw_lastConfig := Some (i, vo_source p)\<rparr>"
  have p: "vo_deploymentId p = Some i" "vo_enabled p" using assms(1) by (simp_all add: viewable_def)
  have "viewer_init\<lparr>vw_logs := [], vw_isLoading := True, vw_error := None, vw_cursor := None, vw_buffer := [],
      vw_firstBatch := True, vw_dripping := False, vw_dripTimer := False, vw_lastConfig := Some (i, vo_source p)\<rparr> = ?v0"
    "vw_lastConfig viewer_init \<noteq> Some (i, vo_source p)"
    by (simp_all add: viewer_init_def)
  then have "v = (fetchLogs u w p ?v0)\<lparr>vw_interval := True\<rparr>"
    using p by (simp add: v_def effect_config_def effect_interval_def)
  moreover have "has_read p (take 0 (lines_of w p i)) ?v0" by (simp add: has_read_def viewer_init_def dripping_ok_def last_time_def)
  ultimately show ?thesis using advance [OF assms(1), of 0 ?v0] by simp
qed

lemma live_session:
  assumes "viewable u w p i r" and "in_progress (d_status r)"
  shows "has_read p (take (200 * Suc (length (filter (\<lambda>e. e = Poll) es))) (lines_of w p i)) (session u w p es) \<and>
     vw_isLive (session u w p es) \<and> \<not> vw_isLoading (session u w p es) \<and> vw_interval (session u w p es)"
proof (induction es rule: rev_induct)
  case Nil
  show ?case using configured [OF assms(1)] assms(2) by (simp add: session_def opened_def effect_settled_def)
next
  case (snoc e es)
  note more = advance [OF assms(1), of "200 * Suc (length (filter (\<lambda>e. e = Poll) es))" "session u w p es"]
  show ?case
  proof (cases e)
    case Poll
    have "session u w p (es @ [Poll]) = fetchLogs u w p (session u w p es)"
      using snoc more assms(2) by (simp add: session_def poll_tick_def Let_def)
    then show ?thesis using snoc more assms(2) Poll by (simp add: add_ac)
  next
    case Drip
    then show ?thesis using snoc by (simp add: session_def has_read_drip)
  qed
qed

lemma finished_session:
  assumes "viewable u w p i r" and "\<not> in_progress (d_status r)"
  shows "has_read p (take 400 (lines_of w p i)) (session u w p es) \<and> \<not> vw_interval (session u w p es)"
proof (induction es rule: rev_induct)
  case Nil
  let ?v = "effect_interval p (effect_config u w p viewer_init)"
  have "opened u w p = (fetchLogs u w p ?v)\<lparr>vw_interval := False\<rparr>"
    using configured [OF assms(1)] assms(2) by (simp add: opened_def effect_settled_def)
  then show ?case using advance [OF assms(1), of 200 ?v] configured [OF assms(1)] by (simp add: session_def)
next
  case (snoc e es)
  then show ?case by (cases e) (simp_all add: session_def poll_tick_def has_read_drip)
qed

lemma buffer_short: "has_read p xs v \<Longrightarrow> length (vw_buffer v) \<le> length xs"
  by (auto simp: has_read_def)

text \<open>
  C33. The log viewer of a deployment in progress shows every matching line in order after
  enough polls (one per 200 lines) and drips, if the lines have distinct times.
\<close>

theorem live_view_complete:
  assumes "viewable u w p i r" and "in_progress (d_status r)"
    and "length (lines_of w p i) \<le> 200 * Suc (length (filter (\<lambda>e. e = Poll) es))"
    and "length (lines_of w p i) \<le> n"
  shows "vw_logs ((drip_tick ^^ n) (session u w p es)) = lines_of w p i"
proof -
  have "has_read p (lines_of w p i) (session u w p es)"
    using live_session [OF assms(1,2), of es] assms(3) by simp
  moreover from buffer_short [OF this] assms(4) have "length (vw_buffer (session u w p es)) \<le> n" by simp
  ultimately show ?thesis by (rule drips_show_all)
qed

theorem finished_view_cut:
  assumes "viewable u w p i r" and "\<not> in_progress (d_status r)" and "400 \<le> n"
  shows "vw_logs ((drip_tick ^^ n) (session u w p es)) = take 400 (lines_of w p i)"
proof -
  note read = conjunct1 [OF finished_session [OF assms(1,2), of es]]
  have "length (vw_buffer (session u w p es)) \<le> n" using buffer_short [OF read] assms(3) by simp
  with read show ?thesis by (rule drips_show_all)
qed

section \<open>Closed examples\<close>

definition ready_view :: viewer_options where
  "ready_view = \<lparr>vo_deploymentId = Some 7, vo_source = None, vo_enabled = True, vo_dripInterval = 60\<rparr>"

definition long_log :: "nat \<Rightarrow> deployment_status \<Rightarrow> world" where
  "long_log n st = sample_world\<lparr>db := sample_db\<lparr>deployments := [sample_ready\<lparr>d_status := st\<rparr>],
     logEntries := map (\<lambda>k. sample_log (100 + k) (int k)) [0 ..< n]\<rparr>\<rparr>"

lemma long_log_times: "map log_timestamp (map (\<lambda>k. sample_log (100 + k) (int k)) [0 ..< n]) = map int [0 ..< n]"
  by (simp add: sample_log_def)

lemma long_log_lines: "lines_of (long_log n st) ready_view 7 = map (\<lambda>k. sample_log (100 + k) (int k)) [0 ..< n]"
proof -
  have "sorted (map int [0 ..< n])" by (simp add: sorted_iff_nth_mono)
  then have "sorted (map log_timestamp (map (\<lambda>k. sample_log (100 + k) (int k)) [0 ..< n]))"
    by (simp only: long_log_times)
  from sort_key_id_if_sorted [OF this] show ?thesis
    by (simp add: matching_logs_def long_log_def ready_view_def order_asc_def) (simp add: sample_log_def)
qed

lemma long_log_viewable: "viewable 0 (long_log n st) ready_view 7 (sample_ready\<lparr>d_status := st\<rparr>)"
proof -
  have "distinct (map log_timestamp (lines_of (long_log n st) ready_view 7))"
    unfolding long_log_lines long_log_times by (simp add: distinct_map)
  moreover have "owned_deployment 0 7 (db (long_log n st)) = Some (sample_ready\<lparr>d_status := st\<rparr>)"
    by (simp add: long_log_def query_defs sample_defs)
  ultimately show ?thesis by (simp add: viewable_def) (simp add: ready_view_def)
qed

theorem live_view_complete_witness:
  "vw_logs ((drip_tick ^^ 500) (session 0 (long_log 500 BUILDING) ready_view [Poll, Drip, Poll])) =
     map (\<lambda>k. sample_log (100 + k) (int k)) [0 ..< 500]"
  unfolding long_log_lines [symmetric, of 500 BUILDING]
  by (rule live_view_complete [OF long_log_viewable]) (simp_all add: long_log_lines)

theorem finished_view_cut_witness:
  "vw_logs ((drip_tick ^^ 400) (session 0 (long_log 500 READY) ready_view [Poll, Poll, Drip])) =
     map (\<lambda>k. sample_log (100 + k) (int k)) [0 ..< 400] \<and>
   length (lines_of (long_log 500 READY) ready_view 7) = 500"
proof -
  have "vw_logs ((drip_tick ^^ 400) (session 0 (long_log 500 READY) ready_view [Poll, Poll, Drip])) =
      take 400 (lines_of (long_log 500 READY) ready_view 7)"
    by (rule finished_view_cut [OF long_log_viewable]) simp_all
  then show ?thesis by (simp add: long_log_lines take_map)
qed

end
