(* ===== verification/Api.thy ===== *)
theory Api
  imports Auth
begin

text \<open>
  The API as a whole: one constructor per endpoint, the dispatch to the service methods, and
  the reachable states of a server that starts with an empty database and serves requests in
  any order while time passes and Redis comes and goes.
\<close>

datatype request =
    SignUp string string "string option"
  | SignIn string string
  | Logout uuid
  | Refresh uuid string
  | OAuthLogin oauth_user
  | GithubCallback github_payload "string option" "uuid option"
  | GetGitStatus uuid
  | CreateProject uuid create_project_dto
  | ListProjects uuid
  | GetProject uuid uuid
  | UpdateProject uuid uuid update_project_dto
  | RemoveProject uuid uuid
  | CreateDeployment uuid uuid
  | ListDeployments uuid
  | ListProjectDeployments uuid uuid
  | GetDeployment uuid uuid
  | GetDeploymentLogs uuid uuid "log_source option" "time option" "string option"
  | PutDeploymentStatus uuid uuid deployment_status
  | CancelDeployment uuid uuid
  | CreateDomain uuid uuid string
  | ListDomains uuid uuid
  | RemoveDomain uuid uuid
  | ListEnvs uuid uuid
  | SaveEnvs uuid uuid "env_var_item list"
  | GetSettings uuid
  | UpdateSettings uuid settings_dto
  | GithubWebhook "buffer option" webhook_event "string option"
  | WorkerStatus uuid status_dto
  | WorkerLogs uuid "log_dto list"
  | WorkerGetLogs uuid "log_source option"
  | WorkerToken string
  | WorkerSettings uuid
  | WorkerExpired
  | WorkerCleanupLogs
  | WorkerDeleteResources uuid
  | WorkerProjectStatus uuid dns_status
  | WorkerPendingDomains
  | WorkerDomainStatus uuid dns_status "string option option"
  | WorkerNotify notification_dto

text \<open>The parameters of a server: the libraries, the webhook secret, dates and collation.\<close>

record server =
  srv_external :: external
  srv_webhookSecret :: string
  srv_parseDate :: "string \<Rightarrow> time option"
  srv_collate :: "string \<Rightarrow> int"

definition discard :: "'a handler \<Rightarrow> unit handler" where
  "discard m = andThen m (\<lambda>_. ret ())"

fun serve :: "server \<Rightarrow> request \<Rightarrow> unit handler" where
  "serve S (SignUp e p n) = discard (signUp (srv_external S) e p n)"
| "serve S (SignIn e p) = discard (signIn (srv_external S) e p)"
| "serve S (Logout u) = discard (logout u)"
| "serve S (Refresh u t) = discard (refreshTokens (srv_external S) u t)"
| "serve S (OAuthLogin p) = discard (validateOAuthLogin (srv_external S) p)"
| "serve S (GithubCallback p i c) = discard (processGithubCallback (srv_external S) p i c)"
| "serve S (GetGitStatus u) = discard (getStatus u)"
| "serve S (CreateProject u dto) = discard (projectsService_create (srv_external S) u dto)"
| "serve S (ListProjects u) = discard (projectsService_findAll (srv_external S) u)"
| "serve S (GetProject u i) = discard (projectsService_findOne i u)"
| "serve S (UpdateProject u i dto) = discard (projectsService_update i u dto)"
| "serve S (RemoveProject u i) = discard (projectsService_remove i u)"
| "serve S (CreateDeployment u p) = discard (deploymentsService_create (srv_external S) u p)"
| "serve S (ListDeployments u) = discard (deploymentsService_findAll u)"
| "serve S (ListProjectDeployments u p) = discard (deploymentsService_findAllByProject u p)"
| "serve S (GetDeployment u i) = discard (deploymentsService_findOne u i)"
| "serve S (GetDeploymentLogs u i s a l) = discard (deploymentsService_getLogs u i s a (limit_param l))"
| "serve S (PutDeploymentStatus u i s) = discard (deploymentsService_updateStatus u i s)"
| "serve S (CancelDeployment u i) = discard (deploymentsService_cancel u i)"
| "serve S (CreateDomain u p n) = discard (domainsService_create u p n)"
| "serve S (ListDomains u p) = discard (domainsService_findAll u p)"
| "serve S (RemoveDomain u i) = discard (domainsService_remove u i)"
| "serve S (ListEnvs u p) = discard (envVarsService_findAll (srv_external S) (srv_collate S) u p)"
| "serve S (SaveEnvs u p vs) = discard (envVarsService_saveAll (srv_external S) u p vs)"
| "serve S (GetSettings u) = discard (getConfig (srv_external S) u)"
| "serve S (UpdateSettings u dto) = discard (updateConfig (srv_external S) u dto)"
| "serve S (GithubWebhook b e sig) =
     discard (handleGitHubWebhook (srv_external S) (srv_webhookSecret S) b e sig)"
| "serve S (WorkerStatus i dto) = discard (updateDeploymentStatus i dto)"
| "serve S (WorkerLogs i ls) = discard (createLogs (srv_parseDate S) i ls)"
| "serve S (WorkerGetLogs i s) = discard (internal_getLogs i s)"
| "serve S (WorkerToken i) = discard (internal_installationToken (srv_external S) i)"
| "serve S (WorkerSettings p) = discard (getSettingsByProject (srv_external S) p)"
| "serve S WorkerExpired = discard getExpiredDeployments"
| "serve S WorkerCleanupLogs = discard cleanupLogs"
| "serve S (WorkerDeleteResources i) = discard (deleteDeploymentResources i)"
| "serve S (WorkerProjectStatus i s) = discard (updateProjectStatus i s)"
| "serve S WorkerPendingDomains = discard getPendingDomains"
| "serve S (WorkerDomainStatus i s e) = discard (updateDomainStatus i s e)"
| "serve S (WorkerNotify dto) = discard (sendDeploymentNotification (srv_external S) dto)"

definition empty_db :: db where
  "empty_db = \<lparr>users = [], gitAccounts = [], projects = [], envVars = [], deployments = [],
     domains = [], systemConfigs = [], logEntries = [], nextId = 0\<rparr>"

definition initial_world :: "(nat \<Rightarrow> char) \<Rightarrow> time \<Rightarrow> world" where
  "initial_world r t = \<lparr>db = empty_db,
     redis = \<lparr>redis_up = True, build_queue = [], cleanup_queue = [], redis_keys = (\<lambda>_. None)\<rparr>,
     now = t, rng = r, rng_pos = 0, outbox = []\<rparr>"

inductive server_step :: "server \<Rightarrow> world \<Rightarrow> world \<Rightarrow> bool" for S where
  request: "server_step S w (snd (serve S r w))"
| tick: "now w \<le> t \<Longrightarrow> server_step S w (w\<lparr>now := t\<rparr>)"
| redis_change: "server_step S w (w\<lparr>redis := r\<rparr>)"

inductive reachable :: "server \<Rightarrow> world \<Rightarrow> bool" for S where
  start: "reachable S (initial_world r t)"
| step: "reachable S w \<Longrightarrow> server_step S w w' \<Longrightarrow> reachable S w'"

lemma keeps_discard: "keeps db_kept m \<Longrightarrow> keeps db_kept (discard m)"
  unfolding discard_def by (intro kept.keeps_db_intros)

lemmas keeps_services =
  keeps_auth keeps_git keeps_projects keeps_deployments keeps_domains keeps_envs keeps_settings
  keeps_webhook keeps_internal

lemma keeps_serve: "keeps db_kept (serve S r)"
  by (cases r) (simp_all add: keeps_discard keeps_services)

lemma empty_db_ok: "db_ok empty_db"
  by (simp add: empty_db_def db_ok_def uniq_def fks_def fresh_def)

lemma server_step_ok: "server_step S w w' \<Longrightarrow> db_ok (db w) \<Longrightarrow> db_ok (db w')"
proof (induction rule: server_step.induct)
  case (request w r)
  have "db_kept w (snd (serve S r w))"
    by (rule keeps_run [OF keeps_serve])
  then show ?case using request by (simp add: db_kept_def)
qed simp_all

end
