(* ===== verification/Github.thy ===== *)
theory Github
  imports Auth
begin

text \<open>
  The rest of \<open>git/git.service.ts\<close> and \<open>git/git.controller.ts\<close>, and the GitHub half of
  \<open>auth/auth.controller.ts\<close>: exchanging an OAuth code for a profile, listing repositories and
  directories, detecting a framework, and the unified callback. What GitHub answers is the
  record \<open>github_api\<close>; \<open>None\<close> is a request that throws. \<open>localeCompare\<close> is the order of the
  parameter \<open>collate\<close>.
\<close>

section \<open>GitHub's answers\<close>

record oauth_success =
  os_access_token :: string
  os_refresh_token :: "string option"

datatype oauth_response = OAuthSuccess oauth_success | OAuthError string

record github_profile =
  gpr_id :: int
  gpr_login :: string
  gpr_avatar_url :: string
  gpr_name :: "string option"
  gpr_email :: "string option"

record github_email =
  ge_email :: string
  ge_primary :: bool
  ge_verified :: bool

record repo_node =
  rn_databaseId :: int
  rn_name :: string
  rn_nameWithOwner :: string
  rn_url :: string
  rn_sshUrl :: string
  rn_isPrivate :: bool
  rn_defaultBranchRef :: "string option"
  rn_updatedAt :: string
  rn_primaryLanguage :: "string option"
  rn_pkgJson :: "string option"
  rn_reqTxt :: "string option"

record content_item =
  ci_name :: string
  ci_path :: string
  ci_type :: string
  ci_sha :: string

datatype repo_content =
    ContentDir "content_item list"
  | ContentFile string
  | ContentOther

record github_api =
  gh_token :: "string \<Rightarrow> string \<Rightarrow> string \<Rightarrow> oauth_response option"
  gh_user :: "string \<Rightarrow> github_profile option"
  gh_emails :: "string \<Rightarrow> github_email list option"
  gh_installations :: "string \<Rightarrow> (nat \<times> int list) option"
  gh_repositories :: "int option \<Rightarrow> repo_node list option"
  gh_content :: "int option \<Rightarrow> string \<Rightarrow> string \<Rightarrow> string \<Rightarrow> repo_content option"
  gh_parse :: "string \<Rightarrow> json option"

section \<open>Exchanging the code\<close>

fun nat_to_string :: "nat \<Rightarrow> string" where
  "nat_to_string n =
     (if n < 10 then [char_of (48 + n)] else nat_to_string (n div 10) @ [char_of (48 + n mod 10)])"

declare nat_to_string.simps [simp del]

definition int_to_string :: "int \<Rightarrow> string" where
  \<comment> \<open>\<open>String(n)\<close>\<close>
  "int_to_string n = (if n < 0 then CHR ''-'' # nat_to_string (nat (- n)) else nat_to_string (nat n))"

definition public_email :: "github_email list option \<Rightarrow> string option" where
  \<comment> \<open>the primary verified address, otherwise the first one; \<open>None\<close> is null\<close>
  "public_email emails = (case emails of
       None \<Rightarrow> None
     | Some es \<Rightarrow> (case or_undefined (map_option ge_email (find (\<lambda>e. ge_primary e \<and> ge_verified e) es)) of
           Some e \<Rightarrow> Some e
         | None \<Rightarrow> or_undefined (map_option ge_email (head_opt es))))"

definition fix_email :: "github_api \<Rightarrow> string \<Rightarrow> github_profile \<Rightarrow> github_profile" where
  \<comment> \<open>a failed request for the addresses leaves the profile as it is\<close>
  "fix_email G token p =
     (if truthy_opt (gpr_email p) then p
      else (case gh_emails G token of None \<Rightarrow> p | Some es \<Rightarrow> p\<lparr>gpr_email := public_email (Some es)\<rparr>))"

definition discover_installation :: "github_api \<Rightarrow> string \<Rightarrow> string option" where
  "discover_installation G token = (case gh_installations G token of
       Some (n, i # _) \<Rightarrow> if 0 < n then Some (int_to_string i) else None
     | _ \<Rightarrow> None)"

record exchange =
  exc_token :: oauth_success
  exc_userProfile :: github_profile
  exc_installationId :: "string option"

definition exchangeCodeForUser :: "external \<Rightarrow> github_api \<Rightarrow> string \<Rightarrow> exchange handler" where
  \<comment> \<open>whatever throws inside is answered with the same exception\<close>
  "exchangeCodeForUser X G code =
     orThrow (Option.bind (x_env X ''GITHUB_CLIENT_ID'') (\<lambda>clientId.
       Option.bind (x_env X ''GITHUB_CLIENT_SECRET'') (\<lambda>clientSecret.
       Option.bind (gh_token G clientId clientSecret code) (\<lambda>tokenRes.
         case tokenRes of
           OAuthError _ \<Rightarrow> None
         | OAuthSuccess token \<Rightarrow>
             Option.bind (gh_user G (os_access_token token)) (\<lambda>profile. Some \<lparr>
               exc_token = token,
               exc_userProfile = fix_email G (os_access_token token) profile,
               exc_installationId = discover_installation G (os_access_token token)\<rparr>)))))
       (BadRequestException ''Failed to exchange GitHub code'')"

section \<open>Repositories\<close>

record repository =
  rp_id :: int
  rp_name :: string
  rp_fullName :: string
  rp_private :: bool
  rp_url :: string
  rp_sshUrl :: string
  rp_cloneUrl :: string
  rp_language :: "string option"
  rp_defaultBranch :: string
  rp_updatedAt :: string
  rp_detection :: detection

definition repository_of :: "github_api \<Rightarrow> repo_node \<Rightarrow> repository" where
  "repository_of G node = \<lparr>rp_id = rn_databaseId node, rp_name = rn_name node,
     rp_fullName = rn_nameWithOwner node, rp_private = rn_isPrivate node, rp_url = rn_url node,
     rp_sshUrl = rn_sshUrl node, rp_cloneUrl = rn_url node @ ''.git'',
     rp_language = or_undefined (rn_primaryLanguage node),
     rp_defaultBranch = or_else (rn_defaultBranchRef node) ''main'', rp_updatedAt = rn_updatedAt node,
     rp_detection = detectFrameworkFromContents (gh_parse G) (rn_pkgJson node) (rn_reqTxt node)\<rparr>"

definition listRepositories :: "github_api \<Rightarrow> string \<Rightarrow> repository list handler" where
  "listRepositories G installationId =
     andThen (orThrow (gh_repositories G (js_Number installationId))
       (BadRequestException ''Failed to fetch repositories.'')) (\<lambda>nodes.
     ret (map (repository_of G) nodes))"

definition compare_items :: "(string \<Rightarrow> int) \<Rightarrow> content_item \<Rightarrow> content_item \<Rightarrow> int" where
  "compare_items collate a b =
     (if ci_type a = ''dir'' \<and> ci_type b = ''file'' then -1
      else if ci_type a = ''file'' \<and> ci_type b = ''dir'' then 1
      else collate (ci_name a) - collate (ci_name b))"

fun insert_by :: "('a \<Rightarrow> 'a \<Rightarrow> int) \<Rightarrow> 'a \<Rightarrow> 'a list \<Rightarrow> 'a list" where
  "insert_by cmp x [] = [x]"
| "insert_by cmp x (y # ys) = (if cmp x y \<le> 0 then x # y # ys else y # insert_by cmp x ys)"

definition sort_by :: "('a \<Rightarrow> 'a \<Rightarrow> int) \<Rightarrow> 'a list \<Rightarrow> 'a list" where
  \<comment> \<open>\<open>xs.sort(cmp)\<close>, which is stable\<close>
  "sort_by cmp xs = foldr (insert_by cmp) xs []"

definition getRepoContents ::
    "github_api \<Rightarrow> (string \<Rightarrow> int) \<Rightarrow> string \<Rightarrow> string \<Rightarrow> string \<Rightarrow> string \<Rightarrow> content_item list handler" where
  "getRepoContents G collate installationId ow repo path =
     andThen (orThrow (gh_content G (js_Number installationId) ow repo path)
       (BadRequestException ''Could not fetch repo contents'')) (\<lambda>data.
     ret (case data of ContentDir items \<Rightarrow> sort_by (compare_items collate) items | _ \<Rightarrow> []))"

section \<open>Reading a file\<close>

definition b64_value :: "char \<Rightarrow> nat option" where
  "b64_value c = (let n = of_char c :: nat in
     if 65 \<le> n \<and> n \<le> 90 then Some (n - 65)
     else if 97 \<le> n \<and> n \<le> 122 then Some (n - 71)
     else if 48 \<le> n \<and> n \<le> 57 then Some (n + 4)
     else if n = 43 \<or> n = 45 then Some 62
     else if n = 47 \<or> n = 95 then Some 63
     else None)"

fun b64_bytes :: "nat list \<Rightarrow> buffer" where
  "b64_bytes (a # b # c # d # xs) =
     char_of (a * 4 + b div 16) # char_of ((b mod 16) * 16 + c div 4) # char_of ((c mod 4) * 64 + d) # b64_bytes xs"
| "b64_bytes [a, b, c] = [char_of (a * 4 + b div 16), char_of ((b mod 16) * 16 + c div 4)]"
| "b64_bytes [a, b] = [char_of (a * 4 + b div 16)]"
| "b64_bytes _ = []"

definition base64_decode :: "string \<Rightarrow> buffer" where
  \<comment> \<open>\<open>Buffer.from(s, 'base64')\<close>: stops at the padding, skips line breaks and other characters\<close>
  "base64_decode s = b64_bytes (List.map_filter b64_value (takeWhile (\<lambda>c. c \<noteq> CHR ''='') s))"

definition file_text :: "repo_content option \<Rightarrow> string option" where
  \<comment> \<open>\<open>'content' in data\<close>; a failed request leaves the text undefined\<close>
  "file_text data = (case data of Some (ContentFile content) \<Rightarrow> Some (base64_decode content) | _ \<Rightarrow> None)"

definition detectFrameworkConfig ::
    "github_api \<Rightarrow> string \<Rightarrow> string \<Rightarrow> string \<Rightarrow> string \<Rightarrow> detection handler" where
  "detectFrameworkConfig G installationId ow repo path =
     (let content = (\<lambda>name. file_text (gh_content G (js_Number installationId) ow repo (path @ name)))
      in ret (detectFrameworkFromContents (gh_parse G) (content ''/package.json'') (content ''/requirements.txt'')))"

section \<open>The controller\<close>

definition git_listRepos :: "github_api \<Rightarrow> uuid \<Rightarrow> string option \<Rightarrow> repository list handler" where
  "git_listRepos G userId installationId =
     andThen (verifyInstallation userId installationId) (\<lambda>_. listRepositories G (the installationId))"

definition git_getRepoTree ::
    "github_api \<Rightarrow> (string \<Rightarrow> int) \<Rightarrow> uuid \<Rightarrow> string option \<Rightarrow> string \<Rightarrow> string \<Rightarrow> string option \<Rightarrow>
     content_item list handler" where
  "git_getRepoTree G collate userId installationId ow repo path =
     andThen (verifyInstallation userId installationId) (\<lambda>_.
     getRepoContents G collate (the installationId) ow repo (case path of None \<Rightarrow> [] | Some p \<Rightarrow> p))"

definition git_detectFramework ::
    "github_api \<Rightarrow> uuid \<Rightarrow> string option \<Rightarrow> string \<Rightarrow> string \<Rightarrow> string option \<Rightarrow> detection handler" where
  "git_detectFramework G userId installationId ow repo path =
     andThen (verifyInstallation userId installationId) (\<lambda>_.
     detectFrameworkConfig G (the installationId) ow repo (case path of None \<Rightarrow> [] | Some p \<Rightarrow> p))"

section \<open>The GitHub callback\<close>

definition payload_from :: "exchange \<Rightarrow> github_payload" where
  "payload_from e = (let p = exc_userProfile e in \<lparr>
     gp_githubId = int_to_string (gpr_id p), gp_username = gpr_login p, gp_email = gpr_email p,
     gp_name = gpr_name p, gp_avatarUrl = Some (gpr_avatar_url p),
     gp_accessToken = os_access_token (exc_token e), gp_refreshToken = os_refresh_token (exc_token e)\<rparr>)"

definition cookie_user :: "external \<Rightarrow> time \<Rightarrow> string option \<Rightarrow> uuid option" where
  \<comment> \<open>the subject of a valid access-token cookie; a token that does not verify is ignored\<close>
  "cookie_user X t cookie =
     (if truthy_opt cookie \<and> x_env X ''JWT_SECRET'' \<noteq> None
      then map_option jc_sub (x_jwtVerify X (the cookie) (x_env X ''JWT_SECRET'') t)
      else None)"

definition tokens_url :: "external \<Rightarrow> tokens \<Rightarrow> string" where
  "tokens_url X tks = url_config_appUrl X @ ''/auth/callback?accessToken='' @ tk_accessToken tks @
     ''&refreshToken='' @ tk_refreshToken tks"

definition githubCallback ::
    "external \<Rightarrow> github_api \<Rightarrow> string option \<Rightarrow> string option \<Rightarrow> string option \<Rightarrow> string handler" where
  \<comment> \<open>returns the address of the redirect\<close>
  "githubCallback X G code installationId cookie =
     (if \<not> truthy_opt code then ret (url_config_appUrl X @ ''/auth?error=no_code'')
      else tryCatch
        (andThen (exchangeCodeForUser X G (the code)) (\<lambda>e.
         let finalInstallationId = (if truthy_opt installationId then installationId else exc_installationId e) in
         andThen (gets (\<lambda>w. cookie_user X (now w) cookie)) (\<lambda>currentUserId.
         andThen (processGithubCallback X (payload_from e) finalInstallationId currentUserId) (\<lambda>tks.
         ret (if truthy_opt finalInstallationId \<and> truthy_opt installationId
              then url_config_appUrl X @ ''/auth/popup-close''
              else tokens_url X tks)))))
        (\<lambda>_. ret (url_config_appUrl X @ ''/auth?error=auth_failed'')))"

definition githubLogin :: "external \<Rightarrow> string handler" where
  "githubLogin X =
     andThen (orThrow (x_env X ''GITHUB_CLIENT_ID'') (Thrown ''Configuration key does not exist'')) (\<lambda>clientId.
     ret (''https://github.com/login/oauth/authorize?client_id='' @ clientId @ ''&redirect_uri='' @
       url_config_apiUrl X @ ''/auth/github/callback&scope=read:user,user:email''))"

definition githubConnect :: "external \<Rightarrow> string handler" where
  "githubConnect X =
     andThen (orThrow (x_env X ''GITHUB_APP_NAME'') (Thrown ''Configuration key does not exist'')) (\<lambda>appName.
     ret (''https://github.com/apps/'' @ appName @ ''/installations/new''))"

definition googleAuthRedirect :: "external \<Rightarrow> oauth_user \<Rightarrow> string handler" where
  "googleAuthRedirect X profile =
     andThen (validateOAuthLogin X profile) (\<lambda>tks. ret (tokens_url X tks))"

section \<open>The login strategies\<close>

record provider_profile =
  pf_displayName :: "string option"
  pf_username :: string
  pf_givenName :: string
  pf_familyName :: "string option"
  pf_emails :: "string list"
  pf_photos :: "string list"

definition githubStrategy_validate :: "provider_profile \<Rightarrow> string + oauth_user" where
  \<comment> \<open>\<open>done(error)\<close> or \<open>done(null, user)\<close>\<close>
  "githubStrategy_validate p =
     (if \<not> truthy_opt (head_opt (pf_emails p)) then Inl ''No email found from GitHub account''
      else Inr \<lparr>ou_email = hd (pf_emails p), ou_name = or_else (pf_displayName p) (pf_username p),
                ou_picture = head_opt (pf_photos p), ou_provider = ''github''\<rparr>)"

definition googleStrategy_validate :: "provider_profile \<Rightarrow> string + oauth_user" where
  \<comment> \<open>\<open>name.familyName\<close> is put into a template: undefined prints as text and is not the text
      "undefined" the comparison looks for\<close>
  "googleStrategy_validate p =
     (case pf_emails p of
        [] \<Rightarrow> Inl ''TypeError''
      | email # _ \<Rightarrow>
          let family = (case pf_familyName p of None \<Rightarrow> ''undefined'' | Some f \<Rightarrow> if f \<noteq> ''undefined'' then f else [])
          in Inr \<lparr>ou_email = email, ou_name = js_trim (pf_givenName p @ '' '' @ family),
                  ou_picture = map_option (replace_first ''=s96-c'' ''=s256-c'') (or_undefined (head_opt (pf_photos p))),
                  ou_provider = ''google''\<rparr>)"

end
