(* ===== verification/GithubLaws.thy ===== *)
theory GithubLaws
  imports Github AuthLaws
begin

text \<open>
  What the GitHub half of the API promises: directories are listed folders first; and what the
  callback accepts without a check: an installation id from the query, and an address GitHub
  has not verified.
\<close>

section \<open>Directory listings\<close>

definition is_dir :: "content_item \<Rightarrow> bool" where "is_dir i \<longleftrightarrow> ci_type i = ''dir''"

definition is_file :: "content_item \<Rightarrow> bool" where "is_file i \<longleftrightarrow> ci_type i = ''file''"

lemma insert_dir:
  "is_dir x \<Longrightarrow> \<forall>y \<in> set ds. is_dir y \<Longrightarrow> \<forall>y \<in> set fs. is_file y \<Longrightarrow>
   insert_by (compare_items c) x (ds @ fs) = insort_key (\<lambda>i. c (ci_name i)) x ds @ fs"
proof (induction ds)
  case Nil
  then show ?case by (cases fs) (auto simp: compare_items_def is_dir_def is_file_def)
next
  case (Cons d ds)
  then show ?case by (auto simp: compare_items_def is_dir_def)
qed

lemma insert_file:
  "is_file x \<Longrightarrow> \<forall>y \<in> set ds. is_dir y \<Longrightarrow> \<forall>y \<in> set fs. is_file y \<Longrightarrow>
   insert_by (compare_items c) x (ds @ fs) = ds @ insort_key (\<lambda>i. c (ci_name i)) x fs"
proof (induction ds)
  case Nil
  then show ?case by (induction fs) (auto simp: compare_items_def is_file_def)
next
  case (Cons d ds)
  then show ?case by (auto simp: compare_items_def is_dir_def is_file_def)
qed

lemma sort_by_folders:
  "\<forall>i \<in> set items. is_dir i \<or> is_file i \<Longrightarrow>
   sort_by (compare_items c) items =
     order_asc (\<lambda>i. c (ci_name i)) (filter is_dir items) @ order_asc (\<lambda>i. c (ci_name i)) (filter is_file items)"
proof (induction items)
  case Nil
  then show ?case by (simp add: sort_by_def order_asc_def)
next
  case (Cons x items)
  let ?k = "\<lambda>i. c (ci_name i)"
  have rec: "sort_by (compare_items c) (x # items) = insert_by (compare_items c) x
      (order_asc ?k (filter is_dir items) @ order_asc ?k (filter is_file items))"
    using Cons by (simp add: sort_by_def)
  have excl: "is_dir x \<Longrightarrow> \<not> is_file x" by (simp add: is_dir_def is_file_def)
  from Cons.prems consider "is_dir x" | "is_file x" by auto
  then show ?case
  proof cases
    case 1
    then show ?thesis unfolding rec
      using excl by (subst insert_dir) (auto simp: order_asc_def)
  next
    case 2
    then show ?thesis unfolding rec
      using excl by (subst insert_file) (auto simp: order_asc_def)
  qed
qed

theorem getRepoContents_folders_first:
  assumes "gh_content G (js_Number inst) ow repo path = Some (ContentDir items)"
    and "\<forall>i \<in> set items. is_dir i \<or> is_file i"
  shows "\<exists>ds fs. getRepoContents G collate inst ow repo path w = (Inr (ds @ fs), w) \<and>
    mset ds = filter_mset is_dir (mset items) \<and> mset fs = filter_mset is_file (mset items) \<and>
    sorted (map (\<lambda>i. collate (ci_name i)) ds) \<and> sorted (map (\<lambda>i. collate (ci_name i)) fs)"
  by (intro exI [of _ "order_asc (\<lambda>i. collate (ci_name i)) (filter is_dir items)"]
      exI [of _ "order_asc (\<lambda>i. collate (ci_name i)) (filter is_file items)"])
    (simp add: getRepoContents_def action_simps assms(1) sort_by_folders [OF assms(2)] order_asc_def)

section \<open>Framework detection\<close>

theorem node_server_only_koa:
  assumes "detectNode pj = Some d" and "det_framework d = ''node-server''"
  shows "hasDependency (spread_of (member_of pj ''dependencies'') @ spread_of (member_of pj ''devDependencies'')) ''koa'' \<and>
    \<not> hasDependency (spread_of (member_of pj ''dependencies'') @ spread_of (member_of pj ''devDependencies'')) ''express''"
proof -
  let ?deps = "spread_of (member_of pj ''dependencies'') @ spread_of (member_of pj ''devDependencies'')"
  let ?P = "\<lambda>(dep, fw, out). hasDependency ?deps dep"
  have "find ?P nodeFrameworks = None"
  proof (rule ccontr)
    assume "\<not> ?thesis"
    then obtain dep fw out where f: "find ?P nodeFrameworks = Some (dep, fw, out)" by auto
    then have "(dep, fw, out) \<in> set nodeFrameworks" by (auto dest: find_SomeD)
    then have "fw \<noteq> ''node-server''" by (auto simp: nodeFrameworks_def)
    moreover have "d = detected fw out" using assms(1) f by (auto simp: detectNode_def Let_def split: if_splits)
    ultimately show False using assms(2) by simp
  qed
  note none = this
  then have "\<not> hasDependency ?deps ''express''" "\<not> hasDependency ?deps ''fastify''"
    by (auto simp: nodeFrameworks_def split: if_splits)
  moreover have "hasDependency ?deps ''express'' \<or> hasDependency ?deps ''fastify'' \<or> hasDependency ?deps ''koa''"
    using assms none by (auto simp: detectNode_def Let_def split: if_splits)
  ultimately show ?thesis by blast
qed

section \<open>Linking an account\<close>

lemma upsert_run:
  assumes ok: "db_ok (db w)" and uid: "uid \<in> u_id ` set (users (db w))"
  shows "\<exists>a w1. upsert_git_account uid p inst w = (Inr a, w1) \<and> a \<in> set (gitAccounts (db w1)) \<and>
    ga_userId a = uid \<and> ga_provider a = ''github'' \<and> ga_providerId a = gp_githubId p \<and>
    (truthy_opt inst \<longrightarrow> ga_installationId a = inst) \<and>
    db_ok (db w1) \<and> users (db w1) = users (db w) \<and> now w1 = now w"
proof (cases "find (\<lambda>a. ga_provider a = ''github'' \<and> ga_providerId a = gp_githubId p) (gitAccounts (db w))")
  case None
  let ?a = "\<lparr>ga_id = 0, ga_provider = ''github'', ga_providerId = gp_githubId p,
                 ga_username = gp_username p, ga_avatarUrl = gp_avatarUrl p,
                 ga_installationId = or_undefined inst, ga_accessToken = gp_accessToken p,
                 ga_refreshToken = gp_refreshToken p, ga_userId = uid\<rparr>"
  let ?b = "?a\<lparr>ga_id := nextId (db w)\<rparr>"
  have "can_insert_gitAccount ?a (db w)"
    using None uid by (auto simp: can_insert_gitAccount_def find_None_iff)
  from gitAccountI.create_ok [OF ok this]
  have run: "gitAccount_create ?a w = (Inr ?b,
      w\<lparr>db := (db w)\<lparr>gitAccounts := gitAccounts (db w) @ [?b], nextId := Suc (nextId (db w))\<rparr>\<rparr>)"
    by (simp add: insert_form)
  have up: "upsert_git_account uid p inst w = gitAccount_create ?a w"
    using None by (simp add: upsert_git_account_def action_simps)
  show ?thesis
    using gitAccountI.create_keeps_ok [OF run ok] unfolding up run by (auto simp: or_undefined_def)
next
  case (Some a)
  let ?f = "\<lambda>a. a\<lparr>ga_userId := uid, ga_accessToken := gp_accessToken p,
      ga_refreshToken := (case gp_refreshToken p of None \<Rightarrow> ga_refreshToken a | Some t \<Rightarrow> Some t),
      ga_username := gp_username p, ga_avatarUrl := gp_avatarUrl p,
      ga_installationId := (if truthy_opt inst then inst else ga_installationId a)\<rparr>"
  have a: "a \<in> set (gitAccounts (db w))" "ga_provider a = ''github''" "ga_providerId a = gp_githubId p"
    using find_SomeD [OF Some] by auto
  let ?d = "gitAccounts_update (map (\<lambda>r. if ga_id r = ga_id a then ga_id_update (\<lambda>_. ga_id r) (?f r) else r)) (db w)"
  have "uniq ?d" using ok by (auto simp: db_ok_def uniq_def o_def if_distrib cong: if_cong)
  moreover have "fks ?d" using ok uid by (auto simp: db_ok_def fks_def)
  moreover have "find (\<lambda>r. ga_id r = ga_id a) (gitAccounts (db w)) = Some a"
    using gitAccountT.find_row [OF db_okD(1) [OF ok] a(1)] .
  ultimately have run: "gitAccount_update (ga_id a) ?f w = (Inr (?f a), w\<lparr>db := ?d\<rparr>)"
    by (subst gitAccountT.update_run) auto
  have "fresh ?d" using ok by (auto simp: db_ok_def fresh_def)
  then have "db_ok ?d" using \<open>uniq ?d\<close> \<open>fks ?d\<close> by (simp add: db_ok_def)
  moreover have "upsert_git_account uid p inst w = gitAccount_update (ga_id a) ?f w"
    using Some by (simp add: upsert_git_account_def action_simps)
  ultimately show ?thesis using run a by (force simp: image_iff)
qed

lemma issue_tokens_accounts:
  assumes "db_ok (db w)" and "u_id u \<in> u_id ` set (users (db w))"
  shows "\<exists>w1. issue_tokens X u w = (Inr (tokens_of X u (now w)), w1) \<and> gitAccounts (db w1) = gitAccounts (db w)"
  using issue_tokens_run [OF assms] by (auto simp: remember_def)

section \<open>The callback\<close>

lemma exchange_same:
  "exchangeCodeForUser X G code w = (r, w') \<Longrightarrow> w' = w"
  by (auto simp: exchangeCodeForUser_def orThrow_run split: option.splits)

text \<open>
  C40. The GitHub callback links the caller to any installation named in the query: the id is
  never checked against GitHub's answer, so repositories of a foreign installation become
  readable.
\<close>

theorem callback_claims_installation:
  assumes "db_ok (db w)" and "u \<in> set (users (db w))" and "inst \<noteq> []" and "code \<noteq> []"
    and "exchangeCodeForUser X G code w = (Inr e, w)"
    and "cookie_user X (now w) cookie = Some (u_id u)"
    and "githubCallback X G (Some code) (Some inst) cookie w = (r, w')"
  shows "r = Inr (url_config_appUrl X @ ''/auth/popup-close'') \<and>
    git_listRepos G (u_id u) (Some inst) w' = listRepositories G inst w'"
proof -
  have uid: "u_id u \<in> u_id ` set (users (db w))" using assms(2) by simp
  have inst: "truthy_opt (Some inst)" using assms(3) by (simp add: truthy_def)
  obtain a w1 where up: "upsert_git_account (u_id u) (payload_from e) (Some inst) w = (Inr a, w1)"
    and a: "a \<in> set (gitAccounts (db w1))" "ga_userId a = u_id u" "ga_provider a = ''github''"
      "ga_installationId a = Some inst"
    and w1: "db_ok (db w1)" "users (db w1) = users (db w)"
    using upsert_run [OF assms(1) uid, of "payload_from e" "Some inst"] inst by auto
  have "find (\<lambda>x. u_id x = u_id u) (users (db w1)) = Some u"
    using userT.find_row [OF db_okD(1) [OF w1(1)]] assms(2) w1(2) by simp
  moreover obtain w2 where iss: "issue_tokens X u w1 = (Inr (tokens_of X u (now w1)), w2)"
    "gitAccounts (db w2) = gitAccounts (db w1)"
    using issue_tokens_accounts [OF w1(1)] uid w1(2) by metis
  ultimately have proc: "processGithubCallback X (payload_from e) (Some inst) (Some (u_id u)) w =
      (Inr (tokens_of X u (now w1)), w2)"
    using up by (simp add: processGithubCallback_def andThen_def gets_run orThrow_run)
  have call: "githubCallback X G (Some code) (Some inst) cookie w =
      (Inr (url_config_appUrl X @ ''/auth/popup-close''), w2)"
    using assms(4-6) inst proc
    by (simp add: githubCallback_def tryCatch_def andThen_def gets_run ret_run Let_def truthy_def)
  have "find (\<lambda>a. ga_userId a = u_id u \<and> ga_provider a = ''github'' \<and> ga_installationId a = Some inst)
      (gitAccounts (db w2)) \<noteq> None"
    using a iss(2) by (auto simp: find_None_iff)
  then have "verifyInstallation (u_id u) (Some inst) w2 = (Inr (), w2)"
    using inst by (auto simp: verifyInstallation_def action_simps)
  then have "git_listRepos G (u_id u) (Some inst) w2 = listRepositories G inst w2"
    by (simp add: git_listRepos_def andThen_def)
  then show ?thesis using call assms(7) by simp
qed

text \<open>
  A GitHub account without a verified address signs in as the local user with its
  unverified address: the first e-mail is taken when none is primary and verified.
\<close>

theorem callback_trusts_unverified_email:
  assumes "db_ok (db w)" and "u \<in> set (users (db w))" and "u_email u \<noteq> []"
    and "x_env X ''GITHUB_CLIENT_ID'' = Some cid" and "x_env X ''GITHUB_CLIENT_SECRET'' = Some secret"
    and "gh_token G cid secret code = Some (OAuthSuccess token)" and "code \<noteq> []"
    and "gh_user G (os_access_token token) = Some prof" and "gpr_email prof = None"
    and "gh_emails G (os_access_token token) = Some (m # ms)" and "ge_email m = u_email u"
    and "\<forall>x \<in> set (m # ms). \<not> ge_verified x"
    and "\<forall>a \<in> set (gitAccounts (db w)). ga_providerId a \<noteq> int_to_string (gpr_id prof)"
    and "githubCallback X G (Some code) None None w = (r, w')"
  shows "r = Inr (tokens_url X (tokens_of X u (now w)))"
proof -
  define e where "e = \<lparr>exc_token = token, exc_userProfile = prof\<lparr>gpr_email := Some (u_email u)\<rparr>,
      exc_installationId = discover_installation G (os_access_token token)\<rparr>"
  have "find (\<lambda>e. ge_primary e \<and> ge_verified e) (m # ms) = None" using assms(12) by (simp add: find_None_iff)
  then have "public_email (Some (m # ms)) = Some (u_email u)"
    using assms(3,11) by (simp add: public_email_def or_undefined_def truthy_def)
  then have ex: "exchangeCodeForUser X G code w = (Inr e, w)"
    using assms(4-6,8-10) by (simp add: exchangeCodeForUser_def orThrow_run fix_email_def e_def)
  let ?p = "payload_from e" and ?inst = "exc_installationId e"
  have em: "gp_email ?p = Some (u_email u)" "gp_githubId ?p = int_to_string (gpr_id prof)"
    by (simp_all add: payload_from_def e_def Let_def)
  have byemail: "find (\<lambda>x. u_email x = u_email u) (users (db w)) = Some u"
    using assms(1,2) by (intro find_key_unique) (auto simp: db_ok_def uniq_def)
  have "find (\<lambda>a. ga_provider a = ''github'' \<and> ga_providerId a = gp_githubId ?p) (gitAccounts (db w)) = None"
    using assms(13) by (auto simp: find_None_iff em)
  then have who: "github_user (db w) (gp_githubId ?p) (u_email u) = Some u"
    by (simp add: github_user_def byemail)
  let ?f = "\<lambda>u. u\<lparr>u_provider := Some ''github'', u_avatar := (if truthy_opt (gp_avatarUrl ?p) then gp_avatarUrl ?p else u_avatar u)\<rparr>"
  define w0 where "w0 = w\<lparr>db := users_update (map (\<lambda>r. if u_id r = u_id u then ?f r else r)) (db w)\<rparr>"
  have byid: "find (\<lambda>x. u_id x = u_id u) (users (db w)) = Some u"
    by (rule userT.find_row [OF db_okD(1) [OF assms(1)] assms(2)])
  have upd: "user_update (u_id u) ?f w = (Inr (?f u), w0)"
    unfolding w0_def using assms(1) byid by (intro userT.update_row_run) (simp_all add: db_ok_def)
  have ok0: "db_ok (db w0)"
    using keepsD [OF userT.keeps_update upd] assms(1) by (simp add: db_kept_def)
  have "map u_id (users (db w0)) = map u_id (users (db w))" by (simp add: w0_def)
  then have "u_id ` set (users (db w0)) = u_id ` set (users (db w))" by (metis set_map)
  then have "u_id u \<in> u_id ` set (users (db w0))" using assms(2) by simp
  from upsert_run [OF ok0 this, of ?p ?inst] obtain a w1 where
    up: "upsert_git_account (u_id u) ?p ?inst w0 = (Inr a, w1)" and w1: "db_ok (db w1)" "users (db w1) = users (db w0)"
      "now w1 = now w0" by blast
  have "u_id u \<in> u_id ` set (users (db w1))" using \<open>u_id u \<in> u_id ` set (users (db w0))\<close> w1(2) by simp
  from issue_tokens_run [OF w1(1) this]
  have iss: "issue_tokens X u w1 = (Inr (tokens_of X u (now w)), remember X (u_id u) (tk_refreshToken (tokens_of X u (now w))) w1)"
    by (simp add: w1(3) w0_def)
  have "processGithubCallback X ?p ?inst None w =
      (Inr (tokens_of X u (now w)), remember X (u_id u) (tk_refreshToken (tokens_of X u (now w))) w1)"
    using upd up iss who assms(3)
    by (simp add: processGithubCallback_def andThen_def gets_run throwIf_run ret_run em truthy_def)
  then have "githubCallback X G (Some code) None None w =
      (Inr (tokens_url X (tokens_of X u (now w))), remember X (u_id u) (tk_refreshToken (tokens_of X u (now w))) w1)"
    using ex assms(7)
    by (simp add: githubCallback_def tryCatch_def andThen_def gets_run ret_run Let_def cookie_user_def truthy_def)
  then show ?thesis using assms(14) by simp
qed

section \<open>Closed examples\<close>

definition sample_github :: github_api where
  "sample_github = \<lparr>
     gh_token = (\<lambda>i s c. Some (OAuthSuccess \<lparr>os_access_token = ''gho'', os_refresh_token = None\<rparr>)),
     gh_user = (\<lambda>t. Some \<lparr>gpr_id = 666, gpr_login = ''mallory'', gpr_avatar_url = ''a'', gpr_name = None, gpr_email = None\<rparr>),
     gh_emails = (\<lambda>t. Some [\<lparr>ge_email = ''ann@x.org'', ge_primary = True, ge_verified = False\<rparr>]),
     gh_installations = (\<lambda>t. None),
     gh_repositories = (\<lambda>i. Some []),
     gh_content = (\<lambda>i ow r p. Some (ContentDir [
        \<lparr>ci_name = ''b'', ci_path = ''b'', ci_type = ''file'', ci_sha = []\<rparr>,
        \<lparr>ci_name = ''a'', ci_path = ''a'', ci_type = ''dir'', ci_sha = []\<rparr>])),
     gh_parse = (\<lambda>s. None)\<rparr>"

definition hub_external :: external where
  \<comment> \<open>the environment with the GitHub keys set, and a cookie that is a token of the second user\<close>
  "hub_external = sample_external\<lparr>x_env := (\<lambda>k. Some ''v''),
     x_jwtVerify := (\<lambda>t s n. Some \<lparr>jc_sub = 1, jc_email = [], jc_name = [], jc_avatar = None\<rparr>)\<rparr>"

lemma sample_ann_in: "hd sample_users \<in> set (users (db sample_world))" and
  sample_bob_in: "sample_users ! 1 \<in> set (users (db sample_world))"
  by (simp_all add: sample_world_def sample_db_def sample_users_def)

theorem getRepoContents_folders_first_witness:
  "\<exists>ds fs. getRepoContents sample_github (\<lambda>s. 0) ''42'' ''ann'' ''shop'' [] sample_world = (Inr (ds @ fs), sample_world) \<and>
     length ds = 1 \<and> length fs = 1"
proof -
  have "gh_content sample_github (js_Number ''42'') ''ann'' ''shop'' [] = Some (ContentDir [
        \<lparr>ci_name = ''b'', ci_path = ''b'', ci_type = ''file'', ci_sha = []\<rparr>,
        \<lparr>ci_name = ''a'', ci_path = ''a'', ci_type = ''dir'', ci_sha = []\<rparr>])" by (simp add: sample_github_def)
  from getRepoContents_folders_first [OF this, of "\<lambda>s. 0" sample_world]
  obtain ds fs where run: "getRepoContents sample_github (\<lambda>s. 0) ''42'' ''ann'' ''shop'' [] sample_world = (Inr (ds @ fs), sample_world)"
    and ds: "mset ds = {#\<lparr>ci_name = ''a'', ci_path = ''a'', ci_type = ''dir'', ci_sha = []\<rparr>#}"
    and fs: "mset fs = {#\<lparr>ci_name = ''b'', ci_path = ''b'', ci_type = ''file'', ci_sha = []\<rparr>#}"
    by (auto simp: is_dir_def is_file_def)
  have "length ds = 1" "length fs = 1" using arg_cong [OF ds, of size] arg_cong [OF fs, of size] by simp_all
  with run show ?thesis by blast
qed

theorem node_server_only_koa_witness:
  "\<exists>d. detectNode (JObj [(''dependencies'', JObj [(''koa'', JStr ''2'')])]) = Some d \<and> det_framework d = ''node-server'' \<and>
     hasDependency [(''koa'', JStr ''2'')] ''koa''"
proof -
  let ?pj = "JObj [(''dependencies'', JObj [(''koa'', JStr ''2'')])]"
  have "detectNode ?pj = Some (detected ''node-server'' ''.'')"
    by (simp add: detectNode_def nodeFrameworks_def hasDependency_def)
  with node_server_only_koa [OF this] show ?thesis by (simp add: hasDependency_def)
qed

theorem callback_claims_installation_witness:
  "\<exists>w'. githubCallback hub_external sample_github (Some ''code'') (Some ''42'') (Some ''jwt'') sample_world =
      (Inr (url_config_appUrl hub_external @ ''/auth/popup-close''), w') \<and>
     git_listRepos sample_github 1 (Some ''42'') w' = listRepositories sample_github ''42'' w'"
proof -
  obtain r w' where run: "githubCallback hub_external sample_github (Some ''code'') (Some ''42'') (Some ''jwt'') sample_world = (r, w')"
    by fastforce
  obtain e where ex: "exchangeCodeForUser hub_external sample_github ''code'' sample_world = (Inr e, sample_world)"
    by (simp add: exchangeCodeForUser_def hub_external_def sample_github_def action_simps)
  have "cookie_user hub_external (now sample_world) (Some ''jwt'') = Some (u_id (sample_users ! 1))"
    by (simp add: cookie_user_def hub_external_def sample_users_def)
  from callback_claims_installation [OF sample_db_ok sample_bob_in _ _ ex this run] run show ?thesis
    by (simp add: sample_users_def)
qed

theorem callback_trusts_unverified_email_witness:
  "\<exists>w'. githubCallback hub_external sample_github (Some ''code'') None None sample_world =
      (Inr (tokens_url hub_external (tokens_of hub_external (hd sample_users) 1000)), w')"
proof -
  obtain r w' where run: "githubCallback hub_external sample_github (Some ''code'') None None sample_world = (r, w')"
    by fastforce
  have "r = Inr (tokens_url hub_external (tokens_of hub_external (hd sample_users) (now sample_world)))"
    by (rule callback_trusts_unverified_email [OF sample_db_ok sample_ann_in _ _ _ _ _ _ _ _ _ _ _ run])
      (auto simp: hub_external_def sample_github_def sample_defs int_to_string_def nat_to_string.simps)
  then show ?thesis using run by (simp add: sample_world_def)
qed

end
