(* ===== verification/Http.thy ===== *)
theory Http
  imports Api Analytics GithubLaws Validation
begin

text \<open>
  The HTTP layer: the controllers with their guards, the decoding of path, query and body, and
  the dispatch to the services. What passport-jwt finds in the Authorization header (a token
  that verifies with the access or the refresh secret) is a parameter, as are the profile of a
  Google login and the reading of an id. A handler throws what Nest turns into the error reply;
  the payload of a reply is the result of the service and is dropped here.
\<close>

record passport =
  pp_access :: "string option \<Rightarrow> time \<Rightarrow> jwt_claims option"
  pp_refresh :: "string option \<Rightarrow> time \<Rightarrow> jwt_claims option"
  pp_google :: "string \<Rightarrow> provider_profile option"

record http =
  h_server :: server
  h_passport :: passport
  h_github :: github_api
  h_checkers :: checkers
  h_idOf :: "string \<Rightarrow> uuid"

record creds =
  cr_authorization :: "string option"
  cr_workerKey :: "string option"
  cr_cookie :: "string option"

abbreviation "h_external H \<equiv> srv_external (h_server H)"

section \<open>Guards and bodies\<close>

definition atGuard :: "http \<Rightarrow> creds \<Rightarrow> jwt_claims handler" where
  \<comment> \<open>\<open>AuthGuard('jwt')\<close> with \<open>AtStrategy\<close>, whose validate returns the payload\<close>
  "atGuard H c = andThen (gets (\<lambda>w. pp_access (h_passport H) (cr_authorization c) (now w))) (\<lambda>claims.
     orThrow claims (UnauthorizedException ''Unauthorized''))"

definition rtGuard :: "http \<Rightarrow> creds \<Rightarrow> (jwt_claims \<times> string) handler" where
  \<comment> \<open>\<open>AuthGuard('jwt-refresh')\<close> with \<open>RtStrategy\<close>, which adds the raw token\<close>
  "rtGuard H c = andThen (gets (\<lambda>w. pp_refresh (h_passport H) (cr_authorization c) (now w))) (\<lambda>claims.
     andThen (orThrow claims (UnauthorizedException ''Unauthorized'')) (\<lambda>payload.
     andThen (rtStrategy_validate (cr_authorization c)) (\<lambda>refreshToken. ret (payload, refreshToken))))"

definition jwtUser :: "http \<Rightarrow> creds \<Rightarrow> jwt_claims option handler" where
  \<comment> \<open>\<open>JwtAuthGuard\<close>; \<open>request.user\<close> is only set by passport\<close>
  "jwtUser H c =
     andThen (jwtAuthGuard (h_external H) (cr_workerKey c) (andThen (atGuard H c) (\<lambda>_. ret True))) (\<lambda>_.
     if truthy_opt (cr_workerKey c) then ret None
     else gets (\<lambda>w. pp_access (h_passport H) (cr_authorization c) (now w)))"

definition getCurrentUserId :: "jwt_claims option \<Rightarrow> uuid handler" where
  \<comment> \<open>\<open>request.user['sub']\<close>\<close>
  "getCurrentUserId u = orThrow (map_option jc_sub u) (Thrown ''TypeError'')"

definition withUser :: "http \<Rightarrow> creds \<Rightarrow> (uuid \<Rightarrow> 'a handler) \<Rightarrow> 'a handler" where
  "withUser H c f = andThen (jwtUser H c) (\<lambda>u. andThen (getCurrentUserId u) f)"

definition validated :: "http \<Rightarrow> (string \<times> rule list) list \<Rightarrow> (json \<Rightarrow> 'd option) \<Rightarrow> json \<Rightarrow> 'd handler" where
  "validated H rules decode body =
     andThen (throwIf (\<not> checked (h_checkers H) rules body) (BadRequestException ''Bad Request Exception'')) (\<lambda>_.
     orThrow (decode body) (Thrown ''PrismaClientValidationError''))"

section \<open>User controllers\<close>

datatype projects_route =
  PostProject json | GetProjects | GetProjectBy uuid | PatchProject uuid json | DeleteProject uuid

fun projectsController :: "http \<Rightarrow> creds \<Rightarrow> projects_route \<Rightarrow> unit handler" where
  "projectsController H c (PostProject body) = withUser H c (\<lambda>userId.
     andThen (validated H create_project_rules create_project_of body) (\<lambda>dto.
     discard (projectsService_create (h_external H) userId dto)))"
| "projectsController H c GetProjects = withUser H c (\<lambda>userId.
     discard (projectsService_findAll (h_external H) userId))"
| "projectsController H c (GetProjectBy i) = withUser H c (\<lambda>userId.
     discard (projectsService_findOne i userId))"
| "projectsController H c (PatchProject i body) = withUser H c (\<lambda>userId.
     andThen (validated H update_project_rules update_project_of body) (\<lambda>dto.
     discard (projectsService_update i userId dto)))"
| "projectsController H c (DeleteProject i) = withUser H c (\<lambda>userId.
     discard (projectsService_remove i userId))"

datatype deployments_route =
  PostDeployment json | GetDeployments | GetDeploymentsOf uuid
| GetLogs uuid "string option" "string option" "string option"
| GetDeploymentBy uuid | PutStatus uuid json | PostCancel uuid

definition enum_status :: "json \<Rightarrow> deployment_status option" where
  \<comment> \<open>\<open>@Body("status")\<close> is not validated; Prisma takes the names of the enum only\<close>
  "enum_status body = Option.bind (str_field body ''status'')
     (\<lambda>s. if s \<in> set status_names then Some (status_of s) else None)"

definition log_query ::
    "server \<Rightarrow> string option \<Rightarrow> string option \<Rightarrow> (log_source option \<times> time option) option" where
  \<comment> \<open>what Prisma accepts as source and cursor; both are ignored when empty\<close>
  "log_query S source after =
     (if truthy_opt source \<and> the source \<notin> set source_names then None
      else if truthy_opt after \<and> srv_parseDate S (the after) = None then None
      else Some (if truthy_opt source then Some (source_of (the source)) else None,
                 if truthy_opt after then srv_parseDate S (the after) else None))"

fun deploymentsController :: "http \<Rightarrow> creds \<Rightarrow> deployments_route \<Rightarrow> unit handler" where
  "deploymentsController H c (PostDeployment body) = withUser H c (\<lambda>userId.
     andThen (validated H create_deployment_rules (\<lambda>j. str_field j ''projectId'') body) (\<lambda>projectId.
     discard (deploymentsService_create (h_external H) userId (h_idOf H projectId))))"
| "deploymentsController H c GetDeployments = withUser H c (\<lambda>userId.
     discard (deploymentsService_findAll userId))"
| "deploymentsController H c (GetDeploymentsOf projectId) = withUser H c (\<lambda>userId.
     discard (deploymentsService_findAllByProject userId projectId))"
| "deploymentsController H c (GetLogs i source after limit) = withUser H c (\<lambda>userId.
     case log_query (h_server H) source after of
       None \<Rightarrow> andThen (deploymentsService_findOne userId i) (\<lambda>_. throw (Thrown ''PrismaClientValidationError''))
     | Some (s, a) \<Rightarrow> discard (deploymentsService_getLogs userId i s a (limit_param limit)))"
| "deploymentsController H c (GetDeploymentBy i) = withUser H c (\<lambda>userId.
     discard (deploymentsService_findOne userId i))"
| "deploymentsController H c (PutStatus i body) = withUser H c (\<lambda>userId.
     case enum_status body of
       None \<Rightarrow> andThen (deploymentsService_findOne userId i) (\<lambda>_. throw (Thrown ''PrismaClientValidationError''))
     | Some status \<Rightarrow> discard (deploymentsService_updateStatus userId i status))"
| "deploymentsController H c (PostCancel i) = withUser H c (\<lambda>userId.
     discard (deploymentsService_cancel userId i))"

datatype domains_route = PostDomain uuid json | GetDomains uuid | DeleteDomain uuid

fun domainsController :: "http \<Rightarrow> creds \<Rightarrow> domains_route \<Rightarrow> unit handler" where
  "domainsController H c (PostDomain projectId body) = withUser H c (\<lambda>userId.
     andThen (validated H add_domain_rules (\<lambda>j. str_field j ''name'') body) (\<lambda>name.
     discard (domainsService_create userId projectId name)))"
| "domainsController H c (GetDomains projectId) = withUser H c (\<lambda>userId.
     discard (domainsService_findAll userId projectId))"
| "domainsController H c (DeleteDomain i) = withUser H c (\<lambda>userId.
     discard (domainsService_remove userId i))"

datatype envs_route = PutEnvs uuid json | GetEnvs uuid

fun envVarsController :: "http \<Rightarrow> creds \<Rightarrow> envs_route \<Rightarrow> unit handler" where
  "envVarsController H c (PutEnvs projectId body) = withUser H c (\<lambda>userId.
     andThen (validated H save_env_vars_rules (\<lambda>j. Some (env_vars_of j)) body) (\<lambda>variables.
     discard (envVarsService_saveAll (h_external H) userId projectId variables)))"
| "envVarsController H c (GetEnvs projectId) = withUser H c (\<lambda>userId.
     discard (envVarsService_findAll (h_external H) (srv_collate (h_server H)) userId projectId))"

datatype settings_route = GetSettingsRoute | PutSettings json

fun settingsController :: "http \<Rightarrow> creds \<Rightarrow> settings_route \<Rightarrow> unit handler" where
  "settingsController H c GetSettingsRoute = withUser H c (\<lambda>userId.
     discard (getConfig (h_external H) userId))"
| "settingsController H c (PutSettings body) = withUser H c (\<lambda>userId.
     andThen (validated H update_settings_rules settings_dto_of body) (\<lambda>dto.
     discard (updateConfig (h_external H) userId dto)))"

datatype analytics_route = GetOverviewRoute | GetProjectAnalyticsRoute uuid

fun analyticsController :: "http \<Rightarrow> creds \<Rightarrow> analytics_route \<Rightarrow> unit handler" where
  "analyticsController H c GetOverviewRoute = withUser H c (\<lambda>userId. discard (getOverview userId))"
| "analyticsController H c (GetProjectAnalyticsRoute projectId) = withUser H c (\<lambda>userId.
     discard (getProjectAnalytics userId projectId))"

datatype git_route =
  GetStatusRoute | GetRepos "string option"
| GetTree "string option" string string "string option"
| GetDetect "string option" string string "string option"

fun gitController :: "http \<Rightarrow> creds \<Rightarrow> git_route \<Rightarrow> unit handler" where
  "gitController H c GetStatusRoute = withUser H c (\<lambda>userId. discard (getStatus userId))"
| "gitController H c (GetRepos installationId) = withUser H c (\<lambda>userId.
     discard (git_listRepos (h_github H) userId installationId))"
| "gitController H c (GetTree installationId ow repo path) = withUser H c (\<lambda>userId.
     discard (git_getRepoTree (h_github H) (srv_collate (h_server H)) userId installationId ow repo path))"
| "gitController H c (GetDetect installationId ow repo path) = withUser H c (\<lambda>userId.
     discard (git_detectFramework (h_github H) userId installationId ow repo path))"

section \<open>The worker's controller\<close>

datatype internal_route =
  PatchDeploymentStatus uuid json | PostLogs uuid json | GetLogsOf uuid "string option"
| GetInstallationToken string | GetSettingsByProject uuid | GetExpired | PostCleanup
| DeleteResources uuid | PatchProjectStatus uuid json | GetPending | PatchDomainStatus uuid json
| PostNotification json

fun internalRoutes :: "http \<Rightarrow> internal_route \<Rightarrow> unit handler" where
  "internalRoutes H (PatchDeploymentStatus i body) =
     andThen (validated H update_deployment_status_rules (\<lambda>j. Some (status_dto_of j)) body) (\<lambda>dto.
     discard (updateDeploymentStatus i dto))"
| "internalRoutes H (PostLogs i body) =
     andThen (validated H create_logs_rules (\<lambda>j. Some (logs_of j)) body) (\<lambda>logs.
     discard (createLogs (srv_parseDate (h_server H)) i logs))"
| "internalRoutes H (GetLogsOf i source) =
     (case log_query (h_server H) source None of
        None \<Rightarrow> andThen (internal_getLogs i None) (\<lambda>_. throw (Thrown ''PrismaClientValidationError''))
      | Some (s, a) \<Rightarrow> discard (internal_getLogs i s))"
| "internalRoutes H (GetInstallationToken installationId) =
     discard (internal_installationToken (h_external H) installationId)"
| "internalRoutes H (GetSettingsByProject projectId) = discard (getSettingsByProject (h_external H) projectId)"
| "internalRoutes H GetExpired = discard getExpiredDeployments"
| "internalRoutes H PostCleanup = discard cleanupLogs"
| "internalRoutes H (DeleteResources i) = discard (deleteDeploymentResources i)"
| "internalRoutes H (PatchProjectStatus i body) =
     andThen (validated H update_project_status_rules (\<lambda>j. str_field j ''onlineStatus'') body) (\<lambda>status.
     discard (updateProjectStatus i (dns_of status)))"
| "internalRoutes H GetPending = discard getPendingDomains"
| "internalRoutes H (PatchDomainStatus i body) =
     andThen (validated H update_domain_status_rules (\<lambda>j. str_field j ''status'') body) (\<lambda>status.
     discard (updateDomainStatus i (dns_of status) (null_field body ''error'')))"
| "internalRoutes H (PostNotification body) =
     andThen (validated H notification_rules (\<lambda>j. Some (notification_of (h_idOf H) j)) body) (\<lambda>dto.
     discard (sendDeploymentNotification (h_external H) dto))"

definition internalController :: "http \<Rightarrow> creds \<Rightarrow> internal_route \<Rightarrow> unit handler" where
  "internalController H c route =
     andThen (workerApiKeyGuard (h_external H) (cr_workerKey c)) (\<lambda>_. internalRoutes H route)"

section \<open>The controller of the logins\<close>

datatype auth_route =
  PostSignUp json | PostSignIn json | PostLogout | PostRefresh | GetMe | GetGoogleCallback string
| GetGithub | GetGithubConnect | GetGithubCallback "string option" "string option"

fun authController :: "http \<Rightarrow> creds \<Rightarrow> auth_route \<Rightarrow> unit handler" where
  "authController H c (PostSignUp body) =
     andThen (validated H sign_up_rules (\<lambda>j. Some j) body) (\<lambda>j.
     discard (signUp (h_external H) (text_of j ''email'') (text_of j ''password'') (str_field j ''name'')))"
| "authController H c (PostSignIn body) =
     andThen (validated H sign_in_rules (\<lambda>j. Some j) body) (\<lambda>j.
     discard (signIn (h_external H) (text_of j ''email'') (text_of j ''password'')))"
| "authController H c PostLogout = andThen (atGuard H c) (\<lambda>claims. discard (logout (jc_sub claims)))"
| "authController H c PostRefresh = andThen (rtGuard H c) (\<lambda>(claims, refreshToken).
     discard (refreshTokens (h_external H) (jc_sub claims) refreshToken))"
| "authController H c GetMe = discard (jwtUser H c)"
| "authController H c (GetGoogleCallback code) =
     (case Option.bind (pp_google (h_passport H) code) (\<lambda>p. case googleStrategy_validate p of Inl _ \<Rightarrow> None | Inr u \<Rightarrow> Some u) of
        None \<Rightarrow> throw (UnauthorizedException ''Unauthorized'')
      | Some profile \<Rightarrow> discard (googleAuthRedirect (h_external H) profile))"
| "authController H c GetGithub = discard (githubLogin (h_external H))"
| "authController H c GetGithubConnect = discard (githubConnect (h_external H))"
| "authController H c (GetGithubCallback code installationId) =
     discard (githubCallback (h_external H) (h_github H) code installationId (cr_cookie c))"

section \<open>The user's endpoints together\<close>

datatype user_endpoint =
    Projects projects_route
  | Deployments deployments_route
  | Domains domains_route
  | Envs envs_route
  | Settings settings_route
  | Analytics analytics_route
  | Git git_route

fun user_http :: "http \<Rightarrow> creds \<Rightarrow> user_endpoint \<Rightarrow> unit handler" where
  "user_http H c (Projects r) = projectsController H c r"
| "user_http H c (Deployments r) = deploymentsController H c r"
| "user_http H c (Domains r) = domainsController H c r"
| "user_http H c (Envs r) = envVarsController H c r"
| "user_http H c (Settings r) = settingsController H c r"
| "user_http H c (Analytics r) = analyticsController H c r"
| "user_http H c (Git r) = gitController H c r"

end
