(* ===== verification/EnvPanel.thy ===== *)
theory EnvPanel
  imports Http
begin

text \<open>
  The environment-variables panel of the web client, \<open>components/project/EnvVarsPanel.tsx\<close>, with
  the SWR hook behind it, \<open>hooks/use-projects.ts\<close>. The React states of the panel are the fields
  of one record, its callbacks functions on it; \<open>crypto.randomUUID\<close> is the stream \<open>ids\<close>, of which
  \<open>pn_drawn\<close> have been used. Toasts are recorded in order. The hook changes the cached list of
  projects and talks to the API through a parameter.
\<close>

section \<open>Reading a \<open>.env\<close> file\<close>

definition word_char :: "char \<Rightarrow> bool" where
  \<comment> \<open>\<open>\w\<close>\<close>
  "word_char c \<longleftrightarrow> is_alnum c \<or> c = CHR ''_''"

definition key_char :: "char \<Rightarrow> bool" where
  \<comment> \<open>\<open>[\w.-]\<close>\<close>
  "key_char c \<longleftrightarrow> word_char c \<or> c = CHR ''.'' \<or> c = CHR ''-''"

definition quote_char :: "char \<Rightarrow> bool" where
  "quote_char c \<longleftrightarrow> c = CHR 0x22 \<or> c = CHR 0x27"

definition strip_quotes :: "string \<Rightarrow> string" where
  \<comment> \<open>\<open>replace(/^['"]|['"]$/g, "")\<close>: one quote at either end, of either kind\<close>
  "strip_quotes s =
     (let t = (case s of [] \<Rightarrow> [] | c # cs \<Rightarrow> if quote_char c then cs else s)
      in if t \<noteq> [] \<and> quote_char (last t) then butlast t else t)"

definition parseEnvLine :: "string \<Rightarrow> (string \<times> string) option" where
  \<comment> \<open>\<open>/^\s*([\w.-]+)\s*=\s*(.*)?\s*$/\<close>; the parts are delimited by what the next part cannot match\<close>
  "parseEnvLine line =
     (let s = dropWhile is_blank line;
          key = takeWhile key_char s
      in if key = [] then None
         else case dropWhile is_blank (dropWhile key_char s) of
             [] \<Rightarrow> None
           | c # rest \<Rightarrow>
               let text = dropWhile is_blank rest
               in if c = CHR ''='' \<and> list_all is_blank (dropWhile (\<lambda>x. \<not> line_end x) text)
                  then Some (js_trim key, js_trim (strip_quotes (takeWhile (\<lambda>x. \<not> line_end x) text)))
                  else None)"

section \<open>The panel\<close>

record panel_var =
  pv_id :: uuid
  pv_key :: string
  pv_value :: string
  pv_targets :: "environment_type list"

record panel_domain =
  pdm_id :: uuid
  pdm_name :: string
  pdm_status :: dns_status
  pdm_type :: environment_type
  pdm_dnsRecords :: "(string \<times> string \<times> string) list"

datatype toast_note = ToastError string | ToastSuccess string | ToastInfo string | Imported nat | Undo panel_var

record panel =
  pn_envVars :: "panel_var list"
  pn_domains :: "panel_domain list"
  pn_dirty :: bool
  pn_showValues :: "uuid set"
  pn_showAll :: bool
  pn_newDomain :: string
  pn_addingDomain :: bool
  pn_drawn :: nat
  pn_toasts :: "toast_note list"

definition panel_init :: "panel_var list \<Rightarrow> panel_domain list \<Rightarrow> panel" where
  "panel_init vars doms = \<lparr>pn_envVars = vars, pn_domains = doms, pn_dirty = False, pn_showValues = {},
     pn_showAll = False, pn_newDomain = [], pn_addingDomain = False, pn_drawn = 0, pn_toasts = []\<rparr>"

definition toast :: "toast_note \<Rightarrow> panel \<Rightarrow> panel" where
  "toast x p = p\<lparr>pn_toasts := pn_toasts p @ [x]\<rparr>"

definition set_vars :: "(panel_var list \<Rightarrow> panel_var list) \<Rightarrow> panel \<Rightarrow> panel" where
  \<comment> \<open>\<open>setEnvVars(f)\<close> with \<open>setUi({ dirty: true })\<close>\<close>
  "set_vars f p = p\<lparr>pn_envVars := f (pn_envVars p), pn_dirty := True\<rparr>"

definition fresh_vars :: "(nat \<Rightarrow> uuid) \<Rightarrow> nat \<Rightarrow> (string \<times> string) list \<Rightarrow> panel_var list \<Rightarrow> panel_var list" where
  \<comment> \<open>the entries whose key is not in the panel yet; each draws an id\<close>
  "fresh_vars ids n parsed vars =
     map (\<lambda>(k, (key, val)). \<lparr>pv_id = ids (n + k), pv_key = key, pv_value = val, pv_targets = [PRODUCTION]\<rparr>)
       (enumerate 0 (filter (\<lambda>(key, val). key \<notin> set (map pv_key vars)) parsed))"

definition importEnvFile :: "(nat \<Rightarrow> uuid) \<Rightarrow> string \<Rightarrow> panel \<Rightarrow> panel" where
  "importEnvFile ids text p =
     (let parsed = List.map_filter parseEnvLine (split_on (CHR 0x0A) text);
          fresh = fresh_vars ids (pn_drawn p) parsed (pn_envVars p)
      in if parsed = [] then toast (ToastError ''No valid environment variables found.'') p
         else toast (Imported (length parsed))
           ((set_vars (\<lambda>vars. fresh @ vars) p)\<lparr>pn_drawn := pn_drawn p + length fresh\<rparr>))"

definition discardChanges :: "panel_var list \<Rightarrow> panel \<Rightarrow> panel" where
  "discardChanges vars p = toast (ToastInfo ''Changes discarded'') (p\<lparr>pn_envVars := vars, pn_dirty := False\<rparr>)"

definition isVisible :: "panel \<Rightarrow> uuid \<Rightarrow> bool" where
  "isVisible p i \<longleftrightarrow> pn_showAll p \<or> i \<in> pn_showValues p"

definition toggleVisibility :: "uuid \<Rightarrow> panel \<Rightarrow> panel" where
  "toggleVisibility i p = p\<lparr>pn_showValues :=
     (if i \<in> pn_showValues p then pn_showValues p - {i} else insert i (pn_showValues p))\<rparr>"

definition toggleAllVisibility :: "panel \<Rightarrow> panel" where
  "toggleAllVisibility p = p\<lparr>pn_showAll := \<not> pn_showAll p\<rparr>"

definition handleKeyChange :: "uuid \<Rightarrow> string \<Rightarrow> panel \<Rightarrow> panel" where
  \<comment> \<open>\<open>handleEnvChange(id, 'key', value)\<close>\<close>
  "handleKeyChange i s = set_vars (map (\<lambda>v. if pv_id v = i then v\<lparr>pv_key := s\<rparr> else v))"

definition handleValueChange :: "uuid \<Rightarrow> string \<Rightarrow> panel \<Rightarrow> panel" where
  \<comment> \<open>\<open>handleEnvChange(id, 'value', value)\<close>\<close>
  "handleValueChange i s = set_vars (map (\<lambda>v. if pv_id v = i then v\<lparr>pv_value := s\<rparr> else v))"

definition toggleEnv :: "uuid \<Rightarrow> environment_type \<Rightarrow> panel \<Rightarrow> panel" where
  "toggleEnv i env = set_vars (map (\<lambda>v.
     if pv_id v \<noteq> i then v
     else v\<lparr>pv_targets := (if env \<in> set (pv_targets v) then filter (\<lambda>e. e \<noteq> env) (pv_targets v)
                          else pv_targets v @ [env])\<rparr>))"

definition addEmptyVar :: "(nat \<Rightarrow> uuid) \<Rightarrow> panel \<Rightarrow> panel" where
  "addEmptyVar ids p =
     (let newVar = \<lparr>pv_id = ids (pn_drawn p), pv_key = [], pv_value = [], pv_targets = []\<rparr>
      in toggleVisibility (pv_id newVar)
           ((set_vars (\<lambda>vars. newVar # vars) p)\<lparr>pn_drawn := Suc (pn_drawn p)\<rparr>))"

definition removeVar :: "uuid \<Rightarrow> panel \<Rightarrow> panel" where
  "removeVar i p =
     (case find (\<lambda>v. pv_id v = i) (pn_envVars p) of
        None \<Rightarrow> p
      | Some v \<Rightarrow> toast (Undo v) (set_vars (filter (\<lambda>v. pv_id v \<noteq> i)) p))"

definition undoRemove :: "panel_var \<Rightarrow> panel \<Rightarrow> panel" where
  \<comment> \<open>the action of the toast\<close>
  "undoRemove v p = p\<lparr>pn_envVars := v # pn_envVars p\<rparr>"

section \<open>The value field\<close>

definition mask :: string where
  \<comment> \<open>sixteen bullets, in UTF-8\<close>
  "mask = concat (replicate 16 [CHR 0xE2, CHR 0x80, CHR 0xA2])"

definition shown_value :: "panel \<Rightarrow> panel_var \<Rightarrow> string" where
  "shown_value p v = (if isVisible p (pv_id v) then pv_value v else mask)"

definition type_value :: "panel_var \<Rightarrow> string \<Rightarrow> panel \<Rightarrow> panel" where
  \<comment> \<open>typing a text at the end of the value field of the variable\<close>
  "type_value v s p = handleValueChange (pv_id v) (shown_value p v @ s) p"

section \<open>Domains of the panel, which are local to it\<close>

definition handleAddDomain :: "(nat \<Rightarrow> uuid) \<Rightarrow> panel \<Rightarrow> panel" where
  "handleAddDomain ids p =
     (if CHR ''.'' \<notin> set (pn_newDomain p) then toast (ToastError ''Invalid Domain'') p
      else toast (ToastSuccess ''Domain Added'') (p\<lparr>
        pn_domains := pn_domains p @ [\<lparr>pdm_id = ids (pn_drawn p), pdm_name = pn_newDomain p, pdm_status = DnsPENDING,
          pdm_type = PRODUCTION,
          pdm_dnsRecords = [(''A'', ''@'', ''76.76.21.21''), (''CNAME'', ''www'', ''cname.code2cloud.dev'')]\<rparr>],
        pn_newDomain := [], pn_addingDomain := False, pn_drawn := Suc (pn_drawn p)\<rparr>))"

definition set_domain_status :: "dns_status \<Rightarrow> uuid \<Rightarrow> panel \<Rightarrow> panel" where
  "set_domain_status st i p = p\<lparr>pn_domains := map (\<lambda>d. if pdm_id d = i then d\<lparr>pdm_status := st\<rparr> else d) (pn_domains p)\<rparr>"

definition verifyDomain :: "uuid \<Rightarrow> panel \<Rightarrow> panel" where
  \<comment> \<open>\<open>verifyDomain\<close> with the timer that always fires two seconds later\<close>
  "verifyDomain i p = toast (ToastSuccess ''Domain Verified'')
     (set_domain_status DnsACTIVE i (set_domain_status DnsVERIFYING i p))"

definition deleteDomain :: "uuid \<Rightarrow> panel \<Rightarrow> panel" where
  "deleteDomain i p = toast (ToastSuccess ''Domain Removed'') (p\<lparr>pn_domains := filter (\<lambda>d. pdm_id d \<noteq> i) (pn_domains p)\<rparr>)"

section \<open>Saving: \<open>useProjects\<close>\<close>

record web_project =
  wp_id :: uuid
  wp_name :: string
  wp_framework :: string
  wp_latestStatus :: "deployment_status option"
  wp_envVars :: "panel_var list"

record swr =
  \<comment> \<open>the cache of \<open>/projects\<close>, and whether a revalidation has been requested\<close>
  sw_projects :: "web_project list option"
  sw_revalidate :: bool

type_synonym 'w call = "'w \<Rightarrow> (api_error + unit) \<times> 'w"

definition optimistic :: "(web_project \<Rightarrow> web_project) \<Rightarrow> uuid \<Rightarrow> swr \<Rightarrow> swr" where
  \<comment> \<open>\<open>mutate(current => current?.map(...) ?? [], false)\<close>\<close>
  "optimistic f i c = c\<lparr>sw_projects := (case sw_projects c of None \<Rightarrow> Some []
     | Some ps \<Rightarrow> Some (map (\<lambda>p. if wp_id p = i then f p else p) ps))\<rparr>"

definition settle :: "swr \<Rightarrow> api_error + 'a \<Rightarrow> swr \<Rightarrow> swr" where
  \<comment> \<open>revalidate on success, put the previous list back on failure\<close>
  "settle previous r c = (case r of Inr x \<Rightarrow> c\<lparr>sw_revalidate := True\<rparr> | Inl e \<Rightarrow> c\<lparr>sw_projects := sw_projects previous\<rparr>)"

definition var_json :: "panel_var \<Rightarrow> json" where
  \<comment> \<open>\<open>({ id, ...rest }) => rest\<close>\<close>
  "var_json v = JObj [(''key'', JStr (pv_key v)), (''value'', JStr (pv_value v)),
     (''targets'', JArr (map (\<lambda>t. JStr (case t of PRODUCTION \<Rightarrow> ''PRODUCTION'' | PREVIEW \<Rightarrow> ''PREVIEW''
        | DEVELOPMENT \<Rightarrow> ''DEVELOPMENT'')) (pv_targets v)))]"

definition panel_body :: "panel_var list \<Rightarrow> json" where
  "panel_body vars = JObj [(''variables'', JArr (map var_json vars))]"

definition saveEnvVars :: "(uuid \<Rightarrow> json \<Rightarrow> 'w call) \<Rightarrow> uuid \<Rightarrow> panel_var list \<Rightarrow> swr \<Rightarrow> 'w \<Rightarrow> (api_error + unit) \<times> swr \<times> 'w" where
  "saveEnvVars put i vars c w =
     (let (r, w') = put i (panel_body vars) w
      in (r, settle c r (optimistic (\<lambda>p. p\<lparr>wp_envVars := vars\<rparr>) i c), w'))"

definition updateProject ::
    "(uuid \<Rightarrow> 'd \<Rightarrow> 'w call) \<Rightarrow> uuid \<Rightarrow> 'd \<Rightarrow> (web_project \<Rightarrow> web_project) \<Rightarrow> swr \<Rightarrow> 'w \<Rightarrow> (api_error + unit) \<times> swr \<times> 'w" where
  \<comment> \<open>\<open>merge\<close> is \<open>{ ...p, ...payload }\<close>; nothing happens before the list is loaded\<close>
  "updateProject put i payload merge c w =
     (if sw_projects c = None then (Inr (), c, w)
      else let (r, w') = put i payload w in (r, settle c r (optimistic merge i c), w'))"

definition createProject :: "('d \<Rightarrow> 'w \<Rightarrow> (api_error + 'p) \<times> 'w) \<Rightarrow> 'd \<Rightarrow> swr \<Rightarrow> 'w \<Rightarrow> (api_error + 'p) \<times> swr \<times> 'w" where
  "createProject post payload c w =
     (let (r, w') = post payload w in (r, (case r of Inr x \<Rightarrow> c\<lparr>sw_revalidate := True\<rparr> | Inl e \<Rightarrow> c), w'))"

definition deleteProject :: "(uuid \<Rightarrow> 'w call) \<Rightarrow> uuid \<Rightarrow> swr \<Rightarrow> 'w \<Rightarrow> (api_error + unit) \<times> swr \<times> 'w" where
  "deleteProject delete i c w =
     (let (r, w') = delete i w in (r, (case r of Inr x \<Rightarrow> c\<lparr>sw_revalidate := True\<rparr> | Inl e \<Rightarrow> c), w'))"

definition getProjectById :: "uuid \<Rightarrow> swr \<Rightarrow> web_project option" where
  "getProjectById i c = Option.bind (sw_projects c) (find (\<lambda>p. wp_id p = i))"

definition saveEnvChanges ::
    "(uuid \<Rightarrow> json \<Rightarrow> 'w call) \<Rightarrow> uuid \<Rightarrow> panel \<Rightarrow> swr \<Rightarrow> 'w \<Rightarrow> panel \<times> swr \<times> 'w" where
  "saveEnvChanges put i p c w =
     (if \<exists>v \<in> set (pn_envVars p). js_trim (pv_key v) = []
      then (toast (ToastError ''All variables must have a key.'') p, c, w)
      else let (r, c', w') = saveEnvVars put i (pn_envVars p) c w
           in (case r of
                 Inr x \<Rightarrow> toast (ToastSuccess ''Environment variables saved'') (p\<lparr>pn_dirty := False\<rparr>)
               | Inl e \<Rightarrow> toast (ToastError ''Failed to save variables'') p, c', w'))"

end
