(* ===== verification/Isolation.thy ===== *)
theory Isolation
  imports Api ProjectLaws
begin

text \<open>
  Tenant isolation. \<open>others u\<close> is everything in the database that is not of user \<open>u\<close>: the
  projects of other users with their variables, deployments, domains and logs, the others'
  configurations and user rows, and the linked accounts. A write that leaves it alone under a
  condition on ids is \<open>guarded\<close>; the services establish the condition with their ownership
  queries, and the guarded writes compose, because the condition speaks of the others' rows.
\<close>

section \<open>What belongs to the others\<close>

definition foreign :: "uuid \<Rightarrow> db \<Rightarrow> uuid \<Rightarrow> bool" where
  "foreign u d i \<longleftrightarrow> (\<exists>p \<in> set (projects d). p_id p = i \<and> p_userId p \<noteq> u)"

definition others :: "uuid \<Rightarrow> db \<Rightarrow> project list \<times> env_var list \<times> deployment list \<times> domain list \<times>
    system_config list \<times> log_entry list \<times> user list \<times> git_account list" where
  "others u d = (filter (\<lambda>p. p_userId p \<noteq> u) (projects d),
     filter (\<lambda>e. foreign u d (ev_projectId e)) (envVars d),
     filter (\<lambda>r. foreign u d (d_projectId r)) (deployments d),
     filter (\<lambda>m. foreign u d (dom_projectId m)) (domains d),
     filter (\<lambda>c. cfg_userId c \<noteq> u) (systemConfigs d),
     filter (\<lambda>l. \<exists>r \<in> set (deployments d). d_id r = log_deploymentId l \<and> foreign u d (d_projectId r)) (logEntries d),
     filter (\<lambda>x. u_id x \<noteq> u) (users d), gitAccounts d)"

abbreviation apart :: "uuid \<Rightarrow> world \<Rightarrow> world \<Rightarrow> bool" where
  "apart u \<equiv> same_db (others u)"

lemma foreign_others: "foreign u d i \<longleftrightarrow> i \<in> p_id ` set (fst (others u d))"
  by (auto simp: foreign_def others_def)

lemma foreign_stable: "others u d' = others u d \<Longrightarrow> foreign u d' i = foreign u d i"
  by (simp add: foreign_others)

lemma foreign_simps [simp]:
  "foreign u (envVars_update f1 d) i = foreign u d i" "foreign u (deployments_update f2 d) i = foreign u d i"
  "foreign u (domains_update f3 d) i = foreign u d i" "foreign u (systemConfigs_update f4 d) i = foreign u d i"
  "foreign u (logEntries_update f5 d) i = foreign u d i" "foreign u (users_update f6 d) i = foreign u d i"
  "foreign u (gitAccounts_update f7 d) i = foreign u d i" "foreign u (nextId_update f8 d) i = foreign u d i"
  by (simp_all add: foreign_def)

section \<open>Writes that leave the others alone\<close>

definition leaves_others :: "uuid \<Rightarrow> (db \<Rightarrow> bool) \<Rightarrow> (db \<Rightarrow> db) \<Rightarrow> bool" where
  "leaves_others u P f \<longleftrightarrow> (\<forall>d. P d \<longrightarrow> others u (f d) = others u d)"

lemma write_apart:
  "leaves_others u P f \<Longrightarrow> ensures (\<lambda>w. P (db w)) (apart u) (write_db f) (\<lambda>_ _. True)"
  by (auto simp: ensures_def write_db_run same_db_def leaves_others_def)

lemma create_apart:
  assumes "\<And>m n. leaves_others u P (\<lambda>d. tab (\<lambda>rs. rs @ [setid (\<lambda>_. m) r]) (d\<lparr>nextId := n\<rparr>))"
  shows "ensures (\<lambda>w. P (db w)) (apart u) (create_row tab setid r) (\<lambda>_ _. True)"
  using assms
  by (auto simp: ensures_def create_row_def action_simps andThen_def same_db_def leaves_others_def)

lemma create_rows_apart:
  assumes "\<And>m n. leaves_others u P (\<lambda>d. tab (\<lambda>xs. xs @ number_rows setid m rs) (d\<lparr>nextId := n\<rparr>))"
  shows "ensures (\<lambda>w. P (db w)) (apart u) (create_rows tab setid rs) (\<lambda>_ _. True)"
  using assms
  by (auto simp: ensures_def create_rows_def action_simps same_db_def leaves_others_def)

lemma update_where_apart:
  assumes "leaves_others u P (tab (map (\<lambda>r. if Q r then setid (\<lambda>_. rid r) (f r) else r)))"
  shows "ensures (\<lambda>w. P (db w)) (apart u) (update_where tab setid rid Q f) (\<lambda>_ _. True)"
  unfolding update_where_def by (rule write_apart [OF assms])

lemma update_row_apart:
  assumes "leaves_others u P (tab (map (\<lambda>r. if rid r = i then setid (\<lambda>_. rid r) (f r) else r)))"
  shows "ensures (\<lambda>w. P (db w)) (apart u) (update_row rows tab setid rid i f) (\<lambda>_ _. True)"
  using assms
  by (auto simp: ensures_def update_row_def update_where_def action_simps andThen_def same_db_def leaves_others_def
      split: option.splits)

lemma deployment_create_apart:
  "ensures (\<lambda>w. \<not> foreign u (db w) (d_projectId r)) (apart u) (deployment_create r) (\<lambda>_ _. True)"
  by (rule create_apart) (auto simp: leaves_others_def others_def)

lemma domain_create_apart:
  "ensures (\<lambda>w. \<not> foreign u (db w) (dom_projectId r)) (apart u) (domain_create r) (\<lambda>_ _. True)"
  by (rule create_apart) (auto simp: leaves_others_def others_def)

lemma config_create_apart:
  "cfg_userId r = u \<Longrightarrow> keeps (apart u) (config_create r)"
  by (rule create_apart) (auto simp: leaves_others_def others_def)

lemma project_create_apart:
  "p_userId r = u \<Longrightarrow> keeps (apart u) (project_create r)"
  by (rule create_apart) (auto simp: leaves_others_def others_def foreign_def)

lemma envVar_createMany_apart:
  assumes "\<forall>r \<in> set rs. ev_projectId r = i"
  shows "ensures (\<lambda>w. \<not> foreign u (db w) i) (apart u) (envVar_createMany rs) (\<lambda>_ _. True)"
proof (rule create_rows_apart)
  fix m n
  have "map ev_projectId (number_rows ev_id_update m rs) = map ev_projectId rs"
    by (rule map_number_rows) simp
  then have "ev_projectId ` set (number_rows ev_id_update m rs) = ev_projectId ` set rs" by (metis set_map)
  then have "\<forall>e \<in> set (number_rows ev_id_update m rs). ev_projectId e = i" using assms by auto
  then show "leaves_others u (\<lambda>d. \<not> foreign u d i) (\<lambda>d. envVars_update (\<lambda>xs. xs @ number_rows ev_id_update m rs) (d\<lparr>nextId := n\<rparr>))"
    by (auto simp: leaves_others_def others_def filter_empty_conv)
qed

lemma envVar_deleteMany_apart:
  "ensures (\<lambda>w. \<not> foreign u (db w) i) (apart u) (envVar_deleteMany (\<lambda>e. ev_projectId e = i)) (\<lambda>_ _. True)"
  unfolding delete_where_def
  by (rule write_apart) (simp add: leaves_others_def others_def,
      intro allI impI filter_cong HOL.refl, auto)

lemma domain_deleteMany_apart:
  "ensures (\<lambda>w. \<forall>m \<in> set (domains (db w)). dom_id m = i \<longrightarrow> \<not> foreign u (db w) (dom_projectId m)) (apart u)
     (domain_deleteMany (\<lambda>m. dom_id m = i)) (\<lambda>_ _. True)"
  unfolding delete_where_def
  by (rule write_apart) (simp add: leaves_others_def others_def,
      intro allI impI filter_cong HOL.refl, auto)

lemma deployment_update_apart:
  assumes "\<And>r. d_projectId (f r) = d_projectId r"
  shows "ensures (\<lambda>w. \<forall>r \<in> set (deployments (db w)). d_id r = i \<longrightarrow> \<not> foreign u (db w) (d_projectId r)) (apart u)
     (deployment_update i f) (\<lambda>_ _. True)"
proof (rule update_row_apart, unfold leaves_others_def, intro allI impI)
  fix d :: db
  let ?g = "\<lambda>r. if d_id r = i then d_id_update (\<lambda>_. d_id r) (f r) else r"
  assume own: "\<forall>r \<in> set (deployments d). d_id r = i \<longrightarrow> \<not> foreign u d (d_projectId r)"
  have g: "d_id (?g r) = d_id r" "d_projectId (?g r) = d_projectId r" for r using assms by simp_all
  have 1: "filter (\<lambda>r. foreign u d (d_projectId r)) (map ?g (deployments d)) = filter (\<lambda>r. foreign u d (d_projectId r)) (deployments d)"
    by (rule filter_map_unaffected) (use own in \<open>auto simp: assms\<close>)
  have 2: "(\<exists>r \<in> set (map ?g (deployments d)). d_id r = x \<and> foreign u d (d_projectId r)) \<longleftrightarrow>
      (\<exists>r \<in> set (deployments d). d_id r = x \<and> foreign u d (d_projectId r))" for x
    by (simp only: set_map bex_simps g)
  show "others u (deployments_update (map ?g) d) = others u d"
    unfolding others_def using 1 2 by simp
qed

lemma project_update_apart:
  assumes "\<And>p. p_userId (f p) = p_userId p"
  shows "ensures (\<lambda>w. \<not> foreign u (db w) i) (apart u) (project_update i f) (\<lambda>_ _. True)"
proof (rule update_row_apart, unfold leaves_others_def, intro allI impI)
  fix d :: db
  let ?g = "\<lambda>p. if p_id p = i then p_id_update (\<lambda>_. p_id p) (f p) else p"
  assume own: "\<not> foreign u d i"
  have 1: "filter (\<lambda>p. p_userId p \<noteq> u) (map ?g (projects d)) = filter (\<lambda>p. p_userId p \<noteq> u) (projects d)"
    by (rule filter_map_unaffected) (use own in \<open>auto simp: foreign_def assms\<close>)
  have "(\<exists>p \<in> set (map ?g ps). p_id p = j \<and> p_userId p \<noteq> u) \<longleftrightarrow> (\<exists>p \<in> set ps. p_id p = j \<and> p_userId p \<noteq> u)" for ps j
    by (induction ps) (auto simp: assms)
  then have 2: "foreign u (projects_update (map ?g) d) j = foreign u d j" for j
    by (simp add: foreign_def)
  show "others u (projects_update (map ?g) d) = others u d"
    unfolding others_def using 1 2 by simp
qed

lemma config_update_apart:
  assumes "\<And>c. cfg_userId (f c) = cfg_userId c"
  shows "ensures (\<lambda>w. \<forall>c \<in> set (systemConfigs (db w)). cfg_id c = i \<longrightarrow> cfg_userId c = u) (apart u)
     (config_update i f) (\<lambda>_ _. True)"
proof (rule update_row_apart, unfold leaves_others_def, intro allI impI)
  fix d :: db
  let ?g = "\<lambda>p. if cfg_id p = i then cfg_id_update (\<lambda>_. cfg_id p) (f p) else p"
  assume own: "\<forall>c \<in> set (systemConfigs d). cfg_id c = i \<longrightarrow> cfg_userId c = u"
  have "filter (\<lambda>p. cfg_userId p \<noteq> u) (map ?g (systemConfigs d)) = filter (\<lambda>p. cfg_userId p \<noteq> u) (systemConfigs d)"
    by (rule filter_map_unaffected) (use own in \<open>auto simp: assms\<close>)
  then show "others u (systemConfigs_update (map ?g) d) = others u d"
    unfolding others_def by simp
qed

lemma user_update_apart:
  assumes "\<And>c. u_id (f c) = u_id c"
  shows "keeps (apart u) (user_update u f)" and "keeps (apart u) (user_updateMany (\<lambda>x. u_id x = u \<and> Q x) f)"
proof -
  have "filter (\<lambda>p. u_id p \<noteq> u) (map (\<lambda>p. if u_id p = u \<and> Q' p then u_id_update (\<lambda>_. u_id p) (f p) else p) us) =
      filter (\<lambda>p. u_id p \<noteq> u) us" for us Q'
    by (rule filter_map_unaffected) (auto simp: assms)
  from this [where Q' = "\<lambda>_. True"] this [where Q' = Q]
  show "keeps (apart u) (user_update u f)" "keeps (apart u) (user_updateMany (\<lambda>x. u_id x = u \<and> Q x) f)"
    by (auto intro!: update_row_apart [where P = "\<lambda>_. True"] update_where_apart [where P = "\<lambda>_. True"]
        simp: leaves_others_def others_def)
qed

lemma cascade_apart: "leaves_others u (\<lambda>d. uniq d \<and> \<not> foreign u d i) (cascade_project i)"
  unfolding leaves_others_def
proof (intro allI impI)
  fix d :: db
  assume own: "uniq d \<and> \<not> foreign u d i"
  have f: "foreign u (cascade_project i d) j = foreign u d j" for j
    using own by (auto simp: foreign_def cascade_project_def)
  let ?for = "\<lambda>l. \<exists>r \<in> set (deployments d). d_id r = log_deploymentId l \<and> foreign u d (d_projectId r)"
  have dist: "distinct (map d_id (deployments d))" using own by (simp add: uniq_def)
  have gone: "log_deploymentId l \<notin> d_id ` set (filter (\<lambda>r. d_projectId r = i) (deployments d))" if "?for l" for l
    using that own distinct_map_same [OF dist] by fastforce
  have kept: "?for l \<longleftrightarrow> (\<exists>r \<in> set (deployments (cascade_project i d)). d_id r = log_deploymentId l \<and> foreign u d (d_projectId r))" for l
    using own by (auto simp: cascade_project_def)
  have 1: "filter (\<lambda>p. p_userId p \<noteq> u) (projects (cascade_project i d)) = filter (\<lambda>p. p_userId p \<noteq> u) (projects d)"
    using own by (simp add: cascade_project_def, intro filter_cong HOL.refl) (auto simp: foreign_def)
  have 2: "filter (\<lambda>e. foreign u d (ev_projectId e)) (envVars (cascade_project i d)) = filter (\<lambda>e. foreign u d (ev_projectId e)) (envVars d)"
    using own by (simp add: cascade_project_def, intro filter_cong HOL.refl) auto
  have 3: "filter (\<lambda>e. foreign u d (d_projectId e)) (deployments (cascade_project i d)) = filter (\<lambda>e. foreign u d (d_projectId e)) (deployments d)"
    using own by (simp add: cascade_project_def, intro filter_cong HOL.refl) auto
  have 4: "filter (\<lambda>e. foreign u d (dom_projectId e)) (domains (cascade_project i d)) = filter (\<lambda>e. foreign u d (dom_projectId e)) (domains d)"
    using own by (simp add: cascade_project_def, intro filter_cong HOL.refl) auto
  have 5: "filter ?for (logEntries (cascade_project i d)) = filter ?for (logEntries d)"
    using gone by (simp add: cascade_project_def, intro filter_cong HOL.refl) auto
  show "others u (cascade_project i d) = others u d"
    unfolding others_def f using 1 2 3 4 5 by (simp flip: kept) (simp add: cascade_project_def)
qed

lemma project_delete_apart:
  "ensures (\<lambda>w. uniq (db w) \<and> \<not> foreign u (db w) i) (apart u) (project_delete i) (\<lambda>_ _. True)"
  using cascade_apart [of u i, unfolded leaves_others_def]
  by (auto simp: ensures_def project_delete_def action_simps andThen_def same_db_def split: option.splits)

section \<open>Composition\<close>

text \<open>A condition on the others' rows survives every step that leaves them alone.\<close>

definition guarded :: "uuid \<Rightarrow> (db \<Rightarrow> bool) \<Rightarrow> 'a handler \<Rightarrow> bool" where
  "guarded u P m \<longleftrightarrow> ensures (\<lambda>w. P (db w)) (apart u) m (\<lambda>_ _. True)"

definition stable :: "uuid \<Rightarrow> (db \<Rightarrow> bool) \<Rightarrow> bool" where
  "stable u P \<longleftrightarrow> (\<forall>d d'. others u d' = others u d \<longrightarrow> P d \<longrightarrow> P d')"

lemma guarded_keeps: "keeps (apart u) m \<Longrightarrow> guarded u P m"
  by (auto simp: guarded_def ensures_def)

lemma guardedD: "guarded u P m \<Longrightarrow> P (db w) \<Longrightarrow> others u (db (snd (m w))) = others u (db w)"
  by (simp add: guarded_def ensures_def same_db_def)

lemma guarded_andThen_val:
  assumes "stable u P" and "guarded u P m" and "\<And>x w w'. m w = (Inr x, w') \<Longrightarrow> guarded u P (f x)"
  shows "guarded u P (andThen m f)"
  unfolding guarded_def
proof (rule sameDb.ensures_andThen [where Q = "\<lambda>x w. P (db w) \<and> guarded u P (f x)"])
  show "ensures (\<lambda>w. P (db w)) (apart u) m (\<lambda>x w. P (db w) \<and> guarded u P (f x))"
  proof (rule ensuresI)
    fix w r w'
    assume P: "P (db w)" and run: "m w = (r, w')"
    have "apart u w w'" using ensuresD [OF assms(2) [unfolded guarded_def] P run] .
    then show "apart u w w' \<and> (\<forall>x. r = Inr x \<longrightarrow> P (db w') \<and> guarded u P (f x))"
      using assms(1,3) P run by (auto simp: stable_def same_db_def)
  qed
  show "ensures (\<lambda>w. P (db w) \<and> guarded u P (f x)) (apart u) (f x) (\<lambda>_ _. True)" for x
    by (auto simp: guarded_def ensures_def)
qed

lemma guarded_andThen:
  "stable u P \<Longrightarrow> guarded u P m \<Longrightarrow> (\<And>x. guarded u P (f x)) \<Longrightarrow> guarded u P (andThen m f)"
  by (rule guarded_andThen_val)

lemma guarded_andThen_gets:
  "stable u P \<Longrightarrow> (\<And>w. guarded u P (f (g w))) \<Longrightarrow> guarded u P (andThen (gets g) f)"
  by (rule guarded_andThen_val) (auto simp: guarded_keeps sameDb.keeps_gets gets_def)

lemma guarded_transaction: "guarded u P m \<Longrightarrow> guarded u P (transaction m)"
  by (auto simp: guarded_def ensures_def same_db_def transaction_def split: prod.splits sum.splits)

lemma guarded_forEach:
  "stable u P \<Longrightarrow> (\<And>x. guarded u P (f x)) \<Longrightarrow> guarded u P (forEach f xs)"
  by (induction xs) (simp_all add: guarded_andThen guarded_keeps sameDb.keeps_ret)

lemma guarded_if: "guarded u P m \<Longrightarrow> guarded u P n \<Longrightarrow> guarded u P (if b then m else n)"
  by simp

definition mine :: "uuid \<Rightarrow> uuid \<Rightarrow> db \<Rightarrow> bool" where
  "mine u i d \<longleftrightarrow> \<not> foreign u d i"

lemma stable_mine: "stable u (mine u i)"
  unfolding stable_def mine_def using foreign_stable by blast

lemma guarded_writes:
  "d_projectId r = i \<Longrightarrow> guarded u (mine u i) (deployment_create r)"
  "dom_projectId m = i \<Longrightarrow> guarded u (mine u i) (domain_create m)"
  "(\<forall>e \<in> set rs. ev_projectId e = i) \<Longrightarrow> guarded u (mine u i) (envVar_createMany rs)"
  "guarded u (mine u i) (envVar_deleteMany (\<lambda>e. ev_projectId e = i))"
  "(\<And>p. p_userId (f p) = p_userId p) \<Longrightarrow> guarded u (mine u i) (project_update i f)"
  unfolding guarded_def mine_def
  by (use deployment_create_apart in blast, use domain_create_apart in blast,
      rule envVar_createMany_apart, assumption, rule envVar_deleteMany_apart, rule project_update_apart)

lemma guarded_reads:
  "guarded u P (gets g)" "guarded u P (ret x)" "guarded u P (throw e)" "guarded u P (throwIf b e)"
  "guarded u P (orThrow y e)" "guarded u P (randomBytes n)" "guarded u P (encrypt X s)"
  "guarded u P (decryptM X s)" "guarded u P (generateDeploymentUrl X s)" "guarded u P (addBuildJob j)"
  "guarded u P (publishCancelSignal k)" "guarded u P (addProjectCleanupJob c)"
  by (intro guarded_keeps sameDb.keeps_db_intros read_only_same_db)+

lemmas guarded_intros = guarded_andThen [OF stable_mine] guarded_transaction guarded_forEach [OF stable_mine]
  guarded_if guarded_writes guarded_reads

lemma owned_project_mine:
  assumes "uniq d" and "owned_project u i d = Some p"
  shows "mine u i d" and "p_id p = i"
proof -
  show i: "p_id p = i" using owned_projectD [OF assms(2)] by simp
  have "q = p" if "q \<in> set (projects d)" "p_id q = i" for q
    using distinct_map_same [OF projectT.uniq_rid [OF assms(1)] that(1), of p] owned_projectD [OF assms(2)] that(2)
    by simp
  then show "mine u i d" using owned_projectD [OF assms(2)] by (auto simp: mine_def foreign_def)
qed

section \<open>The services\<close>

lemma record_deployment_guarded: "guarded u (mine u (p_id p)) (record_deployment v p c url)"
  unfolding record_deployment_def
  by (intro guarded_transaction guarded_andThen_gets [OF stable_mine] guarded_andThen [OF stable_mine]
      guarded_writes guarded_reads; simp add: snapshot_def)

lemma deployments_create_apart:
  assumes "db_ok (db w)"
  shows "apart u w (snd (deploymentsService_create X u i w))"
proof -
  have m: "mine u (p_id p) (db w)" if "owned_project u i (db w) = Some p" for p
    using owned_project_mine [OF db_okD(1) [OF assms] that] by simp
  have "guarded u (mine u (p_id p)) (andThen (record_deployment u p c url) (\<lambda>d. andThen (addBuildJob (g d)) (\<lambda>_. ret d)))" for p c url g
    by (intro guarded_andThen [OF stable_mine] record_deployment_guarded guarded_reads)
  note rest = guardedD [OF this m]
  show ?thesis
    by (auto simp: deploymentsService_create_def action_simps Let_def same_db_def rest
        split: option.splits)
qed

definition my_deployment :: "uuid \<Rightarrow> uuid \<Rightarrow> db \<Rightarrow> bool" where
  "my_deployment u i d \<longleftrightarrow> (\<forall>r \<in> set (deployments d). d_id r = i \<longrightarrow> \<not> foreign u d (d_projectId r))"

lemma owned_deployment_mine:
  assumes "uniq d" and "owned_deployment u i d = Some r"
  shows "my_deployment u i d"
proof -
  note r = owned_deploymentD [OF assms(2)]
  have "x = r" if "x \<in> set (deployments d)" "d_id x = i" for x
    using distinct_map_same [OF deploymentT.uniq_rid [OF assms(1)] that(1), of r] r that(2) by simp
  moreover have "\<not> foreign u d (d_projectId r)"
  proof -
    obtain z where z: "z \<in> set (projects d)" "p_id z = d_projectId r" "p_userId z = u"
      using r by (auto simp: project_owner_def dest!: find_SomeD)
    have pz: "p = z" if "p \<in> set (projects d)" "p_id p = d_projectId r" for p
      by (rule distinct_map_same [OF projectT.uniq_rid [OF assms(1)] that(1) z(1)]) (simp only: that(2) z(2))
    show ?thesis using z(3) pz unfolding foreign_def by blast
  qed
  ultimately show ?thesis by (auto simp: my_deployment_def)
qed

lemma deployment_update_guarded:
  "(\<And>r. d_projectId (f r) = d_projectId r) \<Longrightarrow> my_deployment u i (db w) \<Longrightarrow>
   others u (db (snd (deployment_update i f w))) = others u (db w)"
  using deployment_update_apart [of f i u] by (simp add: ensures_def my_deployment_def same_db_def)

lemma andThen_reads:
  assumes "\<And>x v. others u (db (snd (f x v))) = others u (db v)"
  shows "others u (db (snd (andThen m f w))) = others u (db (snd (m w)))"
  using assms by (auto simp: andThen_def split: prod.splits sum.splits)

lemma deployments_change_apart:
  assumes "db_ok (db w)"
  shows "apart u w (snd (deploymentsService_updateStatus u i st w))" and "apart u w (snd (deploymentsService_cancel u i w))"
proof -
  note own = owned_deployment_mine [OF db_okD(1) [OF assms]]
  show "apart u w (snd (deploymentsService_updateStatus u i st w))"
    by (auto simp: deploymentsService_updateStatus_def action_simps same_db_def deployment_update_guarded own
        split: option.splits)
  have rest: "others u (db (snd (andThen (publishCancelSignal i) (\<lambda>_. ret x) v))) = others u (db v)" for x v
    by (simp add: action_simps andThen_def)
  show "apart u w (snd (deploymentsService_cancel u i w))"
    by (auto simp: deploymentsService_cancel_def action_simps same_db_def deployment_update_guarded own
        andThen_reads [OF rest] split: option.splits)
qed

lemma project_create_mine:
  assumes "project_create r w = (Inr p, w')" and "fresh (db w)" and "p_userId r = u"
  shows "mine u (p_id p) (db w')"
proof -
  have "\<forall>q \<in> set (projects (db w)). p_id q \<noteq> nextId (db w)"
    using assms(2) by (auto simp: fresh_def)
  then show ?thesis
    using assms(1,3)
    by (auto simp: create_row_def action_simps andThen_def mine_def foreign_def insert_form split: if_splits)
qed

lemma store_env_vars_guarded: "guarded u (mine u i) (store_env_vars X i vs)"
proof -
  have rows: "\<forall>e \<in> set rows. ev_projectId e = i"
    if "collect (\<lambda>(k, v). andThen (encrypt X v) (\<lambda>c. ret (new_env_var\<lparr>ev_key := k, ev_value := c, ev_projectId := i\<rparr>))) vs w = (Inr rows, w')"
    for vs rows w w'
    using that
    by (induction vs arbitrary: rows w w') (auto simp: action_simps elim!: andThen_cases)
  have "keeps (apart u) (collect (\<lambda>(k, v). andThen (encrypt X v) (\<lambda>c. ret (new_env_var\<lparr>ev_key := k, ev_value := c, ev_projectId := i\<rparr>))) vs)" for vs
    unfolding case_prod_unfold by (intro sameDb.keeps_db_intros read_only_same_db)
  note col = guarded_keeps [OF this]
  show ?thesis
  proof (cases vs)
    case None
    then show ?thesis by (simp add: store_env_vars_def guarded_reads)
  next
    case (Some xs)
    then show ?thesis
      by (auto simp: store_env_vars_def guarded_reads intro!: guarded_andThen_val [OF stable_mine col] guarded_writes(3)
          dest: rows)
  qed
qed

lemma create_in_tx_apart:
  assumes "fresh (db w)"
  shows "apart u w (snd (create_in_tx X u dto inst c w))"
proof -
  let ?rest = "\<lambda>t project. andThen (store_env_vars X (p_id project) (pd_envVars dto)) (\<lambda>_.
     andThen (generateDeploymentUrl X (p_name project)) (\<lambda>deploymentUrl.
     andThen (gets (\<lambda>w. (snapshot w u project c (Some deploymentUrl))
       \<lparr>d_branch := pd_gitBranch dto\<rparr>)) (\<lambda>row.
     andThen (deployment_create row) (\<lambda>deployment.
     andThen (domain_create (new_domain\<lparr>dom_projectId := p_id project, dom_name := deploymentUrl,
       dom_createdAt := t\<rparr>)) (\<lambda>_.
     andThen (addBuildJob (initial_job project dto (d_id deployment) inst c deploymentUrl)) (\<lambda>_.
     ret project))))))"
  have rest: "guarded u (mine u (p_id p)) (?rest t p)" for t p
    by (intro guarded_andThen_gets [OF stable_mine] guarded_andThen [OF stable_mine] store_env_vars_guarded
        guarded_writes guarded_reads; simp add: snapshot_def)
  have create: "apart u w (snd (project_create (project_row t u dto) w))" for t
    by (rule keeps_run [OF project_create_apart]) (simp add: project_row_def)
  have "apart u w (snd (andThen (project_create (project_row t u dto)) (?rest t) w))" for t
  proof (cases "project_create (project_row t u dto) w")
    case (Pair r w1)
    show ?thesis
    proof (cases r)
      case (Inl e)
      then show ?thesis using Pair create [of t] by (simp add: andThen_def)
    next
      case (Inr p)
      have "mine u (p_id p) (db w1)"
        by (rule project_create_mine [OF Pair [unfolded Inr] assms]) (simp add: project_row_def)
      from guardedD [OF rest this, of t] show ?thesis
        using Pair Inr create [of t] by (simp add: andThen_Inr same_db_def)
    qed
  qed
  then show ?thesis unfolding create_in_tx_def by (simp only: andThen_gets)
qed

lemma transaction_apart: "apart u w (snd (m w)) \<Longrightarrow> apart u w (snd (transaction m w))"
  by (auto simp: same_db_def transaction_def split: prod.splits sum.splits)

lemma andThen_findOne_apart:
  "apart u w (snd (m w)) \<Longrightarrow> apart u w (snd (andThen m (\<lambda>r. projectsService_findOne (g r) v) w))"
  by (auto simp: same_db_def andThen_def findOne_run split: prod.splits sum.splits option.splits)

lemma projects_create_apart:
  assumes "db_ok (db w)"
  shows "apart u w (snd (projectsService_create X u dto w))"
proof -
  have "apart u w (snd (andThen (transaction (create_in_tx X u dto inst c)) (\<lambda>r. projectsService_findOne (p_id r) u) w))" for inst c
    using assms by (intro andThen_findOne_apart transaction_apart create_in_tx_apart) (simp add: db_ok_def)
  then show ?thesis
    by (auto simp: projectsService_create_def action_simps Let_def same_db_def split: option.splits)
qed

lemma project_update_mine:
  "(\<And>p. p_userId (f p) = p_userId p) \<Longrightarrow> mine u i (db w) \<Longrightarrow>
   others u (db (snd (project_update i f w))) = others u (db w)"
  by (rule guardedD [OF guarded_writes(5)])

lemma projects_update_apart:
  assumes "db_ok (db w)"
  shows "apart u w (snd (projectsService_update i u dto w))"
proof -
  have "mine u i (db w)" if "owned_project u i (db w) = Some p" for p
    using owned_project_mine [OF db_okD(1) [OF assms] that] by simp
  then show ?thesis
    by (auto simp: projectsService_update_def findOne_run andThen_def gets_run same_db_def
        intro: project_update_mine split: option.splits) (simp add: apply_update_def project_update_mine)
qed

lemma reads_then:
  assumes "keeps (same_db (\<lambda>d. d)) m" and "\<And>x v. db v = db w \<Longrightarrow> others u (db (snd (f x v))) = others u (db w)"
  shows "others u (db (snd (andThen m f w))) = others u (db w)"
proof (cases "m w")
  case (Pair r w')
  then have "db w' = db w" using keepsD [OF assms(1) Pair] by (simp add: same_db_def)
  then show ?thesis using Pair assms(2) by (auto simp: andThen_def split: sum.splits)
qed

lemma projects_remove_apart:
  assumes "db_ok (db w)"
  shows "apart u w (snd (projectsService_remove i u w))"
proof -
  have mine: "mine u i (db w)" if "owned_project u i (db w) = Some p" for p
    using owned_project_mine [OF db_okD(1) [OF assms] that] by simp
  have del: "others u (db (snd (project_delete i v))) = others u (db w)"
    if "db v = db w" "mine u i (db w)" for v
    using project_delete_apart [of u i] assms that by (simp add: ensures_def same_db_def mine_def db_ok_def)
  have pub: "keeps (same_db (\<lambda>d. d)) (forEach (\<lambda>r. if in_progress (d_status r) then publishCancelSignal (d_id r) else ret ()) rs)" for rs
    by (intro sameDb.keeps_db_intros read_only_same_db)
  have job: "keeps (same_db (\<lambda>d. d)) (if b then addProjectCleanupJob c else ret ())" for b c
    by (intro sameDb.keeps_db_intros read_only_same_db)
  have "others u (db (snd (andThen (forEach (\<lambda>r. if in_progress (d_status r) then publishCancelSignal (d_id r) else ret ()) rs)
      (\<lambda>_. andThen (if b then addProjectCleanupJob c else ret ()) (\<lambda>_. project_delete i)) w))) = others u (db w)"
    if "mine u i (db w)" for rs b c
  proof (rule reads_then [OF pub])
    fix x and v :: world
    assume v: "db v = db w"
    have "others u (db (snd (andThen (if b then addProjectCleanupJob c else ret ()) (\<lambda>_. project_delete i) v))) = others u (db v)"
      by (rule reads_then [OF job]) (simp add: del that v)
    then show "others u (db (snd (andThen (if b then addProjectCleanupJob c else ret ()) (\<lambda>_. project_delete i) v))) = others u (db w)"
      by (simp add: v)
  qed
  note rest = this [OF mine]
  show ?thesis
    by (simp add: projectsService_remove_def andThen_gets andThen_orThrow same_db_def rest split: option.splits)
qed

section \<open>Domains, variables, settings, sessions\<close>

lemma domains_apart:
  assumes "db_ok (db w)"
  shows "apart u w (snd (domainsService_create u i n w))" and "apart u w (snd (domainsService_remove u j w))"
proof -
  have mine: "mine u i (db w)" if "owned_project u i (db w) = Some p" for p
    using owned_project_mine [OF db_okD(1) [OF assms] that] by simp
  have "guarded u (mine u i) (domain_create (new_domain\<lparr>dom_name := n, dom_projectId := i, dom_createdAt := t\<rparr>))" for t
    by (rule guarded_writes) simp
  note new = guardedD [OF this mine]
  show "apart u w (snd (domainsService_create u i n w))"
    by (auto simp: domainsService_create_def action_simps same_db_def new split: option.splits)
  have own: "\<forall>x \<in> set (domains (db w)). dom_id x = j \<longrightarrow> \<not> foreign u (db w) (dom_projectId x)"
    if f: "find (\<lambda>m. dom_id m = j \<and> project_owner (db w) (dom_projectId m) = Some u) (domains (db w)) = Some m" for m
  proof -
    have m: "m \<in> set (domains (db w))" "dom_id m = j" "project_owner (db w) (dom_projectId m) = Some u"
      using find_SomeD [OF f] by auto
    obtain z where z: "z \<in> set (projects (db w))" "p_id z = dom_projectId m" "p_userId z = u"
      using m(3) by (auto simp: project_owner_def dest!: find_SomeD)
    have pz: "p = z" if "p \<in> set (projects (db w))" "p_id p = dom_projectId m" for p
      by (rule distinct_map_same [OF projectT.uniq_rid [OF db_okD(1) [OF assms]] that(1) z(1)]) (simp only: that(2) z(2))
    have "x = m" if "x \<in> set (domains (db w))" "dom_id x = j" for x
      by (rule distinct_map_same [OF domainT.uniq_rid [OF db_okD(1) [OF assms]] that(1) m(1)]) (simp only: that(2) m(2))
    moreover have "\<not> foreign u (db w) (dom_projectId m)" using z(3) pz unfolding foreign_def by blast
    ultimately show ?thesis by blast
  qed
  have del: "others u (db (snd (andThen (domain_deleteMany (\<lambda>m. dom_id m = j)) (\<lambda>_. ret d) w))) = others u (db w)"
    if "\<forall>x \<in> set (domains (db w)). dom_id x = j \<longrightarrow> \<not> foreign u (db w) (dom_projectId x)" for d
    using domain_deleteMany_apart [of j u] that
    by (auto simp: ensures_def same_db_def andThen_def ret_run split: prod.splits sum.splits)
  show "apart u w (snd (domainsService_remove u j w))"
    by (simp add: domainsService_remove_def andThen_gets andThen_orThrow ret_run same_db_def del [OF own] split: option.splits)
qed

lemma saveAll_apart:
  assumes "db_ok (db w)"
  shows "apart u w (snd (envVarsService_saveAll X u i vs w))"
proof -
  have mine: "mine u i (db w)" if "owned_project u i (db w) = Some p" for p
    using owned_project_mine [OF db_okD(1) [OF assms] that] by simp
  have rows: "\<forall>e \<in> set rows. ev_projectId e = i" if "collect (encrypt_item X i) vs w = (Inr rows, w')" for vs rows w w'
    using that by (induction vs arbitrary: rows w w') (auto simp: action_simps encrypt_item_def elim!: andThen_cases)
  have "keeps (apart u) (collect (encrypt_item X i) vs)"
    unfolding encrypt_item_def by (intro sameDb.keeps_db_intros read_only_same_db)
  note col = guarded_keeps [OF this]
  have rest: "guarded u (mine u i) (transaction (
       andThen (envVar_deleteMany (\<lambda>e. ev_projectId e = i)) (\<lambda>_.
       andThen (if vs = [] then ret () else andThen (collect (encrypt_item X i) vs) envVar_createMany) (\<lambda>_.
       andThen (gets now) (\<lambda>t.
       andThen (project_update i (\<lambda>p. p\<lparr>p_configChanged := True, p_updatedAt := t\<rparr>)) (\<lambda>_.
       ret (length vs)))))))"
    by (intro guarded_transaction guarded_andThen [OF stable_mine] guarded_if guarded_andThen_val [OF stable_mine col]
        guarded_writes guarded_reads) (simp_all add: rows)
  note r = guardedD [OF rest mine]
  show ?thesis
  proof (cases "owned_project u i (db w)")
    case None
    then show ?thesis by (simp add: envVarsService_saveAll_def andThen_gets andThen_orThrow same_db_def)
  next
    case (Some p)
    then show ?thesis
      by (simp only: envVarsService_saveAll_def andThen_gets andThen_orThrow option.case same_db_def r [OF Some])
  qed
qed

lemma settings_apart:
  assumes "db_ok (db w)"
  shows "apart u w (snd (getConfig X u w))" and "apart u w (snd (updateConfig X u dto w))"
proof -
  have own: "\<forall>x \<in> set (systemConfigs (db w)). cfg_id x = cfg_id c \<longrightarrow> cfg_userId x = u" if f: "find_config (db w) u = Some c" for c
  proof (intro ballI impI)
    fix x assume x: "x \<in> set (systemConfigs (db w))" "cfg_id x = cfg_id c"
    have c: "c \<in> set (systemConfigs (db w))" "cfg_userId c = u" using find_SomeD [OF f [unfolded find_config_def]] by auto
    have "x = c" by (rule distinct_map_same [OF configT.uniq_rid [OF db_okD(1) [OF assms]] x(1) c(1) x(2)])
    then show "cfg_userId x = u" using c by simp
  qed
  have new: "others u (db (snd (config_create r v))) = others u (db v)" if "cfg_userId r = u" for r v
    using keeps_run [OF config_create_apart [OF that]] by (simp add: same_db_def)
  have upd: "others u (db (snd (config_update (cfg_id c) (apply_settings dto h) v))) = others u (db w)"
    if "db v = db w" "find_config (db w) u = Some c" for c h v
    using config_update_apart [of "apply_settings dto h" "cfg_id c" u] own [OF that(2)] that(1)
    by (simp add: ensures_def same_db_def apply_settings_def)
  have tail: "others u (db (snd ((if truthy_opt (cfg_slackWebhook c)
     then andThen (decryptM X (the (cfg_slackWebhook c))) (\<lambda>plain. ret (c\<lparr>cfg_slackWebhook := Some plain\<rparr>))
     else ret c) v))) = others u (db v)" for c v
    by (simp add: action_simps andThen_def split: sum.splits)
  show "apart u w (snd (getConfig X u w))"
    by (simp add: getConfig_def andThen_gets same_db_def andThen_reads [OF tail] new new_config_def ret_run split: option.splits)
  have hook: "keeps (same_db (\<lambda>d. d)) (hook_update X h)" for h
    unfolding hook_update_def by (intro sameDb.keeps_db_intros read_only_same_db)
  show "apart u w (snd (updateConfig X u dto w))"
    unfolding updateConfig_def same_db_def
  proof (rule reads_then [OF hook])
    fix h and v :: world
    assume v: "db v = db w"
    show "others u (db (snd (andThen (gets (\<lambda>w. find_config (db w) u)) (\<lambda>found. case found of
       None \<Rightarrow> config_create (apply_settings dto
         (case h of Some (Some s) \<Rightarrow> if truthy s then Some (Some s) else None | _ \<Rightarrow> None) (new_config u))
     | Some c \<Rightarrow> config_update (cfg_id c) (apply_settings dto h)) v))) = others u (db w)"
    proof (cases "find_config (db w) u")
      case None
      have "cfg_userId (apply_settings dto k (new_config u)) = u" for k
        by (simp add: apply_settings_def new_config_def)
      then show ?thesis using None v by (simp add: andThen_gets new)
    next
      case (Some c)
      then show ?thesis using v upd [OF v Some] by (simp add: andThen_gets)
    qed
  qed
qed

lemma sessions_apart:
  "apart u w (snd (logout u w))" "apart u w (snd (refreshTokens X u rt w))"
proof -
  have "keeps (apart u) (logout u)"
    unfolding logout_def by (intro sameDb.keeps_db_intros user_update_apart(2)) simp
  then show "apart u w (snd (logout u w))" by (rule keeps_run)
  have issue: "keeps (apart u) (issue_tokens X v)" if "u_id v = u" for v
    unfolding issue_tokens_def getTokens_def updateRefreshTokenHash_def bcrypt_hash_def that
    by (intro sameDb.keeps_db_intros read_only_same_db user_update_apart(1)) simp
  have "others u (db (snd (issue_tokens X v w))) = others u (db w)" if "find (\<lambda>x. u_id x = u) (users (db w)) = Some v" for v
    using keeps_run [OF issue, of v] find_SomeD [OF that] by (simp add: same_db_def)
  then show "apart u w (snd (refreshTokens X u rt w))"
    by (simp add: refreshTokens_def andThen_gets andThen_orThrow andThen_throwIf same_db_def split: option.splits)
qed

section \<open>The requests of a user\<close>

fun actor :: "request \<Rightarrow> uuid option" where
  "actor (Logout u) = Some u"
| "actor (Refresh u t) = Some u"
| "actor (GetGitStatus u) = Some u"
| "actor (CreateProject u dto) = Some u"
| "actor (ListProjects u) = Some u"
| "actor (GetProject u i) = Some u"
| "actor (UpdateProject u i dto) = Some u"
| "actor (RemoveProject u i) = Some u"
| "actor (CreateDeployment u p) = Some u"
| "actor (ListDeployments u) = Some u"
| "actor (ListProjectDeployments u p) = Some u"
| "actor (GetDeployment u i) = Some u"
| "actor (GetDeploymentLogs u i s a l) = Some u"
| "actor (PutDeploymentStatus u i s) = Some u"
| "actor (CancelDeployment u i) = Some u"
| "actor (CreateDomain u p n) = Some u"
| "actor (ListDomains u p) = Some u"
| "actor (RemoveDomain u i) = Some u"
| "actor (ListEnvs u p) = Some u"
| "actor (SaveEnvs u p vs) = Some u"
| "actor (GetSettings u) = Some u"
| "actor (UpdateSettings u dto) = Some u"
| "actor _ = None"

lemma discard_apart: "apart u w (snd (m w)) \<Longrightarrow> apart u w (snd (discard m w))"
  by (auto simp: discard_def andThen_def ret_run same_db_def split: prod.splits sum.splits)

lemma reads_apart:
  "apart u w (snd (getStatus u w))" "apart u w (snd (projectsService_findAll X u w))"
  "apart u w (snd (projectsService_findOne i u w))" "apart u w (snd (deploymentsService_findAll u w))"
  "apart u w (snd (deploymentsService_findAllByProject u p w))" "apart u w (snd (deploymentsService_findOne u i w))"
  "apart u w (snd (deploymentsService_getLogs u i s a l w))" "apart u w (snd (domainsService_findAll u p w))"
  "apart u w (snd (envVarsService_findAll X k u p w))"
  unfolding getStatus_def projectsService_findAll_def projectsService_findOne_def deploymentsService_findAll_def
    deploymentsService_findAllByProject_def deploymentsService_findOne_def deploymentsService_getLogs_def
    domainsService_findAll_def envVarsService_findAll_def decrypt_view_def case_prod_unfold
  by (rule keeps_run, intro sameDb.keeps_db_intros read_only_same_db)+

lemma serve_apart: "db_ok (db w) \<Longrightarrow> actor r = Some u \<Longrightarrow> apart u w (snd (serve S r w))"
  by (cases r) (auto intro!: discard_apart deployments_create_apart deployments_change_apart projects_create_apart
      projects_update_apart projects_remove_apart domains_apart saveAll_apart settings_apart sessions_apart reads_apart)

text \<open>
  Tenant isolation: whatever request a signed-in user sends to the API (projects,
  deployments, domains, variables, settings, sessions), in a database that satisfies the schema,
  the rows of every other user - projects, variables, deployments, domains, configurations - are
  exactly what they were, whether the request succeeds or fails.
\<close>

theorem users_isolated:
  assumes "db_ok (db w)" and "actor r = Some u" and "serve S r w = (res, w')"
  shows "others u (db w') = others u (db w)"
  using serve_apart [OF assms(1,2), of S] assms(3) by (simp add: same_db_def)

section \<open>Closed example\<close>

definition sample_server :: server where
  "sample_server = \<lparr>srv_external = sample_external, srv_webhookSecret = ''s'',
     srv_parseDate = (\<lambda>s. Some 0), srv_collate = (\<lambda>s. 0)\<rparr>"

theorem users_isolated_witness:
  "\<exists>res w'. serve sample_server (PutDeploymentStatus 0 8 READY) sample_world = (res, w') \<and>
     others 0 (db w') = others 0 (db sample_world) \<and> sample_building \<in> set (fst (snd (snd (others 0 (db sample_world)))))"
proof -
  obtain res w' where run: "serve sample_server (PutDeploymentStatus 0 8 READY) sample_world = (res, w')" by fastforce
  have "others 0 (db w') = others 0 (db sample_world)"
    by (rule users_isolated [OF sample_db_ok _ run]) simp
  moreover have "sample_building \<in> set (fst (snd (snd (others 0 (db sample_world)))))"
    by (simp add: others_def foreign_def sample_defs)
  ultimately show ?thesis using run by blast
qed

end
