(* ===== verification/HttpLaws.thy ===== *)
theory HttpLaws
  imports Http Isolation
begin

text \<open>
  Access control at the level of HTTP: what a call to a user endpoint or to the worker's
  endpoints must have carried for it to change anything, and what it can change; and what the
  validation of the bodies does and does not exclude.
\<close>

section \<open>Guards\<close>

lemma withUser_run:
  "withUser H c f w =
     (if truthy_opt (cr_workerKey c)
      then if truthy_opt (x_env (h_external H) ''WORKER_API_KEY'') \<and> cr_workerKey c = x_env (h_external H) ''WORKER_API_KEY''
           then (Inl (Thrown ''TypeError''), w) else (Inl (UnauthorizedException ''Invalid worker API key''), w)
      else case pp_access (h_passport H) (cr_authorization c) (now w) of
        None \<Rightarrow> (Inl (UnauthorizedException ''Unauthorized''), w)
      | Some claims \<Rightarrow> f (jc_sub claims) w)"
  by (auto simp: withUser_def jwtUser_def jwtAuthGuard_def atGuard_def getCurrentUserId_def action_simps andThen_def
      split: option.splits)

lemma internal_guard:
  "internalController H c r w =
     (if \<not> truthy_opt (cr_workerKey c) then (Inl (UnauthorizedException ''Missing worker API key''), w)
      else if \<not> truthy_opt (x_env (h_external H) ''WORKER_API_KEY'') \<or> cr_workerKey c \<noteq> x_env (h_external H) ''WORKER_API_KEY''
      then (Inl (UnauthorizedException ''Invalid worker API key''), w)
      else internalRoutes H r w)"
  by (simp add: internalController_def workerApiKeyGuard_def action_simps andThen_def)

lemma validated_run:
  "andThen (validated H rules decode body) f w =
     (if \<not> checked (h_checkers H) rules body then (Inl (BadRequestException ''Bad Request Exception''), w)
      else case decode body of None \<Rightarrow> (Inl (Thrown ''PrismaClientValidationError''), w) | Some d \<Rightarrow> f d w)"
  by (simp add: validated_def action_simps andThen_def split: option.splits)

section \<open>Isolation of the endpoints\<close>

lemma services_apart:
  assumes "db_ok (db w)"
  shows "apart u w (snd (discard (projectsService_create X u dto) w))"
    "apart u w (snd (discard (projectsService_findAll X u) w))"
    "apart u w (snd (discard (projectsService_findOne i u) w))"
    "apart u w (snd (discard (projectsService_update i u ud) w))"
    "apart u w (snd (discard (projectsService_remove i u) w))"
    "apart u w (snd (discard (deploymentsService_create X u i) w))"
    "apart u w (snd (discard (deploymentsService_findAll u) w))"
    "apart u w (snd (discard (deploymentsService_findAllByProject u i) w))"
    "apart u w (snd (discard (deploymentsService_findOne u i) w))"
    "apart u w (snd (discard (deploymentsService_getLogs u i src after n) w))"
    "apart u w (snd (discard (deploymentsService_updateStatus u i st) w))"
    "apart u w (snd (discard (deploymentsService_cancel u i) w))"
    "apart u w (snd (discard (domainsService_create u i nm) w))"
    "apart u w (snd (discard (domainsService_findAll u i) w))"
    "apart u w (snd (discard (domainsService_remove u i) w))"
    "apart u w (snd (discard (envVarsService_findAll X k u i) w))"
    "apart u w (snd (discard (envVarsService_saveAll X u i vs) w))"
    "apart u w (snd (discard (getConfig X u) w))"
    "apart u w (snd (discard (updateConfig X u sd) w))"
    "apart u w (snd (discard (getStatus u) w))"
  using assms
  by (auto intro!: discard_apart deployments_create_apart deployments_change_apart projects_create_apart
      projects_update_apart projects_remove_apart domains_apart saveAll_apart settings_apart reads_apart)

lemma same_db_refl: "same_db g w w"
  by (simp add: same_db_def)

lemma analytics_apart:
  "apart u w (snd (discard (getOverview v) w))" "apart u w (snd (discard (getProjectAnalytics v p) w))"
  unfolding discard_def getOverview_def getProjectAnalytics_def Let_def
  by (rule keeps_run, intro sameDb.keeps_db_intros)+

lemma git_apart:
  "apart u w (snd (discard (git_listRepos A v inst) w))"
  "apart u w (snd (discard (git_getRepoTree A k v inst ow rp path) w))"
  "apart u w (snd (discard (git_detectFramework A v inst ow rp path) w))"
  unfolding discard_def git_listRepos_def git_getRepoTree_def git_detectFramework_def verifyInstallation_def
    listRepositories_def getRepoContents_def detectFrameworkConfig_def Let_def
  by (rule keeps_run, intro sameDb.keeps_db_intros)+

lemma refused_apart: "apart u w (snd (andThen (deploymentsService_findOne v i) (\<lambda>_. throw e) w))"
  unfolding deploymentsService_findOne_def by (rule keeps_run, intro sameDb.keeps_db_intros)

lemmas more_reads_apart = analytics_apart git_apart refused_apart

definition user_handler :: "http \<Rightarrow> creds \<Rightarrow> 'a handler \<Rightarrow> bool" where
  "user_handler H c m \<longleftrightarrow> (\<exists>f. m = withUser H c f \<and> (\<forall>u w. db_ok (db w) \<longrightarrow> apart u w (snd (f u w))))"

lemma user_handlerI: "(\<And>u w. db_ok (db w) \<Longrightarrow> apart u w (snd (f u w))) \<Longrightarrow> user_handler H c (withUser H c f)"
  by (auto simp: user_handler_def)

lemma projectsController_user: "user_handler H c (projectsController H c r)"
  by (cases r; simp only: projectsController.simps; rule user_handlerI)
    (simp_all add: validated_run services_apart more_reads_apart same_db_refl split: option.splits)

lemma deploymentsController_user: "user_handler H c (deploymentsController H c r)"
  by (cases r; simp only: deploymentsController.simps; rule user_handlerI)
    (simp_all add: validated_run services_apart more_reads_apart same_db_refl split: option.splits)

lemma domainsController_user: "user_handler H c (domainsController H c r)"
  by (cases r; simp only: domainsController.simps; rule user_handlerI)
    (simp_all add: validated_run services_apart more_reads_apart same_db_refl split: option.splits)

lemma envVarsController_user: "user_handler H c (envVarsController H c r)"
  by (cases r; simp only: envVarsController.simps; rule user_handlerI)
    (simp_all add: validated_run services_apart more_reads_apart same_db_refl split: option.splits)

lemma settingsController_user: "user_handler H c (settingsController H c r)"
  by (cases r; simp only: settingsController.simps; rule user_handlerI)
    (simp_all add: validated_run services_apart more_reads_apart same_db_refl split: option.splits)

lemma analyticsController_user: "user_handler H c (analyticsController H c r)"
  by (cases r; simp only: analyticsController.simps; rule user_handlerI)
    (simp_all add: validated_run services_apart more_reads_apart same_db_refl split: option.splits)

lemma gitController_user: "user_handler H c (gitController H c r)"
  by (cases r; simp only: gitController.simps; rule user_handlerI)
    (simp_all add: validated_run services_apart more_reads_apart same_db_refl split: option.splits)

lemma user_http_user: "user_handler H c (user_http H c e)"
  by (cases e) (simp_all add: projectsController_user deploymentsController_user domainsController_user
      envVarsController_user settingsController_user analyticsController_user gitController_user)

lemma user_http_authorized:
  assumes "user_http H c e w = (res, w')" and "w' \<noteq> w"
  obtains f claims where "user_http H c e = withUser H c f" "f (jc_sub claims) w = (res, w')"
    "pp_access (h_passport H) (cr_authorization c) (now w) = Some claims" "\<not> truthy_opt (cr_workerKey c)"
    "db_ok (db w) \<longrightarrow> apart (jc_sub claims) w w'"
proof -
  obtain f where f: "user_http H c e = withUser H c f" and ap: "\<And>u. db_ok (db w) \<Longrightarrow> apart u w (snd (f u w))"
    using user_http_user [of H c e] by (auto simp: user_handler_def)
  obtain claims where "pp_access (h_passport H) (cr_authorization c) (now w) = Some claims"
    "\<not> truthy_opt (cr_workerKey c)" "f (jc_sub claims) w = (res, w')"
    using assms by (auto simp: f withUser_run split: if_splits option.splits)
  then show thesis using f ap [of "jc_sub claims"] by (intro that [of f claims]) auto
qed

text \<open>
  C2. A request to any endpoint of the user's API that changes anything carried an access token
  that verifies and no worker key, and it left the rows of everyone but the token's subject
  exactly as they were.
\<close>

theorem http_isolated:
  assumes "db_ok (db w)" and "user_http H c e w = (res, w')" and "w' \<noteq> w"
  shows "\<exists>claims. pp_access (h_passport H) (cr_authorization c) (now w) = Some claims \<and>
     \<not> truthy_opt (cr_workerKey c) \<and> others (jc_sub claims) (db w') = others (jc_sub claims) (db w)"
  by (rule user_http_authorized [OF assms(2,3)]) (use assms(1) in \<open>auto simp: same_db_def\<close>)

theorem internal_needs_key:
  assumes "internalController H c route w = (res, w')" and "w' \<noteq> w"
  shows "\<exists>k. k \<noteq> [] \<and> cr_workerKey c = Some k \<and> x_env (h_external H) ''WORKER_API_KEY'' = Some k"
  using assms by (auto simp: internal_guard truthy_opt_def truthy_def split: if_splits option.splits)

theorem worker_key_breaks_user_endpoint:
  assumes "key \<noteq> []" and "x_env (h_external H) ''WORKER_API_KEY'' = Some key" and "cr_workerKey c = Some key"
  shows "user_http H c e w = (Inl (Thrown ''TypeError''), w)"
proof -
  obtain f where "user_http H c e = withUser H c f"
    using user_http_user [of H c e] by (auto simp: user_handler_def)
  then show ?thesis using assms by (simp add: withUser_run truthy_opt_def truthy_def)
qed

section \<open>Closed examples\<close>

definition sample_http :: http where
  "sample_http = \<lparr>h_server = sample_server,
     h_passport = \<lparr>pp_access = (\<lambda>h t. if h = Some ''Bearer ann''
         then Some \<lparr>jc_sub = 0, jc_email = ''ann@x.org'', jc_name = ''Ann'', jc_avatar = None\<rparr> else None),
       pp_refresh = (\<lambda>h t. None), pp_google = (\<lambda>c. None)\<rparr>,
     h_github = sample_github, h_checkers = \<lparr>ck_isEmail = (\<lambda>s. True), ck_isUrl = (\<lambda>s. True)\<rparr>, h_idOf = length\<rparr>"

definition ann_creds :: creds where
  "ann_creds = \<lparr>cr_authorization = Some ''Bearer ann'', cr_workerKey = None, cr_cookie = None\<rparr>"

definition worker_creds :: creds where
  "worker_creds = \<lparr>cr_authorization = None, cr_workerKey = Some ''worker-key'', cr_cookie = None\<rparr>"

lemma ann_removes_domain:
  "\<exists>res w'. user_http sample_http ann_creds (Domains (DeleteDomain 9)) sample_world = (res, w') \<and> domains (db w') = []"
proof -
  have "project_owner (db sample_world) 4 = Some 0" by (simp add: project_owner_def sample_defs)
  then have "find (\<lambda>m. dom_id m = 9 \<and> project_owner (db sample_world) (dom_projectId m) = Some 0) (domains (db sample_world)) =
      Some (hd (domains (db sample_world)))" by (simp add: sample_defs)
  moreover have "filter (\<lambda>m. dom_id m \<noteq> 9) (domains (db sample_world)) = []" by (simp add: sample_defs)
  moreover note domainL.delete_run [OF db_okD(1,2) [OF sample_db_ok], of "\<lambda>m. dom_id m = 9"]
  ultimately show ?thesis
    by (simp add: withUser_run sample_http_def sample_server_def ann_creds_def truthy_opt_def discard_def
        domainsService_remove_def action_simps andThen_def)
qed

theorem http_isolated_witness:
  "\<exists>res w'. user_http sample_http ann_creds (Domains (DeleteDomain 9)) sample_world = (res, w') \<and>
     domains (db w') \<noteq> domains (db sample_world) \<and> others 0 (db w') = others 0 (db sample_world)"
proof -
  obtain res w' where run: "user_http sample_http ann_creds (Domains (DeleteDomain 9)) sample_world = (res, w')"
    and gone: "domains (db w') = []" using ann_removes_domain by blast
  have ne: "domains (db w') \<noteq> domains (db sample_world)" by (simp add: gone sample_defs)
  then have "w' \<noteq> sample_world" by auto
  from http_isolated [OF sample_db_ok run this] have "others 0 (db w') = others 0 (db sample_world)"
    by (auto simp: sample_http_def ann_creds_def)
  then show ?thesis using run ne by blast
qed

lemma worker_sets_status:
  "\<exists>res w'. internalController sample_http worker_creds
       (PatchProjectStatus 4 (JObj [(''onlineStatus'', JStr ''ACTIVE'')])) sample_world = (res, w') \<and>
     p_onlineStatus (hd (projects (db w'))) = DnsACTIVE"
proof -
  have "find (\<lambda>p. p_id p = 4) (projects (db sample_world)) = Some sample_shop" by (simp add: sample_defs)
  moreover note projectT.update_row_run [OF db_okD(1,2) [OF sample_db_ok] _ this]
  moreover have "projects (db sample_world) = [sample_shop, sample_blog]" "p_id sample_shop = 4"
    by (simp_all add: sample_defs)
  ultimately show ?thesis
    by (simp add: internal_guard validated_def update_project_status_rules_def checked.simps str_field_def
      dns_of_def dns_names_def absent_def sample_http_def sample_server_def worker_creds_def sample_external_def
      truthy_opt_def truthy_def discard_def updateProjectStatus_def action_simps andThen_def)
qed

theorem internal_needs_key_witness:
  "\<exists>k res w'. internalController sample_http worker_creds
       (PatchProjectStatus 4 (JObj [(''onlineStatus'', JStr ''ACTIVE'')])) sample_world = (res, w') \<and>
     w' \<noteq> sample_world \<and> k \<noteq> [] \<and> cr_workerKey worker_creds = Some k"
proof -
  obtain res w' where run: "internalController sample_http worker_creds
       (PatchProjectStatus 4 (JObj [(''onlineStatus'', JStr ''ACTIVE'')])) sample_world = (res, w')"
    and st: "p_onlineStatus (hd (projects (db w'))) = DnsACTIVE" using worker_sets_status by blast
  have "p_onlineStatus (hd (projects (db sample_world))) = DnsPENDING" by (simp add: sample_defs)
  with st have ne: "w' \<noteq> sample_world" by auto
  from internal_needs_key [OF run this] show ?thesis using run ne by blast
qed

theorem worker_key_breaks_user_endpoint_witness:
  "user_http sample_http worker_creds (Projects GetProjects) sample_world = (Inl (Thrown ''TypeError''), sample_world)"
  by (rule worker_key_breaks_user_endpoint [of "''worker-key''"])
    (simp_all add: sample_http_def sample_server_def worker_creds_def sample_external_def)

end
