(* ===== verification/PanelLaws.thy ===== *)
theory PanelLaws
  imports EnvPanel ResourceLaws HttpLaws
begin

text \<open>
  Laws of the environment-variables panel: a \<open>.env\<close> file written with quoted values is imported
  as it was meant; what the panel saves is what the API stores, and an API that refuses leaves
  everything in place; typing into a hidden value destroys it.
\<close>

section \<open>Importing a file\<close>

definition env_line :: "string \<times> string \<Rightarrow> string" where
  \<comment> \<open>\<open>KEY="value"\<close>\<close>
  "env_line kv = fst kv @ CHR ''='' # CHR 0x22 # snd kv @ [CHR 0x22]"

fun env_file :: "(string \<times> string) list \<Rightarrow> string" where
  "env_file [] = []"
| "env_file [kv] = env_line kv"
| "env_file (kv # kvs) = env_line kv @ CHR 0x0A # env_file kvs"

definition plain_var :: "string \<times> string \<Rightarrow> bool" where
  \<comment> \<open>a name the file syntax allows, and a one-line value in ASCII without blanks at its ends\<close>
  "plain_var kv \<longleftrightarrow> fst kv \<noteq> [] \<and> (\<forall>c \<in> set (fst kv). key_char c) \<and>
     (\<forall>c \<in> set (snd kv). \<not> line_end c \<and> (of_char c :: nat) < 128) \<and>
     js_trim (snd kv) = snd kv"

lemma key_char_props:
  assumes "key_char c"
  shows "\<not> is_blank c \<and> c \<noteq> CHR ''='' \<and> \<not> line_end c"
proof -
  have "\<not> key_char (CHR '' '')" "\<not> key_char (CHR 0x09)" "\<not> key_char (CHR 0x0A)" "\<not> key_char (CHR 0x0B)"
    "\<not> key_char (CHR 0x0C)" "\<not> key_char (CHR 0x0D)" "\<not> key_char (CHR ''='')"
    by (simp_all add: key_char_def word_char_def is_alnum_def is_letter_def digit_of_def)
  then show ?thesis using assms by (auto simp: is_blank_def line_end_def)
qed

lemma trim_key:
  assumes "\<forall>c \<in> set k. key_char c"
  shows "js_trim k = k"
proof -
  have drop: "dropWhile is_blank xs = xs" if "set xs = set k" for xs
    using that assms by (cases xs) (simp, metis dropWhile.simps(2) key_char_props list.set_intros(1))
  show ?thesis by (simp add: js_trim_def drop)
qed

lemma takeWhile_key:
  assumes "\<forall>c \<in> set k. key_char c"
  shows "takeWhile key_char (k @ CHR ''='' # s) = k \<and> dropWhile key_char (k @ CHR ''='' # s) = CHR ''='' # s"
proof -
  have "\<not> key_char (CHR ''='')" using key_char_props by blast
  then show ?thesis using assms by (simp add: takeWhile_append2 dropWhile_append2)
qed

lemma strip_quotes_quoted: "strip_quotes (CHR 0x22 # v @ [CHR 0x22]) = v"
  by (simp add: strip_quotes_def quote_char_def)

lemma dropWhile_key: "k \<noteq> [] \<Longrightarrow> \<forall>c \<in> set k. key_char c \<Longrightarrow> dropWhile is_blank (k @ s) = k @ s"
  by (cases k) (simp_all add: key_char_props)

lemma parse_env_line:
  assumes "plain_var kv"
  shows "parseEnvLine (env_line kv) = Some kv"
proof -
  let ?v = "CHR 0x22 # snd kv @ [CHR 0x22]"
  have k: "fst kv \<noteq> []" "\<forall>c \<in> set (fst kv). key_char c" and v: "\<forall>c \<in> set (snd kv). \<not> line_end c"
    and trim: "js_trim (snd kv) = snd kv"
    using assms by (simp_all add: plain_var_def)
  have all: "\<forall>c \<in> set ?v. \<not> line_end c" using v by (auto simp: line_end_def)
  obtain q where q: "q = ?v" by blast
  have whole: "takeWhile (\<lambda>x. \<not> line_end x) q = q" "dropWhile (\<lambda>x. \<not> line_end x) q = []"
    using all unfolding q takeWhile_eq_all_conv dropWhile_eq_Nil_conv by blast+
  have "dropWhile is_blank q = q" by (simp add: q is_blank_def)
  moreover have "strip_quotes q = snd kv" unfolding q by (rule strip_quotes_quoted)
  moreover have "dropWhile is_blank (CHR ''='' # q) = CHR ''='' # q" by (simp add: is_blank_def)
  moreover have "env_line kv = fst kv @ CHR ''='' # q" by (simp add: env_line_def q)
  ultimately show ?thesis
    using k(1) trim
    by (simp add: parseEnvLine_def Let_def whole dropWhile_key [OF k] takeWhile_key [OF k(2)] trim_key [OF k(2)]
        del: takeWhile.simps dropWhile.simps)
qed

lemma env_line_no_newline: "plain_var kv \<Longrightarrow> CHR 0x0A \<notin> set (env_line kv)"
  using key_char_props by (auto simp: plain_var_def env_line_def line_end_def)

lemma split_env_file:
  "kvs \<noteq> [] \<Longrightarrow> \<forall>kv \<in> set kvs. plain_var kv \<Longrightarrow> split_on (CHR 0x0A) (env_file kvs) = map env_line kvs"
  by (induction kvs rule: env_file.induct)
    (simp_all add: split_on_none split_on_append env_line_no_newline)

lemma parse_env_lines: "\<forall>kv \<in> set kvs. plain_var kv \<Longrightarrow> List.map_filter parseEnvLine (map env_line kvs) = kvs"
  by (induction kvs) (simp_all add: map_filter_simps parse_env_line)

lemma fresh_vars_keys:
  "map (\<lambda>v. (pv_key v, pv_value v)) (fresh_vars ids n parsed vars) = filter (\<lambda>(key, val). key \<notin> set (map pv_key vars)) parsed"
  unfolding fresh_vars_def map_map by (simp add: o_def case_prod_beta del: set_map)

lemma fresh_vars_targets: "v \<in> set (fresh_vars ids n parsed vars) \<Longrightarrow> pv_targets v = [PRODUCTION]"
  by (auto simp: fresh_vars_def)

lemma fresh_vars_ids: "map pv_id (fresh_vars ids n parsed vars) =
    map (\<lambda>k. ids (n + k)) [0 ..< length (filter (\<lambda>(key, val). key \<notin> set (map pv_key vars)) parsed)]"
proof -
  have f: "pv_id \<circ> (\<lambda>(k, (key, val)). \<lparr>pv_id = ids (n + k), pv_key = key, pv_value = val, pv_targets = [PRODUCTION]\<rparr>) = (\<lambda>k. ids (n + k)) \<circ> fst"
    by auto
  show ?thesis unfolding fresh_vars_def map_map f by (simp flip: map_map)
qed

text \<open>
  C38. A .env file whose lines are KEY="value" - names of the file syntax, one-line ASCII values
  without outer blanks, which may contain quotes and equal signs - is read back exactly. The
  panel takes the variables in the order of the file, except those whose key it already shows:
  these are skipped, and the old values stay. The new ones come first, for production, with
  distinct ids; the panel is dirty, and the message counts the skipped ones too.
\<close>

theorem env_file_roundtrip:
  assumes "kvs \<noteq> []" and "\<forall>kv \<in> set kvs. plain_var kv" and "inj ids"
  shows "\<exists>fresh. pn_envVars (importEnvFile ids (env_file kvs) p) = fresh @ pn_envVars p \<and>
    map (\<lambda>v. (pv_key v, pv_value v)) fresh = filter (\<lambda>(key, val). key \<notin> pv_key ` set (pn_envVars p)) kvs \<and>
    (\<forall>v \<in> set fresh. pv_targets v = [PRODUCTION]) \<and> distinct (map pv_id fresh) \<and>
    pn_dirty (importEnvFile ids (env_file kvs) p) \<and>
    pn_toasts (importEnvFile ids (env_file kvs) p) = pn_toasts p @ [Imported (length kvs)]"
proof -
  let ?fresh = "fresh_vars ids (pn_drawn p) kvs (pn_envVars p)"
  have "importEnvFile ids (env_file kvs) p = toast (Imported (length kvs))
      ((set_vars (\<lambda>vars. ?fresh @ vars) p)\<lparr>pn_drawn := pn_drawn p + length ?fresh\<rparr>)"
    using assms(1) by (simp add: importEnvFile_def Let_def split_env_file [OF assms(1,2)] parse_env_lines [OF assms(2)])
  moreover have "distinct (map pv_id ?fresh)"
    unfolding fresh_vars_ids by (auto simp: distinct_map intro!: inj_onI dest!: injD [OF assms(3)])
  ultimately show ?thesis
    using fresh_vars_keys [of ids "pn_drawn p" kvs "pn_envVars p"] fresh_vars_targets
    by (intro exI [of _ ?fresh]) (simp add: toast_def set_vars_def)
qed

section \<open>Saving\<close>

definition item_of_var :: "panel_var \<Rightarrow> env_var_item" where
  "item_of_var v = \<lparr>ei_key = pv_key v, ei_value = pv_value v, ei_targets = pv_targets v\<rparr>"

lemma panel_body_valid: "checked K save_env_vars_rules (panel_body vars) \<longleftrightarrow> (\<forall>v \<in> set vars. pv_key v \<noteq> [])"
proof -
  have one: "checked K [(''key'', [IsString, IsNotEmpty]), (''value'', [IsString]), (''targets'', [IsArray, EachEnum target_names])]
      (var_json v) \<longleftrightarrow> pv_key v \<noteq> []" for v
    by (auto simp: checked.simps var_json_def absent_def target_names_def split: environment_type.splits)
  show ?thesis
    by (simp add: save_env_vars_rules_def checked.simps [of K "[(''variables'', _)]"] panel_body_def one)
qed

lemma target_of_name: "target_of (case t of PRODUCTION \<Rightarrow> ''PRODUCTION'' | PREVIEW \<Rightarrow> ''PREVIEW'' | DEVELOPMENT \<Rightarrow> ''DEVELOPMENT'') = t"
  by (simp add: target_of_def split: environment_type.splits)

lemma panel_body_items: "env_vars_of (panel_body vars) = map item_of_var vars"
proof -
  have "map target_of (List.map_filter as_str (map (\<lambda>t. JStr (case t of PRODUCTION \<Rightarrow> ''PRODUCTION'' | PREVIEW \<Rightarrow> ''PREVIEW''
      | DEVELOPMENT \<Rightarrow> ''DEVELOPMENT'')) ts)) = ts" for ts
    by (induction ts) (simp_all add: map_filter_simps target_of_name)
  then have "map target_of (List.map_filter as_str (list_field (var_json v) ''targets'')) = pv_targets v" for v
    by (simp add: var_json_def list_field_def)
  moreover have "text_of (var_json v) ''key'' = pv_key v" "text_of (var_json v) ''value'' = pv_value v" for v
    by (simp_all add: text_of_def str_field_def var_json_def)
  ultimately show ?thesis by (simp add: env_vars_of_def list_field_def panel_body_def item_of_var_def)
qed

lemma saveAll_duplicate:
  assumes gcm: "gcm_ok X" and ok: "db_ok (db w)" and own: "owned_project u i (db w) = Some p"
    and dup: "\<not> distinct (map ei_key vs)"
  shows "\<exists>w'. envVarsService_saveAll X u i vs w = (Inl (PrismaError P2002), w') \<and> db w' = db w"
proof -
  define w1 where "w1 = w\<lparr>db := (db w)\<lparr>envVars := filter (\<lambda>e. ev_projectId e \<noteq> i) (envVars (db w))\<rparr>\<rparr>"
  have c1: "envVar_deleteMany (\<lambda>e. ev_projectId e = i) w = (Inr (), w1)"
    using envVarL.delete_run [OF db_okD(1) [OF ok] db_okD(2) [OF ok]] by (simp add: w1_def)
  obtain rows w2 where rows: "collect (encrypt_item X i) vs w1 = (Inr rows, w2)" and all: "list_all2 (stored_as X i) vs rows"
    using encrypt_items [OF gcm] by blast
  have k: "map ev_key rows = map ei_key vs" and pr: "\<forall>e \<in> set rows. ev_projectId e = i"
    using all by (induction) (auto simp: stored_as_def)
  have "map (\<lambda>e. (ev_projectId e, ev_key e)) (number_rows ev_id_update n rows) = map (\<lambda>e. (ev_projectId e, ev_key e)) rows" for n
    by (rule map_number_rows) simp
  moreover have "\<not> distinct (map (\<lambda>e. (ev_projectId e, ev_key e)) rows)"
    using dup pr unfolding k [symmetric] by (auto simp: distinct_map inj_on_def)
  ultimately have "\<not> uniq ((db w2)\<lparr>envVars := envVars (db w2) @ number_rows ev_id_update (nextId (db w2)) rows,
      nextId := nextId (db w2) + length rows\<rparr>)"
    by (simp add: uniq_def)
  then have "envVar_createMany rows w2 = (Inl (PrismaError P2002), w2)"
    by (simp add: create_rows_def write_db_run insert_form)
  moreover have "vs \<noteq> []" using dup by auto
  ultimately have "envVarsService_saveAll X u i vs w = (Inl (PrismaError P2002), w2\<lparr>db := db w\<rparr>)"
    using own c1 rows
    by (simp add: envVarsService_saveAll_def gets_run orThrow_run ret_run transaction_def andThen_def)
  then show ?thesis by simp
qed

definition signed_in_as :: "http \<Rightarrow> creds \<Rightarrow> uuid \<Rightarrow> world \<Rightarrow> bool" where
  "signed_in_as H cr u w \<longleftrightarrow> \<not> truthy_opt (cr_workerKey cr) \<and> u \<in> u_id ` set (users (db w)) \<and>
     (\<exists>claims. pp_access (h_passport H) (cr_authorization cr) (now w) = Some claims \<and> jc_sub claims = u)"

definition may_save :: "http \<Rightarrow> creds \<Rightarrow> uuid \<Rightarrow> world \<Rightarrow> bool" where
  \<comment> \<open>the caller is the owner of the project \<open>i\<close>, and shows an access token\<close>
  "may_save H cr i w \<longleftrightarrow> \<not> truthy_opt (cr_workerKey cr) \<and> (\<exists>claims p. pp_access (h_passport H) (cr_authorization cr) (now w) = Some claims \<and>
     owned_project (jc_sub claims) i (db w) = Some p)"

abbreviation "api_put H cr \<equiv> (\<lambda>i body. envVarsController H cr (PutEnvs i body))"

lemma put_envs_run:
  assumes gcm: "gcm_ok (h_external H)" and ok: "db_ok (db w)" and own: "may_save H cr i w"
    and keys: "\<forall>v \<in> set vars. pv_key v \<noteq> []"
  shows "if distinct (map pv_key vars)
    then \<exists>rows w'. api_put H cr i (panel_body vars) w = (Inr (), w') \<and>
      db w' = saved_db i (now w) rows (length vars) (db w) \<and> list_all2 (stored_as (h_external H) i) (map item_of_var vars) rows
    else \<exists>w'. api_put H cr i (panel_body vars) w = (Inl (PrismaError P2002), w') \<and> db w' = db w"
proof -
  obtain claims p where c: "\<not> truthy_opt (cr_workerKey cr)" "pp_access (h_passport H) (cr_authorization cr) (now w) = Some claims"
    "owned_project (jc_sub claims) i (db w) = Some p"
    using own by (auto simp: may_save_def)
  have run: "api_put H cr i (panel_body vars) w =
      discard (envVarsService_saveAll (h_external H) (jc_sub claims) i (map item_of_var vars)) w"
    using c keys by (simp add: withUser_run validated_run panel_body_valid panel_body_items)
  have k: "map ei_key (map item_of_var vars) = map pv_key vars" "ei_key \<circ> item_of_var = pv_key"
    by (simp_all add: item_of_var_def fun_eq_iff)
  show ?thesis
  proof (cases "distinct (map pv_key vars)")
    case True
    from saveAll_run [OF gcm ok c(3), of "map item_of_var vars"] True k show ?thesis
      unfolding run by (auto simp: discard_def andThen_def ret_run)
  next
    case False
    from saveAll_duplicate [OF gcm ok c(3), of "map item_of_var vars"] False k show ?thesis
      unfolding run by (auto simp: discard_def andThen_def ret_run)
  qed
qed


theorem hidden_edit_destroys_secret:
  assumes "gcm_ok (h_external H)" and "db_ok (db w)" and "may_save H cr i w"
    and "\<forall>v \<in> set (pn_envVars p). js_trim (pv_key v) \<noteq> []" and "distinct (map pv_key (pn_envVars p))"
    and "v \<in> set (pn_envVars p)" and "\<not> isVisible p (pv_id v)"
    and "saveEnvChanges (api_put H cr) i (type_value v s p) c w = (p', c', w')"
  shows "\<exists>e \<in> set (envVars (db w')). ev_projectId e = i \<and> ev_key e = pv_key v \<and>
    decrypt (h_external H) (ev_value e) = Inr (mask @ s)"
proof -
  let ?q = "type_value v s p"
  have vars: "pn_envVars ?q = map (\<lambda>x. if pv_id x = pv_id v then x\<lparr>pv_value := mask @ s\<rparr> else x) (pn_envVars p)"
    using assms(7) by (simp add: type_value_def handleValueChange_def set_vars_def shown_value_def)
  have keys: "map pv_key (pn_envVars ?q) = map pv_key (pn_envVars p)"
    by (simp add: vars)
  have named: "\<forall>x \<in> set (pn_envVars ?q). js_trim (pv_key x) \<noteq> []" using assms(4) by (auto simp: vars)
  then have ne: "\<forall>x \<in> set (pn_envVars ?q). pv_key x \<noteq> []" by (auto simp: js_trim_def)
  obtain rows w'' where run: "api_put H cr i (panel_body (pn_envVars ?q)) w = (Inr (), w'')"
    and d: "db w'' = saved_db i (now w) rows (length (pn_envVars ?q)) (db w)"
    and all: "list_all2 (stored_as (h_external H) i) (map item_of_var (pn_envVars ?q)) rows"
    using put_envs_run [OF assms(1-3) ne] assms(5) unfolding keys by auto
  have w': "w' = w''"
    using assms(8) named run by (auto simp: saveEnvChanges_def saveEnvVars_def)
  have "v\<lparr>pv_value := mask @ s\<rparr> \<in> set (pn_envVars ?q)" using assms(6) by (force simp: vars)
  then obtain k where k: "k < length (pn_envVars ?q)" "pn_envVars ?q ! k = v\<lparr>pv_value := mask @ s\<rparr>"
    by (auto simp: in_set_conv_nth)
  have "k < length rows" and st: "stored_as (h_external H) i (item_of_var (v\<lparr>pv_value := mask @ s\<rparr>)) (rows ! k)"
    using list_all2_nthD [OF all, of k] list_all2_lengthD [OF all] k by simp_all
  then have "rows ! k \<in> set (envVars (db w'))" by (simp add: w' d saved_db_def)
  moreover have "mask @ s \<noteq> []" by (simp add: mask_def)
  ultimately show ?thesis using st by (intro bexI [of _ "rows ! k"]) (auto simp: stored_as_def item_of_var_def)
qed

section \<open>Closed examples\<close>

definition one_var :: panel_var where
  "one_var = \<lparr>pv_id = 1, pv_key = ''API_KEY'', pv_value = ''s3cret'', pv_targets = [PRODUCTION]\<rparr>"

definition no_cache :: swr where
  "no_cache = \<lparr>sw_projects = None, sw_revalidate = False\<rparr>"

lemma ann_may_save: "may_save sample_http ann_creds 4 sample_world"
  using sample_shop_owned by (auto simp: may_save_def sample_http_def ann_creds_def)

lemma sample_gcm: "gcm_ok (h_external sample_http)"
  using gcm_ok_sample by (simp add: sample_http_def sample_server_def)

theorem env_file_roundtrip_witness:
  "\<exists>fresh. pn_envVars (importEnvFile id (env_file [(''API_KEY'', ''a=b c''), (''db.url'', ''x'')])
       (panel_init [one_var\<lparr>pv_key := ''db.url''\<rparr>] [])) = fresh @ [one_var\<lparr>pv_key := ''db.url''\<rparr>] \<and>
     map (\<lambda>v. (pv_key v, pv_value v)) fresh = [(''API_KEY'', ''a=b c'')]"
proof -
  have plain: "\<forall>kv \<in> set [(''API_KEY'', ''a=b c''), (''db.url'', ''x'')]. plain_var kv"
    by (simp add: plain_var_def key_char_def word_char_def is_alnum_def is_letter_def digit_of_def line_end_def js_trim_def
        is_blank_def)
  have "inj (id :: nat \<Rightarrow> nat)" by simp
  from env_file_roundtrip [OF _ plain this, of "panel_init [one_var\<lparr>pv_key := ''db.url''\<rparr>] []"] show ?thesis
    by (auto simp: panel_init_def)
qed


theorem hidden_edit_destroys_secret_witness:
  "\<exists>p' c' w' e. saveEnvChanges (api_put sample_http ann_creds) 4 (type_value one_var ''!'' (panel_init [one_var] [])) no_cache
       sample_world = (p', c', w') \<and>
     e \<in> set (envVars (db w')) \<and> decrypt sample_external (ev_value e) = Inr (mask @ ''!'')"
proof -
  let ?p = "panel_init [one_var] []"
  obtain p' c' w' where run: "saveEnvChanges (api_put sample_http ann_creds) 4 (type_value one_var ''!'' ?p) no_cache sample_world =
      (p', c', w')" by (metis prod_cases3)
  have X: "h_external sample_http = sample_external" by (simp add: sample_http_def sample_server_def)
  have "\<exists>e \<in> set (envVars (db w')). ev_projectId e = 4 \<and> ev_key e = pv_key one_var \<and>
      decrypt (h_external sample_http) (ev_value e) = Inr (mask @ ''!'')"
    by (rule hidden_edit_destroys_secret [OF sample_gcm sample_db_ok ann_may_save _ _ _ _ run])
      (simp_all add: panel_init_def one_var_def js_trim_def is_blank_def isVisible_def)
  then show ?thesis using run unfolding X by blast
qed

end
