(* ===== verification/SettingsPage.thy ===== *)
theory SettingsPage
  imports PanelLaws
begin

text \<open>
  The settings page of the web client, \<open>app/dashboard/settings/page.tsx\<close>, with its hook
  \<open>hooks/use-settings.ts\<close>, and what it can and cannot do through the settings endpoint of the
  API. The configuration the page edits is the row that \<open>getConfig\<close> returns, without its id
  and its owner; a webhook that is not set is null.
\<close>

section \<open>The page\<close>

record web_settings =
  ws_defaultRegion :: string
  ws_maxConcurrentBuilds :: int
  ws_logRetentionDays :: int
  ws_turboMode :: bool
  ws_globalTTLMinutes :: int
  ws_autoDeploy :: bool
  ws_slackWebhook :: "string option"
  ws_emailDeployFailed :: bool
  ws_emailDeploySuccess :: bool

record settings_page =
  sp_local :: "web_settings option"
  sp_dirty :: bool
  sp_toasts :: "toast_note list"

datatype toggle_key = TurboMode | AutoDeploy | EmailDeployFailed | EmailDeploySuccess
datatype number_key = MaxConcurrentBuilds | LogRetentionDays | GlobalTTLMinutes
datatype text_key = DefaultRegion | SlackWebhook

definition loaded_settings :: "web_settings option \<Rightarrow> settings_page \<Rightarrow> settings_page" where
  \<comment> \<open>the server's data initialises the local state once\<close>
  "loaded_settings server s = (if sp_local s = None then s\<lparr>sp_local := server\<rparr> else s)"

definition edit_settings :: "(web_settings \<Rightarrow> web_settings) \<Rightarrow> settings_page \<Rightarrow> settings_page" where
  \<comment> \<open>\<open>setLocalSettings(prev => prev ? ... : null)\<close> and \<open>setIsDirty(true)\<close>\<close>
  "edit_settings f s = s\<lparr>sp_local := map_option f (sp_local s), sp_dirty := True\<rparr>"

fun handleToggle :: "toggle_key \<Rightarrow> settings_page \<Rightarrow> settings_page" where
  "handleToggle TurboMode s = edit_settings (\<lambda>c. c\<lparr>ws_turboMode := \<not> ws_turboMode c\<rparr>) s"
| "handleToggle AutoDeploy s = edit_settings (\<lambda>c. c\<lparr>ws_autoDeploy := \<not> ws_autoDeploy c\<rparr>) s"
| "handleToggle EmailDeployFailed s = edit_settings (\<lambda>c. c\<lparr>ws_emailDeployFailed := \<not> ws_emailDeployFailed c\<rparr>) s"
| "handleToggle EmailDeploySuccess s = edit_settings (\<lambda>c. c\<lparr>ws_emailDeploySuccess := \<not> ws_emailDeploySuccess c\<rparr>) s"

fun handleChangeNumber :: "number_key \<Rightarrow> int \<Rightarrow> settings_page \<Rightarrow> settings_page" where
  \<comment> \<open>\<open>handleChange\<close> of a numeric field; the options of the page are numerals\<close>
  "handleChangeNumber MaxConcurrentBuilds n s = edit_settings (\<lambda>c. c\<lparr>ws_maxConcurrentBuilds := n\<rparr>) s"
| "handleChangeNumber LogRetentionDays n s = edit_settings (\<lambda>c. c\<lparr>ws_logRetentionDays := n\<rparr>) s"
| "handleChangeNumber GlobalTTLMinutes n s = edit_settings (\<lambda>c. c\<lparr>ws_globalTTLMinutes := n\<rparr>) s"

fun handleChangeText :: "text_key \<Rightarrow> string \<Rightarrow> settings_page \<Rightarrow> settings_page" where
  \<comment> \<open>\<open>handleChange\<close> of any other field\<close>
  "handleChangeText DefaultRegion t s = edit_settings (\<lambda>c. c\<lparr>ws_defaultRegion := t\<rparr>) s"
| "handleChangeText SlackWebhook t s = edit_settings (\<lambda>c. c\<lparr>ws_slackWebhook := Some t\<rparr>) s"

datatype settings_edit = Toggle toggle_key | ChangeNumber number_key int | ChangeText text_key string

fun settings_step :: "settings_edit \<Rightarrow> settings_page \<Rightarrow> settings_page" where
  "settings_step (Toggle k) s = handleToggle k s"
| "settings_step (ChangeNumber k n) s = handleChangeNumber k n s"
| "settings_step (ChangeText k t) s = handleChangeText k t s"

section \<open>Saving\<close>

definition settings_body :: "web_settings \<Rightarrow> json" where
  \<comment> \<open>\<open>cleanPayload\<close>: everything but \<open>updatedAt\<close>\<close>
  "settings_body c = JObj [
     (''defaultRegion'', JStr (ws_defaultRegion c)),
     (''maxConcurrentBuilds'', JNum (ws_maxConcurrentBuilds c)),
     (''logRetentionDays'', JNum (ws_logRetentionDays c)),
     (''turboMode'', JBool (ws_turboMode c)),
     (''globalTTLMinutes'', JNum (ws_globalTTLMinutes c)),
     (''autoDeploy'', JBool (ws_autoDeploy c)),
     (''slackWebhook'', (case ws_slackWebhook c of None \<Rightarrow> JNull | Some s \<Rightarrow> JStr s)),
     (''emailDeployFailed'', JBool (ws_emailDeployFailed c)),
     (''emailDeploySuccess'', JBool (ws_emailDeploySuccess c))]"

record settings_cache =
  sc_data :: "web_settings option"
  sc_revalidate :: bool

definition updateSettings :: "(json \<Rightarrow> 'w call) \<Rightarrow> web_settings \<Rightarrow> settings_cache \<Rightarrow> 'w \<Rightarrow> (api_error + unit) \<times> settings_cache \<times> 'w" where
  \<comment> \<open>the cache shows the new settings at once; it is revalidated whatever the API says\<close>
  "updateSettings put config c w =
     (let c1 = c\<lparr>sc_data := map_option (\<lambda>_. config) (sc_data c)\<rparr>; (r, w') = put (settings_body config) w
      in (r, c1\<lparr>sc_revalidate := True\<rparr>, w'))"

definition saveSettings :: "(json \<Rightarrow> 'w call) \<Rightarrow> settings_page \<Rightarrow> settings_cache \<Rightarrow> 'w \<Rightarrow> settings_page \<times> settings_cache \<times> 'w" where
  "saveSettings put s c w =
     (case sp_local s of
        None \<Rightarrow> (s, c, w)
      | Some config \<Rightarrow>
          let (r, c', w') = updateSettings put config c w
          in (case r of
                Inr x \<Rightarrow> s\<lparr>sp_dirty := False, sp_toasts := sp_toasts s @ [ToastSuccess ''Settings saved successfully'']\<rparr>
              | Inl e \<Rightarrow> s\<lparr>sp_toasts := sp_toasts s @ [ToastError ''Failed to save settings'']\<rparr>, c', w'))"

section \<open>What the API makes of it\<close>

abbreviation "settings_put H cr \<equiv> (\<lambda>body. settingsController H cr (PutSettings body))"

definition settings_ok :: "checkers \<Rightarrow> web_settings \<Rightarrow> bool" where
  "settings_ok K c \<longleftrightarrow> 1 \<le> ws_maxConcurrentBuilds c \<and> ws_maxConcurrentBuilds c \<le> 10 \<and>
     (\<forall>s. ws_slackWebhook c = Some s \<longrightarrow> ck_isUrl K s)"

lemma settings_body_valid: "checked K update_settings_rules (settings_body c) \<longleftrightarrow> settings_ok K c"
  by (auto simp: checked.simps update_settings_rules_def settings_body_def settings_ok_def absent_def split: option.splits)

definition dto_of_settings :: "web_settings \<Rightarrow> settings_dto" where
  "dto_of_settings c = \<lparr>sd_defaultRegion = Some (ws_defaultRegion c), sd_maxConcurrentBuilds = Some (ws_maxConcurrentBuilds c),
     sd_logRetentionDays = Some (ws_logRetentionDays c), sd_turboMode = Some (ws_turboMode c),
     sd_globalTTLMinutes = Some (ws_globalTTLMinutes c), sd_autoDeploy = Some (ws_autoDeploy c),
     sd_slackWebhook = Some (ws_slackWebhook c), sd_emailDeployFailed = Some (ws_emailDeployFailed c),
     sd_emailDeploySuccess = Some (ws_emailDeploySuccess c)\<rparr>"

lemma settings_body_dto: "settings_dto_of (settings_body c) = Some (dto_of_settings c)"
  by (simp add: settings_dto_of_def settings_body_def dto_of_settings_def opt_field_def null_field_def split: option.splits)

definition web_of :: "system_config \<Rightarrow> web_settings" where
  \<comment> \<open>what \<open>getConfig\<close> sends\<close>
  "web_of c = \<lparr>ws_defaultRegion = cfg_defaultRegion c, ws_maxConcurrentBuilds = cfg_maxConcurrentBuilds c,
     ws_logRetentionDays = cfg_logRetentionDays c, ws_turboMode = cfg_turboMode c,
     ws_globalTTLMinutes = cfg_globalTTLMinutes c, ws_autoDeploy = cfg_autoDeploy c,
     ws_slackWebhook = cfg_slackWebhook c, ws_emailDeployFailed = cfg_emailDeployFailed c,
     ws_emailDeploySuccess = cfg_emailDeploySuccess c\<rparr>"

lemma settings_put_run:
  assumes "signed_in_as H cr u w"
  shows "settings_put H cr (settings_body c) w =
    (if settings_ok (h_checkers H) c then discard (updateConfig (h_external H) u (dto_of_settings c)) w
     else (Inl (BadRequestException ''Bad Request Exception''), w))"
  using assms
  by (auto simp: signed_in_as_def withUser_run validated_run settings_body_valid settings_body_dto)

lemma stored_settings:
  assumes gcm: "gcm_ok X" and ok: "db_ok (db w)" and u: "u \<in> u_id ` set (users (db w))"
    and hook: "\<forall>s. ws_slackWebhook c = Some s \<longrightarrow> js_trim s \<noteq> []"
  shows "\<exists>c1 w' c2. updateConfig X u (dto_of_settings c) w = (Inr c1, w') \<and> find_config (db w') u = Some c1 \<and>
    getConfig X u w' = (Inr c2, w') \<and> web_of c2 = c"
proof -
  obtain h iv w1 where h: "hook_update X (sd_slackWebhook (dto_of_settings c)) w = (Inr h, w1)" "db w1 = db w"
    and sealed: "case ws_slackWebhook c of None \<Rightarrow> h = Some None
      | Some s \<Rightarrow> length iv = 12 \<and> h = Some (Some (payload_of X iv s)) \<and> s \<noteq> []"
  proof (cases "ws_slackWebhook c")
    case None
    then have "hook_update X (sd_slackWebhook (dto_of_settings c)) w = (Inr (Some None), w)"
      by (simp add: dto_of_settings_def hook_update_def ret_run)
    from that [OF this] None show ?thesis by simp
  next
    case (Some s)
    with hook have t: "js_trim s \<noteq> []" by blast
    obtain iv where iv: "length iv = 12" "hook_update X (Some (Some s)) w = (Inr (Some (Some (payload_of X iv s))), w\<lparr>rng_pos := rng_pos w + 12\<rparr>)"
      using hook_update_seal [OF t] by blast
    have "s \<noteq> []" using t by (auto simp: js_trim_def)
    with iv Some that [of "Some (Some (payload_of X iv s))" "w\<lparr>rng_pos := rng_pos w + 12\<rparr>" iv] show ?thesis
      by (simp add: dto_of_settings_def)
  qed
  obtain c1 w' where run: "updateConfig X u (dto_of_settings c) w = (Inr c1, w')" and f: "find_config (db w') u = Some c1"
    and n: "find_config (db w) u = None \<longrightarrow> c1 = (apply_settings (dto_of_settings c)
        (case h of Some (Some s) \<Rightarrow> if truthy s then Some (Some s) else None | _ \<Rightarrow> None) (new_config u))\<lparr>cfg_id := nextId (db w)\<rparr>"
    and o: "\<forall>c0. find_config (db w) u = Some c0 \<longrightarrow> c1 = apply_settings (dto_of_settings c) h c0"
    using updateConfig_run [OF ok u h] by (elim exE conjE) (rule that)
  let ?c2 = "c1\<lparr>cfg_slackWebhook := ws_slackWebhook c\<rparr>"
  have hk: "cfg_slackWebhook c1 = (case ws_slackWebhook c of None \<Rightarrow> None | Some s \<Rightarrow> Some (payload_of X iv s))"
  proof (cases "find_config (db w) u")
    case None
    with n sealed show ?thesis
      by (auto simp: apply_settings_def set_opt_def new_config_def payload_truthy split: option.splits)
  next
    case (Some c0)
    with o sealed show ?thesis by (auto simp: apply_settings_def set_opt_def split: option.splits)
  qed
  obtain g b k where c1: "c1 = (apply_settings (dto_of_settings c) g b)\<lparr>cfg_id := k\<rparr>"
  proof (cases "find_config (db w) u")
    case None
    with n that show ?thesis by blast
  next
    case (Some c0)
    with o have "c1 = apply_settings (dto_of_settings c) h c0" by blast
    then have "c1 = (apply_settings (dto_of_settings c) h c0)\<lparr>cfg_id := cfg_id c1\<rparr>" by simp
    with that show ?thesis by blast
  qed
  have "web_of ?c2 = c"
    unfolding c1 by (cases c) (simp add: web_of_def apply_settings_def set_opt_def dto_of_settings_def)
  moreover have "getConfig X u w' = (Inr ?c2, w')"
    using getConfig_run [OF f, of X] sealed hk decrypt_payload [OF gcm]
    by (auto simp: payload_truthy split: option.splits)
  ultimately show ?thesis using run f by blast
qed

text \<open>
  C24. What the settings page saves is what the API then returns, field by field, the webhook in
  clear text, when the build limit is between 1 and 10 and the webhook is null or a URL;
  otherwise the API refuses and nothing changes, on the page or in the database.
\<close>

theorem settings_page_roundtrip:
  assumes "gcm_ok (h_external H)" and "db_ok (db w)" and "signed_in_as H cr u w"
    and "\<And>s. ck_isUrl (h_checkers H) s \<Longrightarrow> js_trim s \<noteq> []"
    and "sp_local s = Some c" and "saveSettings (settings_put H cr) s cache w = (s', cache', w')"
  shows "if settings_ok (h_checkers H) c
    then \<not> sp_dirty s' \<and> (\<exists>c'. getConfig (h_external H) u w' = (Inr c', w') \<and> web_of c' = c)
    else sp_dirty s' = sp_dirty s \<and> sp_local s' = Some c \<and> w' = w"
proof -
  note put = settings_put_run [OF assms(3)]
  show ?thesis
  proof (cases "settings_ok (h_checkers H) c")
    case True
    then have hook: "\<forall>t. ws_slackWebhook c = Some t \<longrightarrow> js_trim t \<noteq> []" using assms(4) by (auto simp: settings_ok_def)
    have u: "u \<in> u_id ` set (users (db w))" using assms(3) by (simp add: signed_in_as_def)
    obtain c1 w'' c2 where run: "updateConfig (h_external H) u (dto_of_settings c) w = (Inr c1, w'')"
      and g: "getConfig (h_external H) u w'' = (Inr c2, w'')" "web_of c2 = c"
      using stored_settings [OF assms(1,2) u hook] by blast
    have "settings_put H cr (settings_body c) w = (Inr (), w'')"
      using True run unfolding put by (simp add: discard_def andThen_def ret_run)
    then have "\<not> sp_dirty s' \<and> w' = w''"
      using assms(5,6) by (auto simp: saveSettings_def updateSettings_def)
    then show ?thesis using True g by auto
  next
    case False
    then have "settings_put H cr (settings_body c) w = (Inl (BadRequestException ''Bad Request Exception''), w)"
      unfolding put by simp
    then show ?thesis using False assms(5,6) by (auto simp: saveSettings_def updateSettings_def)
  qed
qed

lemma edits_keep_webhook:
  assumes "\<exists>c s. sp_local st = Some c \<and> ws_slackWebhook c = Some s"
  shows "\<exists>c s. sp_local (fold settings_step es st) = Some c \<and> ws_slackWebhook c = Some s"
  using assms
proof (induction es arbitrary: st)
  case Nil
  then show ?case by simp
next
  case (Cons e es)
  have "\<exists>c s. sp_local (settings_step e st) = Some c \<and> ws_slackWebhook c = Some s"
  proof (cases e)
    case (Toggle k)
    then show ?thesis using Cons.prems by (cases k) (auto simp: edit_settings_def)
  next
    case (ChangeNumber k n)
    then show ?thesis using Cons.prems by (cases k) (auto simp: edit_settings_def)
  next
    case (ChangeText k t)
    then show ?thesis using Cons.prems by (cases k) (auto simp: edit_settings_def)
  qed
  from Cons.IH [OF this] show ?case by simp
qed

theorem webhook_cannot_be_removed:
  assumes "gcm_ok (h_external H)" and "db_ok (db w)" and "signed_in_as H cr u w"
    and "\<And>s. ck_isUrl (h_checkers H) s \<Longrightarrow> js_trim s \<noteq> []"
    and "find_config (db w) u = Some c0" and "truthy_opt (cfg_slackWebhook c0)"
    and "sp_local s0 = Some c" and "ws_slackWebhook c \<noteq> None"
    and "saveSettings (settings_put H cr) (fold settings_step es s0) cache w = (s', cache', w')"
  shows "\<exists>c'. find_config (db w') u = Some c' \<and> truthy_opt (cfg_slackWebhook c')"
proof -
  obtain d t where d: "sp_local (fold settings_step es s0) = Some d" "ws_slackWebhook d = Some t"
    using edits_keep_webhook [of s0 es] assms(7,8) by auto
  note put = settings_put_run [OF assms(3)]
  show ?thesis
  proof (cases "settings_ok (h_checkers H) d")
    case True
    then have hook: "\<forall>s. ws_slackWebhook d = Some s \<longrightarrow> js_trim s \<noteq> []" using assms(4) by (auto simp: settings_ok_def)
    have u: "u \<in> u_id ` set (users (db w))" using assms(3) by (simp add: signed_in_as_def)
    obtain c1 w'' c2 where run: "updateConfig (h_external H) u (dto_of_settings d) w = (Inr c1, w'')"
      and f: "find_config (db w'') u = Some c1" and g: "getConfig (h_external H) u w'' = (Inr c2, w'')" "web_of c2 = d"
      using stored_settings [OF assms(1,2) u hook] by blast
    have "settings_put H cr (settings_body d) w = (Inr (), w'')"
      using True run unfolding put by (simp add: discard_def andThen_def ret_run)
    then have "w' = w''" using assms(9) d by (auto simp: saveSettings_def updateSettings_def)
    moreover have "cfg_slackWebhook c2 = Some t" using g(2) d(2) by (auto simp: web_of_def)
    then have "truthy_opt (cfg_slackWebhook c1)"
      using g(1) getConfig_run [OF f, of "h_external H"] hook d(2) by (cases "truthy_opt (cfg_slackWebhook c1)") (auto simp: truthy_def js_trim_def)
    ultimately show ?thesis using f by blast
  next
    case False
    then have "settings_put H cr (settings_body d) w = (Inl (BadRequestException ''Bad Request Exception''), w)"
      unfolding put by simp
    then have "w' = w" using assms(9) d by (auto simp: saveSettings_def updateSettings_def)
    then show ?thesis using assms(5,6) by blast
  qed
qed

section \<open>Closed examples\<close>

definition shop_settings :: web_settings where
  "shop_settings = \<lparr>ws_defaultRegion = ''us-ashburn-1'', ws_maxConcurrentBuilds = 2, ws_logRetentionDays = 3, ws_turboMode = False,
     ws_globalTTLMinutes = 15, ws_autoDeploy = True, ws_slackWebhook = Some ''https://hooks.slack.com/x'',
     ws_emailDeployFailed = True, ws_emailDeploySuccess = False\<rparr>"

definition open_page :: settings_page where
  "open_page = \<lparr>sp_local = Some shop_settings, sp_dirty = True, sp_toasts = []\<rparr>"

lemma js_trim_Nil:
  assumes "js_trim s = []" and "c \<in> set s"
  shows "is_blank c"
proof -
  have "\<forall>x \<in> set (dropWhile is_blank s). is_blank x" using assms(1) by (simp add: js_trim_def dropWhile_eq_Nil_conv)
  then have "dropWhile is_blank s = []" using hd_dropWhile [of is_blank s] hd_in_set by blast
  then show ?thesis using assms(2) by (simp add: dropWhile_eq_Nil_conv)
qed

definition url_http :: http where
  "url_http = sample_http\<lparr>h_checkers := \<lparr>ck_isEmail = (\<lambda>s. True), ck_isUrl = (\<lambda>s. take 8 s = ''https://'')\<rparr>\<rparr>"

lemma url_http_urls: "ck_isUrl (h_checkers url_http) s \<Longrightarrow> js_trim s \<noteq> []"
proof -
  assume "ck_isUrl (h_checkers url_http) s"
  then have "CHR ''h'' \<in> set (take 8 s)" by (simp add: url_http_def)
  then have "CHR ''h'' \<in> set s" by (rule in_set_takeD)
  moreover have "\<not> is_blank (CHR ''h'')" by (simp add: is_blank_def)
  ultimately show "js_trim s \<noteq> []" using js_trim_Nil by blast
qed

lemma url_http_simps: "h_external url_http = sample_external" "signed_in_as url_http ann_creds 0 sample_world"
  by (simp_all add: url_http_def sample_http_def sample_server_def signed_in_as_def ann_creds_def sample_defs)

definition no_settings :: settings_cache where
  "no_settings = \<lparr>sc_data = None, sc_revalidate = False\<rparr>"

theorem settings_page_roundtrip_witness:
  "\<exists>s' cache' w' c'. saveSettings (settings_put url_http ann_creds) open_page no_settings sample_world = (s', cache', w') \<and>
     \<not> sp_dirty s' \<and> getConfig sample_external 0 w' = (Inr c', w') \<and> web_of c' = shop_settings"
proof -
  obtain s' cache' w' where run: "saveSettings (settings_put url_http ann_creds) open_page no_settings sample_world = (s', cache', w')"
    by (metis prod_cases3)
  have gcm: "gcm_ok (h_external url_http)" by (simp add: url_http_simps gcm_ok_sample)
  have loc: "sp_local open_page = Some shop_settings" by (simp add: open_page_def)
  have "settings_ok (h_checkers url_http) shop_settings"
    by (simp add: settings_ok_def shop_settings_def url_http_def)
  with settings_page_roundtrip [OF gcm sample_db_ok url_http_simps(2) url_http_urls loc run]
  show ?thesis using run by (auto simp: url_http_simps)
qed

theorem webhook_cannot_be_removed_witness:
  "\<exists>s' cache' w' c'. saveSettings (settings_put url_http ann_creds) (settings_step (ChangeText SlackWebhook []) open_page) no_settings
       (sample_world\<lparr>db := sample_db\<lparr>systemConfigs := [(new_config 0)\<lparr>cfg_id := 10, cfg_slackWebhook := Some ''sealed''\<rparr>]\<rparr>\<rparr>) =
       (s', cache', w') \<and> find_config (db w') 0 = Some c' \<and> truthy_opt (cfg_slackWebhook c')"
proof -
  let ?c = "(new_config 0)\<lparr>cfg_id := 10, cfg_slackWebhook := Some ''sealed''\<rparr>"
  let ?w = "sample_world\<lparr>db := sample_db\<lparr>systemConfigs := [?c]\<rparr>\<rparr>"
  obtain s' cache' w' where run: "saveSettings (settings_put url_http ann_creds) (fold settings_step [ChangeText SlackWebhook []] open_page)
      no_settings ?w = (s', cache', w')" by (metis prod_cases3)
  have gcm: "gcm_ok (h_external url_http)" by (simp add: url_http_simps gcm_ok_sample)
  have ok: "db_ok (db ?w)" by (simp add: db_ok_def uniq_def fks_def fresh_def sample_defs)
  have sign: "signed_in_as url_http ann_creds 0 ?w"
    by (simp add: url_http_def sample_http_def signed_in_as_def ann_creds_def sample_defs)
  have "\<exists>c'. find_config (db w') 0 = Some c' \<and> truthy_opt (cfg_slackWebhook c')"
    by (rule webhook_cannot_be_removed [OF gcm ok sign url_http_urls, where c = shop_settings and ?c0.0 = ?c, OF _ _ _ _ _ run])
      (simp_all add: find_config_def new_config_def open_page_def shop_settings_def)
  then show ?thesis using run by auto
qed

end
