(* ===== verification/Wizard.thy ===== *)
theory Wizard
  imports EnvPanel FetchClient
begin

text \<open>
  The creation wizard of the web client: \<open>components/project/NewProjectDialog.tsx\<close> with its form
  schema (\<open>lib/validation/project.ts\<close>), the presets of \<open>types/git.ts\<close>, the GitHub hook
  (\<open>hooks/use-git.ts\<close>) and the directory selector. The repositories are the ones the API lists.
  The React states of the dialog and the values of its form are one record.
\<close>

section \<open>Framework presets\<close>

record preset =
  ps_install :: string
  ps_build :: string
  ps_run :: string
  ps_output :: string

definition preset_of :: "string \<Rightarrow> string \<Rightarrow> string \<Rightarrow> string \<Rightarrow> preset" where
  "preset_of i b r out = \<lparr>ps_install = i, ps_build = b, ps_run = r, ps_output = out\<rparr>"

definition static_serve :: "string \<Rightarrow> string" where
  "static_serve dir = ''npx --yes serve -s '' @ dir @ '' -l tcp://0.0.0.0:$PORT''"

definition FRAMEWORK_PRESETS :: "(string \<times> preset) list" where
  "FRAMEWORK_PRESETS = [
     (''nextjs'', preset_of ''npm install'' ''npm run build'' ''npm start'' ''.next''),
     (''nestjs'', preset_of ''npm install'' ''npm run build'' ''npm run start:prod'' ''dist''),
     (''nuxt'', preset_of ''npm install'' ''npm run build'' ''npm run start'' ''.output/public''),
     (''express'', preset_of ''npm install'' [] ''node index.js'' ''.''),
     (''fastify'', preset_of ''npm install'' [] ''node app.js'' ''.''),
     (''node'', preset_of ''npm install'' [] ''npm start'' ''.''),
     (''vite'', preset_of ''npm install'' ''npm run build'' (static_serve ''dist'') ''dist''),
     (''vue'', preset_of ''npm install'' ''npm run build'' (static_serve ''dist'') ''dist''),
     (''create-react-app'', preset_of ''npm install'' ''npm run build'' (static_serve ''build'') ''build''),
     (''angular'', preset_of ''npm install'' ''npm run build'' (static_serve ''dist'') ''dist''),
     (''astro'', preset_of ''npm install'' ''npm run build'' (static_serve ''dist'') ''dist''),
     (''sveltekit'', preset_of ''npm install'' ''npm run build'' (static_serve ''build'') ''build''),
     (''django'', preset_of ''pip install -r requirements.txt'' ''python manage.py collectstatic --noinput'' ''gunicorn app.wsgi'' ''staticfiles''),
     (''flask'', preset_of ''pip install -r requirements.txt'' [] ''gunicorn app:app'' ''.''),
     (''fastapi'', preset_of ''pip install -r requirements.txt'' [] ''uvicorn main:app --host 0.0.0.0 --port $PORT'' ''.''),
     (''streamlit'', preset_of ''pip install -r requirements.txt'' [] ''streamlit run app.py'' ''.''),
     (''python'', preset_of ''pip install -r requirements.txt'' [] ''python main.py'' ''.'')]"

definition PYTHON_FRAMEWORKS :: "string list" where
  "PYTHON_FRAMEWORKS = [''django'', ''flask'', ''fastapi'', ''streamlit'', ''python'']"

section \<open>The dialog\<close>

record project_form =
  pf_projectName :: string
  pf_rootDirectory :: string
  pf_framework :: string
  pf_buildCommand :: string
  pf_outputDirectory :: string
  pf_installCommand :: string
  pf_runCommand :: string
  pf_pythonVersion :: string
  pf_envVars :: "(string \<times> string) list"

definition default_form :: project_form where
  "default_form = \<lparr>pf_projectName = [], pf_rootDirectory = ''./'', pf_framework = ''other'', pf_buildCommand = [],
     pf_outputDirectory = [], pf_installCommand = [], pf_runCommand = [], pf_pythonVersion = [], pf_envVars = []\<rparr>"

definition projectSchema :: "project_form \<Rightarrow> bool" where
  \<comment> \<open>the zod schema; the remaining fields are texts, as they are here by their type\<close>
  "projectSchema f \<longleftrightarrow> project_name_ok (pf_projectName f) \<and> pf_rootDirectory f \<noteq> []"

record wizard =
  wz_form :: project_form
  wz_defaults :: project_form
  wz_searchQuery :: string
  wz_accountOpen :: bool
  wz_selectedRepo :: "repository option"
  wz_importingRepoId :: "int option"
  wz_deploying :: bool
  wz_showBuildSettings :: bool
  wz_toasts :: "toast_note list"

definition wizard_init :: wizard where
  "wizard_init = \<lparr>wz_form = default_form, wz_defaults = default_form, wz_searchQuery = [], wz_accountOpen = False, wz_selectedRepo = None,
     wz_importingRepoId = None, wz_deploying = False, wz_showBuildSettings = False, wz_toasts = []\<rparr>"

definition say :: "toast_note \<Rightarrow> wizard \<Rightarrow> wizard" where
  "say x z = z\<lparr>wz_toasts := wz_toasts z @ [x]\<rparr>"

definition handleFrameworkChange :: "string \<Rightarrow> bool \<Rightarrow> wizard \<Rightarrow> wizard" where
  "handleFrameworkChange framework showToast z =
     (let z1 = z\<lparr>wz_form := (wz_form z)\<lparr>pf_framework := framework\<rparr>\<rparr>
      in case map_of FRAMEWORK_PRESETS framework of
           None \<Rightarrow> z1
         | Some preset \<Rightarrow>
             let z2 = z1\<lparr>wz_form := (wz_form z1)\<lparr>pf_installCommand := [], pf_buildCommand := [], pf_runCommand := [],
                          pf_outputDirectory := ps_output preset, pf_pythonVersion := []\<rparr>\<rparr>;
                 z3 = (if framework \<in> set PYTHON_FRAMEWORKS then z2\<lparr>wz_showBuildSettings := True\<rparr> else z2)
             in if showToast then say (ToastInfo (''Applied build defaults for '' @ framework)) z3 else z3)"

definition handleRootDirectoryChange :: "string \<Rightarrow> bool \<Rightarrow> (repository \<Rightarrow> string \<Rightarrow> detection option) \<Rightarrow> wizard \<Rightarrow> wizard" where
  \<comment> \<open>\<open>detect\<close> is \<open>detectFramework\<close> of the hook, for the selected account if there is one\<close>
  "handleRootDirectoryChange newPath account detect z =
     (let z1 = z\<lparr>wz_form := (wz_form z)\<lparr>pf_rootDirectory := newPath\<rparr>\<rparr>
      in case wz_selectedRepo z of
           None \<Rightarrow> z1
         | Some repo \<Rightarrow>
             if \<not> account then z1
             else case detect repo newPath of
                    None \<Rightarrow> say (ToastError ''Failed to detect framework'') z1
                  | Some d \<Rightarrow> say (ToastSuccess (''Detected '' @ det_framework d)) (handleFrameworkChange (det_framework d) False z1))"

datatype wizard_screen = Deploying | Configure | Connect | Listing

definition wizard_view :: "bool \<Rightarrow> bool \<Rightarrow> wizard \<Rightarrow> wizard_screen" where
  "wizard_view isLoading isConnected z =
     (if wz_deploying z then Deploying
      else if wz_selectedRepo z \<noteq> None then Configure
      else if \<not> isLoading \<and> \<not> isConnected then Connect
      else Listing)"

fun wizard_progress :: "wizard_screen \<Rightarrow> nat" where
  \<comment> \<open>in percent\<close>
  "wizard_progress Connect = 10"
| "wizard_progress Listing = 30"
| "wizard_progress Configure = 70"
| "wizard_progress Deploying = 90"

definition handleClose :: "bool \<Rightarrow> wizard \<Rightarrow> wizard" where
  \<comment> \<open>the reset 300 ms after the dialog was closed; the form goes back to its last defaults\<close>
  "handleClose isOpen z =
     (if isOpen then z
      else z\<lparr>wz_searchQuery := [], wz_accountOpen := False, wz_selectedRepo := None, wz_importingRepoId := None,
             wz_deploying := False, wz_form := wz_defaults z\<rparr>)"

definition dash_char :: "char \<Rightarrow> char" where
  \<comment> \<open>\<open>replace(/[^a-zA-Z0-9-]/g, '-')\<close> on one character\<close>
  "dash_char c = (if is_alnum c \<or> c = CHR ''-'' then c else CHR ''-'')"

definition imported_form :: "repository \<Rightarrow> project_form" where
  "imported_form repo = \<lparr>pf_projectName = map dash_char (rp_name repo), pf_rootDirectory = ''./'',
     pf_framework = or_else (Some (det_framework (rp_detection repo))) ''unknown'',
     pf_buildCommand = det_buildCommand (rp_detection repo), pf_outputDirectory = det_outputDirectory (rp_detection repo),
     pf_installCommand = det_installCommand (rp_detection repo), pf_runCommand = det_runCommand (rp_detection repo),
     pf_pythonVersion = [], pf_envVars = [([], [])]\<rparr>"

definition handleImport :: "repository \<Rightarrow> wizard \<Rightarrow> wizard" where
  \<comment> \<open>\<open>form.reset(values)\<close> makes the values the new defaults as well\<close>
  "handleImport repo z = z\<lparr>wz_form := imported_form repo, wz_defaults := imported_form repo,
     wz_selectedRepo := Some repo, wz_importingRepoId := None\<rparr>"

definition wizard_envLine :: "string \<Rightarrow> (string \<times> string) option" where
  \<comment> \<open>the body of the reduce in \<open>importEnvFile\<close>: everything before the first equals sign, and the rest\<close>
  "wizard_envLine line =
     (let t = js_trim line
      in if t \<noteq> [] \<and> hd t \<noteq> CHR ''#'' \<and> CHR ''='' \<in> set t
         then Some (takeWhile (\<lambda>c. c \<noteq> CHR ''='') t, tl (dropWhile (\<lambda>c. c \<noteq> CHR ''='') t))
         else None)"

definition wizard_importEnvFile :: "string \<Rightarrow> wizard \<Rightarrow> wizard" where
  "wizard_importEnvFile text z =
     (let parsed = List.map_filter wizard_envLine (split_on (CHR 0x0A) text)
      in say (Imported (length parsed))
           (z\<lparr>wz_form := (wz_form z)\<lparr>pf_envVars := pf_envVars (wz_form z) @ parsed\<rparr>\<rparr>))"

definition filteredRepos :: "repository list \<Rightarrow> wizard \<Rightarrow> repository list" where
  "filteredRepos repos z =
     filter (\<lambda>r. contains_text (map to_lower (wz_searchQuery z)) (map to_lower (rp_name r))) repos"

section \<open>Submitting\<close>

definition text_field :: "string \<Rightarrow> string \<Rightarrow> (string \<times> json) list" where
  "text_field k s = [(k, JStr s)]"

definition sent_vars :: "(string \<times> string) list \<Rightarrow> (string \<times> string) list" where
  "sent_vars = filter (\<lambda>(k, v). js_trim k \<noteq> [] \<and> js_trim v \<noteq> [])"

definition project_body :: "project_form \<Rightarrow> repository \<Rightarrow> json" where
  \<comment> \<open>the payload of \<open>onSubmit\<close>; undefined does not survive \<open>JSON.stringify\<close>\<close>
  "project_body f repo = JObj (
     text_field ''name'' (pf_projectName f) @ text_field ''framework'' (pf_framework f) @
     text_field ''rootDirectory'' (pf_rootDirectory f) @
     text_field ''language'' (or_else (rp_language repo) ''Unknown'') @
     text_field ''installCommand'' (pf_installCommand f) @ text_field ''buildCommand'' (pf_buildCommand f) @
     text_field ''runCommand'' (pf_runCommand f) @ text_field ''outputDirectory'' (pf_outputDirectory f) @
     (if pf_pythonVersion f = [] then [] else text_field ''pythonVersion'' (pf_pythonVersion f)) @
     [(''gitRepoId'', JNum (rp_id repo))] @ text_field ''gitRepoName'' (rp_name repo) @
     text_field ''gitRepoOwner'' (hd (split_on CHR ''/'' (rp_fullName repo))) @
     text_field ''gitBranch'' (rp_defaultBranch repo) @ text_field ''gitRepoUrl'' (rp_url repo) @
     text_field ''gitCloneUrl'' (rp_cloneUrl repo) @
     [(''envVars'', JArr (map (\<lambda>(k, v). JObj (text_field ''key'' k @ text_field ''value'' v)) (sent_vars (pf_envVars f))))])"

definition onSubmit :: "(json \<Rightarrow> 'w \<Rightarrow> (api_error + uuid) \<times> 'w) \<Rightarrow> wizard \<Rightarrow> 'w \<Rightarrow> uuid option \<times> wizard \<times> 'w" where
  \<comment> \<open>\<open>post\<close> creates the project and answers with its first deployment, the page that opens next\<close>
  "onSubmit post z w =
     (case wz_selectedRepo z of
        None \<Rightarrow> (None, say (ToastError ''No repository selected'') z, w)
      | Some repo \<Rightarrow>
          let (r, w') = post (project_body (wz_form z) repo) w
          in case r of
               Inl e \<Rightarrow> (None, say (ToastError ''Failed to create project'') (z\<lparr>wz_deploying := False\<rparr>), w')
             | Inr deployment \<Rightarrow>
                 (Some deployment, handleClose False (say (ToastSuccess ''Project created and deployment queued!'') z), w'))"

definition post_project :: "http \<Rightarrow> creds \<Rightarrow> json \<Rightarrow> uuid handler" where
  \<comment> \<open>\<open>POST /projects\<close>, and \<open>newProject.deployments[0].id\<close> of its answer\<close>
  "post_project H cr body = withUser H cr (\<lambda>userId.
     andThen (validated H create_project_rules create_project_of body) (\<lambda>dto.
     andThen (projectsService_create (h_external H) userId dto) (\<lambda>view.
     orThrow (map_option d_id (head_opt (pv_deployments view))) (Thrown ''TypeError''))))"

definition submit_form :: "(json \<Rightarrow> 'w \<Rightarrow> (api_error + uuid) \<times> 'w) \<Rightarrow> wizard \<Rightarrow> 'w \<Rightarrow> uuid option \<times> wizard \<times> 'w" where
  \<comment> \<open>\<open>form.handleSubmit(onSubmit)\<close>: nothing is sent unless the schema holds\<close>
  "submit_form post z w = (if projectSchema (wz_form z) then onSubmit post z w else (None, z, w))"

section \<open>\<open>useGit\<close> and the directory selector\<close>

record web_account =
  wa_id :: uuid
  wa_username :: string
  wa_installationId :: "string option"

definition activeAccount :: "web_account list option \<Rightarrow> uuid option \<Rightarrow> web_account option" where
  "activeAccount accounts explicitId =
     (case accounts of None \<Rightarrow> None
      | Some accs \<Rightarrow> (case explicitId of None \<Rightarrow> head_opt accs | Some i \<Rightarrow> find_or_first (\<lambda>a. wa_id a = i) accs))"

definition repos_key :: "bool \<Rightarrow> web_account option \<Rightarrow> string option" where
  \<comment> \<open>the request of the repository list, none without an installation\<close>
  "repos_key isConnected account =
     (case account of None \<Rightarrow> None
      | Some a \<Rightarrow> if isConnected \<and> truthy_opt (wa_installationId a)
                  then Some (''/git/repos?installationId='' @ the (wa_installationId a)) else None)"

definition owner_and_repo :: "string \<Rightarrow> string option \<times> string option" where
  \<comment> \<open>\<open>const [owner, repo] = repoFullName.split('/')\<close>\<close>
  "owner_and_repo s = (nth_part (split_on CHR ''/'' s) 0, nth_part (split_on CHR ''/'' s) 1)"

definition js_text :: "string option \<Rightarrow> string" where
  "js_text x = (case x of None \<Rightarrow> ''undefined'' | Some s \<Rightarrow> s)"

definition git_request :: "string \<Rightarrow> string \<Rightarrow> string \<Rightarrow> string \<Rightarrow> string" where
  "git_request verb installationId fullName path =
     ''/git/'' @ verb @ ''?installationId='' @ installationId @ ''&owner='' @ js_text (fst (owner_and_repo fullName)) @
     ''&repo='' @ js_text (snd (owner_and_repo fullName)) @ ''&path='' @ path"

definition detectFramework_request :: "string \<Rightarrow> string \<Rightarrow> string \<Rightarrow> string" where
  "detectFramework_request = git_request ''detect''"

definition tree_request :: "string option \<Rightarrow> string option \<Rightarrow> string \<Rightarrow> string option" where
  \<comment> \<open>\<open>useGitTree\<close>: nothing is fetched without an installation and a repository\<close>
  "tree_request installationId fullName path =
     (if truthy_opt installationId \<and> truthy_opt fullName
      then Some (git_request ''tree'' (the installationId) (the fullName) path) else None)"

record selector =
  sl_currentPath :: string
  sl_selectedPath :: string

definition selector_init :: "string \<Rightarrow> selector" where
  "selector_init currentRoot =
     (let p = (if currentRoot = ''./'' then [] else currentRoot) in \<lparr>sl_currentPath = p, sl_selectedPath = p\<rparr>)"

fun join_slash :: "string list \<Rightarrow> string" where
  "join_slash [] = []"
| "join_slash [p] = p"
| "join_slash (p # ps) = p @ CHR ''/'' # join_slash ps"

definition handleNavigate :: "string \<Rightarrow> selector \<Rightarrow> selector" where
  "handleNavigate path s = s\<lparr>sl_currentPath := path\<rparr>"

definition handleUp :: "selector \<Rightarrow> selector" where
  "handleUp s = (if sl_currentPath s = [] then s
     else s\<lparr>sl_currentPath := join_slash (butlast (split_on CHR ''/'' (sl_currentPath s)))\<rparr>)"

definition handleConfirm :: "selector \<Rightarrow> string" where
  "handleConfirm s = or_else (Some (sl_selectedPath s)) ''./''"

end
