(* ===== verification/WizardLaws.thy ===== *)
theory WizardLaws
  imports Wizard PanelLaws
begin

text \<open>
  Laws of the creation wizard: what its form accepts the API accepts, and a submitted form
  becomes a project whose variables can all be read again; what the two readers of \<open>.env\<close> files
  make of the same line.
\<close>

section \<open>The contract between the form and the API\<close>

definition repo_ok :: "repository \<Rightarrow> bool" where
  \<comment> \<open>what GitHub guarantees of a listed repository\<close>
  "repo_ok r \<longleftrightarrow> rp_name r \<noteq> [] \<and> hd (split_on CHR ''/'' (rp_fullName r)) \<noteq> [] \<and> rp_defaultBranch r \<noteq> [] \<and>
     rp_url r \<noteq> [] \<and> rp_cloneUrl r \<noteq> []"

definition wizard_dto :: "project_form \<Rightarrow> repository \<Rightarrow> create_project_dto" where
  "wizard_dto f r = \<lparr>pd_name = pf_projectName f, pd_gitRepoId = rp_id r, pd_gitRepoName = rp_name r,
     pd_gitRepoOwner = hd (split_on CHR ''/'' (rp_fullName r)), pd_gitBranch = rp_defaultBranch r,
     pd_gitRepoUrl = rp_url r, pd_gitCloneUrl = rp_cloneUrl r, pd_language = or_else (rp_language r) ''Unknown'',
     pd_framework = Some (pf_framework f), pd_rootDirectory = Some (pf_rootDirectory f),
     pd_installCommand = Some (pf_installCommand f), pd_buildCommand = Some (pf_buildCommand f),
     pd_runCommand = Some (pf_runCommand f), pd_outputDirectory = Some (pf_outputDirectory f),
     pd_pythonVersion = or_undefined (Some (pf_pythonVersion f)), pd_envVars = Some (sent_vars (pf_envVars f))\<rparr>"

lemma body_members:
  fixes f r
  defines "b \<equiv> project_body f r"
  shows "member_of b ''name'' = Some (JStr (pf_projectName f))"
    "member_of b ''gitRepoId'' = Some (JNum (rp_id r))"
    "member_of b ''gitRepoName'' = Some (JStr (rp_name r))"
    "member_of b ''gitRepoOwner'' = Some (JStr (hd (split_on CHR ''/'' (rp_fullName r))))"
    "member_of b ''gitBranch'' = Some (JStr (rp_defaultBranch r))"
    "member_of b ''gitRepoUrl'' = Some (JStr (rp_url r))"
    "member_of b ''gitCloneUrl'' = Some (JStr (rp_cloneUrl r))"
    "member_of b ''language'' = Some (JStr (or_else (rp_language r) ''Unknown''))"
    "member_of b ''framework'' = Some (JStr (pf_framework f))"
    "member_of b ''rootDirectory'' = Some (JStr (pf_rootDirectory f))"
    "member_of b ''installCommand'' = Some (JStr (pf_installCommand f))"
    "member_of b ''buildCommand'' = Some (JStr (pf_buildCommand f))"
    "member_of b ''runCommand'' = Some (JStr (pf_runCommand f))"
    "member_of b ''outputDirectory'' = Some (JStr (pf_outputDirectory f))"
    "member_of b ''pythonVersion'' = (if pf_pythonVersion f = [] then None else Some (JStr (pf_pythonVersion f)))"
    "member_of b ''envVars'' = Some (JArr (map (\<lambda>(k, v). JObj [(''key'', JStr k), (''value'', JStr v)]) (sent_vars (pf_envVars f))))"
  unfolding b_def project_body_def text_field_def
  by (simp_all)

lemma or_else_Nil: "or_else x d = [] \<longleftrightarrow> d = [] \<and> (x = None \<or> x = Some [])"
  by (auto simp: or_else_def truthy_def split: option.splits)

lemma sent_var_checked:
  "(k, v) \<in> set (sent_vars vs) \<Longrightarrow>
     checked K [(''key'', [IsString, IsNotEmpty]), (''value'', [IsString])] (JObj [(''key'', JStr k), (''value'', JStr v)])"
  by (auto simp: checked.simps absent_def sent_vars_def js_trim_def)

lemma wizard_body_valid:
  assumes "projectSchema f" and "repo_ok r"
  shows "checked K create_project_rules (project_body f r)"
proof -
  have keys: "\<exists>kvs. project_body f r = JObj kvs \<and> (\<forall>k \<in> set (map fst kvs). k \<in> set (map fst create_project_rules))"
    by (simp add: project_body_def text_field_def create_project_rules_def base_project_rules_def)
  have "or_else (rp_language r) ''Unknown'' \<noteq> []" by (simp add: or_else_Nil)
  then have "\<forall>(k, rs) \<in> set create_project_rules. (IsOptional \<in> set rs \<and> absent (member_of (project_body f r) k)) \<or>
      (\<forall>x \<in> set rs. satisfies K x (member_of (project_body f r) k))"
    using assms sent_var_checked [of _ _ "pf_envVars f" K]
    by (auto simp: create_project_rules_def base_project_rules_def body_members absent_def projectSchema_def repo_ok_def
        project_name_ok_def)
  with keys show ?thesis by (auto simp: checked.simps)
qed

lemma wizard_body_decoded: "create_project_of (project_body f r) = Some (wizard_dto f r)"
proof -
  have "map (\<lambda>v. (text_of v ''key'', text_of v ''value'')) (map (\<lambda>(k, v). JObj [(''key'', JStr k), (''value'', JStr v)]) vs) = vs" for vs
    by (induction vs) (auto simp: text_of_def str_field_def)
  then show ?thesis
    by (simp add: create_project_of_def wizard_dto_def text_of_def str_field_def num_field_def opt_field_def list_field_def
        body_members absent_def or_undefined_def truthy_def)
qed

theorem wizard_contract:
  assumes "projectSchema f" and "repo_ok r"
  shows "checked K create_project_rules (project_body f r) \<and> create_project_of (project_body f r) = Some (wizard_dto f r) \<and>
    (\<forall>(k, v) \<in> set (dto_vars (wizard_dto f r)). k \<noteq> [] \<and> v \<noteq> [])"
  using wizard_body_valid [OF assms] wizard_body_decoded
  by (auto simp: dto_vars_def wizard_dto_def sent_vars_def js_trim_def)

lemma post_project_state: "snd (post_project H cr body w) = snd (projectsController H cr (PostProject body) w)"
  by (auto simp: post_project_def withUser_run validated_run discard_def andThen_def orThrow_run ret_run
      split: option.splits sum.splits prod.splits)

text \<open>
  C22. A form that passes the wizard's schema, for a repository with a name, an owner, a branch
  and URLs, is accepted by the API's validation: under the API's own conditions the submit
  creates the project with one queued deployment and its job, every variable sent decrypts to
  its value, and the page of that deployment opens.
\<close>

theorem wizard_creates_project:
  assumes "gcm_ok (h_external H)" and "db_ok (db w)" and "redis_up (redis w)" and "signed_in_as H cr u w"
    and "projectSchema (wz_form z)" and "wz_selectedRepo z = Some r" and "repo_ok r"
    and "creatable (h_external H) u (wizard_dto (wz_form z) r) w a"
    and "submit_form (post_project H cr) z w = (opened_page, z', w')"
  shows "\<exists>p dep j. opened_page = Some (d_id dep) \<and> wz_selectedRepo z' = None \<and>
    projects (db w') = projects (db w) @ [p] \<and> p_name p = pf_projectName (wz_form z) \<and> p_userId p = u \<and>
    deployments (db w') = deployments (db w) @ [dep] \<and> d_projectId dep = p_id p \<and> d_status dep = QUEUED \<and>
    build_queue (redis w') = build_queue (redis w) @ [j] \<and> job_deploymentId j = d_id dep \<and>
    (\<exists>vs. envVars (db w') = envVars (db w) @ vs \<and>
      map (\<lambda>e. (ev_key e, decrypt (h_external H) (ev_value e))) vs =
      map (\<lambda>(k, v). (k, Inr v)) (sent_vars (pf_envVars (wz_form z))))"
proof -
  let ?f = "wz_form z" and ?X = "h_external H"
  let ?dto = "wizard_dto ?f r"
  obtain v w1 vs dep m j where run: "projectsService_create ?X u ?dto w = (Inr v, w1)"
    and p: "p_id (pv_project v) = nextId (db w)" "p_name (pv_project v) = pd_name ?dto" "p_userId (pv_project v) = u"
      "pv_deployments v = [dep]" "projects (db w1) = projects (db w) @ [pv_project v]"
    and e: "envVars (db w1) = envVars (db w) @ vs" "map (opened ?X) vs = map as_opened (dto_vars ?dto)"
    and d: "deployments (db w1) = deployments (db w) @ [dep]" "d_projectId dep = nextId (db w)" "d_status dep = QUEUED"
      "build_queue (redis w1) = build_queue (redis w) @ [j]" "job_deploymentId j = d_id dep"
    using create_project_run [OF assms(1-3,8)] by blast
  have "post_project H cr (project_body ?f r) w = andThen (projectsService_create ?X u ?dto)
      (\<lambda>view. orThrow (map_option d_id (head_opt (pv_deployments view))) (Thrown ''TypeError'')) w"
    using assms(4) wizard_body_valid [OF assms(5,7), of "h_checkers H"]
    by (auto simp: post_project_def signed_in_as_def withUser_run validated_run wizard_body_decoded)
  then have post: "post_project H cr (project_body ?f r) w = (Inr (d_id dep), w1)"
    using run p(4) by (simp add: andThen_def orThrow_run)
  then have "opened_page = Some (d_id dep) \<and> wz_selectedRepo z' = None \<and> w' = w1"
    using assms(5,6,9) by (auto simp: submit_form_def onSubmit_def handleClose_def say_def)
  moreover have "map (\<lambda>e. (ev_key e, decrypt ?X (ev_value e))) vs = map (\<lambda>(k, v). (k, Inr v)) (sent_vars (pf_envVars ?f))"
  proof -
    have "map as_opened (dto_vars ?dto) = map (\<lambda>(k, v). (k, Inr v)) (sent_vars (pf_envVars ?f))"
      by (auto simp: dto_vars_def wizard_dto_def as_opened_def sent_vars_def js_trim_def)
    then show ?thesis using e(2) by (simp add: opened_def [abs_def])
  qed
  ultimately show ?thesis using p e d
    by (intro exI [of _ "pv_project v"] exI [of _ dep] exI [of _ j]) (auto simp: wizard_dto_def)
qed

section \<open>Two readers of one syntax\<close>

theorem importers_disagree:
  assumes "plain_var kv"
  shows "parseEnvLine (env_line kv) = Some kv \<and>
    wizard_envLine (env_line kv) = Some (fst kv, CHR 0x22 # snd kv @ [CHR 0x22])"
proof
  show "parseEnvLine (env_line kv) = Some kv" by (rule parse_env_line [OF assms])
  have k: "fst kv \<noteq> []" "\<forall>c \<in> set (fst kv). key_char c" using assms by (simp_all add: plain_var_def)
  have "\<not> is_blank (CHR 0x22)" by (simp add: is_blank_def)
  then have "dropWhile is_blank (rev (env_line kv)) = rev (env_line kv)" by (simp add: env_line_def)
  moreover have "dropWhile is_blank (env_line kv) = env_line kv"
    unfolding env_line_def by (rule dropWhile_key [OF k])
  ultimately have trim: "js_trim (env_line kv) = env_line kv" by (simp add: js_trim_def)
  have hd: "key_char (hd (env_line kv))" using k by (cases "fst kv") (simp_all add: env_line_def)
  have "\<not> key_char (CHR ''#'')" by (simp add: key_char_def word_char_def is_alnum_def is_letter_def digit_of_def)
  with hd have "hd (env_line kv) \<noteq> CHR ''#''" by auto
  moreover have "\<forall>c \<in> set (fst kv). c \<noteq> CHR ''=''" using k(2) key_char_props by blast
  then have "takeWhile (\<lambda>c. c \<noteq> CHR ''='') (env_line kv) = fst kv"
    "tl (dropWhile (\<lambda>c. c \<noteq> CHR ''='') (env_line kv)) = CHR 0x22 # snd kv @ [CHR 0x22]"
    by (simp_all add: env_line_def takeWhile_append2 dropWhile_append2)
  moreover have "env_line kv \<noteq> []" "CHR ''='' \<in> set (env_line kv)" by (simp_all add: env_line_def)
  ultimately show "wizard_envLine (env_line kv) = Some (fst kv, CHR 0x22 # snd kv @ [CHR 0x22])"
    unfolding wizard_envLine_def Let_def trim by simp
qed

section \<open>Closed examples\<close>

definition picked_repo :: repository where
  "picked_repo = \<lparr>rp_id = 1, rp_name = ''my.api'', rp_fullName = ''ann/my.api'', rp_private = False, rp_url = ''u'', rp_sshUrl = ''s'',
     rp_cloneUrl = ''u.git'', rp_language = None, rp_defaultBranch = ''main'', rp_updatedAt = ''t'',
     rp_detection = \<lparr>det_framework = ''nestjs'', det_installCommand = [], det_buildCommand = [], det_runCommand = [],
       det_outputDirectory = ''dist''\<rparr>\<rparr>"

definition filled_wizard :: wizard where
  "filled_wizard = wizard_importEnvFile ''PORT=80'' (handleImport picked_repo wizard_init)"

lemma filled_form: "wz_form filled_wizard = (imported_form picked_repo)\<lparr>pf_envVars := [([], []), (''PORT'', ''80'')]\<rparr>"
  "wz_selectedRepo filled_wizard = Some picked_repo"
  by (simp_all add: filled_wizard_def wizard_importEnvFile_def handleImport_def imported_form_def say_def Let_def wizard_envLine_def
      js_trim_def is_blank_def map_filter_simps)

lemma filled_name: "pf_projectName (imported_form picked_repo) = ''my-api''"
  by (simp add: imported_form_def picked_repo_def dash_char_def is_alnum_def is_letter_def digit_of_def)

lemma filled_ok: "projectSchema (wz_form filled_wizard)" "repo_ok picked_repo"
proof -
  show "projectSchema (wz_form filled_wizard)"
    using filled_name unfolding projectSchema_def filled_form
    by (simp add: project_name_ok_def is_alnum_def is_letter_def digit_of_def) (simp add: imported_form_def)
  show "repo_ok picked_repo" by (simp add: repo_ok_def picked_repo_def)
qed

theorem wizard_contract_witness:
  "checked (h_checkers sample_http) create_project_rules (project_body (wz_form filled_wizard) picked_repo) \<and>
   dto_vars (wizard_dto (wz_form filled_wizard) picked_repo) = [(''PORT'', ''80'')]"
proof
  show "checked (h_checkers sample_http) create_project_rules (project_body (wz_form filled_wizard) picked_repo)"
    using wizard_contract [OF filled_ok] by blast
  show "dto_vars (wizard_dto (wz_form filled_wizard) picked_repo) = [(''PORT'', ''80'')]"
    by (simp add: dto_vars_def wizard_dto_def filled_form sent_vars_def js_trim_def is_blank_def)
qed

lemma filled_creatable:
  "creatable sample_external 0 (wizard_dto (wz_form filled_wizard) picked_repo) sample_world (hd sample_accounts)"
proof -
  let ?dto = "wizard_dto (wz_form filled_wizard) picked_repo"
  have "pd_name ?dto = ''my-api''" "pd_gitRepoOwner ?dto = ''ann''" "dto_vars ?dto = [(''PORT'', ''80'')]"
    using filled_name by (simp_all add: wizard_dto_def filled_form picked_repo_def dto_vars_def sent_vars_def js_trim_def is_blank_def)
  then show ?thesis
    by (simp add: creatable_def initial_url_def) (simp add: sample_defs query_defs truthy_def)
qed

theorem wizard_creates_project_witness:
  "\<exists>dep z' w'. submit_form (post_project sample_http ann_creds) filled_wizard sample_world = (Some dep, z', w') \<and>
     length (build_queue (redis w')) = 1 \<and> map p_name (projects (db w')) = [''shop'', ''blog'', ''my-api'']"
proof -
  obtain op z' w' where run: "submit_form (post_project sample_http ann_creds) filled_wizard sample_world = (op, z', w')"
    by (metis prod_cases3)
  have X: "h_external sample_http = sample_external" by (simp add: sample_http_def sample_server_def)
  have sign: "signed_in_as sample_http ann_creds 0 sample_world"
    by (simp add: signed_in_as_def sample_http_def ann_creds_def sample_defs)
  have cr: "creatable (h_external sample_http) 0 (wizard_dto (wz_form filled_wizard) picked_repo) sample_world (hd sample_accounts)"
    unfolding X by (rule filled_creatable)
  have name: "pf_projectName (wz_form filled_wizard) = ''my-api''" using filled_name by (simp add: filled_form)
  from wizard_creates_project [OF sample_gcm sample_db_ok sample_redis_up sign filled_ok(1) filled_form(2) filled_ok(2) cr run]
  have "\<exists>p (dep :: deployment) j. op = Some (d_id dep) \<and> projects (db w') = projects (db sample_world) @ [p] \<and> p_name p = ''my-api'' \<and>
      build_queue (redis w') = build_queue (redis sample_world) @ [j]"
    unfolding name by blast
  then show ?thesis using run by (auto simp: sample_defs)
qed

theorem importers_disagree_witness:
  "parseEnvLine (env_line (''KEY'', ''v'')) = Some (''KEY'', ''v'') \<and>
   wizard_envLine (env_line (''KEY'', ''v'')) = Some (''KEY'', [CHR 0x22, CHR ''v'', CHR 0x22])"
proof -
  have "plain_var (''KEY'', ''v'')"
    by (simp add: plain_var_def key_char_def word_char_def is_alnum_def is_letter_def digit_of_def line_end_def js_trim_def is_blank_def)
  from importers_disagree [OF this] show ?thesis by simp
qed

end
