(* ===== verification/Health.thy ===== *)
theory Health
  imports Analytics Github
begin

text \<open>
  The health endpoints, \<open>health/health.service.ts\<close> and \<open>health/health.controller.ts\<close>. What the
  service finds when it asks (the database, Redis, the heap of the process) is the record
  \<open>probe\<close>; a failed call is its error message. The response times are part of the probe.
\<close>

section \<open>What the service finds\<close>

record probe =
  \<comment> \<open>\<open>SELECT 1\<close>, \<open>PING\<close> (a timeout after three seconds is an error as well), \<open>INFO memory\<close>\<close>
  pb_database :: "string option"
  pb_databaseTime :: int
  pb_ping :: "string + string"
  pb_info :: "string + string"
  pb_redisTime :: int
  pb_heapUsed :: int
  pb_heapTotal :: int
  pb_rss :: int
  pb_now :: time

datatype health_state = Up | Down

record component_health =
  ch_status :: health_state
  ch_responseTime :: "int option"
  ch_message :: string
  ch_details :: "(string \<times> json) list"

datatype overall = Healthy | Unhealthy | Degraded

record health_result =
  hr_status :: overall
  hr_timestamp :: time
  hr_uptime :: int
  hr_checks :: "(string \<times> component_health) list"

record health_service =
  hs_redis :: bool
  hs_startTime :: time

definition initRedisClient :: "external \<Rightarrow> (string \<Rightarrow> bool) \<Rightarrow> bool" where
  \<comment> \<open>there is a client when a URL is configured and \<open>new Redis\<close> accepts it\<close>
  "initRedisClient X accepts = (truthy_opt (x_env X ''REDIS_URL'') \<and> accepts (the (x_env X ''REDIS_URL'')))"

section \<open>The checks\<close>

definition isDatabaseHealthy :: "probe \<Rightarrow> bool" where
  "isDatabaseHealthy p \<longleftrightarrow> pb_database p = None"

definition isRedisHealthy :: "health_service \<Rightarrow> probe \<Rightarrow> bool" where
  "isRedisHealthy s p =
     (if \<not> hs_redis s then True
      else case pb_ping p of Inl e \<Rightarrow> False | Inr result \<Rightarrow> result = ''PONG'')"

definition checkDatabase :: "probe \<Rightarrow> component_health" where
  "checkDatabase p =
     (case pb_database p of
        None \<Rightarrow> \<lparr>ch_status = Up, ch_responseTime = Some (pb_databaseTime p),
                 ch_message = ''Database connection successful'', ch_details = []\<rparr>
      | Some e \<Rightarrow> \<lparr>ch_status = Down, ch_responseTime = Some (pb_databaseTime p), ch_message = e, ch_details = []\<rparr>)"

fun match_line :: "string \<Rightarrow> string \<Rightarrow> string option" where
  \<comment> \<open>\<open>s.match(/pat(.+)/)?.[1]\<close>\<close>
  "match_line pat [] = None"
| "match_line pat (c # cs) =
     (let rest = takeWhile (\<lambda>x. \<not> line_end x) (drop (length pat) (c # cs))
      in if take (length pat) (c # cs) = pat \<and> rest \<noteq> [] then Some rest else match_line pat cs)"

definition checkRedis :: "health_service \<Rightarrow> probe \<Rightarrow> component_health" where
  "checkRedis s p =
     (if \<not> hs_redis s
      then \<lparr>ch_status = Up, ch_responseTime = None, ch_message = ''Redis not configured (optional)'', ch_details = []\<rparr>
      else case pb_ping p of
             Inl e \<Rightarrow> \<lparr>ch_status = Down, ch_responseTime = Some (pb_redisTime p), ch_message = e, ch_details = []\<rparr>
           | Inr result \<Rightarrow>
               if result = ''PONG''
               then (case pb_info p of
                       Inl e \<Rightarrow> \<lparr>ch_status = Down, ch_responseTime = Some (pb_redisTime p), ch_message = e, ch_details = []\<rparr>
                     | Inr info \<Rightarrow> \<lparr>ch_status = Up, ch_responseTime = Some (pb_redisTime p),
                         ch_message = ''Redis connection successful'',
                         ch_details = [(''usedMemory'',
                           JStr (or_else (map_option js_trim (match_line ''used_memory_human:'' info)) ''unknown''))]\<rparr>)
               else \<lparr>ch_status = Down, ch_responseTime = Some (pb_redisTime p), ch_message = ''Unexpected Redis response'',
                     ch_details = []\<rparr>)"

definition heap_percentage :: "probe \<Rightarrow> int" where
  "heap_percentage p = round_percent (pb_heapUsed p) (pb_heapTotal p)"

definition megabytes :: "int \<Rightarrow> int" where
  "megabytes n = round_quotient n (1024 * 1024)"

definition checkMemory :: "probe \<Rightarrow> component_health" where
  "checkMemory p =
     (let status = (if heap_percentage p > 90 then Down else Up)
      in \<lparr>ch_status = status, ch_responseTime = None,
          ch_message = (if status = Up then ''Memory usage normal'' else ''High memory usage detected''),
          ch_details = [(''heapUsedMB'', JNum (megabytes (pb_heapUsed p))), (''heapTotalMB'', JNum (megabytes (pb_heapTotal p))),
            (''heapPercentage'', JStr (int_to_string (heap_percentage p) @ ''%'')), (''rssMB'', JNum (megabytes (pb_rss p)))]\<rparr>)"

section \<open>The answers\<close>

definition checkReadiness :: "health_service \<Rightarrow> probe \<Rightarrow> bool \<times> (string \<times> bool) list" where
  "checkReadiness s p =
     (let checks = (''database'', isDatabaseHealthy p) # (if hs_redis s then [(''redis'', isRedisHealthy s p)] else [])
      in (\<forall>v \<in> set (map snd checks). v = True, checks))"

definition getFullHealth :: "health_service \<Rightarrow> probe \<Rightarrow> health_result" where
  "getFullHealth s p =
     (let checks = [(''database'', checkDatabase p), (''redis'', checkRedis s p), (''memory'', checkMemory p)];
          overallStatus = (if \<exists>c \<in> set (map snd checks). ch_status c = Down
            then if \<exists>svc \<in> set [''database'']. map_option ch_status (map_of checks svc) = Some Down then Unhealthy else Degraded
            else Healthy)
      in \<lparr>hr_status = overallStatus, hr_timestamp = pb_now p,
          hr_uptime = (pb_now p - hs_startTime s) div 1000, hr_checks = checks\<rparr>)"

datatype health_route = Liveness | Readiness | FullHealth | Startup

fun healthController :: "health_service \<Rightarrow> probe \<Rightarrow> health_route \<Rightarrow> nat" where
  \<comment> \<open>the status code; the body is the answer of the service\<close>
  "healthController s p Liveness = 200"
| "healthController s p Readiness = (if fst (checkReadiness s p) then 200 else 503)"
| "healthController s p FullHealth = (if hr_status (getFullHealth s p) = Unhealthy then 503 else 200)"
| "healthController s p Startup = (if fst (checkReadiness s p) then 200 else 503)"

section \<open>What the codes mean\<close>

text \<open>
  The full health check answers 503 exactly when the database fails; the readiness probe
  also when a configured Redis does not answer PONG; the overall status is healthy exactly when
  database, Redis with its memory report, and heap (at most 90 percent) all are.
\<close>

theorem health_codes:
  "(healthController s p FullHealth = 503 \<longleftrightarrow> pb_database p \<noteq> None) \<and>
   (healthController s p Readiness = 503 \<longleftrightarrow> pb_database p \<noteq> None \<or> (hs_redis s \<and> pb_ping p \<noteq> Inr ''PONG'')) \<and>
   (hr_status (getFullHealth s p) = Healthy \<longleftrightarrow> pb_database p = None \<and> heap_percentage p \<le> 90 \<and>
      (hs_redis s \<longrightarrow> pb_ping p = Inr ''PONG'' \<and> \<not> isl (pb_info p))) \<and>
   (healthController s p FullHealth = 503 \<longrightarrow> healthController s p Readiness = 503)"
proof -
  have db: "ch_status (checkDatabase p) = Down \<longleftrightarrow> pb_database p \<noteq> None"
    by (simp add: checkDatabase_def split: option.splits)
  have red: "ch_status (checkRedis s p) = Down \<longleftrightarrow> hs_redis s \<and> \<not> (pb_ping p = Inr ''PONG'' \<and> \<not> isl (pb_info p))"
    by (auto simp: checkRedis_def split: sum.splits)
  have mem: "ch_status (checkMemory p) = Down \<longleftrightarrow> \<not> heap_percentage p \<le> 90"
    by (simp add: checkMemory_def Let_def)
  have full: "hr_status (getFullHealth s p) =
      (if ch_status (checkDatabase p) = Down then Unhealthy
       else if ch_status (checkRedis s p) = Down \<or> ch_status (checkMemory p) = Down then Degraded else Healthy)"
    by (simp add: getFullHealth_def Let_def)
  have ready: "fst (checkReadiness s p) \<longleftrightarrow> pb_database p = None \<and> (hs_redis s \<longrightarrow> pb_ping p = Inr ''PONG'')"
    by (auto simp: checkReadiness_def isDatabaseHealthy_def isRedisHealthy_def split: sum.splits)
  show ?thesis
    unfolding healthController.simps full ready db red mem by auto
qed

section \<open>A closed example\<close>

definition redis_lost :: probe where
  \<comment> \<open>the database answers, Redis does not\<close>
  "redis_lost = \<lparr>pb_database = None, pb_databaseTime = 3, pb_ping = Inl ''Redis timeout'', pb_info = Inl ''closed'', pb_redisTime = 3000,
     pb_heapUsed = 50, pb_heapTotal = 100, pb_rss = 200, pb_now = 9000\<rparr>"

theorem health_codes_witness:
  "healthController \<lparr>hs_redis = True, hs_startTime = 0\<rparr> redis_lost FullHealth \<noteq> 503 \<and>
   healthController \<lparr>hs_redis = True, hs_startTime = 0\<rparr> redis_lost Readiness = 503 \<and>
   healthController \<lparr>hs_redis = False, hs_startTime = 0\<rparr> redis_lost Readiness \<noteq> 503"
  using health_codes [of "\<lparr>hs_redis = True, hs_startTime = 0\<rparr>" redis_lost]
    health_codes [of "\<lparr>hs_redis = False, hs_startTime = 0\<rparr>" redis_lost]
  by (simp add: redis_lost_def del: healthController.simps)

end
