(* ===== verification/Mail.thy ===== *)
theory Mail
  imports InternalLaws
begin

text \<open>
  \<open>mail/mail.service.ts\<close> and its two templates: what the mails handed to the provider contain. The
  templates are the texts of \<open>mail/templates/\<close>, line by line; a value is put into the HTML as it is.
\<close>

section \<open>Templates\<close>

definition success_head :: "string" where
  "success_head = join_lines [
     [],
     ''<!DOCTYPE html>'',
     ''<html>'',
     ''<head>'',
     ''  <meta charset=\"utf-8\">'',
     ''  <meta name=\"viewport\" content=\"width=device-width, initial-scale=1.0\">'',
     ''  <title>Deployment Successful</title>'',
     ''  <style>'',
     ''    body {'',
     ''      font-family: -apple-system, BlinkMacSystemFont, \"Segoe UI\", Roboto, Helvetica, Arial, sans-serif;'',
     ''      line-height: 1.5;'',
     ''      color: #111827;'',
     ''      margin: 0;'',
     ''      padding: 0;'',
     ''      background-color: #ffffff;'',
     ''      -webkit-font-smoothing: antialiased;'',
     ''    }'',
     ''    .wrapper {'',
     ''      max-width: 500px;'',
     ''      margin: 0 auto;'',
     ''      padding: 40px 20px;'',
     ''    }'',
     ''    .header {'',
     ''      margin-bottom: 32px;'',
     ''    }'',
     ''    .status-dot {'',
     ''      height: 12px;'',
     ''      width: 12px;'',
     ''      background-color: #10B981;'',
     ''      border-radius: 50%;'',
     ''      display: inline-block;'',
     ''      margin-right: 8px;'',
     ''    }'',
     ''    .title {'',
     ''      font-size: 24px;'',
     ''      font-weight: 500;'',
     ''      margin: 0 0 8px;'',
     ''      letter-spacing: -0.5px;'',
     ''      display: flex;'',
     ''      align-items: center;'',
     ''    }'',
     ''    .subtitle {'',
     ''      color: #6B7280;'',
     ''      font-size: 15px;'',
     ''      margin: 0;'',
     ''    }'',
     ''    .card {'',
     ''      border: 1px solid #E5E7EB;'',
     ''      border-radius: 8px;'',
     ''      padding: 24px;'',
     ''      margin-bottom: 32px;'',
     ''    }'',
     ''    .row {'',
     ''      display: flex;'',
     ''      justify-content: space-between;'',
     ''      margin-bottom: 12px;'',
     ''      font-size: 14px;'',
     ''    }'',
     ''    .row:last-child {'',
     ''      margin-bottom: 0;'',
     ''    }'',
     ''    .label {'',
     ''      color: #6B7280;'',
     ''    }'',
     ''    .value {'',
     ''      font-weight: 500;'',
     ''      text-align: right;'',
     ''    }'',
     ''    .button {'',
     ''      background-color: #000000;'',
     ''      color: #ffffff;'',
     ''      text-decoration: none;'',
     ''      padding: 12px 24px;'',
     ''      border-radius: 6px;'',
     ''      font-size: 14px;'',
     ''      font-weight: 500;'',
     ''      display: inline-block;'',
     ''      transition: opacity 0.2s;'',
     ''    }'',
     ''    .footer {'',
     ''      margin-top: 40px;'',
     ''      border-top: 1px solid #E5E7EB;'',
     ''      padding-top: 20px;'',
     ''      font-size: 12px;'',
     ''      color: #9CA3AF;'',
     ''      text-align: center;'',
     ''    }'',
     ''    .link {'',
     ''      color: #6B7280;'',
     ''      text-decoration: underline;'',
     ''    }'',
     ''  </style>'',
     ''</head>'',
     ''<body>'',
     ''  <div class=\"wrapper\">'',
     ''    <div class=\"header\">'',
     ''      <h1 class=\"title\">'',
     ''        <span class=\"status-dot\"></span>'',
     ''        Deployment Successful'',
     ''      </h1>'',
     ''      <p class=\"subtitle\">'',
     ''        <strong>'']"

definition success_card :: "string" where
  "success_card = join_lines [
     ''</strong> is now live.'',
     ''      </p>'',
     ''    </div>'',
     [],
     ''    <div class=\"card\">'',
     ''      <div class=\"row\">'',
     ''        <span class=\"label\">Project</span>'',
     ''        <span class=\"value\">'']"

definition success_author :: "string option \<Rightarrow> string" where
  "success_author authorName = (if truthy_opt authorName then join_lines [
     [],
     ''      <div class=\"row\">'',
     ''        <span class=\"label\">Author</span>'',
     ''        <span class=\"value\">''] @ the authorName @ join_lines [
     ''</span>'',
     ''      </div>''] else [])"

definition success_commit :: "string option \<Rightarrow> string" where
  "success_commit commitMessage = (if truthy_opt commitMessage then join_lines [
     [],
     ''      <div class=\"row\">'',
     ''        <span class=\"label\">Commit</span>'',
     ''        <span class=\"value\" style=\"max-width: 200px; white-space: nowrap; overflow: hidden; text-overflow: ellipsis;\">''] @ the commitMessage @ join_lines [
     ''</span>'',
     ''      </div>''] else [])"

definition mail_href :: "string \<Rightarrow> string" where
  "mail_href url = (if starts_with ''http'' url then url else ''https://'' @ url)"

definition success_tail :: "string \<Rightarrow> string" where
  "success_tail deploymentUrl = join_lines [
     [],
     ''    </div>'',
     [],
     ''    <div style=\"text-align: center;\">'',
     ''      <a href=\"''] @ mail_href deploymentUrl @ join_lines [
     ''\" class=\"button\">Visit Deployment</a>'',
     ''    </div>'',
     [],
     ''    <div class=\"footer\">'',
     ''      <p>Sent by Code2Cloud</p>'',
     ''    </div>'',
     ''  </div>'',
     ''</body>'',
     ''</html>'',
     []]"

definition deploymentSuccessTemplate :: "string \<Rightarrow> string \<Rightarrow> string option \<Rightarrow> string option \<Rightarrow> string" where
  "deploymentSuccessTemplate projectName deploymentUrl commitMessage authorName =
     success_head @ projectName @ success_card @ projectName @ join_lines [
     ''</span>'',
     ''      </div>'',
     ''      ''] @
     success_author authorName @ join_lines [
     [],
     ''      ''] @ success_commit commitMessage @ success_tail deploymentUrl"

definition failed_head :: "string" where
  "failed_head = join_lines [
     [],
     ''<!DOCTYPE html>'',
     ''<html>'',
     ''<head>'',
     ''  <meta charset=\"utf-8\">'',
     ''  <meta name=\"viewport\" content=\"width=device-width, initial-scale=1.0\">'',
     ''  <title>Deployment Failed</title>'',
     ''  <style>'',
     ''    body {'',
     ''      font-family: -apple-system, BlinkMacSystemFont, \"Segoe UI\", Roboto, Helvetica, Arial, sans-serif;'',
     ''      line-height: 1.5;'',
     ''      color: #111827;'',
     ''      margin: 0;'',
     ''      padding: 0;'',
     ''      background-color: #ffffff;'',
     ''      -webkit-font-smoothing: antialiased;'',
     ''    }'',
     ''    .wrapper {'',
     ''      max-width: 500px;'',
     ''      margin: 0 auto;'',
     ''      padding: 40px 20px;'',
     ''    }'',
     ''    .header {'',
     ''      margin-bottom: 32px;'',
     ''    }'',
     ''    .status-dot {'',
     ''      height: 12px;'',
     ''      width: 12px;'',
     ''      background-color: #EF4444;'',
     ''      border-radius: 50%;'',
     ''      display: inline-block;'',
     ''      margin-right: 8px;'',
     ''    }'',
     ''    .title {'',
     ''      font-size: 24px;'',
     ''      font-weight: 500;'',
     ''      margin: 0 0 8px;'',
     ''      letter-spacing: -0.5px;'',
     ''      display: flex;'',
     ''      align-items: center;'',
     ''    }'',
     ''    .subtitle {'',
     ''      color: #6B7280;'',
     ''      font-size: 15px;'',
     ''      margin: 0;'',
     ''    }'',
     ''    .card {'',
     ''      border: 1px solid #E5E7EB;'',
     ''      border-radius: 8px;'',
     ''      padding: 24px;'',
     ''      margin-bottom: 32px;'',
     ''    }'',
     ''    .row {'',
     ''      display: flex;'',
     ''      justify-content: space-between;'',
     ''      margin-bottom: 12px;'',
     ''      font-size: 14px;'',
     ''    }'',
     ''    .row:last-child {'',
     ''      margin-bottom: 0;'',
     ''    }'',
     ''    .label {'',
     ''      color: #6B7280;'',
     ''    }'',
     ''    .value {'',
     ''      font-weight: 500;'',
     ''      text-align: right;'',
     ''    }'',
     ''    .button {'',
     ''      background-color: #ffffff;'',
     ''      color: #111827;'',
     ''      text-decoration: none;'',
     ''      padding: 12px 24px;'',
     ''      border-radius: 6px;'',
     ''      font-size: 14px;'',
     ''      font-weight: 500;'',
     ''      display: inline-block;'',
     ''      border: 1px solid #E5E7EB;'',
     ''      transition: background-color 0.2s;'',
     ''    }'',
     ''    .button:hover {'',
     ''        background-color: #F9FAFB;'',
     ''    }'',
     ''    .footer {'',
     ''      margin-top: 40px;'',
     ''      border-top: 1px solid #E5E7EB;'',
     ''      padding-top: 20px;'',
     ''      font-size: 12px;'',
     ''      color: #9CA3AF;'',
     ''      text-align: center;'',
     ''    }'',
     ''  </style>'',
     ''</head>'',
     ''<body>'',
     ''  <div class=\"wrapper\">'',
     ''    <div class=\"header\">'',
     ''      <h1 class=\"title\">'',
     ''        <span class=\"status-dot\"></span>'',
     ''        Deployment Failed'',
     ''      </h1>'',
     ''      <p class=\"subtitle\">'',
     ''        The deployment for <strong>'']"

definition failed_card :: "string" where
  "failed_card = join_lines [
     ''</strong> was unsuccessful.'',
     ''      </p>'',
     ''    </div>'',
     [],
     ''    <div class=\"card\">'',
     ''      <div class=\"row\">'',
     ''        <span class=\"label\">Project</span>'',
     ''        <span class=\"value\">'']"

definition failed_author :: "string option \<Rightarrow> string" where
  "failed_author authorName = (if truthy_opt authorName then join_lines [
     [],
     ''      <div class=\"row\">'',
     ''        <span class=\"label\">Initiated by</span>'',
     ''        <span class=\"value\">''] @ the authorName @ join_lines [
     ''</span>'',
     ''      </div>''] else [])"

definition failed_commit :: "string option \<Rightarrow> string" where
  "failed_commit commitMessage = (if truthy_opt commitMessage then join_lines [
     [],
     ''      <div class=\"row\">'',
     ''        <span class=\"label\">Commit</span>'',
     ''        <span class=\"value\" style=\"max-width: 200px; white-space: nowrap; overflow: hidden; text-overflow: ellipsis;\">''] @ the commitMessage @ join_lines [
     ''</span>'',
     ''      </div>''] else [])"

definition failed_tail :: "string" where
  "failed_tail = join_lines [
     [],
     ''    </div>'',
     [],
     ''    <div style=\"text-align: center;\">'',
     ''      <a href=\"https://code2cloud.dev/projects\" class=\"button\">View Build Logs</a>'',
     ''    </div>'',
     [],
     ''    <div class=\"footer\">'',
     ''      <p>Sent by Code2Cloud</p>'',
     ''    </div>'',
     ''  </div>'',
     ''</body>'',
     ''</html>'',
     []]"

definition deploymentFailedTemplate :: "string \<Rightarrow> string option \<Rightarrow> string option \<Rightarrow> string option \<Rightarrow> string" where
  \<comment> \<open>the template ignores the url\<close>
  "deploymentFailedTemplate projectName deploymentUrl commitMessage authorName =
     failed_head @ projectName @ failed_card @ projectName @ join_lines [
     ''</span>'',
     ''      </div>'',
     ''      ''] @
     failed_author authorName @ join_lines [
     [],
     ''      ''] @ failed_commit commitMessage @ failed_tail"

section \<open>Mails\<close>

record email =
  em_from :: string
  em_to :: string
  em_subject :: string
  em_html :: string

definition fromEmail :: "external \<Rightarrow> string" where
  "fromEmail X = or_else (x_env X ''RESEND_FROM_EMAIL'') ''notifications@code2cloud.dev''"

definition mail_from :: "external \<Rightarrow> string" where
  "mail_from X = ''Code2Cloud <'' @ fromEmail X @ ''>''"

definition success_mail :: "external \<Rightarrow> string \<Rightarrow> string \<Rightarrow> string \<Rightarrow> string option \<Rightarrow> string option \<Rightarrow> email" where
  "success_mail X to projectName deploymentUrl commitMessage authorName = \<lparr>
     em_from = mail_from X, em_to = to, em_subject = ''Deployment Successful: '' @ projectName,
     em_html = deploymentSuccessTemplate projectName deploymentUrl commitMessage authorName\<rparr>"

definition failure_mail :: "external \<Rightarrow> string \<Rightarrow> string \<Rightarrow> string option \<Rightarrow> string option \<Rightarrow> email" where
  "failure_mail X to projectName commitMessage authorName = \<lparr>
     em_from = mail_from X, em_to = to, em_subject = ''Deployment Failed: '' @ projectName,
     em_html = deploymentFailedTemplate projectName None commitMessage authorName\<rparr>"

fun mail_of :: "external \<Rightarrow> notification \<Rightarrow> email option" where
  \<comment> \<open>the mail behind a notification of the outbox\<close>
  "mail_of X (MailSuccess to p url m a) = Some (success_mail X to p url m a)"
| "mail_of X (MailFailure to p m a) = Some (failure_mail X to p m a)"
| "mail_of X (SlackPost url msg) = None"

section \<open>What a mail contains\<close>

definition part_of :: "string \<Rightarrow> string \<Rightarrow> bool" where
  "part_of s t \<longleftrightarrow> (\<exists>a b. t = a @ s @ b)"

lemma part_of_refl [simp]: "part_of s s"
  by (auto simp: part_of_def intro: exI [of _ "[]"])

lemma part_of_left: "part_of s t \<Longrightarrow> part_of s (t @ u)"
  unfolding part_of_def by (metis append.assoc)

lemma part_of_right: "part_of s u \<Longrightarrow> part_of s (t @ u)"
  unfolding part_of_def by (metis append.assoc)

lemmas part_of_intros = part_of_refl part_of_left part_of_right

lemma commit_in_success: "truthy m \<Longrightarrow> part_of m (success_commit (Some m))"
  unfolding success_commit_def by (simp add: part_of_left part_of_right del: join_lines.simps)

lemma commit_in_failed: "truthy m \<Longrightarrow> part_of m (failed_commit (Some m))"
  unfolding failed_commit_def by (simp add: part_of_left part_of_right del: join_lines.simps)

lemma author_in_success: "truthy m \<Longrightarrow> part_of m (success_author (Some m))"
  unfolding success_author_def by (simp add: part_of_left part_of_right del: join_lines.simps)

lemma author_in_failed: "truthy m \<Longrightarrow> part_of m (failed_author (Some m))"
  unfolding failed_author_def by (simp add: part_of_left part_of_right del: join_lines.simps)

lemma url_in_tail: "part_of (mail_href url) (success_tail url)"
  unfolding success_tail_def by (rule part_of_right, rule part_of_left, rule part_of_refl)

lemma success_parts:
  "part_of p (deploymentSuccessTemplate p url m a)"
  "part_of (mail_href url) (deploymentSuccessTemplate p url m a)"
  "truthy_opt m \<Longrightarrow> part_of (the m) (deploymentSuccessTemplate p url m a)"
  "truthy_opt a \<Longrightarrow> part_of (the a) (deploymentSuccessTemplate p url m a)"
proof -
  show "part_of p (deploymentSuccessTemplate p url m a)"
    unfolding deploymentSuccessTemplate_def by (intro part_of_right part_of_left part_of_refl)
  show "part_of (mail_href url) (deploymentSuccessTemplate p url m a)"
    unfolding deploymentSuccessTemplate_def
    by (simp add: url_in_tail part_of_right del: join_lines.simps)
  show "part_of (the m) (deploymentSuccessTemplate p url m a)" if "truthy_opt m"
    using that commit_in_success [of "the m"] unfolding deploymentSuccessTemplate_def
    by (cases m) (simp_all add: part_of_left part_of_right del: join_lines.simps)
  show "part_of (the a) (deploymentSuccessTemplate p url m a)" if "truthy_opt a"
    using that author_in_success [of "the a"] unfolding deploymentSuccessTemplate_def
    by (cases a) (simp_all add: part_of_left part_of_right del: join_lines.simps)
qed

lemma failed_parts:
  "part_of p (deploymentFailedTemplate p url m a)"
  "truthy_opt m \<Longrightarrow> part_of (the m) (deploymentFailedTemplate p url m a)"
  "truthy_opt a \<Longrightarrow> part_of (the a) (deploymentFailedTemplate p url m a)"
proof -
  show "part_of p (deploymentFailedTemplate p url m a)"
    unfolding deploymentFailedTemplate_def by (intro part_of_right part_of_left part_of_refl)
  show "part_of (the m) (deploymentFailedTemplate p url m a)" if "truthy_opt m"
    using that commit_in_failed [of "the m"] unfolding deploymentFailedTemplate_def
    by (cases m) (simp_all add: part_of_left part_of_right del: join_lines.simps)
  show "part_of (the a) (deploymentFailedTemplate p url m a)" if "truthy_opt a"
    using that author_in_failed [of "the a"] unfolding deploymentFailedTemplate_def
    by (cases a) (simp_all add: part_of_left part_of_right del: join_lines.simps)
qed

lemma mail_href_absolute: "starts_with ''http'' (mail_href url)"
  by (cases "starts_with ''http'' url") (simp_all add: mail_href_def starts_with_def)

section \<open>The notification of the worker\<close>

definition slack_posts :: "external \<Rightarrow> system_config \<Rightarrow> notification_dto \<Rightarrow> project \<Rightarrow> string \<times> string option \<Rightarrow> notification list" where
  "slack_posts X c dto p who = (case clear_webhook X (cfg_slackWebhook c) of None \<Rightarrow> []
     | Some url \<Rightarrow> [SlackPost url (slack_message_of dto (p_name p) (Some who))])"

definition mails :: "system_config \<Rightarrow> notification_dto \<Rightarrow> project \<Rightarrow> string \<times> string option \<Rightarrow> notification list" where
  "mails c dto p who =
     (if cfg_emailDeploySuccess c \<and> nd_status dto = READY
      then [MailSuccess (fst who) (p_name p) (or_else (nd_deploymentUrl dto) []) (nd_message dto) (snd who)]
      else if cfg_emailDeployFailed c \<and> nd_status dto = FAILED
      then [MailFailure (fst who) (p_name p) (nd_message dto) (snd who)] else [])"

lemma notification_run:
  assumes "find (\<lambda>r. d_id r = nd_deploymentId dto) (deployments (db w)) = Some r"
    and "find (\<lambda>p. p_id p = d_projectId r) (projects (db w)) = Some p"
    and "find_config (db w) (p_userId p) = Some c"
    and "initiator_of (db w) r = Some (email, name)" and "email \<noteq> []" and "mail_enabled X"
  shows "sendDeploymentNotification X dto w = (Inr (nd_deploymentId dto),
    w\<lparr>outbox := outbox w @ slack_posts X c dto p (email, name) @ mails c dto p (email, name)\<rparr>)"
  using assms
  by (auto simp: sendDeploymentNotification_def send_mails_def send_def sendDeploymentSuccess_def
      sendDeploymentFailure_def slack_posts_def mails_def action_simps andThen_def split: option.splits)

text \<open>
  A mail about a deployment carries the message of the worker's notification as HTML: whatever
  tags it has are tags of the mail.
\<close>

text \<open>
  A deployment mail carries the author and the worker's message verbatim, without escaping,
  labelled as the commit: whoever chooses these texts writes markup into the mail.
\<close>

theorem mail_is_verbatim:
  assumes "find (\<lambda>r. d_id r = nd_deploymentId dto) (deployments (db w)) = Some r"
    and "find (\<lambda>p. p_id p = d_projectId r) (projects (db w)) = Some p"
    and "find_config (db w) (p_userId p) = Some c"
    and "initiator_of (db w) r = Some (email, name)" and "email \<noteq> []" and "mail_enabled X"
    and "nd_status dto = READY \<and> cfg_emailDeploySuccess c \<or> nd_status dto = FAILED \<and> cfg_emailDeployFailed c"
    and "truthy_opt (nd_message dto)"
  shows "\<exists>w' n m. sendDeploymentNotification X dto w = (Inr (nd_deploymentId dto), w') \<and>
    last (outbox w') = n \<and> mail_of X n = Some m \<and> em_to m = email \<and>
    part_of (the (nd_message dto)) (em_html m) \<and> part_of (p_name p) (em_html m) \<and>
    (truthy_opt name \<longrightarrow> part_of (the name) (em_html m))"
proof -
  note run = notification_run [OF assms(1-6)]
  show ?thesis
    using assms(7,8) success_parts failed_parts
    by (auto simp: run mails_def success_mail_def failure_mail_def)
qed

definition mail_world :: world where
  "mail_world = sample_world\<lparr>db := sample_db\<lparr>
     deployments := [sample_ready\<lparr>d_initiatorId := Some 0\<rparr>, sample_building]\<rparr>\<rparr>"

definition mail_external :: external where
  "mail_external = sample_external\<lparr>x_env := (\<lambda>k. Some ''k'')\<rparr>"

definition markup_notice :: notification_dto where
  "markup_notice = \<lparr>nd_deploymentId = 7, nd_status = FAILED, nd_message = Some ''<a href=x>'',
     nd_projectName = None, nd_deploymentUrl = None\<rparr>"

theorem mail_is_verbatim_witness:
  "\<exists>w' n m. sendDeploymentNotification mail_external markup_notice mail_world = (Inr 7, w') \<and>
     last (outbox w') = n \<and> mail_of mail_external n = Some m \<and> em_to m = ''ann@x.org'' \<and>
     part_of ''<a href=x>'' (em_html m)"
proof -
  have "\<exists>w' n m. sendDeploymentNotification mail_external markup_notice mail_world = (Inr (nd_deploymentId markup_notice), w') \<and>
    last (outbox w') = n \<and> mail_of mail_external n = Some m \<and> em_to m = ''ann@x.org'' \<and>
    part_of (the (nd_message markup_notice)) (em_html m) \<and> part_of (p_name sample_shop) (em_html m) \<and>
    (truthy_opt (Some ''Ann'') \<longrightarrow> part_of (the (Some ''Ann'')) (em_html m))"
    by (rule mail_is_verbatim [where r = "sample_ready\<lparr>d_initiatorId := Some 0\<rparr>" and c = "(new_config 0)\<lparr>cfg_id := 10\<rparr>"])
      (simp_all add: markup_notice_def mail_world_def find_config_def initiator_of_def sample_defs
        mail_enabled_def mail_external_def)
  then show ?thesis by (auto simp: markup_notice_def)
qed

end
