(* ===== verification/Dashboard.thy ===== *)
theory Dashboard
  imports Wizard DeploymentLaws
begin

text \<open>
  The remaining logic of the dashboard: the status table, icons and durations of
  \<open>components/project/utils.tsx\<close>, the deployment hooks (\<open>hooks/use-deployments.ts\<close>), the
  filters of the project and deployment pages, the lines of the terminal, the pipeline
  picture, the command palette and the sign-in form. The rows are those the API sends. Colours
  and icons are their names; the pages around it are in \<open>ProjectPages\<close> and its successors.
\<close>

section \<open>Statuses, icons, durations\<close>

datatype icon = IconImage string string | DottedCircle | BlankSquare

definition FRAMEWORK_ICONS :: "(string \<times> string) list" where
  "FRAMEWORK_ICONS = [
     (''nextjs'', ''/icons/nextjs_icon_dark.svg''), (''nestjs'', ''/icons/nestjs.svg''), (''vite'', ''/icons/vitejs.svg''),
     (''create-react-app'', ''/icons/react_dark.svg''), (''vue'', ''/icons/vue.svg''), (''express'', ''/icons/expressjs_dark.svg''),
     (''angular'', ''/icons/angular.svg''), (''django'', ''/icons/django.svg''), (''flask'', ''/icons/flask-dark.svg''),
     (''fastapi'', ''/icons/fastapi.svg''), (''streamlit'', ''/icons/streamlit-mark-color.svg''), (''node'', ''/icons/nodejs.svg''),
     (''python'', ''/icons/python.svg''), (''typescript'', ''/icons/typescript.svg''), (''golang'', ''/icons/golang_dark.svg''),
     (''fastify'', ''/icons/fastify_dark.svg''), (''unknown'', ''/icons/dotted-circle.svg''), (''monorepo'', ''/icons/dotted-circle.svg'')]"

definition icon_of :: "string \<Rightarrow> string \<Rightarrow> icon" where
  "icon_of k alt = IconImage (or_else (map_of FRAMEWORK_ICONS k) []) alt"

definition getFrameworkIcon :: "string option \<Rightarrow> string option \<Rightarrow> icon" where
  "getFrameworkIcon framework language =
     (let fw = map_option (map to_lower) framework;
          lang = map to_lower (or_else language []);
          has = (\<lambda>pat. contains_text pat lang)
      in if truthy_opt fw \<and> map_of FRAMEWORK_ICONS (the fw) \<noteq> None then icon_of (the fw) (the fw)
         else if truthy_opt fw \<and> (contains_text ''unknown'' (the fw) \<or> contains_text ''other'' (the fw)) then DottedCircle
         else if has ''python'' then icon_of ''python'' ''python''
         else if has ''node'' \<or> has ''javascript'' then icon_of ''node'' ''nodejs''
         else if has ''typescript'' then icon_of ''typescript'' ''typescript''
         else if has ''go'' then icon_of ''golang'' ''golang''
         else BlankSquare)"

record status_config =
  sc_label :: string
  sc_color :: string
  sc_text :: string
  sc_glow :: string
  sc_icon :: "string \<times> string \<times> nat option" \<comment> \<open>the icon, its classes and its size\<close>

fun STATUS_CONFIG :: "deployment_status \<Rightarrow> status_config" where
  "STATUS_CONFIG QUEUED = \<lparr>sc_label = ''Queued'', sc_color = ''bg-yellow-500'', sc_text = ''text-yellow-500'',
     sc_glow = ''shadow-[0_0_10px_rgba(234,179,8,0.4)]'', sc_icon = (''Hourglass'', ''text-yellow-400 animate-hourglass'', None)\<rparr>"
| "STATUS_CONFIG READY = \<lparr>sc_label = ''Ready'', sc_color = ''bg-emerald-500'', sc_text = ''text-emerald-500'',
     sc_glow = ''shadow-[0_0_10px_rgba(16,185,129,0.4)]'', sc_icon = (''CheckCircle2'', ''text-emerald-400'', None)\<rparr>"
| "STATUS_CONFIG BUILDING = \<lparr>sc_label = ''Building'', sc_color = ''bg-blue-500'', sc_text = ''text-blue-500'',
     sc_glow = ''shadow-[0_0_10px_rgba(59,130,246,0.4)]'', sc_icon = (''Hammer'', ''text-blue-400 animate-hammer'', None)\<rparr>"
| "STATUS_CONFIG DEPLOYING = \<lparr>sc_label = ''Deploying'', sc_color = ''bg-purple-500'', sc_text = ''text-purple-500'',
     sc_glow = ''shadow-[0_0_10px_rgba(168,85,247,0.4)]'', sc_icon = (''Rocket'', ''text-purple-400 animate-fly'', None)\<rparr>"
| "STATUS_CONFIG FAILED = \<lparr>sc_label = ''Failed'', sc_color = ''bg-red-500'', sc_text = ''text-red-500'',
     sc_glow = ''shadow-[0_0_10px_rgba(239,68,68,0.4)]'', sc_icon = (''XCircle'', ''text-red-500 animate-shake'', None)\<rparr>"
| "STATUS_CONFIG CANCELED = \<lparr>sc_label = ''Canceled'', sc_color = ''bg-gray-500'', sc_text = ''text-gray-500'',
     sc_glow = ''shadow-[0_0_10px_rgba(161,161,170,0.35)]'', sc_icon = (''Ban'', ''text-zinc-400'', None)\<rparr>"
| "STATUS_CONFIG EXPIRED = \<lparr>sc_label = ''Expired'', sc_color = ''bg-gray-500'', sc_text = ''text-gray-500'',
     sc_glow = ''shadow-[0_0_10px_rgba(161,161,170,0.35)]'', sc_icon = (''BrushCleaning'', ''text-zinc-400'', None)\<rparr>"
| "STATUS_CONFIG SUPERSEDED = \<lparr>sc_label = ''Superseded'', sc_color = ''bg-gray-500'', sc_text = ''text-gray-500'',
     sc_glow = ''shadow-[0_0_10px_rgba(161,161,170,0.35)]'', sc_icon = (''Recycle'', ''text-zinc-400'', None)\<rparr>"

definition getStatusConfig :: "deployment_status option \<Rightarrow> nat \<Rightarrow> status_config" where
  "getStatusConfig status iconSize =
     (let config = (case status of
            Some s \<Rightarrow> STATUS_CONFIG s
          | None \<Rightarrow> \<lparr>sc_label = ''Unknown'', sc_color = ''bg-gray-500'', sc_text = ''text-gray-500'', sc_glow = [],
              sc_icon = (''Ban'', ''text-zinc-400'', None)\<rparr>)
      in config\<lparr>sc_icon := (fst (sc_icon config), fst (snd (sc_icon config)), Some iconSize)\<rparr>)"

definition STATUS_OPTIONS :: "(deployment_status \<times> string) list" where
  "STATUS_OPTIONS = map (\<lambda>s. (s, sc_label (STATUS_CONFIG s)))
     [QUEUED, READY, BUILDING, DEPLOYING, FAILED, CANCELED, EXPIRED, SUPERSEDED]"

definition js_rem :: "int \<Rightarrow> int \<Rightarrow> int" where
  \<comment> \<open>\<open>a % b\<close> takes the sign of \<open>a\<close>\<close>
  "js_rem a b = (if a < 0 then - ((- a) mod b) else a mod b)"

definition formatDuration :: "int \<Rightarrow> string" where
  "formatDuration seconds =
     (let m = seconds div 60; s = js_rem seconds 60
      in if m > 0 then int_to_string m @ ''m '' @ int_to_string s @ ''s'' else int_to_string s @ ''s'')"

definition formatDuration_dashboard :: "int \<Rightarrow> string" where
  \<comment> \<open>of the dashboard page\<close>
  "formatDuration_dashboard seconds =
     (if seconds < 60 then int_to_string seconds @ ''s''
      else let mins = seconds div 60; secs = js_rem seconds 60
           in if secs > 0 then int_to_string mins @ ''m '' @ int_to_string secs @ ''s'' else int_to_string mins @ ''m'')"

definition formatDuration_panel :: "int \<Rightarrow> string" where
  \<comment> \<open>of the analytics panel: a dash for zero (an em dash, in UTF-8)\<close>
  "formatDuration_panel seconds =
     (if seconds = 0 then [CHR 0xE2, CHR 0x80, CHR 0x94] else formatDuration_dashboard seconds)"

section \<open>Deployment hooks\<close>

definition deployments_endpoint :: "string option \<Rightarrow> string" where
  "deployments_endpoint projectId =
     (if truthy_opt projectId then ''/deployments/project/'' @ the projectId else ''/deployments'')"

record deploy_hook =
  dh_isDeploying :: bool
  dh_toasts :: "toast_note list"
  dh_refreshed :: "string list"

definition redeploy :: "('p \<Rightarrow> 'w \<Rightarrow> (api_error + 'd) \<times> 'w) \<Rightarrow> 'p \<Rightarrow> deploy_hook \<Rightarrow> 'w \<Rightarrow> 'd option \<times> deploy_hook \<times> 'w" where
  \<comment> \<open>the keys with these prefixes are revalidated on success; an error is shown, not thrown\<close>
  "redeploy post projectId h w =
     (let (r, w') = post projectId w
      in case r of
           Inr deployment \<Rightarrow> (Some deployment, h\<lparr>dh_isDeploying := False, dh_toasts := dh_toasts h @ [ToastSuccess ''Deployment queued''],
             dh_refreshed := dh_refreshed h @ [''/deployments'', ''/projects'']\<rparr>, w')
         | Inl e \<Rightarrow> (None, h\<lparr>dh_isDeploying := False, dh_toasts := dh_toasts h @ [ToastError ''Failed to trigger redeployment'']\<rparr>, w'))"

definition refreshInterval :: "deployment option \<Rightarrow> nat" where
  "refreshInterval data = (case data of None \<Rightarrow> 0
     | Some d \<Rightarrow> if d_status d \<in> {QUEUED, BUILDING, DEPLOYING} then 2000 else 0)"

definition cancelDeployment :: "(uuid \<Rightarrow> 'w \<Rightarrow> (api_error + 'r) \<times> 'w) \<Rightarrow> uuid \<Rightarrow> deploy_hook \<Rightarrow> 'w \<Rightarrow> deploy_hook \<times> 'w" where
  "cancelDeployment post deploymentId h w =
     (let (r, w') = post deploymentId w
      in (case r of
            Inr x \<Rightarrow> h\<lparr>dh_toasts := dh_toasts h @ [ToastSuccess ''Deployment cancelled''], dh_refreshed := dh_refreshed h @ [''/deployments/:id'']\<rparr>
          | Inl e \<Rightarrow> h\<lparr>dh_toasts := dh_toasts h @ [ToastError ''Failed to cancel deployment'']\<rparr>, w'))"

definition isReady :: "deployment_status \<Rightarrow> bool" where
  "isReady s \<longleftrightarrow> s = READY"

definition isActive :: "deployment_status \<Rightarrow> bool" where
  "isActive s \<longleftrightarrow> s = BUILDING \<or> s = DEPLOYING"

definition canCancel :: "deployment_status \<Rightarrow> bool" where
  "canCancel s \<longleftrightarrow> isActive s \<or> s = QUEUED"

datatype dot = DotDone | DotFailed | DotActive | DotIdle

definition StatusDot :: "deployment_status \<Rightarrow> dot" where
  "StatusDot s = (if s = READY \<or> s = EXPIRED then DotDone
     else if s = FAILED \<or> s = CANCELED then DotFailed
     else if s = BUILDING \<or> s = DEPLOYING then DotActive else DotIdle)"

section \<open>Filters\<close>

definition contains_ci :: "string \<Rightarrow> string \<Rightarrow> bool" where
  \<comment> \<open>\<open>text.toLowerCase().includes(query.toLowerCase())\<close>\<close>
  "contains_ci query text = contains_text (map to_lower query) (map to_lower text)"

definition toggleStatus :: "deployment_status \<Rightarrow> deployment_status list \<Rightarrow> deployment_status list" where
  "toggleStatus s prev = (if s \<in> set prev then filter (\<lambda>x. x \<noteq> s) prev else prev @ [s])"

definition filteredProjects :: "string \<Rightarrow> deployment_status list \<Rightarrow> project_view list option \<Rightarrow> project_view list" where
  "filteredProjects searchQuery selectedStatus loaded =
     (case loaded of None \<Rightarrow> []
      | Some ps \<Rightarrow> filter (\<lambda>v.
          (contains_ci searchQuery (p_name (pv_project v)) \<or> contains_ci searchQuery (p_framework (pv_project v))) \<and>
          (selectedStatus = [] \<or> (case head_opt (pv_deployments v) of None \<Rightarrow> False
             | Some d \<Rightarrow> d_status d \<in> set selectedStatus))) ps)"

definition enrichedDeployments :: "deployment list \<Rightarrow> project_view list option \<Rightarrow> (deployment \<times> project_view option) list" where
  "enrichedDeployments rows loaded =
     (case loaded of None \<Rightarrow> []
      | Some ps \<Rightarrow> map (\<lambda>d. (d, find (\<lambda>v. p_id (pv_project v) = d_projectId d) ps)) rows)"

definition filteredDeployments ::
    "string \<Rightarrow> deployment_status list \<Rightarrow> (deployment \<times> project_view option) list \<Rightarrow> (deployment \<times> project_view option) list" where
  "filteredDeployments searchQuery statusFilter =
     filter (\<lambda>(d, project).
       ((case project of None \<Rightarrow> False | Some v \<Rightarrow> contains_ci searchQuery (p_name (pv_project v))) \<or>
        contains_ci searchQuery (d_commitHash d) \<or> contains_ci searchQuery (d_branch d) \<or>
        contains_ci searchQuery (or_else (d_commitMessage d) [])) \<and>
       (statusFilter = [] \<or> d_status d \<in> set statusFilter))"

section \<open>Terminal\<close>

datatype log_type = LogInfo | LogSuccess | LogError | LogWarning

definition getLogType :: "log_source \<Rightarrow> string \<Rightarrow> log_type" where
  \<comment> \<open>the marks are U+2717, U+26A0, U+2713 and U+2705, in UTF-8\<close>
  "getLogType source message =
     (if starts_with [CHR 0xE2, CHR 0x9C, CHR 0x97] message \<or> starts_with ''ERROR'' message \<or>
         contains_text ''failed'' message \<or> contains_text ''error'' message then LogError
      else if starts_with [CHR 0xE2, CHR 0x9A, CHR 0xA0] message \<or> starts_with ''WARN'' message \<or>
         contains_text ''warning'' message then LogWarning
      else if starts_with [CHR 0xE2, CHR 0x9C, CHR 0x93] message \<or> starts_with [CHR 0xE2, CHR 0x9C, CHR 0x85] message \<or>
         contains_text ''complete'' message \<or> contains_text ''success'' message then LogSuccess
      else if source = SYSTEM then LogWarning
      else LogInfo)"

definition logText :: "(time \<Rightarrow> string) \<Rightarrow> log_entry list \<Rightarrow> string" where
  \<comment> \<open>the parameter is \<open>formatTimestamp\<close>, the local time of day\<close>
  "logText fmt logs = join_lines (map (\<lambda>l. ''['' @ fmt (log_timestamp l) @ ''] '' @ log_message l) logs)"

definition enrichedLogs :: "(time \<Rightarrow> string) \<Rightarrow> log_entry list \<Rightarrow> (log_entry \<times> log_type \<times> string) list" where
  "enrichedLogs fmt logs = map (\<lambda>l. (l, getLogType (log_source l) (log_message l), fmt (log_timestamp l))) logs"

definition filteredLogs ::
    "log_type option \<Rightarrow> string \<Rightarrow> (log_entry \<times> log_type \<times> string) list \<Rightarrow> (log_entry \<times> log_type \<times> string) list" where
  \<comment> \<open>no type is the filter "all"\<close>
  "filteredLogs f query = filter (\<lambda>(l, ty, time).
     (case f of None \<Rightarrow> True | Some t \<Rightarrow> ty = t) \<and> (query = [] \<or> contains_ci query (log_message l)))"

definition log_stats :: "(log_entry \<times> log_type \<times> string) list \<Rightarrow> nat \<times> nat \<times> nat" where
  \<comment> \<open>success, error, warning\<close>
  "log_stats ls = (let n = (\<lambda>t. length (filter (\<lambda>(l, ty, time). ty = t) ls)) in (n LogSuccess, n LogError, n LogWarning))"

section \<open>Pipeline picture\<close>

datatype step_state = Completed | Active | Pending | StepFailed

record pipeline_node =
  ps_icon :: string
  ps_label :: string
  ps_sublabel :: "string option"
  ps_status :: step_state

definition ellipsis :: string where
  "ellipsis = [CHR 0xE2, CHR 0x80, CHR 0xA6]"

definition pipeline_node_of :: "string \<Rightarrow> string \<Rightarrow> string option \<Rightarrow> step_state \<Rightarrow> pipeline_node" where
  "pipeline_node_of icon' label sublabel status =
     \<lparr>ps_icon = icon', ps_label = label, ps_sublabel = sublabel, ps_status = status\<rparr>"

fun pipeline_map :: "deployment_status \<Rightarrow> pipeline_node list" where
  "pipeline_map QUEUED = [
     pipeline_node_of ''Clock'' ''Queued'' (Some (''Waiting'' @ ellipsis)) Active,
     pipeline_node_of ''GitCommit'' ''Source'' (Some ''Cloned'') Pending,
     pipeline_node_of ''Hammer'' ''Build'' None Pending,
     pipeline_node_of ''Rocket'' ''Deploy'' None Pending,
     pipeline_node_of ''Globe'' ''Ready'' None Pending]"
| "pipeline_map BUILDING = [
     pipeline_node_of ''Clock'' ''Queued'' (Some ''Done'') Completed,
     pipeline_node_of ''GitCommit'' ''Source'' (Some ''Cloned'') Completed,
     pipeline_node_of ''Hammer'' ''Build'' (Some (''Compiling'' @ ellipsis)) Active,
     pipeline_node_of ''Rocket'' ''Deploy'' None Pending,
     pipeline_node_of ''Globe'' ''Ready'' None Pending]"
| "pipeline_map DEPLOYING = [
     pipeline_node_of ''Clock'' ''Queued'' (Some ''Done'') Completed,
     pipeline_node_of ''GitCommit'' ''Source'' (Some ''Cloned'') Completed,
     pipeline_node_of ''Hammer'' ''Build'' (Some ''Success'') Completed,
     pipeline_node_of ''Rocket'' ''Deploy'' (Some (''Pushing'' @ ellipsis)) Active,
     pipeline_node_of ''Globe'' ''Ready'' None Pending]"
| "pipeline_map READY = [
     pipeline_node_of ''Clock'' ''Queued'' (Some ''Done'') Completed,
     pipeline_node_of ''GitCommit'' ''Source'' (Some ''Cloned'') Completed,
     pipeline_node_of ''Hammer'' ''Build'' (Some ''Success'') Completed,
     pipeline_node_of ''Rocket'' ''Deploy'' (Some ''Live'') Completed,
     pipeline_node_of ''Globe'' ''Ready'' (Some ''Online'') Completed]"
| "pipeline_map FAILED = [
     pipeline_node_of ''Clock'' ''Queued'' (Some ''Done'') Completed,
     pipeline_node_of ''GitCommit'' ''Source'' (Some ''Cloned'') Completed,
     pipeline_node_of ''Hammer'' ''Build'' (Some ''Failed'') StepFailed,
     pipeline_node_of ''Rocket'' ''Deploy'' None Pending,
     pipeline_node_of ''Globe'' ''Ready'' None Pending]"
| "pipeline_map CANCELED = [
     pipeline_node_of ''Clock'' ''Queued'' (Some ''Canceled'') Completed,
     pipeline_node_of ''GitCommit'' ''Source'' (Some ''Cloned'') Completed,
     pipeline_node_of ''Hammer'' ''Build'' None Pending,
     pipeline_node_of ''Rocket'' ''Deploy'' None Pending,
     pipeline_node_of ''Globe'' ''Ready'' None Pending]"
| "pipeline_map EXPIRED = [
     pipeline_node_of ''Clock'' ''Queued'' (Some ''Done'') Completed,
     pipeline_node_of ''GitCommit'' ''Source'' (Some ''Cloned'') Completed,
     pipeline_node_of ''Hammer'' ''Build'' (Some ''Done'') Completed,
     pipeline_node_of ''Rocket'' ''Deploy'' (Some ''Expired'') Completed,
     pipeline_node_of ''Globe'' ''Ready'' None Pending]"
| "pipeline_map SUPERSEDED = [
     pipeline_node_of ''Clock'' ''Queued'' (Some ''Done'') Completed,
     pipeline_node_of ''GitCommit'' ''Source'' (Some ''Cloned'') Completed,
     pipeline_node_of ''Hammer'' ''Build'' (Some ''Done'') Completed,
     pipeline_node_of ''Rocket'' ''Deploy'' (Some ''Superseded'') Completed,
     pipeline_node_of ''Globe'' ''Ready'' None Completed]"

definition getStepsFromStatus :: "deployment_status option \<Rightarrow> pipeline_node list" where
  "getStepsFromStatus deploymentStatus = pipeline_map (case deploymentStatus of None \<Rightarrow> QUEUED | Some s \<Rightarrow> s)"

fun furthest_step :: "nat \<Rightarrow> pipeline_node list \<Rightarrow> int" where
  \<comment> \<open>the loop from the last step down; -1 when it finds none\<close>
  "furthest_step 0 steps = -1"
| "furthest_step (Suc i) steps =
     (if ps_status (steps ! i) \<in> {Completed, Active, StepFailed} then int i else furthest_step i steps)"

definition getProgressPercent :: "pipeline_node list \<Rightarrow> int" where
  \<comment> \<open>with five steps the quotient is a multiple of a quarter\<close>
  "getProgressPercent steps =
     (let last' = int (length steps) - 1; furthest = furthest_step (length steps) steps
      in if furthest \<le> 0 then 0 else furthest * 100 div last')"

definition isAllDone :: "pipeline_node list \<Rightarrow> bool" where
  "isAllDone steps \<longleftrightarrow> list_all (\<lambda>x. ps_status x = Completed) steps"

definition hasFailed :: "pipeline_node list \<Rightarrow> bool" where
  "hasFailed steps \<longleftrightarrow> list_ex (\<lambda>x. ps_status x = StepFailed) steps"

datatype pipeline_badge = ResourcesReleased | AllSystemsGo | PipelineFailed

record pipeline_view =
  pl_glow :: bool
  pl_badges :: "pipeline_badge list"
  pl_progress :: int
  pl_failedRail :: bool
  pl_tip :: bool
  pl_steps :: "pipeline_node list"

definition PipelineVisualizer :: "deployment_status option \<Rightarrow> pipeline_view" where
  "PipelineVisualizer deploymentStatus =
     (let steps = getStepsFromStatus deploymentStatus; isExpired = (deploymentStatus = Some EXPIRED)
      in \<lparr>pl_glow = isAllDone steps,
          pl_badges = (if isExpired then [ResourcesReleased] else []) @ (if isAllDone steps then [AllSystemsGo] else []) @
            (if hasFailed steps then [PipelineFailed] else []),
          pl_progress = getProgressPercent steps, pl_failedRail = hasFailed steps,
          pl_tip = (\<not> isAllDone steps \<and> \<not> hasFailed steps \<and> \<not> isExpired), pl_steps = steps\<rparr>)"

section \<open>Command palette\<close>

record palette =
  cp_open :: bool
  cp_query :: string
  cp_selected :: nat
  cp_visited :: "string list"

datatype palette_key = Escape | ArrowDown | ArrowUp | Enter

definition palette_actions :: "string list" where
  "palette_actions = [''/dashboard/projects'', ''/dashboard/deployments'', ''/dashboard/settings'']"

definition palette_projects :: "string \<Rightarrow> (string \<times> project) list option \<Rightarrow> (string \<times> project) list" where
  \<comment> \<open>projects with the text of their id\<close>
  "palette_projects query loaded =
     (case loaded of None \<Rightarrow> []
      | Some ps \<Rightarrow> filter (\<lambda>(i, p). contains_ci query (p_name p) \<or> contains_ci query (p_framework p)) ps)"

definition setQuery :: "string \<Rightarrow> palette \<Rightarrow> palette" where
  \<comment> \<open>the effect on \<open>[query]\<close> resets the selection when the query changes\<close>
  "setQuery q c = c\<lparr>cp_query := q, cp_selected := (if q = cp_query c then cp_selected c else 0)\<rparr>"

definition palette_select :: "(string \<times> project) list \<Rightarrow> nat \<Rightarrow> palette \<Rightarrow> palette" where
  \<comment> \<open>\<open>handleSelect\<close>; an action out of range is undefined and does nothing\<close>
  "palette_select filtered index c =
     (let url = (if index < length filtered then Some (''/dashboard/projects/'' @ fst (filtered ! index))
                 else nth_part palette_actions (index - length filtered))
      in setQuery [] (c\<lparr>cp_open := \<not> cp_open c,
           cp_visited := cp_visited c @ (case url of None \<Rightarrow> [] | Some u \<Rightarrow> [u])\<rparr>))"

fun palette_keydown :: "(string \<times> project) list \<Rightarrow> palette_key \<Rightarrow> palette \<Rightarrow> palette" where
  "palette_keydown filtered k c =
     (if \<not> cp_open c then c
      else case k of
             Escape \<Rightarrow> setQuery [] (c\<lparr>cp_open := False\<rparr>)
           | ArrowDown \<Rightarrow> c\<lparr>cp_selected := min (cp_selected c + 1) (length filtered + length palette_actions - 1)\<rparr>
           | ArrowUp \<Rightarrow> c\<lparr>cp_selected := cp_selected c - 1\<rparr>
           | Enter \<Rightarrow> palette_select filtered (cp_selected c) c)"

section \<open>Tabs, sign-in\<close>

definition project_tabs :: "string list" where
  "project_tabs = [''Overview'', ''Deployments'', ''Logs'', ''Analytics'', ''Settings'']"

definition initial_tab :: "string option \<Rightarrow> string" where
  "initial_tab tabParam = (case tabParam of None \<Rightarrow> ''Overview''
     | Some t \<Rightarrow> (case find (\<lambda>x. map to_lower x = map to_lower t) project_tabs of Some x \<Rightarrow> x | None \<Rightarrow> ''Overview''))"

record auth_form =
  af_email :: string
  af_password :: string
  af_name :: string

definition signInSchema :: "(string \<Rightarrow> bool) \<Rightarrow> auth_form \<Rightarrow> bool" where
  \<comment> \<open>the parameter is the e-mail syntax of zod\<close>
  "signInSchema email f \<longleftrightarrow> email (af_email f) \<and> 8 \<le> length (af_password f)"

definition signUpSchema :: "(string \<Rightarrow> bool) \<Rightarrow> auth_form \<Rightarrow> bool" where
  "signUpSchema email f \<longleftrightarrow> signInSchema email f \<and> 2 \<le> length (af_name f)"

definition auth_body :: "bool \<Rightarrow> auth_form \<Rightarrow> json" where
  \<comment> \<open>the output of the schema; zod strips the name when signing in\<close>
  "auth_body isLogin f = JObj ([(''email'', JStr (af_email f)), (''password'', JStr (af_password f))] @
     (if isLogin then [] else [(''name'', JStr (af_name f))]))"

definition auth_submit :: "((string \<times> string) list \<Rightarrow> string) \<Rightarrow> string \<Rightarrow> network \<Rightarrow> bool \<Rightarrow> auth_form \<Rightarrow> string client_action" where
  \<comment> \<open>\<open>onSubmit\<close> of the sign-in page: the tokens become cookies and the dashboard opens; an error stays on the page\<close>
  "auth_submit encode baseUrl net isLogin f =
     tryCatch
       (andThen (request_client encode baseUrl net ''POST'' (if isLogin then ''/auth/signin'' else ''/auth/signup'')
          \<lparr>ro_skipAuth = True, ro_authorization = None, ro_body = Some (auth_body isLogin f), ro_params = None\<rparr>) (\<lambda>res.
        andThen (orThrow res (ClientError ''TypeError'')) (\<lambda>data.
        andThen (modify (setTokens (text_of data ''accessToken'') (text_of data ''refreshToken''))) (\<lambda>_.
        ret ''/dashboard''))))
       (\<lambda>error. ret ''/auth'')"

end
