(* ===== verification/Deployed.thy ===== *)
theory Deployed
  imports Api Frames
begin

text \<open>
  A reachable database never holds a project without a deployment. The pages of the client read
  \<open>project.deployments[0]\<close> without a check; this is the invariant that makes them right. Only three
  operations change which projects exist or which deployments they have: creation (one
  transaction for both rows), a new deployment, and the deletion of a project with its cascade.
\<close>

section \<open>The invariant and its step relation\<close>

abbreviation project_ids :: "db \<Rightarrow> uuid set" where
  "project_ids d \<equiv> p_id ` set (projects d)"

abbreviation deployed_ids :: "db \<Rightarrow> uuid set" where
  "deployed_ids d \<equiv> d_projectId ` set (deployments d)"

definition all_deployed :: "db \<Rightarrow> bool" where
  "all_deployed d \<longleftrightarrow> project_ids d \<subseteq> deployed_ids d"

definition ids_of :: "db \<Rightarrow> uuid list \<times> uuid list" where
  \<comment> \<open>the part of the database the invariant speaks of\<close>
  "ids_of d = (map p_id (projects d), map d_projectId (deployments d))"

definition deployed_kept :: "world \<Rightarrow> world \<Rightarrow> bool" where
  \<comment> \<open>no project appears, and none that stays loses its deployments\<close>
  "deployed_kept w w' \<longleftrightarrow> project_ids (db w') \<subseteq> project_ids (db w) \<and>
     project_ids (db w') \<inter> deployed_ids (db w) \<subseteq> deployed_ids (db w')"

definition preserves_deployed :: "world \<Rightarrow> world \<Rightarrow> bool" where
  "preserves_deployed w w' \<longleftrightarrow> (all_deployed (db w) \<longrightarrow> all_deployed (db w'))"

lemma kept_trans:
  "P' \<subseteq> P \<Longrightarrow> P' \<inter> D \<subseteq> D' \<Longrightarrow> P'' \<subseteq> P' \<Longrightarrow> P'' \<inter> D' \<subseteq> D'' \<Longrightarrow>
   P'' \<subseteq> P \<and> P'' \<inter> D \<subseteq> (D'' :: uuid set)"
  by blast

lemma kept_covers: "P' \<subseteq> P \<Longrightarrow> P' \<inter> D \<subseteq> D' \<Longrightarrow> P \<subseteq> D \<Longrightarrow> P' \<subseteq> (D' :: uuid set)"
  by blast

interpretation deployed: db_step_relation deployed_kept
proof unfold_locales
  show "deployed_kept s u" if "deployed_kept s t" and "deployed_kept t u" for s t u
    using that unfolding deployed_kept_def by (elim conjE) (rule kept_trans)
qed (simp_all add: deployed_kept_def)

interpretation preserved: db_step_relation preserves_deployed
  by unfold_locales (auto simp: preserves_deployed_def)

lemma deployed_kept_preserves: "deployed_kept w w' \<Longrightarrow> preserves_deployed w w'"
  unfolding deployed_kept_def preserves_deployed_def all_deployed_def
  by (elim conjE, intro impI, rule kept_covers)

lemma ids_of_same:
  "ids_of d' = ids_of d \<Longrightarrow> project_ids d' = project_ids d \<and> deployed_ids d' = deployed_ids d"
  by (metis ids_of_def image_set prod.inject)

lemma same_ids_kept: "same_db ids_of w w' \<Longrightarrow> deployed_kept w w'"
  using ids_of_same [of "db w'" "db w"] by (simp add: same_db_def deployed_kept_def)

lemma keeps_same_ids: "keeps (same_db ids_of) m \<Longrightarrow> keeps deployed_kept m"
  by (rule keepsI) (blast intro: same_ids_kept dest: keeps_run)

lemma keeps_preserves: "keeps deployed_kept m \<Longrightarrow> keeps preserves_deployed m"
  by (rule keepsI) (blast intro: deployed_kept_preserves dest: keeps_run)

section \<open>The tables\<close>

lemma ids_of_unaffected [simp]:
  "ids_of (d\<lparr>nextId := n\<rparr>) = ids_of d" "ids_of (users_update f0 d) = ids_of d"
  "ids_of (gitAccounts_update f1 d) = ids_of d" "ids_of (envVars_update f2 d) = ids_of d"
  "ids_of (domains_update f3 d) = ids_of d" "ids_of (systemConfigs_update f4 d) = ids_of d"
  "ids_of (logEntries_update f5 d) = ids_of d"
  by (simp_all add: ids_of_def)

lemmas keeps_unaffected =
  table_same_db [where g = ids_of and tab = users_update, simplified]
  table_same_db [where g = ids_of and tab = gitAccounts_update, simplified]
  table_same_db [where g = ids_of and tab = envVars_update, simplified]
  table_same_db [where g = ids_of and tab = domains_update, simplified]
  table_same_db [where g = ids_of and tab = systemConfigs_update, simplified]
  table_same_db [where g = ids_of and tab = logEntries_update, simplified]

lemma project_update_ids: "keeps (same_db ids_of) (project_update i f)"
  unfolding update_row_def update_where_def
  by (intro sameDb.keeps_db_intros write_db_same_db)
    (auto simp: ids_of_def)

lemma deployment_update_ids:
  "(\<And>r. d_projectId (f r) = d_projectId r) \<Longrightarrow> keeps (same_db ids_of) (deployment_update i f)"
  unfolding update_row_def update_where_def
  by (intro sameDb.keeps_db_intros write_db_same_db)
    (auto simp: ids_of_def)

lemma deployment_create_deployed:
  "ensures (\<lambda>_. True) deployed_kept (deployment_create r) (\<lambda>_ w. d_projectId r \<in> deployed_ids (db w))"
  by (auto simp: ensures_def create_row_def action_simps andThen_def deployed_kept_def)

lemma project_delete_deployed: "keeps deployed_kept (project_delete i)"
  by (rule keepsI)
    (auto simp: project_delete_def action_simps andThen_def deployed_kept_def cascade_project_def
      split: option.splits)

section \<open>The services\<close>

text \<open>What a service is made of: steps that leave both columns alone, and the three that do not.\<close>

lemma keeps_redis_ids: "keeps (same_db ids_of) (redis_call h)"
  by (rule read_only_same_db)

lemma send_ids: "keeps (same_db ids_of) (send n)"
  unfolding send_def by (rule sameDb.keeps_modify) (simp add: same_db_def)

lemma bcrypt_hash_ids: "keeps (same_db ids_of) (bcrypt_hash X p r)"
  unfolding bcrypt_hash_def by (intro sameDb.keeps_db_intros read_only_same_db)

lemma issue_tokens_ids: "keeps (same_db ids_of) (issue_tokens X u)"
  unfolding issue_tokens_def getTokens_def updateRefreshTokenHash_def
  by (intro sameDb.keeps_db_intros keeps_unaffected bcrypt_hash_ids)

lemma upsert_git_account_ids: "keeps (same_db ids_of) (upsert_git_account u p i)"
  unfolding upsert_git_account_def by (intro sameDb.keeps_db_intros keeps_unaffected)

lemma auth_ids:
  "keeps (same_db ids_of) (signUp X e p n)" "keeps (same_db ids_of) (signIn X e p)"
  "keeps (same_db ids_of) (logout u)" "keeps (same_db ids_of) (refreshTokens X u t)"
  "keeps (same_db ids_of) (validateOAuthLogin X op)" "keeps (same_db ids_of) (processGithubCallback X gp i c)"
  unfolding signUp_def signIn_def logout_def refreshTokens_def validateOAuthLogin_def
    processGithubCallback_def Let_def
  by (intro sameDb.keeps_db_intros keeps_unaffected bcrypt_hash_ids issue_tokens_ids upsert_git_account_ids)+

lemma resources_ids:
  "keeps (same_db ids_of) (domainsService_create u p n)" "keeps (same_db ids_of) (domainsService_findAll u p)"
  "keeps (same_db ids_of) (domainsService_remove u i)"
  "keeps (same_db ids_of) (envVarsService_findAll X k u p)" "keeps (same_db ids_of) (envVarsService_saveAll X u p vs)"
  "keeps (same_db ids_of) (hook_update X h)"
  unfolding domainsService_create_def domainsService_findAll_def domainsService_remove_def
    envVarsService_findAll_def envVarsService_saveAll_def encrypt_item_def hook_update_def
  by (intro sameDb.keeps_db_intros keeps_unaffected read_only_same_db project_update_ids)+

lemma settings_ids:
  "keeps (same_db ids_of) (getConfig X u)" "keeps (same_db ids_of) (updateConfig X u dto)"
  unfolding getConfig_def updateConfig_def
  by (intro sameDb.keeps_db_intros keeps_unaffected read_only_same_db resources_ids)+

lemma cleanup_turn_ids: "keeps (same_db ids_of) (cleanup_turn c)"
  unfolding cleanup_turn_def case_prod_unfold by (intro sameDb.keeps_db_intros keeps_unaffected)

lemma send_mails_ids: "keeps (same_db ids_of) (send_mails X c dto p i)"
  unfolding send_mails_def sendDeploymentSuccess_def sendDeploymentFailure_def case_prod_unfold
  by (intro sameDb.keeps_db_intros send_ids)

lemma reported_projectId: "d_projectId (reported t dto r) = d_projectId r"
  by (simp add: reported_def Let_def)

lemma internal_ids:
  "keeps (same_db ids_of) (updateDeploymentStatus i dto)" "keeps (same_db ids_of) (createLogs pd i ls)"
  "keeps (same_db ids_of) (internal_getLogs i s)" "keeps (same_db ids_of) (internal_installationToken X n)"
  "keeps (same_db ids_of) (getSettingsByProject X i)" "keeps (same_db ids_of) getExpiredDeployments"
  "keeps (same_db ids_of) cleanupLogs" "keeps (same_db ids_of) (deleteDeploymentResources i)"
  "keeps (same_db ids_of) (updateProjectStatus i ds)" "keeps (same_db ids_of) (updateDomainStatus i ds er)"
  "keeps (same_db ids_of) getPendingDomains" "keeps (same_db ids_of) (sendDeploymentNotification X ndto)"
  unfolding updateDeploymentStatus_def createLogs_def internal_getLogs_def log_row_def
    internal_installationToken_def getSettingsByProject_def getExpiredDeployments_def
    cleanupLogs_def deleteDeploymentResources_def updateProjectStatus_def updateDomainStatus_def
    getPendingDomains_def sendDeploymentNotification_def gitInstallationToken_def case_prod_unfold
  by (intro sameDb.keeps_db_intros keeps_unaffected project_update_ids cleanup_turn_ids send_ids
      send_mails_ids deployment_update_ids; simp add: reported_projectId)+

lemma project_reads_ids:
  "keeps (same_db ids_of) (projectsService_findAll X u)" "keeps (same_db ids_of) (projectsService_findOne i u)"
  "keeps (same_db ids_of) (projectsService_update i u udto)" "keeps (same_db ids_of) (getStatus u)"
  unfolding projectsService_findAll_def projectsService_findOne_def projectsService_update_def
    decrypt_view_def case_prod_unfold getStatus_def Let_def
  by (intro sameDb.keeps_db_intros read_only_same_db project_update_ids)+

lemma deployment_reads_ids:
  "keeps (same_db ids_of) (deploymentsService_findAll u)" "keeps (same_db ids_of) (deploymentsService_findAllByProject u p)"
  "keeps (same_db ids_of) (deploymentsService_findOne u i)" "keeps (same_db ids_of) (deploymentsService_getLogs u i s a l)"
  "keeps (same_db ids_of) (deploymentsService_updateStatus u i st)" "keeps (same_db ids_of) (deploymentsService_cancel u i)"
  unfolding deploymentsService_findAll_def deploymentsService_findAllByProject_def deploymentsService_findOne_def
    deploymentsService_getLogs_def deploymentsService_updateStatus_def deploymentsService_cancel_def Let_def
  by (intro sameDb.keeps_db_intros read_only_same_db deployment_update_ids; simp)+

lemma deployment_create_kept: "keeps deployed_kept (deployment_create r)"
  using deployment_create_deployed by (rule ensures_weaken) simp_all

lemmas to_deployed = keeps_same_ids [OF read_only_same_db(3)] keeps_same_ids [OF read_only_same_db(4)]
  keeps_same_ids [OF read_only_same_db(5)] keeps_same_ids [OF read_only_same_db(6)]
  keeps_same_ids [OF read_only_same_db(7)] keeps_same_ids [OF read_only_same_db(8)]
  keeps_same_ids [OF project_update_ids] keeps_same_ids [OF deployment_update_ids]

lemma deployments_deployed: "keeps deployed_kept (deploymentsService_create X u p)"
  unfolding deploymentsService_create_def record_deployment_def Let_def
  by (intro deployed.keeps_db_intros deployment_create_kept to_deployed)

lemma cancel_current_deployed: "keeps deployed_kept (cancel_current c)"
  unfolding cancel_current_def case_prod_unfold
  by (intro deployed.keeps_db_intros to_deployed) simp

lemma triggerDeployment_deployed: "keeps deployed_kept (triggerDeployment X lk opts)"
  unfolding triggerDeployment_def decrypt_all_def case_prod_unfold Let_def
  by (intro deployed.keeps_db_intros cancel_current_deployed deployment_create_kept to_deployed)

lemma webhook_deployed: "keeps deployed_kept (handleGitHubWebhook X s b e sig)"
  unfolding handleGitHubWebhook_def handlePushEvent_def
  by (cases e) (auto intro!: deployed.keeps_db_intros triggerDeployment_deployed)

lemma remove_deployed: "keeps deployed_kept (projectsService_remove i u)"
  unfolding projectsService_remove_def
  by (intro deployed.keeps_db_intros project_delete_deployed to_deployed)

section \<open>The transaction that creates a project\<close>

lemma project_create_ids:
  assumes "project_create r w = (Inr p, w1)"
  shows "project_ids (db w1) = insert (p_id p) (project_ids (db w))"
    and "deployed_ids (db w1) = deployed_ids (db w)"
  using assms by (auto simp: create_row_def action_simps andThen_def split: if_splits)

lemma store_env_vars_ids: "keeps (same_db ids_of) (store_env_vars X i vs)"
  unfolding store_env_vars_def case_prod_unfold
  by (intro sameDb.keeps_db_intros keeps_unaffected read_only_same_db)

lemma domain_create_ids: "keeps (same_db ids_of) (domain_create m)"
  by (intro keeps_unaffected)

lemma create_in_tx_deployed:
  assumes "create_in_tx X u dto n c w = (Inr p, w')" and "all_deployed (db w)"
  shows "all_deployed (db w')"
proof -
  obtain w1 w2 w3 dep w4 w5 dm w6 u1 u2 url where
    project: "project_create (project_row (now w) u dto) w = (Inr p, w1)" and
    vars: "store_env_vars X (p_id p) (pd_envVars dto) w1 = (Inr u1, w2)" and
    url: "generateDeploymentUrl X (p_name p) w2 = (Inr url, w3)" and
    dep: "deployment_create ((snapshot w3 u p c (Some url))\<lparr>d_branch := pd_gitBranch dto\<rparr>) w3 = (Inr dep, w4)" and
    dom: "domain_create (new_domain\<lparr>dom_projectId := p_id p, dom_name := url, dom_createdAt := now w\<rparr>) w4 = (Inr dm, w5)" and
    job: "addBuildJob (initial_job p dto (d_id dep) n c url) w5 = (Inr u2, w')"
    using assms(1) unfolding create_in_tx_def andThen_gets
    by (elim andThen_cases) (auto simp: ret_def)
  have "same_db ids_of w1 w2"
    by (rule keepsD [OF store_env_vars_ids vars])
  moreover have "same_db ids_of w2 w3" by (rule keepsD [OF read_only_same_db(5) url])
  moreover have "same_db ids_of w4 w5" by (rule keepsD [OF domain_create_ids dom])
  moreover have "same_db ids_of w5 w'" by (rule keepsD [OF read_only_same_db(6) job])
  ultimately have before: "deployed_kept w1 w3" and after: "ids_of (db w') = ids_of (db w4)"
    by (auto intro: deployed.trans same_ids_kept simp: same_db_def)
  have "deployed_kept w3 w4" "p_id p \<in> deployed_ids (db w4)"
    using ensuresD [OF deployment_create_deployed _ dep] ensures_valueD [OF deployment_create_deployed _ dep]
    by (simp_all add: snapshot_def)
  with before have kept: "deployed_kept w1 w4" by - (rule deployed.trans)
  have "project_ids (db w4) \<subseteq> deployed_ids (db w4)"
  proof
    fix i assume i: "i \<in> project_ids (db w4)"
    show "i \<in> deployed_ids (db w4)"
    proof (cases "i = p_id p")
      case True
      then show ?thesis using \<open>p_id p \<in> deployed_ids (db w4)\<close> by simp
    next
      case False
      have "i \<in> project_ids (db w1)" using kept i unfolding deployed_kept_def by (elim conjE) (rule subsetD)
      then have "i \<in> deployed_ids (db w1)"
        using False assms(2) project_create_ids [OF project] unfolding all_deployed_def by (simp add: subset_iff)
      with i have "i \<in> project_ids (db w4) \<inter> deployed_ids (db w1)" by (rule IntI)
      then show ?thesis using kept unfolding deployed_kept_def by (elim conjE) (rule subsetD)
    qed
  qed
  then show ?thesis using ids_of_same [OF after] by (simp add: all_deployed_def)
qed

lemma project_create_preserved: "keeps preserves_deployed (projectsService_create X u dto)"
proof -
  have tx: "keeps preserves_deployed (transaction (create_in_tx X u dto n c))" for n c
    by (rule keepsI) (auto simp: transaction_def preserves_deployed_def
        split: prod.splits sum.splits dest: create_in_tx_deployed)
  show ?thesis
    unfolding projectsService_create_def Let_def
    by (intro preserved.keeps_db_intros tx keeps_preserves [OF keeps_same_ids [OF project_reads_ids(2)]])
qed

section \<open>Every reachable database\<close>

lemma discard_preserved: "keeps preserves_deployed m \<Longrightarrow> keeps preserves_deployed (discard m)"
  unfolding discard_def by (intro preserved.keeps_db_intros)

lemmas serve_preserved =
  auth_ids [THEN keeps_same_ids, THEN keeps_preserves]
  resources_ids [THEN keeps_same_ids, THEN keeps_preserves]
  settings_ids [THEN keeps_same_ids, THEN keeps_preserves]
  internal_ids [THEN keeps_same_ids, THEN keeps_preserves]
  project_reads_ids [THEN keeps_same_ids, THEN keeps_preserves]
  deployment_reads_ids [THEN keeps_same_ids, THEN keeps_preserves]
  deployments_deployed [THEN keeps_preserves] webhook_deployed [THEN keeps_preserves]
  remove_deployed [THEN keeps_preserves] project_create_preserved

lemma serve_deployed: "keeps preserves_deployed (serve S r)"
  by (cases r) (simp_all add: discard_preserved serve_preserved)

lemma reachable_deployed: "reachable S w \<Longrightarrow> all_deployed (db w)"
proof (induction rule: reachable.induct)
  case (start r t)
  then show ?case by (simp add: initial_world_def empty_db_def all_deployed_def)
next
  case (step w w')
  from step(2,3) show ?case
  proof (induction rule: server_step.induct)
    case (request w r)
    then show ?case using keeps_run [OF serve_deployed, of w S r] by (simp add: preserves_deployed_def)
  qed simp_all
qed

text \<open>What the lists of the API show of a project: its newest deployment is there.\<close>

lemma view_has_deployment:
  assumes "all_deployed d" and "p \<in> set (projects d)" and "0 < n"
  shows "pv_deployments (view_of d n p) \<noteq> []"
proof -
  obtain r where "r \<in> set (deployments d)" "d_projectId r = p_id p"
    using assms(1,2) unfolding all_deployed_def by fastforce
  then have "r \<in> set (order_desc d_startedAt (filter (\<lambda>r. d_projectId r = p_id p) (deployments d)))" by simp
  then have "order_desc d_startedAt (filter (\<lambda>r. d_projectId r = p_id p) (deployments d)) \<noteq> []"
    by (metis emptyE empty_set)
  then show ?thesis using assms(3) by (simp add: view_of_def prisma_take_def)
qed

end
