(* ===== verification/ProjectPages.thy ===== *)
theory ProjectPages
  imports Dashboard Deployed AnalyticsLaws
begin

text \<open>
  The pages that show projects and deployments: \<open>ProjectHeader.tsx\<close>, \<open>ProjectOverview.tsx\<close>,
  \<open>ProjectCard.tsx\<close>, \<open>ActiveDeployments.tsx\<close>, \<open>DeploymentsTable.tsx\<close>, the project page with its tabs, the
  deployment page and the charts. A component is the function from the rows the API sends to what
  it shows: texts, link targets, which buttons there are and what they call; reading a property of
  \<open>undefined\<close> while rendering throws. The relative time of date-fns is the parameter \<open>ago\<close>.
\<close>

section \<open>Rendering\<close>

datatype render_error = TypeErrorThrown

type_synonym 'a rendered = "render_error + 'a"

record link =
  lk_text :: string
  lk_href :: string

definition template_null :: "string option \<Rightarrow> string" where
  \<comment> \<open>\<open>`${x}`\<close> of a column that can be null\<close>
  "template_null x = (case x of None \<Rightarrow> ''null'' | Some s \<Rightarrow> s)"

definition shown_text :: "string option \<Rightarrow> string" where
  \<comment> \<open>\<open>{x}\<close> in markup: null shows nothing\<close>
  "shown_text x = (case x of None \<Rightarrow> [] | Some s \<Rightarrow> s)"

definition latestDeployment :: "project_view \<Rightarrow> deployment option" where
  "latestDeployment v = head_opt (pv_deployments v)"

definition url_link :: "deployment \<Rightarrow> link" where
  "url_link d = \<lparr>lk_text = shown_text (d_deploymentUrl d), lk_href = template_null (d_deploymentUrl d)\<rparr>"

definition building_or_deploying :: "deployment \<Rightarrow> bool" where
  \<comment> \<open>the pinging dot\<close>
  "building_or_deploying d \<longleftrightarrow> d_status d = BUILDING \<or> d_status d = DEPLOYING"

section \<open>\<open>ProjectHeader\<close>\<close>

record header_view =
  hv_icon :: icon
  hv_name :: string
  hv_ping :: bool
  hv_status :: status_config
  hv_link :: link
  hv_branch :: string
  hv_visit :: string

definition ProjectHeader :: "project_view \<Rightarrow> header_view rendered" where
  "ProjectHeader v =
     (let p = pv_project v; latest = latestDeployment v
      in case latest of
           None \<Rightarrow> Inl TypeErrorThrown
         | Some d \<Rightarrow> Inr \<lparr>hv_icon = getFrameworkIcon (Some (p_framework p)) (Some (p_language p)),
             hv_name = p_name p, hv_ping = building_or_deploying d,
             hv_status = getStatusConfig (map_option d_status latest) 16,
             hv_link = url_link d, hv_branch = p_gitBranch p, hv_visit = template_null (d_deploymentUrl d)\<rparr>)"

record header_state =
  hs_showDeleteAlert :: bool
  hs_isDeleting :: bool
  hs_toasts :: "toast_note list"
  hs_pushed :: "string list"

definition handleDelete ::
    "(uuid \<Rightarrow> 'w call) \<Rightarrow> (api_error \<Rightarrow> string) \<Rightarrow> uuid \<Rightarrow> header_state \<Rightarrow> swr \<Rightarrow> 'w \<Rightarrow> header_state \<times> swr \<times> 'w" where
  \<comment> \<open>\<open>message\<close> is \<open>error.message\<close>; on success the dialog stays open while the page changes\<close>
  "handleDelete delete message i h c w =
     (let h1 = h\<lparr>hs_isDeleting := True\<rparr>; (r, c', w') = deleteProject delete i c w
      in (case r of
            Inr x \<Rightarrow> h1\<lparr>hs_toasts := hs_toasts h @ [ToastSuccess ''Project deleted successfully''],
              hs_pushed := hs_pushed h @ [''/dashboard/projects'']\<rparr>
          | Inl e \<Rightarrow> h1\<lparr>hs_toasts := hs_toasts h @ [ToastError (or_else (Some (message e)) ''Failed to delete project'')],
              hs_isDeleting := False, hs_showDeleteAlert := False\<rparr>, c', w'))"

section \<open>\<open>ProjectOverview\<close>\<close>

definition FRAMEWORKS :: "(string \<times> string) list" where
  "FRAMEWORKS = [(''nextjs'', ''Next.js''), (''nestjs'', ''NestJS''), (''vite'', ''Vite''),
     (''create-react-app'', ''Create React App''), (''vue'', ''Vue.js''), (''express'', ''Express.js''),
     (''angular'', ''Angular''), (''django'', ''Django''), (''flask'', ''Flask''), (''fastapi'', ''FastAPI''),
     (''streamlit'', ''Streamlit''), (''node'', ''Node.js''), (''python'', ''Python''), (''golang'', ''Go''),
     (''fastify'', ''Fastify'')]"

definition framework_label :: "project \<Rightarrow> string" where
  \<comment> \<open>\<open>FRAMEWORKS[project.framework] ?? project.framework\<close>\<close>
  "framework_label p = (case map_of FRAMEWORKS (p_framework p) of Some l \<Rightarrow> l | None \<Rightarrow> p_framework p)"

definition online_badge :: "project \<Rightarrow> string" where
  "online_badge p = (if p_onlineStatus p = DnsACTIVE then ''System Online''
     else if p_onlineStatus p = DnsPENDING then ''Starting Up'' else ''System Offline'')"

definition commitUrl :: "project \<Rightarrow> deployment \<Rightarrow> string" where
  "commitUrl p d = ''https://github.com/'' @ p_gitRepoOwner p @ ''/'' @ p_gitRepoName p @ ''/commit/'' @ d_commitHash d"

definition branchUrl :: "project \<Rightarrow> string" where
  "branchUrl p = p_gitRepoUrl p @ ''/tree/'' @ p_gitBranch p"

record quick_action =
  qa_label :: string
  qa_href :: string
  qa_newTab :: bool

definition quick_actions :: "project \<Rightarrow> deployment \<Rightarrow> quick_action list" where
  "quick_actions p d = map (\<lambda>(label, href). \<lparr>qa_label = label, qa_href = href, qa_newTab = (href \<noteq> ''#'')\<rparr>)
     [(''Visit Production'', template_null (d_deploymentUrl d)),
      (''View Source Code'', or_else (Some (branchUrl p)) ''#''),
      (''View Analytics'', ''?tab=analytics'')]"

record overview_view =
  ow_pipeline :: pipeline_view
  ow_badge :: string
  ow_icon :: icon
  ow_framework :: string
  ow_branch :: link
  ow_url :: link
  ow_commit :: link
  ow_message :: string
  ow_author :: string
  ow_deployed :: string
  ow_actions :: "quick_action list"

definition ProjectOverview :: "(time \<Rightarrow> string) \<Rightarrow> project_view \<Rightarrow> overview_view rendered" where
  "ProjectOverview ago v =
     (let p = pv_project v
      in case latestDeployment v of
           None \<Rightarrow> Inl TypeErrorThrown
         | Some d \<Rightarrow> Inr \<lparr>ow_pipeline = PipelineVisualizer (Some (d_status d)), ow_badge = online_badge p,
             ow_icon = getFrameworkIcon (Some (p_framework p)) (Some (p_language p)),
             ow_framework = framework_label p,
             ow_branch = \<lparr>lk_text = p_gitBranch p, lk_href = branchUrl p\<rparr>,
             ow_url = url_link d,
             ow_commit = \<lparr>lk_text = take 7 (d_commitHash d), lk_href = commitUrl p d\<rparr>,
             ow_message = or_else (d_commitMessage d) ''No commit message'',
             ow_author = or_else (d_commitAuthor d) ''Unknown'',
             ow_deployed = ago (d_startedAt d) @ '' ago'',
             ow_actions = quick_actions p d\<rparr>)"

section \<open>\<open>ProjectCard\<close>, \<open>ActiveDeployments\<close>, \<open>DeploymentsTable\<close>\<close>

record card_view =
  cv_target :: string
  cv_failedGlow :: bool
  cv_icon :: icon
  cv_name :: string
  cv_link :: link
  cv_ping :: bool
  cv_status :: status_config
  cv_branch :: string
  cv_updated :: string

definition ProjectCard :: "(uuid \<Rightarrow> string) \<Rightarrow> (time \<Rightarrow> string) \<Rightarrow> project_view \<Rightarrow> card_view rendered" where
  \<comment> \<open>\<open>ids\<close> is the text of an id\<close>
  "ProjectCard ids ago v =
     (let p = pv_project v; latest = latestDeployment v
      in case latest of
           None \<Rightarrow> Inl TypeErrorThrown
         | Some d \<Rightarrow> Inr \<lparr>cv_target = ''/dashboard/projects/'' @ ids (p_id p),
             cv_failedGlow = (d_status d = FAILED),
             cv_icon = getFrameworkIcon (Some (p_framework p)) (Some (p_language p)),
             cv_name = p_name p, cv_link = url_link d, cv_ping = building_or_deploying d,
             cv_status = getStatusConfig (map_option d_status latest) 16, cv_branch = p_gitBranch p,
             cv_updated = (case latest of Some d \<Rightarrow> ago (d_startedAt d) @ '' ago'' | None \<Rightarrow> ''Never deployed'')\<rparr>)"

record active_row =
  ar_target :: string
  ar_ping :: bool
  ar_name :: "string option"
  ar_hash :: string
  ar_message :: "string option"
  ar_framework :: "string option"
  ar_started :: string

definition ActiveDeployments ::
    "(uuid \<Rightarrow> string) \<Rightarrow> (time \<Rightarrow> string) \<Rightarrow> deployment list \<Rightarrow> project_view list \<Rightarrow> active_row list" where
  \<comment> \<open>the empty list shows "No deployments yet"\<close>
  "ActiveDeployments ids ago ds ps = map (\<lambda>d.
     let project = map_option pv_project (find (\<lambda>v. p_id (pv_project v) = d_projectId d) ps)
     in \<lparr>ar_target = ''/dashboard/deployments/'' @ ids (d_id d), ar_ping = building_or_deploying d,
         ar_name = map_option p_name project, ar_hash = take 7 (d_commitHash d), ar_message = d_commitMessage d,
         ar_framework = map_of FRAMEWORKS (or_else (map_option p_framework project) ''Unknown''),
         ar_started = ago (d_startedAt d) @ '' ago''\<rparr>) (take 4 ds)"

datatype duration_cell = Seconds int | Calculating | NoDuration

definition duration_cell_of :: "deployment \<Rightarrow> duration_cell" where
  \<comment> \<open>\<open>deployment.duration ? ... : ...\<close>: zero is falsy\<close>
  "duration_cell_of d = (case d_duration d of
       Some n \<Rightarrow> if n \<noteq> 0 then Seconds n else if building_or_deploying d then Calculating else NoDuration
     | None \<Rightarrow> if building_or_deploying d then Calculating else NoDuration)"

record table_row =
  tr_target :: string
  tr_status :: status_config
  tr_hash :: string
  tr_message :: "string option"
  tr_branch :: string
  tr_duration :: duration_cell
  tr_started :: string

definition DeploymentsTable :: "(uuid \<Rightarrow> string) \<Rightarrow> (time \<Rightarrow> string) \<Rightarrow> deployment list \<Rightarrow> table_row list" where
  "DeploymentsTable ids ago = map (\<lambda>d. \<lparr>tr_target = ''/dashboard/deployments/'' @ ids (d_id d),
     tr_status = getStatusConfig (Some (d_status d)) 16, tr_hash = take 7 (d_commitHash d),
     tr_message = d_commitMessage d, tr_branch = d_branch d, tr_duration = duration_cell_of d,
     tr_started = ago (d_startedAt d) @ '' ago''\<rparr>)"

section \<open>The project page\<close>

datatype tab_content =
    OverviewTab overview_view
  | DeploymentsTab "table_row list"
  | LogsTab
  | AnalyticsTab
  | StorageTab
  | SettingsTab
  | EmptyTab

datatype project_screen =
    ProjectSkeleton
  | ProjectNotFound
  | ProjectContent header_view bool tab_content \<comment> \<open>with the banner "Configuration Changed" or not\<close>

definition renderTabContent ::
    "(uuid \<Rightarrow> string) \<Rightarrow> (time \<Rightarrow> string) \<Rightarrow> project_view \<Rightarrow> deployment list \<Rightarrow> string \<Rightarrow> tab_content rendered" where
  "renderTabContent ids ago project rows activeTab =
     (if activeTab = ''Overview'' then (case ProjectOverview ago project of Inl e \<Rightarrow> Inl e | Inr x \<Rightarrow> Inr (OverviewTab x))
      else if activeTab = ''Deployments'' then Inr (DeploymentsTab (DeploymentsTable ids ago rows))
      else if activeTab = ''Logs'' then Inr LogsTab
      else if activeTab = ''Analytics'' then Inr AnalyticsTab
      else if activeTab = ''Storage'' then Inr StorageTab
      else if activeTab = ''Settings'' then Inr SettingsTab
      else Inr EmptyTab)"

definition project_by_id :: "uuid \<Rightarrow> project_view list option \<Rightarrow> project_view option" where
  "project_by_id i loaded = Option.bind loaded (find (\<lambda>v. p_id (pv_project v) = i))"

definition ProjectDetail ::
    "(uuid \<Rightarrow> string) \<Rightarrow> (time \<Rightarrow> string) \<Rightarrow> bool \<Rightarrow> bool \<Rightarrow> project_view list option \<Rightarrow> deployment list \<Rightarrow>
     string \<Rightarrow> uuid \<Rightarrow> project_screen rendered" where
  "ProjectDetail ids ago isProjectLoading isDeploymentsLoading loaded rows activeTab projectId =
     (if isProjectLoading \<or> isDeploymentsLoading then Inr ProjectSkeleton
      else case project_by_id projectId loaded of
             None \<Rightarrow> Inr ProjectNotFound
           | Some project \<Rightarrow> (case ProjectHeader project of
                 Inl e \<Rightarrow> Inl e
               | Inr header \<Rightarrow> (case renderTabContent ids ago project rows activeTab of
                     Inl e \<Rightarrow> Inl e
                   | Inr content \<Rightarrow> Inr (ProjectContent header (p_configChanged (pv_project project)) content))))"

record tab_state =
  ts_active :: string
  ts_query :: "string option" \<comment> \<open>the parameter \<open>tab\<close> of the address\<close>

definition handleTabChange :: "string \<Rightarrow> tab_state \<Rightarrow> tab_state" where
  "handleTabChange tab s = s\<lparr>ts_active := tab, ts_query := Some (map to_lower tab)\<rparr>"

definition handlePopState :: "tab_state \<Rightarrow> tab_state" where
  "handlePopState s = (if truthy_opt (ts_query s)
     then (case find (\<lambda>t. map to_lower t = map to_lower (the (ts_query s))) project_tabs of
             Some found \<Rightarrow> s\<lparr>ts_active := found\<rparr> | None \<Rightarrow> s)
     else s)"

definition latestDeploymentId :: "deployment list \<Rightarrow> uuid option" where
  "latestDeploymentId rows = (if 0 < length rows then Some (d_id (hd rows)) else None)"

section \<open>The deployment page\<close>

datatype page_action = CancelButton | RedeployButton

datatype preview_pane = SitePreviewOf string | BuildingPane | NoPreviewPane

definition running_text :: string where
  "running_text = ''Running'' @ ellipsis"

definition duration_text :: "deployment \<Rightarrow> string option" where
  \<comment> \<open>\<open>None\<close> is the dash\<close>
  "duration_text d = (case d_duration d of
       Some n \<Rightarrow> if n \<noteq> 0 then Some (formatDuration n) else if isActive (d_status d) then Some running_text else None
     | None \<Rightarrow> if isActive (d_status d) then Some running_text else None)"

definition logs_badge :: "deployment \<Rightarrow> string option" where
  \<comment> \<open>\<open>{deployment.duration && ...}\<close>: zero is falsy, but shown\<close>
  "logs_badge d = (case d_duration d of
       None \<Rightarrow> None | Some n \<Rightarrow> Some (if n = 0 then ''0'' else formatDuration n))"

record domain_row =
  dr_link :: link
  dr_primary :: bool
  dr_isCopied :: bool

definition DomainRow :: "deployment \<Rightarrow> string option \<Rightarrow> domain \<Rightarrow> domain_row" where
  "DomainRow d copied m = \<lparr>dr_link = \<lparr>lk_text = dom_name m, lk_href = dom_name m\<rparr>,
     dr_primary = (Some (dom_name m) = d_deploymentUrl d), dr_isCopied = (copied = Some (dom_name m))\<rparr>"

definition SettingsRow :: "string \<Rightarrow> string option \<Rightarrow> (string \<times> string) list" where
  \<comment> \<open>nothing when the value is falsy\<close>
  "SettingsRow label value = (if truthy_opt value then [(label, the value)] else [])"

definition machineOS :: string where
  \<comment> \<open>the default of the column, which nothing writes\<close>
  "machineOS = ''Ubuntu 22.04 LTS''"

definition deployment_settings :: "project \<Rightarrow> deployment \<Rightarrow> (string \<times> string) list" where
  "deployment_settings p d = concat [SettingsRow ''Framework'' (Some (p_framework p)),
     SettingsRow ''Region'' (Some (d_deploymentRegion d)), SettingsRow ''OS'' (Some machineOS),
     SettingsRow ''Branch'' (Some (d_branch d)), SettingsRow ''Build Command'' (p_buildCommand p),
     SettingsRow ''Install Command'' (p_installCommand p), SettingsRow ''Output Directory'' (p_outputDirectory p),
     SettingsRow ''Root Directory'' (Some (or_else (Some (p_rootDirectory p)) ''./''))]"

definition environment_lower :: "environment_type \<Rightarrow> string" where
  "environment_lower e = (case e of PRODUCTION \<Rightarrow> ''production'' | PREVIEW \<Rightarrow> ''preview'' | DEVELOPMENT \<Rightarrow> ''development'')"

record date_texts =
  dt_ago :: "time \<Rightarrow> string" \<comment> \<open>\<open>formatDistanceToNow\<close>\<close>
  dt_day :: "time \<Rightarrow> string" \<comment> \<open>\<open>toLocaleDateString\<close> with the options of the page\<close>
  dt_moment :: "time \<Rightarrow> string" \<comment> \<open>\<open>toLocaleString\<close> with its options\<close>

definition deployment_summary :: "date_texts \<Rightarrow> string \<Rightarrow> deployment \<Rightarrow> (string \<times> string) list" where
  "deployment_summary fmt deploymentId d = concat [SettingsRow ''Deployment ID'' (Some (take 12 deploymentId)),
     SettingsRow ''Environment'' (Some (environment_lower (d_environment d))),
     SettingsRow ''Region'' (Some (d_deploymentRegion d)), SettingsRow ''Author'' (d_commitAuthor d),
     SettingsRow ''Started'' (Some (dt_moment fmt (d_startedAt d))),
     (case d_finishedAt d of None \<Rightarrow> [] | Some t \<Rightarrow> SettingsRow ''Finished'' (Some (dt_moment fmt t)))]"

definition quick_links :: "(uuid \<Rightarrow> string) \<Rightarrow> deployment \<Rightarrow> (string \<times> string) list" where
  "quick_links ids d = map (\<lambda>(title, tab). (title, ''/dashboard/projects/'' @ ids (d_projectId d) @ ''?tab='' @ tab))
     [(''Runtime Logs'', ''logs''), (''Monitoring'', ''monitoring''), (''Project Settings'', ''settings'')]"

record details_view =
  dv_name :: string
  dv_shortId :: string
  dv_status :: status_config
  dv_ping :: bool
  dv_branch :: string
  dv_hash :: string
  dv_ago :: string
  dv_livePreview :: "string option"
  dv_action :: page_action
  dv_pane :: preview_pane
  dv_created :: "string \<times> string"
  dv_duration :: "string option"
  dv_environment :: string
  dv_domains :: "domain_row list"
  dv_source :: "link list"
  dv_settingsBadge :: "string \<times> string"
  dv_settings :: "(string \<times> string) list"
  dv_logsBadge :: "string option"
  dv_logsDot :: dot
  dv_summaryAuthor :: "string option"
  dv_summary :: "(string \<times> string) list"
  dv_sslNote :: bool
  dv_quickLinks :: "(string \<times> string) list"

datatype details_screen = DetailsSkeleton | DeploymentNotFound | Details details_view

definition details_of ::
    "(uuid \<Rightarrow> string) \<Rightarrow> date_texts \<Rightarrow> string option \<Rightarrow> string \<Rightarrow> deployment \<Rightarrow> project_view \<Rightarrow> details_view" where
  "details_of ids fmt copied deploymentId d v =
     (let p = pv_project v; s = d_status d
      in \<lparr>dv_name = p_name p, dv_shortId = take 8 deploymentId, dv_status = getStatusConfig (Some s) 24,
          dv_ping = isActive s, dv_branch = d_branch d, dv_hash = take 7 (d_commitHash d),
          dv_ago = dt_ago fmt (d_startedAt d) @ '' ago'',
          dv_livePreview = (if isReady s then Some (template_null (d_deploymentUrl d)) else None),
          dv_action = (if canCancel s then CancelButton else RedeployButton),
          dv_pane = (if isReady s then SitePreviewOf (template_null (d_deploymentUrl d))
                     else if isActive s then BuildingPane else NoPreviewPane),
          dv_created = (dt_day fmt (d_startedAt d), dt_ago fmt (d_startedAt d) @ '' ago''),
          dv_duration = duration_text d, dv_environment = environment_lower (d_environment d),
          dv_domains = map (DomainRow d copied) (pv_domains v),
          dv_source = [\<lparr>lk_text = d_branch d, lk_href = branchUrl p\<rparr>,
            \<lparr>lk_text = take 7 (d_commitHash d) @ shown_text (or_undefined (d_commitMessage d)), lk_href = commitUrl p d\<rparr>],
          dv_settingsBadge = (p_framework p, d_deploymentRegion d),
          dv_settings = deployment_settings p d, dv_logsBadge = logs_badge d, dv_logsDot = StatusDot s,
          dv_summaryAuthor = or_undefined (d_commitAuthor d), dv_summary = deployment_summary fmt deploymentId d, dv_sslNote = isReady s,
          dv_quickLinks = quick_links ids d\<rparr>)"

definition DeploymentDetails ::
    "(uuid \<Rightarrow> string) \<Rightarrow> date_texts \<Rightarrow> bool \<Rightarrow> bool \<Rightarrow> deployment option \<Rightarrow> project_view list option \<Rightarrow>
     string option \<Rightarrow> string \<Rightarrow> details_screen" where
  "DeploymentDetails ids fmt isDeploymentsLoading isProjectsLoading found loaded copied deploymentId =
     (if isDeploymentsLoading \<or> isProjectsLoading then DetailsSkeleton
      else case found of
             None \<Rightarrow> DeploymentNotFound
           | Some d \<Rightarrow> (case project_by_id (d_projectId d) loaded of
                 None \<Rightarrow> DeploymentNotFound
               | Some v \<Rightarrow> Details (details_of ids fmt copied deploymentId d v)))"

definition handleRedeploy ::
    "(uuid \<Rightarrow> string) \<Rightarrow> (uuid \<Rightarrow> 'w \<Rightarrow> (api_error + deployment) \<times> 'w) \<Rightarrow> uuid \<Rightarrow> deploy_hook \<Rightarrow> 'w \<Rightarrow>
     string option \<times> deploy_hook \<times> 'w" where
  \<comment> \<open>the page it goes to, when there is a new deployment\<close>
  "handleRedeploy ids post i h w =
     (let (new, h', w') = redeploy post i h w
      in (map_option (\<lambda>d. ''/dashboard/deployments/'' @ ids (d_id d)) new, h', w'))"

record copier =
  co_copied :: "string option"
  co_timers :: nat
  co_toasts :: "toast_note list"

definition handleCopy :: "string \<Rightarrow> copier \<Rightarrow> copier" where
  "handleCopy key c = c\<lparr>co_copied := Some key, co_timers := Suc (co_timers c),
     co_toasts := co_toasts c @ [ToastSuccess ''Copied to clipboard!'']\<rparr>"

definition copy_timeout :: "copier \<Rightarrow> copier" where
  \<comment> \<open>the timer of an earlier copy also clears the mark of a later one\<close>
  "copy_timeout c = (if co_timers c = 0 then c else c\<lparr>co_copied := None, co_timers := co_timers c - 1\<rparr>)"

datatype preview_status = PreviewLoading | PreviewReady | PreviewError

definition screenshotUrl :: "(string \<Rightarrow> string) \<Rightarrow> string \<Rightarrow> string" where
  \<comment> \<open>the parameter is \<open>encodeURIComponent\<close>\<close>
  "screenshotUrl enc url = ''https://api.microlink.io?url='' @ enc url @
     ''&screenshot=true&meta=false&embed=screenshot.url&viewport.width=1280&viewport.height=800''"

section \<open>Charts\<close>

definition slice_last :: "nat \<Rightarrow> 'a list \<Rightarrow> 'a list" where
  \<comment> \<open>\<open>xs.slice(-n)\<close>\<close>
  "slice_last n xs = drop (length xs - n) xs"

definition local_day :: "int \<Rightarrow> int \<Rightarrow> int" where
  \<comment> \<open>the calendar day \<open>new Date("YYYY-MM-DD").toLocaleDateString()\<close> names, with the browser's offset
     from UTC in milliseconds: the text is read as midnight UTC\<close>
  "local_day offset k = (k * day_ms + offset) div day_ms"

definition deploymentChartData :: "int \<Rightarrow> day_count list \<Rightarrow> (int \<times> nat \<times> nat \<times> nat) list" where
  \<comment> \<open>day, successful, failed, total\<close>
  "deploymentChartData offset ds =
     map (\<lambda>d. (local_day offset (dc_date d), dc_success d, dc_failed d, dc_total d)) (slice_last 14 ds)"

definition buildTimeChartData :: "int \<Rightarrow> (int \<times> int) list \<Rightarrow> (int \<times> int) list" where
  "buildTimeChartData offset trend =
     map (\<lambda>(k, n). (local_day offset k, n)) (filter (\<lambda>(k, n). 0 < n) (slice_last 14 trend))"

definition STATUS_COLORS :: "(deployment_status \<times> string) list" where
  "STATUS_COLORS = [(READY, ''hsl(142, 71%, 45%)''), (FAILED, ''hsl(0, 84%, 60%)''), (BUILDING, ''hsl(43, 96%, 56%)''),
     (DEPLOYING, ''hsl(217, 91%, 60%)''), (QUEUED, ''hsl(240, 5%, 55%)''), (CANCELED, ''hsl(25, 95%, 53%)''),
     (EXPIRED, ''hsl(280, 67%, 50%)'')]"

definition statusPieData :: "(deployment_status \<times> nat) list \<Rightarrow> (deployment_status \<times> nat \<times> string) list" where
  \<comment> \<open>from the entries of the distribution\<close>
  "statusPieData entries = map (\<lambda>(s, n). (s, n, or_else (map_of STATUS_COLORS s) ''hsl(240, 5%, 55%)''))
     (filter (\<lambda>(s, n). 0 < n) entries)"

record kpi =
  kp_label :: string
  kp_value :: string
  kp_subtext :: string

definition kpi_cards :: "project_analytics \<Rightarrow> kpi list" where
  \<comment> \<open>the subtext of the success rate is a bar of that width\<close>
  "kpi_cards a = [
     \<lparr>kp_label = ''Total Deployments'', kp_value = nat_to_string (pa_totalDeployments a),
      kp_subtext = ''+'' @ nat_to_string (pa_deploymentsThisWeek a) @ '' this week''\<rparr>,
     \<lparr>kp_label = ''Avg Build Time'', kp_value = formatDuration_panel (pa_avgBuildTime a),
      kp_subtext = ''Fastest: '' @ formatDuration_panel (pa_fastestBuild a)\<rparr>,
     \<lparr>kp_label = ''Success Rate'', kp_value = int_to_string (pa_successRate a) @ ''%'',
      kp_subtext = int_to_string (pa_successRate a) @ ''%''\<rparr>,
     \<lparr>kp_label = ''Slowest Build'', kp_value = formatDuration_panel (pa_slowestBuild a),
      kp_subtext = ''vs avg '' @ formatDuration_panel (pa_avgBuildTime a)\<rparr>]"

record activity_row =
  ac_hash :: string
  ac_message :: string
  ac_where :: string
  ac_duration :: "string option"
  ac_status :: status_config

definition recent_rows :: "(time \<Rightarrow> string) \<Rightarrow> recent_deployment list \<Rightarrow> activity_row list" where
  "recent_rows ago = map (\<lambda>r. \<lparr>ac_hash = take 7 (rd_commitHash r),
     ac_message = or_else (rd_commitMessage r) ''No commit message'',
     ac_where = rd_branch r @ '' '' @ [CHR 0xC2, CHR 0xB7] @ '' '' @ ago (rd_startedAt r) @ '' ago'',
     ac_duration = map_option formatDuration_panel (rd_duration r),
     ac_status = getStatusConfig (Some (rd_status r)) 16\<rparr>)"

section \<open>Side bar\<close>

definition menuItems :: "(string \<times> string) list" where
  "menuItems = [(''Overview'', ''/dashboard''), (''Projects'', ''/dashboard/projects''),
     (''Deployments'', ''/dashboard/deployments''), (''Settings'', ''/dashboard/settings'')]"

definition menu_active :: "string \<Rightarrow> string \<Rightarrow> bool" where
  "menu_active pathname path \<longleftrightarrow>
     pathname = path \<or> (starts_with (path @ ''/'') pathname \<and> path \<noteq> ''/dashboard'')"

end
