(* ===== verification/ListPages.thy ===== *)
theory ListPages
  imports ProjectPages
begin

text \<open>
  The pages that list things: the terminal of \<open>TerminalLogs.tsx\<close>, the project and deployment
  lists with their filters, the dashboard, the sign-in page, the side bar with the store behind
  it, and the results of the command palette. Each has its local state, its callbacks, and the
  function from the state and the rows the API sends to what it shows.
\<close>

section \<open>Terminal\<close>

record terminal =
  tm_fullscreen :: bool
  tm_query :: string
  tm_filter :: "log_type option" \<comment> \<open>no type is the filter "all"\<close>
  tm_autoScroll :: bool
  tm_clipboard :: "string option"
  tm_downloads :: "(string \<times> string) list"
  tm_toasts :: "toast_note list"

definition terminal_init :: terminal where
  "terminal_init = \<lparr>tm_fullscreen = False, tm_query = [], tm_filter = None, tm_autoScroll = True,
     tm_clipboard = None, tm_downloads = [], tm_toasts = []\<rparr>"

definition terminal_copy :: "(time \<Rightarrow> string) \<Rightarrow> log_entry list \<Rightarrow> terminal \<Rightarrow> terminal" where
  "terminal_copy fmt logs t = t\<lparr>tm_clipboard := Some (logText fmt logs),
     tm_toasts := tm_toasts t @ [ToastSuccess ''Logs copied to clipboard'']\<rparr>"

definition terminal_download :: "(time \<Rightarrow> string) \<Rightarrow> string \<Rightarrow> log_entry list \<Rightarrow> terminal \<Rightarrow> terminal" where
  "terminal_download fmt projectName logs t =
     t\<lparr>tm_downloads := tm_downloads t @ [(projectName @ ''-logs.txt'', logText fmt logs)],
       tm_toasts := tm_toasts t @ [ToastSuccess ''Logs downloaded'']\<rparr>"

definition check_mark :: string where
  "check_mark = [CHR 0xE2, CHR 0x9C, CHR 0x93]"

definition cross_mark :: string where
  "cross_mark = [CHR 0xE2, CHR 0x9C, CHR 0x97]"

definition warning_sign :: string where
  "warning_sign = [CHR 0xE2, CHR 0x9A, CHR 0xA0]"

definition em_dash :: string where
  "em_dash = [CHR 0xE2, CHR 0x80, CHR 0x94]"

fun log_mark :: "log_type \<Rightarrow> string" where
  "log_mark LogSuccess = check_mark @ '' ''"
| "log_mark LogError = cross_mark @ '' ''"
| "log_mark LogWarning = warning_sign @ '' ''"
| "log_mark LogInfo = []"

datatype terminal_body = Connecting | NoOutput | Lines "(string \<times> log_type \<times> string) list"

record terminal_view =
  tv_fullscreen :: bool
  tv_title :: string
  tv_live :: bool
  tv_query :: string
  tv_filters :: "(string \<times> bool) list"
  tv_autoScroll :: bool
  tv_body :: terminal_body
  tv_stats :: string
  tv_count :: string

definition terminal_stats :: "nat \<times> nat \<times> nat \<Rightarrow> string" where
  \<comment> \<open>the separator is a bullet (U+2022)\<close>
  "terminal_stats = (\<lambda>(success, error, warning).
     let sep = '' '' @ [CHR 0xE2, CHR 0x80, CHR 0xA2] @ '' ''
     in check_mark @ '' '' @ nat_to_string success @ sep @ warning_sign @ '' '' @ nat_to_string warning @ sep @
        cross_mark @ '' '' @ nat_to_string error)"

definition filter_buttons :: "(string \<times> log_type option) list" where
  "filter_buttons = [(''all'', None), (''success'', Some LogSuccess), (''error'', Some LogError),
     (''warning'', Some LogWarning), (''info'', Some LogInfo)]"

definition TerminalLogs ::
    "(time \<Rightarrow> string) \<Rightarrow> log_entry list \<Rightarrow> string \<Rightarrow> bool \<Rightarrow> log_source option \<Rightarrow> bool \<Rightarrow> terminal \<Rightarrow> terminal_view" where
  "TerminalLogs fmt logs projectName isLive logSource isLoading t =
     (let enriched = enrichedLogs fmt logs; filtered = filteredLogs (tm_filter t) (tm_query t) enriched
      in \<lparr>tv_fullscreen = tm_fullscreen t, tv_title = projectName @ '' '' @ em_dash @ '' '' @ (if logSource = Some BUILD then ''Build'' else ''Runtime'') @ '' Logs'',
          tv_live = isLive, tv_query = tm_query t,
          tv_filters = map (\<lambda>(label, f). (label, tm_filter t = f)) filter_buttons, tv_autoScroll = tm_autoScroll t,
          tv_body = (if isLoading \<and> logs = [] then Connecting
                     else if filtered = [] then NoOutput
                     else Lines (map (\<lambda>(l, ty, time). (''['' @ time @ '']'', ty, log_mark ty @ log_message l)) filtered)),
          tv_stats = terminal_stats (log_stats enriched),
          tv_count = nat_to_string (length filtered) @ '' / '' @ nat_to_string (length logs) @ '' logs''\<rparr>)"

section \<open>The list of projects\<close>

record projects_page =
  pp_newProjectOpen :: bool
  pp_searchQuery :: string
  pp_grid :: bool \<comment> \<open>\<open>viewMode\<close>: grid or list\<close>
  pp_selectedStatus :: "deployment_status list"

definition projects_page_init :: projects_page where
  "projects_page_init = \<lparr>pp_newProjectOpen = False, pp_searchQuery = [], pp_grid = True, pp_selectedStatus = []\<rparr>"

definition clearFilters :: "projects_page \<Rightarrow> projects_page" where
  "clearFilters s = s\<lparr>pp_selectedStatus := []\<rparr>"

definition clear_search_and_filters :: "projects_page \<Rightarrow> projects_page" where
  "clear_search_and_filters s = clearFilters (s\<lparr>pp_searchQuery := []\<rparr>)"

datatype projects_event =
  SetDialog bool | SetSearch string | SetGrid bool | ToggleStatus deployment_status | ClearFilters | ClearAll

fun projects_step :: "projects_event \<Rightarrow> projects_page \<Rightarrow> projects_page" where
  "projects_step (SetDialog b) s = s\<lparr>pp_newProjectOpen := b\<rparr>"
| "projects_step (SetSearch q) s = s\<lparr>pp_searchQuery := q\<rparr>"
| "projects_step (SetGrid b) s = s\<lparr>pp_grid := b\<rparr>"
| "projects_step (ToggleStatus x) s = s\<lparr>pp_selectedStatus := toggleStatus x (pp_selectedStatus s)\<rparr>"
| "projects_step ClearFilters s = clearFilters s"
| "projects_step ClearAll s = clear_search_and_filters s"

fun rendered_all :: "('a \<Rightarrow> 'b rendered) \<Rightarrow> 'a list \<Rightarrow> 'b list rendered" where
  \<comment> \<open>a list of components: one that throws takes the page with it\<close>
  "rendered_all f [] = Inr []"
| "rendered_all f (x # xs) = (case f x of Inl e \<Rightarrow> Inl e
     | Inr y \<Rightarrow> (case rendered_all f xs of Inl e \<Rightarrow> Inl e | Inr ys \<Rightarrow> Inr (y # ys)))"

definition filter_badge :: "deployment_status list \<Rightarrow> nat option" where
  "filter_badge selected = (if selected = [] then None else Some (length selected))"

definition filter_boxes :: "deployment_status list \<Rightarrow> (string \<times> bool) list" where
  "filter_boxes selected = map (\<lambda>(s, label). (label, s \<in> set selected)) STATUS_OPTIONS"

record projects_view =
  pj_clearSearch :: bool
  pj_badge :: "nat option"
  pj_boxes :: "(string \<times> bool) list"
  pj_clear :: bool
  pj_showing :: nat
  pj_grid :: bool
  pj_cards :: "card_view list"
  pj_noneFound :: bool
  pj_createFirst :: bool
  pj_dialogOpen :: bool

definition Projects ::
    "(uuid \<Rightarrow> string) \<Rightarrow> (time \<Rightarrow> string) \<Rightarrow> project_view list option \<Rightarrow> projects_page \<Rightarrow> projects_view rendered" where
  "Projects ids ago loaded s =
     (let filtered = filteredProjects (pp_searchQuery s) (pp_selectedStatus s) loaded; hasActiveFilters = (pp_selectedStatus s \<noteq> [])
      in case rendered_all (ProjectCard ids ago) filtered of
           Inl e \<Rightarrow> Inl e
         | Inr cards \<Rightarrow> Inr \<lparr>pj_clearSearch = (pp_searchQuery s \<noteq> []), pj_badge = filter_badge (pp_selectedStatus s), pj_boxes = filter_boxes (pp_selectedStatus s),
             pj_clear = hasActiveFilters, pj_showing = length filtered, pj_grid = pp_grid s, pj_cards = cards,
             pj_noneFound = (case loaded of None \<Rightarrow> False | Some ps \<Rightarrow> ps \<noteq> [] \<and> filtered = []),
             pj_createFirst = (loaded = Some []), pj_dialogOpen = pp_newProjectOpen s\<rparr>)"

section \<open>The list of deployments\<close>

record deployments_page =
  dp_searchQuery :: string
  dp_statusFilter :: "deployment_status list"

datatype deployments_event = SearchFor string | ToggleFilter deployment_status | ClearFilter

fun deployments_step :: "deployments_event \<Rightarrow> deployments_page \<Rightarrow> deployments_page" where
  "deployments_step (SearchFor q) s = s\<lparr>dp_searchQuery := q\<rparr>"
| "deployments_step (ToggleFilter x) s = s\<lparr>dp_statusFilter := toggleStatus x (dp_statusFilter s)\<rparr>"
| "deployments_step ClearFilter s = s\<lparr>dp_statusFilter := []\<rparr>"

record deployment_line =
  dl_target :: string
  dl_icon :: icon
  dl_project :: "string option"
  dl_environment :: string
  dl_status :: status_config
  dl_hash :: string
  dl_message :: "string option"
  dl_branch :: string
  dl_runtime :: "string option"
  dl_duration :: duration_cell
  dl_triggered :: string

definition deployment_line_of :: "(uuid \<Rightarrow> string) \<Rightarrow> (time \<Rightarrow> string) \<Rightarrow> deployment \<times> project_view option \<Rightarrow> deployment_line" where
  \<comment> \<open>the duration of a cell with seconds is shown by \<open>formatDuration\<close>\<close>
  "deployment_line_of ids ago = (\<lambda>(d, v). let p = map_option pv_project v
     in \<lparr>dl_target = ''/dashboard/deployments/'' @ ids (d_id d),
         dl_icon = getFrameworkIcon (Some (or_else (map_option p_framework p) [])) (Some (or_else (map_option p_language p) [])),
         dl_project = map_option p_name p, dl_environment = environment_lower (d_environment d),
         dl_status = getStatusConfig (Some (d_status d)) 16, dl_hash = take 7 (d_commitHash d),
         dl_message = d_commitMessage d, dl_branch = d_branch d, dl_runtime = map_option p_language p,
         dl_duration = duration_cell_of d, dl_triggered = ago (d_startedAt d) @ '' ago''\<rparr>)"

record deployments_view =
  de_clearSearch :: bool
  de_badge :: "nat option"
  de_boxes :: "(string \<times> bool) list"
  de_clear :: bool
  de_lines :: "deployment_line list"
  de_skeletons :: nat
  de_noneFound :: bool

definition Deployments ::
    "(uuid \<Rightarrow> string) \<Rightarrow> (time \<Rightarrow> string) \<Rightarrow> bool \<Rightarrow> bool \<Rightarrow> deployment list \<Rightarrow> project_view list option \<Rightarrow>
     deployments_page \<Rightarrow> deployments_view" where
  "Deployments ids ago isDeploymentsLoading isProjectsLoading rows loaded s =
     (let filtered = filteredDeployments (dp_searchQuery s) (dp_statusFilter s) (enrichedDeployments rows loaded)
      in \<lparr>de_clearSearch = (dp_searchQuery s \<noteq> []), de_badge = filter_badge (dp_statusFilter s), de_boxes = filter_boxes (dp_statusFilter s),
          de_clear = (dp_statusFilter s \<noteq> []),
          de_lines = map (deployment_line_of ids ago) filtered,
          de_skeletons = (if isDeploymentsLoading \<or> isProjectsLoading then 5 else 0),
          de_noneFound = (\<not> isDeploymentsLoading \<and> \<not> isProjectsLoading \<and> filtered = [])\<rparr>)"

section \<open>The dashboard\<close>

record dashboard_view =
  da_name :: "string option" \<comment> \<open>\<open>None\<close> is the skeleton, here and below\<close>
  da_chart :: "((int \<times> nat \<times> nat \<times> nat) list \<times> nat) option"
  da_active :: "active_row list option"
  da_stats :: "(string \<times> string \<times> string) option"
  da_empty :: bool
  da_cardSkeletons :: nat
  da_cards :: "card_view list"

definition dashboard_stats :: "(nat \<Rightarrow> string) \<Rightarrow> overview option \<Rightarrow> string \<times> string \<times> string" where
  \<comment> \<open>total, this week, average build time; \<open>local\<close> is \<open>toLocaleString\<close>\<close>
  "dashboard_stats local analytics =
     (or_else (map_option (\<lambda>a. local (ov_totalDeployments a)) analytics) ''0'',
      ''+'' @ nat_to_string (case analytics of None \<Rightarrow> 0 | Some a \<Rightarrow> ov_deploymentsThisWeek a) @ '' this week'',
      (case analytics of None \<Rightarrow> em_dash
       | Some a \<Rightarrow> if ov_avgBuildTime a \<noteq> 0 then formatDuration_dashboard (ov_avgBuildTime a) else em_dash))"

definition Dashboard_page ::
    "(uuid \<Rightarrow> string) \<Rightarrow> (time \<Rightarrow> string) \<Rightarrow> (nat \<Rightarrow> string) \<Rightarrow> int \<Rightarrow> bool \<Rightarrow> string option \<Rightarrow> bool \<Rightarrow> project_view list option \<Rightarrow>
     bool \<Rightarrow> deployment list \<Rightarrow> bool \<Rightarrow> overview option \<Rightarrow> dashboard_view rendered" where
  \<comment> \<open>the name of the user, if there is one; projects, deployments and analytics with their loading flags\<close>
  "Dashboard_page ids ago local offset isUserLoading user isProjectsLoading loaded isDeploymentsLoading rows isAnalyticsLoading analytics =
     (let isStatsLoading = (isProjectsLoading \<or> isAnalyticsLoading);
          ps = (case loaded of None \<Rightarrow> [] | Some ps \<Rightarrow> ps);
          grid = (isProjectsLoading \<or> (loaded \<noteq> None \<and> ps \<noteq> []))
      in case rendered_all (ProjectCard ids ago) (if grid then ps else []) of
           Inl e \<Rightarrow> Inl e
         | Inr cards \<Rightarrow> Inr
             \<lparr>da_name = (if isUserLoading then None else user),
              da_chart = (if isStatsLoading then None else Some
                (case analytics of None \<Rightarrow> ([], 0)
                 | Some a \<Rightarrow> (deploymentChartData offset (ov_deploymentsOverTime a), ov_deploymentsThisWeek a))),
              da_active = (if isDeploymentsLoading \<or> isProjectsLoading then None else Some (ActiveDeployments ids ago rows ps)),
              da_stats = (if isStatsLoading then None else Some (dashboard_stats local analytics)),
              da_empty = (loaded = Some [] \<and> \<not> isProjectsLoading),
              da_cardSkeletons = (if isProjectsLoading then 4 else 0), da_cards = cards\<rparr>)"

end
