(* ===== verification/ControlPages.thy ===== *)
theory ControlPages
  imports ListPages SettingsPage
begin

text \<open>
  The remaining pages and dialogs with their controls: sign-in, side bar and command palette with
  the store behind them (\<open>useMockStore.ts\<close>), the variables and domains panel, the settings page,
  and the creation wizard with its directory selector. What is shown is a function of the local
  state and the data; what a control does is a step of the state.
\<close>

section \<open>Sign-in page\<close>

record auth_page =
  ag_isLogin :: bool
  ag_loading :: bool
  ag_showPassword :: bool
  ag_toasts :: "toast_note list"

definition auth_page_init :: auth_page where
  "auth_page_init = \<lparr>ag_isLogin = True, ag_loading = False, ag_showPassword = False, ag_toasts = []\<rparr>"

definition auth_done :: "string option \<Rightarrow> auth_page \<Rightarrow> auth_page" where
  \<comment> \<open>the end of \<open>onSubmit\<close>, with the message of the error, if one was thrown\<close>
  "auth_done thrown g = g\<lparr>ag_loading := False, ag_toasts := ag_toasts g @
     [case thrown of None \<Rightarrow> ToastSuccess (if ag_isLogin g then ''Welcome back!'' else ''Welcome aboard!'')
      | Some message \<Rightarrow> ToastError (or_else (Some message) ''Authentication Failed'')]\<rparr>"

record auth_view =
  au_tagline :: string
  au_nameField :: bool
  au_errors :: "string list"
  au_passwordType :: string
  au_submit :: "string option" \<comment> \<open>\<open>None\<close> is the spinner\<close>
  au_disabled :: bool
  au_question :: string
  au_toggle :: string

definition AuthPage :: "(string \<Rightarrow> string option) \<Rightarrow> auth_page \<Rightarrow> auth_view" where
  \<comment> \<open>with the messages of the form for its fields\<close>
  "AuthPage errors g =
     \<lparr>au_tagline = (if ag_isLogin g then ''Welcome back, deployer'' else ''Join the future of DevOps''),
      au_nameField = (\<not> ag_isLogin g),
      au_errors = map (\<lambda>k. the (errors k)) (filter (\<lambda>k. truthy_opt (errors k))
        ((if ag_isLogin g then [] else [''name'']) @ [''email'', ''password''])), au_passwordType = (if ag_showPassword g then ''text'' else ''password''),
      au_submit = (if ag_loading g then None else Some (if ag_isLogin g then ''Access Console'' else ''Initialize Account'')),
      au_disabled = ag_loading g,
      au_question = (if ag_isLogin g then ''First time deploying?'' else ''Already initialized?''),
      au_toggle = (if ag_isLogin g then ''Create credentials'' else ''Log in'')\<rparr>"

definition provider_url :: "string \<Rightarrow> string \<Rightarrow> string" where
  "provider_url apiUrl provider = apiUrl @ ''/auth/'' @ provider"

section \<open>The store of the interface\<close>

record analytics_point =
  ap_time :: string
  ap_requests :: nat
  ap_bandwidth :: nat

definition generateAnalytics :: "(nat \<Rightarrow> nat \<Rightarrow> nat) \<Rightarrow> analytics_point list" where
  \<comment> \<open>\<open>random k n\<close> is \<open>Math.floor(Math.random() * n)\<close> for the \<open>k\<close>-th number drawn\<close>
  "generateAnalytics random = map (\<lambda>i. \<lparr>ap_time = nat_to_string i @ ''h'',
     ap_requests = random (2 * (23 - i)) 5000 + 1000, ap_bandwidth = random (2 * (23 - i) + 1) 500 + 100\<rparr>) (rev [0 ..< 24])"

record ui_store =
  us_selectedProjectId :: "string option"
  us_sidebarCollapsed :: bool
  us_commandPaletteOpen :: bool
  us_loading :: bool

definition toggleSidebar :: "ui_store \<Rightarrow> ui_store" where
  "toggleSidebar s = s\<lparr>us_sidebarCollapsed := \<not> us_sidebarCollapsed s\<rparr>"

definition toggleCommandPalette :: "ui_store \<Rightarrow> ui_store" where
  "toggleCommandPalette s = s\<lparr>us_commandPaletteOpen := \<not> us_commandPaletteOpen s\<rparr>"

definition sidebar_keydown :: "bool \<Rightarrow> bool \<Rightarrow> string \<Rightarrow> ui_store \<Rightarrow> ui_store" where
  \<comment> \<open>the shortcut of the side bar: Ctrl-K or Command-K\<close>
  "sidebar_keydown metaKey ctrlKey k s =
     (if (metaKey \<or> ctrlKey) \<and> (k = ''k'' \<or> k = ''K'') then toggleCommandPalette s else s)"

section \<open>Side bar\<close>

record web_user =
  wu_email :: string
  wu_name :: "string option"
  wu_avatar :: "string option"

record menu_entry =
  me_label :: string
  me_path :: string
  me_active :: bool

datatype sidebar_footer =
    IdCard "(char option \<times> string \<times> string) option" \<comment> \<open>initial, name and address; \<open>None\<close> is the skeleton\<close>
  | PowerButton

record sidebar_view =
  sb_width :: nat
  sb_labels :: bool
  sb_menu :: "menu_entry list"
  sb_footer :: sidebar_footer

definition Sidebar :: "bool \<Rightarrow> web_user option \<Rightarrow> string \<Rightarrow> ui_store \<Rightarrow> sidebar_view" where
  "Sidebar isUserLoading user pathname s =
     \<lparr>sb_width = (if us_sidebarCollapsed s then 72 else 240), sb_labels = (\<not> us_sidebarCollapsed s),
      sb_menu = map (\<lambda>(label, path). \<lparr>me_label = label, me_path = path, me_active = menu_active pathname path\<rparr>) menuItems,
      sb_footer = (if us_sidebarCollapsed s then PowerButton
        else IdCard (if isUserLoading then None
          else map_option (\<lambda>u. (head_opt (shown_text (wu_name u)), shown_text (wu_name u), wu_email u)) user))\<rparr>"

section \<open>Results of the command palette\<close>

definition palette_views :: "string \<Rightarrow> project_view list option \<Rightarrow> project_view list" where
  "palette_views query loaded = (case loaded of None \<Rightarrow> []
     | Some ps \<Rightarrow> filter (\<lambda>v. contains_ci query (p_name (pv_project v)) \<or> contains_ci query (p_framework (pv_project v))) ps)"

record palette_row =
  pr_icon :: icon
  pr_name :: string
  pr_url :: string
  pr_selected :: bool

definition palette_row_of :: "nat \<Rightarrow> nat \<times> project_view \<Rightarrow> palette_row rendered" where
  "palette_row_of selectedIndex = (\<lambda>(index, v).
     case latestDeployment v of
       None \<Rightarrow> Inl TypeErrorThrown
     | Some d \<Rightarrow> Inr \<lparr>pr_icon = getFrameworkIcon (Some (or_else (Some (p_framework (pv_project v))) []))
           (Some (or_else (Some (p_language (pv_project v))) [])),
         pr_name = p_name (pv_project v), pr_url = shown_text (d_deploymentUrl d), pr_selected = (selectedIndex = index)\<rparr>)"

definition action_labels :: "string list" where
  "action_labels = [''Go to Projects'', ''View Deployments'', ''Open Settings'']"

definition CommandPalette :: "project_view list option \<Rightarrow> palette \<Rightarrow> (palette_row list \<times> (string \<times> bool) list) option rendered" where
  \<comment> \<open>nothing while it is closed; the rows, and the actions with the mark of the selected one\<close>
  "CommandPalette loaded c =
     (let filtered = palette_views (cp_query c) loaded
      in if \<not> cp_open c then Inr None
         else case rendered_all (palette_row_of (cp_selected c)) (enumerate 0 filtered) of
                Inl e \<Rightarrow> Inl e
              | Inr rows \<Rightarrow> Inr (Some (rows,
                  map (\<lambda>(index, label). (label, cp_selected c = length filtered + index)) (enumerate 0 action_labels))))"

section \<open>Variables and domains panel\<close>

definition setNewDomain :: "string \<Rightarrow> panel \<Rightarrow> panel" where
  "setNewDomain s p = p\<lparr>pn_newDomain := s\<rparr>"

definition setAddingDomain :: "bool \<Rightarrow> panel \<Rightarrow> panel" where
  "setAddingDomain b p = p\<lparr>pn_addingDomain := b\<rparr>"

definition domain_keydown :: "(nat \<Rightarrow> uuid) \<Rightarrow> string \<Rightarrow> panel \<Rightarrow> panel" where
  "domain_keydown ids k p = (if k = ''Enter'' then handleAddDomain ids p else p)"

definition copyToClipboard :: "panel \<Rightarrow> panel" where
  "copyToClipboard p = toast (ToastSuccess ''Copied to clipboard'') p"

datatype panel_button = DiscardButton | AddVariable | SaveButton | ImportButton

record var_row =
  vr_key :: string
  vr_missingKey :: bool
  vr_type :: string
  vr_shown :: string
  vr_eyeOff :: bool
  vr_boxes :: "(string \<times> bool) list"

definition var_row_of :: "panel \<Rightarrow> panel_var \<Rightarrow> var_row" where
  "var_row_of p v = \<lparr>vr_key = pv_key v, vr_missingKey = (pv_key v = []),
     vr_type = (if isVisible p (pv_id v) then ''text'' else ''password''), vr_shown = shown_value p v,
     vr_eyeOff = (pv_id v \<in> pn_showValues p),
     vr_boxes = [(''Prod'', PRODUCTION \<in> set (pv_targets v)), (''Prev'', PREVIEW \<in> set (pv_targets v)),
       (''Dev'', DEVELOPMENT \<in> set (pv_targets v))]\<rparr>"

datatype status_mark = GreenDot | YellowDot | Spinner | RedDot

fun dns_mark :: "dns_status \<Rightarrow> status_mark option" where
  "dns_mark DnsACTIVE = Some GreenDot"
| "dns_mark DnsPENDING = Some YellowDot"
| "dns_mark DnsVERIFYING = Some Spinner"
| "dns_mark DnsERROR = Some RedDot"
| "dns_mark DnsINACTIVE = None"

record domain_card =
  dk_link :: link
  dk_mark :: "status_mark option"
  dk_check :: bool
  dk_type :: environment_type
  dk_invalid :: bool
  dk_refresh :: bool
  dk_spins :: bool
  dk_records :: "(string \<times> string \<times> string) list"

definition domain_card_of :: "panel_domain \<Rightarrow> domain_card" where
  \<comment> \<open>the records are shown only while the domain is not active\<close>
  "domain_card_of m = \<lparr>dk_link = \<lparr>lk_text = pdm_name m, lk_href = ''https://'' @ pdm_name m\<rparr>,
     dk_mark = dns_mark (pdm_status m), dk_check = (pdm_status m = DnsACTIVE), dk_type = pdm_type m,
     dk_invalid = (pdm_status m = DnsPENDING), dk_refresh = (pdm_status m \<noteq> DnsACTIVE),
     dk_spins = (pdm_status m = DnsVERIFYING),
     dk_records = (if pdm_status m \<noteq> DnsACTIVE then pdm_dnsRecords m else [])\<rparr>"

record panel_view =
  pw_buttons :: "panel_button list"
  pw_allEyeOff :: bool
  pw_rows :: "var_row list"
  pw_noVariables :: bool
  pw_newDomain :: "string option"
  pw_domains :: "domain_card list"

definition EnvVarsPanel :: "panel \<Rightarrow> panel_view" where
  "EnvVarsPanel p = \<lparr>pw_buttons = (if pn_dirty p then [DiscardButton, AddVariable, SaveButton] else [ImportButton, AddVariable]),
     pw_allEyeOff = pn_showAll p, pw_rows = map (var_row_of p) (pn_envVars p), pw_noVariables = (pn_envVars p = []),
     pw_newDomain = (if pn_addingDomain p then Some (pn_newDomain p) else None),
     pw_domains = map domain_card_of (pn_domains p)\<rparr>"

section \<open>Settings page\<close>

definition settings_tabs :: "(string \<times> string) list" where
  "settings_tabs = [(''general'', ''Global Defaults''), (''notifications'', ''Notifications''), (''deployments'', ''Lifecycle & Cost'')]"

definition ttlOptions :: "(int \<times> string \<times> string) list" where
  "ttlOptions = [(5, ''5 Minutes'', ''Maximum Savings''), (15, ''15 Minutes'', ''Standard Demo''),
     (30, ''30 Minutes'', ''Long Review''), (60, ''1 Hour'', ''Workshop Mode'')]"

definition build_options :: "(int \<times> string) list" where
  "build_options = [(1, ''1 Concurrent Build''), (2, ''2 Concurrent Builds''), (5, ''5 Concurrent Builds (Pro)'')]"

definition retention_options :: "(int \<times> string) list" where
  "retention_options = [(1, ''1 Day (Cost Saving)''), (3, ''3 Days''), (7, ''7 Days'')]"

definition settings_controls :: "string \<Rightarrow> settings_edit \<Rightarrow> bool" where
  \<comment> \<open>the edits the controls of a tab offer\<close>
  "settings_controls activeTab e =
     (if activeTab = ''general'' then (case e of
          ChangeNumber MaxConcurrentBuilds n \<Rightarrow> n \<in> fst ` set build_options
        | ChangeNumber LogRetentionDays n \<Rightarrow> n \<in> fst ` set retention_options
        | _ \<Rightarrow> False)
      else if activeTab = ''notifications'' then (case e of
          Toggle EmailDeployFailed \<Rightarrow> True | Toggle EmailDeploySuccess \<Rightarrow> True
        | ChangeText SlackWebhook t \<Rightarrow> True | _ \<Rightarrow> False)
      else if activeTab = ''deployments'' then (case e of
          ChangeNumber GlobalTTLMinutes n \<Rightarrow> n \<in> fst ` set ttlOptions
        | Toggle AutoDeploy \<Rightarrow> True | _ \<Rightarrow> False)
      else False)"

datatype settings_pane =
    GeneralPane "string option" "string option"
  | NotificationsPane bool bool string
  | LifecyclePane "(string \<times> string \<times> bool) list" bool
  | NoPane

definition settings_pane_of :: "string \<Rightarrow> web_settings \<Rightarrow> settings_pane" where
  \<comment> \<open>a select shows the label of its value, if the value is one of its items\<close>
  "settings_pane_of activeTab c =
     (if activeTab = ''general'' then
        GeneralPane (map_of build_options (ws_maxConcurrentBuilds c)) (map_of retention_options (ws_logRetentionDays c))
      else if activeTab = ''notifications'' then
        NotificationsPane (ws_emailDeployFailed c) (ws_emailDeploySuccess c) (shown_text (ws_slackWebhook c))
      else if activeTab = ''deployments'' then
        LifecyclePane (map (\<lambda>(n, label, desc). (label, desc, ws_globalTTLMinutes c = n)) ttlOptions) (ws_autoDeploy c)
      else NoPane)"

datatype settings_screen =
    SettingsSkeleton
  | SettingsShown bool "(string \<times> bool) list" settings_pane \<comment> \<open>with the save button or not\<close>

definition Settings :: "bool \<Rightarrow> web_settings option \<Rightarrow> string \<Rightarrow> settings_page \<Rightarrow> settings_page \<times> settings_screen" where
  \<comment> \<open>the first lines store the server's data while rendering\<close>
  "Settings isLoading serverSettings activeTab s =
     (let s1 = loaded_settings serverSettings s
      in (s1, case sp_local s1 of
           None \<Rightarrow> SettingsSkeleton
         | Some c \<Rightarrow> if isLoading then SettingsSkeleton
             else SettingsShown (sp_dirty s1) (map (\<lambda>(i, label). (label, activeTab = i)) settings_tabs) (settings_pane_of activeTab c)))"

section \<open>Creation wizard\<close>

record wizard_toggles =
  wt_isRootSelectorOpen :: bool
  wt_showEnvVars :: bool

definition setSearchQuery :: "string \<Rightarrow> wizard \<Rightarrow> wizard" where
  "setSearchQuery q z = z\<lparr>wz_searchQuery := q\<rparr>"

definition toggleAccounts :: "wizard \<Rightarrow> wizard" where
  "toggleAccounts z = z\<lparr>wz_accountOpen := \<not> wz_accountOpen z\<rparr>"

definition toggleBuildSettings :: "wizard \<Rightarrow> wizard" where
  "toggleBuildSettings z = z\<lparr>wz_showBuildSettings := \<not> wz_showBuildSettings z\<rparr>"

definition setPythonVersion :: "string \<Rightarrow> wizard \<Rightarrow> wizard" where
  "setPythonVersion value z =
     z\<lparr>wz_form := (wz_form z)\<lparr>pf_pythonVersion := (if value = ''__auto__'' then [] else value)\<rparr>\<rparr>"

definition appendVariable :: "wizard \<Rightarrow> wizard" where
  "appendVariable z = z\<lparr>wz_form := (wz_form z)\<lparr>pf_envVars := pf_envVars (wz_form z) @ [([], [])]\<rparr>\<rparr>"

definition removeVariable :: "nat \<Rightarrow> wizard \<Rightarrow> wizard" where
  "removeVariable i z = z\<lparr>wz_form := (wz_form z)\<lparr>pf_envVars :=
     take i (pf_envVars (wz_form z)) @ drop (Suc i) (pf_envVars (wz_form z))\<rparr>\<rparr>"

definition goBack :: "wizard \<Rightarrow> wizard" where
  "goBack z = z\<lparr>wz_selectedRepo := None\<rparr>"

definition PYTHON_VERSIONS :: "(string \<times> string) list" where
  \<comment> \<open>label and value\<close>
  "PYTHON_VERSIONS = [(''Auto (latest)'', []), (''3.13'', ''3.13''), (''3.12'', ''3.12''), (''3.11'', ''3.11''),
     (''3.10'', ''3.10''), (''3.9'', ''3.9'')]"

definition preset_hint :: "(preset \<Rightarrow> string) \<Rightarrow> string \<Rightarrow> string" where
  \<comment> \<open>\<open>FRAMEWORK_PRESETS[framework]?.field || ...\<close>\<close>
  "preset_hint field framework =
     or_else (map_option field (map_of FRAMEWORK_PRESETS framework)) ''auto-detected by Railpack''"

record repo_row =
  rr_icon :: icon
  rr_name :: string
  rr_private :: bool
  rr_updated :: string
  rr_importing :: bool

definition repo_row_of :: "(string \<Rightarrow> string) \<Rightarrow> wizard \<Rightarrow> repository \<Rightarrow> repo_row" where
  "repo_row_of ago z r = \<lparr>rr_icon = getFrameworkIcon (Some (det_framework (rp_detection r))) (rp_language r),
     rr_name = rp_name r, rr_private = rp_private r, rr_updated = ago (rp_updatedAt r) @ '' ago'',
     rr_importing = (wz_importingRepoId z = Some (rp_id r))\<rparr>"

record list_view =
  lv_account :: string
  lv_accounts :: "(string \<times> bool) list option" \<comment> \<open>the menu, with the mark of the selected account\<close>
  lv_search :: string
  lv_repos :: "repo_row list"
  lv_refresh :: bool

definition list_view_of ::
    "(string \<Rightarrow> string) \<Rightarrow> web_account list option \<Rightarrow> web_account option \<Rightarrow> repository list option \<Rightarrow> wizard \<Rightarrow> list_view" where
  "list_view_of ago accounts selected repos z =
     (let filtered = map_option (\<lambda>rs. filteredRepos rs z) repos
      in \<lparr>lv_account = or_else (map_option wa_username selected) ''GitHub'',
          lv_accounts = (if wz_accountOpen z
            then Some (map (\<lambda>a. (wa_username a, map_option wa_id selected = Some (wa_id a))) (case accounts of None \<Rightarrow> [] | Some accs \<Rightarrow> accs))
            else None),
          lv_search = wz_searchQuery z,
          lv_repos = map (repo_row_of ago z) (case filtered of None \<Rightarrow> [] | Some rs \<Rightarrow> rs),
          lv_refresh = (filtered = Some [])\<rparr>)"

record build_pane =
  bp_python :: "(string \<times> (string \<times> string) list) option" \<comment> \<open>the selected version and the items\<close>
  bp_install :: "string \<times> string" \<comment> \<open>value and placeholder, here and below\<close>
  bp_build :: "string \<times> string"
  bp_run :: "string \<times> string"
  bp_output :: "string \<times> string"

definition build_pane_of :: "project_form \<Rightarrow> build_pane" where
  "build_pane_of f = (let fw = pf_framework f in
     \<lparr>bp_python = (if fw \<in> set PYTHON_FRAMEWORKS
        then Some (pf_pythonVersion f, map (\<lambda>(label, value). (or_else (Some value) ''__auto__'', label)) PYTHON_VERSIONS) else None),
      bp_install = (pf_installCommand f, preset_hint ps_install fw), bp_build = (pf_buildCommand f, preset_hint ps_build fw),
      bp_run = (pf_runCommand f, preset_hint ps_run fw), bp_output = (pf_outputDirectory f, preset_hint ps_output fw)\<rparr>)"

record configure_view =
  cw_fullName :: string
  cw_branch :: string
  cw_projectName :: string
  cw_nameError :: "string option"
  cw_icon :: icon
  cw_framework :: string
  cw_items :: "(icon \<times> string) list"
  cw_root :: string
  cw_rootError :: "string option"
  cw_build :: "build_pane option"
  cw_vars :: "(string \<times> string) list option"

definition configure_view_of :: "(string \<Rightarrow> string option) \<Rightarrow> wizard_toggles \<Rightarrow> repository \<Rightarrow> wizard \<Rightarrow> configure_view" where
  "configure_view_of errors t r z = (let f = wz_form z in
     \<lparr>cw_fullName = rp_fullName r, cw_branch = rp_defaultBranch r, cw_projectName = pf_projectName f,
      cw_nameError = errors ''projectName'',
      cw_icon = getFrameworkIcon (Some (pf_framework f)) (rp_language r), cw_framework = pf_framework f,
      cw_items = map (\<lambda>(fw, path). (getFrameworkIcon (Some fw) None, fw)) FRAMEWORK_ICONS,
      cw_root = pf_rootDirectory f, cw_rootError = errors ''rootDirectory'',
      cw_build = (if wz_showBuildSettings z then Some (build_pane_of f) else None),
      cw_vars = (if wt_showEnvVars t then Some (pf_envVars f) else None)\<rparr>)"

datatype wizard_part =
  RepoListSkeleton | ConnectPart | ListPart list_view | ConfigurePart configure_view | DeployingPart

record dialog_view =
  dg_progress :: nat
  dg_title :: string
  dg_parts :: "wizard_part list"
  dg_rootSelector :: bool

definition NewProjectDialog ::
    "(string \<Rightarrow> string) \<Rightarrow> bool \<Rightarrow> bool \<Rightarrow> web_account list option \<Rightarrow> uuid option \<Rightarrow> repository list option \<Rightarrow>
     (string \<Rightarrow> string option) \<Rightarrow> wizard_toggles \<Rightarrow> wizard \<Rightarrow> dialog_view" where
  \<comment> \<open>the account is chosen by the hook from the explicit choice; the parts are those that are mounted\<close>
  "NewProjectDialog ago isLoading isConnected accounts explicitId repos errors t z =
     (let view = wizard_view isLoading isConnected z; selected = activeAccount accounts explicitId
      in \<lparr>dg_progress = wizard_progress view,
          dg_title = (if view = Configure then ''Configure Project'' else ''New Project''),
          dg_parts = (if isLoading then [RepoListSkeleton] else []) @
            (if \<not> isLoading \<and> view = Connect then [ConnectPart] else []) @
            (if \<not> isLoading \<and> view = Listing then [ListPart (list_view_of ago accounts selected repos z)] else []) @
            (case wz_selectedRepo z of
               None \<Rightarrow> [] | Some r \<Rightarrow> if view = Configure then [ConfigurePart (configure_view_of errors t r z)] else []) @
            (if view = Deploying then [DeployingPart] else []),
          dg_rootSelector = (wz_selectedRepo z \<noteq> None \<and> selected \<noteq> None \<and> wt_isRootSelectorOpen t)\<rparr>)"

section \<open>Directory selector\<close>

record tree_file =
  tf_name :: string
  tf_path :: string
  tf_isDir :: bool

definition setSelectedPath :: "string \<Rightarrow> selector \<Rightarrow> selector" where
  "setSelectedPath p s = s\<lparr>sl_selectedPath := p\<rparr>"

definition click_file :: "tree_file \<Rightarrow> selector \<Rightarrow> selector" where
  "click_file f s = (if tf_isDir f then setSelectedPath (tf_path f) s else s)"

record selector_view =
  sv_upDisabled :: bool
  sv_path :: string
  sv_here :: "bool option" \<comment> \<open>the mark of the current directory; \<open>None\<close> is the skeleton\<close>
  sv_files :: "(string \<times> bool \<times> bool) list" \<comment> \<open>name, directory, marked\<close>

definition RootDirectorySelector :: "bool \<Rightarrow> tree_file list \<Rightarrow> selector \<Rightarrow> selector_view" where
  "RootDirectorySelector isLoading files s =
     \<lparr>sv_upDisabled = (sl_currentPath s = []), sv_path = sl_currentPath s,
      sv_here = (if isLoading then None else Some (sl_selectedPath s = sl_currentPath s)),
      sv_files = (if isLoading then [] else
        map (\<lambda>f. (tf_name f, tf_isDir f, tf_isDir f \<and> sl_selectedPath s = tf_path f)) files)\<rparr>"

end
