(* ===== verification/PageLaws.thy ===== *)
theory PageLaws
  imports ProjectPages HttpLaws
begin

text \<open>
  Laws of the pages: they never read a property of \<open>undefined\<close>, because the API's invariant gives
  every project a deployment; the button of the deployment page is the one the API will accept;
  the charts show the API's days; tabs, side bar and command palette are always in a state that
  means something.
\<close>

section \<open>Project pages render\<close>

lemma decrypt_view_shape:
  "decrypt_view X v w = (Inr v', w') \<Longrightarrow>
   pv_deployments v' = pv_deployments v \<and> pv_project v' = pv_project v \<and> pv_domains v' = pv_domains v"
  unfolding decrypt_view_def by (erule andThen_cases) (auto simp: ret_def)

lemma collect_decrypt_view_shape:
  "collect (decrypt_view X) vs w = (Inr vs', w') \<Longrightarrow>
   list_all2 (\<lambda>v v'. pv_deployments v' = pv_deployments v \<and> pv_project v' = pv_project v) vs vs'"
proof (induction vs arbitrary: w vs')
  case Nil
  then show ?case by (simp add: ret_def)
next
  case (Cons v vs)
  from Cons.prems obtain v1 w1 vs1 w2 where "decrypt_view X v w = (Inr v1, w1)"
    "collect (decrypt_view X) vs w1 = (Inr vs1, w2)" "vs' = v1 # vs1"
    by (auto simp: ret_def elim!: andThen_cases)
  then show ?case using Cons.IH [of w1 vs1] Cons.prems decrypt_view_shape [of X v w v1 w1]
    by (auto simp: ret_def elim!: andThen_cases)
qed

lemma list_all2_source: "list_all2 R xs ys \<Longrightarrow> y \<in> set ys \<Longrightarrow> \<exists>x \<in> set xs. R x y"
  by (induction rule: list_all2_induct) auto

lemma findAll_deployed:
  assumes "all_deployed (db w)" and "projectsService_findAll X u w = (Inr vs, w')" and "v \<in> set vs"
  shows "latestDeployment v \<noteq> None"
proof -
  let ?views = "map (view_of (db w) 1) (order_desc p_updatedAt (filter (\<lambda>p. p_userId p = u) (projects (db w))))"
  have "collect (decrypt_view X) ?views w = (Inr vs, w')"
    using assms(2) by (simp add: projectsService_findAll_def andThen_gets)
  from list_all2_source [OF collect_decrypt_view_shape [OF this] assms(3)] obtain v0 where "v0 \<in> set ?views"
    and same: "pv_deployments v = pv_deployments v0" by blast
  then obtain p where "v0 = view_of (db w) 1 p" "p \<in> set (projects (db w))" by auto
  then have "pv_deployments v \<noteq> []" using view_has_deployment [OF assms(1), of p 1] same by simp
  then show ?thesis by (simp add: latestDeployment_def head_opt_def split: list.splits)
qed

lemma render_deployed:
  assumes "latestDeployment v \<noteq> None"
  shows "\<not> isl (ProjectHeader v)" "\<not> isl (ProjectOverview ago v)" "\<not> isl (ProjectCard ids ago v)"
    "\<not> isl (renderTabContent ids ago v rows tab)"
proof -
  obtain d where d: "latestDeployment v = Some d" using assms by blast
  show "\<not> isl (ProjectHeader v)" by (simp add: ProjectHeader_def d Let_def)
  show ov: "\<not> isl (ProjectOverview ago v)" by (simp add: ProjectOverview_def d Let_def)
  show "\<not> isl (ProjectCard ids ago v)" by (simp add: ProjectCard_def d Let_def)
  show "\<not> isl (renderTabContent ids ago v rows tab)"
    using ov unfolding renderTabContent_def by (cases "ProjectOverview ago v") simp_all
qed

text \<open>
  C5. Whatever requests the server has served, every project it lists has a deployment: the
  cards, the header, the overview and the project page render on every tab, although the
  components read deployments[0] without a check.
\<close>

theorem project_pages_render:
  assumes "reachable S w" and "projectsService_findAll X u w = (Inr vs, w')"
  shows "(\<forall>v \<in> set vs. \<not> isl (ProjectHeader v) \<and> \<not> isl (ProjectOverview ago v) \<and> \<not> isl (ProjectCard ids ago v)) \<and>
    (\<forall>i rows tab. \<not> isl (ProjectDetail ids ago False False (Some vs) rows tab i))"
proof -
  have shown: "latestDeployment v \<noteq> None" if "v \<in> set vs" for v
    using findAll_deployed [OF reachable_deployed [OF assms(1)] assms(2) that] .
  have "\<not> isl (ProjectDetail ids ago False False (Some vs) rows tab i)" for i rows tab
  proof (cases "project_by_id i (Some vs)")
    case (Some v)
    then have "latestDeployment v \<noteq> None" using shown by (auto simp: project_by_id_def dest: find_SomeD)
    note r = render_deployed(1) [OF this] render_deployed(4) [OF this, of ids ago rows tab]
    from r Some show ?thesis by (auto simp: ProjectDetail_def split: sum.splits)
  qed (simp add: ProjectDetail_def)
  then show ?thesis using shown render_deployed by blast
qed

section \<open>The deployment page\<close>

lemma canCancel_iff: "canCancel s \<longleftrightarrow> in_progress s"
  by (cases s) (simp_all add: canCancel_def isActive_def)

text \<open>
  C20. The deployment page offers Cancel exactly when the API accepts the cancellation (Redis
  up) and Redeploy exactly when it would refuse it without effect; while Cancel is offered the
  page polls.
\<close>

theorem cancel_button_exact:
  assumes "db_ok (db w)" and "redis_up (redis w)" and "owned_deployment u i (db w) = Some d"
  shows "(dv_action (details_of ids fmt copied txt d v) = CancelButton \<longleftrightarrow>
      (\<exists>r w'. deploymentsService_cancel u i w = (Inr r, w'))) \<and>
    (dv_action (details_of ids fmt copied txt d v) = RedeployButton \<longleftrightarrow>
      (\<exists>e. deploymentsService_cancel u i w = (Inl e, w))) \<and>
    (dv_action (details_of ids fmt copied txt d v) = CancelButton \<longleftrightarrow> 0 < refreshInterval (Some d))"
proof (cases "in_progress (d_status d)")
  case True
  then show ?thesis
    using cancel_run [OF assms(1,3)] assms(2)
    by (auto simp: details_of_def Let_def canCancel_iff refreshInterval_def in_progress_def)
next
  case False
  then have "\<nexists>r. owned_deployment u i (db w) = Some r \<and> in_progress (d_status r)" using assms(3) by simp
  from cancel_refused [OF this] False show ?thesis
    by (auto simp: details_of_def Let_def canCancel_iff refreshInterval_def in_progress_def)
qed

lemma primary_domain_relative: "dr_primary (DomainRow d cp m) \<Longrightarrow> lk_href (url_link d) = dom_name m"
  by (auto simp: DomainRow_def url_link_def template_null_def split: option.splits)

lemma reported_domain_not_primary:
  "d_deploymentUrl d = Some (''https://'' @ h) \<Longrightarrow> CHR '':'' \<notin> set (dom_name m) \<Longrightarrow> \<not> dr_primary (DomainRow d cp m)"
  by (auto simp: DomainRow_def)

section \<open>Charts\<close>

lemma slice_last_map: "slice_last n (map f xs) = map f (slice_last n xs)"
  by (simp add: slice_last_def drop_map)

lemma drop_upto: "drop k [i .. j] = [i + int k .. j]"
proof (induction k arbitrary: i)
  case (Suc k)
  then show ?case by (cases "i \<le> j") (simp_all add: upto.simps [of i j] add_ac)
qed simp

lemma local_day_shift:
  "0 \<le> offset \<Longrightarrow> offset < day_ms \<Longrightarrow> local_day offset k = k"
  "offset < 0 \<Longrightarrow> - day_ms \<le> offset \<Longrightarrow> local_day offset k = k - 1"
  by (simp_all add: local_day_def day_ms_def)

lemma length_filter_order_desc: "length (filter P (order_desc k xs)) = length (filter P xs)"
proof -
  have "mset (order_desc k xs) = mset xs" by (simp add: order_desc_def)
  then have "mset (filter P (order_desc k xs)) = mset (filter P xs)" by simp
  then show ?thesis by (rule mset_eq_length)
qed

lemma recent_day:
  assumes "day_of t - 13 \<le> k" and "day_of (d_startedAt d) = k"
  shows "days_ago 30 t \<le> d_startedAt d"
  using assms by (simp add: day_of_def days_ago_def day_ms_def)

lemma day_summary_recent:
  assumes "day_of t - 13 \<le> k"
  shows "day_summary (since (days_ago 30 t) ds) k = day_summary ds k"
proof -
  have "length (filter P (on_day k (since (days_ago 30 t) ds))) = length (filter P (on_day k ds))" for P
    unfolding on_day_def since_def filter_filter length_filter_order_desc
    by (rule arg_cong [where f = length], rule filter_cong) (use recent_day [OF assms] in auto)
  from this [of "\<lambda>_. True"] this show ?thesis by (simp add: day_summary_def)
qed

text \<open>
  The activity chart shows, for each of the last fourteen days of UTC, how many of the
  user's deployments started on it, succeeded and failed, under the day's label in the browser's
  time zone.
\<close>

theorem activity_chart_exact:
  assumes "getOverview u w = (Inr ov, w')"
  shows "deploymentChartData offset (ov_deploymentsOverTime ov) =
    map (\<lambda>k. let ds = filter (\<lambda>d. day_of (d_startedAt d) = k) (deployments_of_user (db w) u)
            in (local_day offset k, length (filter d_isSuccess ds), length (filter (\<lambda>d. d_status d = FAILED) ds), length ds))
      [day_of (now w) - 13 .. day_of (now w)]"
proof -
  let ?ds = "deployments_of_user (db w) u" and ?t = "now w"
  have ov: "ov_deploymentsOverTime ov = groupByDay (since (days_ago 30 ?t) ?ds) (days_ago 30 ?t) ?t"
    using assms by (auto simp: getOverview_def gets_def Let_def)
  have "(?t - 2592000000) div 86400000 = ?t div 86400000 - 30"
    using div_mult_self1 [of "86400000 :: int" ?t "- 30"] by simp
  then have days: "slice_last 14 [day_of (days_ago 30 ?t) .. day_of (days_ago 30 ?t) + (?t - days_ago 30 ?t) div day_ms] =
      [day_of ?t - 13 .. day_of ?t]"
    by (simp add: slice_last_def drop_upto day_of_def days_ago_def day_ms_def)
  have le: "days_ago 30 ?t \<le> ?t" by (simp add: days_ago_def)
  show ?thesis
    unfolding deploymentChartData_def ov groupByDay_exact slice_last_map if_P [OF le] days map_map
    by (rule map_cong [OF HOL.refl]) (simp add: day_summary_recent, simp add: day_summary_def on_day_def)
qed

section \<open>Tabs and side bar\<close>

lemma tabs_reload: "list_all (\<lambda>t. initial_tab (Some (map to_lower t)) = t) project_tabs"
  by code_simp

lemma tab_reload:
  "t \<in> set project_tabs \<Longrightarrow> initial_tab (ts_query (handleTabChange t s)) = t"
  using tabs_reload by (simp add: handleTabChange_def list_all_iff)

text \<open>The link "Monitoring" of the deployment page names a tab that does not exist.\<close>

lemma monitoring_tab: "initial_tab (Some ''monitoring'') = ''Overview''"
  by code_simp

lemma monitoring_link_is_overview:
  "(''Monitoring'', ''/dashboard/projects/'' @ ids (d_projectId d) @ ''?tab='' @ ''monitoring'') \<in> set (quick_links ids d) \<and>
   initial_tab (Some ''monitoring'') = ''Overview''"
  by (simp add: quick_links_def monitoring_tab)

lemma starts_with_same:
  "starts_with a s \<Longrightarrow> starts_with b s \<Longrightarrow> starts_with a b \<or> starts_with b a"
  unfolding starts_with_def by (metis min.cobounded1 min.cobounded2 min_def take_take)

lemma menu_apart:
  "list_all (\<lambda>a. list_all (\<lambda>b. a \<noteq> b \<longrightarrow> a \<noteq> ''/dashboard'' \<longrightarrow>
     \<not> starts_with (a @ ''/'') b \<and> \<not> starts_with (a @ ''/'') (b @ ''/'')) (map snd menuItems)) (map snd menuItems)"
  by code_simp

text \<open>At most one entry of the menu is marked, whatever the path.\<close>

lemma menu_one_active:
  assumes "a \<in> set (map snd menuItems)" and "b \<in> set (map snd menuItems)"
    and act: "menu_active path a" "menu_active path b"
  shows "a = b"
proof (rule ccontr)
  assume ne: "a \<noteq> b"
  have apart: "x \<noteq> ''/dashboard'' \<Longrightarrow> x \<noteq> y \<Longrightarrow> \<not> starts_with (x @ ''/'') y \<and> \<not> starts_with (x @ ''/'') (y @ ''/'')"
    if "x \<in> set (map snd menuItems)" "y \<in> set (map snd menuItems)" for x y
    using menu_apart that unfolding list_all_iff by blast
  from act consider "path = a" "starts_with (b @ ''/'') a" "b \<noteq> ''/dashboard''"
    | "path = b" "starts_with (a @ ''/'') b" "a \<noteq> ''/dashboard''"
    | "starts_with (a @ ''/'') path" "starts_with (b @ ''/'') path" "a \<noteq> ''/dashboard''" "b \<noteq> ''/dashboard''"
    using ne unfolding menu_active_def by blast
  then show False
  proof cases
    case 1
    then show False using apart [OF assms(2,1)] ne by blast
  next
    case 2
    then show False using apart [OF assms(1,2)] ne by blast
  next
    case 3
    then show False using starts_with_same [OF 3(1,2)] apart [OF assms(1,2)] apart [OF assms(2,1)] ne by blast
  qed
qed

section \<open>The sign-in page\<close>

text \<open>
  What the form of the sign-in page accepts, the API's validation accepts, provided zod's e-mail
  addresses are e-mail addresses to class-validator; signing in, the body carries no name, which
  the API would refuse.
\<close>

lemma auth_form_accepted:
  assumes "\<And>s. email s \<Longrightarrow> ck_isEmail K s"
  shows "signUpSchema email f \<Longrightarrow> checked K sign_up_rules (auth_body False f)"
    and "signInSchema email f \<Longrightarrow> checked K sign_in_rules (auth_body True f)"
  using assms by (simp_all add: checked.simps absent_def signUpSchema_def signInSchema_def sign_up_rules_def sign_in_rules_def auth_body_def)

section \<open>Command palette\<close>

text \<open>What the user does while the list of projects stays: type, press keys, toggle with Ctrl-K.\<close>

datatype palette_event = Type string | Key palette_key | Toggle

fun palette_step :: "(string \<times> project) list option \<Rightarrow> palette_event \<Rightarrow> palette \<Rightarrow> palette" where
  "palette_step loaded (Type q) c = (if cp_open c then setQuery q c else c)"
| "palette_step loaded (Key k) c = palette_keydown (palette_projects (cp_query c) loaded) k c"
| "palette_step loaded Toggle c = c\<lparr>cp_open := \<not> cp_open c\<rparr>"

definition palette_init :: palette where
  "palette_init = \<lparr>cp_open = False, cp_query = [], cp_selected = 0, cp_visited = []\<rparr>"

inductive palette_reachable :: "(string \<times> project) list option \<Rightarrow> palette \<Rightarrow> bool" for loaded where
  initially: "palette_reachable loaded palette_init"
| event: "palette_reachable loaded c \<Longrightarrow> palette_reachable loaded (palette_step loaded e c)"

definition selectable :: "(string \<times> project) list option \<Rightarrow> palette \<Rightarrow> nat" where
  "selectable loaded c = length (palette_projects (cp_query c) loaded) + length palette_actions"

lemma select_url:
  assumes "i < length fs + length palette_actions"
  shows "\<exists>url. palette_select fs i c = setQuery [] (c\<lparr>cp_open := \<not> cp_open c, cp_visited := cp_visited c @ [url]\<rparr>)"
  using assms by (cases "i < length fs") (auto simp: palette_select_def nth_part_def)

lemma setQuery_in_range:
  "cp_selected c < selectable loaded c \<Longrightarrow> cp_selected (setQuery q c) < selectable loaded (setQuery q c)"
  by (simp add: setQuery_def selectable_def palette_actions_def)

lemma palette_step_in_range:
  assumes "cp_selected c < selectable loaded c"
  shows "cp_selected (palette_step loaded e c) < selectable loaded (palette_step loaded e c)"
proof (cases e)
  case (Key k)
  then show ?thesis
    using assms setQuery_in_range [OF assms, of "[]"]
    by (cases k) (auto simp: setQuery_def selectable_def palette_actions_def palette_select_def Let_def)
qed (use assms setQuery_in_range in \<open>auto simp: selectable_def\<close>)

text \<open>
  However the user types and moves in the command palette, the selected entry exists, and
  Enter opens it: a project the search shows or one of the fixed actions.
\<close>

theorem palette_always_selects:
  assumes "palette_reachable loaded c"
  shows "cp_selected c < selectable loaded c \<and>
    (cp_open c \<longrightarrow> (\<exists>url. palette_step loaded (Key Enter) c =
      c\<lparr>cp_open := False, cp_query := [], cp_selected := (if cp_query c = [] then cp_selected c else 0),
        cp_visited := cp_visited c @ [url]\<rparr>))"
proof
  show range: "cp_selected c < selectable loaded c"
    using assms
  proof (induction rule: palette_reachable.induct)
    case initially
    show ?case by (simp add: palette_init_def selectable_def palette_actions_def)
  next
    case (event c e)
    then show ?case by - (rule palette_step_in_range)
  qed
  show "cp_open c \<longrightarrow> (\<exists>url. palette_step loaded (Key Enter) c =
      c\<lparr>cp_open := False, cp_query := [], cp_selected := (if cp_query c = [] then cp_selected c else 0),
        cp_visited := cp_visited c @ [url]\<rparr>)"
  proof
    assume "cp_open c"
    obtain url where "palette_select (palette_projects (cp_query c) loaded) (cp_selected c) c =
        setQuery [] (c\<lparr>cp_open := \<not> cp_open c, cp_visited := cp_visited c @ [url]\<rparr>)"
      using select_url [OF range [unfolded selectable_def]] by blast
    with \<open>cp_open c\<close> show "\<exists>url. palette_step loaded (Key Enter) c =
      c\<lparr>cp_open := False, cp_query := [], cp_selected := (if cp_query c = [] then cp_selected c else 0),
        cp_visited := cp_visited c @ [url]\<rparr>"
      by (intro exI [of _ url]) (simp add: setQuery_def)
  qed
qed

section \<open>Examples\<close>

text \<open>A server on which Ann has joined through GitHub and has created a project.\<close>

definition ann_github :: github_payload where
  "ann_github = \<lparr>gp_githubId = ''g1'', gp_username = ''ann'', gp_email = Some ''ann@x.org'', gp_name = None,
     gp_avatarUrl = None, gp_accessToken = ''t'', gp_refreshToken = None\<rparr>"

definition ann_joined :: world where
  "ann_joined = snd (serve sample_server (GithubCallback ann_github (Some ''42'') None) (initial_world (\<lambda>n. CHR ''r'') 1000))"

definition site_dto :: create_project_dto where
  "site_dto = sample_dto\<lparr>pd_name := ''site'', pd_envVars := None\<rparr>"

definition site_created :: world where
  "site_created = snd (serve sample_server (CreateProject 0 site_dto) ann_joined)"

lemma site_reachable: "reachable sample_server site_created"
  unfolding site_created_def ann_joined_def
  by (intro reachable.step [OF _ server_step.request] reachable.start)

lemma site_listed:
  "case fst (projectsService_findAll sample_external 0 site_created) of
     Inl e \<Rightarrow> False | Inr vs \<Rightarrow> map (\<lambda>v. p_name (pv_project v)) vs = [''site'']"
  by code_simp

theorem project_pages_render_witness:
  "\<exists>v w'. projectsService_findAll sample_external 0 site_created = (Inr [v], w') \<and>
     p_name (pv_project v) = ''site'' \<and> \<not> isl (ProjectHeader v) \<and> \<not> isl (ProjectOverview (\<lambda>t. ''a day'') v)"
proof -
  obtain vs w' where run: "projectsService_findAll sample_external 0 site_created = (Inr vs, w')"
    and names: "map (\<lambda>v. p_name (pv_project v)) vs = [''site'']"
    using site_listed by (cases "projectsService_findAll sample_external 0 site_created") (auto split: sum.splits)
  obtain v where v: "vs = [v]" "p_name (pv_project v) = ''site''" using names by auto
  have "\<not> isl (ProjectHeader v) \<and> \<not> isl (ProjectOverview (\<lambda>t. ''a day'') v)"
    using project_pages_render [OF site_reachable run, of "\<lambda>t. ''a day''"] v(1) by simp
  then show ?thesis using run v by blast
qed

definition plain_dates :: date_texts where
  "plain_dates = \<lparr>dt_ago = (\<lambda>t. ''a day''), dt_day = (\<lambda>t. ''1/2/70''), dt_moment = (\<lambda>t. ''Jan 2'')\<rparr>"

theorem cancel_button_exact_witness:
  "\<exists>r w'. deploymentsService_cancel 1 8 sample_world = (Inr r, w') \<and>
     dv_action (details_of (\<lambda>i. ''x'') plain_dates None ''x'' sample_building (view_of sample_db 1 sample_blog)) = CancelButton"
proof -
  let ?v = "view_of sample_db 1 sample_blog"
  have button: "dv_action (details_of (\<lambda>i. ''x'') plain_dates None ''x'' sample_building ?v) = CancelButton"
    by (simp add: details_of_def Let_def canCancel_iff sample_building_def)
  then show ?thesis
    using cancel_button_exact [OF sample_db_ok sample_redis_up sample_building_owned] by blast
qed

theorem activity_chart_exact_witness:
  "\<exists>ov. getOverview 0 sample_world = (Inr ov, sample_world) \<and>
     map snd (deploymentChartData 0 (ov_deploymentsOverTime ov)) = replicate 13 (0, 0, 0) @ [(1, 0, 1)]"
proof -
  obtain ov where run: "getOverview 0 sample_world = (Inr ov, sample_world)" by (simp add: getOverview_def gets_def)
  have "map snd (deploymentChartData 0 (ov_deploymentsOverTime ov)) = replicate 13 (0, 0, 0) @ [(1, 0, 1)]"
    unfolding activity_chart_exact [OF run] by code_simp
  with run show ?thesis by blast
qed

theorem palette_always_selects_witness:
  "\<exists>c. palette_reachable None c \<and> cp_selected c = 2 \<and> cp_selected c < selectable None c \<and>
     cp_visited (palette_step None (Key Enter) c) = [''/dashboard/settings'']"
proof -
  define c where "c = palette_step None (Key ArrowDown) (palette_step None (Key ArrowDown)
    (palette_step None (Key ArrowDown) (palette_step None Toggle palette_init)))"
  have reach: "palette_reachable None c" unfolding c_def by (intro palette_reachable.intros)
  have "cp_selected c = 2" "cp_visited (palette_step None (Key Enter) c) = [''/dashboard/settings'']"
    unfolding c_def by code_simp+
  then show ?thesis using reach palette_always_selects [OF reach] by blast
qed

end
