(* ===== verification/ViewLaws.thy ===== *)
theory ViewLaws
  imports ControlPages PageLaws
begin

text \<open>
  Laws of the lists, panels and dialogs: what the filters show, which parts exclude each other,
  what the controls can and cannot reach.
\<close>

section \<open>Filters\<close>

lemma distinct_toggleStatus [intro]: "distinct xs \<Longrightarrow> distinct (toggleStatus x xs)"
  by (simp add: toggleStatus_def)

lemma projects_step_distinct: "distinct (pp_selectedStatus s) \<Longrightarrow> distinct (pp_selectedStatus (projects_step e s))"
  by (cases e) (auto simp: clearFilters_def clear_search_and_filters_def)

lemma projects_steps_distinct: "distinct (pp_selectedStatus s) \<Longrightarrow> distinct (pp_selectedStatus (fold projects_step es s))"
  by (induction es arbitrary: s) (auto simp: projects_step_distinct)

lemma all_statuses: "set (map fst STATUS_OPTIONS) = UNIV" "distinct (map fst STATUS_OPTIONS)"
proof -
  have "s \<in> set (map fst STATUS_OPTIONS)" for s by (cases s) (simp_all add: STATUS_OPTIONS_def)
  then show "set (map fst STATUS_OPTIONS) = UNIV" by blast
  show "distinct (map fst STATUS_OPTIONS)" by (simp add: STATUS_OPTIONS_def)
qed

lemma ticked_boxes:
  assumes "distinct sel"
  shows "length (filter snd (filter_boxes sel)) = length sel"
proof -
  have "length (filter snd (filter_boxes sel)) = length (filter (\<lambda>s. s \<in> set sel) (map fst STATUS_OPTIONS))"
    by (simp add: filter_boxes_def filter_map comp_def case_prod_unfold)
  also have "\<dots> = card (set (filter (\<lambda>s. s \<in> set sel) (map fst STATUS_OPTIONS)))"
    by (rule distinct_card [OF distinct_filter [OF all_statuses(2)], symmetric])
  also have "set (filter (\<lambda>s. s \<in> set sel) (map fst STATUS_OPTIONS)) = set sel"
    unfolding set_filter all_statuses(1) by simp
  finally show ?thesis using assms by (simp add: distinct_card)
qed

lemma rendered_all_total:
  "(\<And>x. x \<in> set xs \<Longrightarrow> \<exists>y. f x = Inr y \<and> R x y) \<Longrightarrow> \<exists>ys. rendered_all f xs = Inr ys \<and> list_all2 R xs ys"
proof (induction xs)
  case (Cons x xs)
  obtain y where y: "f x = Inr y" "R x y" using Cons.prems [of x] by auto
  obtain ys where "rendered_all f xs = Inr ys" "list_all2 R xs ys" using Cons.IH Cons.prems by (meson list.set_intros(2))
  then show ?case using y by simp
qed simp

lemma rendered_cards:
  assumes "\<And>v. v \<in> set vs \<Longrightarrow> latestDeployment v \<noteq> None"
  shows "\<exists>cards. rendered_all (ProjectCard ids ago) vs = Inr cards \<and> map cv_name cards = map (\<lambda>v. p_name (pv_project v)) vs"
proof -
  have "\<exists>y. ProjectCard ids ago v = Inr y \<and> cv_name y = p_name (pv_project v)" if "v \<in> set vs" for v
    using assms [OF that] by (auto simp: ProjectCard_def Let_def)
  from rendered_all_total [of vs "ProjectCard ids ago" "\<lambda>v y. cv_name y = p_name (pv_project v)", OF this]
  obtain cards where "rendered_all (ProjectCard ids ago) vs = Inr cards" "list_all2 (\<lambda>v y. cv_name y = p_name (pv_project v)) vs cards"
    by blast
  moreover have "map cv_name cards = map (\<lambda>v. p_name (pv_project v)) vs"
    using \<open>list_all2 _ _ _\<close> by (induction rule: list_all2_induct) auto
  ultimately show ?thesis by blast
qed

text \<open>
  The list of projects after any use of its controls: it renders, the cards are the projects
  that match the search and the ticked statuses, in the order of the API, the badge counts the
  ticked boxes, and of cards and the two empty messages exactly one is there.
\<close>

theorem projects_page_exact:
  assumes "reachable S w" and "projectsService_findAll X u w = (Inr vs, w')"
  shows "\<exists>view. Projects ids ago (Some vs) (fold projects_step es projects_page_init) = Inr view \<and>
    map cv_name (pj_cards view) = map (\<lambda>v. p_name (pv_project v))
      (filteredProjects (pp_searchQuery (fold projects_step es projects_page_init))
        (pp_selectedStatus (fold projects_step es projects_page_init)) (Some vs)) \<and>
    length (filter snd (pj_boxes view)) = (case pj_badge view of None \<Rightarrow> 0 | Some n \<Rightarrow> n) \<and>
    pj_showing view = length (pj_cards view) \<and>
    (pj_noneFound view \<longleftrightarrow> vs \<noteq> [] \<and> pj_cards view = []) \<and> (pj_createFirst view \<longleftrightarrow> vs = [])"
proof -
  let ?s = "fold projects_step es projects_page_init"
  let ?fs = "filteredProjects (pp_searchQuery ?s) (pp_selectedStatus ?s) (Some vs)"
  have sub: "set ?fs \<subseteq> set vs" by (auto simp: filteredProjects_def)
  have "latestDeployment v \<noteq> None" if "v \<in> set ?fs" for v
    using findAll_deployed [OF reachable_deployed [OF assms(1)] assms(2)] that sub by blast
  from rendered_cards [OF this] obtain cards where cards: "rendered_all (ProjectCard ids ago) ?fs = Inr cards"
    "map cv_name cards = map (\<lambda>v. p_name (pv_project v)) ?fs" by blast
  have len: "length cards = length ?fs" using arg_cong [OF cards(2), of length] by simp
  have "distinct (pp_selectedStatus ?s)" by (rule projects_steps_distinct) (simp add: projects_page_init_def)
  from ticked_boxes [OF this] show ?thesis
    using cards len by (auto simp: Projects_def Let_def filter_badge_def)
qed

text \<open>"Clear Search & Filters" brings every project back.\<close>

lemma contains_nothing: "contains_ci [] t"
  by (cases t) (auto simp: contains_ci_def)

lemma clear_all_shows_all:
  "filteredProjects (pp_searchQuery (projects_step ClearAll s)) (pp_selectedStatus (projects_step ClearAll s)) (Some vs) = vs"
  by (simp add: filteredProjects_def clear_search_and_filters_def clearFilters_def contains_nothing)

lemma deployments_unfiltered:
  "filteredDeployments [] [] (enrichedDeployments rows (Some ps)) = enrichedDeployments rows (Some ps)"
  by (auto simp: filteredDeployments_def contains_nothing filter_id_conv)

section \<open>Terminal and pipeline\<close>

lemma log_types_partition:
  "length (filteredLogs (Some LogInfo) [] ls) + length (filteredLogs (Some LogSuccess) [] ls) +
   length (filteredLogs (Some LogError) [] ls) + length (filteredLogs (Some LogWarning) [] ls) = length ls"
proof (induction ls)
  case (Cons x ls)
  obtain l ty time where "x = (l, ty, time)" by (cases x)
  then show ?case using Cons.IH by (cases ty) (simp_all add: filteredLogs_def)
qed (simp add: filteredLogs_def)

lemma log_stats_filter:
  "log_stats ls = (length (filteredLogs (Some LogSuccess) [] ls), length (filteredLogs (Some LogError) [] ls),
     length (filteredLogs (Some LogWarning) [] ls))"
  by (simp add: log_stats_def filteredLogs_def Let_def)

lemma filter_within_all: "set (filteredLogs f q ls) \<subseteq> set (filteredLogs None [] ls)"
  by (auto simp: filteredLogs_def)

lemma pipeline_progress:
  "map (\<lambda>s. pl_progress (PipelineVisualizer (Some s))) [QUEUED, BUILDING, DEPLOYING, READY] = [0, 50, 75, 100]"
  by (simp add: PipelineVisualizer_def getStepsFromStatus_def getProgressPercent_def pipeline_node_of_def Let_def numeral_eq_Suc)

lemma pipeline_badges:
  "pl_badges (PipelineVisualizer (Some s)) =
     (if s = EXPIRED then [ResourcesReleased] else if s \<in> {READY, SUPERSEDED} then [AllSystemsGo]
      else if s = FAILED then [PipelineFailed] else [])"
  by (cases s) (simp_all add: PipelineVisualizer_def getStepsFromStatus_def isAllDone_def hasFailed_def pipeline_node_of_def Let_def)

section \<open>Settings page\<close>

text \<open>No control of the page changes the turbo mode or the default region.\<close>

lemma controls_keep:
  assumes "settings_controls tab e" and "sp_local s = Some c"
  shows "\<exists>c'. sp_local (settings_step e s) = Some c' \<and> ws_turboMode c' = ws_turboMode c \<and>
    ws_defaultRegion c' = ws_defaultRegion c \<and>
    (ws_maxConcurrentBuilds c' = ws_maxConcurrentBuilds c \<or> ws_maxConcurrentBuilds c' \<in> {1, 2, 5})"
proof (cases e)
  case (Toggle k)
  then show ?thesis using assms by (cases k) (auto simp: edit_settings_def settings_controls_def split: if_splits)
next
  case (ChangeNumber k n)
  then show ?thesis using assms
    by (cases k) (auto simp: edit_settings_def settings_controls_def build_options_def split: if_splits)
next
  case (ChangeText k t)
  then show ?thesis using assms by (cases k) (auto simp: edit_settings_def settings_controls_def split: if_splits)
qed

definition controlled :: "(string \<times> settings_edit) list \<Rightarrow> bool" where
  "controlled es \<longleftrightarrow> (\<forall>(tab, e) \<in> set es. settings_controls tab e)"

text \<open>The build limit stays in the range the API accepts when it was there to begin with.\<close>

lemma controls_in_range:
  assumes "controlled es" and "sp_local s = Some c" and "1 \<le> ws_maxConcurrentBuilds c" and "ws_maxConcurrentBuilds c \<le> 10"
  shows "\<exists>c'. sp_local (fold (settings_step \<circ> snd) es s) = Some c' \<and> ws_turboMode c' = ws_turboMode c \<and>
    ws_defaultRegion c' = ws_defaultRegion c \<and> 1 \<le> ws_maxConcurrentBuilds c' \<and> ws_maxConcurrentBuilds c' \<le> 10"
  using assms
proof (induction es arbitrary: s c)
  case (Cons x es)
  obtain tab e where x: "x = (tab, e)" by (cases x)
  have "settings_controls tab e" "controlled es" using Cons.prems(1) by (auto simp: controlled_def x)
  from controls_keep [OF this(1) Cons.prems(2)] obtain c1 where c1: "sp_local (settings_step e s) = Some c1"
    "ws_turboMode c1 = ws_turboMode c" "ws_defaultRegion c1 = ws_defaultRegion c"
    "ws_maxConcurrentBuilds c1 = ws_maxConcurrentBuilds c \<or> ws_maxConcurrentBuilds c1 \<in> {1, 2, 5}" by blast
  have "1 \<le> ws_maxConcurrentBuilds c1" "ws_maxConcurrentBuilds c1 \<le> 10" using c1(4) Cons.prems(3,4) by auto
  from Cons.IH [OF \<open>controlled es\<close> c1(1) this] show ?case using c1 by (simp add: x)
qed simp

text \<open>So the only thing on the page the API can refuse is the text of the webhook.\<close>

theorem controls_acceptable:
  assumes "controlled es" and "sp_local s = Some c" and "1 \<le> ws_maxConcurrentBuilds c" and "ws_maxConcurrentBuilds c \<le> 10"
    and "sp_local (fold (settings_step \<circ> snd) es s) = Some c'"
  shows "settings_ok K c' \<longleftrightarrow> (\<forall>t. ws_slackWebhook c' = Some t \<longrightarrow> ck_isUrl K t)"
proof -
  obtain c1 where "sp_local (fold (settings_step \<circ> snd) es s) = Some c1" "1 \<le> ws_maxConcurrentBuilds c1"
    "ws_maxConcurrentBuilds c1 \<le> 10" using controls_in_range [OF assms(1-4)] by blast
  then show ?thesis using assms(5) by (auto simp: settings_ok_def)
qed

section \<open>Variables panel\<close>

text \<open>While all values are shown, the eye of a row changes its icon and nothing else.\<close>

lemma show_all_wins:
  "pn_showAll p \<Longrightarrow> shown_value (toggleVisibility i p) v = pv_value v"
  by (simp add: shown_value_def isVisible_def toggleVisibility_def)

lemma eye_flips: "vr_eyeOff (var_row_of (toggleVisibility (pv_id v) p) v) = (\<not> vr_eyeOff (var_row_of p v))"
  by (simp add: var_row_of_def toggleVisibility_def)

text \<open>
  "Undo" does not mark the panel as changed: after a save the variable comes back to the panel, but
  there is no button to save it.
\<close>

lemma undo_after_save:
  assumes "\<not> pn_dirty p"
  shows "v \<in> set (pn_envVars (undoRemove v p)) \<and> SaveButton \<notin> set (pw_buttons (EnvVarsPanel (undoRemove v p)))"
  using assms by (simp add: undoRemove_def EnvVarsPanel_def)

text \<open>The records of a domain are shown until the timer of \<open>verifyDomain\<close> has fired, whatever the DNS says.\<close>

lemma verified_without_looking:
  assumes "m \<in> set (pn_domains p)"
  shows "\<exists>k \<in> set (pw_domains (EnvVarsPanel (verifyDomain (pdm_id m) p))).
    lk_text (dk_link k) = pdm_name m \<and> dk_check k \<and> dk_records k = []"
  using assms by (force simp: EnvVarsPanel_def verifyDomain_def toast_def set_domain_status_def domain_card_of_def comp_def)

section \<open>Wizard, selector, palette\<close>

text \<open>When the repositories have been loaded the dialog shows exactly one part.\<close>

lemma wizard_one_part:
  "length (dg_parts (NewProjectDialog ago False isConnected accounts i repos errors t z)) = 1"
  by (auto simp: NewProjectDialog_def Let_def wizard_view_def split: option.splits)

lemma python_versions_valid:
  assumes "choice \<in> set (map (\<lambda>(label, value). or_else (Some value) ''__auto__'') PYTHON_VERSIONS)"
  shows "pf_pythonVersion (wz_form (setPythonVersion choice z)) \<in> snd ` set PYTHON_VERSIONS"
  using assms by (auto simp: PYTHON_VERSIONS_def setPythonVersion_def or_else_def)

lemma framework_icons: "list_all (\<lambda>(fw, path). getFrameworkIcon (Some fw) None = IconImage path fw \<and> path \<noteq> []) FRAMEWORK_ICONS"
  by code_simp

lemma framework_items_have_icons:
  "x \<in> set (cw_items (configure_view_of errors t r z)) \<Longrightarrow> \<exists>path. fst x = IconImage path (snd x) \<and> path \<noteq> []"
  using framework_icons by (auto simp: configure_view_of_def Let_def list_all_iff)

text \<open>Exactly one entry of the open palette is marked.\<close>

lemma marked_below: "length (filter (\<lambda>k. i = m + k) [0 ..< n]) = (if m \<le> i \<and> i < m + n then 1 else (0::nat))"
  by (induction n) auto

lemma palette_in_range: "palette_reachable loaded c \<Longrightarrow> cp_selected c < selectable loaded c"
proof (induction rule: palette_reachable.induct)
  case initially
  then show ?case by (simp add: palette_init_def selectable_def palette_actions_def)
next
  case (event c e)
  from event(2) show ?case by (rule palette_step_in_range)
qed

lemma palette_views_projects:
  "length (palette_projects q (map_option (map (\<lambda>v. (ids v, pv_project v))) loaded)) = length (palette_views q loaded)"
  by (cases loaded) (simp_all add: palette_projects_def palette_views_def filter_map comp_def)

lemma palette_rows_marked:
  "rendered_all (palette_row_of k) (enumerate m vs) = Inr rows \<Longrightarrow> map pr_selected rows = map (\<lambda>i. k = m + i) [0 ..< length vs]"
proof (induction vs arbitrary: m rows)
  case (Cons v vs)
  then obtain row rest where "palette_row_of k (m, v) = Inr row" "rendered_all (palette_row_of k) (enumerate (Suc m) vs) = Inr rest"
    "rows = row # rest" by (auto split: sum.splits)
  then show ?case using Cons.IH [of "Suc m" rest]
    by (auto simp: palette_row_of_def upt_conv_Cons map_Suc_upt [symmetric] comp_def simp del: upt_Suc split: option.splits)
qed simp

theorem palette_one_marked:
  assumes "palette_reachable (map_option (map (\<lambda>v. (ids v, pv_project v))) loaded) c"
    and "CommandPalette loaded c = Inr (Some (rows, acts))"
  shows "length (filter pr_selected rows) + length (filter snd acts) = 1"
proof -
  let ?n = "length (palette_views (cp_query c) loaded)"
  have "cp_selected c < ?n + 3"
    using palette_in_range [OF assms(1)] by (simp add: selectable_def palette_views_projects palette_actions_def)
  have parts: "rendered_all (palette_row_of (cp_selected c)) (enumerate 0 (palette_views (cp_query c) loaded)) = Inr rows"
    "acts = map (\<lambda>(index, label). (label, cp_selected c = ?n + index)) (enumerate 0 action_labels)"
    using assms(2) by (auto simp: CommandPalette_def Let_def split: if_splits sum.splits)
  have rows: "map pr_selected rows = map (\<lambda>i. cp_selected c = 0 + i) [0 ..< ?n]" by (rule palette_rows_marked [OF parts(1)])
  have acts: "map snd acts = map (\<lambda>i. cp_selected c = ?n + i) [0 ..< 3]"
    unfolding parts(2) by (simp add: action_labels_def numeral_eq_Suc)
  have "length (filter pr_selected rows) = length (filter (\<lambda>b. b) (map pr_selected rows))"
    by (simp add: filter_map comp_def)
  also have "\<dots> = (if cp_selected c < ?n then 1 else 0)"
    unfolding rows using marked_below [of "cp_selected c" 0 ?n] by (simp add: filter_map comp_def)
  finally have r: "length (filter pr_selected rows) = (if cp_selected c < ?n then 1 else 0)" .
  have "length (filter snd acts) = length (filter (\<lambda>b. b) (map snd acts))" by (simp add: filter_map comp_def)
  also have "\<dots> = (if ?n \<le> cp_selected c \<and> cp_selected c < ?n + 3 then 1 else 0)"
    unfolding acts filter_map length_map using marked_below [of "cp_selected c" ?n 3] by (simp only: comp_def)
  finally show ?thesis using r \<open>cp_selected c < ?n + 3\<close> by auto
qed

end
