(* ===== verification/Refresh.thy ===== *)
theory Refresh
  imports FetchLaws
begin

text \<open>
  Several requests of one page at a time: \<open>FetchClient\<close> of \<open>lib/fetch-client.ts\<close> with its shared
  \<open>refreshPromise\<close>. \<open>FetchClient\<close> (the theory) runs one request from its start to its end; here a
  task of the event loop is a step, requests are in flight together, the network answers them
  in any order, and the first request that meets a 401 starts the refresh the others wait for.
  What runs between two awaits, with the promise reactions it triggers, is one step.
\<close>

section \<open>State\<close>

datatype origin = FirstTry nat | RefreshCall | SecondTry nat

datatype phase =
    Unsent
  | is_InFlight: InFlight net_request bool
  | is_Awaiting: AwaitingRefresh net_request
  | is_Retried: RetriedWith net_request
  | Settled "client_error + json option"

record flight =
  fl_client :: client
  fl_phase :: "nat \<Rightarrow> phase"
  fl_refresh :: "nat list option"
  fl_net :: "origin list"

text \<open>
  \<open>fl_refresh\<close> is \<open>refreshPromise\<close>: null, or the requests that await it in the order they came;
  \<open>fl_net\<close> the fetches without an answer yet.
\<close>

definition idle :: "client \<Rightarrow> flight" where
  "idle s = \<lparr>fl_client = s, fl_phase = (\<lambda>i. Unsent), fl_refresh = None, fl_net = []\<rparr>"

definition set_phase :: "nat \<Rightarrow> phase \<Rightarrow> flight \<Rightarrow> flight" where
  "set_phase i p f = f\<lparr>fl_phase := (fl_phase f)(i := p)\<rparr>"

definition send_fetch :: "origin \<Rightarrow> net_request \<Rightarrow> flight \<Rightarrow> flight" where
  "send_fetch orig req f = f\<lparr>fl_client := (fl_client f)\<lparr>cl_sent := cl_sent (fl_client f) @ [req]\<rparr>,
     fl_net := fl_net f @ [orig]\<rparr>"

definition ends_session :: "flight \<Rightarrow> flight" where
  \<comment> \<open>the catch block after a failed refresh or a failed second try\<close>
  "ends_session f = f\<lparr>fl_client := log_out (fl_client f)\<rparr>"

section \<open>Steps\<close>

definition request_of ::
    "((string \<times> string) list \<Rightarrow> string) \<Rightarrow> string \<Rightarrow> client \<Rightarrow> string \<Rightarrow> string \<Rightarrow> request_options \<Rightarrow> net_request" where
  \<comment> \<open>what \<open>request\<close> computes before its first await\<close>
  "request_of encode baseUrl s meth url opts = \<lparr>
     nr_method = meth, nr_url = buildUrl encode baseUrl url (ro_params opts),
     nr_authorization = (case (if ro_skipAuth opts then None else getAccessToken s) of
        Some t \<Rightarrow> Some (bearer t) | None \<Rightarrow> ro_authorization opts),
     nr_body = (case ro_body opts of Some b \<Rightarrow> if js_truthy b then Some b else None | None \<Rightarrow> None)\<rparr>"

definition start_request ::
    "((string \<times> string) list \<Rightarrow> string) \<Rightarrow> string \<Rightarrow> nat \<Rightarrow> string \<Rightarrow> string \<Rightarrow> request_options \<Rightarrow> flight \<Rightarrow> flight" where
  "start_request encode baseUrl i meth url opts f =
     (case fl_phase f i of
        Unsent \<Rightarrow> (let req = request_of encode baseUrl (fl_client f) meth url opts
                   in send_fetch (FirstTry i) req (set_phase i (InFlight req (ro_skipAuth opts)) f))
      | _ \<Rightarrow> f)"

definition outcome :: "response \<Rightarrow> client_error + json option" where
  \<comment> \<open>what follows the last response: \<open>if (!res.ok)\<close> and \<open>safeParse\<close>\<close>
  "outcome r =
     (let parsed = (if (case rs_contentType r of None \<Rightarrow> False | Some ct \<Rightarrow> contains_text ''application/json'' ct)
                    then (case rs_json r of None \<Rightarrow> Inl (ClientError ''SyntaxError'') | Some j \<Rightarrow> Inr (Some j))
                    else if rs_status r = 204 then Inr None else Inr (Some (JStr (rs_text r))))
      in if res_ok r then parsed else (case parsed of Inl e \<Rightarrow> Inl e | Inr data \<Rightarrow> Inl (ApiError (rs_status r) data)))"

definition await_refresh :: "string \<Rightarrow> nat \<Rightarrow> net_request \<Rightarrow> string \<Rightarrow> flight \<Rightarrow> flight" where
  \<comment> \<open>\<open>refreshTokens()\<close>: join the refresh under way, or start one\<close>
  "await_refresh baseUrl i req refreshToken f =
     (case fl_refresh f of
        Some waiting \<Rightarrow> set_phase i (AwaitingRefresh req) (f\<lparr>fl_refresh := Some (waiting @ [i])\<rparr>)
      | None \<Rightarrow> send_fetch RefreshCall \<lparr>nr_method = ''POST'', nr_url = baseUrl @ ''/auth/refresh'',
                   nr_authorization = Some (bearer refreshToken), nr_body = None\<rparr>
                  (set_phase i (AwaitingRefresh req) (f\<lparr>fl_refresh := Some [i]\<rparr>)))"

definition first_answer :: "string \<Rightarrow> nat \<Rightarrow> response option \<Rightarrow> flight \<Rightarrow> flight" where
  "first_answer baseUrl i res f =
     (case fl_phase f i of
        InFlight req skipAuth \<Rightarrow>
          (case res of
             None \<Rightarrow> set_phase i (Settled (Inl (rejection (fl_client f)))) f
           | Some r \<Rightarrow>
               (case getRefreshToken (fl_client f) of
                  Some refreshToken \<Rightarrow>
                    if rs_status r = 401 \<and> \<not> skipAuth then await_refresh baseUrl i req refreshToken f
                    else set_phase i (Settled (outcome r)) f
                | None \<Rightarrow> set_phase i (Settled (outcome r)) f))
      | _ \<Rightarrow> f)"

definition refresh_result :: "response option \<Rightarrow> client \<Rightarrow> (client_error + string) \<times> client" where
  \<comment> \<open>how the promise settles, and the cookies\<close>
  "refresh_result res s =
     (case res of
        None \<Rightarrow> (Inl (rejection s), s)
      | Some r \<Rightarrow>
          if \<not> res_ok r then (Inl (ClientError ''Refresh failed''), s)
          else (case rs_json r of
                  None \<Rightarrow> (Inl (ClientError ''SyntaxError''), s)
                | Some data \<Rightarrow> (Inr (text_of data ''accessToken''),
                    setTokens (text_of data ''accessToken'') (text_of data ''refreshToken'') s)))"

definition resume :: "client_error + string \<Rightarrow> nat \<Rightarrow> flight \<Rightarrow> flight" where
  \<comment> \<open>a request that awaited the refresh goes on\<close>
  "resume result i f =
     (case fl_phase f i of
        AwaitingRefresh req \<Rightarrow>
          (case result of
             Inl error \<Rightarrow> set_phase i (Settled (Inl error)) (ends_session f)
           | Inr newToken \<Rightarrow>
               if newToken = [] then set_phase i (Settled (Inl (ClientError ''Refresh failed''))) (ends_session f)
               else (let req' = req\<lparr>nr_authorization := Some (bearer newToken)\<rparr>
                     in send_fetch (SecondTry i) req' (set_phase i (RetriedWith req') f)))
      | _ \<Rightarrow> f)"

definition refresh_answer :: "response option \<Rightarrow> flight \<Rightarrow> flight" where
  \<comment> \<open>the promise settles, \<open>finally\<close> resets it, and everyone who awaits it resumes in order\<close>
  "refresh_answer res f =
     (case fl_refresh f of
        None \<Rightarrow> f
      | Some waiting \<Rightarrow>
          (let (result, s) = refresh_result res (fl_client f)
           in fold (resume result) waiting (f\<lparr>fl_client := s, fl_refresh := None\<rparr>)))"

definition second_answer :: "nat \<Rightarrow> response option \<Rightarrow> flight \<Rightarrow> flight" where
  "second_answer i res f =
     (case fl_phase f i of
        RetriedWith req \<Rightarrow>
          (case res of
             None \<Rightarrow> set_phase i (Settled (Inl (rejection (fl_client f)))) (ends_session f)
           | Some r \<Rightarrow> set_phase i (Settled (outcome r)) f)
      | _ \<Rightarrow> f)"

definition deliver :: "string \<Rightarrow> nat \<Rightarrow> response option \<Rightarrow> flight \<Rightarrow> flight" where
  \<comment> \<open>the network answers, or fails, its \<open>k\<close>-th open fetch\<close>
  "deliver baseUrl k res f =
     (if k < length (fl_net f)
      then (let f' = f\<lparr>fl_net := take k (fl_net f) @ drop (Suc k) (fl_net f)\<rparr>
            in case fl_net f ! k of
                 FirstTry i \<Rightarrow> first_answer baseUrl i res f'
               | RefreshCall \<Rightarrow> refresh_answer res f'
               | SecondTry i \<Rightarrow> second_answer i res f')
      else f)"

datatype flight_event =
    Start nat string string request_options
  | Answer nat "response option"
  | Elapse nat
  | Login string string
  | Logout

fun flight_step ::
    "((string \<times> string) list \<Rightarrow> string) \<Rightarrow> string \<Rightarrow> flight_event \<Rightarrow> flight \<Rightarrow> flight" where
  \<comment> \<open>\<open>Login\<close> and \<open>Logout\<close> are the calls of the token manager by the other parts of the page\<close>
  "flight_step encode baseUrl (Start i meth url opts) f = start_request encode baseUrl i meth url opts f"
| "flight_step encode baseUrl (Answer k res) f = deliver baseUrl k res f"
| "flight_step encode baseUrl (Elapse n) f = f\<lparr>fl_client := (fl_client f)\<lparr>cl_now := cl_now (fl_client f) + int n\<rparr>\<rparr>"
| "flight_step encode baseUrl (Login access refresh) f = f\<lparr>fl_client := setTokens access refresh (fl_client f)\<rparr>"
| "flight_step encode baseUrl Logout f = f\<lparr>fl_client := clearTokens (fl_client f)\<rparr>"

definition flight_run ::
    "((string \<times> string) list \<Rightarrow> string) \<Rightarrow> string \<Rightarrow> flight_event list \<Rightarrow> flight \<Rightarrow> flight" where
  "flight_run encode baseUrl events f = fold (flight_step encode baseUrl) events f"

section \<open>Helper wrappers\<close>

definition get_client :: "((string \<times> string) list \<Rightarrow> string) \<Rightarrow> string \<Rightarrow> network \<Rightarrow> string \<Rightarrow> request_options \<Rightarrow> json option client_action" where
  "get_client encode baseUrl net url opts = request_client encode baseUrl net ''GET'' url opts"

definition post_client ::
    "((string \<times> string) list \<Rightarrow> string) \<Rightarrow> string \<Rightarrow> network \<Rightarrow> string \<Rightarrow> json option \<Rightarrow> request_options \<Rightarrow> json option client_action" where
  "post_client encode baseUrl net url body opts = request_client encode baseUrl net ''POST'' url (opts\<lparr>ro_body := body\<rparr>)"

definition put_client ::
    "((string \<times> string) list \<Rightarrow> string) \<Rightarrow> string \<Rightarrow> network \<Rightarrow> string \<Rightarrow> json option \<Rightarrow> request_options \<Rightarrow> json option client_action" where
  "put_client encode baseUrl net url body opts = request_client encode baseUrl net ''PUT'' url (opts\<lparr>ro_body := body\<rparr>)"

definition delete_client :: "((string \<times> string) list \<Rightarrow> string) \<Rightarrow> string \<Rightarrow> network \<Rightarrow> string \<Rightarrow> request_options \<Rightarrow> json option client_action" where
  "delete_client encode baseUrl net url opts = request_client encode baseUrl net ''DELETE'' url opts"

section \<open>One request alone\<close>

fun drive :: "string \<Rightarrow> network \<Rightarrow> nat \<Rightarrow> flight \<Rightarrow> flight" where
  \<comment> \<open>the network answers what is open, at most \<open>n\<close> times\<close>
  "drive baseUrl net 0 f = f"
| "drive baseUrl net (Suc n) f =
     (if fl_net f = [] then f
      else drive baseUrl net n (deliver baseUrl 0 (net (butlast (cl_sent (fl_client f))) (last (cl_sent (fl_client f)))) f))"

lemma outcome_run:
  "(if \<not> res_ok r then andThen (safeParse r) (\<lambda>d. throw (ApiError (rs_status r) d)) else safeParse r) s = (outcome r, s)"
  by (auto simp: outcome_def safeParse_def action_simps andThen_def Let_def split: option.splits)

lemmas flight_simps = idle_def set_phase_def send_fetch_def ends_session_def start_request_def first_answer_def
  await_refresh_def refresh_answer_def refresh_result_def resume_def second_answer_def deliver_def

lemma sent_reads [simp]:
  "getRefreshToken (s\<lparr>cl_sent := x\<rparr>) = getRefreshToken s" "getAccessToken (s\<lparr>cl_sent := x\<rparr>) = getAccessToken s"
  by (simp_all add: getRefreshToken_def getAccessToken_def get_cookie_def split: option.splits)

lemma log_out_sent [simp]: "cl_sent (log_out s) = cl_sent s" "cl_sent (setTokens a b s) = cl_sent s"
  by (simp_all add: log_out_def clearTokens_def setTokens_def dispatch_def)

lemma drive_open: "drive baseUrl net (Suc n) f = (if fl_net f = [] then f
   else drive baseUrl net n (deliver baseUrl 0 (net (butlast (cl_sent (fl_client f))) (last (cl_sent (fl_client f)))) f))"
  by simp

lemma drive_idle: "fl_net f = [] \<Longrightarrow> drive baseUrl net n f = f"
  by (cases n) simp_all

definition tail_client :: "string \<Rightarrow> network \<Rightarrow> net_request \<Rightarrow> bool \<Rightarrow> json option client_action" where
  \<comment> \<open>\<open>request_client\<close> after it has built the request\<close>
  "tail_client baseUrl net req skipAuth =
     andThen (doFetch net req) (\<lambda>res.
     andThen (gets getRefreshToken) (\<lambda>refresh.
     andThen (if rs_status res = 401 \<and> \<not> skipAuth \<and> refresh \<noteq> None
              then tryCatch (retried baseUrl net req) (\<lambda>error. andThen (modify log_out) (\<lambda>_. throw error))
              else ret res) (\<lambda>final. 
     (if \<not> res_ok final then andThen (safeParse final) (\<lambda>errorData. throw (ApiError (rs_status final) errorData))
     else safeParse final))))"

lemma request_client_tail:
  "request_client encode baseUrl net meth url opts s = tail_client baseUrl net (request_of encode baseUrl s meth url opts) (ro_skipAuth opts) s"
  by (simp add: request_client_def tail_client_def request_of_def andThen_gets Let_def)

lemma first_alone:
  "drive baseUrl net 3 (start_request encode baseUrl 0 meth url opts (idle s)) =
   (let req = request_of encode baseUrl s meth url opts in
    drive baseUrl net 2 (first_answer baseUrl 0 (net (cl_sent s) req)
      \<lparr>fl_client = s\<lparr>cl_sent := cl_sent s @ [req]\<rparr>, fl_phase = (\<lambda>i. Unsent)(0 := InFlight req (ro_skipAuth opts)),
       fl_refresh = None, fl_net = []\<rparr>))"
  unfolding numeral_3_eq_3 numeral_2_eq_2
  by (subst drive_open)
    (simp add: start_request_def idle_def send_fetch_def set_phase_def deliver_def Let_def del: drive.simps(2))

text \<open>A request that has the client for itself does what \<open>request_client\<close> says.\<close>

definition landed :: "flight \<Rightarrow> (client_error + json option) \<times> client \<Rightarrow> bool" where
  "landed f rs \<longleftrightarrow> fl_phase f 0 = Settled (fst rs) \<and> fl_client f = snd rs \<and> fl_net f = [] \<and> fl_refresh f = None"

definition refresh_request :: "string \<Rightarrow> string \<Rightarrow> net_request" where
  "refresh_request baseUrl token = \<lparr>nr_method = ''POST'', nr_url = baseUrl @ ''/auth/refresh'',
     nr_authorization = Some (bearer token), nr_body = None\<rparr>"

lemma refreshTokens_result:
  assumes "getRefreshToken s = Some token"
  shows "refreshTokens_client baseUrl net s = refresh_result (net (cl_sent s) (refresh_request baseUrl token))
     (s\<lparr>cl_sent := cl_sent s @ [refresh_request baseUrl token]\<rparr>)"
  using assms
  by (auto simp: refreshTokens_client_def refresh_result_def refresh_request_def doFetch_def action_simps split: option.splits)

lemma await_alone:
  assumes "fl_refresh f = None" and "fl_net f = []"
  shows "drive baseUrl net 2 (await_refresh baseUrl 0 req token f) =
     drive baseUrl net 1 (case refresh_result (net (cl_sent (fl_client f)) (refresh_request baseUrl token))
         ((fl_client f)\<lparr>cl_sent := cl_sent (fl_client f) @ [refresh_request baseUrl token]\<rparr>) of
       (result, s) \<Rightarrow> resume result 0 (f\<lparr>fl_client := s, fl_phase := (fl_phase f)(0 := AwaitingRefresh req), fl_refresh := None, fl_net := []\<rparr>))"
  unfolding numeral_2_eq_2 One_nat_def
  using assms by (cases f, subst drive_open)
    (simp add: await_refresh_def refresh_request_def send_fetch_def set_phase_def deliver_def refresh_answer_def Let_def
      split_def del: drive.simps(2))

lemma sent_of_result: "refresh_result res s = (result, s') \<Longrightarrow> cl_sent s' = cl_sent s"
  by (auto simp: refresh_result_def split: option.splits if_splits)

lemma retried_alone:
  assumes f: "fl_refresh f = None" "fl_net f = []" and token: "getRefreshToken (fl_client f) = Some token"
  shows "landed (drive baseUrl net 2 (await_refresh baseUrl 0 req token f))
     (andThen (tryCatch (retried baseUrl net req) (\<lambda>error. andThen (modify log_out) (\<lambda>_. throw error)))
        (\<lambda>final. if \<not> res_ok final then andThen (safeParse final) (\<lambda>errorData. throw (ApiError (rs_status final) errorData))
     else safeParse final) (fl_client f))"
proof -
  obtain result s2 where r: "refresh_result (net (cl_sent (fl_client f)) (refresh_request baseUrl token))
      ((fl_client f)\<lparr>cl_sent := cl_sent (fl_client f) @ [refresh_request baseUrl token]\<rparr>) = (result, s2)" by fastforce
  let ?g = "f\<lparr>fl_client := s2, fl_phase := (fl_phase f)(0 := AwaitingRefresh req), fl_refresh := None, fl_net := []\<rparr>"
  have flight: "drive baseUrl net 2 (await_refresh baseUrl 0 req token f) = drive baseUrl net 1 (resume result 0 ?g)"
    unfolding await_alone [OF f] r by simp
  have seq: "refreshTokens_client baseUrl net (fl_client f) = (result, s2)"
    unfolding refreshTokens_result [OF token] by (rule r)
  show ?thesis
  proof (cases "\<exists>t. result = Inr t \<and> t \<noteq> []")
    case False
    then show ?thesis
      unfolding flight by (cases result)
        (simp_all add: retried_def seq andThen_Inl andThen_Inr tryCatch_def action_simps resume_def set_phase_def
          ends_session_def drive_idle landed_def)
  next
    case True
    then obtain t where t: "result = Inr t" "t \<noteq> []" by blast
    let ?req = "req\<lparr>nr_authorization := Some (bearer t)\<rparr>"
    have "drive baseUrl net 1 (resume result 0 ?g) = second_answer 0 (net (cl_sent s2) ?req)
        (?g\<lparr>fl_client := s2\<lparr>cl_sent := cl_sent s2 @ [?req]\<rparr>, fl_phase := (fl_phase f)(0 := RetriedWith ?req)\<rparr>)"
      using t by (cases f) (simp add: resume_def send_fetch_def set_phase_def deliver_def Let_def)
    then show ?thesis
      unfolding flight using t
      by (cases "net (cl_sent s2) ?req")
        (simp_all add: retried_def seq andThen_Inr andThen_def [of "tryCatch _ _"] tryCatch_def doFetch_def action_simps second_answer_def set_phase_def
          ends_session_def landed_def outcome_run)
  qed
qed

text \<open>
  The two models of a request agree: one that runs alone - each of its fetches answered before
  anything else happens - is the sequential request of \<open>FetchClient\<close>, with the same result,
  requests, cookies and events.
\<close>

theorem alone_is_request_client:
  "landed (drive baseUrl net 3 (start_request encode baseUrl 0 meth url opts (idle s)))
     (request_client encode baseUrl net meth url opts s)"
proof -
  let ?req = "request_of encode baseUrl s meth url opts"
  let ?s1 = "s\<lparr>cl_sent := cl_sent s @ [?req]\<rparr>"
  let ?f = "\<lparr>fl_client = ?s1, fl_phase = (\<lambda>i. Unsent)(0 := InFlight ?req (ro_skipAuth opts)), fl_refresh = None, fl_net = []\<rparr>"
  have start: "drive baseUrl net 3 (start_request encode baseUrl 0 meth url opts (idle s)) =
      drive baseUrl net 2 (first_answer baseUrl 0 (net (cl_sent s) ?req) ?f)"
    by (simp add: first_alone Let_def)
  show ?thesis
  proof (cases "net (cl_sent s) ?req")
    case None
    then show ?thesis
      unfolding start request_client_tail
      by (simp add: first_answer_def set_phase_def drive_idle landed_def tail_client_def doFetch_def action_simps)
  next
    case (Some r)
    show ?thesis
    proof (cases "rs_status r = 401 \<and> \<not> ro_skipAuth opts \<and> getRefreshToken s \<noteq> None")
      case True
      then obtain token where token: "getRefreshToken s = Some token" by auto
      have "landed (drive baseUrl net 2 (await_refresh baseUrl 0 ?req token ?f))
         (andThen (tryCatch (retried baseUrl net ?req) (\<lambda>error. andThen (modify log_out) (\<lambda>_. throw error)))
            (\<lambda>final. if \<not> res_ok final then andThen (safeParse final) (\<lambda>errorData. throw (ApiError (rs_status final) errorData))
             else safeParse final) ?s1)"
        using retried_alone [of ?f token baseUrl net ?req] token by simp
      then show ?thesis
        unfolding start request_client_tail
        using True token Some by (simp add: first_answer_def tail_client_def doFetch_def action_simps)
    next
      case False
      then have "first_answer baseUrl 0 (Some r) ?f = set_phase 0 (Settled (outcome r)) ?f"
        by (auto simp: first_answer_def split: option.splits)
      moreover have "tail_client baseUrl net ?req (ro_skipAuth opts) s = (outcome r, ?s1)"
        using False Some outcome_run [of r ?s1] by (auto simp: tail_client_def doFetch_def action_simps)
      ultimately show ?thesis
        unfolding start request_client_tail using Some by (simp add: set_phase_def drive_idle landed_def)
    qed
  qed
qed

section \<open>One refresh at a time\<close>

definition tidy :: "nat list \<Rightarrow> bool \<Rightarrow> flight \<Rightarrow> bool" where
  \<comment> \<open>what is open on the network is what the phases say, with the requests \<open>waiting\<close> for a refresh\<close>
  "tidy waiting refreshing f \<longleftrightarrow>
     distinct (fl_net f) \<and> (RefreshCall \<in> set (fl_net f) \<longleftrightarrow> refreshing) \<and> distinct waiting \<and>
     (\<forall>i. (FirstTry i \<in> set (fl_net f) \<longleftrightarrow> is_InFlight (fl_phase f i)) \<and>
        (SecondTry i \<in> set (fl_net f) \<longleftrightarrow> is_Retried (fl_phase f i)) \<and>
        (i \<in> set waiting \<longleftrightarrow> is_Awaiting (fl_phase f i)))"

definition flight_ok :: "flight \<Rightarrow> bool" where
  "flight_ok f \<longleftrightarrow> (case fl_refresh f of None \<Rightarrow> tidy [] False f | Some waiting \<Rightarrow> waiting \<noteq> [] \<and> tidy waiting True f)"

lemma idle_ok: "flight_ok (idle s)"
  by (simp add: flight_ok_def tidy_def idle_def)

lemma tidy_client [simp]: "tidy ws b (fl_client_update g f) = tidy ws b f" "tidy ws b (fl_refresh_update h f) = tidy ws b f"
  by (simp_all add: tidy_def)

lemma flight_ok_client [simp]: "flight_ok (fl_client_update g f) = flight_ok f"
  by (simp add: flight_ok_def split: option.split)

lemma start_ok: "flight_ok f \<Longrightarrow> flight_ok (start_request encode baseUrl i meth url opts f)"
  by (auto simp: start_request_def flight_ok_def tidy_def send_fetch_def set_phase_def Let_def split: phase.splits option.splits)

lemma taken_out:
  assumes "distinct xs" and "k < length xs"
  shows "distinct (take k xs @ drop (Suc k) xs)" and "set (take k xs @ drop (Suc k) xs) = set xs - {xs ! k}"
proof -
  have "xs = take k xs @ xs ! k # drop (Suc k) xs" using assms(2) by (rule id_take_nth_drop)
  with assms(1) have "distinct (take k xs @ xs ! k # drop (Suc k) xs)" "set xs = set (take k xs @ xs ! k # drop (Suc k) xs)"
    by simp_all
  then show "distinct (take k xs @ drop (Suc k) xs)" "set (take k xs @ drop (Suc k) xs) = set xs - {xs ! k}" by auto
qed

lemma settled_tidy:
  \<comment> \<open>the answer settles the request\<close>
  assumes "tidy ws b f" and "set net = set (fl_net f) - {orig}" and "distinct net"
    and "orig = FirstTry i \<or> orig = SecondTry i" and "orig \<in> set (fl_net f)"
  shows "tidy ws b (set_phase i (Settled r) (f\<lparr>fl_net := net\<rparr>))"
  using assms unfolding tidy_def set_phase_def by auto

lemma resume_tidy:
  assumes "tidy (i # ws) False f"
  shows "tidy ws False (resume result i f)"
proof -
  have "is_Awaiting (fl_phase f i)" using assms unfolding tidy_def by (meson list.set_intros(1))
  then obtain req where "fl_phase f i = AwaitingRefresh req" by (auto simp: is_Awaiting_def)
  then show ?thesis
    using assms by (auto simp: tidy_def resume_def set_phase_def send_fetch_def ends_session_def Let_def split: sum.splits)
qed

lemma resume_all_tidy: "tidy ws False f \<Longrightarrow> tidy [] False (fold (resume result) ws f)"
  by (induction ws arbitrary: f) (auto dest: resume_tidy)

lemma resume_refresh: "fl_refresh (resume result i f) = fl_refresh f"
  by (auto simp: resume_def set_phase_def send_fetch_def ends_session_def Let_def split: phase.splits sum.splits)

lemma resume_all_refresh: "fl_refresh (fold (resume result) ws f) = fl_refresh f"
  by (induction ws arbitrary: f) (auto simp: resume_refresh)

lemma await_ok:
  assumes ok: "flight_ok f" and "fl_phase f i = InFlight req b" and net: "distinct net" "set net = set (fl_net f) - {FirstTry i}"
  shows "flight_ok (await_refresh baseUrl i req token (f\<lparr>fl_net := net\<rparr>))"
proof (cases "fl_refresh f")
  case None
  then have "tidy [] False f" using ok by (simp add: flight_ok_def)
  then show ?thesis
    using assms(2) net None by (auto simp: await_refresh_def flight_ok_def tidy_def set_phase_def send_fetch_def)
next
  case (Some ws)
  then have t: "tidy ws True f" using ok by (simp add: flight_ok_def)
  then have "i \<notin> set ws" using assms(2) by (auto simp: tidy_def)
  then have "tidy (ws @ [i]) True (set_phase i (AwaitingRefresh req) (f\<lparr>fl_net := net\<rparr>))"
    using t assms(2) net by (auto simp: tidy_def set_phase_def)
  then show ?thesis using Some by (simp add: await_refresh_def flight_ok_def set_phase_def tidy_def)
qed

lemma settled_ok:
  assumes "flight_ok f" and "set net = set (fl_net f) - {orig}" and "distinct net"
    and "orig = FirstTry i \<or> orig = SecondTry i" and "orig \<in> set (fl_net f)"
  shows "flight_ok (set_phase i (Settled r) (f\<lparr>fl_net := net\<rparr>))"
proof (cases "fl_refresh f")
  case None
  then show ?thesis using settled_tidy [OF _ assms(2-5), of "[]" False r] assms(1) by (simp add: flight_ok_def set_phase_def)
next
  case (Some ws)
  then show ?thesis using settled_tidy [OF _ assms(2-5), of ws True r] assms(1) by (simp add: flight_ok_def set_phase_def)
qed

lemma refreshed_ok:
  assumes "flight_ok f" and "set net = set (fl_net f) - {RefreshCall}" and "distinct net" and "RefreshCall \<in> set (fl_net f)"
  shows "flight_ok (refresh_answer res (f\<lparr>fl_net := net\<rparr>))"
proof -
  obtain ws where ws: "fl_refresh f = Some ws" "tidy ws True f"
    using assms(1,4) by (auto simp: flight_ok_def tidy_def split: option.splits)
  then have "tidy ws False (f\<lparr>fl_net := net, fl_client := c, fl_refresh := None\<rparr>)" for c
    using assms(2,3) by (auto simp: tidy_def)
  from resume_all_tidy [OF this] show ?thesis
    using ws(1) by (simp add: refresh_answer_def flight_ok_def resume_all_refresh split_def Let_def)
qed

lemma ends_ok: "flight_ok (ends_session f) = flight_ok f" "set_phase i p (ends_session f) = ends_session (set_phase i p f)"
  by (simp_all add: ends_session_def set_phase_def)

lemma deliver_ok:
  assumes ok: "flight_ok f"
  shows "flight_ok (deliver baseUrl k res f)"
proof (cases "k < length (fl_net f)")
  case True
  have dist: "distinct (fl_net f)" using ok by (auto simp: flight_ok_def tidy_def split: option.splits)
  have mem: "fl_net f ! k \<in> set (fl_net f)" using True by simp
  let ?net = "take k (fl_net f) @ drop (Suc k) (fl_net f)"
  note out = taken_out [OF dist True]
  note settle = settled_ok [OF ok out(2,1) _ mem]
  show ?thesis
  proof (cases "fl_net f ! k")
    case (FirstTry i)
    then obtain req b where ph: "fl_phase f i = InFlight req b"
      using ok mem by (auto simp: flight_ok_def tidy_def is_InFlight_def is_Retried_def split: option.splits)
    note settle = settle [of i, unfolded FirstTry, simplified]
    note await = await_ok [OF ok ph out(1) out(2) [unfolded FirstTry]]
    show ?thesis using True FirstTry ph
      by (auto simp: deliver_def Let_def first_answer_def settle await split: option.splits)
  next
    case RefreshCall
    then show ?thesis using True refreshed_ok [OF ok out(2) [unfolded RefreshCall] out(1)] mem by (simp add: deliver_def)
  next
    case (SecondTry i)
    then obtain req where ph: "fl_phase f i = RetriedWith req"
      using ok mem by (auto simp: flight_ok_def tidy_def is_InFlight_def is_Retried_def split: option.splits)
    note settle = settle [of i, unfolded SecondTry, simplified]
    show ?thesis using True SecondTry ph
      by (auto simp: deliver_def Let_def second_answer_def settle ends_ok split: option.splits)
  qed
qed (use ok in \<open>simp add: deliver_def\<close>)

lemma flight_step_ok: "flight_ok f \<Longrightarrow> flight_ok (flight_step encode baseUrl e f)"
  by (cases e) (simp_all add: start_ok deliver_ok)

lemma flight_run_ok: "flight_ok f \<Longrightarrow> flight_ok (flight_run encode baseUrl es f)"
  unfolding flight_run_def by (induction es arbitrary: f) (simp_all add: flight_step_ok)

text \<open>
  C28. However the requests of a page and the answers of the network interleave, at most one
  token refresh is under way; a request that waits for it has one to wait for; and when nothing
  is open on the network any more, every request that was started has settled.
\<close>

theorem single_refresh:
  assumes "f = flight_run encode baseUrl events (idle s)"
  shows "length (filter (\<lambda>o'. o' = RefreshCall) (fl_net f)) \<le> 1 \<and>
     (\<forall>i req. fl_phase f i = AwaitingRefresh req \<longrightarrow> RefreshCall \<in> set (fl_net f)) \<and>
     (fl_net f = [] \<longrightarrow> (\<forall>i. fl_phase f i = Unsent \<or> (\<exists>r. fl_phase f i = Settled r)))"
proof -
  have ok: "flight_ok f" unfolding assms by (rule flight_run_ok [OF idle_ok])
  have d: "distinct (fl_net f)" using ok by (auto simp: flight_ok_def tidy_def split: option.splits)
  have "length (filter (\<lambda>o'. o' = RefreshCall) xs) \<le> 1" if "distinct xs" for xs
    using that by (induction xs) (auto simp: filter_empty_conv)
  moreover have "RefreshCall \<in> set (fl_net f)" if "fl_phase f i = AwaitingRefresh req" for i req
    using ok that by (auto simp: flight_ok_def tidy_def split: option.splits dest: spec [of _ i])
  moreover have "fl_phase f i = Unsent \<or> (\<exists>r. fl_phase f i = Settled r)" if "fl_net f = []" for i
  proof (cases "fl_phase f i")
    case (InFlight req b) then show ?thesis using ok that by (auto simp: flight_ok_def tidy_def split: option.splits dest: spec [of _ i])
  next
    case (AwaitingRefresh req) then show ?thesis using ok that by (auto simp: flight_ok_def tidy_def split: option.splits dest: spec [of _ i])
  next
    case (RetriedWith req) then show ?thesis using ok that by (auto simp: flight_ok_def tidy_def split: option.splits dest: spec [of _ i])
  qed simp_all
  ultimately show ?thesis using d by blast
qed

section \<open>A refresh token is used once\<close>

text \<open>
  The API accepts a refresh token once: a refresh replaces its hash. \<open>honest\<close> is a run in which
  the API hands out every refresh token once (\<open>held\<close> are those the page has held so far) and no
  other request goes to the refresh endpoint.
\<close>

definition refresh_url :: "string \<Rightarrow> string" where
  "refresh_url baseUrl = baseUrl @ ''/auth/refresh''"

definition refresh_headers :: "string \<Rightarrow> flight \<Rightarrow> string option list" where
  "refresh_headers baseUrl f = map nr_authorization (filter (\<lambda>r. nr_url r = refresh_url baseUrl) (cl_sent (fl_client f)))"

definition written :: "flight_event \<Rightarrow> flight \<Rightarrow> string option" where
  \<comment> \<open>the refresh token that the event stores\<close>
  "written e f = (case e of
       Login access refresh \<Rightarrow> Some refresh
     | Answer k (Some r) \<Rightarrow>
         if k < length (fl_net f) \<and> fl_net f ! k = RefreshCall \<and> res_ok r
         then map_option (\<lambda>data. text_of data ''refreshToken'') (rs_json r) else None
     | _ \<Rightarrow> None)"

definition other_url :: "((string \<times> string) list \<Rightarrow> string) \<Rightarrow> string \<Rightarrow> flight_event \<Rightarrow> bool" where
  "other_url encode baseUrl e = (case e of
     Start i meth url opts \<Rightarrow> buildUrl encode baseUrl url (ro_params opts) \<noteq> refresh_url baseUrl | _ \<Rightarrow> True)"

inductive honest ::
    "((string \<times> string) list \<Rightarrow> string) \<Rightarrow> string \<Rightarrow> string set \<Rightarrow> flight \<Rightarrow> bool" for encode baseUrl where
  begins: "cl_sent s = [] \<Longrightarrow> honest encode baseUrl (ck_value ` set_option (cl_cookies s ''refreshToken'')) (idle s)"
| goes_on: "honest encode baseUrl held f \<Longrightarrow> (\<forall>t. written e f = Some t \<longrightarrow> t \<notin> held) \<Longrightarrow> other_url encode baseUrl e \<Longrightarrow>
     honest encode baseUrl (held \<union> set_option (written e f)) (flight_step encode baseUrl e f)"

fun phase_url :: "phase \<Rightarrow> string option" where
  "phase_url (InFlight req b) = Some (nr_url req)"
| "phase_url (AwaitingRefresh req) = Some (nr_url req)"
| "phase_url (RetriedWith req) = Some (nr_url req)"
| "phase_url _ = None"

definition cookie_held :: "string \<Rightarrow> string set \<Rightarrow> flight \<Rightarrow> bool" where
  \<comment> \<open>the refresh token of the page, and whether it was sent\<close>
  "cookie_held baseUrl held f \<longleftrightarrow> (\<forall>c. cl_cookies (fl_client f) ''refreshToken'' = Some c \<longrightarrow> ck_value c \<in> held \<and>
     (fl_refresh f = None \<longrightarrow> Some (bearer (ck_value c)) \<notin> set (refresh_headers baseUrl f)))"

definition once :: "string \<Rightarrow> string set \<Rightarrow> flight \<Rightarrow> bool" where
  "once baseUrl held f \<longleftrightarrow> flight_ok f \<and> distinct (refresh_headers baseUrl f) \<and>
     set (refresh_headers baseUrl f) \<subseteq> Some ` bearer ` held \<and> cookie_held baseUrl held f \<and>
     (\<forall>i. phase_url (fl_phase f i) \<noteq> Some (refresh_url baseUrl))"

lemma bearer_inj: "bearer a = bearer b \<longleftrightarrow> a = b"
  by (simp add: bearer_def)

lemma once_mono: "once baseUrl held f \<Longrightarrow> held \<subseteq> held' \<Longrightarrow> once baseUrl held' f"
  unfolding once_def cookie_held_def by blast

lemma headers_simps [simp]:
  "refresh_headers baseUrl (fl_phase_update g f) = refresh_headers baseUrl f"
  "refresh_headers baseUrl (fl_net_update h f) = refresh_headers baseUrl f"
  "refresh_headers baseUrl (fl_refresh_update h' f) = refresh_headers baseUrl f"
  "refresh_headers baseUrl (set_phase i p f) = refresh_headers baseUrl f"
  "refresh_headers baseUrl (ends_session f) = refresh_headers baseUrl f"
  by (simp_all add: refresh_headers_def set_phase_def ends_session_def)

lemma headers_send:
  "refresh_headers baseUrl (send_fetch orig req f) =
     refresh_headers baseUrl f @ (if nr_url req = refresh_url baseUrl then [nr_authorization req] else [])"
  by (simp add: refresh_headers_def send_fetch_def)

lemma cookies_simps [simp]:
  "cl_cookies (fl_client (set_phase i p f)) = cl_cookies (fl_client f)"
  "cl_cookies (fl_client (send_fetch orig req f)) = cl_cookies (fl_client f)"
  "cl_cookies (fl_client (ends_session f)) ''refreshToken'' = None"
  by (simp_all add: set_phase_def send_fetch_def ends_session_def log_out_def clearTokens_def dispatch_def)

lemma resume_headers:
  "phase_url (fl_phase f i) \<noteq> Some (refresh_url baseUrl) \<Longrightarrow> refresh_headers baseUrl (resume result i f) = refresh_headers baseUrl f"
  by (auto simp: resume_def headers_send Let_def split: phase.splits sum.splits)

lemma resume_urls:
  "\<forall>j. phase_url (fl_phase f j) \<noteq> Some x \<Longrightarrow> phase_url (fl_phase (resume result i f) j) \<noteq> Some x"
  by (auto simp: resume_def set_phase_def send_fetch_def ends_session_def Let_def split: phase.splits sum.splits)
    (metis phase_url.simps(2))+

lemma resume_cookie:
  "cl_cookies (fl_client (resume result i f)) ''refreshToken'' \<in> {None, cl_cookies (fl_client f) ''refreshToken''}"
  by (auto simp: resume_def Let_def split: phase.splits sum.splits)

lemma resume_all:
  assumes "\<forall>j. phase_url (fl_phase f j) \<noteq> Some (refresh_url baseUrl)"
  shows "refresh_headers baseUrl (fold (resume result) ws f) = refresh_headers baseUrl f \<and>
     (\<forall>j. phase_url (fl_phase (fold (resume result) ws f) j) \<noteq> Some (refresh_url baseUrl)) \<and>
     cl_cookies (fl_client (fold (resume result) ws f)) ''refreshToken'' \<in> {None, cl_cookies (fl_client f) ''refreshToken''}"
  using assms
proof (induction ws arbitrary: f)
  case (Cons i ws)
  have "\<forall>j. phase_url (fl_phase (resume result i f) j) \<noteq> Some (refresh_url baseUrl)"
    using resume_urls [OF Cons.prems] by blast
  from Cons.IH [OF this] show ?case
    using resume_headers [of f i baseUrl result] Cons.prems resume_cookie [of result i f] by auto
qed simp

lemma resume_fails:
  assumes "is_Awaiting (fl_phase f i)" and "\<And>t. result = Inr t \<Longrightarrow> t = []"
  shows "cl_cookies (fl_client (resume result i f)) ''refreshToken'' = None"
  using assms by (auto simp: resume_def is_Awaiting_def split: sum.split)

lemma resume_all_urls:
  assumes "\<forall>j. phase_url (fl_phase f j) \<noteq> Some (refresh_url baseUrl)"
  shows "refresh_headers baseUrl (fold (resume result) ws f) = refresh_headers baseUrl f"
    and "\<forall>j. phase_url (fl_phase (fold (resume result) ws f) j) \<noteq> Some (refresh_url baseUrl)"
    and "cl_cookies (fl_client (fold (resume result) ws f)) ''refreshToken'' \<in> {None, cl_cookies (fl_client f) ''refreshToken''}"
  using resume_all [OF assms, of result ws] by auto

lemma once_elapse:
  "once baseUrl held f \<Longrightarrow> once baseUrl held (f\<lparr>fl_client := (fl_client f)\<lparr>cl_now := t\<rparr>\<rparr>)"
  by (simp add: once_def cookie_held_def refresh_headers_def)

lemma once_logout: "once baseUrl held f \<Longrightarrow> once baseUrl held (f\<lparr>fl_client := clearTokens (fl_client f)\<rparr>)"
  by (simp add: once_def cookie_held_def refresh_headers_def clearTokens_def dispatch_def)

lemma once_login:
  assumes "once baseUrl held f" and "t \<notin> held"
  shows "once baseUrl (insert t held) (f\<lparr>fl_client := setTokens a t (fl_client f)\<rparr>)"
proof -
  let ?g = "f\<lparr>fl_client := setTokens a t (fl_client f)\<rparr>"
  have "Some (bearer t) \<notin> set (refresh_headers baseUrl f)"
    using assms by (auto simp: once_def bearer_inj)
  moreover have "refresh_headers baseUrl ?g = refresh_headers baseUrl f" by (simp add: refresh_headers_def)
  moreover have "cl_cookies (fl_client ?g) ''refreshToken'' = Some \<lparr>ck_value = t, ck_expires = cl_now (fl_client f) + 7 * 86400000\<rparr>"
    by (simp add: setTokens_def dispatch_def)
  moreover have "once baseUrl (insert t held) f" by (rule once_mono [OF assms(1)]) blast
  ultimately show ?thesis by (simp add: once_def cookie_held_def)
qed

lemma once_start:
  assumes "once baseUrl held f" and "buildUrl encode baseUrl url (ro_params opts) \<noteq> refresh_url baseUrl"
  shows "once baseUrl held (start_request encode baseUrl i meth url opts f)"
proof -
  have "flight_ok (start_request encode baseUrl i meth url opts f)" using assms(1) by (intro start_ok) (simp add: once_def)
  moreover have "refresh_headers baseUrl (start_request encode baseUrl i meth url opts f) = refresh_headers baseUrl f"
    using assms(2) by (auto simp: start_request_def headers_send request_of_def Let_def split: phase.split)
  moreover have "cl_cookies (fl_client (start_request encode baseUrl i meth url opts f)) = cl_cookies (fl_client f)"
    "fl_refresh (start_request encode baseUrl i meth url opts f) = fl_refresh f"
    by (auto simp: start_request_def Let_def send_fetch_def set_phase_def split: phase.split)
  moreover have "phase_url (fl_phase (start_request encode baseUrl i meth url opts f) j) \<noteq> Some (refresh_url baseUrl)" for j
    using assms by (auto simp: once_def start_request_def set_phase_def send_fetch_def request_of_def Let_def split: phase.split)
  ultimately show ?thesis using assms(1) by (simp add: once_def cookie_held_def)
qed

lemma once_settle:
  assumes "once baseUrl held f" and "flight_ok (set_phase i (Settled r) (f\<lparr>fl_net := net\<rparr>))"
  shows "once baseUrl held (set_phase i (Settled r) (f\<lparr>fl_net := net\<rparr>))"
    and "once baseUrl held (set_phase i (Settled r) (ends_session (f\<lparr>fl_net := net\<rparr>)))"
  using assms by (auto simp: once_def cookie_held_def ends_ok) (auto simp: set_phase_def ends_session_def split: if_splits)

lemma once_await:
  assumes o: "once baseUrl held f" and ok: "flight_ok (await_refresh baseUrl i req token (f\<lparr>fl_net := net\<rparr>))"
    and ph: "fl_phase f i = InFlight req b" and token: "getRefreshToken (fl_client f) = Some token"
  shows "once baseUrl held (await_refresh baseUrl i req token (f\<lparr>fl_net := net\<rparr>))"
proof -
  let ?g = "await_refresh baseUrl i req token (f\<lparr>fl_net := net\<rparr>)"
  obtain c where c: "cl_cookies (fl_client f) ''refreshToken'' = Some c" "ck_value c = token"
    using token by (auto simp: getRefreshToken_def get_cookie_def split: option.splits if_splits)
  have url: "nr_url req \<noteq> refresh_url baseUrl" using o ph unfolding once_def by (metis phase_url.simps(1))
  have urls: "phase_url (fl_phase ?g j) \<noteq> Some (refresh_url baseUrl)" for j
    using o url by (auto simp: once_def await_refresh_def set_phase_def send_fetch_def split: option.split)
  have cookies: "cl_cookies (fl_client ?g) = cl_cookies (fl_client f)" "fl_refresh ?g \<noteq> None"
    by (auto simp: await_refresh_def set_phase_def send_fetch_def split: option.split)
  have "refresh_headers baseUrl ?g = refresh_headers baseUrl f @ (if fl_refresh f = None then [Some (bearer token)] else [])"
    by (auto simp: await_refresh_def headers_send refresh_url_def split: option.split)
  then show ?thesis
    using o ok c urls cookies by (auto simp: once_def cookie_held_def)
qed

lemma once_refreshed:
  assumes o: "once baseUrl held f" and ok: "flight_ok (refresh_answer res (f\<lparr>fl_net := net\<rparr>))"
    and fresh: "\<And>r data. res = Some r \<Longrightarrow> res_ok r \<Longrightarrow> rs_json r = Some data \<Longrightarrow> text_of data ''refreshToken'' \<in> held' - held"
    and sub: "held \<subseteq> held'"
  shows "once baseUrl held' (refresh_answer res (f\<lparr>fl_net := net\<rparr>))"
proof (cases "fl_refresh f")
  case None
  then have "refresh_answer res (f\<lparr>fl_net := net\<rparr>) = f\<lparr>fl_net := net\<rparr>" by (simp add: refresh_answer_def)
  then show ?thesis using once_mono [OF o sub] ok by (simp add: once_def cookie_held_def)
next
  case (Some ws)
  obtain result s where r: "refresh_result res (fl_client f) = (result, s)" by fastforce
  let ?g = "f\<lparr>fl_net := net, fl_client := s, fl_refresh := None\<rparr>"
  let ?h = "fold (resume result) ws ?g"
  have h: "refresh_answer res (f\<lparr>fl_net := net\<rparr>) = ?h" using Some r by (simp add: refresh_answer_def)
  have urls: "\<forall>j. phase_url (fl_phase ?g j) \<noteq> Some (refresh_url baseUrl)" using o by (simp add: once_def)
  note all = resume_all_urls [OF urls, of result ws]
  have headers: "refresh_headers baseUrl ?h = refresh_headers baseUrl f"
    using all(1) sent_of_result [OF r] by (simp add: refresh_headers_def)
  have cookie: "ck_value c \<in> held' \<and> Some (bearer (ck_value c)) \<notin> set (refresh_headers baseUrl f)"
    if c: "cl_cookies (fl_client ?h) ''refreshToken'' = Some c" for c
  proof (cases "\<exists>t. result = Inr t \<and> t \<noteq> []")
    case True
    have "cl_cookies s ''refreshToken'' = Some c" using all(3) c by auto
    then have "ck_value c \<in> held' - held"
      using r True fresh by (auto simp: refresh_result_def setTokens_def dispatch_def split: option.splits if_splits)
    then show ?thesis using o by (auto simp: once_def bearer_inj)
  next
    case False
    obtain i ws' where ws: "ws = i # ws'" and "is_Awaiting (fl_phase f i)"
      using o Some by (cases ws) (auto simp: once_def flight_ok_def tidy_def)
    then have none: "cl_cookies (fl_client (resume result i ?g)) ''refreshToken'' = None"
      using False by (intro resume_fails) auto
    have "\<forall>j. phase_url (fl_phase (resume result i ?g) j) \<noteq> Some (refresh_url baseUrl)"
      using resume_urls [OF urls] by blast
    from resume_all_urls(3) [OF this, of result ws'] none c show ?thesis by (simp add: ws)
  qed
  then show ?thesis
    unfolding h using once_mono [OF o sub] ok h headers all(2) by (simp add: once_def cookie_held_def resume_all_refresh)
qed

lemma once_deliver:
  assumes o: "once baseUrl held f"
    and fresh: "\<And>t. written (Answer k res) f = Some t \<Longrightarrow> t \<notin> held"
  shows "once baseUrl (held \<union> set_option (written (Answer k res) f)) (deliver baseUrl k res f)"
proof (cases "k < length (fl_net f)")
  case False
  then show ?thesis using o by (auto simp: deliver_def written_def split: option.splits)
next
  case True
  have ok: "flight_ok f" using o by (simp add: once_def)
  have after: "flight_ok (deliver baseUrl k res f)" by (rule deliver_ok [OF ok])
  let ?f = "f\<lparr>fl_net := take k (fl_net f) @ drop (Suc k) (fl_net f)\<rparr>"
  have stays: "once baseUrl (held \<union> X) (deliver baseUrl k res f)" if "once baseUrl held (deliver baseUrl k res f)" for X
    using that by (rule once_mono) blast
  show ?thesis
  proof (cases "fl_net f ! k")
    case (FirstTry i)
    then obtain req b where ph: "fl_phase f i = InFlight req b"
      using ok True nth_mem [OF True] by (auto simp: flight_ok_def tidy_def is_InFlight_def split: option.splits)
    have "deliver baseUrl k res f = first_answer baseUrl i res ?f" using True FirstTry by (simp add: deliver_def Let_def)
    with after have "once baseUrl held (deliver baseUrl k res f)"
      using ph by (auto simp: first_answer_def once_settle [OF o] once_await [OF o] split: option.splits if_splits)
    then show ?thesis by (rule stays)
  next
    case RefreshCall
    then have "deliver baseUrl k res f = refresh_answer res ?f" using True by (simp add: deliver_def Let_def)
    with after show ?thesis
      using once_refreshed [OF o, of res _ "held \<union> set_option (written (Answer k res) f)"] fresh True RefreshCall
      by (auto simp: written_def)
  next
    case (SecondTry i)
    then obtain req where ph: "fl_phase f i = RetriedWith req"
      using ok True nth_mem [OF True] by (auto simp: flight_ok_def tidy_def is_Retried_def split: option.splits)
    have "deliver baseUrl k res f = second_answer i res ?f" using True SecondTry by (simp add: deliver_def Let_def)
    with after have "once baseUrl held (deliver baseUrl k res f)"
      using ph by (auto simp: second_answer_def once_settle [OF o, unfolded ends_ok] ends_ok split: option.splits)
    then show ?thesis by (rule stays)
  qed
qed

lemma honest_once: "honest encode baseUrl held f \<Longrightarrow> once baseUrl held f"
proof (induction rule: honest.induct)
  case (begins s)
  then show ?case using idle_ok [of s] by (auto simp: once_def cookie_held_def refresh_headers_def idle_def)
next
  case (goes_on held f e)
  show ?case
  proof (cases e)
    case (Start i meth url opts)
    then show ?thesis using once_start [OF goes_on.IH] goes_on.hyps(3) by (simp add: written_def other_url_def)
  next
    case (Answer k res)
    then show ?thesis using once_deliver [OF goes_on.IH, of k res] goes_on.hyps(2) by simp
  next
    case (Elapse n)
    then show ?thesis using once_elapse [OF goes_on.IH] by (simp add: written_def)
  next
    case (Login a t)
    then show ?thesis using once_login [OF goes_on.IH, of t a] goes_on.hyps(2) by (simp add: written_def)
  next
    case Logout
    then show ?thesis using once_logout [OF goes_on.IH] by (simp add: written_def)
  qed
qed

text \<open>
  C29. Whatever the interleaving of requests, answers, logins and logouts: if the API issues no
  refresh token twice, the page never sends the same refresh token in two refresh requests.
\<close>

theorem refresh_token_once:
  assumes "honest encode baseUrl held f"
  shows "distinct (refresh_headers baseUrl f)"
  using honest_once [OF assms] by (simp add: once_def)

section \<open>Everybody gets the result\<close>

definition after_refresh :: "client_error + string \<Rightarrow> net_request \<Rightarrow> phase" where
  \<comment> \<open>how a request goes on after \<open>await this.refreshTokens()\<close>\<close>
  "after_refresh result req = (case result of
       Inl error \<Rightarrow> Settled (Inl error)
     | Inr newToken \<Rightarrow> if newToken = [] then Settled (Inl (ClientError ''Refresh failed''))
                       else RetriedWith (req\<lparr>nr_authorization := Some (bearer newToken)\<rparr>))"

lemma resume_phase:
  "fl_phase (resume result i f) j =
     (if j = i then (case fl_phase f i of AwaitingRefresh req \<Rightarrow> after_refresh result req | p \<Rightarrow> p) else fl_phase f j)"
  by (auto simp: resume_def after_refresh_def set_phase_def send_fetch_def ends_session_def Let_def split: phase.split sum.split)

lemma resume_all_phase:
  "distinct ws \<Longrightarrow> fl_phase (fold (resume result) ws f) j =
     (if j \<in> set ws then (case fl_phase f j of AwaitingRefresh req \<Rightarrow> after_refresh result req | p \<Rightarrow> p) else fl_phase f j)"
  by (induction ws arbitrary: f) (auto simp: resume_phase)

text \<open>
  When the refresh answers, every request that met a 401 in the meantime goes on with its
  result - a second try with the new token, or the error - and no other request is touched.
\<close>

theorem refresh_shared:
  assumes "f = flight_run encode baseUrl events (idle s)" and "fl_refresh f = Some waiting"
  shows "fl_phase (refresh_answer res f) i =
      (case fl_phase f i of AwaitingRefresh req \<Rightarrow> after_refresh (fst (refresh_result res (fl_client f))) req | p \<Rightarrow> p) \<and>
     fl_refresh (refresh_answer res f) = None"
proof -
  have "flight_ok f" unfolding assms(1) by (rule flight_run_ok [OF idle_ok])
  then have t: "tidy waiting True f" using assms(2) by (simp add: flight_ok_def)
  then have "distinct waiting" and wait: "i \<in> set waiting \<longleftrightarrow> is_Awaiting (fl_phase f i)" by (simp_all add: tidy_def)
  then show ?thesis
    using assms(2) by (cases "fl_phase f i")
      (simp_all add: refresh_answer_def split_def Let_def resume_all_phase resume_all_refresh)
qed

section \<open>Closed examples\<close>

definition page_client :: client where
  "page_client = \<lparr>cl_cookies = [''accessToken'' \<mapsto> \<lparr>ck_value = ''a0'', ck_expires = 100\<rparr>,
      ''refreshToken'' \<mapsto> \<lparr>ck_value = ''r0'', ck_expires = 100\<rparr>], cl_now = 0, cl_sent = [], cl_events = [],
     cl_failure = (''TypeError'', ''Failed to fetch'')\<rparr>"

definition plain_get :: request_options where
  "plain_get = \<lparr>ro_skipAuth = False, ro_authorization = None, ro_body = None, ro_params = None\<rparr>"

definition status_response :: "nat \<Rightarrow> response" where
  "status_response n = \<lparr>rs_status = n, rs_contentType = None, rs_json = None, rs_text = []\<rparr>"

definition tokens_response :: "string \<Rightarrow> string \<Rightarrow> response" where
  "tokens_response a r = \<lparr>rs_status = 200, rs_contentType = Some ''application/json'',
     rs_json = Some (JObj [(''accessToken'', JStr a), (''refreshToken'', JStr r)]), rs_text = []\<rparr>"

definition two_requests :: "flight_event list" where
  \<comment> \<open>both meet a 401\<close>
  "two_requests = [Start 0 ''GET'' ''/projects'' plain_get, Start 1 ''GET'' ''/deployments'' plain_get,
     Answer 0 (Some (status_response 401)), Answer 0 (Some (status_response 401))]"

definition refreshed_twice :: "flight_event list" where
  \<comment> \<open>a second round after the first refresh\<close>
  "refreshed_twice = two_requests @ [Answer 0 (Some (tokens_response ''a1'' ''r1'')), Answer 0 (Some (status_response 204)),
     Answer 0 (Some (status_response 204)), Start 2 ''GET'' ''/auth/me'' plain_get, Answer 0 (Some (status_response 401))]"

abbreviation "example_run events \<equiv> flight_run (\<lambda>ps. []) ''u'' events (idle page_client)"

lemmas example_defs = flight_run_def two_requests_def refreshed_twice_def plain_get_def page_client_def status_response_def
  tokens_response_def

theorem single_refresh_witness:
  "fl_net (example_run two_requests) = [RefreshCall] \<and> length (filter (\<lambda>o'. o' = RefreshCall) (fl_net (example_run two_requests))) \<le> 1"
proof -
  have "fl_net (example_run two_requests) = [RefreshCall]" by code_simp
  then show ?thesis using single_refresh [OF HOL.refl, of "\<lambda>ps. []" "''u''" two_requests page_client] by blast
qed

theorem refresh_shared_witness:
  "fl_phase (refresh_answer (Some (tokens_response ''a1'' ''r1'')) (example_run two_requests)) 1 =
     RetriedWith \<lparr>nr_method = ''GET'', nr_url = ''u/deployments'', nr_authorization = Some ''Bearer a1'', nr_body = None\<rparr>"
proof -
  have w: "fl_refresh (example_run two_requests) = Some [0, 1]" by code_simp
  have p: "fl_phase (example_run two_requests) 1 =
      AwaitingRefresh \<lparr>nr_method = ''GET'', nr_url = ''u/deployments'', nr_authorization = Some ''Bearer a0'', nr_body = None\<rparr>"
    by code_simp
  have "fst (refresh_result (Some (tokens_response ''a1'' ''r1'')) x) = Inr ''a1''" for x
    by (simp add: refresh_result_def tokens_response_def res_ok_def text_of_def str_field_def)
  then show ?thesis
    using refresh_shared [OF HOL.refl w, of "Some (tokens_response ''a1'' ''r1'')" 1] p
    by (simp add: after_refresh_def bearer_def)
qed

fun honest_events ::
    "((string \<times> string) list \<Rightarrow> string) \<Rightarrow> string \<Rightarrow> string set \<Rightarrow> flight \<Rightarrow> flight_event list \<Rightarrow> bool" where
  "honest_events encode baseUrl held f [] = True"
| "honest_events encode baseUrl held f (e # es) =
     (set_option (written e f) \<inter> held = {} \<and> other_url encode baseUrl e \<and>
      honest_events encode baseUrl (held \<union> set_option (written e f)) (flight_step encode baseUrl e f) es)"

lemma honest_run:
  "honest encode baseUrl held f \<Longrightarrow> honest_events encode baseUrl held f es \<Longrightarrow> \<exists>held'. honest encode baseUrl held' (flight_run encode baseUrl es f)"
  unfolding flight_run_def
proof (induction es arbitrary: held f)
  case (Cons e es)
  have "honest encode baseUrl (held \<union> set_option (written e f)) (flight_step encode baseUrl e f)"
    by (rule honest.goes_on [OF Cons.prems(1)]) (use Cons.prems(2) in auto)
  from Cons.IH [OF this] Cons.prems(2) show ?case by simp
qed auto

theorem refresh_token_once_witness:
  "refresh_headers ''u'' (example_run refreshed_twice) = [Some ''Bearer r0'', Some ''Bearer r1''] \<and>
   distinct (refresh_headers ''u'' (example_run refreshed_twice))"
proof -
  have start: "honest (\<lambda>ps. []) ''u'' {''r0''} (idle page_client)"
    using honest.begins [of page_client] by (simp add: page_client_def)
  have "honest_events (\<lambda>ps. []) ''u'' {''r0''} (idle page_client) refreshed_twice" by code_simp
  from honest_run [OF start this] obtain held where "honest (\<lambda>ps. []) ''u'' held (example_run refreshed_twice)" by blast
  from refresh_token_once [OF this] have "distinct (refresh_headers ''u'' (example_run refreshed_twice))" .
  moreover have "refresh_headers ''u'' (example_run refreshed_twice) = [Some ''Bearer r0'', Some ''Bearer r1'']" by code_simp
  ultimately show ?thesis by blast
qed

text \<open>
  A logout does not stop a refresh under way: when it answers, the tokens are stored again and
  the page has a session after the user has left it.
\<close>

theorem logout_overtaken:
  "getAccessToken (fl_client (example_run (two_requests @ [Logout]))) = None \<and>
   getAccessToken (fl_client (example_run (two_requests @ [Logout, Answer 0 (Some (tokens_response ''a1'' ''r1''))]))) = Some ''a1''"
  by code_simp

text \<open>A failed refresh dispatches the logout event once for every request that awaited it.\<close>

lemma logout_events_of_waiting:
  "filter (\<lambda>e. e = ''auth:logout'') (cl_events (fl_client (example_run (two_requests @ [Answer 0 None])))) =
     [''auth:logout'', ''auth:logout'']"
  by code_simp

end
