(* ===== verification/Bootstrap.thy ===== *)
theory Bootstrap
  imports HttpLaws Health
begin

text \<open>
  How the API starts: the module declarations (\<open>*.module.ts\<close>) as data, the resolution of the
  constructor parameters by Nest, what the constructors and \<open>onModuleInit\<close> hooks demand of the
  environment, and \<open>main.ts\<close>. A class is its name, the types of its constructor parameters (with
  those of its guards) and the error its construction ends with in an environment; what the
  libraries accept is the record \<open>libraries\<close>.
\<close>

section \<open>Classes\<close>

type_synonym environment = "string \<Rightarrow> string option"

record libraries =
  lib_jwtStrategy :: "string option \<Rightarrow> bool"
  lib_oauthStrategy :: "string option \<Rightarrow> string option \<Rightarrow> string option \<Rightarrow> bool"
  lib_octokitApp :: "string \<Rightarrow> string \<Rightarrow> string \<Rightarrow> string \<Rightarrow> bool"
  lib_redis :: "string \<Rightarrow> bool"
  lib_connect :: bool
  lib_listen :: "string \<Rightarrow> bool"

record nest_class =
  nc_name :: string
  nc_deps :: "string list"
  nc_init :: "libraries \<Rightarrow> environment \<Rightarrow> string option"

definition plain_class :: "string \<Rightarrow> string list \<Rightarrow> nest_class" where
  "plain_class n deps = \<lparr>nc_name = n, nc_deps = deps, nc_init = (\<lambda>L env. None)\<rparr>"

definition getOrThrow :: "environment \<Rightarrow> string \<Rightarrow> string option" where
  \<comment> \<open>the error of \<open>config.getOrThrow(k)\<close>; an empty variable is defined\<close>
  "getOrThrow env k = (if env k = None then Some (''Configuration key '' @ k @ '' does not exist'') else None)"

fun first_error :: "string option list \<Rightarrow> string option" where
  "first_error [] = None"
| "first_error (e # es) = (case e of None \<Rightarrow> first_error es | Some x \<Rightarrow> Some x)"

definition require :: "bool \<Rightarrow> string \<Rightarrow> string option" where
  "require ok msg = (if ok then None else Some msg)"

definition JwtAuthGuard_deps :: "string list" where "JwtAuthGuard_deps = [''ConfigService'']"
definition WorkerApiKeyGuard_deps :: "string list" where "WorkerApiKeyGuard_deps = [''ConfigService'']"

definition PrismaService_class :: nest_class where
  \<comment> \<open>\<open>onModuleInit\<close> connects\<close>
  "PrismaService_class = \<lparr>nc_name = ''PrismaService'', nc_deps = [],
     nc_init = (\<lambda>L env. require (lib_connect L) ''PrismaClientInitializationError'')\<rparr>"

definition EncryptionService_class :: nest_class where
  "EncryptionService_class = \<lparr>nc_name = ''EncryptionService'', nc_deps = [''ConfigService''],
     nc_init = (\<lambda>L env. case encryption_constructor env of Inl e \<Rightarrow> Some e | Inr key \<Rightarrow> None)\<rparr>"

fun unescape_newlines :: "string \<Rightarrow> string" where
  \<comment> \<open>\<open>replace(/\\n/g, '\n')\<close>: a backslash and an n become a line feed\<close>
  "unescape_newlines (a # b # cs) =
     (if a = CHR 0x5C \<and> b = CHR ''n'' then CHR 0x0A # unescape_newlines cs else a # unescape_newlines (b # cs))"
| "unescape_newlines cs = cs"

definition GithubAppService_class :: nest_class where
  "GithubAppService_class = \<lparr>nc_name = ''GithubAppService'', nc_deps = [''ConfigService''],
     nc_init = (\<lambda>L env. first_error [getOrThrow env ''GITHUB_APP_ID'', getOrThrow env ''GITHUB_PRIVATE_KEY'',
       getOrThrow env ''GITHUB_CLIENT_ID'', getOrThrow env ''GITHUB_CLIENT_SECRET'',
       require (lib_octokitApp L (the (env ''GITHUB_APP_ID'')) (unescape_newlines (the (env ''GITHUB_PRIVATE_KEY'')))
         (the (env ''GITHUB_CLIENT_ID'')) (the (env ''GITHUB_CLIENT_SECRET''))) ''App''])\<rparr>"

definition QueuesService_class :: nest_class where
  \<comment> \<open>\<open>onModuleInit\<close>: a client that cannot connect reports it later, on its error event\<close>
  "QueuesService_class = \<lparr>nc_name = ''QueuesService'', nc_deps = [''ConfigService''],
     nc_init = (\<lambda>L env. first_error [getOrThrow env ''REDIS_URL'', require (lib_redis L (the (env ''REDIS_URL''))) ''Redis''])\<rparr>"

definition WebhooksService_class :: nest_class where
  "WebhooksService_class = \<lparr>nc_name = ''WebhooksService'',
     nc_deps = [''PrismaService'', ''QueuesService'', ''EncryptionService'', ''ConfigService''],
     nc_init = (\<lambda>L env. getOrThrow env ''GITHUB_WEBHOOK_SECRET'')\<rparr>"

definition MailService_class :: nest_class where
  \<comment> \<open>without a key the mails are disabled\<close>
  "MailService_class = plain_class ''MailService'' [''ConfigService'']"

definition HealthService_class :: nest_class where
  \<comment> \<open>the Redis client is optional, and its creation is inside a try block\<close>
  "HealthService_class = plain_class ''HealthService'' [''PrismaService'', ''ConfigService'']"

definition AtStrategy_class :: nest_class where
  "AtStrategy_class = \<lparr>nc_name = ''AtStrategy'', nc_deps = [],
     nc_init = (\<lambda>L env. require (lib_jwtStrategy L (env ''JWT_SECRET'')) ''JwtStrategy requires a secret or key'')\<rparr>"

definition RtStrategy_class :: nest_class where
  "RtStrategy_class = \<lparr>nc_name = ''RtStrategy'', nc_deps = [],
     nc_init = (\<lambda>L env. require (lib_jwtStrategy L (env ''JWT_REFRESH_SECRET'')) ''JwtStrategy requires a secret or key'')\<rparr>"

definition GoogleStrategy_class :: nest_class where
  "GoogleStrategy_class = \<lparr>nc_name = ''GoogleStrategy'', nc_deps = [],
     nc_init = (\<lambda>L env. require (lib_oauthStrategy L (env ''GOOGLE_CLIENT_ID'') (env ''GOOGLE_CLIENT_SECRET'')
       (env ''GOOGLE_CALLBACK_URL'')) ''OAuth2Strategy requires a clientID option'')\<rparr>"

definition GithubStrategy_class :: nest_class where
  "GithubStrategy_class = \<lparr>nc_name = ''GithubStrategy'', nc_deps = [],
     nc_init = (\<lambda>L env. require (lib_oauthStrategy L (env ''GITHUB_CLIENT_ID'') (env ''GITHUB_CLIENT_SECRET'')
       (env ''GITHUB_CALLBACK_URL'')) ''OAuth2Strategy requires a clientID option'')\<rparr>"

definition AuthService_class :: nest_class where
  "AuthService_class = plain_class ''AuthService'' [''PrismaService'', ''JwtService'']"

definition AuthController_class :: nest_class where
  "AuthController_class = plain_class ''AuthController''
     ([''AuthService'', ''GithubAppService'', ''ConfigService'', ''JwtService''] @ JwtAuthGuard_deps)"

definition GitController_class :: nest_class where
  "GitController_class = plain_class ''GitController'' ([''PrismaService'', ''GithubAppService''] @ JwtAuthGuard_deps)"

definition ProjectsService_class :: nest_class where
  "ProjectsService_class = plain_class ''ProjectsService''
     [''PrismaService'', ''QueuesService'', ''EncryptionService'', ''GithubAppService'']"

definition ProjectsController_class :: nest_class where
  "ProjectsController_class = plain_class ''ProjectsController'' ([''ProjectsService''] @ JwtAuthGuard_deps)"

definition DeploymentsService_class :: nest_class where
  "DeploymentsService_class = plain_class ''DeploymentsService''
     [''PrismaService'', ''QueuesService'', ''GithubAppService'', ''EncryptionService'']"

definition DeploymentsController_class :: nest_class where
  "DeploymentsController_class = plain_class ''DeploymentsController'' ([''DeploymentsService''] @ JwtAuthGuard_deps)"

definition DomainsService_class :: nest_class where
  "DomainsService_class = plain_class ''DomainsService'' [''PrismaService'']"

definition DomainsController_class :: nest_class where
  "DomainsController_class = plain_class ''DomainsController'' ([''DomainsService''] @ JwtAuthGuard_deps)"

definition EnvVarsService_class :: nest_class where
  "EnvVarsService_class = plain_class ''EnvVarsService'' [''PrismaService'', ''EncryptionService'']"

definition EnvVarsController_class :: nest_class where
  "EnvVarsController_class = plain_class ''EnvVarsController'' ([''EnvVarsService''] @ JwtAuthGuard_deps)"

definition SettingsService_class :: nest_class where
  "SettingsService_class = plain_class ''SettingsService'' [''PrismaService'', ''EncryptionService'']"

definition SettingsController_class :: nest_class where
  "SettingsController_class = plain_class ''SettingsController'' ([''SettingsService''] @ JwtAuthGuard_deps)"

definition InternalService_class :: nest_class where
  "InternalService_class = plain_class ''InternalService''
     [''PrismaService'', ''GithubAppService'', ''EncryptionService'', ''MailService'']"

definition InternalController_class :: nest_class where
  "InternalController_class = plain_class ''InternalController'' ([''InternalService''] @ WorkerApiKeyGuard_deps)"

definition AnalyticsService_class :: nest_class where
  "AnalyticsService_class = plain_class ''AnalyticsService'' [''PrismaService'']"

definition AnalyticsController_class :: nest_class where
  "AnalyticsController_class = plain_class ''AnalyticsController'' ([''AnalyticsService''] @ JwtAuthGuard_deps)"

definition HealthController_class :: nest_class where
  "HealthController_class = plain_class ''HealthController'' [''HealthService'']"

definition WebhooksController_class :: nest_class where
  "WebhooksController_class = plain_class ''WebhooksController'' [''WebhooksService'']"

definition AppService_class :: nest_class where "AppService_class = plain_class ''AppService'' []"

definition AppController_class :: nest_class where
  "AppController_class = plain_class ''AppController'' [''AppService'']"

definition getHello :: string where "getHello = ''Hello World!''"

section \<open>Modules\<close>

record nest_module =
  nm_name :: string
  nm_global :: bool
  nm_imports :: "string list"
  nm_controllers :: "nest_class list"
  nm_providers :: "nest_class list"
  nm_exports :: "string list"

definition PrismaModule :: nest_module where
  "PrismaModule = \<lparr>nm_name = ''PrismaModule'', nm_global = False, nm_imports = [], nm_controllers = [],
     nm_providers = [PrismaService_class], nm_exports = [''PrismaService'']\<rparr>"

definition AuthModule :: nest_module where
  "AuthModule = \<lparr>nm_name = ''AuthModule'', nm_global = False,
     nm_imports = [''PrismaModule'', ''JwtModule'', ''ConfigModule'', ''GitModule''],
     nm_controllers = [AuthController_class],
     nm_providers = [AuthService_class, AtStrategy_class, RtStrategy_class, GoogleStrategy_class, GithubStrategy_class],
     nm_exports = [''AuthService'']\<rparr>"

definition GitModule :: nest_module where
  "GitModule = \<lparr>nm_name = ''GitModule'', nm_global = False, nm_imports = [''ConfigModule'', ''PrismaModule'', ''AuthModule''],
     nm_controllers = [GitController_class], nm_providers = [GithubAppService_class], nm_exports = [''GithubAppService'']\<rparr>"

definition ProjectsModule :: nest_module where
  "ProjectsModule = \<lparr>nm_name = ''ProjectsModule'', nm_global = False, nm_imports = [''PrismaModule''],
     nm_controllers = [ProjectsController_class],
     nm_providers = [ProjectsService_class, EncryptionService_class, GithubAppService_class], nm_exports = []\<rparr>"

definition DeploymentsModule :: nest_module where
  "DeploymentsModule = \<lparr>nm_name = ''DeploymentsModule'', nm_global = False, nm_imports = [''PrismaModule'', ''QueuesModule''],
     nm_controllers = [DeploymentsController_class],
     nm_providers = [DeploymentsService_class, EncryptionService_class, GithubAppService_class], nm_exports = []\<rparr>"

definition DomainsModule :: nest_module where
  "DomainsModule = \<lparr>nm_name = ''DomainsModule'', nm_global = False, nm_imports = [''PrismaModule''],
     nm_controllers = [DomainsController_class], nm_providers = [DomainsService_class], nm_exports = []\<rparr>"

definition EnvVarsModule :: nest_module where
  "EnvVarsModule = \<lparr>nm_name = ''EnvVarsModule'', nm_global = False, nm_imports = [''PrismaModule''],
     nm_controllers = [EnvVarsController_class], nm_providers = [EnvVarsService_class, EncryptionService_class], nm_exports = []\<rparr>"

definition QueuesModule :: nest_module where
  "QueuesModule = \<lparr>nm_name = ''QueuesModule'', nm_global = True, nm_imports = [''BullModule''],
     nm_controllers = [], nm_providers = [QueuesService_class], nm_exports = [''QueuesService'', ''BullModule'']\<rparr>"

definition SettingsModule :: nest_module where
  "SettingsModule = \<lparr>nm_name = ''SettingsModule'', nm_global = False, nm_imports = [''PrismaModule''],
     nm_controllers = [SettingsController_class], nm_providers = [SettingsService_class, EncryptionService_class], nm_exports = []\<rparr>"

definition HealthModule :: nest_module where
  "HealthModule = \<lparr>nm_name = ''HealthModule'', nm_global = False, nm_imports = [''PrismaModule'', ''ConfigModule''],
     nm_controllers = [HealthController_class], nm_providers = [HealthService_class], nm_exports = [''HealthService'']\<rparr>"

definition InternalModule :: nest_module where
  "InternalModule = \<lparr>nm_name = ''InternalModule'', nm_global = False, nm_imports = [''ConfigModule'', ''PrismaModule'', ''MailModule''],
     nm_controllers = [InternalController_class],
     nm_providers = [InternalService_class, GithubAppService_class, EncryptionService_class], nm_exports = [''InternalService'']\<rparr>"

definition MailModule :: nest_module where
  "MailModule = \<lparr>nm_name = ''MailModule'', nm_global = True, nm_imports = [''ConfigModule''],
     nm_controllers = [], nm_providers = [MailService_class], nm_exports = [''MailService'']\<rparr>"

definition AnalyticsModule :: nest_module where
  "AnalyticsModule = \<lparr>nm_name = ''AnalyticsModule'', nm_global = False, nm_imports = [''PrismaModule''],
     nm_controllers = [AnalyticsController_class], nm_providers = [AnalyticsService_class], nm_exports = [''AnalyticsService'']\<rparr>"

definition WebhooksModule :: nest_module where
  "WebhooksModule = \<lparr>nm_name = ''WebhooksModule'', nm_global = False, nm_imports = [''PrismaModule''],
     nm_controllers = [WebhooksController_class], nm_providers = [WebhooksService_class, EncryptionService_class], nm_exports = []\<rparr>"

definition AppModule :: nest_module where
  "AppModule = \<lparr>nm_name = ''AppModule'', nm_global = False,
     nm_imports = [''AuthModule'', ''GitModule'', ''ProjectsModule'', ''DeploymentsModule'', ''DomainsModule'', ''EnvVarsModule'',
       ''QueuesModule'', ''SettingsModule'', ''HealthModule'', ''InternalModule'', ''MailModule'', ''AnalyticsModule'', ''WebhooksModule''],
     nm_controllers = [AppController_class], nm_providers = [AppService_class], nm_exports = []\<rparr>"

text \<open>The modules of the libraries: \<open>ConfigModule.forRoot({ isGlobal: true })\<close>, JWT and BullMQ.\<close>

definition library_modules :: "nest_module list" where
  "library_modules = [
     \<lparr>nm_name = ''ConfigModule'', nm_global = True, nm_imports = [], nm_controllers = [],
      nm_providers = [plain_class ''ConfigService'' []], nm_exports = [''ConfigService'']\<rparr>,
     \<lparr>nm_name = ''JwtModule'', nm_global = False, nm_imports = [], nm_controllers = [],
      nm_providers = [plain_class ''JwtService'' []], nm_exports = [''JwtService'']\<rparr>,
     \<lparr>nm_name = ''BullModule'', nm_global = False, nm_imports = [], nm_controllers = [], nm_providers = [], nm_exports = []\<rparr>]"

definition source_modules :: "nest_module list" where
  "source_modules = [AppModule, AuthModule, GitModule, ProjectsModule, DeploymentsModule, DomainsModule, EnvVarsModule,
     QueuesModule, SettingsModule, HealthModule, InternalModule, MailModule, AnalyticsModule, WebhooksModule, PrismaModule]"

section \<open>Resolution\<close>

definition module_named :: "nest_module list \<Rightarrow> string \<Rightarrow> nest_module option" where
  "module_named ms n = find (\<lambda>m. nm_name m = n) ms"

fun reach_modules :: "nat \<Rightarrow> nest_module list \<Rightarrow> string list \<Rightarrow> string list \<Rightarrow> string list" where
  \<comment> \<open>Nest's scan from the root module: the modules visited, depth first\<close>
  "reach_modules 0 ms todo seen = seen"
| "reach_modules (Suc n) ms [] seen = seen"
| "reach_modules (Suc n) ms (m # todo) seen =
     (if m \<in> set seen then reach_modules n ms todo seen
      else reach_modules n ms ((case module_named ms m of None \<Rightarrow> [] | Some d \<Rightarrow> nm_imports d) @ todo) (seen @ [m]))"

definition visible :: "nest_module list \<Rightarrow> nest_module \<Rightarrow> string list" where
  \<comment> \<open>what the constructors of a module can ask for\<close>
  "visible ms m = map nc_name (nm_providers m) @
     concat (map (\<lambda>i. case module_named ms i of None \<Rightarrow> [] | Some d \<Rightarrow> nm_exports d) (nm_imports m)) @
     concat (map nm_exports (filter nm_global ms))"

definition classes_of :: "nest_module \<Rightarrow> nest_class list" where
  "classes_of m = nm_providers m @ nm_controllers m"

definition dependencies_resolve :: "nest_module list \<Rightarrow> bool" where
  "dependencies_resolve ms = list_all (\<lambda>m. list_all (\<lambda>i. module_named ms i \<noteq> None) (nm_imports m) \<and>
     list_all (\<lambda>c. list_all (\<lambda>d. d \<in> set (visible ms m)) (nc_deps c)) (classes_of m)) ms"

section \<open>\<open>main.ts\<close>\<close>

record running =
  rn_port :: string
  rn_origin :: string
  rn_credentials :: bool
  rn_whitelist :: bool
  rn_forbidNonWhitelisted :: bool
  rn_transform :: bool
  rn_rawBody :: bool

definition boot_modules :: "nest_module list" where
  "boot_modules = source_modules @ library_modules"

definition construct_all :: "libraries \<Rightarrow> environment \<Rightarrow> string option" where
  \<comment> \<open>the first error of the constructors and of the \<open>onModuleInit\<close> hooks\<close>
  "construct_all L env = first_error (map (\<lambda>c. nc_init c L env) (concat (map classes_of boot_modules)))"

definition bootstrap :: "libraries \<Rightarrow> external \<Rightarrow> string + running" where
  "bootstrap L X =
     (if \<not> dependencies_resolve boot_modules then Inl ''UnknownDependenciesException''
      else case construct_all L (x_env X) of
             Some e \<Rightarrow> Inl e
           | None \<Rightarrow>
               if \<not> lib_listen L (or_else (x_env X ''PORT'') ''3001'') then Inl ''listen''
               else Inr \<lparr>rn_port = or_else (x_env X ''PORT'') ''3001'', rn_origin = url_config_appUrl X,
                 rn_credentials = True, rn_whitelist = True, rn_forbidNonWhitelisted = True, rn_transform = True, rn_rawBody = True\<rparr>)"

section \<open>When the API starts\<close>

lemma first_error_None: "first_error es = None \<longleftrightarrow> (\<forall>e \<in> set es. e = None)"
  by (induction es) (auto split: option.splits)

lemma require_None [simp]: "require ok msg = None \<longleftrightarrow> ok"
  by (simp add: require_def)

lemma getOrThrow_None [simp]: "getOrThrow env k = None \<longleftrightarrow> env k \<noteq> None"
  by (simp add: getOrThrow_def)

text \<open>Every constructor parameter has a provider in sight, and the root module reaches every module.\<close>

lemma modules_wired:
  "dependencies_resolve boot_modules" "set (reach_modules 100 boot_modules [''AppModule''] []) = set (map nm_name boot_modules)"
  by code_simp+

definition effectful :: "nest_class list" where
  \<comment> \<open>the classes whose construction can fail\<close>
  "effectful = [PrismaService_class, EncryptionService_class, GithubAppService_class, QueuesService_class,
     WebhooksService_class, AtStrategy_class, RtStrategy_class, GoogleStrategy_class, GithubStrategy_class]"

lemmas plain_classes = MailService_class_def HealthService_class_def AuthService_class_def AuthController_class_def
  GitController_class_def ProjectsService_class_def ProjectsController_class_def DeploymentsService_class_def
  DeploymentsController_class_def DomainsService_class_def DomainsController_class_def EnvVarsService_class_def
  EnvVarsController_class_def SettingsService_class_def SettingsController_class_def InternalService_class_def
  InternalController_class_def AnalyticsService_class_def AnalyticsController_class_def HealthController_class_def
  WebhooksController_class_def AppService_class_def AppController_class_def

lemmas module_defs = AppModule_def AuthModule_def GitModule_def ProjectsModule_def DeploymentsModule_def DomainsModule_def
  EnvVarsModule_def QueuesModule_def SettingsModule_def HealthModule_def InternalModule_def MailModule_def
  AnalyticsModule_def WebhooksModule_def PrismaModule_def

lemma plain_init [simp]: "nc_init (plain_class n d) L env = None"
  by (simp add: plain_class_def)

lemma construct_all_None: "construct_all L env = None \<longleftrightarrow> (\<forall>c \<in> set effectful. nc_init c L env = None)"
  unfolding construct_all_def first_error_None
  by (simp add: boot_modules_def source_modules_def library_modules_def module_defs
      classes_of_def effectful_def plain_classes) blast

lemma init_errors:
  "nc_init PrismaService_class L env = None \<longleftrightarrow> lib_connect L"
  "nc_init EncryptionService_class L env = None \<longleftrightarrow> map_option length (env ''ENCRYPTION_KEY'') = Some 64"
  "nc_init WebhooksService_class L env = None \<longleftrightarrow> env ''GITHUB_WEBHOOK_SECRET'' \<noteq> None"
  "nc_init AtStrategy_class L env = None \<longleftrightarrow> lib_jwtStrategy L (env ''JWT_SECRET'')"
  "nc_init RtStrategy_class L env = None \<longleftrightarrow> lib_jwtStrategy L (env ''JWT_REFRESH_SECRET'')"
  "nc_init GoogleStrategy_class L env = None \<longleftrightarrow>
     lib_oauthStrategy L (env ''GOOGLE_CLIENT_ID'') (env ''GOOGLE_CLIENT_SECRET'') (env ''GOOGLE_CALLBACK_URL'')"
  "nc_init GithubStrategy_class L env = None \<longleftrightarrow>
     lib_oauthStrategy L (env ''GITHUB_CLIENT_ID'') (env ''GITHUB_CLIENT_SECRET'') (env ''GITHUB_CALLBACK_URL'')"
  unfolding PrismaService_class_def EncryptionService_class_def WebhooksService_class_def AtStrategy_class_def
    RtStrategy_class_def GoogleStrategy_class_def GithubStrategy_class_def
  by (simp_all add: encryption_constructor_def split: option.split)

lemma demanding_inits:
  "nc_init GithubAppService_class L env = None \<longleftrightarrow> env ''GITHUB_APP_ID'' \<noteq> None \<and> env ''GITHUB_PRIVATE_KEY'' \<noteq> None \<and>
     env ''GITHUB_CLIENT_ID'' \<noteq> None \<and> env ''GITHUB_CLIENT_SECRET'' \<noteq> None \<and>
     lib_octokitApp L (the (env ''GITHUB_APP_ID'')) (unescape_newlines (the (env ''GITHUB_PRIVATE_KEY'')))
       (the (env ''GITHUB_CLIENT_ID'')) (the (env ''GITHUB_CLIENT_SECRET''))"
  "nc_init QueuesService_class L env = None \<longleftrightarrow> env ''REDIS_URL'' \<noteq> None \<and> lib_redis L (the (env ''REDIS_URL''))"
  unfolding GithubAppService_class_def QueuesService_class_def nest_class.select_convs first_error_None
  by simp_all

definition libraries_documented :: "libraries \<Rightarrow> bool" where
  \<comment> \<open>passport refuses exactly an empty secret or client id; octokit's \<open>App\<close> refuses at least an empty
      app id or private key, and may refuse more\<close>
  "libraries_documented L \<longleftrightarrow> (\<forall>s. lib_jwtStrategy L s = truthy_opt s) \<and>
     (\<forall>i s u. lib_oauthStrategy L i s u = truthy_opt i) \<and>
     (\<forall>a k i s. lib_octokitApp L a k i s \<longrightarrow> truthy a \<and> truthy k)"

definition environment_ok :: "environment \<Rightarrow> bool" where
  "environment_ok env \<longleftrightarrow>
     (\<forall>k \<in> set [''GITHUB_CLIENT_SECRET'', ''REDIS_URL'', ''GITHUB_WEBHOOK_SECRET'']. env k \<noteq> None) \<and>
     (\<forall>k \<in> set [''GITHUB_APP_ID'', ''GITHUB_PRIVATE_KEY'', ''JWT_SECRET'', ''JWT_REFRESH_SECRET'', ''GITHUB_CLIENT_ID'',
         ''GOOGLE_CLIENT_ID'']. truthy_opt (env k)) \<and>
     map_option length (env ''ENCRYPTION_KEY'') = Some 64"

lemma unescape_empty [simp]: "unescape_newlines s = [] \<longleftrightarrow> s = []"
  by (cases s rule: unescape_newlines.cases) simp_all

lemma constructed_iff:
  assumes "libraries_documented L"
  shows "construct_all L env = None \<longleftrightarrow> lib_connect L \<and> environment_ok env \<and>
     lib_octokitApp L (the (env ''GITHUB_APP_ID'')) (unescape_newlines (the (env ''GITHUB_PRIVATE_KEY'')))
       (the (env ''GITHUB_CLIENT_ID'')) (the (env ''GITHUB_CLIENT_SECRET'')) \<and>
     lib_redis L (the (env ''REDIS_URL''))"
proof -
  have lib: "lib_jwtStrategy L s = truthy_opt s" "lib_oauthStrategy L i s' u = truthy_opt i" for s i s' u
    using assms by (simp_all add: libraries_documented_def)
  have app: "a \<noteq> [] \<and> k \<noteq> []" if "lib_octokitApp L a (unescape_newlines k) i s" for a k i s
    using assms that unfolding libraries_documented_def by (metis truthy_def unescape_empty)
  have opt: "truthy_opt x \<longleftrightarrow> x \<noteq> None \<and> the x \<noteq> []" for x
    by (cases x) (simp_all add: truthy_def)
  show ?thesis
    unfolding construct_all_None effectful_def environment_ok_def
    by (simp add: init_errors demanding_inits lib opt) (blast dest: app)
qed

text \<open>
  C11. The API starts exactly when the database answers; the environment holds the secrets and
  ids the constructors demand and an encryption key of 64 characters; octokit accepts the GitHub
  app (its private key with the line feeds written out) and the Redis client its address; and
  the port, PORT or 3001, can be listened on. It then serves the configured web origin. Every
  constructor parameter of every module is resolvable, so the sources add no other condition.
\<close>

theorem bootstrap_exact:
  assumes "libraries_documented L"
  shows "bootstrap L X = Inr r \<longleftrightarrow> lib_connect L \<and> environment_ok (x_env X) \<and>
     lib_octokitApp L (the (x_env X ''GITHUB_APP_ID'')) (unescape_newlines (the (x_env X ''GITHUB_PRIVATE_KEY'')))
       (the (x_env X ''GITHUB_CLIENT_ID'')) (the (x_env X ''GITHUB_CLIENT_SECRET'')) \<and>
     lib_redis L (the (x_env X ''REDIS_URL'')) \<and> lib_listen L (or_else (x_env X ''PORT'') ''3001'') \<and>
     r = \<lparr>rn_port = or_else (x_env X ''PORT'') ''3001'', rn_origin = url_config_appUrl X, rn_credentials = True,
          rn_whitelist = True, rn_forbidNonWhitelisted = True, rn_transform = True, rn_rawBody = True\<rparr>"
  using constructed_iff [OF assms, of "x_env X"]
  by (auto simp: bootstrap_def modules_wired split: option.splits if_splits)

section \<open>What a started API may lack\<close>

text \<open>The worker's key is not demanded: without it the API starts and refuses every call of the worker.\<close>

lemma worker_key_optional:
  assumes "bootstrap L X = Inr r" and "h_external H = X" and "\<not> truthy_opt (x_env X ''WORKER_API_KEY'')"
  shows "internalController H c route w \<in> {(Inl (UnauthorizedException ''Missing worker API key''), w),
     (Inl (UnauthorizedException ''Invalid worker API key''), w)}"
  using assms(2,3) by (simp add: internal_guard)

text \<open>
  The length of the encryption key is checked, its digits are not: a key of 64 characters that
  are not hexadecimal starts the API with an empty key.
\<close>

lemma key_digits_unchecked:
  "encryption_constructor (\<lambda>k. if k = ''ENCRYPTION_KEY'' then Some (replicate 64 CHR ''z'') else None) = Inr []"
  by code_simp

section \<open>Closed example\<close>

definition strict_libraries :: libraries where
  "strict_libraries = \<lparr>lib_jwtStrategy = truthy_opt, lib_oauthStrategy = (\<lambda>i s u. truthy_opt i),
     lib_octokitApp = (\<lambda>a k i s. truthy a \<and> truthy k), lib_redis = (\<lambda>u. True), lib_connect = True,
     lib_listen = (\<lambda>p. p = ''3001'')\<rparr>"

definition full_environment :: external where
  \<comment> \<open>everything is set, the port and the web origin by default\<close>
  "full_environment = sample_external\<lparr>x_env := (\<lambda>k. if k = ''ENCRYPTION_KEY'' then Some (replicate 64 CHR ''0'')
     else if k \<in> {''PORT'', ''NODE_ENV'', ''NEXT_PUBLIC_APP_URL''} then None else Some ''x'')\<rparr>"

theorem bootstrap_exact_witness:
  "bootstrap strict_libraries full_environment = Inr \<lparr>rn_port = ''3001'', rn_origin = ''https://code2cloud.lakshman.me'',
     rn_credentials = True, rn_whitelist = True, rn_forbidNonWhitelisted = True, rn_transform = True, rn_rawBody = True\<rparr>"
proof -
  have "libraries_documented strict_libraries" by (simp add: libraries_documented_def strict_libraries_def)
  then show ?thesis
    by (simp add: bootstrap_exact) (simp add: environment_ok_def full_environment_def strict_libraries_def truthy_opt_def truthy_def
        url_config_appUrl_def is_dev_def or_else_def)
qed

end
