(* ===== verification/Confidential.thy ===== *)
theory Confidential
  imports HttpLaws
begin

text \<open>
  What a user is told. \<open>own u\<close> is the part of the database that is of user \<open>u\<close>, the counterpart of
  \<open>others u\<close> of \<open>Isolation\<close>. An action is \<open>confined\<close> to it when two runs from states that agree on
  this part and on the clock give the same answer (a relational triple on two runs), and leave
  the state alone. The composition rules of confined actions carry the proofs that every reading
  service is one; \<open>Answers\<close> lifts them to the endpoints.
\<close>

section \<open>What belongs to a user\<close>

definition of_user :: "uuid \<Rightarrow> db \<Rightarrow> uuid \<Rightarrow> bool" where
  "of_user u d i \<longleftrightarrow> (\<exists>p \<in> set (projects d). p_id p = i \<and> p_userId p = u)"

definition log_of_user :: "uuid \<Rightarrow> db \<Rightarrow> log_entry \<Rightarrow> bool" where
  "log_of_user u d l \<longleftrightarrow> (\<exists>r \<in> set (deployments d). d_id r = log_deploymentId l \<and> of_user u d (d_projectId r))"

definition own :: "uuid \<Rightarrow> db \<Rightarrow> project list \<times> env_var list \<times> deployment list \<times> domain list \<times>
    system_config list \<times> log_entry list \<times> user list \<times> git_account list" where
  "own u d = (filter (\<lambda>p. p_userId p = u) (projects d),
     filter (\<lambda>e. of_user u d (ev_projectId e)) (envVars d),
     filter (\<lambda>r. of_user u d (d_projectId r)) (deployments d),
     filter (\<lambda>m. of_user u d (dom_projectId m)) (domains d),
     filter (\<lambda>c. cfg_userId c = u) (systemConfigs d),
     filter (log_of_user u d) (logEntries d),
     filter (\<lambda>x. u_id x = u) (users d),
     filter (\<lambda>a. ga_userId a = u) (gitAccounts d))"

definition sees :: "uuid \<Rightarrow> world \<Rightarrow> world \<Rightarrow> bool" where
  "sees u v w \<longleftrightarrow> own u (db v) = own u (db w) \<and> now v = now w"

definition confined :: "uuid \<Rightarrow> (db \<Rightarrow> bool) \<Rightarrow> 'a handler \<Rightarrow> bool" where
  \<comment> \<open>from two states with \<open>P\<close> that agree on what is of \<open>u\<close>\<close>
  "confined u P m \<longleftrightarrow> (\<forall>v w. db_ok (db v) \<longrightarrow> db_ok (db w) \<longrightarrow> sees u v w \<longrightarrow> P (db v) \<longrightarrow> P (db w) \<longrightarrow>
     fst (m v) = fst (m w) \<and> snd (m v) = v \<and> snd (m w) = w)"

abbreviation private_to :: "uuid \<Rightarrow> 'a handler \<Rightarrow> bool" where
  "private_to u m \<equiv> confined u (\<lambda>_. True) m"

section \<open>Readers of the part\<close>

lemma filter_within: "(\<And>x. x \<in> set xs \<Longrightarrow> P x \<Longrightarrow> Q x) \<Longrightarrow> filter P xs = filter P (filter Q xs)"
  by (induction xs) auto

lemma find_conj: "find (\<lambda>x. P x \<and> Q x) xs = find P (filter Q xs)"
  by (induction xs) auto

lemma find_within: "(\<And>x. x \<in> set xs \<Longrightarrow> P x \<Longrightarrow> Q x) \<Longrightarrow> find P xs = find P (filter Q xs)"
  by (induction xs) auto

lemma ownD:
  assumes "own u d = own u d'"
  shows "filter (\<lambda>p. p_userId p = u) (projects d) = filter (\<lambda>p. p_userId p = u) (projects d')"
    "filter (\<lambda>e. of_user u d (ev_projectId e)) (envVars d) = filter (\<lambda>e. of_user u d' (ev_projectId e)) (envVars d')"
    "filter (\<lambda>r. of_user u d (d_projectId r)) (deployments d) = filter (\<lambda>r. of_user u d' (d_projectId r)) (deployments d')"
    "filter (\<lambda>m. of_user u d (dom_projectId m)) (domains d) = filter (\<lambda>m. of_user u d' (dom_projectId m)) (domains d')"
    "filter (\<lambda>c. cfg_userId c = u) (systemConfigs d) = filter (\<lambda>c. cfg_userId c = u) (systemConfigs d')"
    "filter (log_of_user u d) (logEntries d) = filter (log_of_user u d') (logEntries d')"
    "filter (\<lambda>a. ga_userId a = u) (gitAccounts d) = filter (\<lambda>a. ga_userId a = u) (gitAccounts d')"
  using assms by (simp_all add: own_def)

lemma owned_project_own: "owned_project u i d = find (\<lambda>p. p_id p = i \<and> p_userId p = u) (filter (\<lambda>p. p_userId p = u) (projects d))"
  unfolding owned_project_def by (rule find_within) simp

lemma of_user_owner: "uniq d \<Longrightarrow> project_owner d i = Some u \<longleftrightarrow> of_user u d i"
  by (auto simp: of_user_def project_owner_id) (auto simp: project_owner_def dest: find_SomeD)

lemma owned_of_user: "owned_project u i d = Some p \<Longrightarrow> of_user u d i \<and> p_id p = i"
  by (auto simp: of_user_def dest: owned_projectD)

lemma rows_of_mine:
  assumes "of_user u d i"
  shows "filter (\<lambda>e. ev_projectId e = i \<and> Q1 e) (envVars d) =
      filter (\<lambda>e. ev_projectId e = i \<and> Q1 e) (filter (\<lambda>e. of_user u d (ev_projectId e)) (envVars d))"
    "filter (\<lambda>r. d_projectId r = i \<and> Q2 r) (deployments d) =
      filter (\<lambda>r. d_projectId r = i \<and> Q2 r) (filter (\<lambda>r. of_user u d (d_projectId r)) (deployments d))"
    "filter (\<lambda>m. dom_projectId m = i \<and> Q3 m) (domains d) =
      filter (\<lambda>m. dom_projectId m = i \<and> Q3 m) (filter (\<lambda>m. of_user u d (dom_projectId m)) (domains d))"
  by (rule filter_within, use assms in blast)+


lemma of_user_same:
  assumes "own u d = own u d'"
  shows "of_user u d i = of_user u d' i"
proof -
  have "of_user u x i \<longleftrightarrow> i \<in> p_id ` set (filter (\<lambda>p. p_userId p = u) (projects x))" for x
    by (auto simp: of_user_def)
  then show ?thesis by (simp only: ownD(1) [OF assms])
qed

lemma owned_project_same: "own u d = own u d' \<Longrightarrow> owned_project u i d = owned_project u i d'"
  using ownD(1) [of u d d'] unfolding owned_project_own by simp

lemma owned_deployment_same:
  assumes "uniq d" "uniq d'" "own u d = own u d'"
  shows "owned_deployment u i d = owned_deployment u i d'"
proof -
  have "owned_deployment u i x = find (\<lambda>r. d_id r = i) (filter (\<lambda>r. of_user u x (d_projectId r)) (deployments x))"
    if "uniq x" for x
  proof -
    have "owned_deployment u i x = find (\<lambda>r. d_id r = i \<and> of_user u x (d_projectId r)) (deployments x)"
      by (simp add: owned_deployment_def of_user_owner [OF that])
    also have "\<dots> = find (\<lambda>r. d_id r = i) (filter (\<lambda>r. of_user u x (d_projectId r)) (deployments x))"
      by (rule find_conj)
    finally show ?thesis .
  qed
  then show ?thesis using assms(1,2) ownD(3) [OF assms(3)] by simp
qed

lemma rows_same:
  assumes "own u d = own u d'" and "of_user u d i"
  shows "filter (\<lambda>e. ev_projectId e = i) (envVars d) = filter (\<lambda>e. ev_projectId e = i) (envVars d')"
    "filter (\<lambda>r. d_projectId r = i) (deployments d) = filter (\<lambda>r. d_projectId r = i) (deployments d')"
    "filter (\<lambda>m. dom_projectId m = i) (domains d) = filter (\<lambda>m. dom_projectId m = i) (domains d')"
proof -
  have i: "of_user u d' i" using assms of_user_same by blast
  show "filter (\<lambda>e. ev_projectId e = i) (envVars d) = filter (\<lambda>e. ev_projectId e = i) (envVars d')"
    using rows_of_mine(1) [OF assms(2), of "\<lambda>_. True"] rows_of_mine(1) [OF i, of "\<lambda>_. True"] ownD(2) [OF assms(1)] by simp
  show "filter (\<lambda>r. d_projectId r = i) (deployments d) = filter (\<lambda>r. d_projectId r = i) (deployments d')"
    using rows_of_mine(2) [OF assms(2), of "\<lambda>_. True"] rows_of_mine(2) [OF i, of "\<lambda>_. True"] ownD(3) [OF assms(1)] by simp
  show "filter (\<lambda>m. dom_projectId m = i) (domains d) = filter (\<lambda>m. dom_projectId m = i) (domains d')"
    using rows_of_mine(3) [OF assms(2), of "\<lambda>_. True"] rows_of_mine(3) [OF i, of "\<lambda>_. True"] ownD(4) [OF assms(1)] by simp
qed

lemma all_deployments_same:
  assumes "uniq d" "uniq d'" "own u d = own u d'"
  shows "filter (\<lambda>r. project_owner d (d_projectId r) = Some u) (deployments d) =
     filter (\<lambda>r. project_owner d' (d_projectId r) = Some u) (deployments d')"
  using ownD(3) [OF assms(3)] by (simp add: of_user_owner assms(1,2))

lemma logs_same:
  assumes "uniq d" "uniq d'" "own u d = own u d'" "owned_deployment u i d = Some r"
  shows "matching_logs d i src after = matching_logs d' i src after"
proof -
  let ?Q = "\<lambda>l. log_deploymentId l = i \<and> (case src of None \<Rightarrow> True | Some s \<Rightarrow> log_source l = s) \<and>
     (case after of None \<Rightarrow> True | Some t \<Rightarrow> t < log_timestamp l)"
  have "log_of_user u x l" if "uniq x" "owned_deployment u i x = Some r" "log_deploymentId l = i" for x l
    using owned_deploymentD [OF that(2)] that by (auto simp: log_of_user_def of_user_owner)
  then have w: "filter ?Q (logEntries x) = filter ?Q (filter (log_of_user u x) (logEntries x))"
    if "uniq x" "owned_deployment u i x = Some r" for x
    using that by (intro filter_within) blast
  have r': "owned_deployment u i d' = Some r" using owned_deployment_same [OF assms(1-3)] assms(4) by simp
  show ?thesis
    unfolding matching_logs_def w [OF assms(1,4)] w [OF assms(2) r'] ownD(6) [OF assms(3)] by (rule HOL.refl)
qed

section \<open>Confined actions\<close>

lemma confinedI:
  assumes "\<And>v w. uniq (db v) \<Longrightarrow> uniq (db w) \<Longrightarrow> own u (db v) = own u (db w) \<Longrightarrow> now v = now w \<Longrightarrow>
     P (db v) \<Longrightarrow> P (db w) \<Longrightarrow> fst (m v) = fst (m w) \<and> snd (m v) = v \<and> snd (m w) = w"
  shows "confined u P m"
  unfolding confined_def
proof (intro allI impI)
  fix v w :: world
  assume "db_ok (db v)" "db_ok (db w)" "sees u v w" "P (db v)" "P (db w)"
  then show "fst (m v) = fst (m w) \<and> snd (m v) = v \<and> snd (m w) = w"
    by (intro assms) (auto simp: sees_def dest: db_okD)
qed

lemma confinedD:
  "confined u P m \<Longrightarrow> db_ok (db v) \<Longrightarrow> db_ok (db w) \<Longrightarrow> sees u v w \<Longrightarrow> P (db v) \<Longrightarrow> P (db w) \<Longrightarrow>
   fst (m v) = fst (m w) \<and> snd (m v) = v \<and> snd (m w) = w"
  by (simp add: confined_def)

lemma confined_andThen_val:
  assumes m: "confined u P m" and f: "\<And>x. confined u (Q x) (f x)"
    and Q: "\<And>x w. m w = (Inr x, w) \<Longrightarrow> P (db w) \<Longrightarrow> Q x (db w)"
  shows "confined u P (andThen m f)"
  unfolding confined_def
proof (intro allI impI)
  fix v w :: world
  assume ok: "db_ok (db v)" "db_ok (db w)" "sees u v w" and P: "P (db v)" "P (db w)"
  note same = confinedD [OF m ok P]
  show "fst (andThen m f v) = fst (andThen m f w) \<and> snd (andThen m f v) = v \<and> snd (andThen m f w) = w"
  proof (cases "fst (m v)")
    case (Inl e)
    then have "m v = (Inl e, v)" "m w = (Inl e, w)" using same by (simp_all add: prod_eq_iff)
    then show ?thesis by (simp add: andThen_Inl)
  next
    case (Inr x)
    then have run: "m v = (Inr x, v)" "m w = (Inr x, w)" using same by (simp_all add: prod_eq_iff)
    show ?thesis using confinedD [OF f ok Q [OF run(1) P(1)] Q [OF run(2) P(2)]] run by (simp add: andThen_Inr)
  qed
qed

lemma confined_andThen: "confined u P m \<Longrightarrow> (\<And>x. confined u P (f x)) \<Longrightarrow> confined u P (andThen m f)"
  by (rule confined_andThen_val)

lemma confined_ret: "confined u P (ret x)" "confined u P (throw e)" "confined u P (throwIf b e)" "confined u P (orThrow y e)"
  by (rule confinedI, simp add: action_simps split: option.splits)+

lemma confined_gets:
  assumes "\<And>v w. uniq (db v) \<Longrightarrow> uniq (db w) \<Longrightarrow> own u (db v) = own u (db w) \<Longrightarrow> now v = now w \<Longrightarrow>
     P (db v) \<Longrightarrow> P (db w) \<Longrightarrow> g v = g w"
  shows "confined u P (gets g)"
proof (rule confinedI)
  fix v w :: world
  assume "uniq (db v)" "uniq (db w)" "own u (db v) = own u (db w)" "now v = now w" "P (db v)" "P (db w)"
  then have "g v = g w" by (rule assms)
  then show "fst (gets g v) = fst (gets g w) \<and> snd (gets g v) = v \<and> snd (gets g w) = w"
    by (simp add: gets_run)
qed

lemma confined_collect: "(\<And>x. confined u P (f x)) \<Longrightarrow> confined u P (collect f xs)"
  by (induction xs) (auto intro!: confined_andThen confined_ret)

lemma confined_decryptM: "confined u P (decryptM X c)"
  by (rule confinedI) (simp add: action_simps split: sum.splits)

lemma confined_found:
  \<comment> \<open>an ownership query with its 404: what follows may rely on the row that was found\<close>
  assumes "confined u P (gets g)" and "\<And>x. confined u (\<lambda>d. P d \<and> Q x d) (f x)"
    and "\<And>x w. g w = Some x \<Longrightarrow> Q x (db w)"
  shows "confined u P (andThen (gets g) (\<lambda>found. andThen (orThrow found e) f))"
proof (rule confined_andThen_val [OF assms(1), where Q = "\<lambda>found d. P d \<and> (\<forall>x. found = Some x \<longrightarrow> Q x d)"])
  show "confined u (\<lambda>d. P d \<and> (\<forall>x. found = Some x \<longrightarrow> Q x d)) (andThen (orThrow found e) f)" for found
    by (rule confined_andThen_val [OF confined_ret(4) assms(2)]) (simp add: orThrow_run split: option.splits)
  show "P (db w) \<and> (\<forall>x. found = Some x \<longrightarrow> Q x (db w))"
    if "gets g w = (Inr found, w)" "P (db w)" for found w
    using that assms(3) by (auto simp: gets_run)
qed

lemma confined_project:
  assumes "\<And>p. confined u (\<lambda>d. owned_project u i d = Some p) (f p)"
  shows "private_to u (andThen (gets (\<lambda>w. owned_project u i (db w))) (\<lambda>found. andThen (orThrow found e) f))"
  by (rule confined_found [where Q = "\<lambda>p d. owned_project u i d = Some p"])
    (rule confined_gets, erule owned_project_same, use assms in simp_all)

lemma confined_deployment:
  assumes "\<And>r. confined u (\<lambda>d. owned_deployment u i d = Some r) (f r)"
  shows "private_to u (andThen (gets (\<lambda>w. owned_deployment u i (db w))) (\<lambda>found. andThen (orThrow found e) f))"
  by (rule confined_found [where Q = "\<lambda>p d. owned_deployment u i d = Some p"])
    (rule confined_gets, erule (2) owned_deployment_same, use assms in simp_all)

section \<open>The reading services\<close>

lemma view_same:
  assumes "own u d = own u d'" and "of_user u d (p_id p)"
  shows "view_of d n p = view_of d' n p"
  unfolding view_of_def encrypted_vars_def by (simp only: rows_same [OF assms])

lemma findOne_confined: "private_to u (projectsService_findOne i u)"
  unfolding projectsService_findOne_def
proof (rule confined_project, rule confined_gets)
  fix p and v w :: world
  assume "own u (db v) = own u (db w)" "owned_project u i (db v) = Some p"
  then show "view_of (db v) 5 p = view_of (db w) 5 p"
    by (intro view_same) (auto dest: owned_of_user)
qed

lemma findAll_confined: "private_to u (projectsService_findAll X u)"
  unfolding projectsService_findAll_def
proof (rule confined_andThen)
  show "private_to u (gets (\<lambda>w. map (view_of (db w) 1)
      (order_desc p_updatedAt (filter (\<lambda>p. p_userId p = u) (projects (db w))))))"
  proof (rule confined_gets)
    fix v w :: world
    assume same: "own u (db v) = own u (db w)"
    have "view_of (db v) 1 p = view_of (db w) 1 p" if "p \<in> set (filter (\<lambda>p. p_userId p = u) (projects (db v)))" for p
      using that by (intro view_same [OF same]) (auto simp: of_user_def)
    then show "map (view_of (db v) 1) (order_desc p_updatedAt (filter (\<lambda>p. p_userId p = u) (projects (db v)))) =
        map (view_of (db w) 1) (order_desc p_updatedAt (filter (\<lambda>p. p_userId p = u) (projects (db w))))"
      by (subst ownD(1) [OF same, symmetric]) (auto intro!: map_cong)
  qed
  show "private_to u (collect (decrypt_view X) views)" for views
    unfolding decrypt_view_def case_prod_unfold
    by (intro confined_collect confined_andThen confined_ret confined_decryptM)
qed

lemma deployment_lists_confined:
  "private_to u (deploymentsService_findAll u)" "private_to u (deploymentsService_findOne u i)"
proof -
  show "private_to u (deploymentsService_findAll u)"
    unfolding deploymentsService_findAll_def by (rule confined_gets, subst all_deployments_same) (assumption | rule HOL.refl)+
  show "private_to u (deploymentsService_findOne u i)"
    unfolding deploymentsService_findOne_def
    by (rule confined_andThen [OF confined_gets confined_ret(4)]) (rule owned_deployment_same)
qed

lemma getLogs_confined: "private_to u (deploymentsService_getLogs u i src after n)"
  unfolding deploymentsService_getLogs_def
proof (rule confined_deployment, rule confined_gets)
  fix r and v w :: world
  assume "uniq (db v)" "uniq (db w)" "own u (db v) = own u (db w)" "owned_deployment u i (db v) = Some r"
  then have "matching_logs (db v) i src after = matching_logs (db w) i src after" by (rule logs_same)
  then show "logs_page_of (d_status r) (page_size n) (prisma_take (page_size n) (matching_logs (db v) i src after)) =
      logs_page_of (d_status r) (page_size n) (prisma_take (page_size n) (matching_logs (db w) i src after))"
    by simp
qed

lemma confined_counted:
  \<comment> \<open>the ownership check by a count, with its 404\<close>
  assumes "confined u (\<lambda>d. of_user u d i) m"
  shows "private_to u (andThen (gets (\<lambda>w. length (filter (\<lambda>p. p_id p = i \<and> p_userId p = u) (projects (db w))))) (\<lambda>count.
     andThen (throwIf (count = 0) e) (\<lambda>_. m)))"
proof (rule confined_andThen_val [where Q = "\<lambda>count d. count = 0 \<longleftrightarrow> \<not> of_user u d i"])
  have part: "filter (\<lambda>p. p_id p = i \<and> p_userId p = u) ps = filter (\<lambda>p. p_id p = i) (filter (\<lambda>p. p_userId p = u) ps)" for ps
    by (simp add: conj_commute)
  show "private_to u (gets (\<lambda>w. length (filter (\<lambda>p. p_id p = i \<and> p_userId p = u) (projects (db w)))))"
    unfolding part by (rule confined_gets, subst ownD(1)) (assumption | rule HOL.refl)+
  show "confined u (\<lambda>d. count = 0 \<longleftrightarrow> \<not> of_user u d i) (andThen (throwIf (count = 0) e) (\<lambda>_. m))" for count :: nat
    by (rule confined_andThen_val [OF confined_ret(3) assms]) (simp add: throwIf_run split: if_splits)
  show "count = 0 \<longleftrightarrow> \<not> of_user u (db w) i"
    if "gets (\<lambda>w. length (filter (\<lambda>p. p_id p = i \<and> p_userId p = u) (projects (db w)))) w = (Inr count, w)" for count w
    using that by (auto simp: gets_run of_user_def filter_empty_conv)
qed

lemma lists_of_project_confined:
  "private_to u (deploymentsService_findAllByProject u i)" "private_to u (domainsService_findAll u i)"
proof -
  have "filter (\<lambda>r. d_projectId r = i) (deployments (db v)) = filter (\<lambda>r. d_projectId r = i) (deployments (db w))"
    "filter (\<lambda>m. dom_projectId m = i) (domains (db v)) = filter (\<lambda>m. dom_projectId m = i) (domains (db w))"
    if "own u (db v) = own u (db w)" "of_user u (db v) i" for v w
    using rows_same [OF that] by simp_all
  note rows = this
  show "private_to u (deploymentsService_findAllByProject u i)"
    unfolding deploymentsService_findAllByProject_def
    by (rule confined_counted, rule confined_gets, subst rows(1)) (assumption | rule HOL.refl)+
  show "private_to u (domainsService_findAll u i)"
    unfolding domainsService_findAll_def
    by (rule confined_counted, rule confined_gets, subst rows(2)) (assumption | rule HOL.refl)+
qed

lemma envs_confined: "private_to u (envVarsService_findAll X k u i)"
  unfolding envVarsService_findAll_def
proof (rule confined_project, rule confined_andThen)
  fix p
  show "confined u (\<lambda>d. owned_project u i d = Some p)
      (gets (\<lambda>w. order_asc (\<lambda>e. k (ev_key e)) (filter (\<lambda>e. ev_projectId e = i) (envVars (db w)))))"
  proof (rule confined_gets)
    fix v w :: world
    assume same: "own u (db v) = own u (db w)" and "owned_project u i (db v) = Some p"
    then have "of_user u (db v) i" using owned_of_user by blast
    then show "order_asc (\<lambda>e. k (ev_key e)) (filter (\<lambda>e. ev_projectId e = i) (envVars (db v))) =
        order_asc (\<lambda>e. k (ev_key e)) (filter (\<lambda>e. ev_projectId e = i) (envVars (db w)))"
      using rows_same(1) [OF same] by simp
  qed
qed (intro confined_collect confined_andThen confined_ret confined_decryptM)

definition has_config :: "uuid \<Rightarrow> db \<Rightarrow> bool" where
  "has_config u d \<longleftrightarrow> find_config d u \<noteq> None"

lemma find_config_own: "find_config d u = find (\<lambda>c. cfg_userId c = u) (filter (\<lambda>c. cfg_userId c = u) (systemConfigs d))"
  unfolding find_config_def by (rule find_within)

lemma getConfig_confined: "confined u (has_config u) (getConfig X u)"
proof (rule confinedI)
  fix v w :: world
  assume same: "own u (db v) = own u (db w)" and "has_config u (db v)" "has_config u (db w)"
  then obtain c where c: "find_config (db v) u = Some c" by (auto simp: has_config_def)
  have "find_config (db w) u = Some c" using c unfolding find_config_own ownD(5) [OF same] .
  with c show "fst (getConfig X u v) = fst (getConfig X u w) \<and> snd (getConfig X u v) = v \<and> snd (getConfig X u w) = w"
    by (auto simp: getConfig_def action_simps andThen_def split: sum.splits)
qed

lemma named_count_same:
  assumes "uniq d" "uniq d'" "own u d = own u d'" "of_user u d (fst c)"
  shows "named_count d c = named_count d' c"
proof -
  obtain i n where c: "c = (i, n)" by (cases c)
  have "find (\<lambda>p. p_id p = i) (projects x) = find (\<lambda>p. p_id p = i) (filter (\<lambda>p. p_userId p = u) (projects x))"
    if "uniq x" and own: "of_user u x i" for x
  proof -
    obtain p where p: "p \<in> set (projects x)" "p_id p = i" "p_userId p = u" using own unfolding of_user_def by blast
    have "q = p" if "q \<in> set (projects x)" "p_id q = i" for q
      by (rule distinct_map_same [OF projectT.uniq_rid [OF \<open>uniq x\<close>] that(1) p(1)]) (simp only: that(2) p(2))
    then show ?thesis by (intro find_within) (use p in blast)
  qed
  then have "find (\<lambda>p. p_id p = i) (projects d) = find (\<lambda>p. p_id p = i) (projects d')"
    using assms of_user_same [OF assms(3)] ownD(1) [OF assms(3)] c by simp
  then show ?thesis by (simp add: named_count_def c)
qed

lemma set_project_counts: "c \<in> set (project_counts ds) \<Longrightarrow> fst c \<in> d_projectId ` set ds"
  unfolding project_counts_def by (drule subsetD [OF set_prisma_take]) auto

lemma overview_confined: "private_to u (getOverview u)"
  unfolding getOverview_def Let_def
proof (rule confined_gets, goal_cases)
  case (1 v w)
  note uq = 1(1,2) and same = 1(3) and t = 1(4)
  have all: "deployments_of_user (db v) u = deployments_of_user (db w) u"
    unfolding deployments_of_user_def by (rule all_deployments_same [OF uq same])
  have named: "map (named_count (db v)) (project_counts (filter P (deployments_of_user (db w) u))) =
      map (named_count (db w)) (project_counts (filter P (deployments_of_user (db w) u)))" for P
  proof (rule map_cong [OF HOL.refl])
    fix c
    assume "c \<in> set (project_counts (filter P (deployments_of_user (db w) u)))"
    then have "of_user u (db w) (fst c)"
      by (auto simp: deployments_of_user_def of_user_owner [OF uq(2)] dest!: set_project_counts)
    then show "named_count (db v) c = named_count (db w) c"
      using named_count_same [OF uq same] of_user_same [OF same] by blast
  qed
  show ?case by (simp only: all t named ownD(1) [OF same])
qed

lemma project_analytics_confined: "private_to u (getProjectAnalytics u i)"
  unfolding getProjectAnalytics_def Let_def
proof (rule confined_project, rule confined_gets, goal_cases)
  case (1 p v w)
  then have "of_user u (db v) i" using owned_of_user by blast
  from rows_same(2) [OF 1(3) this] show ?case by (simp only: 1(4))
qed

lemma git_confined:
  "private_to u (getStatus u)" "private_to u (git_listRepos G u inst)"
  "private_to u (git_getRepoTree G k u inst ow rp path)" "private_to u (git_detectFramework G u inst ow rp path)"
proof -
  have ver: "private_to u (verifyInstallation u inst)"
    unfolding verifyInstallation_def
  proof (intro confined_andThen confined_ret, rule confined_gets)
    fix v w :: world
    assume same: "own u (db v) = own u (db w)"
    have "find (\<lambda>a. ga_userId a = u \<and> ga_provider a = ''github'' \<and> ga_installationId a = inst) gs =
        find (\<lambda>a. ga_userId a = u \<and> ga_provider a = ''github'' \<and> ga_installationId a = inst) (filter (\<lambda>a. ga_userId a = u) gs)" for gs
      by (rule find_within) simp
    note part = this
    show "find (\<lambda>a. ga_userId a = u \<and> ga_provider a = ''github'' \<and> ga_installationId a = inst) (gitAccounts (db v)) =
        find (\<lambda>a. ga_userId a = u \<and> ga_provider a = ''github'' \<and> ga_installationId a = inst) (gitAccounts (db w))"
      by (subst (1 2) part) (simp only: ownD(7) [OF same])
  qed
  show "private_to u (git_listRepos G u inst)" "private_to u (git_getRepoTree G k u inst ow rp path)"
    "private_to u (git_detectFramework G u inst ow rp path)"
    unfolding git_listRepos_def git_getRepoTree_def git_detectFramework_def listRepositories_def getRepoContents_def
      detectFrameworkConfig_def Let_def
    by (intro confined_andThen confined_ret ver)+
  have part: "filter (\<lambda>a. ga_userId a = u \<and> ga_provider a = ''github'') gs =
      filter (\<lambda>a. ga_provider a = ''github'') (filter (\<lambda>a. ga_userId a = u) gs)" for gs
    by (simp add: conj_commute)
  show "private_to u (getStatus u)"
    unfolding getStatus_def part by (rule confined_gets, subst ownD(7)) (assumption | rule HOL.refl)+
qed

end
