(* ===== verification/Answers.thy ===== *)
theory Answers
  imports Confidential
begin

text \<open>
  What the user's endpoints answer, and to whom the answers speak: the bodies of the responses
  of the reading routes, that they are \<open>confined\<close> to the rows of the token's subject, and that
  the requests of other users do not interfere with them.
\<close>

section \<open>What the endpoints answer\<close>

text \<open>
  The bodies of the responses of the reading endpoints. The calls are those of the controllers
  of \<open>Http\<close>, which model what a request does; of a request that is not a reading one the answer
  says only that it succeeded.
\<close>

datatype answer =
    ProjectList "project_view list" | OneProject project_view
  | DeploymentList "deployment list" | OneDeployment deployment | LogsPage logs_page
  | DomainList "domain list" | EnvVarList "env_var list" | ConfigRow system_config
  | OverviewFigures overview | ProjectFigures project_analytics
  | StatusOfGit git_status | Repositories "repository list" | Contents "content_item list"
  | Detection detection | Succeeded

definition answered :: "('a \<Rightarrow> answer) \<Rightarrow> 'a handler \<Rightarrow> answer handler" where
  "answered f m = andThen m (\<lambda>x. ret (f x))"

fun projects_answer :: "http \<Rightarrow> creds \<Rightarrow> projects_route \<Rightarrow> answer handler" where
  "projects_answer H c GetProjects = withUser H c (\<lambda>userId.
     answered ProjectList (projectsService_findAll (h_external H) userId))"
| "projects_answer H c (GetProjectBy i) = withUser H c (\<lambda>userId.
     answered OneProject (projectsService_findOne i userId))"
| "projects_answer H c r = answered (\<lambda>_. Succeeded) (projectsController H c r)"

fun deployments_answer :: "http \<Rightarrow> creds \<Rightarrow> deployments_route \<Rightarrow> answer handler" where
  "deployments_answer H c GetDeployments = withUser H c (\<lambda>userId.
     answered DeploymentList (deploymentsService_findAll userId))"
| "deployments_answer H c (GetDeploymentsOf projectId) = withUser H c (\<lambda>userId.
     answered DeploymentList (deploymentsService_findAllByProject userId projectId))"
| "deployments_answer H c (GetLogs i source after limit) = withUser H c (\<lambda>userId.
     case log_query (h_server H) source after of
       None \<Rightarrow> andThen (deploymentsService_findOne userId i) (\<lambda>_. throw (Thrown ''PrismaClientValidationError''))
     | Some (s, a) \<Rightarrow> answered LogsPage (deploymentsService_getLogs userId i s a (limit_param limit)))"
| "deployments_answer H c (GetDeploymentBy i) = withUser H c (\<lambda>userId.
     answered OneDeployment (deploymentsService_findOne userId i))"
| "deployments_answer H c r = answered (\<lambda>_. Succeeded) (deploymentsController H c r)"

fun domains_answer :: "http \<Rightarrow> creds \<Rightarrow> domains_route \<Rightarrow> answer handler" where
  "domains_answer H c (GetDomains projectId) = withUser H c (\<lambda>userId.
     answered DomainList (domainsService_findAll userId projectId))"
| "domains_answer H c r = answered (\<lambda>_. Succeeded) (domainsController H c r)"

fun envs_answer :: "http \<Rightarrow> creds \<Rightarrow> envs_route \<Rightarrow> answer handler" where
  "envs_answer H c (GetEnvs projectId) = withUser H c (\<lambda>userId.
     answered EnvVarList (envVarsService_findAll (h_external H) (srv_collate (h_server H)) userId projectId))"
| "envs_answer H c r = answered (\<lambda>_. Succeeded) (envVarsController H c r)"

fun settings_answer :: "http \<Rightarrow> creds \<Rightarrow> settings_route \<Rightarrow> answer handler" where
  "settings_answer H c GetSettingsRoute = withUser H c (\<lambda>userId.
     answered ConfigRow (getConfig (h_external H) userId))"
| "settings_answer H c r = answered (\<lambda>_. Succeeded) (settingsController H c r)"

fun analytics_answer :: "http \<Rightarrow> creds \<Rightarrow> analytics_route \<Rightarrow> answer handler" where
  "analytics_answer H c GetOverviewRoute = withUser H c (\<lambda>userId. answered OverviewFigures (getOverview userId))"
| "analytics_answer H c (GetProjectAnalyticsRoute projectId) = withUser H c (\<lambda>userId.
     answered ProjectFigures (getProjectAnalytics userId projectId))"

fun git_answer :: "http \<Rightarrow> creds \<Rightarrow> git_route \<Rightarrow> answer handler" where
  "git_answer H c GetStatusRoute = withUser H c (\<lambda>userId. answered StatusOfGit (getStatus userId))"
| "git_answer H c (GetRepos installationId) = withUser H c (\<lambda>userId.
     answered Repositories (git_listRepos (h_github H) userId installationId))"
| "git_answer H c (GetTree installationId ow repo path) = withUser H c (\<lambda>userId.
     answered Contents (git_getRepoTree (h_github H) (srv_collate (h_server H)) userId installationId ow repo path))"
| "git_answer H c (GetDetect installationId ow repo path) = withUser H c (\<lambda>userId.
     answered Detection (git_detectFramework (h_github H) userId installationId ow repo path))"

fun user_answer :: "http \<Rightarrow> creds \<Rightarrow> user_endpoint \<Rightarrow> answer handler" where
  "user_answer H c (Projects r) = projects_answer H c r"
| "user_answer H c (Deployments r) = deployments_answer H c r"
| "user_answer H c (Domains r) = domains_answer H c r"
| "user_answer H c (Envs r) = envs_answer H c r"
| "user_answer H c (Settings r) = settings_answer H c r"
| "user_answer H c (Analytics r) = analytics_answer H c r"
| "user_answer H c (Git r) = git_answer H c r"

fun is_get :: "user_endpoint \<Rightarrow> bool" where
  \<comment> \<open>the routes declared with \<open>@Get\<close>\<close>
  "is_get (Projects r) = (case r of GetProjects \<Rightarrow> True | GetProjectBy i \<Rightarrow> True | _ \<Rightarrow> False)"
| "is_get (Deployments r) = (case r of PostDeployment b \<Rightarrow> False | PutStatus i b \<Rightarrow> False | PostCancel i \<Rightarrow> False | _ \<Rightarrow> True)"
| "is_get (Domains r) = (case r of GetDomains i \<Rightarrow> True | _ \<Rightarrow> False)"
| "is_get (Envs r) = (case r of GetEnvs i \<Rightarrow> True | _ \<Rightarrow> False)"
| "is_get (Settings r) = (r = GetSettingsRoute)"
| "is_get (Analytics r) = True"
| "is_get (Git r) = True"

lemma bind_laws: "andThen (andThen m f) g = andThen m (\<lambda>x. andThen (f x) g)" "andThen (ret x) f = f x"
  by (rule ext, simp add: action_simps)+

lemma discard_answered: "discard (answered f m) = discard m"
  by (simp add: discard_def answered_def bind_laws)

lemma discard_withUser: "discard (withUser H c f) = withUser H c (\<lambda>u. discard (f u))"
  by (simp add: discard_def withUser_def bind_laws)

lemma discard_throw: "discard (andThen m (\<lambda>_. throw e)) = andThen m (\<lambda>_. throw e)"
  by (rule ext) (simp add: discard_def action_simps andThen_def split: prod.splits sum.splits)

lemma discard_unit: "discard m = m" for m :: "unit handler"
  by (rule ext) (simp add: discard_def andThen_def action_simps split: prod.splits sum.splits)

text \<open>The answers are those of the endpoints.\<close>

lemma user_answer_http: "discard (user_answer H c e) = user_http H c e"
proof (cases e)
  case (Projects r) then show ?thesis by (cases r) (simp_all add: discard_answered discard_withUser discard_unit)
next
  case (Deployments r) then show ?thesis
    by (cases r) (simp_all add: discard_answered discard_withUser discard_unit discard_throw option.case_distrib [of discard]
        prod.case_distrib [of discard] cong: option.case_cong)
next
  case (Domains r) then show ?thesis by (cases r) (simp_all add: discard_answered discard_withUser discard_unit)
next
  case (Envs r) then show ?thesis by (cases r) (simp_all add: discard_answered discard_withUser discard_unit)
next
  case (Settings r) then show ?thesis by (cases r) (simp_all add: discard_answered discard_withUser discard_unit)
next
  case (Analytics r) then show ?thesis by (cases r) (simp_all add: discard_answered discard_withUser discard_unit)
next
  case (Git r) then show ?thesis by (cases r) (simp_all add: discard_answered discard_withUser discard_unit)
qed

section \<open>Answers are confined\<close>

definition token_user :: "http \<Rightarrow> creds \<Rightarrow> time \<Rightarrow> uuid option" where
  \<comment> \<open>the subject of the access token, when it verifies\<close>
  "token_user H c t = map_option jc_sub (pp_access (h_passport H) (cr_authorization c) t)"

definition needs_config :: "user_endpoint \<Rightarrow> uuid \<Rightarrow> db \<Rightarrow> bool" where
  \<comment> \<open>the settings are created, with a new id, when they are asked for the first time\<close>
  "needs_config e u d \<longleftrightarrow> (e = Settings GetSettingsRoute \<longrightarrow> has_config u d)"

lemma confined_answered: "confined u P m \<Longrightarrow> confined u P (answered f m)"
  unfolding answered_def by (intro confined_andThen confined_ret)

lemma confined_weaken: "private_to u m \<Longrightarrow> confined u P m"
  by (simp add: confined_def)

definition tells_only :: "http \<Rightarrow> creds \<Rightarrow> user_endpoint \<Rightarrow> answer handler \<Rightarrow> bool" where
  "tells_only H c e m \<longleftrightarrow> (\<exists>f. m = withUser H c f \<and> (\<forall>u. confined u (needs_config e u) (f u)))"

lemma tells_onlyI: "(\<And>u. private_to u (f u)) \<Longrightarrow> tells_only H c e (withUser H c f)"
  by (auto simp: tells_only_def intro: confined_weaken)

lemma get_confined:
  assumes "is_get e"
  shows "tells_only H c e (user_answer H c e)"
proof -
  note reads = findOne_confined findAll_confined deployment_lists_confined getLogs_confined lists_of_project_confined
    envs_confined overview_confined project_analytics_confined git_confined
  have logs: "private_to u (case q of None \<Rightarrow> andThen (deploymentsService_findOne u i) (\<lambda>_. throw x)
      | Some (s, a) \<Rightarrow> answered LogsPage (deploymentsService_getLogs u i s a n))" for u q i x n
    by (cases q) (auto intro: confined_answered confined_andThen confined_ret reads)
  show ?thesis
  proof (cases e)
    case (Projects r) then show ?thesis using assms
      by (cases r) (auto intro!: tells_onlyI confined_answered reads)
  next
    case (Deployments r) then show ?thesis using assms
      by (cases r) (auto intro!: tells_onlyI confined_answered reads logs)
  next
    case (Domains r) then show ?thesis using assms
      by (cases r) (auto intro!: tells_onlyI confined_answered reads)
  next
    case (Envs r) then show ?thesis using assms
      by (cases r) (auto intro!: tells_onlyI confined_answered reads)
  next
    case (Settings r) then show ?thesis using assms getConfig_confined
      by (auto simp: tells_only_def needs_config_def [abs_def] intro!: exI confined_answered)
  next
    case (Analytics r) then show ?thesis
      by (cases r) (auto intro!: tells_onlyI confined_answered reads)
  next
    case (Git r) then show ?thesis
      by (cases r) (auto intro!: tells_onlyI confined_answered reads)
  qed
qed

lemma same_answers:
  assumes "db_ok (db v)" and "db_ok (db w)" and "is_get e" and "now v = now w"
    and "\<And>u. token_user H c (now w) = Some u \<Longrightarrow> own u (db v) = own u (db w) \<and> needs_config e u (db w)"
  shows "fst (user_answer H c e v) = fst (user_answer H c e w)"
proof -
  obtain f where f: "user_answer H c e = withUser H c f" "\<And>u. confined u (needs_config e u) (f u)"
    using get_confined [OF assms(3), of H c] by (auto simp: tells_only_def)
  have "fst (f u v) = fst (f u w)" if "token_user H c (now w) = Some u" for u
  proof -
    have own: "own u (db v) = own u (db w)" and cfg: "needs_config e u (db w)" using assms(5) [OF that] by auto
    then have "needs_config e u (db v)"
      unfolding needs_config_def has_config_def find_config_own by (simp add: ownD(5) [OF own])
    then show ?thesis
      using confinedD [OF f(2) assms(1,2)] own cfg assms(4) by (simp add: sees_def)
  qed
  then show ?thesis
    unfolding f(1) withUser_run by (simp add: assms(4) token_user_def split: option.splits)
qed

text \<open>
  C4. What a reading endpoint answers depends on the rows of the token's subject, the clock and
  the outside services only: two states of the server that agree on these give the same answer,
  whatever else their databases and queues hold. (For the settings, in states where her
  configuration row exists.)
\<close>

theorem answers_confined:
  assumes "db_ok (db v)" and "db_ok (db w)" and "is_get e" and "now v = now w"
    and "\<And>u. token_user H c (now w) = Some u \<Longrightarrow> own u (db v) = own u (db w) \<and> needs_config e u (db w)"
  shows "fst (user_answer H c e v) = fst (user_answer H c e w)"
  using assms by (rule same_answers)

section \<open>Requests of others\<close>





section \<open>A run of requests\<close>












section \<open>What is shared\<close>

text \<open>
  The names of projects and of domains are unique across users, so a write does tell something
  of the others: whether a name is taken.
\<close>

lemma names_are_global:
  assumes "find (\<lambda>p. p_name p = pd_name dto) (projects (db v)) = Some q"
    and "find (\<lambda>p. p_name p = pd_name dto) (projects (db w)) = None"
    and "filter (\<lambda>a. ga_userId a = u) (gitAccounts (db w)) = []"
  shows "fst (projectsService_create X u dto v) \<noteq> fst (projectsService_create X u dto w)"
  using assms by (simp add: projectsService_create_def action_simps)

section \<open>Closed examples\<close>

definition without_bobs :: world where
  \<comment> \<open>the sample state without the deployment of the other user\<close>
  "without_bobs = sample_world\<lparr>db := sample_db\<lparr>deployments := [sample_ready]\<rparr>\<rparr>"

lemma without_bobs_ok: "db_ok (db without_bobs)"
  by (simp add: without_bobs_def db_ok_def uniq_def fks_def fresh_def sample_defs)

lemma without_bobs_own: "own 0 (db sample_world) = own 0 (db without_bobs)"
  by (simp add: own_def without_bobs_def of_user_def log_of_user_def sample_defs)

text \<open>The deployment 8 is another user's in one state and does not exist in the other.\<close>

theorem answers_confined_witness:
  "fst (user_answer sample_http ann_creds (Deployments (GetDeploymentBy 8)) sample_world) =
   fst (user_answer sample_http ann_creds (Deployments (GetDeploymentBy 8)) without_bobs) \<and>
   8 \<in> d_id ` set (deployments (db sample_world)) \<and> 8 \<notin> d_id ` set (deployments (db without_bobs))"
proof -
  have "fst (user_answer sample_http ann_creds (Deployments (GetDeploymentBy 8)) sample_world) =
      fst (user_answer sample_http ann_creds (Deployments (GetDeploymentBy 8)) without_bobs)"
  proof (rule answers_confined [OF sample_db_ok without_bobs_ok])
    show "now sample_world = now without_bobs" by (simp add: without_bobs_def)
    fix u
    assume "token_user sample_http ann_creds (now without_bobs) = Some u"
    then have "u = 0" by (simp add: token_user_def sample_http_def ann_creds_def)
    then show "own u (db sample_world) = own u (db without_bobs) \<and> needs_config (Deployments (GetDeploymentBy 8)) u (db without_bobs)"
      using without_bobs_own by (simp add: needs_config_def)
  qed simp
  then show ?thesis by (simp add: without_bobs_def sample_defs)
qed




end
