(* ===== verification/Contract.thy ===== *)
theory Contract
  imports Answers
begin

text \<open>
  The contract between the API and the web client: the interfaces of \<open>types/*.ts\<close> as types of JSON
  values, the JSON the API sends for each of its answers, and when the two agree, null and
  undefined being different (the client is compiled with \<open>strict\<close>). TypeScript checks nothing at
  run time: a value that does not have the type is found out when it is read.
\<close>

section \<open>TypeScript types of JSON values\<close>

datatype ts_type =
    TString | TNumber | TBool | TEnum "string list" | TArray ts_type | TMaybe ts_type | TRecord ts_type
  | TInterface "(string \<times> bool \<times> ts_type) list" \<comment> \<open>field, whether it is optional, its type\<close>

fun has_type :: "ts_type \<Rightarrow> json \<Rightarrow> bool" where
  \<comment> \<open>an optional field may be missing; null has a type only where the type says so\<close>
  "has_type TString j = (case j of JStr s \<Rightarrow> True | _ \<Rightarrow> False)"
| "has_type TNumber j = (case j of JNum n \<Rightarrow> True | _ \<Rightarrow> False)"
| "has_type TBool j = (case j of JBool b \<Rightarrow> True | _ \<Rightarrow> False)"
| "has_type (TEnum vs) j = (case j of JStr s \<Rightarrow> s \<in> set vs | _ \<Rightarrow> False)"
| "has_type (TArray t) j = (case j of JArr xs \<Rightarrow> list_all (has_type t) xs | _ \<Rightarrow> False)"
| "has_type (TMaybe t) j = (j = JNull \<or> has_type t j)"
| "has_type (TRecord t) j = (case j of JObj kvs \<Rightarrow> list_all (\<lambda>p. has_type t (snd p)) kvs | _ \<Rightarrow> False)"
| "has_type (TInterface fs) j =
     (case j of
        JObj kvs \<Rightarrow> list_all (\<lambda>f. case map_of kvs (fst f) of
            None \<Rightarrow> fst (snd f)
          | Some v \<Rightarrow> has_type (snd (snd f)) v) fs
      | _ \<Rightarrow> False)"

section \<open>The interfaces of the client\<close>

definition ts_DeploymentStatus :: ts_type where
  "ts_DeploymentStatus = TEnum [''QUEUED'', ''BUILDING'', ''DEPLOYING'', ''READY'', ''FAILED'', ''CANCELED'', ''EXPIRED'', ''SUPERSEDED'']"

definition ts_DomainDnsStatus :: ts_type where
  "ts_DomainDnsStatus = TEnum [''PENDING'', ''ACTIVE'', ''INACTIVE'', ''ERROR'', ''VERIFYING'']"

definition ts_EnvironmentType :: ts_type where
  "ts_EnvironmentType = TEnum [''DEVELOPMENT'', ''PRODUCTION'', ''PREVIEW'']"

definition ts_LogSource :: ts_type where
  "ts_LogSource = TEnum [''BUILD'', ''RUNTIME'', ''SYSTEM'']"

definition ts_EnvVar :: ts_type where
  "ts_EnvVar = TInterface [
    (''id'', False, TString), (''key'', False, TString), (''value'', False, TString),
    (''targets'', False, TArray ts_EnvironmentType)]"

definition ts_Domain :: ts_type where
  "ts_Domain = TInterface [
    (''id'', False, TString), (''name'', False, TString), (''status'', False, ts_DomainDnsStatus),
    (''type'', False, ts_EnvironmentType),
    (''dnsRecords'', True, TArray (TInterface [(''type'', False, TString), (''name'', False, TString), (''value'', False, TString)]))]"

definition ts_LogEntry :: ts_type where
  "ts_LogEntry = TInterface [
    (''id'', False, TString), (''deploymentId'', False, TString), (''source'', False, ts_LogSource),
    (''timestamp'', False, TString), (''message'', False, TString)]"

definition ts_Deployment :: ts_type where
  "ts_Deployment = TInterface [
    (''id'', False, TString), (''projectId'', False, TString), (''status'', False, ts_DeploymentStatus),
    (''environment'', False, ts_EnvironmentType), (''machineCpu'', False, TNumber),
    (''machineRam'', False, TNumber), (''machineStorage'', False, TNumber),
    (''machineOS'', False, TString), (''logs'', True, TArray ts_LogEntry),
    (''deploymentRegion'', False, TString), (''startedAt'', False, TString),
    (''finishedAt'', True, TString), (''duration'', True, TNumber), (''branch'', False, TString),
    (''commitHash'', False, TString), (''commitMessage'', True, TString),
    (''commitAuthor'', True, TString), (''deploymentUrl'', False, TString)]"

definition ts_Project :: ts_type where
  "ts_Project = TInterface [
    (''id'', False, TString), (''name'', False, TString), (''framework'', False, TString),
    (''language'', False, TString), (''rootDirectory'', False, TString),
    (''installCommand'', True, TString), (''buildCommand'', True, TString),
    (''runCommand'', True, TString), (''outputDirectory'', True, TString),
    (''pythonVersion'', True, TString), (''autoDeploy'', False, TBool), (''configChanged'', False, TBool),
    (''onlineStatus'', False, ts_DomainDnsStatus), (''gitRepoName'', False, TString),
    (''gitRepoOwner'', False, TString), (''gitBranch'', False, TString), (''gitRepoId'', False, TNumber),
    (''gitRepoUrl'', False, TString), (''gitCloneUrl'', False, TString),
    (''deployments'', False, TArray ts_Deployment), (''envVars'', True, TArray ts_EnvVar),
    (''domains'', True, TArray ts_Domain), (''createdAt'', False, TString),
    (''updatedAt'', False, TString)]"

definition ts_User :: ts_type where
  "ts_User = TInterface [
    (''id'', False, TString), (''email'', False, TString), (''name'', False, TString),
    (''avatar'', False, TString)]"

definition ts_SystemConfig :: ts_type where
  "ts_SystemConfig = TInterface [
    (''defaultRegion'', False, TString), (''maxConcurrentBuilds'', False, TNumber),
    (''logRetentionDays'', False, TNumber), (''turboMode'', False, TBool),
    (''globalTTLMinutes'', False, TNumber), (''autoDeploy'', False, TBool),
    (''slackWebhook'', False, TString), (''emailDeployFailed'', False, TBool),
    (''emailDeploySuccess'', False, TBool), (''emailBilling'', False, TBool),
    (''updatedAt'', False, TString)]"

definition ts_GitAccount :: ts_type where
  "ts_GitAccount = TInterface [
    (''id'', False, TString), (''username'', False, TString), (''avatarUrl'', False, TString),
    (''installationId'', False, TMaybe TString)]"

definition ts_GitConnectionStatus :: ts_type where
  "ts_GitConnectionStatus = TInterface [
    (''connected'', False, TBool), (''username'', True, TString), (''avatarUrl'', True, TString),
    (''accounts'', True, TArray ts_GitAccount)]"

definition ts_GitRepository :: ts_type where
  "ts_GitRepository = TInterface [
    (''id'', False, TNumber), (''name'', False, TString), (''fullName'', False, TString), (''private'', False, TBool),
    (''url'', False, TString), (''sshUrl'', False, TString), (''cloneUrl'', False, TString),
    (''language'', False, TMaybe TString), (''defaultBranch'', False, TString), (''updatedAt'', False, TString),
    (''framework'', False, TString), (''installCommand'', False, TString), (''buildCommand'', False, TString),
    (''runCommand'', False, TString), (''outputDirectory'', False, TString)]"

definition ts_FileNode :: ts_type where
  "ts_FileNode = TInterface [
    (''name'', False, TString), (''path'', False, TString), (''type'', False, TEnum [''dir'', ''file''])]"

definition ts_GitFrameworkDetection :: ts_type where
  "ts_GitFrameworkDetection = TInterface [
    (''framework'', False, TString), (''installCommand'', False, TString),
    (''buildCommand'', False, TString), (''runCommand'', False, TString),
    (''outputDirectory'', False, TString)]"

definition ts_DeploymentTimePoint :: ts_type where
  "ts_DeploymentTimePoint = TInterface [
    (''date'', False, TString), (''total'', False, TNumber), (''success'', False, TNumber),
    (''failed'', False, TNumber)]"

definition ts_BuildTimeTrendPoint :: ts_type where
  "ts_BuildTimeTrendPoint = TInterface [
    (''date'', False, TString), (''avgDuration'', False, TNumber)]"

definition ts_ProjectDeploymentCount :: ts_type where
  "ts_ProjectDeploymentCount = TInterface [
    (''projectId'', False, TString), (''projectName'', False, TString), (''framework'', False, TString),
    (''count'', False, TNumber)]"

definition ts_RecentActivityItem :: ts_type where
  "ts_RecentActivityItem = TInterface [
    (''id'', False, TString), (''status'', False, TString), (''startedAt'', False, TString),
    (''finishedAt'', True, TString), (''duration'', True, TNumber), (''commitHash'', False, TString),
    (''commitMessage'', True, TString), (''branch'', False, TString)]"

definition ts_OverviewAnalytics :: ts_type where
  "ts_OverviewAnalytics = TInterface [
    (''totalDeployments'', False, TNumber), (''totalProjects'', False, TNumber),
    (''deploymentsThisWeek'', False, TNumber), (''avgBuildTime'', False, TNumber),
    (''successRate'', False, TNumber), (''deploymentsOverTime'', False, TArray ts_DeploymentTimePoint),
    (''statusDistribution'', False, TRecord TNumber),
    (''deploymentsByProject'', False, TArray ts_ProjectDeploymentCount),
    (''buildTimeTrend'', False, TArray ts_BuildTimeTrendPoint)]"

definition ts_ProjectAnalytics :: ts_type where
  "ts_ProjectAnalytics = TInterface [
    (''projectId'', False, TString), (''projectName'', False, TString), (''framework'', False, TString),
    (''totalDeployments'', False, TNumber), (''deploymentsThisWeek'', False, TNumber),
    (''avgBuildTime'', False, TNumber), (''successRate'', False, TNumber),
    (''fastestBuild'', False, TNumber), (''slowestBuild'', False, TNumber),
    (''statusDistribution'', False, TRecord TNumber),
    (''deploymentsOverTime'', False, TArray ts_DeploymentTimePoint),
    (''buildTimeTrend'', False, TArray ts_BuildTimeTrendPoint),
    (''recentActivity'', False, TArray ts_RecentActivityItem)]"

definition ts_LogsResponse :: ts_type where
  "ts_LogsResponse = TInterface [
    (''logs'', False, TArray ts_LogEntry), (''nextCursor'', False, TMaybe TString),
    (''hasMore'', False, TBool), (''status'', False, ts_DeploymentStatus), (''isLive'', False, TBool)]"

section \<open>What the API sends\<close>

definition opt_json :: "('a \<Rightarrow> json) \<Rightarrow> 'a option \<Rightarrow> json" where
  "opt_json f x = (case x of None \<Rightarrow> JNull | Some y \<Rightarrow> f y)"

definition num_json :: "nat \<Rightarrow> json" where
  "num_json n = JNum (int n)"

definition dns_name :: "dns_status \<Rightarrow> string" where
  "dns_name s = (case s of DnsACTIVE \<Rightarrow> ''ACTIVE'' | DnsINACTIVE \<Rightarrow> ''INACTIVE'' | DnsPENDING \<Rightarrow> ''PENDING''
     | DnsVERIFYING \<Rightarrow> ''VERIFYING'' | DnsERROR \<Rightarrow> ''ERROR'')"

definition environment_name :: "environment_type \<Rightarrow> string" where
  "environment_name e = (case e of PRODUCTION \<Rightarrow> ''PRODUCTION'' | PREVIEW \<Rightarrow> ''PREVIEW'' | DEVELOPMENT \<Rightarrow> ''DEVELOPMENT'')"

definition source_name :: "log_source \<Rightarrow> string" where
  "source_name s = (case s of BUILD \<Rightarrow> ''BUILD'' | RUNTIME \<Rightarrow> ''RUNTIME'' | SYSTEM \<Rightarrow> ''SYSTEM'')"

definition trigger_name :: "deployment_trigger \<Rightarrow> string" where
  "trigger_name t = (case t of MANUAL \<Rightarrow> ''MANUAL'' | WEBHOOK \<Rightarrow> ''WEBHOOK'' | ROLLBACK \<Rightarrow> ''ROLLBACK'')"

definition all_statuses :: "deployment_status list" where
  "all_statuses = [QUEUED, BUILDING, DEPLOYING, READY, FAILED, CANCELED, EXPIRED, SUPERSEDED]"

record renderer =
  re_id :: "uuid \<Rightarrow> string"
  re_time :: "time \<Rightarrow> string"
  re_day :: "int \<Rightarrow> string"

definition deployment_json :: "renderer \<Rightarrow> deployment \<Rightarrow> json" where
  \<comment> \<open>the machine columns are never written: they have their defaults\<close>
  "deployment_json R d = JObj [
     (''id'', JStr (re_id R (d_id d))), (''status'', JStr (status_name (d_status d))),
     (''environment'', JStr (environment_name (d_environment d))), (''isSuccess'', JBool (d_isSuccess d)),
     (''commitHash'', JStr (d_commitHash d)), (''commitMessage'', opt_json JStr (d_commitMessage d)),
     (''commitAuthor'', opt_json JStr (d_commitAuthor d)), (''branch'', JStr (d_branch d)),
     (''machineCpu'', JNum 1), (''machineRam'', JNum 512), (''machineStorage'', JNum 8192),
     (''machineOS'', JStr ''Ubuntu 22.04 LTS''), (''containerImage'', opt_json JStr (d_containerImage d)),
     (''deploymentUrl'', opt_json JStr (d_deploymentUrl d)), (''deploymentRegion'', JStr (d_deploymentRegion d)),
     (''startedAt'', JStr (re_time R (d_startedAt d))),
     (''finishedAt'', opt_json (\<lambda>t. JStr (re_time R t)) (d_finishedAt d)), (''duration'', opt_json JNum (d_duration d)),
     (''projectId'', JStr (re_id R (d_projectId d))),
     (''initiatorId'', opt_json (\<lambda>i. JStr (re_id R i)) (d_initiatorId d)), (''trigger'', JStr (trigger_name (d_trigger d)))]"

definition domain_json :: "renderer \<Rightarrow> domain \<Rightarrow> json" where
  "domain_json R m = JObj [
     (''id'', JStr (re_id R (dom_id m))), (''name'', JStr (dom_name m)), (''status'', JStr (dns_name (dom_status m))),
     (''type'', JStr (environment_name (dom_type m))), (''error'', opt_json JStr (dom_error m)),
     (''projectId'', JStr (re_id R (dom_projectId m))), (''createdAt'', JStr (re_time R (dom_createdAt m)))]"

definition variable_json :: "renderer \<Rightarrow> uuid \<times> string \<times> string \<times> environment_type list \<Rightarrow> json" where
  "variable_json R v = (case v of (i, key, value, targets) \<Rightarrow> JObj [
     (''id'', JStr (re_id R i)), (''key'', JStr key), (''value'', JStr value),
     (''targets'', JArr (map (\<lambda>t. JStr (environment_name t)) targets))])"

definition project_json :: "renderer \<Rightarrow> project_view \<Rightarrow> json" where
  "project_json R v = (let p = pv_project v in JObj [
     (''id'', JStr (re_id R (p_id p))), (''name'', JStr (p_name p)), (''language'', JStr (p_language p)),
     (''framework'', JStr (p_framework p)), (''rootDirectory'', JStr (p_rootDirectory p)),
     (''installCommand'', opt_json JStr (p_installCommand p)), (''buildCommand'', opt_json JStr (p_buildCommand p)),
     (''runCommand'', opt_json JStr (p_runCommand p)), (''outputDirectory'', opt_json JStr (p_outputDirectory p)),
     (''pythonVersion'', opt_json JStr (p_pythonVersion p)),
     (''gitRepoOwner'', JStr (p_gitRepoOwner p)), (''gitRepoName'', JStr (p_gitRepoName p)),
     (''gitRepoId'', JNum (p_gitRepoId p)), (''gitBranch'', JStr (p_gitBranch p)),
     (''gitCloneUrl'', JStr (p_gitCloneUrl p)), (''gitRepoUrl'', JStr (p_gitRepoUrl p)),
     (''configChanged'', JBool (p_configChanged p)), (''autoDeploy'', JBool (p_autoDeploy p)),
     (''onlineStatus'', JStr (dns_name (p_onlineStatus p))), (''userId'', JStr (re_id R (p_userId p))),
     (''createdAt'', JStr (re_time R (p_createdAt p))), (''updatedAt'', JStr (re_time R (p_updatedAt p))),
     (''deployments'', JArr (map (deployment_json R) (pv_deployments v))),
     (''domains'', JArr (map (domain_json R) (pv_domains v))),
     (''envVars'', JArr (map (variable_json R) (pv_envVars v)))])"

definition config_json :: "renderer \<Rightarrow> system_config \<Rightarrow> json" where
  \<comment> \<open>without \<open>id\<close> and \<open>userId\<close>; the column \<open>updatedAt\<close> is left out of the rows: any time\<close>
  "config_json R c = JObj [
     (''defaultRegion'', JStr (cfg_defaultRegion c)), (''maxConcurrentBuilds'', JNum (cfg_maxConcurrentBuilds c)),
     (''logRetentionDays'', JNum (cfg_logRetentionDays c)), (''turboMode'', JBool (cfg_turboMode c)),
     (''globalTTLMinutes'', JNum (cfg_globalTTLMinutes c)), (''autoDeploy'', JBool (cfg_autoDeploy c)),
     (''slackWebhook'', opt_json JStr (cfg_slackWebhook c)), (''emailDeployFailed'', JBool (cfg_emailDeployFailed c)),
     (''emailDeploySuccess'', JBool (cfg_emailDeploySuccess c)), (''updatedAt'', JStr (re_time R 0))]"

definition day_json :: "renderer \<Rightarrow> day_count \<Rightarrow> json" where
  "day_json R d = JObj [(''date'', JStr (re_day R (dc_date d))), (''total'', num_json (dc_total d)),
     (''success'', num_json (dc_success d)), (''failed'', num_json (dc_failed d))]"

definition trend_json :: "renderer \<Rightarrow> int \<times> int \<Rightarrow> json" where
  "trend_json R p = JObj [(''date'', JStr (re_day R (fst p))), (''avgDuration'', JNum (snd p))]"

definition distribution_json :: "(deployment_status \<Rightarrow> nat option) \<Rightarrow> json" where
  "distribution_json counts = JObj (List.map_filter (\<lambda>s. map_option (\<lambda>n. (status_name s, num_json n)) (counts s)) all_statuses)"

definition recent_json :: "renderer \<Rightarrow> recent_deployment \<Rightarrow> json" where
  "recent_json R r = JObj [
     (''id'', JStr (re_id R (rd_id r))), (''status'', JStr (status_name (rd_status r))),
     (''startedAt'', JStr (re_time R (rd_startedAt r))), (''finishedAt'', opt_json (\<lambda>t. JStr (re_time R t)) (rd_finishedAt r)),
     (''duration'', opt_json JNum (rd_duration r)), (''commitHash'', JStr (rd_commitHash r)),
     (''commitMessage'', opt_json JStr (rd_commitMessage r)), (''branch'', JStr (rd_branch r))]"

definition overview_json :: "renderer \<Rightarrow> overview \<Rightarrow> json" where
  "overview_json R a = JObj [
     (''totalDeployments'', num_json (ov_totalDeployments a)), (''totalProjects'', num_json (ov_totalProjects a)),
     (''deploymentsThisWeek'', num_json (ov_deploymentsThisWeek a)), (''avgBuildTime'', JNum (ov_avgBuildTime a)),
     (''successRate'', JNum (ov_successRate a)), (''deploymentsOverTime'', JArr (map (day_json R) (ov_deploymentsOverTime a))),
     (''statusDistribution'', distribution_json (ov_statusDistribution a)),
     (''deploymentsByProject'', JArr (map (\<lambda>c. JObj [(''projectId'', JStr (re_id R (pc_projectId c))),
        (''projectName'', JStr (pc_projectName c)), (''framework'', JStr (pc_framework c)), (''count'', num_json (pc_count c))])
        (ov_deploymentsByProject a))),
     (''buildTimeTrend'', JArr (map (trend_json R) (ov_buildTimeTrend a)))]"

definition project_analytics_json :: "renderer \<Rightarrow> project_analytics \<Rightarrow> json" where
  "project_analytics_json R a = JObj [
     (''projectId'', JStr (re_id R (pa_projectId a))), (''projectName'', JStr (pa_projectName a)),
     (''framework'', JStr (pa_framework a)), (''totalDeployments'', num_json (pa_totalDeployments a)),
     (''deploymentsThisWeek'', num_json (pa_deploymentsThisWeek a)), (''avgBuildTime'', JNum (pa_avgBuildTime a)),
     (''successRate'', JNum (pa_successRate a)), (''fastestBuild'', JNum (pa_fastestBuild a)),
     (''slowestBuild'', JNum (pa_slowestBuild a)), (''statusDistribution'', distribution_json (pa_statusDistribution a)),
     (''deploymentsOverTime'', JArr (map (day_json R) (pa_deploymentsOverTime a))),
     (''buildTimeTrend'', JArr (map (trend_json R) (pa_buildTimeTrend a))),
     (''recentActivity'', JArr (map (recent_json R) (pa_recentActivity a)))]"

definition log_json :: "renderer \<Rightarrow> log_entry \<Rightarrow> json" where
  "log_json R l = JObj [(''id'', JStr (re_id R (log_id l))), (''deploymentId'', JStr (re_id R (log_deploymentId l))),
     (''source'', JStr (source_name (log_source l))), (''timestamp'', JStr (re_time R (log_timestamp l))),
     (''message'', JStr (log_message l))]"

definition logs_page_json :: "renderer \<Rightarrow> logs_page \<Rightarrow> json" where
  "logs_page_json R p = JObj [(''logs'', JArr (map (log_json R) (lp_logs p))),
     (''nextCursor'', opt_json (\<lambda>t. JStr (re_time R t)) (lp_nextCursor p)), (''hasMore'', JBool (lp_hasMore p)),
     (''status'', JStr (status_name (lp_status p))), (''isLive'', JBool (lp_isLive p))]"

definition git_status_json :: "renderer \<Rightarrow> git_status \<Rightarrow> json" where
  \<comment> \<open>\<open>primary?.username\<close> is undefined without an account, and then not sent\<close>
  "git_status_json R s = JObj ([(''connected'', JBool (gs_connected s))] @
     (case gs_username s of None \<Rightarrow> [] | Some n \<Rightarrow>
        [(''username'', JStr n), (''avatarUrl'', opt_json JStr (gs_avatarUrl s))]) @
     [(''accounts'', JArr (map (\<lambda>(i, n, avatar, inst). JObj [(''id'', JStr (re_id R i)), (''username'', JStr n),
        (''avatarUrl'', opt_json JStr avatar), (''installationId'', opt_json JStr inst)]) (gs_accounts s)))])"

definition repository_json :: "repository \<Rightarrow> json" where
  "repository_json r = JObj [(''id'', JNum (rp_id r)), (''name'', JStr (rp_name r)), (''fullName'', JStr (rp_fullName r)),
     (''private'', JBool (rp_private r)), (''url'', JStr (rp_url r)), (''sshUrl'', JStr (rp_sshUrl r)),
     (''cloneUrl'', JStr (rp_cloneUrl r)), (''language'', opt_json JStr (rp_language r)),
     (''defaultBranch'', JStr (rp_defaultBranch r)), (''updatedAt'', JStr (rp_updatedAt r)),
     (''framework'', JStr (det_framework (rp_detection r))), (''installCommand'', JStr (det_installCommand (rp_detection r))),
     (''buildCommand'', JStr (det_buildCommand (rp_detection r))), (''runCommand'', JStr (det_runCommand (rp_detection r))),
     (''outputDirectory'', JStr (det_outputDirectory (rp_detection r)))]"

definition content_json :: "content_item \<Rightarrow> json" where
  "content_json i = JObj [(''name'', JStr (ci_name i)), (''path'', JStr (ci_path i)), (''type'', JStr (ci_type i)),
     (''sha'', JStr (ci_sha i))]"

definition detection_json :: "detection \<Rightarrow> json" where
  "detection_json d = JObj [(''framework'', JStr (det_framework d)), (''installCommand'', JStr (det_installCommand d)),
     (''buildCommand'', JStr (det_buildCommand d)), (''runCommand'', JStr (det_runCommand d)),
     (''outputDirectory'', JStr (det_outputDirectory d))]"

definition getProfile_json :: "renderer \<Rightarrow> jwt_claims \<Rightarrow> json" where
  \<comment> \<open>\<open>GET /auth/me\<close> answers the claims of the token\<close>
  "getProfile_json R c = JObj [(''sub'', JStr (re_id R (jc_sub c))), (''email'', JStr (jc_email c)),
     (''name'', JStr (jc_name c)), (''avatar'', opt_json JStr (jc_avatar c))]"

section \<open>When the two agree\<close>

lemma atoms_typed [simp]:
  "has_type TString (JStr x)" "has_type TNumber (JNum n)" "has_type TBool (JBool b)" "\<not> has_type TString JNull"
  "\<not> has_type TNumber JNull"
  by simp_all

declare has_type.simps(1-4) [simp del]

lemma opt_json_simps [simp]: "opt_json f None = JNull" "opt_json f (Some y) = f y"
  by (simp_all add: opt_json_def)

lemma opt_typed [simp]:
  "(\<And>y. has_type t (f y)) \<Longrightarrow> \<not> has_type t JNull \<Longrightarrow> has_type t (opt_json f x) \<longleftrightarrow> x \<noteq> None"
  "(\<And>y. has_type t (f y)) \<Longrightarrow> has_type (TMaybe t) (opt_json f x)"
  by (cases x; simp)+

lemma status_typed [simp]: "has_type ts_DeploymentStatus (JStr (status_name s))"
  by (cases s; simp add: ts_DeploymentStatus_def status_name_def has_type.simps)

lemma dns_typed [simp]: "has_type ts_DomainDnsStatus (JStr (dns_name s))"
  by (cases s; simp add: ts_DomainDnsStatus_def dns_name_def has_type.simps)

lemma environment_typed [simp]: "has_type ts_EnvironmentType (JStr (environment_name e))"
  by (cases e; simp add: ts_EnvironmentType_def environment_name_def has_type.simps)

lemma source_typed [simp]: "has_type ts_LogSource (JStr (source_name s))"
  by (cases s; simp add: ts_LogSource_def source_name_def has_type.simps)

lemma num_typed [simp]: "has_type TNumber (num_json n)"
  by (simp add: num_json_def)

definition deployment_fits :: "deployment \<Rightarrow> bool" where
  \<comment> \<open>no column the client thinks present, or missing, is null\<close>
  "deployment_fits d \<longleftrightarrow> d_deploymentUrl d \<noteq> None \<and> d_finishedAt d \<noteq> None \<and> d_duration d \<noteq> None \<and>
     d_commitMessage d \<noteq> None \<and> d_commitAuthor d \<noteq> None"

lemma deployment_typed: "has_type ts_Deployment (deployment_json R d) \<longleftrightarrow> deployment_fits d"
  unfolding ts_Deployment_def deployment_json_def deployment_fits_def by (simp, blast)

lemma domain_typed: "has_type ts_Domain (domain_json R m)"
  by (simp add: ts_Domain_def domain_json_def)

lemma variable_typed: "has_type ts_EnvVar (variable_json R v)"
  by (cases v) (simp add: ts_EnvVar_def variable_json_def list_all_iff)

definition project_fits :: "project_view \<Rightarrow> bool" where
  "project_fits v \<longleftrightarrow> p_installCommand (pv_project v) \<noteq> None \<and> p_buildCommand (pv_project v) \<noteq> None \<and>
     p_runCommand (pv_project v) \<noteq> None \<and> p_outputDirectory (pv_project v) \<noteq> None \<and> p_pythonVersion (pv_project v) \<noteq> None \<and>
     (\<forall>d \<in> set (pv_deployments v). deployment_fits d)"

lemma project_typed: "has_type ts_Project (project_json R v) \<longleftrightarrow> project_fits v"
  unfolding ts_Project_def project_json_def Let_def project_fits_def
  by (simp add: list_all_iff deployment_typed domain_typed variable_typed)

lemma config_not_typed: "\<not> has_type ts_SystemConfig (config_json R c)"
  by (simp add: ts_SystemConfig_def config_json_def)

lemma distribution_typed: "has_type (TRecord TNumber) (distribution_json counts)"
  by (auto simp: distribution_json_def list_all_iff List.map_filter_def)

definition recent_fits :: "recent_deployment \<Rightarrow> bool" where
  "recent_fits r \<longleftrightarrow> rd_finishedAt r \<noteq> None \<and> rd_duration r \<noteq> None \<and> rd_commitMessage r \<noteq> None"

lemma points_typed:
  "has_type ts_DeploymentTimePoint (day_json R d)" "has_type ts_BuildTimeTrendPoint (trend_json R p)"
  "has_type ts_RecentActivityItem (recent_json R r) \<longleftrightarrow> recent_fits r" "has_type ts_LogEntry (log_json R l)"
  by (simp_all add: ts_DeploymentTimePoint_def day_json_def ts_BuildTimeTrendPoint_def trend_json_def
      ts_RecentActivityItem_def recent_json_def recent_fits_def ts_LogEntry_def log_json_def)

lemma figures_typed:
  "has_type ts_OverviewAnalytics (overview_json R ov)"
  "has_type ts_ProjectAnalytics (project_analytics_json R pa) \<longleftrightarrow> (\<forall>r \<in> set (pa_recentActivity pa). recent_fits r)"
  using distribution_typed [of "ov_statusDistribution ov"] distribution_typed [of "pa_statusDistribution pa"]
  by (simp_all add: ts_OverviewAnalytics_def overview_json_def ts_ProjectAnalytics_def project_analytics_json_def
      ts_ProjectDeploymentCount_def list_all_iff points_typed del: has_type.simps(7))

lemma logs_typed: "has_type ts_LogsResponse (logs_page_json R p)"
  by (cases "lp_nextCursor p") (simp_all add: ts_LogsResponse_def logs_page_json_def list_all_iff points_typed)

definition git_fits :: "git_status \<Rightarrow> bool" where
  "git_fits s \<longleftrightarrow> (gs_username s \<noteq> None \<longrightarrow> gs_avatarUrl s \<noteq> None) \<and> (\<forall>(i, n, avatar, inst) \<in> set (gs_accounts s). avatar \<noteq> None)"

lemma git_typed: "has_type ts_GitConnectionStatus (git_status_json R s) \<longleftrightarrow> git_fits s"
proof -
  have acc: "has_type ts_GitAccount (JObj [(''id'', JStr x), (''username'', JStr n), (''avatarUrl'', opt_json JStr avatar),
      (''installationId'', opt_json JStr inst)]) \<longleftrightarrow> avatar \<noteq> None" for x n avatar inst
    by (simp add: ts_GitAccount_def del: has_type.simps(6))
  show ?thesis
    unfolding ts_GitConnectionStatus_def git_status_json_def git_fits_def
    by (cases "gs_username s"; cases "gs_avatarUrl s") (auto simp: list_all_iff acc)
qed

lemma repository_typed: "has_type ts_GitRepository (repository_json r)"
  by (simp add: ts_GitRepository_def repository_json_def del: has_type.simps(6))

lemma content_typed: "has_type ts_FileNode (content_json i) \<longleftrightarrow> ci_type i \<in> {''dir'', ''file''}"
  by (simp add: ts_FileNode_def content_json_def has_type.simps(4))

lemma detection_typed: "has_type ts_GitFrameworkDetection (detection_json d)"
  by (simp add: ts_GitFrameworkDetection_def detection_json_def)

text \<open>The user of the client has an id; what \<open>GET /auth/me\<close> sends has a \<open>sub\<close>.\<close>

lemma profile_not_typed: "\<not> has_type ts_User (getProfile_json R c)"
  by (simp add: ts_User_def getProfile_json_def)

section \<open>The answers of the reading endpoints\<close>

fun client_type :: "user_endpoint \<Rightarrow> ts_type" where
  \<comment> \<open>what the hooks read the answer of a reading route at; no hook reads one project, the domains or the
      variables by themselves: these are declared as parts of a project\<close>
  "client_type (Projects r) = (case r of GetProjects \<Rightarrow> TArray ts_Project | _ \<Rightarrow> ts_Project)"
| "client_type (Deployments r) = (case r of GetLogs i s a l \<Rightarrow> ts_LogsResponse | GetDeploymentBy i \<Rightarrow> ts_Deployment
     | _ \<Rightarrow> TArray ts_Deployment)"
| "client_type (Domains r) = TArray ts_Domain"
| "client_type (Envs r) = TArray ts_EnvVar"
| "client_type (Settings r) = ts_SystemConfig"
| "client_type (Analytics r) = (case r of GetOverviewRoute \<Rightarrow> ts_OverviewAnalytics | GetProjectAnalyticsRoute i \<Rightarrow> ts_ProjectAnalytics)"
| "client_type (Git r) = (case r of GetStatusRoute \<Rightarrow> ts_GitConnectionStatus | GetRepos i \<Rightarrow> TArray ts_GitRepository
     | GetTree i ow repo path \<Rightarrow> TArray ts_FileNode | GetDetect i ow repo path \<Rightarrow> ts_GitFrameworkDetection)"

fun answer_json :: "renderer \<Rightarrow> answer \<Rightarrow> json" where
  \<comment> \<open>what is sent\<close>
  "answer_json R (ProjectList vs) = JArr (map (project_json R) vs)"
| "answer_json R (OneProject v) = project_json R v"
| "answer_json R (DeploymentList ds) = JArr (map (deployment_json R) ds)"
| "answer_json R (OneDeployment d) = deployment_json R d"
| "answer_json R (LogsPage p) = logs_page_json R p"
| "answer_json R (DomainList ms) = JArr (map (domain_json R) ms)"
| "answer_json R (EnvVarList es) = JArr (map (\<lambda>e. variable_json R (ev_id e, ev_key e, ev_value e, ev_targets e)) es)"
| "answer_json R (ConfigRow c) = config_json R c"
| "answer_json R (OverviewFigures ov) = overview_json R ov"
| "answer_json R (ProjectFigures pa) = project_analytics_json R pa"
| "answer_json R (StatusOfGit s) = git_status_json R s"
| "answer_json R (Repositories rs) = JArr (map repository_json rs)"
| "answer_json R (Contents items) = JArr (map content_json items)"
| "answer_json R (Detection d) = detection_json d"
| "answer_json R Succeeded = JNull"

fun fits_client :: "answer \<Rightarrow> bool" where
  "fits_client (ProjectList vs) = (\<forall>v \<in> set vs. project_fits v)"
| "fits_client (OneProject v) = project_fits v"
| "fits_client (DeploymentList ds) = (\<forall>d \<in> set ds. deployment_fits d)"
| "fits_client (OneDeployment d) = deployment_fits d"
| "fits_client (ConfigRow c) = False"
| "fits_client (ProjectFigures pa) = (\<forall>r \<in> set (pa_recentActivity pa). recent_fits r)"
| "fits_client (StatusOfGit s) = git_fits s"
| "fits_client (Contents items) = (\<forall>i \<in> set items. ci_type i \<in> {''dir'', ''file''})"
| "fits_client a = True"

lemma answeredD: "answered f m w = (Inr a, w') \<Longrightarrow> \<exists>x. a = f x"
  unfolding answered_def by (erule andThen_cases) (auto simp: ret_run)

lemma withUserD: "withUser H c f w = (Inr a, w') \<Longrightarrow> \<exists>u. f u w = (Inr a, w')"
  by (auto simp: withUser_run split: option.splits if_splits)

lemma never_answers: "andThen m (\<lambda>_. throw e) w \<noteq> (Inr a, w')"
  by (rule notI, erule andThen_cases) (auto simp: throw_run)

text \<open>
  C35. When a reading endpoint of a signed-in user answers, its answer has the type the client
  declares for it (\<open>strict\<close>: null is no missing field) exactly when: every deployment shown has an address, an end,
  a duration, a commit message and an author; every project shown has all five build settings;
  each recent deployment of the analytics an end, a duration and a message; the linked accounts a
  picture; and the entries of a directory are files and directories. Lists of domains, variables,
  repositories, log pages, the overview and detections always fit. The settings never do, and
  neither does the user of \<open>GET /auth/me\<close>, which is sent as the claims of a token.
\<close>

text \<open>
  C35. When a reading endpoint of a signed-in user answers, its answer has the type the client
  declares for it (strict: null is no missing field) exactly when: every deployment shown has an
  address, an end, a duration, a commit message and an author; every project shown has all five
  build settings; each recent deployment of the analytics an end, a duration and a message; the
  linked accounts a picture; and the entries of a directory are files and directories. Lists of
  domains, variables and repositories, log pages, the overview and detections always fit. The
  settings never do, and neither does the user of GET /auth/me, which is sent as the claims of a
  token.
\<close>

theorem answers_typed:
  assumes "is_get e" and "user_answer H c e w = (Inr a, w')"
  shows "(has_type (client_type e) (answer_json R a) \<longleftrightarrow> fits_client a) \<and> \<not> has_type ts_User (getProfile_json R claims)"
proof -
  note typed = list_all_iff project_typed deployment_typed logs_typed domain_typed variable_typed config_not_typed
    figures_typed git_typed detection_typed repository_typed content_typed profile_not_typed never_answers
  show ?thesis
  proof (cases e)
    case (Projects r) then show ?thesis using assms by (cases r) (auto simp: typed dest!: withUserD answeredD)
  next
    case (Deployments r) then show ?thesis using assms
      by (cases r) (auto simp: typed dest!: withUserD answeredD split: option.splits prod.splits)
  next
    case (Domains r) then show ?thesis using assms by (cases r) (auto simp: typed dest!: withUserD answeredD)
  next
    case (Envs r) then show ?thesis using assms by (cases r) (auto simp: typed dest!: withUserD answeredD)
  next
    case (Settings r) then show ?thesis using assms by (cases r) (auto simp: typed dest!: withUserD answeredD)
  next
    case (Analytics r) then show ?thesis using assms by (cases r) (auto simp: typed dest!: withUserD answeredD)
  next
    case (Git r) then show ?thesis using assms by (cases r) (auto simp: typed dest!: withUserD answeredD)
  qed
qed

section \<open>A closed example\<close>

definition plain_renderer :: renderer where
  "plain_renderer = \<lparr>re_id = (\<lambda>_. ''1''), re_time = (\<lambda>_. ''2''), re_day = (\<lambda>_. ''3'')\<rparr>"

lemma ann_asks:
  "user_answer sample_http ann_creds (Domains (GetDomains 4)) sample_world = (Inr (DomainList (domains (db sample_world))), sample_world)"
  "user_answer sample_http ann_creds (Deployments (GetDeploymentBy 7)) sample_world = (Inr (OneDeployment sample_ready), sample_world)"
  by (simp_all add: withUser_run sample_http_def ann_creds_def truthy_opt_def answered_def domainsService_findAll_def
      deploymentsService_findOne_def action_simps andThen_def query_defs sample_defs)

text \<open>Ann reads the domains of her shop, which fit, and a deployment of it that has no address.\<close>

theorem answers_typed_witness:
  "\<exists>a b w1 w2. user_answer sample_http ann_creds (Domains (GetDomains 4)) sample_world = (Inr a, w1) \<and>
     has_type (TArray ts_Domain) (answer_json plain_renderer a) \<and>
     user_answer sample_http ann_creds (Deployments (GetDeploymentBy 7)) sample_world = (Inr b, w2) \<and>
     \<not> has_type ts_Deployment (answer_json plain_renderer b)"
proof -
  have "\<not> deployment_fits sample_ready" by (simp add: deployment_fits_def sample_ready_def new_deployment_def)
  then show ?thesis
    using answers_typed [OF _ ann_asks(1), of plain_renderer] answers_typed [OF _ ann_asks(2), of plain_renderer] ann_asks
    by fastforce
qed

end
