(* ===== verification/Hooks.thy ===== *)
theory Hooks
  imports FetchLaws ControlPages PageLaws
begin

text \<open>
  What is left of the hooks and of the parts of the client that use them: the session a page sees
  (\<open>hooks/use-user.ts\<close>), the state of the GitHub link and the directory lists
  (\<open>hooks/use-git.ts\<close>), the analytics hooks and the analytics tab of a project
  (\<open>hooks/use-analytics.ts\<close>, \<open>AnalyticsPanel.tsx\<close>), the width of the screen (\<open>hooks/use-mobile.tsx\<close>)
  the window that links GitHub (\<open>NewProjectDialog.handleConnect\<close>), what \<open>hooks/use-deployments.ts\<close>
  hands to its pages, and the preview, folding sections and layout of \<open>app/dashboard\<close>. The cache of
  SWR is a map from keys to data.
\<close>

section \<open>\<open>useUser\<close>\<close>

definition getServerSnapshot :: "string option" where
  "getServerSnapshot = None"

record web_session =
  ss_token :: "string option" \<comment> \<open>the snapshot of the last render\<close>
  ss_cache :: "string \<Rightarrow> json option" \<comment> \<open>data under \<open>["/auth/me", token]\<close>; null is no data\<close>
  ss_error :: "client_error option"
  ss_pushed :: "string list"

definition session_init :: web_session where
  "session_init = \<lparr>ss_token = getServerSnapshot, ss_cache = (\<lambda>_. None), ss_error = None, ss_pushed = []\<rparr>"

definition getSnapshot :: "client \<Rightarrow> string option" where
  "getSnapshot = getAccessToken"

definition render_session :: "client \<Rightarrow> web_session \<Rightarrow> web_session" where
  \<comment> \<open>\<open>useSyncExternalStore\<close>: every \<open>change\<close> of the token manager renders with its token\<close>
  "render_session s h = (let t = getSnapshot s in h\<lparr>ss_token := t, ss_error := (if t = ss_token h then ss_error h else None)\<rparr>)"

definition handleLogout_event :: "web_session \<times> client \<Rightarrow> web_session \<times> client" where
  \<comment> \<open>the listener of \<open>auth:logout\<close>\<close>
  "handleLogout_event p =
     (let (h, s) = p in
      (h\<lparr>ss_cache := (case ss_token h of None \<Rightarrow> ss_cache h | Some t \<Rightarrow> (ss_cache h)(t := None)),
         ss_pushed := ss_pushed h @ [''/auth'']\<rparr>, clearTokens s))"

definition new_logouts :: "client \<Rightarrow> client \<Rightarrow> nat" where
  "new_logouts s s' = length (filter (\<lambda>e. e = ''auth:logout'') (drop (length (cl_events s)) (cl_events s')))"

definition revalidate_user ::
    "((string \<times> string) list \<Rightarrow> string) \<Rightarrow> string \<Rightarrow> network \<Rightarrow> web_session \<times> client \<Rightarrow> web_session \<times> client" where
  \<comment> \<open>SWR fetches for the key of the last render; the listener has run once for each event the fetch dispatched\<close>
  "revalidate_user encode baseUrl net p =
     (let (h, s) = p in
      case ss_token h of
        None \<Rightarrow> (h, s)
      | Some t \<Rightarrow> (let (r, s') = user_fetcher encode baseUrl net s;
                      (h', s'') = (handleLogout_event ^^ new_logouts s s') (h, s')
                  in (case r of
                        Inr data \<Rightarrow> (h'\<lparr>ss_cache := (ss_cache h')(t := data), ss_error := None\<rparr>, s'')
                      | Inl e \<Rightarrow> (h'\<lparr>ss_error := Some e\<rparr>, s''))))"

record user_view =
  uv_user :: "json option"
  uv_isUserLoading :: bool
  uv_error :: "client_error option"
  uv_isAuthenticated :: bool

definition useUser :: "bool \<Rightarrow> web_session \<Rightarrow> user_view" where
  \<comment> \<open>\<open>isLoading\<close> is SWR's: fetching without data\<close>
  "useUser isLoading h =
     (let data = (case ss_token h of None \<Rightarrow> None | Some t \<Rightarrow> ss_cache h t)
      in \<lparr>uv_user = data, uv_isUserLoading = (isLoading \<and> truthy_opt (ss_token h)), uv_error = ss_error h,
          uv_isAuthenticated = (data \<noteq> None)\<rparr>)"

lemma no_tokens_cleared [simp]:
  "getAccessToken (clearTokens s) = None" "getRefreshToken (clearTokens s) = None"
  "getAccessToken (log_out s) = None" "getRefreshToken (log_out s) = None"
  by (simp_all add: getAccessToken_def getRefreshToken_def get_cookie_def clearTokens_def log_out_def dispatch_def)

lemma logout_listeners:
  assumes "0 < n"
  shows "ss_pushed (fst ((handleLogout_event ^^ n) (h, s))) = ss_pushed h @ replicate n ''/auth''"
    and "getAccessToken (snd ((handleLogout_event ^^ n) (h, s))) = None"
    and "getRefreshToken (snd ((handleLogout_event ^^ n) (h, s))) = None"
proof -
  have "ss_pushed (fst ((handleLogout_event ^^ n) (h, s))) = ss_pushed h @ replicate n ''/auth'' \<and>
    (0 < n \<longrightarrow> getAccessToken (snd ((handleLogout_event ^^ n) (h, s))) = None \<and>
      getRefreshToken (snd ((handleLogout_event ^^ n) (h, s))) = None)"
    by (induction n) (auto simp: handleLogout_event_def split_def replicate_append_same)
  then show "ss_pushed (fst ((handleLogout_event ^^ n) (h, s))) = ss_pushed h @ replicate n ''/auth''"
    and "getAccessToken (snd ((handleLogout_event ^^ n) (h, s))) = None"
    and "getRefreshToken (snd ((handleLogout_event ^^ n) (h, s))) = None"
    using assms by simp_all
qed

definition events_grow :: "client \<Rightarrow> client \<Rightarrow> bool" where
  "events_grow s s' \<longleftrightarrow> (\<exists>es. cl_events s' = cl_events s @ es)"

lemma events_grow_simps [simp]:
  "events_grow s s" "events_grow s (s\<lparr>cl_sent := x\<rparr>)"
  "events_grow s (setTokens a b s)"
  by (auto simp: events_grow_def log_out_def clearTokens_def setTokens_def dispatch_def)

lemma events_grow_log_out: "events_grow s s' \<Longrightarrow> events_grow s (log_out s')"
  unfolding events_grow_def by (auto simp: log_out_def clearTokens_def dispatch_def)

lemma retried_events: "events_grow s (snd (retried base net req s))"
  unfolding retried_def refreshTokens_client_def doFetch_def andThen_def
  by (auto simp: action_simps events_grow_def setTokens_def dispatch_def split: option.splits sum.splits prod.splits)

lemma request_events: "events_grow s (snd (request_client encode base net meth url opts s))"
proof -
  let ?s1 = "s\<lparr>cl_sent := cl_sent s @ [first_request encode base meth url opts s]\<rparr>"
  have "events_grow s s2" if "retried base net (first_request encode base meth url opts s) ?s1 = (r, s2)" for r s2
    using retried_events [of ?s1 base net "first_request encode base meth url opts s"] that by (simp add: events_grow_def)
  then show ?thesis
    unfolding request_run Let_def
    by (auto simp: finish_run split: option.splits sum.splits prod.splits intro: events_grow_log_out)
qed

lemma logout_counted: "events_grow s s' \<Longrightarrow> 0 < new_logouts s (log_out s')"
  by (auto simp: new_logouts_def events_grow_def log_out_def clearTokens_def dispatch_def)

definition user_options :: request_options where
  "user_options = \<lparr>ro_skipAuth = False, ro_authorization = None, ro_body = None, ro_params = None\<rparr>"

definition ends_user_session :: "client_error \<Rightarrow> bool" where
  "ends_user_session e = (case e of ApiError status data \<Rightarrow> status = 401 \<or> says_failed data
     | NetworkError name message \<Rightarrow> is_no_answer name message | ClientError msg \<Rightarrow> False)"

lemma user_fetcher_run:
  "user_fetcher encode base net s =
     (case request_client encode base net ''GET'' ''/auth/me'' user_options s of
        (Inl e, s') \<Rightarrow> (Inl e, if ends_user_session e then log_out s' else s') | (Inr x, s') \<Rightarrow> (Inr x, s'))"
  unfolding user_fetcher_def ends_user_session_def tryCatch_def andThen_def user_options_def
  by (auto simp: action_simps split: sum.splits prod.splits client_error.splits)

text \<open>
  What a check of the session comes to, in terms of what the network answers. A body that is
  declared as JSON and is not makes the status unreadable.
\<close>

definition body_reads :: "response \<Rightarrow> bool" where
  "body_reads r \<longleftrightarrow> \<not> ((case rs_contentType r of None \<Rightarrow> False | Some ct \<Rightarrow> contains_text ''application/json'' ct) \<and>
     rs_json r = None)"

definition parsed_body :: "response \<Rightarrow> json option" where
  \<comment> \<open>the body, where it is JSON\<close>
  "parsed_body r = (case rs_contentType r of None \<Rightarrow> None
     | Some ct \<Rightarrow> if contains_text ''application/json'' ct then rs_json r else None)"

definition sends_away :: "response \<Rightarrow> bool" where
  "sends_away r \<longleftrightarrow> body_reads r \<and> (rs_status r = 401 \<or> \<not> res_ok r \<and> says_failed (parsed_body r))"

definition renewed_tokens :: "string \<Rightarrow> network \<Rightarrow> net_request list \<Rightarrow> string \<Rightarrow> (string \<times> string) option" where
  \<comment> \<open>the tokens a refresh brings, if it brings an access token\<close>
  "renewed_tokens base net sent rt =
     Option.bind (net sent (refresh_request base rt)) (\<lambda>answer.
     if \<not> res_ok answer then None
     else Option.bind (rs_json answer) (\<lambda>data.
       if text_of data ''accessToken'' = [] then None
       else Some (text_of data ''accessToken'', text_of data ''refreshToken'')))"

definition session_ends :: "((string \<times> string) list \<Rightarrow> string) \<Rightarrow> string \<Rightarrow> network \<Rightarrow> client \<Rightarrow> bool" where
  "session_ends encode base net s =
     (let req = first_request encode base ''GET'' ''/auth/me'' user_options s in
      case net (cl_sent s) req of
        None \<Rightarrow> is_no_answer (fst (cl_failure s)) (snd (cl_failure s))
      | Some res \<Rightarrow>
          (case (if rs_status res = 401 then getRefreshToken s else None) of
             None \<Rightarrow> sends_away res
           | Some rt \<Rightarrow>
               (case renewed_tokens base net (cl_sent s @ [req]) rt of
                  None \<Rightarrow> True
                | Some (access, refresh) \<Rightarrow>
                    (case net (cl_sent s @ [req, refresh_request base rt]) (req\<lparr>nr_authorization := Some (bearer access)\<rparr>) of
                       None \<Rightarrow> True | Some res2 \<Rightarrow> sends_away res2))))"

definition renewal :: "((string \<times> string) list \<Rightarrow> string) \<Rightarrow> string \<Rightarrow> network \<Rightarrow> client \<Rightarrow> (string \<times> string) option" where
  \<comment> \<open>the tokens the check renews on its way\<close>
  "renewal encode base net s =
     (let req = first_request encode base ''GET'' ''/auth/me'' user_options s in
      Option.bind (net (cl_sent s) req) (\<lambda>res.
      if rs_status res \<noteq> 401 then None
      else Option.bind (getRefreshToken s) (renewed_tokens base net (cl_sent s @ [req]))))"

lemma retried_renews:
  assumes "getRefreshToken s = Some rt"
  shows "case renewed_tokens base net (cl_sent s) rt of
      None \<Rightarrow> (\<exists>e s'. retried base net req s = (Inl e, s') \<and> events_grow s s')
    | Some (access, refresh) \<Rightarrow>
        (let s2 = (setTokens access refresh (s\<lparr>cl_sent := cl_sent s @ [refresh_request base rt]\<rparr>))
             \<lparr>cl_sent := cl_sent s @ [refresh_request base rt, req\<lparr>nr_authorization := Some (bearer access)\<rparr>]\<rparr>
         in retried base net req s = (case net (cl_sent s @ [refresh_request base rt]) (req\<lparr>nr_authorization := Some (bearer access)\<rparr>) of
              None \<Rightarrow> (Inl (rejection s), s2) | Some res \<Rightarrow> (Inr res, s2)))"
  using assms
  by (auto simp: renewed_tokens_def retried_def refreshTokens_client_def refresh_request_def andThen_def action_simps Let_def
      events_grow_def setTokens_def dispatch_def rejection_def split: option.splits Option.bind_splits)

lemma finish_refused:
  obtains x where
    "(if \<not> res_ok r then andThen (safeParse r) (\<lambda>d. throw (ApiError (rs_status r) d)) else safeParse r) s = (x, s)"
    and "sends_away r \<Longrightarrow> \<exists>e. x = Inl e \<and> ends_user_session e"
    and "\<not> sends_away r \<Longrightarrow> \<forall>e. x = Inl e \<longrightarrow> \<not> ends_user_session e"
proof -
  have "\<exists>x. (if \<not> res_ok r then andThen (safeParse r) (\<lambda>d. throw (ApiError (rs_status r) d)) else safeParse r) s = (x, s) \<and>
     (sends_away r \<longrightarrow> (\<exists>e. x = Inl e \<and> ends_user_session e)) \<and> (\<not> sends_away r \<longrightarrow> (\<forall>e. x = Inl e \<longrightarrow> \<not> ends_user_session e))"
    by (auto simp: safeParse_def action_simps andThen_def sends_away_def parsed_body_def body_reads_def res_ok_def ends_user_session_def
        split: option.splits)
  then show ?thesis using that by blast
qed

definition checked :: "client \<Rightarrow> bool \<Rightarrow> (string \<times> string) option \<Rightarrow> (client_error + json option) \<times> client \<Rightarrow> bool" where
  \<comment> \<open>the two ways a check can go: it ended in a logout, or in none, with the old cookies or renewed ones\<close>
  "checked s ended renewed rs \<longleftrightarrow>
     (if ended then (\<exists>e s0. rs = (Inl e, log_out s0) \<and> events_grow s s0)
      else new_logouts s (snd rs) = 0 \<and> cl_now (snd rs) = cl_now s \<and>
        cl_cookies (snd rs) = (case renewed of None \<Rightarrow> cl_cookies s | Some (a, r) \<Rightarrow> cl_cookies (setTokens a r s)))"

lemma checked_finish:
  assumes "cl_now s2 = cl_now s" and "events_grow s s2" and "new_logouts s s2 = 0"
    and "cl_cookies s2 = (case renewed of None \<Rightarrow> cl_cookies s | Some (a, r) \<Rightarrow> cl_cookies (setTokens a r s))"
    and "(if \<not> res_ok res then andThen (safeParse res) (\<lambda>d. throw (ApiError (rs_status res) d)) else safeParse res) s2 = (x, s')"
  shows "checked s (sends_away res) renewed
    (case (x, s') of (Inl e, s') \<Rightarrow> (Inl e, if ends_user_session e then log_out s' else s') | (Inr x, s') \<Rightarrow> (Inr x, s'))"
proof (rule finish_refused [of res s2])
  fix y
  assume run: "(if \<not> res_ok res then andThen (safeParse res) (\<lambda>d. throw (ApiError (rs_status res) d)) else safeParse res) s2 = (y, s2)"
    and yes: "sends_away res \<Longrightarrow> \<exists>e. y = Inl e \<and> ends_user_session e"
    and no: "\<not> sends_away res \<Longrightarrow> \<forall>e. y = Inl e \<longrightarrow> \<not> ends_user_session e"
  then have "x = y" "s' = s2" using assms(5) by auto
  then show ?thesis
    using assms(1-4) yes no by (cases y) (auto simp: checked_def ends_user_session_def split: option.splits)
qed

lemma check_with_refresh:
  assumes res: "net (cl_sent s) (first_request encode base ''GET'' ''/auth/me'' user_options s) = Some res"
    and rt: "rs_status res = 401" "getRefreshToken s = Some rt"
  shows "checked s (session_ends encode base net s) (renewal encode base net s) (user_fetcher encode base net s)"
proof -
  let ?req = "first_request encode base ''GET'' ''/auth/me'' user_options s"
  let ?s1 = "s\<lparr>cl_sent := cl_sent s @ [?req]\<rparr>"
  have skip: "\<not> ro_skipAuth user_options" by (simp add: user_options_def)
  have rt1: "getRefreshToken ?s1 = Some rt" using rt by simp
  note run = request_run [of encode base net "''GET''" "''/auth/me''" user_options s, unfolded Let_def res option.case]
  show ?thesis
  proof (cases "renewed_tokens base net (cl_sent ?s1) rt")
    case None
    then obtain e s2 where two: "retried base net ?req ?s1 = (Inl e, s2)" "events_grow ?s1 s2"
      using retried_renews [OF rt1, of base net ?req] by auto
    have "session_ends encode base net s" using None res rt by (simp add: session_ends_def Let_def)
    moreover have "events_grow s s2" using two(2) by (simp add: events_grow_def)
    ultimately show ?thesis
      using two(1) run rt skip by (auto simp: user_fetcher_run checked_def intro: events_grow_log_out)
  next
    case (Some tk)
    obtain a rf where tk: "tk = (a, rf)" by fastforce
    define req2 where "req2 = ?req\<lparr>nr_authorization := Some (bearer a)\<rparr>"
    define s2 where "s2 = (setTokens a rf (?s1\<lparr>cl_sent := cl_sent ?s1 @ [refresh_request base rt]\<rparr>))
         \<lparr>cl_sent := cl_sent ?s1 @ [refresh_request base rt, req2]\<rparr>"
    have two: "retried base net ?req ?s1 = (case net (cl_sent ?s1 @ [refresh_request base rt]) req2 of
          None \<Rightarrow> (Inl (rejection ?s1), s2) | Some res \<Rightarrow> (Inr res, s2))"
      using retried_renews [OF rt1, of base net ?req] unfolding Some tk option.case prod.case Let_def req2_def s2_def .
    have s2: "cl_now s2 = cl_now s" "events_grow s s2" "new_logouts s s2 = 0" "cl_cookies s2 = cl_cookies (setTokens a rf s)"
      by (simp_all add: s2_def setTokens_def dispatch_def events_grow_def new_logouts_def)
    have renewal: "renewal encode base net s = Some (a, rf)" using Some res rt tk by (simp add: renewal_def Let_def)
    have ends: "session_ends encode base net s \<longleftrightarrow>
        (case net (cl_sent ?s1 @ [refresh_request base rt]) req2 of None \<Rightarrow> True | Some res2 \<Rightarrow> sends_away res2)"
      using Some res rt tk by (simp add: session_ends_def Let_def req2_def)
    show ?thesis
    proof (cases "net (cl_sent ?s1 @ [refresh_request base rt]) req2")
      case None
      then show ?thesis
        using two run rt skip ends s2(2) by (auto simp: user_fetcher_run checked_def intro: events_grow_log_out)
    next
      case (Some res2)
      obtain x s' where fin: "(if \<not> res_ok res2 then andThen (safeParse res2) (\<lambda>d. throw (ApiError (rs_status res2) d)) else safeParse res2) s2 = (x, s')"
        by fastforce
      have "request_client encode base net ''GET'' ''/auth/me'' user_options s = (x, s')"
        using run two Some rt skip fin by simp
      then show ?thesis
        using checked_finish [OF s2(1-3) _ fin, where renewed = "Some (a, rf)"] s2(4) ends renewal Some
        by (simp add: user_fetcher_run)
    qed
  qed
qed

lemma check_run: "checked s (session_ends encode base net s) (renewal encode base net s) (user_fetcher encode base net s)"
proof -
  let ?req = "first_request encode base ''GET'' ''/auth/me'' user_options s"
  let ?s1 = "s\<lparr>cl_sent := cl_sent s @ [?req]\<rparr>"
  have skip: "\<not> ro_skipAuth user_options" by (simp add: user_options_def)
  show ?thesis
  proof (cases "net (cl_sent s) ?req")
    case None
    then show ?thesis
      by (auto simp: user_fetcher_run request_run Let_def session_ends_def renewal_def checked_def rejection_def ends_user_session_def
          new_logouts_def intro: exI [of _ ?s1])
  next
    case res: (Some res)
    show ?thesis
    proof (cases "if rs_status res = 401 then getRefreshToken s else None")
      case None
      obtain x s' where fin: "(if \<not> res_ok res then andThen (safeParse res) (\<lambda>d. throw (ApiError (rs_status res) d)) else safeParse res) ?s1 = (x, s')"
        by fastforce
      have "request_client encode base net ''GET'' ''/auth/me'' user_options s = (x, s')"
        using res None fin skip by (auto simp: request_run Let_def split: if_splits)
      moreover have "session_ends encode base net s = sends_away res" "renewal encode base net s = None"
        using res None by (auto simp: session_ends_def renewal_def Let_def split: if_splits)
      ultimately show ?thesis
        using checked_finish [OF _ _ _ _ fin, where renewed = None and s = s] by (simp add: user_fetcher_run new_logouts_def)
    next
      case (Some rt)
      then have "rs_status res = 401" "getRefreshToken s = Some rt" by (auto split: if_splits)
      then show ?thesis by (rule check_with_refresh [where net = net, OF res])
    qed
  qed
qed

text \<open>
  C32. Every check of a signed-in session, by what the network answers. It ends the session
  exactly when the check meets a 401 that no refresh cures - there is no refresh token, the
  refresh brings no access token, or the retry meets a 401 or no answer -, when it meets an
  error that reads Failed to fetch, or when the check itself gets no answer and the failure is
  one the code recognises (a timeout, an abort, or that message); an answer declared as JSON
  that does not parse hides its status. Then both cookies are gone, the page goes to the sign-in
  page, and the next render shows a guest who is not loading, whatever the cache holds.
  Otherwise nobody is sent anywhere, and the cookies are the old ones or those of the refresh.
\<close>

theorem expired_session_ends:
  assumes "ss_token h = Some t" and "revalidate_user encode base net (h, s) = (h', s')"
  shows "if session_ends encode base net s
    then getAccessToken s' = None \<and> getRefreshToken s' = None \<and> last (ss_pushed h') = ''/auth'' \<and> ss_error h' \<noteq> None \<and>
      uv_user (useUser isLoading (render_session s' h')) = None \<and> \<not> uv_isUserLoading (useUser isLoading (render_session s' h'))
    else ss_pushed h' = ss_pushed h \<and> cl_cookies s' =
      (case renewal encode base net s of None \<Rightarrow> cl_cookies s | Some (access, refresh) \<Rightarrow> cl_cookies (setTokens access refresh s))"
proof -
  obtain r s1 where fetch: "user_fetcher encode base net s = (r, s1)" by fastforce
  note out = check_run [of s encode base net, unfolded fetch checked_def]
  show ?thesis
  proof (cases "session_ends encode base net s")
    case True
    then obtain e s0 where e: "r = Inl e" "s1 = log_out s0" "events_grow s s0" using out by auto
    have n: "0 < new_logouts s s1" unfolding e(2) by (rule logout_counted [OF e(3)])
    obtain h1 s2 where hs: "(handleLogout_event ^^ new_logouts s s1) (h, s1) = (h1, s2)" by fastforce
    then have end': "h' = h1\<lparr>ss_error := Some e\<rparr>" "s' = s2"
      using assms fetch e(1) by (simp_all add: revalidate_user_def)
    have "ss_pushed h1 = ss_pushed h @ replicate (new_logouts s s1) ''/auth''"
      and "getAccessToken s2 = None" and "getRefreshToken s2 = None"
      using logout_listeners [OF n, of h s1] hs by simp_all
    then show ?thesis using True n end' by (simp add: useUser_def render_session_def getSnapshot_def truthy_opt_def Let_def)
  next
    case False
    then have "new_logouts s s1 = 0" "cl_cookies s1 = (case renewal encode base net s of
        None \<Rightarrow> cl_cookies s | Some (a, r) \<Rightarrow> cl_cookies (setTokens a r s))" using out by simp_all
    then show ?thesis using False assms fetch by (auto simp: revalidate_user_def split: sum.splits)
  qed
qed

text \<open>The refresh is refused: the session ends. The server is down and the browser words it otherwise: it does not.\<close>

definition refusing_network :: network where
  "refusing_network sent q = Some (json_response 401 JNull)"

definition firefox_client :: client where
  "firefox_client = signed_in\<lparr>cl_failure := (''TypeError'', ''NetworkError when attempting to fetch resource.'')\<rparr>"

theorem expired_session_ends_witness:
  "\<exists>h1 s1 h2 s2. revalidate_user (\<lambda>_. []) [] refusing_network (session_init\<lparr>ss_token := Some ''a1''\<rparr>, signed_in) = (h1, s1) \<and>
     getRefreshToken s1 = None \<and> last (ss_pushed h1) = ''/auth'' \<and>
     revalidate_user (\<lambda>_. []) [] (\<lambda>_ _. None) (session_init\<lparr>ss_token := Some ''a1''\<rparr>, firefox_client) = (h2, s2) \<and>
     ss_pushed h2 = [] \<and> cl_cookies s2 = cl_cookies firefox_client"
proof -
  let ?h = "session_init\<lparr>ss_token := Some ''a1''\<rparr>"
  obtain h1 s1 where run1: "revalidate_user (\<lambda>_. []) [] refusing_network (?h, signed_in) = (h1, s1)" by fastforce
  obtain h2 s2 where run2: "revalidate_user (\<lambda>_. []) [] (\<lambda>_ _. None) (?h, firefox_client) = (h2, s2)" by fastforce
  have t: "ss_token ?h = Some ''a1''" and p: "ss_pushed ?h = []" by (simp_all add: session_init_def)
  have e1: "session_ends (\<lambda>_. []) [] refusing_network signed_in"
    by (simp add: session_ends_def Let_def refusing_network_def json_response_def signed_in_token renewed_tokens_def res_ok_def)
  have e2: "\<not> session_ends (\<lambda>_. []) [] (\<lambda>_ _. None) firefox_client" "renewal (\<lambda>_. []) [] (\<lambda>_ _. None) firefox_client = None"
    by (simp_all add: session_ends_def renewal_def Let_def firefox_client_def is_no_answer_def)
  from expired_session_ends [OF t run1] expired_session_ends [OF t run2] show ?thesis
    using run1 run2 e1 e2 p by auto
qed

section \<open>\<open>useGit\<close>\<close>

record web_git_status =
  wg_connected :: bool
  wg_accounts :: "web_account list option"

definition status_fetcher :: "(string \<Rightarrow> client_error + web_git_status) \<Rightarrow> string \<Rightarrow> web_git_status" where
  \<comment> \<open>every failure reads as not connected\<close>
  "status_fetcher get url = (case get url of Inr r \<Rightarrow> r | Inl e \<Rightarrow> \<lparr>wg_connected = False, wg_accounts = Some []\<rparr>)"

record git_hook =
  gk_isConnected :: bool
  gk_accounts :: "web_account list"
  gk_selectedAccount :: "web_account option"
  gk_repos_key :: "string option"
  gk_isLoading :: bool

definition useGit :: "web_git_status option \<Rightarrow> bool \<Rightarrow> bool \<Rightarrow> uuid option \<Rightarrow> git_hook" where
  "useGit status isStatusLoading isReposLoading explicitId =
     (let account = activeAccount (Option.bind status wg_accounts) explicitId;
          isConnected = (case status of None \<Rightarrow> False | Some s \<Rightarrow> wg_connected s)
      in \<lparr>gk_isConnected = isConnected,
          gk_accounts = (case Option.bind status wg_accounts of None \<Rightarrow> [] | Some accs \<Rightarrow> accs),
          gk_selectedAccount = account, gk_repos_key = repos_key isConnected account,
          gk_isLoading = (isStatusLoading \<or> (account \<noteq> None \<and> isReposLoading))\<rparr>)"

definition tree_key :: "string option \<Rightarrow> string option \<Rightarrow> string \<Rightarrow> string option" where
  \<comment> \<open>the key of \<open>useGitTree\<close> in the cache\<close>
  "tree_key installationId fullName path =
     (if truthy_opt installationId \<and> truthy_opt fullName
      then Some (''/git/tree-key-'' @ the installationId @ ''-'' @ the fullName @ ''-'' @ path) else None)"

record tree_view =
  tr_files :: "tree_file list"
  tr_isLoading :: bool
  tr_isError :: bool

definition useGitTree ::
    "(string \<Rightarrow> tree_file list option) \<Rightarrow> bool \<Rightarrow> client_error option \<Rightarrow> string option \<Rightarrow> string option \<Rightarrow> string \<Rightarrow> tree_view" where
  \<comment> \<open>from the cache, with SWR's flags for the key\<close>
  "useGitTree cache isLoading error installationId fullName path =
     \<lparr>tr_files = (case Option.bind (tree_key installationId fullName path) cache of None \<Rightarrow> [] | Some fs \<Rightarrow> fs),
      tr_isLoading = isLoading, tr_isError = (error \<noteq> None)\<rparr>"

text \<open>A list is requested from GitHub exactly when the hook has a key for it.\<close>

lemma tree_key_iff_request: "tree_key i n p = None \<longleftrightarrow> tree_request i n p = None"
  by (simp add: tree_key_def tree_request_def)

text \<open>
  The key does not separate the name of the repository from the path: two repositories can share
  a key, and then one is shown the directories of the other.
\<close>

lemma tree_keys_collide:
  "tree_request (Some ''7'') (Some ''acme/shop'') ''api-src'' \<noteq> tree_request (Some ''7'') (Some ''acme/shop-api'') ''src'' \<and>
   tree_key (Some ''7'') (Some ''acme/shop'') ''api-src'' = tree_key (Some ''7'') (Some ''acme/shop-api'') ''src''"
  by code_simp

text \<open>Without a dash in the names the key is exact.\<close>

lemma append_at_char:
  assumes "c \<notin> set a" and "c \<notin> set b" and "a @ c # x = b @ c # y"
  shows "a = b \<and> x = y"
  using assms
proof (induction a arbitrary: b)
  case Nil
  then show ?case by (cases b) auto
next
  case (Cons z a)
  then show ?case by (cases b) auto
qed

lemma tree_key_exact:
  assumes "CHR ''-'' \<notin> set i" "CHR ''-'' \<notin> set j" "CHR ''-'' \<notin> set n" "CHR ''-'' \<notin> set m"
    and "tree_key (Some i) (Some n) p = tree_key (Some j) (Some m) q" and "tree_key (Some i) (Some n) p \<noteq> None"
  shows "i = j \<and> n = m \<and> p = q"
proof -
  have "i @ CHR ''-'' # n @ CHR ''-'' # p = j @ CHR ''-'' # m @ CHR ''-'' # q"
    using assms(5,6) by (auto simp: tree_key_def truthy_opt_def split: if_splits)
  then have "i = j" and "n @ CHR ''-'' # p = m @ CHR ''-'' # q"
    using append_at_char [of "CHR ''-''" i j] assms(1,2) by blast+
  then show ?thesis using append_at_char [of "CHR ''-''" n m p q] assms(3,4) by blast
qed

section \<open>\<open>useAnalytics\<close>\<close>

record 'a analytics_hook =
  ah_key :: "string option"
  ah_refreshInterval :: nat
  ah_analytics :: "'a option"
  ah_isLoading :: bool
  ah_isError :: bool

definition useAnalytics :: "(string \<Rightarrow> overview option) \<Rightarrow> bool \<Rightarrow> client_error option \<Rightarrow> overview analytics_hook" where
  \<comment> \<open>from the cache, with SWR's flags for the key\<close>
  "useAnalytics cache isLoading error =
     \<lparr>ah_key = Some ''/analytics/overview'', ah_refreshInterval = 30000, ah_analytics = cache ''/analytics/overview'',
      ah_isLoading = isLoading, ah_isError = (error \<noteq> None)\<rparr>"

definition useProjectAnalytics ::
    "(string \<Rightarrow> project_analytics option) \<Rightarrow> bool \<Rightarrow> client_error option \<Rightarrow> string option \<Rightarrow> project_analytics analytics_hook" where
  "useProjectAnalytics cache isLoading error projectId =
     (let key = (if truthy_opt projectId then Some (''/analytics/projects/'' @ the projectId) else None)
      in \<lparr>ah_key = key, ah_refreshInterval = 30000, ah_analytics = Option.bind key cache,
          ah_isLoading = isLoading, ah_isError = (error \<noteq> None)\<rparr>)"

text \<open>Figures of one project are never shown for another: the key determines the project.\<close>

lemma project_analytics_key:
  assumes "ah_key (useProjectAnalytics c l e p) = ah_key (useProjectAnalytics c' l' e' q)"
    and "ah_key (useProjectAnalytics c l e p) \<noteq> None"
  shows "p = q"
  using assms by (cases p; cases q) (auto simp: useProjectAnalytics_def truthy_opt_def Let_def split: if_splits)

section \<open>\<open>useIsMobile\<close>\<close>

definition MOBILE_BREAKPOINT :: int where
  "MOBILE_BREAKPOINT = 768"

datatype width_event = Mounted int | Crossed int

definition width_step :: "width_event \<Rightarrow> bool option \<Rightarrow> bool option" where
  \<comment> \<open>the listener and the first effect both read \<open>window.innerWidth\<close>\<close>
  "width_step e s = (case e of Mounted w \<Rightarrow> Some (w < MOBILE_BREAKPOINT) | Crossed w \<Rightarrow> Some (w < MOBILE_BREAKPOINT))"

definition useIsMobile :: "bool option \<Rightarrow> bool" where
  "useIsMobile s = (s = Some True)"

section \<open>Linking GitHub: \<open>handleConnect\<close>\<close>

datatype popup = PopupBlocked | PopupOpen | PopupClosed

datatype connect_toast = ToastLoading string | ToastDone string

record connect =
  cn_url :: string
  cn_popup :: popup
  cn_timer :: bool
  cn_refreshed :: nat
  cn_toast :: connect_toast

definition handleConnect :: "string \<Rightarrow> bool \<Rightarrow> wizard \<Rightarrow> wizard \<times> connect" where
  \<comment> \<open>whether the browser opened the window: \<open>window.open\<close> answers null when it did not\<close>
  "handleConnect apiUrl popupShown z =
     (z\<lparr>wz_accountOpen := False\<rparr>,
      \<lparr>cn_url = apiUrl @ ''/auth/github/connect'', cn_popup = (if popupShown then PopupOpen else PopupBlocked),
       cn_timer = True, cn_refreshed = 0, cn_toast = ToastLoading ''Opening GitHub Authentication...''\<rparr>)"

definition connect_tick :: "connect \<Rightarrow> connect" where
  \<comment> \<open>the interval, every second\<close>
  "connect_tick c = (if cn_timer c \<and> cn_popup c = PopupClosed
     then c\<lparr>cn_timer := False, cn_refreshed := cn_refreshed c + 1,
       cn_toast := ToastDone ''GitHub Connected Successfully!''\<rparr> else c)"

definition close_popup :: "connect \<Rightarrow> connect" where
  "close_popup c = (if cn_popup c = PopupOpen then c\<lparr>cn_popup := PopupClosed\<rparr> else c)"

datatype connect_event = ConnectTick | PopupCloses

definition connect_step :: "connect_event \<Rightarrow> connect \<Rightarrow> connect" where
  "connect_step e c = (case e of ConnectTick \<Rightarrow> connect_tick c | PopupCloses \<Rightarrow> close_popup c)"

lemma connect_invariant:
  fixes es c
  assumes "cn_popup c \<noteq> PopupBlocked"
    and "cn_timer c \<longleftrightarrow> cn_refreshed c = 0" and "cn_refreshed c \<le> 1" and "\<not> cn_timer c \<longrightarrow> cn_popup c = PopupClosed"
  defines "c' \<equiv> fold connect_step es c"
  shows "cn_popup c' \<noteq> PopupBlocked \<and> (cn_timer c' \<longleftrightarrow> cn_refreshed c' = 0) \<and> cn_refreshed c' \<le> 1 \<and>
     (\<not> cn_timer c' \<longrightarrow> cn_popup c' = PopupClosed)"
  unfolding c'_def using assms(1-4)
  by (induction es arbitrary: c) (simp_all add: connect_step_def connect_tick_def close_popup_def split: connect_event.split)

text \<open>
  The status of the link is asked for again exactly once, at the first tick after the window has
  closed - and a linked account is announced then, whatever the user did in the window.
\<close>

lemma connect_refreshes_once:
  assumes "(z', c) = handleConnect api True z"
  shows "cn_refreshed (fold connect_step es c) \<le> 1 \<and>
     (cn_refreshed (fold connect_step (es @ [PopupCloses, ConnectTick] @ es') c) = 1)"
proof -
  have init: "cn_popup c = PopupOpen" "cn_timer c" "cn_refreshed c = 0"
    using assms by (simp_all add: handleConnect_def)
  have inv: "cn_popup (fold connect_step xs c) \<noteq> PopupBlocked \<and>
      (cn_timer (fold connect_step xs c) \<longleftrightarrow> cn_refreshed (fold connect_step xs c) = 0) \<and>
      cn_refreshed (fold connect_step xs c) \<le> 1 \<and>
      (\<not> cn_timer (fold connect_step xs c) \<longrightarrow> cn_popup (fold connect_step xs c) = PopupClosed)" for xs
    using connect_invariant [of c xs] init by simp
  have stays: "cn_refreshed (fold connect_step xs d) = 1" if "cn_refreshed d = 1" "\<not> cn_timer d" for xs d
    using that
    by (induction xs arbitrary: d) (simp_all add: connect_step_def connect_tick_def close_popup_def split: connect_event.split)
  let ?d = "fold connect_step es c"
  have "cn_refreshed (connect_step ConnectTick (connect_step PopupCloses ?d)) = 1 \<and>
      \<not> cn_timer (connect_step ConnectTick (connect_step PopupCloses ?d))"
    using inv [of es] by (cases "cn_popup ?d") (auto simp: connect_step_def connect_tick_def close_popup_def le_Suc_eq)
  then show ?thesis using inv [of es] stays by simp
qed

text \<open>A window the browser blocks is never noticed: the interval runs on and the toast keeps loading.\<close>

lemma blocked_popup_waits:
  assumes "(z', c) = handleConnect api False z"
  shows "fold connect_step es c = c \<and> cn_timer c \<and> cn_toast c = ToastLoading ''Opening GitHub Authentication...''"
proof -
  have c: "cn_popup c = PopupBlocked" "cn_timer c" "cn_toast c = ToastLoading ''Opening GitHub Authentication...''"
    using assms by (simp_all add: handleConnect_def)
  have "fold connect_step es d = d" if "cn_popup d = PopupBlocked" for d
    using that by (induction es) (auto simp: connect_step_def connect_tick_def close_popup_def split: connect_event.split)
  then show ?thesis using c by simp
qed

section \<open>Preview and folding sections of the deployment page\<close>

datatype preview_event = PreviewLoaded | PreviewFailed

definition preview_step :: "preview_event \<Rightarrow> preview_status \<Rightarrow> preview_status" where
  "preview_step e s = (case e of PreviewLoaded \<Rightarrow> PreviewReady | PreviewFailed \<Rightarrow> PreviewError)"

record preview_view =
  pw_spinner :: bool
  pw_unavailable :: bool
  pw_image :: string
  pw_imageVisible :: bool

definition SitePreview :: "(string \<Rightarrow> string) \<Rightarrow> string \<Rightarrow> preview_status \<Rightarrow> preview_view" where
  "SitePreview enc url s = \<lparr>pw_spinner = (s = PreviewLoading), pw_unavailable = (s = PreviewError),
     pw_image = screenshotUrl enc url, pw_imageVisible = (s = PreviewReady)\<rparr>"

lemma preview_shows_one:
  "length (filter id [pw_spinner (SitePreview enc url s), pw_unavailable (SitePreview enc url s),
     pw_imageVisible (SitePreview enc url s)]) = 1"
  by (cases s) (simp_all add: SitePreview_def)

record 'a fold_section =
  fs_title :: string
  fs_open :: bool
  fs_children :: 'a

definition fold_section_init :: "string \<Rightarrow> bool \<Rightarrow> 'a \<Rightarrow> 'a fold_section" where
  "fold_section_init title defaultOpen children = \<lparr>fs_title = title, fs_open = defaultOpen, fs_children = children\<rparr>"

definition toggle_section :: "'a fold_section \<Rightarrow> 'a fold_section" where
  "toggle_section s = s\<lparr>fs_open := \<not> fs_open s\<rparr>"

definition section_shows :: "'a fold_section \<Rightarrow> 'a option" where
  "section_shows s = (if fs_open s then Some (fs_children s) else None)"

section \<open>\<open>useDeployments\<close> and \<open>useDeployment\<close>\<close>

record deployments_list_hook =
  dv_key :: string
  dv_deployments :: "deployment list"
  dv_isLoading :: bool
  dv_isError :: bool
  dv_isDeploying :: bool

definition useDeployments ::
    "(string \<Rightarrow> deployment list option) \<Rightarrow> bool \<Rightarrow> client_error option \<Rightarrow> string option \<Rightarrow> deploy_hook \<Rightarrow> deployments_list_hook" where
  "useDeployments cache isLoading error projectId h =
     (let endpoint = deployments_endpoint projectId
      in \<lparr>dv_key = endpoint, dv_deployments = (case cache endpoint of None \<Rightarrow> [] | Some ds \<Rightarrow> ds),
          dv_isLoading = isLoading, dv_isError = (error \<noteq> None), dv_isDeploying = dh_isDeploying h\<rparr>)"

definition redeploy_revalidates :: "string \<Rightarrow> bool" where
  \<comment> \<open>the keys the two calls of \<open>mutate\<close> after a redeploy match\<close>
  "redeploy_revalidates key \<longleftrightarrow> starts_with ''/deployments'' key \<or> starts_with ''/projects'' key"

record deployment_hook =
  dw_key :: "string option"
  dw_refreshInterval :: nat
  dw_deployment :: "deployment option"
  dw_isLoading :: bool
  dw_isError :: bool

definition useDeployment :: "(string \<Rightarrow> deployment option) \<Rightarrow> bool \<Rightarrow> client_error option \<Rightarrow> string \<Rightarrow> deployment_hook" where
  "useDeployment cache isLoading error deploymentId =
     (let key = (if deploymentId \<noteq> [] then Some (''/deployments/'' @ deploymentId) else None);
          data = Option.bind key cache
      in \<lparr>dw_key = key, dw_refreshInterval = refreshInterval data, dw_deployment = data,
          dw_isLoading = isLoading, dw_isError = (error \<noteq> None)\<rparr>)"

text \<open>Every list and every detail of deployments that is on a screen is asked for again after a redeploy.\<close>

lemma redeploy_reaches_views:
  "redeploy_revalidates (dv_key (useDeployments cache l e p h))"
  "dw_key (useDeployment c l' e' i) = Some k \<Longrightarrow> redeploy_revalidates k"
  by (auto simp: redeploy_revalidates_def useDeployments_def useDeployment_def deployments_endpoint_def starts_with_def Let_def
      split: if_splits)

text \<open>The detail polls exactly while the deployment it shows is in progress.\<close>

lemma detail_polls_iff:
  "0 < dw_refreshInterval (useDeployment c l e i) \<longleftrightarrow> (\<exists>d. dw_deployment (useDeployment c l e i) = Some d \<and> in_progress (d_status d))"
  by (auto simp: useDeployment_def refreshInterval_def in_progress_def Let_def split: option.splits)

section \<open>The layout of the dashboard\<close>

definition store_init :: ui_store where
  "store_init = \<lparr>us_selectedProjectId = None, us_sidebarCollapsed = False, us_commandPaletteOpen = False, us_loading = True\<rparr>"

definition setSelectedProject :: "string option \<Rightarrow> ui_store \<Rightarrow> ui_store" where
  "setSelectedProject i s = s\<lparr>us_selectedProjectId := i\<rparr>"

definition setLoading :: "bool \<Rightarrow> ui_store \<Rightarrow> ui_store" where
  "setLoading b s = s\<lparr>us_loading := b\<rparr>"

definition layout_timer :: "nat \<times> (ui_store \<Rightarrow> ui_store)" where
  \<comment> \<open>the timeout of the first effect: its delay and what it does\<close>
  "layout_timer = (800, setLoading False)"

definition layout_margin :: "ui_store \<Rightarrow> nat" where
  "layout_margin s = (if us_sidebarCollapsed s then 72 else 240)"

end
