(* ===== verification/Landing.thy ===== *)
theory Landing
  imports ListPages
begin

text \<open>
  The landing page \<open>app/page.tsx\<close>: its three timed parts - the typing headline, the counters and
  the terminal that replays a deployment - as machines over the timers they set, and the texts
  and links of its sections. Animation and styling are left out.
\<close>

section \<open>\<open>TypingText\<close>\<close>

record typing =
  ty_index :: nat
  ty_displayed :: string
  ty_deleting :: bool

definition typing_init :: typing where
  "typing_init = \<lparr>ty_index = 0, ty_displayed = [], ty_deleting = False\<rparr>"

definition typing_step :: "string list \<Rightarrow> typing \<Rightarrow> (int \<times> typing) option" where
  \<comment> \<open>the timeout the effect sets: its delay in ms and the state after it. \<open>None\<close>: it sets none (without a current text it throws)\<close>
  "typing_step texts s =
     (if length texts \<le> ty_index s then None
      else (let current = texts ! ty_index s in
        if \<not> ty_deleting s \<and> length (ty_displayed s) < length current
        then Some (70, s\<lparr>ty_displayed := take (length (ty_displayed s) + 1) current\<rparr>)
        else if \<not> ty_deleting s \<and> length (ty_displayed s) = length current
        then Some (2200, s\<lparr>ty_deleting := True\<rparr>)
        else if ty_deleting s \<and> 0 < length (ty_displayed s)
        then Some (35, s\<lparr>ty_displayed := butlast (ty_displayed s)\<rparr>)
        else if ty_deleting s \<and> length (ty_displayed s) = 0
        then Some (0, s\<lparr>ty_deleting := False, ty_index := (ty_index s + 1) mod length texts\<rparr>)
        else None))"

fun typing_run :: "string list \<Rightarrow> nat \<Rightarrow> int \<times> typing \<Rightarrow> (int \<times> typing) option" where
  \<comment> \<open>\<open>n\<close> timeouts, with the time that has passed\<close>
  "typing_run texts 0 (t, s) = Some (t, s)"
| "typing_run texts (Suc n) (t, s) =
     (case typing_step texts s of None \<Rightarrow> None | Some (d, s') \<Rightarrow> typing_run texts n (t + d, s'))"

definition typing_shows :: "typing \<Rightarrow> string" where
  "typing_shows s = ty_displayed s @ ''_''"

lemma typing_run_add:
  "typing_run texts (m + n) ts = Option.bind (typing_run texts m ts) (typing_run texts n)"
  by (induction m arbitrary: ts) (auto split: option.splits)

lemma typing_types:
  assumes "i < length texts" and "k \<le> length (texts ! i)"
  shows "typing_run texts k (t, \<lparr>ty_index = i, ty_displayed = [], ty_deleting = False\<rparr>) =
     Some (t + 70 * int k, \<lparr>ty_index = i, ty_displayed = take k (texts ! i), ty_deleting = False\<rparr>)"
  using assms(2)
proof (induction k)
  case (Suc k)
  then have "typing_run texts (k + 1) (t, \<lparr>ty_index = i, ty_displayed = [], ty_deleting = False\<rparr>) =
      typing_run texts 1 (t + 70 * int k, \<lparr>ty_index = i, ty_displayed = take k (texts ! i), ty_deleting = False\<rparr>)"
    by (simp only: typing_run_add) simp
  then show ?case using Suc.prems assms(1) by (simp add: typing_step_def Let_def)
qed simp

lemma typing_erases:
  assumes "i < length texts" and "k \<le> length d"
  shows "typing_run texts k (t, \<lparr>ty_index = i, ty_displayed = d, ty_deleting = True\<rparr>) =
     Some (t + 35 * int k, \<lparr>ty_index = i, ty_displayed = take (length d - k) d, ty_deleting = True\<rparr>)"
  using assms(2)
proof (induction k)
  case (Suc k)
  then have "typing_run texts (k + 1) (t, \<lparr>ty_index = i, ty_displayed = d, ty_deleting = True\<rparr>) =
      typing_run texts 1 (t + 35 * int k, \<lparr>ty_index = i, ty_displayed = take (length d - k) d, ty_deleting = True\<rparr>)"
    by (simp only: typing_run_add) simp
  moreover have "butlast (take (length d - k) d) = take (length d - Suc k) d"
    using Suc.prems by (simp add: butlast_take)
  ultimately show ?case using Suc.prems assms(1) by (auto simp: typing_step_def Let_def)
qed simp

text \<open>One text: typed, shown for 2.2 seconds, erased; then the next one.\<close>

lemma typing_cycle:
  assumes "i < length texts"
  shows "typing_run texts (2 * length (texts ! i) + 2) (t, \<lparr>ty_index = i, ty_displayed = [], ty_deleting = False\<rparr>) =
     Some (t + 105 * int (length (texts ! i)) + 2200,
       \<lparr>ty_index = (i + 1) mod length texts, ty_displayed = [], ty_deleting = False\<rparr>)"
proof -
  let ?n = "length (texts ! i)"
  let ?s = "\<lambda>j d b. \<lparr>ty_index = j, ty_displayed = d, ty_deleting = b\<rparr>"
  have typed: "typing_run texts ?n (t, ?s i [] False) = Some (t + 70 * int ?n, ?s i (texts ! i) False)"
    using typing_types [OF assms, of ?n t] by simp
  have shown: "typing_run texts 1 (t', ?s i (texts ! i) False) = Some (t' + 2200, ?s i (texts ! i) True)" for t'
    using assms by (simp add: typing_step_def Let_def)
  have erased: "typing_run texts ?n (t', ?s i (texts ! i) True) = Some (t' + 35 * int ?n, ?s i [] True)" for t'
    using typing_erases [OF assms, of ?n "texts ! i" t'] by simp
  have turned: "typing_run texts 1 (t', ?s i [] True) = Some (t', ?s ((i + 1) mod length texts) [] False)" for t'
    using assms by (simp add: typing_step_def Let_def)
  have "2 * ?n + 2 = ?n + (1 + (?n + 1))" by simp
  then show ?thesis
    by (simp only: typing_run_add typed shown erased turned Option.bind.simps) simp
qed

fun cycles :: "nat list \<Rightarrow> nat \<Rightarrow> nat \<Rightarrow> nat" where
  \<comment> \<open>the timeouts of \<open>k\<close> texts from text \<open>i\<close> on\<close>
  "cycles lens i 0 = 0"
| "cycles lens i (Suc k) = 2 * lens ! i + 2 + cycles lens ((i + 1) mod length lens) k"

lemma typing_cycles:
  assumes "i < length texts"
  shows "\<exists>t'. typing_run texts (cycles (map length texts) i k) (t, \<lparr>ty_index = i, ty_displayed = [], ty_deleting = False\<rparr>) =
     Some (t', \<lparr>ty_index = (i + k) mod length texts, ty_displayed = [], ty_deleting = False\<rparr>) \<and> t + 2200 * int k \<le> t'"
  using assms
proof (induction k arbitrary: i t)
  case (Suc k)
  let ?j = "(i + 1) mod length texts"
  have j: "?j < length texts" using Suc.prems by (intro mod_less_divisor) linarith
  let ?t = "t + 105 * int (length (texts ! i)) + 2200"
  obtain t' where run: "typing_run texts (cycles (map length texts) ?j k)
      (?t, \<lparr>ty_index = ?j, ty_displayed = [], ty_deleting = False\<rparr>) =
      Some (t', \<lparr>ty_index = (?j + k) mod length texts, ty_displayed = [], ty_deleting = False\<rparr>)"
    and le: "?t + 2200 * int k \<le> t'" using Suc.IH [OF j, of ?t] by blast
  have len: "cycles (map length texts) i (Suc k) = 2 * length (texts ! i) + 2 + cycles (map length texts) ?j k"
    using Suc.prems by simp
  have idx: "(?j + k) mod length texts = (i + Suc k) mod length texts" by (simp add: mod_add_left_eq)
  have "t + 2200 * int (Suc k) \<le> t'" using le by (simp add: algebra_simps)
  moreover have "typing_run texts (cycles (map length texts) i (Suc k))
      (t, \<lparr>ty_index = i, ty_displayed = [], ty_deleting = False\<rparr>) =
      Some (t', \<lparr>ty_index = (i + Suc k) mod length texts, ty_displayed = [], ty_deleting = False\<rparr>)"
    unfolding len typing_run_add [of texts "2 * length (texts ! i) + 2"] typing_cycle [OF Suc.prems] Option.bind.simps run idx ..
  ultimately show ?case by blast
qed auto

lemma cycles_ge: "k \<le> cycles lens i k"
  by (induction k arbitrary: i) (auto simp: le_SucI trans_le_add2)

text \<open>
  The headline never stops: from the start, every one of its texts is shown completely again
  and again, and each stays for 2.2 seconds.
\<close>

theorem typing_shows_all:
  assumes "i < length texts"
  shows "\<exists>m t. n \<le> m \<and> typing_run texts m (0, typing_init) = Some (t, \<lparr>ty_index = i, ty_displayed = texts ! i, ty_deleting = False\<rparr>) \<and>
     typing_step texts \<lparr>ty_index = i, ty_displayed = texts ! i, ty_deleting = False\<rparr> =
       Some (2200, \<lparr>ty_index = i, ty_displayed = texts ! i, ty_deleting = True\<rparr>)"
proof -
  let ?k = "n * length texts + i"
  obtain t where run: "typing_run texts (cycles (map length texts) 0 ?k) (0, typing_init) =
      Some (t, \<lparr>ty_index = ?k mod length texts, ty_displayed = [], ty_deleting = False\<rparr>)"
    using typing_cycles [of 0 texts ?k 0] assms by (cases texts) (auto simp: typing_init_def)
  have idx: "?k mod length texts = i" using assms by simp
  let ?m = "cycles (map length texts) 0 ?k + length (texts ! i)"
  have "n \<le> ?k" using assms by (cases "length texts") auto
  then have n: "n \<le> ?m" using cycles_ge [of ?k "map length texts" 0] by linarith
  have full: "typing_run texts ?m (0, typing_init) =
      Some (t + 70 * int (length (texts ! i)), \<lparr>ty_index = i, ty_displayed = texts ! i, ty_deleting = False\<rparr>)"
    unfolding typing_run_add run idx Option.bind.simps typing_types [OF assms order_refl] by simp
  show ?thesis
  proof (intro exI conjI)
    show "n \<le> ?m" by (rule n)
    show "typing_run texts ?m (0, typing_init) =
      Some (t + 70 * int (length (texts ! i)), \<lparr>ty_index = i, ty_displayed = texts ! i, ty_deleting = False\<rparr>)" by (rule full)
  qed (use assms in \<open>simp add: typing_step_def Let_def\<close>)
qed

lemma typing_shows_all_witness:
  "\<exists>m t. 1000 \<le> m \<and>
     typing_run [''seconds.'', ''one click.'', ''zero config.''] m (0, typing_init) =
       Some (t, \<lparr>ty_index = 1, ty_displayed = ''one click.'', ty_deleting = False\<rparr>)"
  using typing_shows_all [of 1 "[''seconds.'', ''one click.'', ''zero config.'']" 1000] by auto

section \<open>\<open>AnimatedNumber\<close>\<close>

definition animated_target :: "string \<Rightarrow> int" where
  \<comment> \<open>\<open>numVal\<close>\<close>
  "animated_target v = (case js_parseInt v of None \<Rightarrow> 0 | Some n \<Rightarrow> n)"

definition animated_count :: "int \<Rightarrow> nat \<Rightarrow> int" where
  \<comment> \<open>the count set by the frame \<open>d\<close> ms after the first one, with the quotient read exactly\<close>
  "animated_count numVal d =
     (let left = 1800 - int (min d 1800) in ((1800 ^ 3 - left ^ 3) * numVal) div 1800 ^ 3)"

definition animated_shows :: "string \<Rightarrow> string \<Rightarrow> nat option \<Rightarrow> string" where
  \<comment> \<open>the last frame so far, if one has run\<close>
  "animated_shows v suffix frame =
     (let numVal = animated_target v
      in (if numVal = 0 then v
          else int_to_string (case frame of None \<Rightarrow> 0 | Some d \<Rightarrow> animated_count numVal d)) @ suffix)"

lemma animated_reaches: "1800 \<le> d \<Longrightarrow> animated_count n d = n"
  by (simp add: animated_count_def Let_def)

lemma animated_mono:
  assumes "0 \<le> n" and "d \<le> d'"
  shows "animated_count n d \<le> animated_count n d'"
proof -
  have "(1800 - int (min d' 1800)) ^ 3 \<le> (1800 - int (min d 1800)) ^ 3"
    using assms(2) by (intro power_mono) auto
  then have "(1800 ^ 3 - (1800 - int (min d 1800)) ^ 3) * n \<le> (1800 ^ 3 - (1800 - int (min d' 1800)) ^ 3) * n"
    using assms(1) by (intro mult_right_mono) auto
  then show ?thesis unfolding animated_count_def Let_def by (intro zdiv_mono1) auto
qed

lemma animated_in_range:
  assumes "0 \<le> n"
  shows "0 \<le> animated_count n d \<and> animated_count n d \<le> n"
proof -
  have "animated_count n 0 \<le> animated_count n d" and "animated_count n d \<le> animated_count n (d + 1800)"
    using animated_mono [OF assms] by simp_all
  then show ?thesis using animated_reaches [of "d + 1800" n] by (simp add: animated_count_def)
qed

section \<open>\<open>LiveTerminal\<close>\<close>

definition bullet :: string where "bullet = [CHR 0xE2, CHR 0x97, CHR 0x8F]"
definition right_arrow :: string where "right_arrow = [CHR 0xE2, CHR 0x86, CHR 0x92]"
definition corner :: string where "corner = [CHR 0xE2, CHR 0x94, CHR 0x8C]"
definition bar :: string where "bar = [CHR 0xE2, CHR 0x94, CHR 0x82]"
definition elbow :: string where "elbow = [CHR 0xE2, CHR 0x94, CHR 0x94]"

definition deploymentSteps :: "(string \<times> nat) list" where
  \<comment> \<open>text and delay of each line\<close>
  "deploymentSteps = [
     (''$ git push origin main'', 0),
     ([], 400),
     (''  '' @ bullet @ '' Webhook received '' @ em_dash @ '' queuing deployment...'', 800),
     (''  '' @ bullet @ '' Status '' @ right_arrow @ '' BUILDING'', 1600),
     ([], 2000),
     (''  '' @ corner @ '' Cloning repository'', 2200),
     (''  '' @ bar @ '' git clone --depth 1 --single-branch'', 2600),
     (''  '' @ elbow @ '' '' @ check_mark @ '' Cloned in 1.2s'', 3400),
     ([], 3600),
     (''  '' @ corner @ '' Building container image'', 3800),
     (''  '' @ bar @ '' railpack prepare '' @ right_arrow @ '' build plan generated'', 4400),
     (''  '' @ bar @ '' buildctl build '' @ right_arrow @ '' pushing to registry'', 5200),
     (''  '' @ elbow @ '' '' @ check_mark @ '' Image: registry/myapp:d8f3a1c (47s)'', 6400),
     ([], 6600),
     (''  '' @ bullet @ '' Status '' @ right_arrow @ '' DEPLOYING'', 6800),
     ([], 7000),
     (''  '' @ corner @ '' Kubernetes rollout'', 7200),
     (''  '' @ bar @ '' Deployment + Service + Ingress created'', 7800),
     (''  '' @ bar @ '' TLS certificate provisioned (Let'' @ [CHR 0x27] @ ''s Encrypt)'', 8600),
     (''  '' @ bar @ '' Waiting for readiness probe...'', 9200),
     (''  '' @ elbow @ '' '' @ check_mark @ '' 1/1 pods running'', 10400),
     ([], 10600),
     (''  '' @ bullet @ '' Status '' @ right_arrow @ '' READY'', 10800),
     (''  '' @ bullet @ '' https://myapp.deploy.code2cloud.dev'', 11400),
     (''  '' @ bullet @ '' Streaming runtime logs...'', 12000)]"

record live =
  lt_visible :: nat
  lt_replay :: nat
  lt_in_view :: bool
  lt_timers :: "(nat \<times> nat) list"

definition live_init :: live where
  "live_init = \<lparr>lt_visible = 0, lt_replay = 0, lt_in_view = False, lt_timers = []\<rparr>"

definition live_timers :: "nat list \<Rightarrow> (nat \<times> nat) list" where
  \<comment> \<open>the time left of each timer and the number of lines it sets\<close>
  "live_timers delays = (0, 0) # map (\<lambda>(i, delay). (delay + 10, i + 1)) (enumerate 0 delays)"

definition live_effect :: "live \<Rightarrow> live" where
  \<comment> \<open>on a change of \<open>isInView\<close> or \<open>replay\<close>: the timers of the last run are cleared\<close>
  "live_effect s = s\<lparr>lt_timers := if lt_in_view s then live_timers (map snd deploymentSteps) else []\<rparr>"

definition elapse :: "nat \<Rightarrow> live \<Rightarrow> live" where
  "elapse dt s = s\<lparr>
     lt_visible := last (lt_visible s # map snd (filter (\<lambda>(d, n). d \<le> dt) (lt_timers s))),
     lt_timers := map (\<lambda>(d, n). (d - dt, n)) (filter (\<lambda>(d, n). dt < d) (lt_timers s))\<rparr>"

definition live_complete :: "live \<Rightarrow> bool" where
  "live_complete s = (length deploymentSteps \<le> lt_visible s)"

datatype live_event = LiveInView bool | LiveReplay | LivePasses nat

definition live_step :: "live_event \<Rightarrow> live \<Rightarrow> live" where
  "live_step e s =
     (case e of
        LiveInView b \<Rightarrow> if b = lt_in_view s then s else live_effect (s\<lparr>lt_in_view := b\<rparr>)
      | LiveReplay \<Rightarrow> if live_complete s then live_effect (s\<lparr>lt_visible := 0, lt_replay := lt_replay s + 1\<rparr>) else s
      | LivePasses dt \<Rightarrow> elapse dt s)"

definition live_running :: "live \<Rightarrow> bool" where
  \<comment> \<open>the badge \<open>running\<close> and the cursor\<close>
  "live_running s = (\<not> live_complete s \<and> 0 < lt_visible s)"

definition live_shows :: "live \<Rightarrow> string list" where
  "live_shows s = map fst (take (lt_visible s) deploymentSteps) @
     (if live_complete s then [''Pipeline complete '' @ em_dash @ '' 12.0s total''] else [])"

text \<open>The timers of a run are ascending, so waiting in two stretches fires what waiting once does.\<close>

lemma elapse_elapse:
  assumes "sorted (map fst (lt_timers s))"
  shows "elapse b (elapse a s) = elapse (a + b) s"
proof -
  have split: "filter (\<lambda>(d, n). d \<le> a + b) ts =
      filter (\<lambda>(d, n). d \<le> a) ts @ filter (\<lambda>(d, n). a < d \<and> d \<le> a + b) ts"
    if "sorted (map fst ts)" for ts :: "(nat \<times> nat) list"
    using that
  proof (induction ts)
    case (Cons p ts)
    show ?case
    proof (cases "fst p \<le> a")
      case False
      then have "filter (\<lambda>(d, n). d \<le> a) ts = []" using Cons.prems by (auto simp: filter_empty_conv)
      then show ?thesis using Cons False by (auto split: prod.splits)
    qed (use Cons in \<open>auto split: prod.splits\<close>)
  qed simp
  have mapped: "map snd (filter (\<lambda>(d, n). d \<le> b) (map (\<lambda>(d, n). (d - a, n)) (filter (\<lambda>(d, n). a < d) ts))) =
      map snd (filter (\<lambda>(d, n). a < d \<and> d \<le> a + b) ts)" for ts :: "(nat \<times> nat) list"
    by (induction ts) auto
  have left: "map (\<lambda>(d, n). (d - b, n)) (filter (\<lambda>(d, n). b < d) (map (\<lambda>(d, n). (d - a, n)) (filter (\<lambda>(d, n). a < d) ts))) =
      map (\<lambda>(d, n). (d - (a + b), n)) (filter (\<lambda>(d, n). a + b < d) ts)" for ts :: "(nat \<times> nat) list"
    by (induction ts) auto
  show ?thesis unfolding elapse_def by (simp add: mapped left split [OF assms])
qed

lemma elapsed_sorted:
  assumes "sorted (map fst (lt_timers s))"
  shows "sorted (map fst (lt_timers (elapse a s)))"
proof -
  have "sorted (map fst (map (\<lambda>(d, n). (d - a, n)) (filter (\<lambda>(d, n). a < d) ts)))"
    if "sorted (map fst ts)" for ts :: "(nat \<times> nat) list"
    using that by (induction ts) (auto intro: diff_le_mono)
  then show ?thesis using assms by (simp add: elapse_def)
qed

lemma live_waits:
  assumes "sorted (map fst (lt_timers s))"
  shows "fold live_step (map LivePasses dts) (elapse a s) = elapse (a + sum_list dts) s"
proof (induction dts arbitrary: a)
  case (Cons d dts)
  show ?case
    using Cons.IH [of "a + d"] by (simp add: live_step_def elapse_elapse [OF assms] add.assoc)
qed simp

lemma fired:
  fixes delays :: "nat list"
  assumes "sorted delays"
  shows "last (n # map snd (filter (\<lambda>(d, m). d \<le> T) (map (\<lambda>(i, delay). (delay + 10, i + 1)) (enumerate n delays)))) =
     n + length (filter (\<lambda>delay. delay + 10 \<le> T) delays)"
  using assms
proof (induction delays arbitrary: n)
  case (Cons d ds)
  show ?case
  proof (cases "d + 10 \<le> T")
    case True
    then show ?thesis using Cons.IH [of "Suc n"] Cons.prems by simp
  next
    case False
    then have "filter (\<lambda>delay. delay + 10 \<le> T) ds = []" using Cons.prems by (auto simp: filter_empty_conv)
    then show ?thesis using False Cons.IH [of "Suc n"] Cons.prems
      by (auto simp: filter_empty_conv in_set_enumerate_eq)
  qed
qed simp

lemma delays: "map snd deploymentSteps =
    [0, 400, 800, 1600, 2000, 2200, 2600, 3400, 3600, 3800, 4400, 5200, 6400, 6600, 6800, 7000, 7200, 7800, 8600, 9200, 10400, 10600, 10800, 11400, 12000]"
  by (simp add: deploymentSteps_def)

lemma delays_sorted: "sorted (map snd deploymentSteps)"
  unfolding delays by simp

lemma live_timers_sorted: "sorted (map fst (live_timers (map snd deploymentSteps)))"
  unfolding delays live_timers_def by simp

lemma last_delay: "\<forall>d \<in> set (map snd deploymentSteps). d + 10 \<le> 12010"
  unfolding delays by simp

text \<open>
  Once the terminal is in view, the lines shown after any waiting are exactly those whose delay
  has passed, and the run is complete exactly from 12.01 s on.
\<close>

theorem live_terminal_exact:
  fixes dts s
  defines "s' \<equiv> fold live_step (map LivePasses (0 # dts)) (live_step (LiveInView True) (s\<lparr>lt_in_view := False\<rparr>))"
  shows "lt_visible s' = length (filter (\<lambda>delay. delay + 10 \<le> sum_list dts) (map snd deploymentSteps))"
    and "live_complete s' = (12010 \<le> sum_list dts)"
proof -
  let ?s = "live_step (LiveInView True) (s\<lparr>lt_in_view := False\<rparr>)"
  have timers: "lt_timers ?s = live_timers (map snd deploymentSteps)"
    by (simp add: live_step_def live_effect_def)
  have "s' = fold live_step (map LivePasses dts) (elapse 0 ?s)"
    by (simp add: s'_def live_step_def)
  also have "\<dots> = elapse (sum_list dts) ?s"
    using live_waits [of ?s dts 0] live_timers_sorted by (simp add: timers)
  finally have "lt_visible s' = last (lt_visible ?s # map snd (filter (\<lambda>(d, n). d \<le> sum_list dts) (lt_timers ?s)))"
    by (simp add: elapse_def)
  also have "\<dots> = last (0 # map snd (filter (\<lambda>(d, n). d \<le> sum_list dts)
      (map (\<lambda>(i, delay). (delay + 10, i + 1)) (enumerate 0 (map snd deploymentSteps)))))"
    unfolding timers live_timers_def by simp
  also have "\<dots> = length (filter (\<lambda>delay. delay + 10 \<le> sum_list dts) (map snd deploymentSteps))"
    unfolding fired [OF delays_sorted] by simp
  finally show visible: "lt_visible s' = length (filter (\<lambda>delay. delay + 10 \<le> sum_list dts) (map snd deploymentSteps))" .
  show "live_complete s' = (12010 \<le> sum_list dts)"
  proof (cases "12010 \<le> sum_list dts")
    case True
    then have "filter (\<lambda>delay. delay + 10 \<le> sum_list dts) (map snd deploymentSteps) = map snd deploymentSteps"
      using last_delay by (intro filter_True) (blast intro: order_trans)
    then show ?thesis using visible True by (simp add: live_complete_def)
  next
    case False
    have "12000 \<in> set (map snd deploymentSteps)" unfolding delays by simp
    then have "length (filter (\<lambda>delay. delay + 10 \<le> sum_list dts) (map snd deploymentSteps)) < length (map snd deploymentSteps)"
      using False by (intro length_filter_less [of 12000]) auto
    then show ?thesis using visible False by (simp add: live_complete_def)
  qed
qed

text \<open>Scrolled out of view, nothing moves; back in view the run starts again.\<close>

lemma live_out_of_view:
  "lt_visible (fold live_step (map LivePasses dts) (live_step (LiveInView False) (s\<lparr>lt_in_view := True\<rparr>))) = lt_visible s"
proof -
  have "fold live_step (map LivePasses dts) s' = s'" if "lt_timers s' = []" for s'
    using that by (cases s', induction dts) (auto simp: live_step_def elapse_def)
  then show ?thesis by (simp add: live_step_def live_effect_def)
qed

section \<open>What the page lists\<close>

definition landing_nav :: "(string \<times> string) list" where
  "landing_nav = [(''Features'', ''#features''), (''Pipeline'', ''#pipeline''), (''Architecture'', ''#architecture''),
     (''Tech Stack'', ''#tech'')]"

definition landing_stats :: "(string \<times> string \<times> string) list" where
  \<comment> \<open>value, suffix, label\<close>
  "landing_stats = [(''10'', ''+'', ''Pipeline steps automated''), (''5'', ''+'', ''Frameworks supported''),
     (''3'', [], ''Background goroutines''), (''0'', [], ''Downtime deploys'')]"

definition landing_workers :: "(string \<times> string) list" where
  "landing_workers = [(''Domain Worker'', ''30s''), (''Cleanup Worker'', ''60s''), (''Log Cleanup'', ''1h'')]"

definition landing_lifecycle :: "string list" where
  "landing_lifecycle = [''QUEUED'', ''BUILDING'', ''DEPLOYING'', ''READY'', ''FAILED'', ''CANCELED'', ''EXPIRED'']"

text \<open>The counters end at their values; the last one has value 0 and shows it as written.\<close>

lemma landing_targets:
  "animated_target ''10'' = 10" "animated_target ''5'' = 5" "animated_target ''3'' = 3" "animated_target ''0'' = 0"
  "int_to_string 10 = ''10''" "int_to_string 5 = ''5''" "int_to_string 3 = ''3''"
  by code_simp+

lemma landing_stats_shown:
  "map (\<lambda>(v, suffix, label). animated_shows v suffix (Some 1800)) landing_stats = [''10+'', ''5+'', ''3'', ''0'']"
  by (simp add: landing_stats_def animated_shows_def landing_targets animated_reaches Let_def)

text \<open>The page promises every state of a deployment and leaves one out.\<close>

lemma lifecycle_not_every_state:
  "\<exists>st. status_name st \<notin> set landing_lifecycle"
  by (rule exI [of _ SUPERSEDED]) code_simp

end
