(* ===== verification/Sealed.thy ===== *)
theory Sealed
  imports AuthLaws Isolation
begin

text \<open>
  No secret lies in the database in clear. The variables of a project and the Slack webhook are
  stored as payloads of \<open>EncryptionService\<close>, passwords and refresh tokens as bcrypt hashes with the
  cost each service chose; this holds in every state a server can reach. The access tokens of the
  git accounts are the exception the schema makes: their column holds what GitHub sent.
\<close>

section \<open>The invariant and its step relation\<close>

definition ciphertext :: "external \<Rightarrow> string \<Rightarrow> bool" where
  \<comment> \<open>what \<open>encrypt\<close> makes of some text under the key of the service\<close>
  "ciphertext X s \<longleftrightarrow> (\<exists>iv p. length iv = 12 \<and> s = payload_of X iv p)"

definition hashed :: "external \<Rightarrow> nat \<Rightarrow> string \<Rightarrow> bool" where
  \<comment> \<open>what bcrypt makes of some text with this cost and a salt of its own\<close>
  "hashed X rounds h \<longleftrightarrow> (\<exists>p salt. length salt = 16 \<and> h = x_bcryptHash X p rounds salt)"

lemma ciphertext_payload [simp]: "length iv = 12 \<Longrightarrow> ciphertext X (payload_of X iv p)"
  by (auto simp: ciphertext_def)

lemma hashed_bcrypt [simp]: "length salt = 16 \<Longrightarrow> hashed X n (x_bcryptHash X p n salt)"
  by (auto simp: hashed_def)

definition sealed_user :: "external \<Rightarrow> user \<Rightarrow> bool" where
  "sealed_user X u \<longleftrightarrow> (\<forall>h. u_password u = Some h \<longrightarrow> hashed X 12 h) \<and>
     (\<forall>h. u_hashedRefreshToken u = Some h \<longrightarrow> hashed X 10 h)"

definition sealed_hook :: "external \<Rightarrow> string option \<Rightarrow> bool" where
  \<comment> \<open>a text of blanks only is stored as it is\<close>
  "sealed_hook X h \<longleftrightarrow> (\<forall>s. h = Some s \<longrightarrow> ciphertext X s \<or> js_trim s = [])"

definition sealed_db :: "external \<Rightarrow> db \<Rightarrow> bool" where
  "sealed_db X d \<longleftrightarrow> (\<forall>u \<in> set (users d). sealed_user X u) \<and>
     (\<forall>e \<in> set (envVars d). ciphertext X (ev_value e)) \<and>
     (\<forall>c \<in> set (systemConfigs d). sealed_hook X (cfg_slackWebhook c))"

definition preserves_sealed :: "external \<Rightarrow> world \<Rightarrow> world \<Rightarrow> bool" where
  "preserves_sealed X w w' \<longleftrightarrow> (sealed_db X (db w) \<longrightarrow> sealed_db X (db w'))"


definition secrets_of :: "db \<Rightarrow> user list \<times> env_var list \<times> system_config list" where
  "secrets_of d = (users d, envVars d, systemConfigs d)"

lemma same_secrets_sealed: "same_db secrets_of w w' \<Longrightarrow> preserves_sealed X w w'"
  by (simp add: same_db_def secrets_of_def preserves_sealed_def sealed_db_def)

lemma keeps_same_secrets: "keeps (same_db secrets_of) m \<Longrightarrow> keeps (preserves_sealed X) m"
  by (rule keepsI) (blast intro: same_secrets_sealed dest: keeps_run)


section \<open>The tables\<close>


lemma secrets_unaffected [simp]:
  "secrets_of (d\<lparr>nextId := n\<rparr>) = secrets_of d" "secrets_of (gitAccounts_update f1 d) = secrets_of d"
  "secrets_of (projects_update f2 d) = secrets_of d" "secrets_of (deployments_update f3 d) = secrets_of d"
  "secrets_of (domains_update f4 d) = secrets_of d" "secrets_of (logEntries_update f5 d) = secrets_of d"
  by (simp_all add: secrets_of_def)

lemmas keeps_other_tables =
  table_same_db [where g = secrets_of and tab = gitAccounts_update, simplified, THEN keeps_same_secrets]
  table_same_db [where g = secrets_of and tab = projects_update, simplified, THEN keeps_same_secrets]
  table_same_db [where g = secrets_of and tab = deployments_update, simplified, THEN keeps_same_secrets]
  table_same_db [where g = secrets_of and tab = domains_update, simplified, THEN keeps_same_secrets]
  table_same_db [where g = secrets_of and tab = logEntries_update, simplified, THEN keeps_same_secrets]









section \<open>What the services put there\<close>

text \<open>A step whose value has a property hands it to the next.\<close>

context step_relation begin

lemma keeps_andThen_val:
  "ensures (\<lambda>_. True) R m (\<lambda>x _. A x) \<Longrightarrow> (\<And>x. A x \<Longrightarrow> keeps R (f x)) \<Longrightarrow> keeps R (andThen m f)"
  by (rule ensures_andThen [where Q = "\<lambda>x _. A x"]) (auto simp: ensures_def)

end


lemma encrypt_ciphertext:
  "ensures (\<lambda>_. True) (preserves_sealed X) (encrypt X p) (\<lambda>c _. ciphertext X c)"
  by (auto simp: ensures_def action_simps preserves_sealed_def)





lemma new_rows_sealed [simp]: "sealed_hook X (cfg_slackWebhook (new_config u))"
  "u_password new_user = None" "u_hashedRefreshToken new_user = None"
  by (simp_all add: sealed_hook_def new_config_def new_user_def)







section \<open>The services that write no secret\<close>

lemma deployment_write_sealed:
  "keeps (preserves_sealed X) (deployment_update i f)" "keeps (preserves_sealed X) (project_update i g)"
  "keeps (preserves_sealed X) (deployment_create r)" "keeps (preserves_sealed X) (project_create p)"
  "keeps (preserves_sealed X) (domain_create m)"
  by (intro keeps_other_tables)+










section \<open>Every reachable database\<close>






end
