(* ===== verification/Sessions.thy ===== *)
theory Sessions
  imports Sealed
begin

text \<open>
  How long a logout lasts. \<open>AuthService.logout\<close> clears the hash of the user's refresh token; only
  the logins of that user (\<open>signIn\<close>, \<open>validateOAuthLogin\<close>, \<open>processGithubCallback\<close>) write a new one,
  and no other operation of the API, in any order, makes a refresh token of that user work again.
\<close>

section \<open>Logins of a user, and the runs without one\<close>



section \<open>The invariant and its step relation\<close>








context step_relation begin

lemma ensures_keeps: "keeps R m \<Longrightarrow> ensures P R m (\<lambda>_ _. True)"
  by (simp add: ensures_def)

lemma ensures_when: "(A \<Longrightarrow> keeps R m) \<Longrightarrow> ensures (\<lambda>_. A) R m (\<lambda>_ _. True)"
  by (simp add: ensures_def)

end

section \<open>The writes of the logins\<close>






section \<open>The logins of other users\<close>














section \<open>All other requests\<close>


















section \<open>A closed example\<close>



end
