(* ===== verification/Spec2Isabelle.thy ===== *)
theory Spec2Isabelle
  imports AnalyticsLaws UtilLaws Pipeline AuthLaws FetchLaws LogViewer
    SettingsPage WizardLaws Health Mail ViewLaws Refresh Bootstrap Contract Hooks Charts
    Landing Sessions
begin

text \<open>
  Code2Cloud deploys Git repositories: a web client (\<open>src/apps/web\<close>, Next.js), an API
  (\<open>src/apps/api\<close>, NestJS on Prisma and Redis), and a build worker in Go that takes jobs from
  Redis and reports back through the API. This development models the TypeScript half - the
  whole API and the state and decisions of the web client - and proves what the parts promise
  to each other.

  How the system fits together. A user signs in (password, Google, GitHub) and gets a JWT access
  token and a rotating refresh token. She links a GitHub installation, creates a project from a
  repository, and the API stores the project with its encrypted variables and a default domain,
  creates a deployment row, and pushes a build job on the Redis list \<open>build_queue\<close>. The worker
  pops the job and reports status, logs and durations to \<open>/internal/*\<close> under a shared key. A
  signed push webhook of GitHub cancels the running deployment of each linked project and queues
  a new one. The client polls deployments and their logs, and edits variables and settings.

  \<^bold>\<open>Conventions.\<close> An \<open>async\<close> method is an action of type \<open>world \<Rightarrow> (error + 'a) \<times> world\<close>
  (\<open>Action\<close>): the world holds the database, Redis, the mails sent, the clock and a source of
  random bytes; every \<open>throw\<close> is an \<open>Inl\<close>, and \<open>await\<close> is \<open>andThen\<close>, so the order of the effects
  is the order of the code. \<open>prisma.$transaction\<close> is \<open>transaction\<close>: the database is restored when
  the body throws, Redis is not. Strings are lists of UTF-8 bytes; a JavaScript number is an
  \<open>int\<close> or \<open>nat\<close> where the code only counts, and an IEEE double with rounding written out where
  it divides (\<open>Numbers\<close>). Times are milliseconds, uuids are what the generator hands out. There is
  no fuel: every loop of the code goes over a list and is a structural recursion, and the
  client's retries are bounded by the code itself. Functions of libraries that are not in the
  repository (AES-256-GCM, HMAC, bcrypt, the JWT library, the GitHub API, class-validator's
  e-mail and URL syntax, the network, collation) are arguments; what the code relies on is a
  named predicate over them (\<open>gcm_ok\<close>, ...), instantiated by concrete functions in \<open>Samples\<close>.

  \<^bold>\<open>Foundations.\<close>
  \<^item> \<open>Prelude\<close>: type synonyms, JavaScript idioms (truthiness, \<open>||\<close>, \<open>find\<close>, object assignment), a
    stable sort, the collections \<open>action_simps\<close> and \<open>ensures_intros\<close>.
  \<^item> \<open>Action\<close>: the monad with its laws, the triples \<open>keeps\<close> and \<open>ensures\<close>, the locale
    \<open>step_relation\<close> (a reflexive and transitive relation between worlds that an operation stays
    in) with one rule per combinator.
  \<^item> \<open>Schema\<close>: \<open>prisma/schema.prisma\<close> as records and datatypes, the Redis state, the world, and
    \<open>db_ok\<close>, the conjunction of the unique, primary and foreign keys.
  \<^item> \<open>Store\<close>: Prisma's operations with their error codes (P2002, P2003, P2025) and cascades. The
    locales \<open>table\<close>, \<open>keyed_table\<close>, \<open>leaf_table\<close> and \<open>insertable_table\<close> state what an operation on
    one table does to the others; they are interpreted once per table of the schema.
  \<^item> \<open>External\<close>, \<open>Samples\<close>, \<open>Frames\<close>: the library parameters, a concrete database and libraries
    for the closed examples, and the frame rules of read-only operations.

  \<^bold>\<open>The API\<close> (one theory per service, \<open>src/apps/api/src/\<close>).
  \<^item> \<open>Encryption\<close>, \<open>Urls\<close>: \<open>common/utils/\<close>. \<open>Queues\<close>: \<open>queues/\<close>, with the queue ends of the worker;
    the locales \<open>job_queue\<close>, \<open>fifo_queue\<close> and \<open>lifo_queue\<close> are interpreted on the cleanup list (first
    in, first out) and on the build list, which RPUSH and BRPOP make a stack.
  \<^item> \<open>Deployments\<close>, \<open>Projects\<close>, \<open>Resources\<close> (domains, variables, settings), \<open>Webhooks\<close>, \<open>Internal\<close> (the
    worker's endpoints), \<open>Auth\<close>, \<open>Git\<close> and \<open>Github\<close>, \<open>Analytics\<close>, \<open>Health\<close>, \<open>Mail\<close>: every method of the
    service of that name on every branch.
  \<^item> \<open>Validation\<close>: the decorators of the DTO classes as data and the global pipe that reads them.
    \<open>Http\<close>: the routes with guards, path and query parsing, body validation, and dispatch.
  \<^item> \<open>Api\<close>: the requests as one datatype, \<open>server_step\<close> and \<open>reachable\<close>: any sequence of requests by
    anybody, any passage of time, Redis up or down. \<open>Answers\<close>: what the reading routes answer.
  \<^item> \<open>Bootstrap\<close>: the classes with their constructor parameters and the errors of their constructors,
    the modules with their imports and exports, and the start of the API (\<open>main.ts\<close>).

  \<^bold>\<open>The web client\<close> (\<open>src/apps/web/\<close>).
  \<^item> \<open>FetchClient\<close>: \<open>lib/token-manager.ts\<close>, \<open>lib/fetch-client.ts\<close>, \<open>hooks/use-user.ts\<close>, the OAuth
    landing page and the route guard \<open>proxy.ts\<close>. One request at a time; the network is a parameter.
  \<^item> \<open>Refresh\<close>: the same requests interleaved at each of their awaits, with the refresh they share
    (\<open>FetchClient.refreshPromise\<close>), as a machine over starts, answers, logins and logouts. A request
    that runs alone is proved to be the one of \<open>FetchClient\<close>.
  \<^item> \<open>LogViewer\<close>: \<open>hooks/use-deployment-logs.ts\<close> as a state machine over polls and drip ticks, with
    the log endpoint of the API at the other end.
  \<^item> \<open>EnvPanel\<close>, \<open>SettingsPage\<close>, \<open>Wizard\<close>, \<open>Dashboard\<close>: the local state and the callbacks of
    \<open>EnvVarsPanel.tsx\<close>, the settings page, \<open>NewProjectDialog.tsx\<close> and the other dashboard components,
    composed with the API's handlers where the property spans both.
  \<^item> \<open>ProjectPages\<close>, \<open>ListPages\<close>, \<open>ControlPages\<close>: what the pages show, as functions from the rows of the
    API and the local state to texts, links, buttons and screens - the project and deployment pages
    with the charts, the lists with their filters, the dashboard and the terminal, the panels,
    dialogs and the side bar. Reading a property of \<open>undefined\<close> while rendering is an \<open>Inl\<close>.
  \<^item> \<open>Hooks\<close>: the session a page sees (\<open>use-user.ts\<close> with the cache of SWR and the logout event), the
    state of the GitHub link and the keys of the directory lists (\<open>use-git.ts\<close>), the hooks of the
    analytics and of the deployments with their keys and polling, the window of \<open>handleConnect\<close>, the
    preview of a site, the layout of the dashboard. \<open>Charts\<close>: the analytics tab, the
    activity chart and the storage tab. \<open>Landing\<close>: the timed parts of \<open>app/page.tsx\<close>.
  \<^item> \<open>Contract\<close>: the interfaces of \<open>types/*.ts\<close> as types of JSON values, and the JSON of the answers.

  \<^bold>\<open>What is proved.\<close>
  \<^item> \<open>Sealed\<close>: in every reachable state the variables and the webhooks lie encrypted in the database,
    passwords and refresh tokens hashed. \<open>Sessions\<close>: after a logout, until that user logs in again,
    no refresh token of hers is accepted, whatever anybody asks of the API in between. Both are
    \<open>step_relation\<close>s that every operation stays in, as is, in this theory, \<open>db_ok\<close>.
  \<^item> \<open>Deployed\<close>: in every reachable state every project has a deployment, by the same
    \<open>step_relation\<close> rules; the pages of a project rely on it.
  \<^item> \<open>Isolation\<close>, \<open>HttpLaws\<close>: no call of one user, or without a token or the worker's key, changes
    what belongs to another user. \<open>Confidential\<close>, \<open>Answers\<close>: nor does what a reading endpoint answers
    depend on anything but the caller's own rows (\<open>confined\<close>, closed under the combinators of the
    monad and proved of every reading service), so the requests of others do not show in it.
  \<^item> \<open>DeploymentLaws\<close>, \<open>ProjectLaws\<close>, \<open>ResourceLaws\<close>, \<open>WebhookLaws\<close>, \<open>InternalLaws\<close>, \<open>AuthLaws\<close>,
    \<open>GithubLaws\<close>, \<open>AnalyticsLaws\<close>, \<open>UtilLaws\<close>: the exact effect of each operation, its refusals
    (which error, and that nothing changed), the round trips through encryption and tokens, and
    equivalence of the loops of the code with reference definitions.
  \<^item> \<open>Pipeline\<close>: the components together. An abstract life cycle of a project's deployments that the
    interleaved operations refine; at most one deployment in flight when operations do not overlap;
    the race when two creations do; cancellation reaching the worker.
  \<^item> \<open>FetchLaws\<close>, \<open>LogViewer\<close>, \<open>PanelLaws\<close>, \<open>SettingsPage\<close>, \<open>WizardLaws\<close>, \<open>PageLaws\<close>: what the
    client sends is what the API accepts, and what comes back is what was sent.
  \<^item> \<open>Refresh\<close>, \<open>Hooks\<close>: at most one refresh under way, each refresh token sent once, everybody who
    waits gets its result; exactly which answers to a check of the session end it.
  \<^item> \<open>Bootstrap\<close>: when the API starts, in terms of the environment, what the libraries accept of it,
    the database and the port. \<open>Contract\<close>: exactly which answers have the type the client declares,
    as TypeScript reads it under \<open>strict\<close> (an optional member may be missing, not null).
  \<^item> \<open>Mail\<close>, \<open>PageLaws\<close>, \<open>ViewLaws\<close>: what the mails and the pages show of the API's data: they never
    crash on it, the buttons offered are the ones the API accepts, filters, badges and marks agree,
    texts are not escaped in mails.
  Some theorems state what a team would call a defect (the race, a queue that starves old jobs, an
  unverified e-mail that takes over an account): they are properties of the code as it is written.

  \<^bold>\<open>Not modelled.\<close> The Go worker beyond its queue operations (its effects on the API's state are
  the requests it sends, all of which are modelled), the proxy and the infrastructure (Terraform,
  Ansible, Kubernetes): other languages. Markup, styling and generated UI primitives of the client
  (\<open>components/ui\<close>, the sections of \<open>app/page.tsx\<close> without state, the not-found pages): they hold no
  state beyond what React and Radix keep. The NestJS container beyond the resolution of
  constructor parameters. SWR's revalidation on focus and its deduplication, and the empty
  queries of the mock store. The size of the pop-up window, scrolling and the drawing of charts:
  effects of the browser. Real concurrency is modelled only where the code
  is sensitive to it (\<open>create_race\<close>, \<open>Refresh\<close>); elsewhere a request is atomic.

  \<^bold>\<open>Simplifications to know of.\<close> A write that would break a unique or foreign key is refused by the
  store with Prisma's error (\<open>write_db\<close>), as PostgreSQL does: \<open>db_ok\<close> is therefore a property of the
  store, and no property below counts it as one of the services. A transaction whose body succeeds
  commits; the timeout of an interactive transaction is left out, so a job pushed inside one is never
  left without its row. Prisma's \<open>Int\<close> columns are unbounded. During a session of \<open>LogViewer\<close> the log
  does not grow. Blanks (of \<open>trim\<close> and in regular expressions) are those of ASCII. A body reaches the client whole or not at
  all. When an answer to a login or a refresh lacks a token, the model stores the empty text where
  js-cookie stores the text undefined.
\<close>

section \<open>The schema is never violated\<close>

text \<open>
  In every state the server can reach from an empty database the constraints of the schema
  hold. That is what the store promises: it refuses the writes that would break them, new ids are
  fresh, and a cascade leaves no dangling key. The properties that assume \<open>db_ok\<close> hold of all reachable states.
\<close>

theorem reachable_db_ok:
  assumes "reachable S w"
  shows "db_ok (db w)"
  using assms
proof (induction rule: reachable.induct)
  case (start r t)
  then show ?case by (simp add: initial_world_def empty_db_ok)
next
  case (step w w')
  then show ?case by (simp add: server_step_ok)
qed

end
